(* ===== verification/Prelude.thy ===== *)
theory Prelude
  imports Complex_Main "HOL-Library.AList" "HOL-Library.Multiset"
begin

text \<open>
  What every theory of the development shares: the exceptions the modelled code raises or
  lets through, the error monad (\<open>exc + 'a\<close>, with \<open>Inl\<close> for a raised exception), Python's
  insertion-ordered dictionary as an association list, and the collections of rewrite
  rules the component theories add to.
\<close>

named_theorems dec_simps \<open>rewrite rules for Decimal arithmetic on exact values\<close>
named_theorems res_simps \<open>rewrite rules for computations that may raise\<close>
named_theorems dict_simps \<open>rewrite rules for insertion-ordered dictionaries\<close>

section \<open>Exceptions and computations that may raise\<close>

text \<open>
  The classes of \<open>src/core/exceptions.py\<close> that the modelled code raises, the built-in and
  \<open>decimal\<close> exceptions it can run into, and \<open>ExternalError\<close> for whatever a call into a
  database, a cache, a network client or a third-party package raises. The text of an
  \<open>OrderError\<close>, \<open>DatabaseError\<close> or \<open>ValueError\<close> is kept as a tag that names the raise
  statement.
\<close>

datatype exc =
    ValueError string
  | AssertionError
  | InvalidOperation
  | DivisionByZero
  | ValidationError string
  | DatabaseError string
  | CacheError string
  | BrokerError string
  | OrderError string
  | InsufficientFundsError
  | KeyError
  | ProviderError string
  | ExternalError string

fun rbind :: "'e + 'a \<Rightarrow> ('a \<Rightarrow> 'e + 'b) \<Rightarrow> 'e + 'b" where
  "rbind (Inl e) f = Inl e"
| "rbind (Inr x) f = f x"

lemma rbind_eq_Inr [res_simps]: "rbind m f = Inr y \<longleftrightarrow> (\<exists>x. m = Inr x \<and> f x = Inr y)"
  by (cases m) auto

lemma rbind_eq_Inl [res_simps]:
  "rbind m f = Inl e \<longleftrightarrow> m = Inl e \<or> (\<exists>x. m = Inr x \<and> f x = Inl e)"
  by (cases m) auto

lemma rbind_Inr_right [simp]: "rbind m Inr = m"
  by (cases m) auto

lemma rbind_cong [fundef_cong]:
  "m = m' \<Longrightarrow> (\<And>x. m' = Inr x \<Longrightarrow> f x = g x) \<Longrightarrow> rbind m f = rbind m' g"
  by (cases m') auto

text \<open>A loop \<open>for x in xs\<close> whose body updates a state and may raise.\<close>

fun rfold :: "('a \<Rightarrow> 's \<Rightarrow> 'e + 's) \<Rightarrow> 'a list \<Rightarrow> 's \<Rightarrow> 'e + 's" where
  "rfold f [] s = Inr s"
| "rfold f (x # xs) s = rbind (f x s) (rfold f xs)"

lemma rfold_invariant:
  assumes "rfold f xs s = Inr s'" and "P s"
    and "\<And>x s s'. x \<in> set xs \<Longrightarrow> P s \<Longrightarrow> f x s = Inr s' \<Longrightarrow> P s'"
  shows "P s'"
  using assms
proof (induction xs arbitrary: s)
  case Nil
  then show ?case by simp
next
  case (Cons x xs)
  from Cons.prems(1) obtain t where "f x s = Inr t" and "rfold f xs t = Inr s'"
    by (auto simp: res_simps)
  with Cons show ?case by (meson list.set_intros)
qed

lemma rfold_append: "rfold f (xs @ ys) s = rbind (rfold f xs s) (rfold f ys)"
proof (induction xs arbitrary: s)
  case Nil
  show ?case by simp
next
  case (Cons x xs)
  show ?case by (cases "f x s") (simp_all add: Cons.IH)
qed

text \<open>The value of a chain of \<open>if x is not None: return x\<close> statements.\<close>

fun first_some :: "'a option list \<Rightarrow> 'a option" where
  "first_some [] = None"
| "first_some (None # xs) = first_some xs"
| "first_some (Some x # xs) = Some x"

lemma first_some_mem: "first_some xs = Some x \<Longrightarrow> Some x \<in> set xs"
  by (induction xs rule: first_some.induct) auto

section \<open>Methods that change their object and may raise\<close>

text \<open>
  A method maps the object's state to its outcome and the state it leaves; what it changed
  before raising stays changed. \<open>and_then\<close> is the sequence of two statements, \<open>for_each\<close> a
  loop whose body is such a statement.
\<close>

type_synonym 's action = "'s \<Rightarrow> (exc + unit) \<times> 's"

definition and_then :: "'s action \<Rightarrow> 's action \<Rightarrow> 's action" where
  "and_then f g s = (case f s of (Inl e, s') \<Rightarrow> (Inl e, s') | (Inr _, s') \<Rightarrow> g s')"

primrec for_each :: "('a \<Rightarrow> 's action) \<Rightarrow> 'a list \<Rightarrow> 's action" where
  "for_each f [] = (\<lambda>s. (Inr (), s))"
| "for_each f (x # xs) = and_then (f x) (for_each f xs)"

definition keeps :: "('s \<Rightarrow> bool) \<Rightarrow> 's action \<Rightarrow> bool" where
  "keeps P f \<longleftrightarrow> (\<forall>s. P s \<longrightarrow> P (snd (f s)))"

lemma keepsI: "(\<And>s. P s \<Longrightarrow> P (snd (f s))) \<Longrightarrow> keeps P f"
  by (simp add: keeps_def)

lemma keepsD: "keeps P f \<Longrightarrow> P s \<Longrightarrow> P (snd (f s))"
  by (simp add: keeps_def)

lemma and_then_keeps: "keeps P f \<Longrightarrow> keeps P g \<Longrightarrow> keeps P (and_then f g)"
  unfolding keeps_def
proof (intro allI impI)
  fix s assume f: "\<forall>s. P s \<longrightarrow> P (snd (f s))" and g: "\<forall>s. P s \<longrightarrow> P (snd (g s))" and s: "P s"
  obtain r s' where fs: "f s = (r, s')" by fastforce
  have "P s'" using f s fs by (metis snd_conv)
  then show "P (snd (and_then f g s))" using g by (cases r) (simp_all add: and_then_def fs)
qed

lemma for_each_keeps: "(\<And>x. x \<in> set xs \<Longrightarrow> keeps P (f x)) \<Longrightarrow> keeps P (for_each f xs)"
proof (induction xs)
  case Nil
  show ?case by (simp add: keeps_def)
next
  case (Cons x xs)
  then show ?case by (simp add: and_then_keeps)
qed

lemma and_then_Inr [res_simps]:
  "and_then f g s = (Inr u, s') \<longleftrightarrow> (\<exists>s1. f s = (Inr (), s1) \<and> g s1 = (Inr u, s'))"
  by (auto simp: and_then_def split: prod.splits sum.splits)

lemma for_each_append: "for_each f (xs @ ys) s = and_then (for_each f xs) (for_each f ys) s"
proof (induction xs arbitrary: s)
  case Nil
  show ?case by (simp add: and_then_def)
next
  case (Cons x xs)
  show ?case by (cases "f x s") (auto simp: and_then_def Cons.IH split: sum.splits)
qed

text \<open>What holds after each statement that did not raise holds at the end of the loop.\<close>

lemma for_each_invariant:
  assumes "for_each f xs s = (Inr (), s')" "P [] s"
    and "\<And>ys x zs s s'. xs = ys @ x # zs \<Longrightarrow> P ys s \<Longrightarrow> f x s = (Inr (), s') \<Longrightarrow> P (ys @ [x]) s'"
  shows "P xs s'"
proof -
  have "P (us @ vs) s'" if "for_each f vs s = (Inr (), s')" "P us s" "xs = us @ vs" for us vs s
    using that
  proof (induction vs arbitrary: us s)
    case (Cons v vs)
    from Cons.prems(1) obtain t where t: "f v s = (Inr (), t)" "for_each f vs t = (Inr (), s')"
      by (auto simp: res_simps)
    with Cons.IH [OF t(2), of "us @ [v]"] assms(3) [of us v vs s t] Cons.prems show ?case by simp
  qed simp
  from this [OF assms(1,2)] show ?thesis by simp
qed

text \<open>
  The same for methods that return a value. \<open>mspec P m Q E\<close> says that from a state with \<open>P\<close> the
  method ends in \<open>Q\<close> of its result, or raises into \<open>E\<close>; \<open>mcatch\<close> is \<open>try ... except\<close>.
\<close>

type_synonym ('s, 'a) meth = "'s \<Rightarrow> (exc + 'a) \<times> 's"

definition mret :: "'a \<Rightarrow> ('s, 'a) meth" where
  "mret x s = (Inr x, s)"

definition mraise :: "exc \<Rightarrow> ('s, 'a) meth" where
  "mraise e s = (Inl e, s)"

definition mbind :: "('s, 'a) meth \<Rightarrow> ('a \<Rightarrow> ('s, 'b) meth) \<Rightarrow> ('s, 'b) meth" where
  "mbind m f s = (case m s of (Inl e, s') \<Rightarrow> (Inl e, s') | (Inr x, s') \<Rightarrow> f x s')"

definition mcatch :: "('s, 'a) meth \<Rightarrow> (exc \<Rightarrow> ('s, 'a) meth) \<Rightarrow> ('s, 'a) meth" where
  "mcatch m h s = (case m s of (Inl e, s') \<Rightarrow> h e s' | (Inr x, s') \<Rightarrow> (Inr x, s'))"

definition mget :: "('s \<Rightarrow> 'a) \<Rightarrow> ('s, 'a) meth" where
  "mget f s = (Inr (f s), s)"

definition mlift :: "('s \<Rightarrow> exc + 'a) \<Rightarrow> ('s, 'a) meth" where
  "mlift f s = (f s, s)"

definition mspec :: "('s \<Rightarrow> bool) \<Rightarrow> ('s, 'a) meth \<Rightarrow> ('a \<Rightarrow> 's \<Rightarrow> bool) \<Rightarrow> (exc \<Rightarrow> 's \<Rightarrow> bool) \<Rightarrow> bool" where
  "mspec P m Q E \<longleftrightarrow> (\<forall>s. P s \<longrightarrow> (case m s of (Inr x, s') \<Rightarrow> Q x s' | (Inl e, s') \<Rightarrow> E e s'))"

lemma mspecI: "(\<And>s x s'. P s \<Longrightarrow> m s = (Inr x, s') \<Longrightarrow> Q x s') \<Longrightarrow> (\<And>s e s'. P s \<Longrightarrow> m s = (Inl e, s') \<Longrightarrow> E e s')
    \<Longrightarrow> mspec P m Q E"
  by (auto simp: mspec_def split: prod.split sum.split)

lemma mspecD: "mspec P m Q E \<Longrightarrow> P s \<Longrightarrow> m s = (Inr x, s') \<Longrightarrow> Q x s'"
  and mspecD_exc: "mspec P m Q E \<Longrightarrow> P s \<Longrightarrow> m s = (Inl e, s') \<Longrightarrow> E e s'"
  by (auto simp: mspec_def)

lemma mspec_bind:
  assumes "mspec P m R E" "\<And>x. mspec (R x) (f x) Q E" shows "mspec P (mbind m f) Q E"
  unfolding mspec_def
proof (intro allI impI)
  fix s assume s: "P s"
  obtain r s' where m: "m s = (r, s')" by fastforce
  show "case mbind m f s of (Inr x, s') \<Rightarrow> Q x s' | (Inl e, s') \<Rightarrow> E e s'"
  proof (cases r)
    case (Inl e)
    then show ?thesis using mspecD_exc [OF assms(1) s] m by (simp add: mbind_def)
  next
    case (Inr x)
    then have "R x s'" using mspecD [OF assms(1) s] m by simp
    with assms(2) [of x] show ?thesis by (simp add: mbind_def m Inr mspec_def)
  qed
qed

lemma mspec_catch:
  assumes "mspec P m Q R" "\<And>e. mspec (R e) (h e) Q E" shows "mspec P (mcatch m h) Q E"
  unfolding mspec_def
proof (intro allI impI)
  fix s assume s: "P s"
  obtain r s' where m: "m s = (r, s')" by fastforce
  show "case mcatch m h s of (Inr x, s') \<Rightarrow> Q x s' | (Inl e, s') \<Rightarrow> E e s'"
  proof (cases r)
    case (Inl e)
    then have "R e s'" using mspecD_exc [OF assms(1) s] m by simp
    with assms(2) [of e] show ?thesis by (simp add: mcatch_def m Inl mspec_def)
  next
    case (Inr x)
    then show ?thesis using mspecD [OF assms(1) s] m by (simp add: mcatch_def)
  qed
qed

lemma mspec_ret: "(\<And>s. P s \<Longrightarrow> Q x s) \<Longrightarrow> mspec P (mret x) Q E"
  and mspec_raise: "(\<And>s. P s \<Longrightarrow> E e s) \<Longrightarrow> mspec P (mraise e) Q E"
  and mspec_get: "(\<And>s. P s \<Longrightarrow> Q (f s) s) \<Longrightarrow> mspec P (mget f) Q E"
  by (simp_all add: mspec_def mret_def mraise_def mget_def)

lemma mspec_lift:
  "(\<And>s x. P s \<Longrightarrow> g s = Inr x \<Longrightarrow> Q x s) \<Longrightarrow> (\<And>s e. P s \<Longrightarrow> g s = Inl e \<Longrightarrow> E e s) \<Longrightarrow> mspec P (mlift g) Q E"
  by (auto simp: mspec_def mlift_def split: sum.split)

lemma mspec_conseq:
  "mspec P' m Q' E' \<Longrightarrow> (\<And>s. P s \<Longrightarrow> P' s) \<Longrightarrow> (\<And>x s. Q' x s \<Longrightarrow> Q x s) \<Longrightarrow> (\<And>e s. E' e s \<Longrightarrow> E e s)
    \<Longrightarrow> mspec P m Q E"
  by (rule mspecI) (blast dest: mspecD mspecD_exc)+

lemma mspec_if: "(b \<Longrightarrow> mspec P m Q E) \<Longrightarrow> (\<not> b \<Longrightarrow> mspec P n Q E) \<Longrightarrow> mspec P (if b then m else n) Q E"
  by simp

text \<open>Running a method and keeping its outcome as a value; \<open>stays f m\<close>: \<open>m\<close> leaves \<open>f\<close> of the state as it is.\<close>

definition mattempt :: "('s, 'a) meth \<Rightarrow> ('s, exc + 'a) meth" where
  "mattempt m s = (case m s of (r, s') \<Rightarrow> (Inr r, s'))"

definition stays :: "('s \<Rightarrow> 'b) \<Rightarrow> ('s, 'a) meth \<Rightarrow> bool" where
  "stays f m \<longleftrightarrow> (\<forall>s. f (snd (m s)) = f s)"

lemmas meth_defs = mret_def mraise_def mbind_def mcatch_def mget_def mlift_def mattempt_def

lemma mbind_Inr [res_simps]:
  "mbind m f s = (Inr y, s') \<longleftrightarrow> (\<exists>x s1. m s = (Inr x, s1) \<and> f x s1 = (Inr y, s'))"
  by (auto simp: mbind_def split: prod.splits sum.splits)

lemma mret_Inr [res_simps]: "mret x s = (r, s') \<longleftrightarrow> r = Inr x \<and> s' = s"
  by (auto simp: mret_def)

named_theorems stays_intros \<open>methods that leave a part of the state alone\<close>

lemma staysI: "(\<And>s r s'. m s = (r, s') \<Longrightarrow> f s' = f s) \<Longrightarrow> stays f m"
  by (metis stays_def prod.collapse)

lemma staysD: "stays f m \<Longrightarrow> m s = (r, s') \<Longrightarrow> f s' = f s"
  by (metis stays_def snd_conv)

lemma stays_leaf [stays_intros]:
  "stays f (mret x)" "stays f (mraise e)" "stays f (mget g)" "stays f (mlift h)"
  by (simp_all add: stays_def meth_defs)

lemma stays_bind [stays_intros]:
  assumes "stays f m" "\<And>x. stays f (g x)" shows "stays f (mbind m g)"
proof (rule staysI)
  fix s r s' assume b: "mbind m g s = (r, s')"
  obtain q s1 where m: "m s = (q, s1)" by fastforce
  from b show "f s' = f s" using staysD [OF assms(1) m] staysD [OF assms(2)]
    by (cases q) (auto simp: mbind_def m)
qed

lemma stays_catch [stays_intros]:
  assumes "stays f m" "\<And>e. stays f (h e)" shows "stays f (mcatch m h)"
proof (rule staysI)
  fix s r s' assume b: "mcatch m h s = (r, s')"
  obtain q s1 where m: "m s = (q, s1)" by fastforce
  from b show "f s' = f s" using staysD [OF assms(1) m] staysD [OF assms(2)]
    by (cases q) (auto simp: mcatch_def m)
qed

lemma stays_attempt [stays_intros]: "stays f m \<Longrightarrow> stays f (mattempt m)"
  by (simp add: stays_def mattempt_def split_beta)

lemma stays_if [stays_intros]: "(b \<Longrightarrow> stays f m) \<Longrightarrow> (\<not> b \<Longrightarrow> stays f n) \<Longrightarrow> stays f (if b then m else n)"
  by simp

lemma stays_option [stays_intros]:
  "(x = None \<Longrightarrow> stays f m) \<Longrightarrow> (\<And>y. x = Some y \<Longrightarrow> stays f (n y)) \<Longrightarrow> stays f (case x of None \<Rightarrow> m | Some y \<Rightarrow> n y)"
  by (cases x) simp_all

lemma mspec_stays: "stays f m \<Longrightarrow> mspec (\<lambda>s. f s = b) m (\<lambda>_ s. f s = b) (\<lambda>_ s. f s = b)"
  by (rule mspecI) (auto dest: staysD)

lemma mbind_cases:
  assumes "mbind m f s = (r, s')"
  obtains (raised) e where "m s = (Inl e, s')" "r = Inl e"
  | (returned) x s1 where "m s = (Inr x, s1)" "f x s1 = (r, s')"
proof (cases "m s")
  case (Pair q s1)
  with assms that show ?thesis by (cases q) (auto simp: mbind_def)
qed

text \<open>\<open>yields P m\<close>: what \<open>m\<close> returns, when it returns, satisfies \<open>P\<close>.\<close>

definition yields :: "('a \<Rightarrow> bool) \<Rightarrow> ('s, 'a) meth \<Rightarrow> bool" where
  "yields P m \<longleftrightarrow> (\<forall>s x s'. m s = (Inr x, s') \<longrightarrow> P x)"

lemma yieldsD: "yields P m \<Longrightarrow> m s = (Inr x, s') \<Longrightarrow> P x"
  unfolding yields_def by blast

named_theorems yields_intros \<open>what the results of methods satisfy\<close>

lemma yields_leaf [yields_intros]: "P x \<Longrightarrow> yields P (mret x)" "yields P (mraise e)"
  by (simp_all add: yields_def mret_def mraise_def)

lemma yields_bind [yields_intros]: "(\<And>x. yields P (f x)) \<Longrightarrow> yields P (mbind m f)"
  by (auto simp: yields_def mbind_Inr)

lemma yields_catch [yields_intros]: "yields P m \<Longrightarrow> (\<And>e. yields P (h e)) \<Longrightarrow> yields P (mcatch m h)"
  by (auto simp: yields_def mcatch_def split: prod.splits sum.splits)

lemma yields_if [yields_intros]: "(b \<Longrightarrow> yields P m) \<Longrightarrow> (\<not> b \<Longrightarrow> yields P n) \<Longrightarrow> yields P (if b then m else n)"
  by simp

text \<open>\<open>preserves P m\<close>: from a state with \<open>P\<close> the method ends in one with \<open>P\<close>, returning or raising.\<close>

definition preserves :: "('s \<Rightarrow> bool) \<Rightarrow> ('s, 'a) meth \<Rightarrow> bool" where
  "preserves P m \<longleftrightarrow> (\<forall>s. P s \<longrightarrow> P (snd (m s)))"

named_theorems preserves_intros \<open>methods that keep an invariant\<close>

lemma preservesI: "(\<And>s r s'. P s \<Longrightarrow> m s = (r, s') \<Longrightarrow> P s') \<Longrightarrow> preserves P m"
  unfolding preserves_def by (metis prod.collapse)

lemma preservesD: "preserves P m \<Longrightarrow> P s \<Longrightarrow> m s = (r, s') \<Longrightarrow> P s'"
  unfolding preserves_def by (metis snd_conv)

lemma preserves_snd: "preserves P m \<Longrightarrow> P s \<Longrightarrow> P (snd (m s))"
  by (simp add: preserves_def)

lemma preserves_stays: "stays f m \<Longrightarrow> preserves (\<lambda>s. Q (f s)) m"
  by (simp add: stays_def preserves_def)

lemma preserves_leaf [preserves_intros]: "preserves P (mret x)" "preserves P (mraise e)" "preserves P (mget g)" "preserves P (mlift h)"
  by (simp_all add: preserves_def meth_defs)

lemma preserves_bind [preserves_intros]:
  assumes "preserves P m" "\<And>x. preserves P (g x)" shows "preserves P (mbind m g)"
proof (rule preservesI)
  fix s r s' assume "P s" "mbind m g s = (r, s')"
  from this(2) show "P s'" using preservesD [OF assms(1) \<open>P s\<close>] preservesD [OF assms(2)] by (cases rule: mbind_cases) blast+
qed

lemma preserves_catch [preserves_intros]:
  assumes "preserves P m" "\<And>e. preserves P (h e)" shows "preserves P (mcatch m h)"
proof (rule preservesI)
  fix s r s' assume s: "P s" and b: "mcatch m h s = (r, s')"
  obtain q s1 where m: "m s = (q, s1)" by fastforce
  from b show "P s'" using preservesD [OF assms(1) s m] preservesD [OF assms(2)]
    by (cases q) (auto simp: mcatch_def m)
qed

lemma preserves_attempt [preserves_intros]: "preserves P m \<Longrightarrow> preserves P (mattempt m)"
  by (simp add: preserves_def mattempt_def split_beta)

lemma preserves_if [preserves_intros]: "(b \<Longrightarrow> preserves P m) \<Longrightarrow> (\<not> b \<Longrightarrow> preserves P n) \<Longrightarrow> preserves P (if b then m else n)"
  by simp

lemma preserves_option [preserves_intros]:
  "(x = None \<Longrightarrow> preserves P m) \<Longrightarrow> (\<And>y. x = Some y \<Longrightarrow> preserves P (n y)) \<Longrightarrow> preserves P (case x of None \<Rightarrow> m | Some y \<Rightarrow> n y)"
  by (cases x) simp_all

section \<open>Dictionaries\<close>

text \<open>
  A Python \<open>dict\<close> iterates in insertion order: assigning to a key that is there keeps its
  place, a new key goes to the end, \<open>del\<close> and \<open>pop\<close> remove it. As an association list with
  distinct keys, \<open>map_of\<close> looks up, \<open>AList.update\<close> assigns and \<open>AList.delete\<close> removes.
\<close>

type_synonym ('k, 'v) dict = "('k \<times> 'v) list"

abbreviation dict_get :: "('k, 'v) dict \<Rightarrow> 'k \<Rightarrow> 'v option" where
  "dict_get \<equiv> map_of"

abbreviation dict_set :: "'k \<Rightarrow> 'v \<Rightarrow> ('k, 'v) dict \<Rightarrow> ('k, 'v) dict" where
  "dict_set \<equiv> AList.update"

abbreviation dict_del :: "'k \<Rightarrow> ('k, 'v) dict \<Rightarrow> ('k, 'v) dict" where
  "dict_del \<equiv> AList.delete"

definition dict_keys :: "('k, 'v) dict \<Rightarrow> 'k list" where
  "dict_keys d = map fst d"

definition dict_values :: "('k, 'v) dict \<Rightarrow> 'v list" where
  "dict_values d = map snd d"

definition dict_ok :: "('k, 'v) dict \<Rightarrow> bool" where
  "dict_ok d = distinct (dict_keys d)"

lemma dict_get_set [dict_simps]: "dict_get (dict_set k v d) = (dict_get d)(k \<mapsto> v)"
  by (rule update_conv')

lemma dict_get_del [dict_simps]: "dict_get (dict_del k d) = (dict_get d)(k := None)"
  by (rule delete_conv')

lemma dict_get_map_values: "dict_get (map (\<lambda>(k, v). (k, g v)) d) x = map_option g (dict_get d x)"
  by (induction d) auto

lemma dict_ok_Nil [simp]: "dict_ok []"
  by (simp add: dict_ok_def dict_keys_def)

lemma dict_ok_set [simp]: "dict_ok d \<Longrightarrow> dict_ok (dict_set k v d)"
  by (simp add: dict_ok_def dict_keys_def distinct_update)

lemma dict_ok_del [simp]: "dict_ok d \<Longrightarrow> dict_ok (dict_del k d)"
  by (simp add: dict_ok_def dict_keys_def distinct_delete)

lemma dict_keys_set [dict_simps]: "set (dict_keys (dict_set k v d)) = insert k (set (dict_keys d))"
  by (simp add: dict_keys_def dom_update)

lemma dict_keys_del [dict_simps]: "set (dict_keys (dict_del k d)) = set (dict_keys d) - {k}"
  by (simp add: dict_keys_def set_map [symmetric] delete_keys del: set_map)

lemma dict_get_dom: "(dict_get d k = None) \<longleftrightarrow> k \<notin> set (dict_keys d)"
  by (simp add: dict_keys_def map_of_eq_None_iff)

lemma dict_get_SomeD: "dict_get d k = Some v \<Longrightarrow> k \<in> set (dict_keys d) \<and> v \<in> set (dict_values d)"
  by (auto simp: dict_keys_def dict_values_def dest!: map_of_SomeD intro: rev_image_eqI)

lemma dict_values_get: "dict_ok d \<Longrightarrow> v \<in> set (dict_values d) \<longleftrightarrow> (\<exists>k. dict_get d k = Some v)"
  by (auto simp: dict_ok_def dict_keys_def dict_values_def map_of_eq_Some_iff image_iff intro: bexI [rotated])

end
