(* ===== verification/Decimal28.thy ===== *)
theory Decimal28
  imports Prelude
begin

text \<open>
  Python's \<open>decimal.Decimal\<close> in the default context, which is the one the program uses: 28
  significant digits, rounding half to even. A finite Decimal is its value, a rational;
  every arithmetic operation is the exact one followed by \<open>fix28\<close>, the rounding to the
  context, as the General Decimal Arithmetic specification defines them. Comparisons,
  \<open>min\<close>, \<open>max\<close>, \<open>int()\<close> and \<open>Decimal(int)\<close> do not round. \<open>quantize\<close> rounds half up to a
  fixed number of places and raises InvalidOperation when the result needs more than 28
  digits. NaN, the infinities, signed zeros, trailing zeros and the exponent limits
  (999999) are not represented: prices, quantities and percentages never come near them.
\<close>

type_synonym dec = rat

section \<open>Number of digits and decimal exponent\<close>

fun ndig :: "nat \<Rightarrow> nat" where
  "ndig n = (if n < 10 then 1 else Suc (ndig (n div 10)))"

declare ndig.simps [simp del]

lemma ndig_pos: "0 < ndig n"
  by (subst ndig.simps) simp

lemma ndig_upper: "n < 10 ^ ndig n"
proof (induction n rule: ndig.induct)
  case (1 n)
  show ?case
  proof (cases "n < 10")
    case True
    then show ?thesis by (subst ndig.simps) simp
  next
    case False
    with 1 have "n div 10 < 10 ^ ndig (n div 10)" by simp
    then have "n < 10 * 10 ^ ndig (n div 10)" by (simp add: div_less_iff_less_mult mult.commute)
    with False show ?thesis by (subst ndig.simps) simp
  qed
qed

lemma ndig_lower: "0 < n \<Longrightarrow> 10 ^ (ndig n - 1) \<le> n"
proof (induction n rule: ndig.induct)
  case (1 n)
  show ?case
  proof (cases "n < 10")
    case True
    with "1.prems" show ?thesis by (subst ndig.simps) simp
  next
    case False
    then have "10 ^ (ndig (n div 10) - 1) \<le> n div 10" using "1.IH" by simp
    then have "10 * 10 ^ (ndig (n div 10) - 1) \<le> n" by (simp add: less_eq_div_iff_mult_less_eq)
    moreover have "10 * 10 ^ (ndig (n div 10) - 1) = (10::nat) ^ ndig (n div 10)"
      using ndig_pos [of "n div 10"] by (simp flip: power_Suc)
    ultimately show ?thesis using False by (subst ndig.simps) simp
  qed
qed

text \<open>The adjusted exponent \<open>e\<close> of a nonzero value: \<open>10 ^ e \<le> \<bar>x\<bar> < 10 ^ (e + 1)\<close>.\<close>

definition dexp :: "dec \<Rightarrow> int" where
  "dexp x = (let y = \<bar>x\<bar> in
     if 1 \<le> y then int (ndig (nat \<lfloor>y\<rfloor>)) - 1 else - int (ndig (nat (\<lceil>1 / y\<rceil> - 1))))"

lemma powi10_pos [simp]: "0 < (10::rat) powi k"
  by (simp add: zero_less_power_int)

lemma powi10_nonneg [simp]: "0 \<le> (10::rat) powi k"
  by (simp add: less_imp_le)

lemma powi10_nz [simp]: "(10::rat) powi k \<noteq> 0"
  by (simp add: power_int_eq_0_iff)

lemma powi10_add: "(10::rat) powi (j + k) = 10 powi j * 10 powi k"
  by (simp add: power_int_add)

lemma powi10_diff: "(10::rat) powi (j - k) = 10 powi j / 10 powi k"
  by (simp add: power_int_diff)

lemma powi10_mono: "j \<le> k \<Longrightarrow> (10::rat) powi j \<le> 10 powi k"
  by (rule power_int_increasing) simp_all

lemma powi10_less: "(10::rat) powi j < 10 powi k \<longleftrightarrow> j < k"
proof
  assume "(10::rat) powi j < 10 powi k"
  then show "j < k" using powi10_mono [of k j] by (meson not_le)
qed (simp add: power_int_strict_increasing)

lemma dexp_ge1:
  assumes "1 \<le> x" shows "10 powi dexp x \<le> x \<and> x < 10 powi (dexp x + 1)"
proof -
  define n where "n = nat \<lfloor>x\<rfloor>"
  have e: "dexp x = int (ndig n - 1)"
    using assms ndig_pos [of n] by (simp add: dexp_def n_def of_nat_diff)
  have npos: "0 < n" using assms by (simp add: n_def)
  have n: "of_nat n \<le> x" "x < of_nat n + 1"
    using assms floor_correct [of x] by (simp_all add: n_def)
  have "(10::rat) ^ (ndig n - 1) \<le> of_nat n"
    using of_nat_mono [OF ndig_lower [OF npos], where 'a = rat] by simp
  then have "10 ^ (ndig n - 1) \<le> x" using n(1) by linarith
  then have lo: "10 powi dexp x \<le> x" by (simp add: e power_int_of_nat)
  have "of_nat n + 1 \<le> (10::rat) ^ ndig n"
    using of_nat_mono [OF Suc_leI [OF ndig_upper [of n]], where 'a = rat] by simp
  then have "x < 10 ^ ndig n" using n(2) by simp
  moreover have "dexp x + 1 = int (ndig n)" using e ndig_pos [of n] by simp
  ultimately show ?thesis using lo by (simp add: power_int_of_nat)
qed

lemma dexp_lt1:
  assumes "0 < x" "x < 1" shows "10 powi dexp x \<le> x \<and> x < 10 powi (dexp x + 1)"
proof -
  define n where "n = nat (\<lceil>1 / x\<rceil> - 1)"
  have y: "1 < 1 / x" using assms by simp
  then have "1 < \<lceil>1 / x\<rceil>" by (simp add: less_ceiling_iff)
  then have npos: "0 < n" and "int n = \<lceil>1 / x\<rceil> - 1"
    unfolding n_def by linarith+
  then have nr: "of_nat n = (of_int (\<lceil>1 / x\<rceil> - 1) :: rat)"
    by (metis of_int_of_nat_eq)
  have n: "of_nat n < 1 / x" "1 / x \<le> of_nat n + 1"
    using nr ceiling_correct [of "1 / x"] by simp_all
  have e: "dexp x = - int (ndig n)" using assms by (simp add: dexp_def n_def)
  have "of_nat n + 1 \<le> (10::rat) ^ ndig n"
    using of_nat_mono [OF Suc_leI [OF ndig_upper [of n]], where 'a = rat] by simp
  then have "1 / x \<le> 10 ^ ndig n" using n(2) by simp
  then have lo: "1 / 10 ^ ndig n \<le> x" using assms(1) by (simp add: field_simps)
  have "(10::rat) ^ (ndig n - 1) \<le> of_nat n"
    using of_nat_mono [OF ndig_lower [OF npos], where 'a = rat] by simp
  then have "10 ^ (ndig n - 1) < 1 / x" using n(1) by linarith
  then have "x < 1 / 10 ^ (ndig n - 1)" using assms(1) by (simp add: field_simps)
  moreover have e1: "dexp x + 1 = - int (ndig n - 1)"
    using e ndig_pos [of n] by (simp add: of_nat_diff)
  ultimately show ?thesis
    using lo unfolding e1 unfolding e power_int_minus_divide power_int_of_nat by simp
qed

lemma dexp_bounds: "x \<noteq> 0 \<Longrightarrow> 10 powi dexp x \<le> \<bar>x\<bar> \<and> \<bar>x\<bar> < 10 powi (dexp x + 1)"
proof -
  assume "x \<noteq> 0"
  moreover have "dexp x = dexp \<bar>x\<bar>" by (simp add: dexp_def)
  ultimately show ?thesis
    by (cases "1 \<le> \<bar>x\<bar>") (auto simp: dexp_ge1 dexp_lt1)
qed

lemma dexp_unique:
  assumes "10 powi k \<le> \<bar>x\<bar>" "\<bar>x\<bar> < 10 powi (k + 1)" shows "dexp x = k"
proof -
  have "x \<noteq> 0" using assms(1) powi10_pos [of k] by (metis abs_zero not_le)
  note b = dexp_bounds [OF this]
  have "k < dexp x + 1" and "dexp x < k + 1"
    using assms b by (meson powi10_less order.strict_trans1)+
  then show ?thesis by simp
qed

lemma dexp_minus [simp]: "dexp (- x) = dexp x"
  by (simp add: dexp_def)

lemma dexp_mono: "0 < x \<Longrightarrow> x \<le> y \<Longrightarrow> dexp x \<le> dexp y"
  using dexp_bounds [of x] dexp_bounds [of y] powi10_less [of "dexp x" "dexp y + 1"]
  by auto

section \<open>Rounding to an integer\<close>

definition round_half_even :: "rat \<Rightarrow> int" where
  "round_half_even x = (let f = \<lfloor>x\<rfloor>; r = x - of_int f in
     if r < 1 / 2 then f else if r > 1 / 2 then f + 1 else if even f then f else f + 1)"

definition round_half_up :: "rat \<Rightarrow> int" where
  "round_half_up x = (if x < 0 then - \<lfloor>1 / 2 - x\<rfloor> else \<lfloor>x + 1 / 2\<rfloor>)"

lemma round_half_even_error: "\<bar>of_int (round_half_even x) - x\<bar> \<le> 1 / 2"
proof -
  define f where "f = \<lfloor>x\<rfloor>"
  have "of_int f \<le> x" "x < of_int f + 1" using floor_correct [of x] by (simp_all add: f_def)
  then show ?thesis by (auto simp: round_half_even_def Let_def f_def [symmetric])
qed

lemma round_half_even_of_int [simp]: "round_half_even (of_int z) = z"
  by (simp add: round_half_even_def)

lemma round_half_even_mono: "x \<le> y \<Longrightarrow> round_half_even x \<le> round_half_even y"
proof -
  assume le: "x \<le> y"
  then have "\<lfloor>x\<rfloor> \<le> \<lfloor>y\<rfloor>" by (rule floor_mono)
  then consider "\<lfloor>x\<rfloor> = \<lfloor>y\<rfloor>" | "\<lfloor>x\<rfloor> + 1 \<le> \<lfloor>y\<rfloor>" by linarith
  then show ?thesis
  proof cases
    case 1
    with le show ?thesis by (auto simp: round_half_even_def Let_def)
  next
    case 2
    have "round_half_even x \<le> \<lfloor>x\<rfloor> + 1" "\<lfloor>y\<rfloor> \<le> round_half_even y"
      by (auto simp: round_half_even_def Let_def)
    with 2 show ?thesis by linarith
  qed
qed

lemma round_half_even_minus: "round_half_even (- x) = - round_half_even x"
proof (cases "x = of_int \<lfloor>x\<rfloor>")
  case True
  then show ?thesis by (metis of_int_minus round_half_even_of_int)
next
  case False
  have "of_int \<lfloor>x\<rfloor> < x" using False of_int_floor_le [of x] by linarith
  then have "\<lfloor>- x\<rfloor> = - \<lfloor>x\<rfloor> - 1"
    using floor_correct [of x] by (intro floor_unique) simp_all
  then show ?thesis
    by (simp add: round_half_even_def Let_def)
qed

lemma round_half_up_error: "\<bar>of_int (round_half_up x) - x\<bar> \<le> 1 / 2"
proof -
  define f g where "f = \<lfloor>1 / 2 - x\<rfloor>" and "g = \<lfloor>x + 1 / 2\<rfloor>"
  have "of_int f \<le> 1 / 2 - x" "1 / 2 - x < of_int f + 1" "of_int g \<le> x + 1 / 2" "x + 1 / 2 < of_int g + 1"
    using floor_correct [of "1 / 2 - x"] floor_correct [of "x + 1 / 2"] by (simp_all add: f_def g_def)
  then show ?thesis
    by (auto simp: round_half_up_def f_def [symmetric] g_def [symmetric] abs_if)
qed

lemma round_half_up_of_int [simp]: "round_half_up (of_int z) = z"
proof -
  have "\<lfloor>1 / 2 - of_int z :: rat\<rfloor> = - z" "\<lfloor>of_int z + 1 / 2 :: rat\<rfloor> = z"
    by (rule floor_unique; simp)+
  then show ?thesis by (simp add: round_half_up_def)
qed

lemma round_half_up_mono: "x \<le> y \<Longrightarrow> round_half_up x \<le> round_half_up y"
proof -
  assume le: "x \<le> y"
  have cross: "- \<lfloor>1 / 2 - x\<rfloor> \<le> \<lfloor>y + 1 / 2\<rfloor>" if "x < 0" "\<not> y < 0"
  proof -
    from that have "0 \<le> \<lfloor>1 / 2 - x\<rfloor>" "0 \<le> \<lfloor>y + 1 / 2\<rfloor>"
      unfolding zero_le_floor by simp_all
    then show ?thesis by linarith
  qed
  from le have "\<lfloor>1 / 2 - y\<rfloor> \<le> \<lfloor>1 / 2 - x\<rfloor>" "\<lfloor>x + 1 / 2\<rfloor> \<le> \<lfloor>y + 1 / 2\<rfloor>"
    by (simp_all add: floor_mono)
  with cross le show ?thesis by (cases "x < 0"; cases "y < 0") (simp_all add: round_half_up_def)
qed

section \<open>Rounding to the context\<close>

definition fix28 :: "rat \<Rightarrow> dec" where
  "fix28 x = (if x = 0 then 0
     else let q = 10 powi (dexp x - 27) in of_int (round_half_even (x / q)) * q)"

text \<open>A value the context can hold: rounding leaves it alone.\<close>

definition is_dec :: "rat \<Rightarrow> bool" where
  "is_dec x \<longleftrightarrow> fix28 x = x"

lemma fix28_0 [simp]: "fix28 0 = 0"
  by (simp add: fix28_def)

lemma fix28_minus: "fix28 (- x) = - fix28 x"
  by (simp add: fix28_def Let_def round_half_even_minus)

text \<open>The scaled value of a nonzero number lies between \<open>10 ^ 27\<close> and \<open>10 ^ 28\<close>.\<close>

lemma scaled_bounds:
  assumes "0 < x"
  shows "10 ^ 27 \<le> x / 10 powi (dexp x - 27) \<and> x / 10 powi (dexp x - 27) < 10 ^ 28"
proof -
  have b: "10 powi dexp x \<le> x" "x < 10 powi (dexp x + 1)"
    using dexp_bounds [of x] assms by auto
  have "10 powi dexp x / 10 powi (dexp x - 27) = (10::rat) powi 27"
    by (simp flip: powi10_diff)
  moreover have "10 powi (dexp x + 1) / 10 powi (dexp x - 27) = (10::rat) powi 28"
    by (simp flip: powi10_diff)
  ultimately show ?thesis
    using divide_right_mono [OF b(1), of "10 powi (dexp x - 27)"]
      divide_strict_right_mono [OF b(2), of "10 powi (dexp x - 27)"] by simp
qed

lemma round_half_even_between:
  assumes "of_int a \<le> x" "x \<le> of_int b" shows "a \<le> round_half_even x \<and> round_half_even x \<le> b"
  using round_half_even_mono [OF assms(1)] round_half_even_mono [OF assms(2)] by simp

lemma fix28_binade:
  assumes "0 < x" shows "10 powi dexp x \<le> fix28 x \<and> fix28 x \<le> 10 powi (dexp x + 1)"
proof -
  define q where "q = (10::rat) powi (dexp x - 27)"
  have q: "0 < q" by (simp add: q_def)
  have "of_int (10 ^ 27) \<le> x / q" "x / q \<le> of_int (10 ^ 28)"
    using scaled_bounds [OF assms] by (simp_all add: q_def)
  note r = round_half_even_between [OF this]
  have "of_int (10 ^ 27) * q \<le> of_int (round_half_even (x / q)) * q"
    and "of_int (round_half_even (x / q)) * q \<le> of_int (10 ^ 28) * q"
    using r q by (simp_all only: mult_le_cancel_right_pos of_int_le_iff)
  moreover have "of_int (10 ^ 27) * q = 10 powi dexp x" "of_int (10 ^ 28) * q = 10 powi (dexp x + 1)"
    by (simp_all add: q_def powi10_diff powi10_add)
  moreover have "fix28 x = of_int (round_half_even (x / q)) * q"
    using assms by (simp add: fix28_def q_def Let_def)
  ultimately show ?thesis by simp
qed

lemma fix28_pos: "0 < x \<Longrightarrow> 0 < fix28 x"
  using fix28_binade [of x] powi10_pos [of "dexp x"] by linarith

lemma fix28_nonneg: "0 \<le> x \<Longrightarrow> 0 \<le> fix28 x"
  using fix28_pos [of x] by (cases "x = 0") auto

lemma fix28_mono_pos:
  assumes "0 < x" "x \<le> y" shows "fix28 x \<le> fix28 y"
proof (cases "dexp x = dexp y")
  case True
  define q where "q = (10::rat) powi (dexp y - 27)"
  have "0 < q" by (simp add: q_def)
  then have "round_half_even (x / q) \<le> round_half_even (y / q)"
    using assms by (intro round_half_even_mono divide_right_mono) simp_all
  then show ?thesis
    using assms True \<open>0 < q\<close> by (simp add: fix28_def q_def [symmetric])
next
  case False
  with dexp_mono [OF assms] have "dexp x + 1 \<le> dexp y" by simp
  then have "(10::rat) powi (dexp x + 1) \<le> 10 powi dexp y" by (rule powi10_mono)
  with fix28_binade [of x] fix28_binade [of y] assms show ?thesis by linarith
qed

lemma fix28_mono: "x \<le> y \<Longrightarrow> fix28 x \<le> fix28 y"
proof -
  assume le: "x \<le> y"
  consider "0 < x" | "x \<le> 0" "0 \<le> y" | "y < 0" by linarith
  then show ?thesis
  proof cases
    case 1
    then show ?thesis using le by (rule fix28_mono_pos)
  next
    case 2
    then show ?thesis
      using fix28_nonneg [of y] fix28_nonneg [of "- x"] by (simp add: fix28_minus)
  next
    case 3
    then show ?thesis
      using fix28_mono_pos [of "- y" "- x"] le by (simp add: fix28_minus)
  qed
qed

text \<open>A coefficient of at most 28 digits at any exponent is exact.\<close>

lemma fix28_exact_less:
  assumes "\<bar>m\<bar> < 10 ^ 28" shows "fix28 (of_int m * 10 powi k) = of_int m * 10 powi k"
proof (cases "m = 0")
  case False
  define x where "x = of_int m * (10::rat) powi k"
  have nz: "x \<noteq> 0" using False by (simp add: x_def)
  have "\<bar>x\<bar> = of_int \<bar>m\<bar> * 10 powi k" by (simp add: x_def abs_mult)
  also have "\<dots> < of_int (10 ^ 28) * 10 powi k"
    using assms by (simp only: mult_less_cancel_right_pos powi10_pos of_int_less_iff)
  also have "\<dots> = 10 powi (28 + k)" by (simp add: powi10_add)
  finally have "10 powi dexp x < (10::rat) powi (28 + k)"
    using dexp_bounds [OF nz] by linarith
  then have le: "0 \<le> k - (dexp x - 27)" by (simp add: powi10_less)
  define j where "j = nat (k - (dexp x - 27))"
  define q where "q = (10::rat) powi (dexp x - 27)"
  have "x / q = of_int m * 10 powi (k - (dexp x - 27))"
    by (simp add: x_def q_def powi10_diff)
  also have "\<dots> = of_int (m * 10 ^ j)" using le by (simp add: j_def power_int_def)
  finally have z: "x / q = of_int (m * 10 ^ j)" .
  have "fix28 x = of_int (round_half_even (x / q)) * q" using nz by (simp add: fix28_def Let_def q_def)
  also have "\<dots> = x / q * q" unfolding z round_half_even_of_int ..
  also have "\<dots> = x" by (simp add: q_def)
  finally show ?thesis by (simp add: x_def)
qed simp

lemma fix28_exact:
  assumes "\<bar>m\<bar> \<le> 10 ^ 28" shows "fix28 (of_int m * 10 powi k) = of_int m * 10 powi k"
proof (cases "\<bar>m\<bar> = 10 ^ 28")
  case True
  then have "m = sgn m * 10 ^ 28" by (metis mult_sgn_abs)
  then have "of_int m = of_int (sgn m) * (10::rat) ^ 28"
    by (metis of_int_mult of_int_numeral of_int_power)
  then have "of_int m * (10::rat) powi k = of_int (sgn m) * 10 powi (28 + k)"
    by (simp add: powi10_add)
  moreover have "\<bar>sgn m\<bar> < 10 ^ 28" by (simp add: sgn_if)
  ultimately show ?thesis
    using fix28_exact_less [of "sgn m" "28 + k"] by simp
next
  case False
  then show ?thesis using assms by (intro fix28_exact_less) simp
qed

lemma is_dec_coeff: "\<bar>m\<bar> \<le> 10 ^ 28 \<Longrightarrow> is_dec (of_int m * 10 powi k)"
  by (simp add: is_dec_def fix28_exact)

lemma is_dec_places: "\<bar>m\<bar> \<le> 10 ^ 28 \<Longrightarrow> is_dec (of_int m / 10 ^ k)"
  using is_dec_coeff [of m "- int k"] by (simp add: power_int_minus_divide)

lemma is_dec_of_int: "\<bar>m\<bar> \<le> 10 ^ 28 \<Longrightarrow> is_dec (of_int m)"
  using is_dec_coeff [of m 0] by simp

lemma is_dec_fix28 [simp]: "is_dec (fix28 x)"
proof -
  have pos: "is_dec (fix28 y)" if "0 < y" for y
  proof -
    have "of_int (10 ^ 27) \<le> y / 10 powi (dexp y - 27)" "y / 10 powi (dexp y - 27) \<le> of_int (10 ^ 28)"
      using scaled_bounds [OF that] by simp_all
    note r = round_half_even_between [OF this]
    then have "\<bar>round_half_even (y / 10 powi (dexp y - 27))\<bar> \<le> 10 ^ 28" by simp
    from is_dec_coeff [OF this] show ?thesis using that by (simp add: fix28_def Let_def)
  qed
  consider "0 < x" | "x = 0" | "0 < - x" by linarith
  then show ?thesis
  proof cases
    case 3
    from pos [OF 3] show ?thesis by (simp add: is_dec_def fix28_minus)
  qed (auto simp: is_dec_def pos [unfolded is_dec_def])
qed

lemma fix28_idem [simp]: "fix28 (fix28 x) = fix28 x"
  using is_dec_fix28 [of x] by (simp add: is_dec_def)

lemma fix28_error: "\<bar>fix28 x - x\<bar> \<le> \<bar>x\<bar> * 5 / 10 ^ 28"
proof (cases "x = 0")
  case False
  define q where "q = (10::rat) powi (dexp x - 27)"
  have q: "0 < q" by (simp add: q_def)
  have "10 powi dexp x = q * 10 ^ 27" by (simp add: q_def powi10_diff)
  then have qx: "q * 10 ^ 27 \<le> \<bar>x\<bar>" using dexp_bounds [OF False] by simp
  have "fix28 x - x = (of_int (round_half_even (x / q)) - x / q) * q"
    using False q by (simp add: fix28_def Let_def q_def [symmetric] algebra_simps)
  then have "\<bar>fix28 x - x\<bar> = \<bar>of_int (round_half_even (x / q)) - x / q\<bar> * q"
    using q by (simp add: abs_mult)
  also have "\<dots> \<le> 1 / 2 * q" using round_half_even_error q by (intro mult_right_mono) simp_all
  finally show ?thesis using qx by simp
qed simp

section \<open>The laws of a rounded arithmetic\<close>

text \<open>
  What the trading code relies on is not the 28 digits but that rounding is monotone, odd
  and idempotent. A component's inequalities are proved from these laws.
\<close>

locale rounding =
  fixes rnd :: "rat \<Rightarrow> rat"
  assumes rnd_mono: "x \<le> y \<Longrightarrow> rnd x \<le> rnd y"
    and rnd_0: "rnd 0 = 0"
    and rnd_minus: "rnd (- x) = - rnd x"
    and rnd_idem: "rnd (rnd x) = rnd x"
begin

lemma rnd_nonneg: "0 \<le> x \<Longrightarrow> 0 \<le> rnd x"
  using rnd_mono [of 0 x] by (simp add: rnd_0)

lemma rnd_nonpos: "x \<le> 0 \<Longrightarrow> rnd x \<le> 0"
  using rnd_mono [of x 0] by (simp add: rnd_0)

lemma rnd_pos_imp: "0 < rnd x \<Longrightarrow> 0 < x"
  using rnd_nonpos [of x] by linarith

lemma rnd_le: "rnd y = y \<Longrightarrow> x \<le> y \<Longrightarrow> rnd x \<le> y"
  using rnd_mono [of x y] by simp

lemma rnd_ge: "rnd y = y \<Longrightarrow> y \<le> x \<Longrightarrow> y \<le> rnd x"
  using rnd_mono [of y x] by simp

lemma rnd_abs: "rnd \<bar>x\<bar> = \<bar>rnd x\<bar>"
  using rnd_nonneg [of x] rnd_nonpos [of x] by (cases "0 \<le> x") (simp_all add: rnd_minus)

lemma rnd_foldl_nonneg:
  "0 \<le> a \<Longrightarrow> (\<And>x. x \<in> set xs \<Longrightarrow> 0 \<le> f x) \<Longrightarrow> 0 \<le> foldl (\<lambda>s x. rnd (s + f x)) a xs"
  by (induction xs arbitrary: a) (simp_all add: rnd_nonneg)

end

interpretation d28: rounding fix28
  by unfold_locales (simp_all add: fix28_mono fix28_minus)

section \<open>The operations\<close>

text \<open>
  \<open>dquo\<close> is division where the code has just tested the divisor, or divides by a nonzero
  literal; \<open>ddiv\<close> is division that may raise: DivisionByZero for \<open>x / 0\<close>, InvalidOperation
  for \<open>0 / 0\<close>.
\<close>

definition dadd :: "dec \<Rightarrow> dec \<Rightarrow> dec" where "dadd a b = fix28 (a + b)"
definition dsub :: "dec \<Rightarrow> dec \<Rightarrow> dec" where "dsub a b = fix28 (a - b)"
definition dmul :: "dec \<Rightarrow> dec \<Rightarrow> dec" where "dmul a b = fix28 (a * b)"
definition dquo :: "dec \<Rightarrow> dec \<Rightarrow> dec" where "dquo a b = fix28 (a / b)"
definition dneg :: "dec \<Rightarrow> dec" where "dneg a = fix28 (- a)"
definition dabs :: "dec \<Rightarrow> dec" where "dabs a = fix28 \<bar>a\<bar>"

definition ddiv :: "dec \<Rightarrow> dec \<Rightarrow> exc + dec" where
  "ddiv a b = (if b = 0 then Inl (if a = 0 then InvalidOperation else DivisionByZero)
               else Inr (dquo a b))"

text \<open>\<open>int(x)\<close> truncates towards zero; \<open>sum(xs)\<close> starts from 0 and rounds each addition.\<close>

definition dint :: "dec \<Rightarrow> int" where
  "dint x = (if x < 0 then - \<lfloor>- x\<rfloor> else \<lfloor>x\<rfloor>)"

definition dsum :: "dec list \<Rightarrow> dec" where
  "dsum xs = foldl dadd 0 xs"

text \<open>\<open>x.quantize(Decimal("0.01"), rounding=ROUND_HALF_UP)\<close> is \<open>dquant 2 x\<close>.\<close>

definition dquant :: "nat \<Rightarrow> dec \<Rightarrow> exc + dec" where
  "dquant g x = (let m = round_half_up (x * 10 ^ g) in
     if \<bar>m\<bar> < 10 ^ 28 then Inr (of_int m / 10 ^ g) else Inl InvalidOperation)"

lemmas dec_defs = dadd_def dsub_def dmul_def dquo_def dneg_def dabs_def

lemma ddiv_nz [res_simps]: "b \<noteq> 0 \<Longrightarrow> ddiv a b = Inr (dquo a b)"
  by (simp add: ddiv_def)

lemma ddiv_Inr [res_simps]: "ddiv a b = Inr c \<longleftrightarrow> b \<noteq> 0 \<and> c = dquo a b"
  by (auto simp: ddiv_def)

lemma is_dec_ops [simp]:
  "is_dec (dadd a b)" "is_dec (dsub a b)" "is_dec (dmul a b)" "is_dec (dquo a b)"
  "is_dec (dneg a)" "is_dec (dabs a)"
  by (simp_all add: dec_defs)

lemma is_dec_0 [simp]: "is_dec 0" and is_dec_1 [simp]: "is_dec 1"
  using is_dec_of_int [of 0] is_dec_of_int [of 1] by simp_all

lemma is_dec_numeral [simp]: "numeral n \<le> (10 ^ 28 :: int) \<Longrightarrow> is_dec (numeral n)"
  using is_dec_of_int [of "numeral n"] by simp

lemma dec_nonneg [intro]:
  "0 \<le> a \<Longrightarrow> 0 \<le> b \<Longrightarrow> 0 \<le> dadd a b"
  "0 \<le> a \<Longrightarrow> 0 \<le> b \<Longrightarrow> 0 \<le> dmul a b"
  "0 \<le> a \<Longrightarrow> 0 \<le> b \<Longrightarrow> 0 \<le> dquo a b"
  "b \<le> a \<Longrightarrow> 0 \<le> dsub a b"
  by (simp_all add: dec_defs d28.rnd_nonneg)

lemma dabs_nonneg [simp]: "0 \<le> dabs a"
  by (simp add: dabs_def d28.rnd_nonneg)

lemma dmul_pos: "0 < a \<Longrightarrow> 0 < b \<Longrightarrow> 0 < dmul a b"
  by (simp add: dmul_def fix28_pos)

lemma dquo_pos: "0 < a \<Longrightarrow> 0 < b \<Longrightarrow> 0 < dquo a b"
  by (simp add: dquo_def fix28_pos)

lemma dsub_pos_iff: "0 < dsub a b \<longleftrightarrow> b < a"
  using fix28_pos [of "a - b"] d28.rnd_nonpos [of "a - b"] unfolding dsub_def by linarith

lemma fix28_eq_0_iff [simp]: "fix28 x = 0 \<longleftrightarrow> x = 0"
  using fix28_pos [of x] fix28_pos [of "- x"] unfolding fix28_minus
  by (cases x "0 :: rat" rule: linorder_cases) simp_all

lemma dsub_eq_0_iff: "dsub a b = 0 \<longleftrightarrow> a = b"
  by (simp add: dsub_def)

lemma dabs_eq_0_iff: "dabs a = 0 \<longleftrightarrow> a = 0"
  by (simp add: dabs_def)

lemma dmul_le: "is_dec c \<Longrightarrow> a * b \<le> c \<Longrightarrow> dmul a b \<le> c"
  by (simp add: dmul_def is_dec_def d28.rnd_le)

lemma dmul_ge: "is_dec c \<Longrightarrow> c \<le> a * b \<Longrightarrow> c \<le> dmul a b"
  by (simp add: dmul_def is_dec_def d28.rnd_ge)

lemma dint_nonneg: "0 \<le> x \<Longrightarrow> dint x = \<lfloor>x\<rfloor> \<and> 0 \<le> dint x"
  by (simp add: dint_def)

lemma dint_mono: "x \<le> y \<Longrightarrow> dint x \<le> dint y"
proof -
  assume le: "x \<le> y"
  have "- \<lfloor>- x\<rfloor> \<le> \<lfloor>y\<rfloor>" if "x < 0" "\<not> y < 0"
  proof -
    from that have "0 \<le> \<lfloor>- x\<rfloor>" "0 \<le> \<lfloor>y\<rfloor>" unfolding zero_le_floor by simp_all
    then show ?thesis by linarith
  qed
  with le floor_mono [of x y] floor_mono [of "- y" "- x"] show ?thesis
    by (cases "x < 0"; cases "y < 0") (simp_all add: dint_def)
qed

lemma dquant_Inr:
  assumes "dquant g x = Inr y"
  shows "y = of_int (round_half_up (x * 10 ^ g)) / 10 ^ g" and "is_dec y"
    and "\<bar>y - x\<bar> \<le> 1 / (2 * 10 ^ g)"
proof -
  from assms have y: "y = of_int (round_half_up (x * 10 ^ g)) / 10 ^ g"
    and m: "\<bar>round_half_up (x * 10 ^ g)\<bar> < 10 ^ 28"
    by (auto simp: dquant_def Let_def split: if_splits)
  show "y = of_int (round_half_up (x * 10 ^ g)) / 10 ^ g" by (rule y)
  show "is_dec y" unfolding y using m by (intro is_dec_places) simp
  have "y - x = (of_int (round_half_up (x * 10 ^ g)) - x * 10 ^ g) / 10 ^ g"
    by (simp add: y diff_divide_distrib)
  then have "\<bar>y - x\<bar> = \<bar>of_int (round_half_up (x * 10 ^ g)) - x * 10 ^ g\<bar> / 10 ^ g"
    by (simp add: abs_divide)
  also have "\<dots> \<le> (1 / 2) / 10 ^ g" using round_half_up_error by (intro divide_right_mono) simp_all
  finally show "\<bar>y - x\<bar> \<le> 1 / (2 * 10 ^ g)" by simp
qed

lemma dquant_mono: "dquant g x = Inr u \<Longrightarrow> dquant g y = Inr v \<Longrightarrow> x \<le> y \<Longrightarrow> u \<le> v"
  using dquant_Inr(1) [of g x u] dquant_Inr(1) [of g y v] round_half_up_mono [of "x * 10 ^ g" "y * 10 ^ g"]
  by (simp add: divide_right_mono)

lemma dquant_of_int: "\<bar>z\<bar> * 10 ^ g < 10 ^ 28 \<Longrightarrow> dquant g (of_int z) = Inr (of_int z)"
proof -
  assume "\<bar>z\<bar> * 10 ^ g < 10 ^ 28"
  moreover have "round_half_up (of_int z * (10::rat) ^ g) = z * 10 ^ g"
    using round_half_up_of_int [of "z * 10 ^ g"] by simp
  ultimately show ?thesis by (simp add: dquant_def abs_mult)
qed

lemma dquant_nonneg: "dquant g x = Inr y \<Longrightarrow> 0 \<le> x \<Longrightarrow> 0 \<le> y"
  using dquant_mono [of g 0 0 x y] dquant_of_int [of 0 g] by simp

lemma dquant_defined: "\<bar>x\<bar> * 10 ^ g \<le> 10 ^ 28 - 1 \<Longrightarrow> \<exists>y. dquant g x = Inr y"
proof -
  assume "\<bar>x\<bar> * 10 ^ g \<le> 10 ^ 28 - 1"
  then have "- of_int (10 ^ 28 - 1) \<le> x * 10 ^ g" "x * 10 ^ g \<le> of_int (10 ^ 28 - 1)"
    using abs_le_D1 [of "x * 10 ^ g" "10 ^ 28 - 1"] abs_le_D2 [of "x * 10 ^ g" "10 ^ 28 - 1"]
    by (simp_all add: abs_mult)
  then have "round_half_up (of_int (- (10 ^ 28 - 1)) :: rat) \<le> round_half_up (x * 10 ^ g)"
    and "round_half_up (x * 10 ^ g) \<le> round_half_up (of_int (10 ^ 28 - 1) :: rat)"
    by (auto intro: round_half_up_mono)
  then show ?thesis unfolding round_half_up_of_int by (simp add: dquant_def Let_def)
qed

lemma dsum_Nil [simp]: "dsum [] = 0"
  by (simp add: dsum_def)

lemma dsum_nonneg: "(\<And>x. x \<in> set xs \<Longrightarrow> 0 \<le> x) \<Longrightarrow> 0 \<le> dsum xs"
proof -
  have "0 \<le> foldl dadd a xs" if "0 \<le> a" "\<forall>x \<in> set xs. 0 \<le> x" for a xs
    using that by (induction xs arbitrary: a) auto
  then show "(\<And>x. x \<in> set xs \<Longrightarrow> 0 \<le> x) \<Longrightarrow> 0 \<le> dsum xs" by (simp add: dsum_def)
qed

section \<open>Values with a fixed number of decimal places\<close>

text \<open>
  Prices, quantities and percentages have few decimal places (the database columns are
  \<open>Numeric(15, 2)\<close> and \<open>Numeric(7, 4)\<close>). On such values no operation but division rounds as
  long as the result has at most 28 digits, and \<open>int(a / b)\<close> is the exact quotient's floor.
\<close>

definition on_grid :: "nat \<Rightarrow> rat \<Rightarrow> bool" where
  "on_grid g x \<longleftrightarrow> of_int \<lfloor>x * 10 ^ g\<rfloor> = x * 10 ^ g"

lemma on_gridI: "x * 10 ^ g = of_int m \<Longrightarrow> on_grid g x"
  by (simp add: on_grid_def)

lemma on_gridE:
  assumes "on_grid g x" obtains m where "x * 10 ^ g = of_int m"
  using assms by (metis on_grid_def)

lemma on_grid_of_int [simp]: "on_grid g (of_int z)"
  by (rule on_gridI [of _ _ "z * 10 ^ g"]) simp

lemma on_grid_numeral [simp]: "on_grid g 0" "on_grid g 1" "on_grid g (numeral n)"
  using on_grid_of_int [of g 0] on_grid_of_int [of g 1] on_grid_of_int [of g "numeral n"] by simp_all

lemma on_grid_minus: "on_grid g x \<Longrightarrow> on_grid g (- x)"
  by (elim on_gridE, rule_tac m = "- m" in on_gridI) simp

lemma on_grid_add: "on_grid g x \<Longrightarrow> on_grid g y \<Longrightarrow> on_grid g (x + y)"
  by (elim on_gridE, rule_tac m = "m + ma" in on_gridI) (simp add: algebra_simps)

lemma on_grid_diff: "on_grid g x \<Longrightarrow> on_grid g y \<Longrightarrow> on_grid g (x - y)"
  using on_grid_add [of g x "- y"] by (simp add: on_grid_minus)

lemma on_grid_abs: "on_grid g x \<Longrightarrow> on_grid g \<bar>x\<bar>"
  by (simp add: abs_if on_grid_minus)

lemma on_grid_mult: "on_grid g x \<Longrightarrow> on_grid h y \<Longrightarrow> on_grid (g + h) (x * y)"
proof (elim on_gridE)
  fix m n assume "x * 10 ^ g = of_int m" "y * 10 ^ h = of_int n"
  then have "(x * 10 ^ g) * (y * 10 ^ h) = of_int (m * n)" by simp
  then show ?thesis by (intro on_gridI [of _ _ "m * n"]) (simp add: power_add mult_ac)
qed

lemma on_grid_mult_int: "on_grid g x \<Longrightarrow> on_grid g (x * of_int z)"
  using on_grid_mult [of g x 0 "of_int z"] by simp

lemma on_grid_hundredth: "on_grid g x \<Longrightarrow> on_grid (g + 2) (x / 100)"
  by (elim on_gridE, rule_tac m = m in on_gridI) (simp add: power_add)

lemma fix28_grid:
  assumes "on_grid g x" "\<bar>x\<bar> * 10 ^ g \<le> 10 ^ 28" shows "fix28 x = x"
proof -
  from assms(1) obtain m where m: "x * 10 ^ g = of_int m" by (rule on_gridE)
  then have x: "x = of_int m / 10 ^ g" by (simp add: field_simps)
  have "\<bar>x\<bar> * 10 ^ g = of_int \<bar>m\<bar>" using m by (simp add: abs_mult flip: m)
  with assms(2) have "of_int \<bar>m\<bar> \<le> (of_int (10 ^ 28) :: rat)" by simp
  then have "\<bar>m\<bar> \<le> 10 ^ 28" by (simp only: of_int_le_iff)
  then show ?thesis using is_dec_places [of m g] by (simp add: x is_dec_def)
qed

lemma fix28_grid_le:
  assumes "on_grid g x" "0 \<le> x" "x \<le> u" "u * 10 ^ g \<le> 10 ^ 28" shows "fix28 x = x"
proof (rule fix28_grid [OF assms(1)])
  have "x * 10 ^ g \<le> u * 10 ^ g" using assms(3) by simp
  also note assms(4)
  finally show "\<bar>x\<bar> * 10 ^ g \<le> 10 ^ 28" using assms(2) by simp
qed

lemma is_dec_grid: "on_grid g x \<Longrightarrow> \<bar>x\<bar> * 10 ^ g \<le> 10 ^ 28 \<Longrightarrow> is_dec x"
  by (simp add: is_dec_def fix28_grid)

text \<open>A sum of non-negative amounts is exact.\<close>

lemma dsum_grid:
  assumes "\<forall>x \<in> set xs. on_grid g x \<and> 0 \<le> x" "sum_list xs * 10 ^ g \<le> 10 ^ 28"
  shows "dsum xs = sum_list xs \<and> on_grid g (sum_list xs) \<and> 0 \<le> sum_list xs"
proof -
  have "foldl dadd a xs = a + sum_list xs \<and> on_grid g (a + sum_list xs) \<and> 0 \<le> a + sum_list xs"
    if "on_grid g a" "0 \<le> a" "\<forall>x \<in> set xs. on_grid g x \<and> 0 \<le> x"
      "(a + sum_list xs) * 10 ^ g \<le> 10 ^ 28" for a and xs :: "rat list"
    using that
  proof (induction xs arbitrary: a)
    case (Cons x xs)
    have "0 \<le> sum_list xs" using Cons.prems(3) by (intro sum_list_nonneg) simp
    then have "a + x \<le> a + sum_list (x # xs)" by simp
    then have "dadd a x = a + x"
      unfolding dadd_def using Cons.prems
      by (intro fix28_grid_le [of g _ "a + sum_list (x # xs)"] on_grid_add) auto
    then show ?case using Cons.IH [of "a + x"] Cons.prems by (simp add: on_grid_add add.assoc)
  qed simp
  from this [of 0 xs] assms show ?thesis by (simp add: dsum_def)
qed

text \<open>
  Evaluation by \<open>simp\<close>: integers and fractions whose denominator divides \<open>10 ^ 12\<close> are exact.
\<close>

lemma fix28_frac_eval [dec_simps]:
  assumes "(10 ^ 12 :: int) mod numeral d = 0" "numeral m * (10 ^ 12 div numeral d) \<le> (10 ^ 28 :: int)"
  shows "fix28 (numeral m / numeral d) = numeral m / numeral d"
    and "fix28 (- (numeral m / numeral d)) = - (numeral m / numeral d)"
proof -
  define c where "c = (10 ^ 12 :: int) div numeral d"
  have "numeral d * c = (10 ^ 12 :: int)"
    using assms(1) mult_div_mod_eq [of "numeral d" "10 ^ 12 :: int"] unfolding c_def by (simp only: add_0_right)
  then have "of_int (numeral d * c) = (of_int (10 ^ 12) :: rat)" by (simp only:)
  then have d: "(10 ^ 12 :: rat) = numeral d * of_int c" by simp
  moreover from d have "of_int c \<noteq> (0 :: rat)" by auto
  ultimately have "(numeral m / numeral d :: rat) = numeral m * of_int c / 10 ^ 12"
    by (simp only: d) simp
  also have "\<dots> = of_int (numeral m * c) / 10 ^ 12" by simp
  finally have x: "(numeral m / numeral d :: rat) = of_int (numeral m * c) / 10 ^ 12" .
  have "0 \<le> c" unfolding c_def by (rule div_int_pos_iff [THEN iffD2]) simp
  then have "\<bar>numeral m * c\<bar> = numeral m * c" by simp
  also have "\<dots> \<le> 10 ^ 28" using assms(2) unfolding c_def .
  finally have "is_dec (of_int (numeral m * c) / 10 ^ 12)" by (rule is_dec_places)
  then show "fix28 (numeral m / numeral d) = numeral m / numeral d"
    unfolding x is_dec_def .
  then show "fix28 (- (numeral m / numeral d)) = - (numeral m / numeral d)"
    by (simp only: fix28_minus)
qed

lemma fix28_int_eval [dec_simps]:
  "fix28 1 = 1" "fix28 (- 1) = - 1"
  "numeral m \<le> (10 ^ 28 :: int) \<Longrightarrow> fix28 (numeral m) = numeral m"
  "numeral m \<le> (10 ^ 28 :: int) \<Longrightarrow> fix28 (- numeral m) = - numeral m"
  using is_dec_1 is_dec_numeral [of m] by (simp_all add: is_dec_def fix28_minus)

lemma fix28_unit_frac_eval [dec_simps]:
  assumes "(10 ^ 12 :: int) mod numeral d = 0"
  shows "fix28 (1 / numeral d) = 1 / numeral d" "fix28 (- (1 / numeral d)) = - (1 / numeral d)"
proof -
  have "(10 ^ 12 :: int) div numeral d \<le> 10 ^ 12 div 1" by (rule zdiv_mono2) simp_all
  then have "numeral num.One * (10 ^ 12 div numeral d) \<le> (10 ^ 28 :: int)" by simp
  from fix28_frac_eval [OF assms this]
  show "fix28 (1 / numeral d) = 1 / numeral d" "fix28 (- (1 / numeral d)) = - (1 / numeral d)"
    by simp_all
qed

text \<open>Rounding a quotient of integers does not carry it over an integer.\<close>

lemma floor_fix28_ratio:
  assumes "0 \<le> A" "A < 2 * 10 ^ 27" "0 < B"
  shows "\<lfloor>fix28 (of_int A / of_int B)\<rfloor> = \<lfloor>of_int A / of_int B :: rat\<rfloor>"
proof -
  define x where "x = (of_int A / of_int B :: rat)"
  define n where "n = \<lfloor>x\<rfloor>"
  have B: "0 < (of_int B :: rat)" and x0: "0 \<le> x" using assms by (simp_all add: x_def)
  have nx: "of_int n \<le> x" "x < of_int n + 1" using floor_correct [of x] by (simp_all add: n_def)
  have "of_int A * 1 \<le> (of_int A * of_int B :: rat)" using assms by (intro mult_left_mono) simp_all
  then have "x \<le> of_int A" using B by (simp add: x_def divide_le_eq)
  with nx(1) have "n \<le> A" by (metis of_int_le_iff order_trans)
  moreover have "0 \<le> n" using x0 by (simp add: n_def)
  ultimately have "is_dec (of_int n)" using assms by (intro is_dec_of_int) simp
  with nx(1) have lo: "of_int n \<le> fix28 x" by (simp add: is_dec_def d28.rnd_ge)
  have "of_int A < (of_int ((n + 1) * B) :: rat)" using nx(2) B by (simp add: x_def divide_less_eq)
  then have "A < (n + 1) * B" by (simp only: of_int_less_iff)
  then have "of_int (A + 1) \<le> (of_int ((n + 1) * B) :: rat)" by (simp only: of_int_le_iff)
  then have gap: "x * of_int B + 1 \<le> (of_int n + 1) * of_int B" using B by (simp add: x_def)
  have "\<bar>fix28 x - x\<bar> \<le> x * 5 / 10 ^ 28" using fix28_error [of x] x0 by simp
  then have "\<bar>fix28 x - x\<bar> * of_int B \<le> x * 5 / 10 ^ 28 * of_int B" using B by (intro mult_right_mono) simp_all
  also have "\<dots> = of_int A * 5 / 10 ^ 28" using B by (simp add: x_def)
  also have "\<dots> < 1"
  proof -
    have "of_int A < (of_int (2 * 10 ^ 27) :: rat)" using assms(2) by (simp only: of_int_less_iff)
    then show ?thesis by simp
  qed
  finally have "(fix28 x - x) * of_int B < 1"
    using B by (metis abs_ge_self less_le_trans mult_right_mono not_le order_less_imp_le)
  with gap have "fix28 x * of_int B < (of_int n + 1) * of_int B" by (simp add: algebra_simps)
  then have "fix28 x < of_int n + 1" using B by (simp only: mult_less_cancel_right_pos)
  with lo show ?thesis unfolding x_def [symmetric] n_def [symmetric] by (rule floor_unique)
qed

lemma round_half_up_eval [dec_simps]:
  "round_half_up 0 = 0" "round_half_up 1 = 1" "round_half_up (numeral a) = numeral a"
  "round_half_up (numeral a / numeral b) = (2 * numeral a + numeral b) div (2 * numeral b)"
proof -
  have "numeral a / numeral b + 1 / 2 = (of_int (2 * numeral a + numeral b) / of_int (2 * numeral b) :: rat)"
    by (simp add: field_simps)
  then show "round_half_up (numeral a / numeral b) = (2 * numeral a + numeral b) div (2 * numeral b)"
    unfolding round_half_up_def by (simp only: floor_divide_of_int_eq) simp
  show "round_half_up 0 = 0" "round_half_up 1 = 1" "round_half_up (numeral a) = numeral a"
    using round_half_up_of_int [of 0] round_half_up_of_int [of 1] round_half_up_of_int [of "numeral a"]
    by simp_all
qed

lemma dint_eval [dec_simps]:
  "dint 0 = 0" "dint 1 = 1" "dint (numeral a) = numeral a"
  "dint (numeral a / numeral b) = numeral a div numeral b"
  "numeral a < (2 * 10 ^ 27 :: int) \<Longrightarrow> dint (fix28 (numeral a / numeral b)) = numeral a div numeral b"
proof -
  have fl: "\<lfloor>numeral a / numeral b :: rat\<rfloor> = numeral a div numeral b"
    using floor_divide_of_int_eq [of "numeral a" "numeral b", where 'a = rat] by simp
  then show "dint (numeral a / numeral b) = numeral a div numeral b" by (simp add: dint_def)
  assume "numeral a < (2 * 10 ^ 27 :: int)"
  then show "dint (fix28 (numeral a / numeral b)) = numeral a div numeral b"
    using floor_fix28_ratio [of "numeral a" "numeral b"] dint_nonneg [of "fix28 (numeral a / numeral b)"]
    by (simp add: fl d28.rnd_nonneg)
qed (simp_all add: dint_def)

lemmas dec_eval = dec_simps dec_defs ddiv_def Let_def

lemma dint_dquo_grid:
  assumes "on_grid g a" "on_grid g b" "0 \<le> a" "0 < b" "a * 10 ^ g < 2 * 10 ^ 27"
  shows "dint (dquo a b) = \<lfloor>a / b\<rfloor>"
proof -
  from assms(1,2) obtain A B where A: "a * 10 ^ g = of_int A" and B: "b * 10 ^ g = of_int B"
    by (elim on_gridE) blast
  have "0 \<le> (of_int A :: rat)" "0 < (of_int B :: rat)" "of_int A < (of_int (2 * 10 ^ 27) :: rat)"
    using assms(3-5) by (simp_all flip: A B)
  then have AB: "0 \<le> A" "0 < B" "A < 2 * 10 ^ 27" by (simp_all only: of_int_0_le_iff of_int_0_less_iff of_int_less_iff)
  have "a / b = of_int A / of_int B" using assms(4) by (simp flip: A B)
  then show ?thesis
    using assms AB floor_fix28_ratio [of A B] by (simp add: dquo_def dint_nonneg d28.rnd_nonneg)
qed

text \<open>So \<open>int(a / b)\<close> shares of price \<open>b\<close> cost at most \<open>a\<close>, and one more share costs more.\<close>

lemma dint_dquo_le_iff:
  assumes "on_grid g a" "on_grid g b" "0 \<le> a" "0 < b" "a * 10 ^ g < 2 * 10 ^ 27"
  shows "n \<le> dint (dquo a b) \<longleftrightarrow> of_int n * b \<le> a"
  using assms by (simp add: dint_dquo_grid le_floor_iff pos_le_divide_eq)

text \<open>A percentage of an amount, \<open>amount * pct / 100\<close>, is exact on two-place values.\<close>

lemma on_grid_lift: "on_grid g x \<Longrightarrow> on_grid (g + k) x"
  using on_grid_mult [of g x k 1] by simp

lemma pct_share_exact:
  assumes "on_grid 2 a" "on_grid 2 p" "0 \<le> a" "0 \<le> p" "a * p * 10 ^ 4 < 2 * 10 ^ 27"
  shows "dquo (dmul a p) 100 = a * p / 100 \<and> on_grid 6 (a * p / 100)"
proof -
  have g4: "on_grid 4 (a * p)" using on_grid_mult [OF assms(1,2)] by simp
  have g6: "on_grid 6 (a * p / 100)" using on_grid_hundredth [OF g4] by simp
  have "0 \<le> a * p" using assms by simp
  then have "fix28 (a * p) = a * p" "fix28 (a * p / 100) = a * p / 100"
    using assms(5) by (intro fix28_grid [OF g4] fix28_grid [OF g6]; simp)+
  with g6 show ?thesis by (simp add: dmul_def dquo_def)
qed

end
