(* ===== verification/Models.thy ===== *)
theory Models
  imports Decimal28
begin

text \<open>
  The data of the program: the enums of \<open>src/core/enums.py\<close>, the pydantic models of
  \<open>src/core/models.py\<close> and the ORM rows of \<open>src/db/models\<close> that the modelled components
  exchange. A StrEnum is a datatype with a \<open>_value\<close> function for its string; a model or a row
  is a record whose fields carry a prefix, since records share one name space. Dates are
  proleptic ordinals (\<open>date.toordinal()\<close>), so that \<open>(a - b).days\<close> is a difference; a
  datetime is a date and a minute of the day. Money is Decimal. Text that is only shown to
  a reader (reasonings, error texts) is kept as the data its f-string interpolates.
\<close>

type_synonym symbol = string
type_synonym date = int
type_synonym datetime = "date \<times> int"
type_synonym uuid = nat

section \<open>Enums\<close>

datatype order_side = Side_BUY | Side_SELL
datatype order_type = MARKET | LIMIT
datatype order_status =
  PENDING | SUBMITTED | FILLED | PARTIALLY_FILLED | CANCELLED | REJECTED | FAILED
datatype position_status = Pos_OPEN | Pos_CLOSED | Pos_PARTIALLY_CLOSED
datatype signal_action = Sig_BUY | Sig_SELL | Sig_HOLD
datatype decision_stage =
  MARKET_ANALYSIS | STOCK_ANALYSIS | RISK_CHECK | TRADE_DECISION | Stage_APPROVAL
  | Stage_EXECUTION | Stage_EXIT
datatype approval_status = AUTO_APPROVED | App_APPROVED | App_REJECTED | App_TIMEOUT
datatype decision_action =
  Act_BUY | Act_SELL | Act_HOLD | Act_APPROVE | Act_REJECT | Act_STOP_LOSS | Act_TAKE_PROFIT
datatype strategy_type = POSITION | SWING
datatype exit_reason =
  Exit_STOP_LOSS | Exit_TAKE_PROFIT | TRAILING_STOP | TIME_BASED | FUNDAMENTAL | LLM_SIGNAL
  | DRAWDOWN | MANUAL
datatype web_verify_result = SAFE | WARNING | BLOCKED
datatype backtest_status = Bt_PENDING | Bt_RUNNING | Bt_COMPLETED | Bt_FAILED
datatype backtest_mode = TECHNICAL | LLM_REPLAY | LLM_LIVE

fun exit_reason_value :: "exit_reason \<Rightarrow> string" where
  "exit_reason_value Exit_STOP_LOSS = ''stop_loss''"
| "exit_reason_value Exit_TAKE_PROFIT = ''take_profit''"
| "exit_reason_value TRAILING_STOP = ''trailing_stop''"
| "exit_reason_value TIME_BASED = ''time_based''"
| "exit_reason_value FUNDAMENTAL = ''fundamental''"
| "exit_reason_value LLM_SIGNAL = ''llm_signal''"
| "exit_reason_value DRAWDOWN = ''drawdown''"
| "exit_reason_value MANUAL = ''manual''"

definition exit_reasons :: "exit_reason list" where
  "exit_reasons = [Exit_STOP_LOSS, Exit_TAKE_PROFIT, TRAILING_STOP, TIME_BASED, FUNDAMENTAL,
     LLM_SIGNAL, DRAWDOWN, MANUAL]"

text \<open>What pydantic does with a string given for an \<open>ExitReason\<close> field.\<close>

definition parse_exit_reason :: "string \<Rightarrow> exc + exit_reason" where
  "parse_exit_reason s = (case find (\<lambda>r. exit_reason_value r = s) exit_reasons of
     Some r \<Rightarrow> Inr r | None \<Rightarrow> Inl (ValidationError ''exit_reason''))"

lemma parse_exit_reason_value [simp]: "parse_exit_reason (exit_reason_value r) = Inr r"
  by (cases r) (simp_all add: parse_exit_reason_def exit_reasons_def)

fun strategy_type_value :: "strategy_type \<Rightarrow> string" where
  "strategy_type_value POSITION = ''position''"
| "strategy_type_value SWING = ''swing''"

section \<open>Settings\<close>

text \<open>
  The settings the modelled code reads. A float setting that the code reads as
  \<open>Decimal(str(settings.X))\<close> is the Decimal so obtained.
\<close>

record settings =
  MAX_POSITION_SIZE_KRW :: int
  MAX_PORTFOLIO_POSITIONS :: int
  DAILY_LOSS_LIMIT_KRW :: int
  RISK_PER_TRADE_PCT :: dec
  MAX_POSITION_PCT :: dec
  SECTOR_CONCENTRATION_PCT :: dec
  MAX_DRAWDOWN_PCT :: dec
  DAILY_LOSS_LIMIT_PCT :: dec
  CORRELATION_THRESHOLD :: rat
  MAX_DAILY_TRADES :: int
  HUMAN_APPROVAL_REQUIRED :: bool
  HUMAN_APPROVAL_TIMEOUT_SEC :: int
  AUTO_EXECUTE_MAX_PORTFOLIO_PCT :: dec
  RISK_FREE_RATE_PCT :: dec
  WEB_VERIFY_ENABLED :: bool
  WEB_VERIFY_SKIP_ON_STOP_LOSS :: bool

text \<open>The defaults of \<open>src/config.py\<close>.\<close>

definition default_settings :: settings where
  "default_settings = \<lparr>
     MAX_POSITION_SIZE_KRW = 1000000, MAX_PORTFOLIO_POSITIONS = 5, DAILY_LOSS_LIMIT_KRW = 500000,
     RISK_PER_TRADE_PCT = 2, MAX_POSITION_PCT = 10, SECTOR_CONCENTRATION_PCT = 30,
     MAX_DRAWDOWN_PCT = 10, DAILY_LOSS_LIMIT_PCT = 3, CORRELATION_THRESHOLD = 7 / 10,
     MAX_DAILY_TRADES = 5, HUMAN_APPROVAL_REQUIRED = True, HUMAN_APPROVAL_TIMEOUT_SEC = 300,
     AUTO_EXECUTE_MAX_PORTFOLIO_PCT = 5, RISK_FREE_RATE_PCT = 7 / 2,
     WEB_VERIFY_ENABLED = True, WEB_VERIFY_SKIP_ON_STOP_LOSS = True\<rparr>"

section \<open>Broker data\<close>

record order_request =
  rq_account_id :: string
  rq_symbol :: symbol
  rq_side :: order_side
  rq_type :: order_type
  rq_quantity :: int
  rq_price :: "dec option"

text \<open>The field constraint \<open>quantity: int = Field(gt=0)\<close> is checked on construction.\<close>

definition mk_order_request ::
  "string \<Rightarrow> symbol \<Rightarrow> order_side \<Rightarrow> order_type \<Rightarrow> int \<Rightarrow> dec option \<Rightarrow> exc + order_request" where
  "mk_order_request acct s side ty q p =
     (if 0 < q then Inr \<lparr>rq_account_id = acct, rq_symbol = s, rq_side = side, rq_type = ty,
                         rq_quantity = q, rq_price = p\<rparr>
      else Inl (ValidationError ''quantity''))"

record order_result =
  or_account_id :: string
  or_order_id :: nat
  or_symbol :: symbol
  or_side :: order_side
  or_type :: order_type
  or_quantity :: int
  or_price :: dec
  or_status :: order_status
  or_filled_quantity :: int
  or_filled_price :: "dec option"
  or_commission :: dec
  or_timestamp :: datetime

record position =
  p_account_id :: string
  p_symbol :: symbol
  p_quantity :: int
  p_average_cost :: dec
  p_current_price :: dec
  p_market_value :: dec
  p_unrealized_pnl :: dec
  p_unrealized_pnl_pct :: dec
  p_status :: position_status
  p_entry_date :: datetime

record account_balance =
  b_total_assets :: dec
  b_cash :: dec
  b_invested :: dec
  b_unrealized_pnl :: dec
  b_realized_pnl :: dec
  b_daily_pnl :: dec
  b_daily_pnl_pct :: dec
  b_positions_count :: nat
  b_timestamp :: datetime

text \<open>A daily bar (\<open>OHLCV\<close>).\<close>

record ohlcv =
  k_symbol :: symbol
  k_date :: date
  k_open :: dec
  k_high :: dec
  k_low :: dec
  k_close :: dec
  k_volume :: int

text \<open>A price snapshot (\<open>PriceInfo\<close>).\<close>

record price_info =
  pi_symbol :: symbol
  pi_current_price :: dec
  pi_previous_close :: dec
  pi_change_price :: dec
  pi_change_percent :: dec
  pi_high :: dec
  pi_low :: dec
  pi_volume :: int
  pi_timestamp :: datetime

section \<open>Strategy data\<close>

record position_record =
  pr_id :: int
  pr_account_id :: string
  pr_symbol :: symbol
  pr_strategy_type :: string
  pr_quantity :: int
  pr_avg_cost :: dec
  pr_entry_price :: dec
  pr_entry_date :: date
  pr_stop_loss_price :: dec
  pr_take_profit_price :: "dec option"
  pr_trailing_stop_pct :: "dec option"
  pr_max_holding_days :: "int option"
  pr_status :: string
  pr_exit_price :: "dec option"
  pr_exit_date :: "date option"
  pr_exit_reason :: "string option"
  pr_realized_pnl :: "dec option"
  pr_entry_session_id :: "uuid option"
  pr_exit_session_id :: "uuid option"

record portfolio_state =
  ps_account_id :: string
  ps_total_value :: dec
  ps_cash :: dec
  ps_invested :: dec
  ps_unrealized_pnl :: dec
  ps_daily_pnl :: dec
  ps_daily_pnl_pct :: dec
  ps_drawdown_pct :: dec
  ps_peak_value :: dec
  ps_positions :: "position list"
  ps_sector_allocations :: "(string, dec) dict"
  ps_daily_trade_count :: int
  ps_timestamp :: datetime

record position_sizing =
  sz_symbol :: symbol
  sz_entry_price :: dec
  sz_stop_loss_price :: dec
  sz_take_profit_price :: "dec option"
  sz_risk_per_share :: dec
  sz_quantity :: int
  sz_position_value_krw :: dec
  sz_risk_amount_krw :: dec
  sz_risk_pct_of_portfolio :: dec
  sz_position_pct_of_portfolio :: dec
  sz_risk_reward_ratio :: "dec option"

text \<open>The f-strings of the exit checks, as the values they print.\<close>

datatype exit_message =
    Stop_Loss_Msg dec dec dec
  | Take_Profit_Msg dec dec dec
  | Trailing_Msg dec dec dec
  | Time_Msg int int dec

record exit_signal =
  xs_symbol :: symbol
  xs_reason :: exit_reason
  xs_urgency :: string
  xs_current_price :: dec
  xs_trigger_price :: "dec option"
  xs_unrealized_pnl_pct :: dec
  xs_recommended_action :: decision_action
  xs_reasoning :: exit_message

section \<open>Snapshots, signals and the records of a backtest\<close>

text \<open>A row of \<open>portfolio_snapshots\<close> without its key; the backtest keeps id and date with it.\<close>

record snapshot =
  sn_total_value :: dec
  sn_cash :: dec
  sn_invested :: dec
  sn_unrealized_pnl :: dec
  sn_realized_pnl_daily :: dec
  sn_peak_value :: dec
  sn_drawdown_pct :: dec
  sn_positions_count :: nat
  sn_sector_allocations :: "(string, dec) dict option"
  sn_trade_count_daily :: nat

record bt_snapshot = snapshot +
  bs_id :: nat
  bs_date :: date

record signal =
  sg_symbol :: symbol
  sg_action :: signal_action
  sg_confidence :: dec
  sg_target_price :: "dec option"
  sg_stop_loss_price :: "dec option"
  sg_quantity :: int
  sg_position_value_krw :: dec

record backtest_config =
  cf_strategy_type :: strategy_type
  cf_start_date :: date
  cf_end_date :: date
  cf_initial_capital :: dec
  cf_symbols :: "symbol list"
  cf_mode :: backtest_mode
  cf_parameters :: "(string, dec) dict"
  cf_llm_model_filter :: "string option"

record backtest_trade =
  bt_symbol :: symbol
  bt_side :: order_side
  bt_quantity :: int
  bt_price :: dec
  bt_commission :: dec
  bt_slippage :: dec
  bt_trade_date :: date
  bt_pnl :: "dec option"
  bt_exit_reason :: "exit_reason option"

text \<open>Constructing a \<open>BacktestTradeRecord\<close>: the exit reason given as a string is validated.\<close>

definition mk_backtest_trade ::
  "symbol \<Rightarrow> order_side \<Rightarrow> int \<Rightarrow> dec \<Rightarrow> dec \<Rightarrow> dec \<Rightarrow> date \<Rightarrow> dec option \<Rightarrow> string option \<Rightarrow> exc + backtest_trade" where
  "mk_backtest_trade s side q price commission slippage d pnl why =
     rbind (case why of None \<Rightarrow> Inr None | Some w \<Rightarrow> rbind (parse_exit_reason w) (\<lambda>r. Inr (Some r))) (\<lambda>r.
       Inr \<lparr>bt_symbol = s, bt_side = side, bt_quantity = q, bt_price = price, bt_commission = commission,
            bt_slippage = slippage, bt_trade_date = d, bt_pnl = pnl, bt_exit_reason = r\<rparr>)"

section \<open>Decisions and what becomes of them\<close>

record trade_decision =
  td_symbol :: symbol
  td_action :: decision_action
  td_confidence :: dec
  td_order_type :: order_type
  td_quantity :: int
  td_price :: "dec option"
  td_stop_loss_price :: "dec option"
  td_take_profit_price :: "dec option"

record web_verification =
  wv_symbol :: symbol
  wv_result :: web_verify_result
  wv_summary :: string
  wv_issues :: "string list"
  wv_news_checked :: int
  wv_cost_usd :: dec
  wv_reasoning :: string

text \<open>The rejection and error texts of an order, as the values they print.\<close>

datatype rejection =
    No_Rejection
  | Web_Blocked string
  | Approval_Denied approval_status
  | Risk_Failed "string list"
  | Broker_Failed order_status
  | Raised exc
  | Alert_Only

record execution_result =
  xr_success :: bool
  xr_order_id :: "int option"
  xr_broker_order_id :: "nat option"
  xr_symbol :: symbol
  xr_side :: order_side
  xr_quantity :: int
  xr_fill_price :: "dec option"
  xr_commission :: dec
  xr_approval_status :: approval_status
  xr_web_verify_result :: "web_verify_result option"
  xr_position_id :: "int option"
  xr_decision_ids :: "uuid list"
  xr_error :: rejection

end
