(* ===== verification/Exit_Calculator.thy ===== *)
theory Exit_Calculator
  imports Models
begin

text \<open>
  \<open>src/strategy/exit_calculator.py\<close>: stop-loss, take-profit and trailing-stop prices and the
  risk/reward ratio, with the \<open>ValueError\<close>s of each method. Properties: the prices bracket
  the entry price, the stops stay positive, the ratio is non-negative.
\<close>

definition fixed_percentage :: "dec \<Rightarrow> dec \<Rightarrow> dec \<Rightarrow> exc + dec \<times> dec" where
  "fixed_percentage entry_price stop_pct tp_pct =
     (if entry_price \<le> 0 then Inl (ValueError ''entry_price must be positive'')
      else if stop_pct < 0 then Inl (ValueError ''stop_pct must be non-negative'')
      else if tp_pct < 0 then Inl (ValueError ''tp_pct must be non-negative'')
      else Inr (dmul entry_price (dsub 1 (dquo stop_pct 100)),
                dmul entry_price (dadd 1 (dquo tp_pct 100))))"

definition atr_based :: "dec \<Rightarrow> dec \<Rightarrow> dec \<Rightarrow> dec \<Rightarrow> exc + dec \<times> dec" where
  "atr_based entry_price atr stop_mult tp_mult =
     (if entry_price \<le> 0 then Inl (ValueError ''entry_price must be positive'')
      else if atr \<le> 0 then Inl (ValueError ''atr must be positive'')
      else let stop_loss = dsub entry_price (dmul atr stop_mult);
               stop_loss = (if stop_loss \<le> 0 then 1 else stop_loss);
               take_profit = dadd entry_price (dmul atr tp_mult)
           in Inr (stop_loss, take_profit))"

definition trailing_stop_price :: "dec \<Rightarrow> dec \<Rightarrow> exc + dec" where
  "trailing_stop_price highest_since_entry trailing_pct =
     (if highest_since_entry \<le> 0 then Inl (ValueError ''highest_since_entry must be positive'')
      else if trailing_pct \<le> 0 then Inl (ValueError ''trailing_pct must be positive'')
      else Inr (dmul highest_since_entry (dsub 1 (dquo trailing_pct 100))))"

definition risk_reward_ratio :: "dec \<Rightarrow> dec \<Rightarrow> dec \<Rightarrow> exc + dec" where
  "risk_reward_ratio entry_price stop_loss take_profit =
     (let risk = dabs (dsub entry_price stop_loss) in
      if risk = 0 then Inl (ValueError ''entry_price and stop_loss must differ'')
      else let reward = dabs (dsub take_profit entry_price); ratio = dquo reward risk
           in dquant 2 ratio)"

lemma dquo_100_nonneg: "0 \<le> s \<Longrightarrow> 0 \<le> dquo s 100"
  by (rule dec_nonneg) simp_all

text \<open>Scaling by a power of ten is exact on Decimals, so \<open>s / 100 < 1\<close> stays strict.\<close>

lemma is_dec_scale: "is_dec x \<Longrightarrow> is_dec (x * 10 powi k)"
proof (cases "x = 0")
  case False
  assume dec: "is_dec x"
  define z where "z = round_half_even (x / 10 powi (dexp x - 27))"
  from dec False have x: "x = of_int z * 10 powi (dexp x - 27)"
    by (simp add: is_dec_def fix28_def Let_def z_def)
  have "of_int \<bar>z\<bar> * 10 powi (dexp x - 27) = \<bar>x\<bar>" by (subst x) (simp add: abs_mult)
  also have "\<dots> \<le> 10 powi (dexp x + 1)" using dexp_bounds [OF False] by simp
  also have "\<dots> = of_int (10 ^ 28) * 10 powi (dexp x - 27)" by (simp add: powi10_diff powi10_add)
  finally have "of_int \<bar>z\<bar> \<le> (of_int (10 ^ 28) :: rat)" by (simp only: mult_le_cancel_right_pos powi10_pos)
  then have "\<bar>z\<bar> \<le> 10 ^ 28" by (simp only: of_int_le_iff)
  then have "is_dec (of_int z * 10 powi (dexp x - 27 + k))" by (rule is_dec_coeff)
  then show ?thesis by (subst x) (simp only: powi10_add mult.assoc)
qed simp

lemma dquo_100: "is_dec s \<Longrightarrow> dquo s 100 = s / 100"
proof -
  assume "is_dec s"
  moreover have "s * 10 powi (- 2) = s / 100" by (simp add: power_int_def field_simps)
  ultimately show ?thesis using is_dec_scale [of s "- 2"] by (simp add: dquo_def is_dec_def)
qed

lemma one_minus_pct_bounds:
  assumes "0 \<le> s" shows "dsub 1 (dquo s 100) \<le> 1"
proof -
  have "1 - dquo s 100 \<le> 1" using dquo_100_nonneg [OF assms] by simp
  then show ?thesis using is_dec_1 unfolding dsub_def is_dec_def by (rule d28.rnd_le [rotated])
qed

lemma one_minus_pct_pos: "is_dec s \<Longrightarrow> s < 100 \<Longrightarrow> 0 < dsub 1 (dquo s 100)"
  by (simp add: dsub_pos_iff dquo_100)

lemma scaled_price_le: "is_dec p \<Longrightarrow> 0 < p \<Longrightarrow> f \<le> 1 \<Longrightarrow> dmul p f \<le> p"
  by (rule dmul_le) (simp_all add: mult_left_le)

section \<open>Properties\<close>

text \<open>
  Fixed_percentage: whenever it returns, the stop-loss is at most the entry price and the
  take-profit at least the entry price, and with a stop below 100% the stop-loss is
  positive, through all the roundings.
\<close>

theorem fixed_percentage_brackets:
  assumes "fixed_percentage entry stop_pct tp_pct = Inr (sl, tp)"
    and "is_dec entry" "is_dec stop_pct"
  shows "sl \<le> entry \<and> entry \<le> tp \<and> (stop_pct < 100 \<longrightarrow> 0 < sl)"
proof -
  from assms(1) have pos: "0 < entry" "0 \<le> stop_pct" "0 \<le> tp_pct"
    and sl: "sl = dmul entry (dsub 1 (dquo stop_pct 100))"
    and tp: "tp = dmul entry (dadd 1 (dquo tp_pct 100))"
    by (auto simp: fixed_percentage_def split: if_splits)
  have "sl \<le> entry"
    unfolding sl using assms(2) pos one_minus_pct_bounds by (intro scaled_price_le) auto
  moreover have "1 \<le> dadd 1 (dquo tp_pct 100)"
    using dquo_100_nonneg [OF pos(3)] is_dec_1 unfolding dadd_def is_dec_def
    by (intro d28.rnd_ge) simp_all
  then have "entry \<le> tp" unfolding tp using assms(2) pos by (intro dmul_ge) simp_all
  moreover have "0 < sl" if "stop_pct < 100"
    unfolding sl using pos that assms(3) by (intro dmul_pos one_minus_pct_pos)
  ultimately show ?thesis by blast
qed

theorem fixed_percentage_brackets_witness:
  "fixed_percentage 70000 3 5 = Inr (67900, 73500) \<and> (67900 :: dec) \<le> 70000 \<and> (70000 :: dec) \<le> 73500"
proof -
  have f: "fixed_percentage 70000 3 5 = Inr (67900, 73500)"
    by (simp add: fixed_percentage_def dec_eval)
  from fixed_percentage_brackets [OF f] f show ?thesis by simp
qed

text \<open>
  Atr_based: whenever it returns with non-negative multipliers, the stop-loss is positive
  (the one-won floor), it does not exceed an entry price of at least one won, and the
  take-profit is at least the entry price.
\<close>

theorem atr_based_brackets:
  assumes "atr_based entry atr stop_mult tp_mult = Inr (sl, tp)"
    and "is_dec entry" "0 \<le> stop_mult" "0 \<le> tp_mult"
  shows "0 < sl \<and> (1 \<le> entry \<longrightarrow> sl \<le> entry) \<and> entry \<le> tp"
proof -
  define raw where "raw = dsub entry (dmul atr stop_mult)"
  from assms(1) have pos: "0 < entry" "0 < atr" and tp: "tp = dadd entry (dmul atr tp_mult)"
    and sl: "sl = (if raw \<le> 0 then 1 else raw)"
    by (auto simp: atr_based_def raw_def Let_def split: if_splits)
  have le: "entry - dmul atr stop_mult \<le> entry" "entry \<le> entry + dmul atr tp_mult"
    using dec_nonneg(2) [of atr stop_mult] dec_nonneg(2) [of atr tp_mult] pos assms by simp_all
  then have "raw \<le> entry" "entry \<le> tp"
    using assms(2) unfolding raw_def tp dsub_def dadd_def is_dec_def
    by (simp_all add: d28.rnd_le d28.rnd_ge)
  then show ?thesis using sl by auto
qed

theorem atr_based_brackets_witness:
  "atr_based 50000 40000 2 3 = Inr (1, 170000) \<and> (0 :: dec) < 1 \<and> (1 :: dec) \<le> 50000
   \<and> (50000 :: dec) \<le> 170000"
proof -
  have f: "atr_based 50000 40000 2 3 = Inr (1, 170000)"
    by (simp add: atr_based_def dec_eval)
  from atr_based_brackets [OF f] f show ?thesis by simp
qed

lemma trailing_stop_price_le:
  assumes "trailing_stop_price high pct = Inr p" "is_dec high"
  shows "p \<le> high \<and> (is_dec pct \<and> pct < 100 \<longrightarrow> 0 < p)"
proof -
  from assms(1) have pos: "0 < high" "0 < pct" and p: "p = dmul high (dsub 1 (dquo pct 100))"
    by (auto simp: trailing_stop_price_def split: if_splits)
  then show ?thesis
    using assms(2) one_minus_pct_bounds [of pct]
    by (auto intro!: scaled_price_le dmul_pos one_minus_pct_pos)
qed

lemma trailing_stop_price_mono:
  assumes "trailing_stop_price h1 pct = Inr p1" "trailing_stop_price h2 pct = Inr p2"
    and "h1 \<le> h2" "is_dec pct" "pct < 100"
  shows "p1 \<le> p2"
proof -
  from assms one_minus_pct_pos [of pct] show ?thesis
    by (auto simp: trailing_stop_price_def dmul_def intro!: d28.rnd_mono mult_right_mono
        split: if_splits)
qed

lemma risk_reward_ratio_Inr:
  "risk_reward_ratio e s t = Inr r \<Longrightarrow> e \<noteq> s \<and> 0 \<le> r"
  by (auto simp: risk_reward_ratio_def Let_def dabs_eq_0_iff dsub_eq_0_iff split: if_splits
      elim!: dquant_nonneg intro: dec_nonneg)

end
