(* ===== verification/Sizing.thy ===== *)
theory Sizing
  imports Exit_Calculator
begin

text \<open>
  \<open>src/strategy/sizing.py\<close>: the fixed-fractional position sizer. The quantity is what the
  risk budget buys, at least one share, cut down to the percentage cap and the amount cap
  after deducting the shares already held. Properties: the errors are exactly those of the
  validation block (and an overflowing \<open>quantize\<close>), the quantity respects every cap share by
  share, and on prices and values with few decimal places the money bounds are exact.
\<close>

record sizer =
  risk_pct :: dec
  max_position_pct :: dec
  max_position_krw :: dec

definition mk_sizer :: "settings \<Rightarrow> sizer" where
  "mk_sizer st = \<lparr>risk_pct = RISK_PER_TRADE_PCT st, max_position_pct = MAX_POSITION_PCT st,
                  max_position_krw = of_int (MAX_POSITION_SIZE_KRW st)\<rparr>"

definition validate_sizing :: "dec \<Rightarrow> dec \<Rightarrow> dec \<Rightarrow> exc option" where
  "validate_sizing entry_price stop_loss_price total_portfolio_value =
     (if entry_price \<le> 0 then Some (ValueError ''entry_price must be positive'')
      else if stop_loss_price \<le> 0 then Some (ValueError ''stop_loss_price must be positive'')
      else if entry_price = stop_loss_price
        then Some (ValueError ''stop_loss_price must differ from entry_price'')
      else if total_portfolio_value \<le> 0
        then Some (ValueError ''total_portfolio_value must be positive'')
      else None)"

text \<open>Steps 2 to 6 of \<open>calculate\<close>: the quantity. The divisors were validated positive.\<close>

definition raw_qty :: "sizer \<Rightarrow> dec \<Rightarrow> dec \<Rightarrow> dec \<Rightarrow> exc + int" where
  "raw_qty sz entry stop tot =
     (let risk_amount = dquo (dmul tot (risk_pct sz)) 100;
          risk_per_share = dabs (dsub entry stop)
      in rbind (ddiv risk_amount risk_per_share) (\<lambda>q. Inr (dint q)))"

definition cap_from_pct :: "sizer \<Rightarrow> dec \<Rightarrow> dec \<Rightarrow> dec \<Rightarrow> int" where
  "cap_from_pct sz entry tot existing =
     (let max_by_pct = dquo (dmul tot (max_position_pct sz)) 100;
          max_qty_pct = dint (dquo max_by_pct entry);
          existing_equiv = dint (dquo existing entry)
      in max 0 (max_qty_pct - existing_equiv))"

definition cap_from_krw :: "sizer \<Rightarrow> dec \<Rightarrow> dec \<Rightarrow> int" where
  "cap_from_krw sz entry existing =
     (let max_qty_krw = dint (dquo (max_position_krw sz) entry);
          existing_equiv = dint (dquo existing entry)
      in max 0 (max_qty_krw - existing_equiv))"

definition sized_qty :: "sizer \<Rightarrow> dec \<Rightarrow> dec \<Rightarrow> dec \<Rightarrow> dec \<Rightarrow> exc + int" where
  "sized_qty sz entry stop tot existing =
     rbind (raw_qty sz entry stop tot) (\<lambda>raw.
       let quantity = max 1 raw;
           quantity = min (min quantity (cap_from_pct sz entry tot existing))
                          (cap_from_krw sz entry existing)
       in Inr (max 0 quantity))"

definition pct_of_portfolio :: "int \<Rightarrow> dec \<Rightarrow> dec \<Rightarrow> exc + dec" where
  "pct_of_portfolio quantity amount tot =
     (if quantity > 0 then dquant 2 (dmul (dquo amount tot) 100) else Inr 0)"

definition sizing_calculate ::
  "sizer \<Rightarrow> symbol \<Rightarrow> dec \<Rightarrow> dec \<Rightarrow> dec option \<Rightarrow> dec \<Rightarrow> dec \<Rightarrow> exc + position_sizing" where
  "sizing_calculate sz s' entry_price stop_loss_price take_profit_price tot existing =
     (case validate_sizing entry_price stop_loss_price tot of
        Some e \<Rightarrow> Inl e
      | None \<Rightarrow>
          rbind (sized_qty sz entry_price stop_loss_price tot existing) (\<lambda>quantity.
          let risk_per_share = dabs (dsub entry_price stop_loss_price);
              qty_dec = of_int quantity;
              position_value_krw = dmul qty_dec entry_price;
              actual_risk_amount = dmul qty_dec risk_per_share
          in rbind (pct_of_portfolio quantity actual_risk_amount tot) (\<lambda>risk_pct'.
             rbind (pct_of_portfolio quantity position_value_krw tot) (\<lambda>position_pct.
             rbind (case take_profit_price of
                      None \<Rightarrow> Inr None
                    | Some tp \<Rightarrow> rbind (risk_reward_ratio entry_price stop_loss_price tp) (\<lambda>r. Inr (Some r)))
               (\<lambda>rr_ratio. Inr \<lparr>
                  sz_symbol = s', sz_entry_price = entry_price,
                  sz_stop_loss_price = stop_loss_price, sz_take_profit_price = take_profit_price,
                  sz_risk_per_share = risk_per_share, sz_quantity = quantity,
                  sz_position_value_krw = position_value_krw,
                  sz_risk_amount_krw = actual_risk_amount,
                  sz_risk_pct_of_portfolio = risk_pct',
                  sz_position_pct_of_portfolio = position_pct,
                  sz_risk_reward_ratio = rr_ratio\<rparr>)))))"

section \<open>Lemmas\<close>

lemma validate_sizing_None [res_simps]:
  "validate_sizing e s t = None \<longleftrightarrow> 0 < e \<and> 0 < s \<and> e \<noteq> s \<and> 0 < t"
  by (auto simp: validate_sizing_def)

lemma raw_qty_defined: "e \<noteq> s \<Longrightarrow> raw_qty sz e s t = Inr (dint (dquo (dquo (dmul t (risk_pct sz)) 100) (dabs (dsub e s))))"
  by (simp add: raw_qty_def Let_def res_simps dabs_eq_0_iff dsub_eq_0_iff)

lemma sized_qty_Inr:
  assumes "sized_qty sz e s t x = Inr q"
  shows "0 \<le> q \<and> q \<le> cap_from_pct sz e t x \<and> q \<le> cap_from_krw sz e x
    \<and> (q \<le> 1 \<or> (\<exists>raw. raw_qty sz e s t = Inr raw \<and> q \<le> raw))"
proof -
  have caps: "0 \<le> cap_from_pct sz e t x" "0 \<le> cap_from_krw sz e x"
    by (simp_all add: cap_from_pct_def cap_from_krw_def Let_def)
  obtain raw where raw: "raw_qty sz e s t = Inr raw"
    using assms by (cases "raw_qty sz e s t") (simp_all add: sized_qty_def)
  then have "q = max 0 (min (min (max 1 raw) (cap_from_pct sz e t x)) (cap_from_krw sz e x))"
    using assms by (simp add: sized_qty_def Let_def)
  with caps raw show ?thesis by auto
qed

lemma sizing_calculate_Inr:
  assumes "sizing_calculate sz y e s tp t x = Inr r"
  shows "0 < e \<and> 0 < s \<and> e \<noteq> s \<and> 0 < t
    \<and> sized_qty sz e s t x = Inr (sz_quantity r)
    \<and> sz_position_value_krw r = dmul (of_int (sz_quantity r)) e
    \<and> sz_risk_amount_krw r = dmul (of_int (sz_quantity r)) (dabs (dsub e s))
    \<and> pct_of_portfolio (sz_quantity r) (sz_risk_amount_krw r) t = Inr (sz_risk_pct_of_portfolio r)
    \<and> pct_of_portfolio (sz_quantity r) (sz_position_value_krw r) t = Inr (sz_position_pct_of_portfolio r)"
proof -
  have v: "validate_sizing e s t = None"
    using assms by (cases "validate_sizing e s t") (simp_all add: sizing_calculate_def)
  obtain q where q: "sized_qty sz e s t x = Inr q"
    using assms by (cases "sized_qty sz e s t x") (simp_all add: sizing_calculate_def v)
  define pv ra where "pv = dmul (of_int q) e" and "ra = dmul (of_int q) (dabs (dsub e s))"
  note unf = sizing_calculate_def v q Let_def pv_def [symmetric] ra_def [symmetric]
  obtain u where u: "pct_of_portfolio q ra t = Inr u"
    using assms by (cases "pct_of_portfolio q ra t") (simp_all add: unf)
  obtain w where w: "pct_of_portfolio q pv t = Inr w"
    using assms by (cases "pct_of_portfolio q pv t") (simp_all add: unf u)
  have "sz_quantity r = q \<and> sz_position_value_krw r = pv \<and> sz_risk_amount_krw r = ra
      \<and> sz_risk_pct_of_portfolio r = u \<and> sz_position_pct_of_portfolio r = w"
    using assms by (auto simp: unf u w res_simps)
  then show ?thesis using v q u w by (simp add: res_simps pv_def ra_def)
qed

text \<open>
  The values the sizer is meant for: two decimal places (the database columns are
  \<open>Numeric(15, 2)\<close>), and no more than 28 digits in the products.
\<close>

definition sizer_scale_ok :: "sizer \<Rightarrow> dec \<Rightarrow> dec \<Rightarrow> dec \<Rightarrow> bool" where
  "sizer_scale_ok sz entry tot existing \<longleftrightarrow>
     on_grid 2 entry \<and> on_grid 2 tot \<and> on_grid 2 existing \<and> on_grid 2 (max_position_pct sz)
     \<and> on_grid 2 (max_position_krw sz)
     \<and> 0 \<le> existing \<and> 0 \<le> max_position_pct sz \<and> 0 \<le> max_position_krw sz
     \<and> tot * max_position_pct sz * 10 ^ 4 < 2 * 10 ^ 27
     \<and> max_position_krw sz * 10 ^ 6 < 2 * 10 ^ 27 \<and> existing * 10 ^ 6 < 2 * 10 ^ 27"

text \<open>A cap of \<open>c\<close> won, in shares, less the shares held.\<close>

lemma cap_bound:
  assumes "q \<le> max 0 (dint (dquo c e) - dint (dquo x e))" "0 < q"
    and "on_grid 6 c" "on_grid 2 e" "on_grid 2 x" "0 \<le> c" "0 < e" "0 \<le> x"
    and "c * 10 ^ 6 < 2 * 10 ^ 27" "x * 10 ^ 6 < 2 * 10 ^ 27"
  shows "of_int q * e + x < c + e \<and> (x = 0 \<longrightarrow> of_int q * e \<le> c)"
proof -
  have e6: "on_grid 6 e" and x6: "on_grid 6 x"
    using on_grid_lift [of 2 _ 4] assms by simp_all
  define n where "n = dint (dquo x e)"
  have "q + n \<le> dint (dquo c e)" using assms(1,2) by (simp add: n_def)
  then have c: "of_int (q + n) * e \<le> c"
    using assms e6 by (subst dint_dquo_le_iff [symmetric, where g = 6]) simp_all
  have "n = \<lfloor>x / e\<rfloor>" unfolding n_def using assms e6 x6 by (intro dint_dquo_grid [where g = 6])
  then have "x / e < of_int n + 1" "0 \<le> n" using floor_correct [of "x / e"] assms by simp_all
  then have x: "x < of_int n * e + e" using assms(7) by (simp add: pos_divide_less_eq algebra_simps)
  have "0 \<le> of_int n * e" using \<open>0 \<le> n\<close> assms(7) by simp
  with c x show ?thesis by (auto simp: algebra_simps)
qed

lemma sized_qty_money:
  assumes "sized_qty sz e s t x = Inr q" "sizer_scale_ok sz e t x" "0 < e" "0 < t" "0 < q"
  shows "of_int q * e + x < t * max_position_pct sz / 100 + e
    \<and> of_int q * e + x < max_position_krw sz + e
    \<and> (x = 0 \<longrightarrow> of_int q * e \<le> t * max_position_pct sz / 100 \<and> of_int q * e \<le> max_position_krw sz)
    \<and> dmul (of_int q) e = of_int q * e"
proof -
  note sc = assms(2) [unfolded sizer_scale_ok_def]
  have pct: "dquo (dmul t (max_position_pct sz)) 100 = t * max_position_pct sz / 100"
    "on_grid 6 (t * max_position_pct sz / 100)"
    using pct_share_exact [of t "max_position_pct sz"] sc assms(4) by simp_all
  have krw6: "on_grid 6 (max_position_krw sz)" using on_grid_lift [of 2 _ 4] sc by simp
  note q = sized_qty_Inr [OF assms(1), unfolded cap_from_pct_def cap_from_krw_def Let_def pct(1)]
  have P: "of_int q * e + x < t * max_position_pct sz / 100 + e
      \<and> (x = 0 \<longrightarrow> of_int q * e \<le> t * max_position_pct sz / 100)"
    using q assms sc pct(2) by (intro cap_bound) simp_all
  have K: "of_int q * e + x < max_position_krw sz + e \<and> (x = 0 \<longrightarrow> of_int q * e \<le> max_position_krw sz)"
    using q assms sc krw6 by (intro cap_bound) simp_all
  have "on_grid 2 (of_int q * e)" using sc on_grid_mult_int [of 2 e q] by (simp add: mult.commute)
  moreover have "\<bar>of_int q * e\<bar> * 10 ^ 2 \<le> 10 ^ 28"
  proof -
    have "1 * e \<le> of_int q * e" using assms by (intro mult_right_mono) simp_all
    moreover have "e \<le> max_position_krw sz"
    proof -
      have "0 < dint (dquo (max_position_krw sz) e)"
      proof -
        have "0 \<le> dint (dquo x e)" using dint_nonneg [of "dquo x e"] sc assms(3) dec_nonneg(3) [of x e] by simp
        moreover have "q \<le> max 0 (dint (dquo (max_position_krw sz) e) - dint (dquo x e))" using q by blast
        ultimately show ?thesis using assms(5) by linarith
      qed
      then have "1 \<le> dint (dquo (max_position_krw sz) e)" by simp
      then show ?thesis
        using dint_dquo_le_iff [of 6 "max_position_krw sz" e 1] krw6 sc assms on_grid_lift [of 2 e 4] by simp
    qed
    ultimately have "of_int q * e < 2 * max_position_krw sz" using K sc by linarith
    moreover have "0 \<le> of_int q * e" using assms by simp
    ultimately show ?thesis using sc by (simp add: mult.commute [of _ e])
  qed
  ultimately have "dmul (of_int q) e = of_int q * e" by (simp add: dmul_def fix28_grid)
  with P K show ?thesis by blast
qed

section \<open>Properties\<close>

text \<open>
  C18: calculate: whenever it returns, the inputs were positive with a stop different from the
  entry, the quantity is non-negative, and, on values of two decimal places, the position
  together with what is already held stays less than one share above both the percentage
  cap and the amount cap, and within both when nothing is held; the reported position value
  is then the exact product of quantity and price.
\<close>

theorem sizing_respects_caps:
  assumes "sizing_calculate sz y e s tp t x = Inr r" "sizer_scale_ok sz e t x"
  shows "0 < e \<and> 0 < s \<and> e \<noteq> s \<and> 0 < t \<and> 0 \<le> sz_quantity r
    \<and> sz_position_value_krw r = of_int (sz_quantity r) * e
    \<and> (0 < sz_quantity r \<longrightarrow>
        sz_position_value_krw r + x < t * max_position_pct sz / 100 + e
        \<and> sz_position_value_krw r + x < max_position_krw sz + e
        \<and> (x = 0 \<longrightarrow> sz_position_value_krw r \<le> t * max_position_pct sz / 100
                   \<and> sz_position_value_krw r \<le> max_position_krw sz))"
proof -
  note r = sizing_calculate_Inr [OF assms(1)]
  have q: "0 \<le> sz_quantity r" using r sized_qty_Inr by blast
  show ?thesis
  proof (cases "sz_quantity r = 0")
    case True
    with r show ?thesis by (simp add: dmul_def)
  next
    case False
    with q have "0 < sz_quantity r" by simp
    with r sized_qty_money [of sz e s t x "sz_quantity r"] assms(2) q show ?thesis by auto
  qed
qed

theorem sizing_respects_caps_witness:
  "(\<exists>r. sizing_calculate (mk_sizer default_settings) ''005930'' 70000 67900 None 10000000 0 = Inr r
      \<and> sz_quantity r = 14 \<and> sz_position_value_krw r \<le> 1000000)"
proof -
  have v: "validate_sizing 70000 67900 10000000 = None" by (simp add: validate_sizing_def)
  have rq: "raw_qty (mk_sizer default_settings) 70000 67900 10000000 = Inr 95"
    by (simp add: raw_qty_def mk_sizer_def default_settings_def dec_eval)
  have c1: "cap_from_pct (mk_sizer default_settings) 70000 10000000 0 = 14"
    by (simp add: cap_from_pct_def mk_sizer_def default_settings_def dec_eval)
  have c2: "cap_from_krw (mk_sizer default_settings) 70000 0 = 14"
    by (simp add: cap_from_krw_def mk_sizer_def default_settings_def dec_eval)
  have q: "sized_qty (mk_sizer default_settings) 70000 67900 10000000 0 = Inr 14"
    by (simp add: sized_qty_def rq c1 c2)
  have p: "pct_of_portfolio 14 29400 10000000 = Inr (29 / 100)" "pct_of_portfolio 14 980000 10000000 = Inr (49 / 5)"
    by (simp_all add: pct_of_portfolio_def dquant_def dec_eval)
  have "\<exists>r. sizing_calculate (mk_sizer default_settings) ''005930'' 70000 67900 None 10000000 0 = Inr r
      \<and> sz_quantity r = 14"
    by (simp add: sizing_calculate_def v q p dec_eval)
  then obtain r where r: "sizing_calculate (mk_sizer default_settings) ''005930'' 70000 67900 None 10000000 0 = Inr r"
    "sz_quantity r = 14" by blast
  have "sizer_scale_ok (mk_sizer default_settings) 70000 10000000 0"
    by (simp add: sizer_scale_ok_def mk_sizer_def default_settings_def)
  from sizing_respects_caps [OF r(1) this] r show ?thesis
    by (auto simp: mk_sizer_def default_settings_def)
qed

text \<open>
  Calculate: above the one-share floor, what is lost if the stop is hit (quantity times the
  distance from entry to stop) is within the risk budget, RISK_PER_TRADE_PCT of the total.
\<close>

theorem sizing_respects_risk_budget:
  assumes "sizing_calculate sz y e s tp t x = Inr r" "1 < sz_quantity r"
    and "on_grid 2 e" "on_grid 2 s" "on_grid 2 t" "on_grid 2 (risk_pct sz)"
    and "\<bar>e - s\<bar> * 10 ^ 2 \<le> 10 ^ 28" "0 \<le> risk_pct sz" "t * risk_pct sz * 10 ^ 4 < 2 * 10 ^ 27"
  shows "of_int (sz_quantity r) * \<bar>e - s\<bar> \<le> t * risk_pct sz / 100"
proof -
  note r = sizing_calculate_Inr [OF assms(1)]
  have g: "on_grid 2 \<bar>e - s\<bar>" using assms by (intro on_grid_abs on_grid_diff)
  have "fix28 (e - s) = e - s"
    using fix28_grid [OF on_grid_diff [OF assms(3,4)]] assms(7) by simp
  then have risk: "dabs (dsub e s) = \<bar>e - s\<bar>"
    using fix28_grid [OF g] assms(7) by (simp add: dabs_def dsub_def)
  note budget = pct_share_exact [OF assms(5,6) _ assms(8,9)]
  obtain raw where "raw_qty sz e s t = Inr raw" and "sz_quantity r \<le> raw"
    using r assms(2) sized_qty_Inr [of sz e s t x "sz_quantity r"] by auto
  then have "sz_quantity r \<le> dint (dquo (t * risk_pct sz / 100) \<bar>e - s\<bar>)"
    using r budget by (simp add: raw_qty_defined risk)
  then show ?thesis
    using r budget on_grid_lift [OF g, of 4] assms(8,9)
    by (subst (asm) dint_dquo_le_iff [where g = 6]) simp_all
qed

theorem sizing_respects_risk_budget_witness:
  "\<exists>r. sizing_calculate (mk_sizer default_settings) ''005930'' 50000 40000 None 10000000 0 = Inr r
     \<and> sz_quantity r = 20 \<and> of_int (sz_quantity r) * \<bar>50000 - 40000\<bar> \<le> (10000000 :: dec) * 2 / 100"
proof -
  have "\<exists>r. sizing_calculate (mk_sizer default_settings) ''005930'' 50000 40000 None 10000000 0 = Inr r
     \<and> sz_quantity r = 20"
    by (simp add: sizing_calculate_def validate_sizing_def sized_qty_def raw_qty_def cap_from_pct_def
        cap_from_krw_def pct_of_portfolio_def mk_sizer_def default_settings_def dquant_def dec_eval)
  then obtain r where r: "sizing_calculate (mk_sizer default_settings) ''005930'' 50000 40000 None 10000000 0 = Inr r"
    "sz_quantity r = 20" by blast
  from sizing_respects_risk_budget [OF r(1)] r show ?thesis
    by (auto simp: mk_sizer_def default_settings_def on_grid_def)
qed

end
