(* ===== verification/Exit_Checker.thy ===== *)
theory Exit_Checker
  imports Exit_Calculator
begin

text \<open>
  \<open>src/strategy/exit_checker.py\<close>: one function per exit condition, each giving an exit signal
  or None, and the portfolio-level drawdown check. The texts of the signals are kept as the
  values they print.
\<close>

definition check_stop_loss :: "position_record \<Rightarrow> dec \<Rightarrow> dec \<Rightarrow> exit_signal option" where
  "check_stop_loss pos current_price pnl_pct =
     (if current_price \<le> pr_stop_loss_price pos then Some
        \<lparr>xs_symbol = pr_symbol pos, xs_reason = Exit_STOP_LOSS, xs_urgency = ''immediate'',
         xs_current_price = current_price, xs_trigger_price = Some (pr_stop_loss_price pos),
         xs_unrealized_pnl_pct = pnl_pct, xs_recommended_action = Act_STOP_LOSS,
         xs_reasoning = Stop_Loss_Msg current_price (pr_stop_loss_price pos) pnl_pct\<rparr>
      else None)"

definition check_take_profit :: "position_record \<Rightarrow> dec \<Rightarrow> dec \<Rightarrow> exit_signal option" where
  "check_take_profit pos current_price pnl_pct =
     (case pr_take_profit_price pos of
        None \<Rightarrow> None
      | Some tp \<Rightarrow>
          if tp \<le> current_price then Some
            \<lparr>xs_symbol = pr_symbol pos, xs_reason = Exit_TAKE_PROFIT, xs_urgency = ''end_of_day'',
             xs_current_price = current_price, xs_trigger_price = Some tp,
             xs_unrealized_pnl_pct = pnl_pct, xs_recommended_action = Act_TAKE_PROFIT,
             xs_reasoning = Take_Profit_Msg current_price tp pnl_pct\<rparr>
          else None)"

definition check_trailing_stop ::
  "position_record \<Rightarrow> dec \<Rightarrow> dec \<Rightarrow> dec \<Rightarrow> exit_signal option" where
  "check_trailing_stop pos current_price pnl_pct stop =
     (if current_price \<le> stop then Some
        \<lparr>xs_symbol = pr_symbol pos, xs_reason = TRAILING_STOP, xs_urgency = ''immediate'',
         xs_current_price = current_price, xs_trigger_price = Some stop,
         xs_unrealized_pnl_pct = pnl_pct, xs_recommended_action = Act_SELL,
         xs_reasoning = Trailing_Msg current_price stop pnl_pct\<rparr>
      else None)"

definition check_time_based ::
  "position_record \<Rightarrow> dec \<Rightarrow> dec \<Rightarrow> date \<Rightarrow> string \<Rightarrow> exit_signal option" where
  "check_time_based pos current_price pnl_pct today time_urgency =
     (case pr_max_holding_days pos of
        None \<Rightarrow> None
      | Some max_days \<Rightarrow>
          let days_held = today - pr_entry_date pos in
          if max_days \<le> days_held then Some
            \<lparr>xs_symbol = pr_symbol pos, xs_reason = TIME_BASED, xs_urgency = time_urgency,
             xs_current_price = current_price, xs_trigger_price = None,
             xs_unrealized_pnl_pct = pnl_pct, xs_recommended_action = Act_SELL,
             xs_reasoning = Time_Msg days_held max_days pnl_pct\<rparr>
          else None)"

definition check_drawdown_exit :: "dec \<Rightarrow> portfolio_state \<Rightarrow> bool" where
  "check_drawdown_exit max_drawdown_pct st \<longleftrightarrow> max_drawdown_pct < ps_drawdown_pct st"

section \<open>Lemmas\<close>

text \<open>Every signal of a check names the position's symbol, the price and its own reason.\<close>

definition signal_of :: "position_record \<Rightarrow> dec \<Rightarrow> dec \<Rightarrow> exit_reason \<Rightarrow> exit_signal \<Rightarrow> bool" where
  "signal_of pos cur pct r x \<longleftrightarrow> xs_symbol x = pr_symbol pos \<and> xs_current_price x = cur
     \<and> xs_unrealized_pnl_pct x = pct \<and> xs_reason x = r"

lemma check_signal_of:
  "check_stop_loss pos c u = Some x \<Longrightarrow> signal_of pos c u Exit_STOP_LOSS x"
  "check_take_profit pos c u = Some x \<Longrightarrow> signal_of pos c u Exit_TAKE_PROFIT x"
  "check_trailing_stop pos c u t = Some x \<Longrightarrow> signal_of pos c u TRAILING_STOP x"
  "check_time_based pos c u d g = Some x \<Longrightarrow> signal_of pos c u TIME_BASED x"
  by (auto simp: check_stop_loss_def check_take_profit_def check_trailing_stop_def
      check_time_based_def signal_of_def Let_def split: if_splits option.splits)

lemma check_None_iff:
  "check_stop_loss pos c u = None \<longleftrightarrow> pr_stop_loss_price pos < c"
  "check_take_profit pos c u = None \<longleftrightarrow> (\<forall>tp. pr_take_profit_price pos = Some tp \<longrightarrow> c < tp)"
  "check_trailing_stop pos c u t = None \<longleftrightarrow> t < c"
  "check_time_based pos c u d g = None
     \<longleftrightarrow> (\<forall>n. pr_max_holding_days pos = Some n \<longrightarrow> d - pr_entry_date pos < n)"
  by (auto simp: check_stop_loss_def check_take_profit_def check_trailing_stop_def
      check_time_based_def Let_def split: option.splits)

end
