(* ===== verification/Strategy_Exits.thy ===== *)
theory Strategy_Exits
  imports Exit_Checker
begin

text \<open>
  The exit side of the two strategies, \<open>check_exit_conditions\<close> of
  \<open>src/strategy/swing_trading.py\<close> and \<open>src/strategy/position_trading.py\<close>, and
  \<open>check_all_exit_conditions\<close> of \<open>src/strategy/base.py\<close>. The broker's \<open>get_price\<close> and
  \<open>get_daily_ohlcv\<close> are parameters that may raise. Properties: the reason of a signal is the
  first one that applies in the order stop-loss, trailing stop, take-profit, holding time;
  the stop-loss needs no bars; the ATR-based trailing stop raises on flat bars.
\<close>

type_synonym price_source = "symbol \<Rightarrow> exc + dec"
type_synonym bar_source = "symbol \<Rightarrow> int \<Rightarrow> exc + ohlcv list"

section \<open>What both strategies share\<close>

text \<open>\<open>((current_price - entry_price) / entry_price) * 100\<close>\<close>

definition unrealized_pct :: "position_record \<Rightarrow> dec \<Rightarrow> exc + dec" where
  "unrealized_pct pos current_price =
     rbind (ddiv (dsub current_price (pr_entry_price pos)) (pr_entry_price pos))
       (\<lambda>r. Inr (dmul r 100))"

definition entry_bars :: "position_record \<Rightarrow> ohlcv list \<Rightarrow> ohlcv list" where
  "entry_bars pos bars = filter (\<lambda>b. pr_entry_date pos \<le> k_date b) bars"

definition highest_high :: "ohlcv list \<Rightarrow> dec" where
  "highest_high bars = Max (set (map k_high bars))"

section \<open>Swing trading\<close>

definition swing_trailing_stop :: "bar_source \<Rightarrow> position_record \<Rightarrow> exc + dec option" where
  "swing_trailing_stop get_bars pos =
     rbind (get_bars (pr_symbol pos) 60) (\<lambda>bars.
       if entry_bars pos bars \<noteq> [] then
         rbind (trailing_stop_price (highest_high (entry_bars pos bars)) 2) (\<lambda>p. Inr (Some p))
       else Inr None)"

text \<open>
  The body of \<open>check_exit_conditions\<close>: the four checks in order, each returning at once when
  it gives a signal. The two strategies differ in the activation threshold, the trailing
  stop and the urgency of the holding-time exit.
\<close>

definition exit_cascade ::
  "price_source \<Rightarrow> dec \<Rightarrow> exc + dec option \<Rightarrow> string \<Rightarrow> date \<Rightarrow> position_record
     \<Rightarrow> exc + exit_signal option" where
  "exit_cascade get_price activate_pct trailing time_urgency today pos =
     rbind (get_price (pr_symbol pos)) (\<lambda>current_price.
     rbind (unrealized_pct pos current_price) (\<lambda>pct.
       case check_stop_loss pos current_price pct of
         Some x \<Rightarrow> Inr (Some x)
       | None \<Rightarrow>
           rbind (if activate_pct \<le> pct then
                    rbind trailing (\<lambda>t. case t of
                        None \<Rightarrow> Inr None
                      | Some stop \<Rightarrow> Inr (check_trailing_stop pos current_price pct stop))
                  else Inr None) (\<lambda>sg.
           case sg of Some x \<Rightarrow> Inr (Some x) | None \<Rightarrow>
           case check_take_profit pos current_price pct of
             Some x \<Rightarrow> Inr (Some x)
           | None \<Rightarrow> Inr (check_time_based pos current_price pct today time_urgency))))"

definition swing_check_exit ::
  "price_source \<Rightarrow> bar_source \<Rightarrow> date \<Rightarrow> position_record \<Rightarrow> exc + exit_signal option" where
  "swing_check_exit get_price get_bars today pos =
     exit_cascade get_price 3 (swing_trailing_stop get_bars pos) ''end_of_day'' today pos"

section \<open>Position trading\<close>

fun true_ranges :: "ohlcv list \<Rightarrow> dec list" where
  "true_ranges (a # b # bars) =
     max (max (dsub (k_high b) (k_low b)) (dabs (dsub (k_high b) (k_close a))))
         (dabs (dsub (k_low b) (k_close a))) # true_ranges (b # bars)"
| "true_ranges _ = []"

text \<open>\<open>true_ranges[-period:]\<close> keeps the last \<open>period\<close> entries.\<close>

definition calculate_atr :: "ohlcv list \<Rightarrow> nat \<Rightarrow> exc + dec" where
  "calculate_atr bars period =
     (if length bars < period + 1 then Inr 0
      else let trs = true_ranges bars; recent = drop (length trs - period) trs
           in ddiv (dsum recent) (of_nat period))"

definition position_trailing_stop :: "bar_source \<Rightarrow> position_record \<Rightarrow> exc + dec option" where
  "position_trailing_stop get_bars pos =
     rbind (get_bars (pr_symbol pos) 120) (\<lambda>bars.
       if entry_bars pos bars = [] then Inr None
       else
         let highest = highest_high (entry_bars pos bars);
             finish = (\<lambda>pct. rbind (trailing_stop_price highest pct) (\<lambda>p. Inr (Some p)))
         in if 15 \<le> length bars then
              rbind (calculate_atr bars 14) (\<lambda>atr.
              rbind (ddiv (dmul atr (3 / 2)) (pr_entry_price pos)) (\<lambda>r. finish (dmul r 100)))
            else case pr_trailing_stop_pct pos of
                Some pct \<Rightarrow> finish pct
              | None \<Rightarrow> Inr None)"

definition position_check_exit ::
  "price_source \<Rightarrow> bar_source \<Rightarrow> date \<Rightarrow> position_record \<Rightarrow> exc + exit_signal option" where
  "position_check_exit get_price get_bars today pos =
     exit_cascade get_price 5 (position_trailing_stop get_bars pos) ''next_session'' today pos"

section \<open>All positions of a strategy\<close>

text \<open>The loop has no \<open>try\<close>: the first position whose check raises ends it.\<close>

definition check_all_exits ::
  "(position_record \<Rightarrow> exc + exit_signal option) \<Rightarrow> position_record list \<Rightarrow> exc + exit_signal list" where
  "check_all_exits check ps =
     rfold (\<lambda>pos acc. rbind (check pos) (\<lambda>x. case x of
              Some s \<Rightarrow> Inr (acc @ [s]) | None \<Rightarrow> Inr acc)) ps []"

section \<open>Lemmas\<close>

text \<open>The first reason whose condition holds.\<close>

fun first_reason :: "(bool \<times> exit_reason) list \<Rightarrow> exit_reason option" where
  "first_reason [] = None"
| "first_reason ((c, r) # cs) = (if c then Some r else first_reason cs)"

definition exit_conditions :: "dec \<Rightarrow> dec option \<Rightarrow> date \<Rightarrow> position_record \<Rightarrow> dec \<Rightarrow> dec
    \<Rightarrow> (bool \<times> exit_reason) list" where
  "exit_conditions activate_pct stop today pos c pct =
     [(c \<le> pr_stop_loss_price pos, Exit_STOP_LOSS),
      (activate_pct \<le> pct \<and> (\<exists>t. stop = Some t \<and> c \<le> t), TRAILING_STOP),
      (\<exists>tp. pr_take_profit_price pos = Some tp \<and> tp \<le> c, Exit_TAKE_PROFIT),
      (\<exists>n. pr_max_holding_days pos = Some n \<and> n \<le> today - pr_entry_date pos, TIME_BASED)]"

lemma exit_cascade_eq:
  assumes "get_price (pr_symbol pos) = Inr c" "unrealized_pct pos c = Inr pct"
  shows "exit_cascade get_price a (Inr t) g today pos = Inr (first_some
    [check_stop_loss pos c pct,
     (if a \<le> pct then case t of None \<Rightarrow> None | Some p \<Rightarrow> check_trailing_stop pos c pct p else None),
     check_take_profit pos c pct, check_time_based pos c pct today g])"
  by (cases t; cases "check_stop_loss pos c pct"; cases "check_trailing_stop pos c pct (the t)";
      cases "check_take_profit pos c pct"; cases "check_time_based pos c pct today g")
    (simp_all add: exit_cascade_def assms)

lemma exit_cascade_reason:
  assumes "get_price (pr_symbol pos) = Inr c" "unrealized_pct pos c = Inr pct" "trailing = Inr t"
  shows "\<exists>res. exit_cascade get_price a trailing g today pos = Inr res
     \<and> map_option xs_reason res = first_reason (exit_conditions a t today pos c pct)
     \<and> (\<forall>x. res = Some x \<longrightarrow> signal_of pos c pct (xs_reason x) x)"
proof -
  define res where "res = first_some [check_stop_loss pos c pct,
     (if a \<le> pct then case t of None \<Rightarrow> None | Some p \<Rightarrow> check_trailing_stop pos c pct p else None),
     check_take_profit pos c pct, check_time_based pos c pct today g]"
  have "map_option xs_reason res = first_reason (exit_conditions a t today pos c pct)"
    by (cases t; cases "pr_take_profit_price pos"; cases "pr_max_holding_days pos")
      (simp_all add: res_def exit_conditions_def check_stop_loss_def
        check_take_profit_def check_trailing_stop_def check_time_based_def Let_def)
  moreover have "signal_of pos c pct (xs_reason x) x" if "res = Some x" for x
  proof -
    have "\<exists>r. signal_of pos c pct r x"
      using first_some_mem [OF that [unfolded res_def]] check_signal_of
      by (auto split: if_splits option.splits) metis+
    then show ?thesis by (auto simp: signal_of_def)
  qed
  ultimately show ?thesis
    using exit_cascade_eq [of get_price, OF assms(1,2)] assms(3) unfolding res_def by auto
qed

lemma exit_cascade_stop_loss:
  assumes "get_price (pr_symbol pos) = Inr c" "unrealized_pct pos c = Inr pct"
    and "c \<le> pr_stop_loss_price pos"
  shows "\<exists>x. exit_cascade get_price a trailing g today pos = Inr (Some x)
     \<and> xs_reason x = Exit_STOP_LOSS \<and> xs_urgency x = ''immediate''"
  using assms by (simp add: exit_cascade_def check_stop_loss_def)

lemma highest_high_ge: "b \<in> set bars \<Longrightarrow> k_high b \<le> highest_high bars"
  by (simp add: highest_high_def)

lemma highest_high_mem: "bars \<noteq> [] \<Longrightarrow> highest_high bars \<in> k_high ` set bars"
  using Max_in [of "k_high ` set bars"] by (simp add: highest_high_def)

lemma unrealized_pct_defined:
  "pr_entry_price pos \<noteq> 0 \<Longrightarrow> unrealized_pct pos c
     = Inr (dmul (dquo (dsub c (pr_entry_price pos)) (pr_entry_price pos)) 100)"
  by (simp add: unrealized_pct_def res_simps)

text \<open>With positive highs the fixed 2% trail never raises and stays below the highest high.\<close>

lemma swing_trailing_stop_defined:
  assumes "get_bars (pr_symbol pos) 60 = Inr bars"
    and "\<And>b. b \<in> set bars \<Longrightarrow> 0 < k_high b \<and> is_dec (k_high b)"
  shows "\<exists>t. swing_trailing_stop get_bars pos = Inr t
    \<and> (t = None \<longleftrightarrow> entry_bars pos bars = [])
    \<and> (\<forall>p. t = Some p \<longrightarrow> 0 < p \<and> p \<le> highest_high (entry_bars pos bars))"
proof (cases "entry_bars pos bars = []")
  case True
  then show ?thesis by (simp add: swing_trailing_stop_def assms(1))
next
  case False
  define h where "h = highest_high (entry_bars pos bars)"
  have h: "0 < h" "is_dec h"
    using highest_high_mem [OF False] assms(2) by (auto simp: h_def entry_bars_def)
  then obtain p where p: "trailing_stop_price h 2 = Inr p" by (simp add: trailing_stop_price_def)
  with h trailing_stop_price_le [OF p] False assms(1) show ?thesis
    by (simp add: swing_trailing_stop_def h_def)
qed

lemma true_ranges_length: "length (true_ranges bars) = length bars - 1"
  by (induction bars rule: true_ranges.induct) auto

lemma true_ranges_nonneg: "\<forall>b \<in> set bars. k_low b \<le> k_high b \<Longrightarrow> r \<in> set (true_ranges bars) \<Longrightarrow> 0 \<le> r"
  by (induction bars rule: true_ranges.induct) (auto simp: le_max_iff_disj)

text \<open>A halted stock: every bar is flat at one price.\<close>

definition flat_at :: "dec \<Rightarrow> ohlcv \<Rightarrow> bool" where
  "flat_at c b \<longleftrightarrow> k_open b = c \<and> k_high b = c \<and> k_low b = c \<and> k_close b = c"

lemma true_ranges_flat: "\<forall>b \<in> set bars. flat_at c b \<Longrightarrow> r \<in> set (true_ranges bars) \<Longrightarrow> r = 0"
  by (induction bars rule: true_ranges.induct) (auto simp: flat_at_def dsub_def dabs_def)

lemma dsum_zeros: "(\<And>r. r \<in> set xs \<Longrightarrow> r = 0) \<Longrightarrow> dsum xs = 0"
proof -
  have "foldl dadd 0 xs = 0" if "\<forall>r \<in> set xs. r = 0" for xs
    using that by (induction xs) (auto simp: dadd_def)
  then show "(\<And>r. r \<in> set xs \<Longrightarrow> r = 0) \<Longrightarrow> dsum xs = 0" by (simp add: dsum_def)
qed

lemma calculate_atr_nonneg:
  assumes "calculate_atr bars n = Inr a" "\<forall>b \<in> set bars. k_low b \<le> k_high b"
  shows "0 \<le> a"
proof -
  have "0 \<le> dsum (drop k (true_ranges bars))" for k
  proof -
    show ?thesis using true_ranges_nonneg [OF assms(2)] by (intro dsum_nonneg) (meson in_set_dropD)
  qed
  with assms(1) show ?thesis
    by (auto simp: calculate_atr_def Let_def res_simps split: if_splits intro!: dec_nonneg)
qed

lemma calculate_atr_flat:
  assumes "\<forall>b \<in> set bars. flat_at c b" "0 < n"
  shows "calculate_atr bars n = Inr 0"
proof -
  have "dsum (drop k (true_ranges bars)) = 0" for k
    using true_ranges_flat [OF assms(1)] by (intro dsum_zeros) (meson in_set_dropD)
  with assms(2) show ?thesis by (simp add: calculate_atr_def Let_def res_simps dquo_def)
qed

section \<open>Properties\<close>

text \<open>
  Swing check_exit_conditions: with a price, a positive entry price and bars with positive
  highs it never raises; the reason of the signal (or its absence) is the first condition
  that holds in the order stop-loss, trailing stop (active from +3%, 2% under the highest
  high since entry), take-profit, holding time; the signal carries the position's symbol, the
  current price and the percentage.
\<close>

theorem swing_exit_decision:
  assumes "get_price (pr_symbol pos) = Inr c" "0 < pr_entry_price pos"
    and "get_bars (pr_symbol pos) 60 = Inr bars"
    and "\<And>b. b \<in> set bars \<Longrightarrow> 0 < k_high b \<and> is_dec (k_high b)"
  shows "\<exists>pct t res. unrealized_pct pos c = Inr pct \<and> swing_trailing_stop get_bars pos = Inr t
     \<and> swing_check_exit get_price get_bars today pos = Inr res
     \<and> map_option xs_reason res = first_reason (exit_conditions 3 t today pos c pct)
     \<and> (\<forall>x. res = Some x \<longrightarrow> signal_of pos c pct (xs_reason x) x)
     \<and> (\<forall>p. t = Some p \<longrightarrow> 0 < p \<and> p \<le> highest_high (entry_bars pos bars))"
proof -
  obtain pct where pct: "unrealized_pct pos c = Inr pct"
    using unrealized_pct_defined assms(2) by force
  obtain t where t: "swing_trailing_stop get_bars pos = Inr t"
    "\<forall>p. t = Some p \<longrightarrow> 0 < p \<and> p \<le> highest_high (entry_bars pos bars)"
    using swing_trailing_stop_defined [of get_bars, OF assms(3,4)] by blast
  with pct exit_cascade_reason [of get_price, OF assms(1) pct t(1)] show ?thesis
    unfolding swing_check_exit_def by blast
qed

definition sample_position :: position_record where
  "sample_position = \<lparr>pr_id = 1, pr_account_id = ''default'', pr_symbol = ''005930'',
     pr_strategy_type = ''swing'', pr_quantity = 10, pr_avg_cost = 50000, pr_entry_price = 50000,
     pr_entry_date = 738000, pr_stop_loss_price = 48500, pr_take_profit_price = Some 52500,
     pr_trailing_stop_pct = Some 2, pr_max_holding_days = Some 10, pr_status = ''open'',
     pr_exit_price = None, pr_exit_date = None, pr_exit_reason = None, pr_realized_pnl = None,
     pr_entry_session_id = None, pr_exit_session_id = None\<rparr>"

definition sample_bar :: "date \<Rightarrow> dec \<Rightarrow> dec \<Rightarrow> dec \<Rightarrow> ohlcv" where
  "sample_bar d h l c = \<lparr>k_symbol = ''005930'', k_date = d, k_open = c, k_high = h, k_low = l,
     k_close = c, k_volume = 1000\<rparr>"

theorem swing_exit_decision_witness:
  "\<exists>res. swing_check_exit (\<lambda>_. Inr 52000) (\<lambda>_ _. Inr [sample_bar 738001 54000 50000 53000]) 738002
     sample_position = Inr res \<and> map_option xs_reason res = Some TRAILING_STOP"
proof -
  define bars where "bars = [sample_bar 738001 54000 50000 53000]"
  have u: "unrealized_pct sample_position 52000 = Inr 4"
    by (simp add: unrealized_pct_def sample_position_def dec_eval)
  have t: "swing_trailing_stop (\<lambda>_ _. Inr bars) sample_position = Inr (Some 52920)"
    by (simp add: swing_trailing_stop_def entry_bars_def sample_position_def sample_bar_def bars_def
        highest_high_def trailing_stop_price_def dec_eval)
  have f: "first_reason (exit_conditions 3 (Some 52920) 738002 sample_position 52000 4) = Some TRAILING_STOP"
    by (simp add: exit_conditions_def sample_position_def)
  have "\<exists>pct t res. unrealized_pct sample_position 52000 = Inr pct
     \<and> swing_trailing_stop (\<lambda>_ _. Inr bars) sample_position = Inr t
     \<and> swing_check_exit (\<lambda>_. Inr 52000) (\<lambda>_ _. Inr bars) 738002 sample_position = Inr res
     \<and> map_option xs_reason res = first_reason (exit_conditions 3 t 738002 sample_position 52000 pct)
     \<and> (\<forall>x. res = Some x \<longrightarrow> signal_of sample_position 52000 pct (xs_reason x) x)
     \<and> (\<forall>p. t = Some p \<longrightarrow> 0 < p \<and> p \<le> highest_high (entry_bars sample_position bars))"
    by (rule swing_exit_decision) (auto simp: sample_position_def bars_def sample_bar_def)
  then obtain res where
    "swing_check_exit (\<lambda>_. Inr 52000) (\<lambda>_ _. Inr bars) 738002 sample_position = Inr res"
    "map_option xs_reason res = Some TRAILING_STOP"
    unfolding u t by (auto simp: f)
  then show ?thesis unfolding bars_def by blast
qed

text \<open>
  Position check_exit_conditions: a position 5% or more in profit whose last bars are all flat
  at one price (a halted stock) makes the ATR 0, so the trailing percentage is 0 and the
  trailing-stop calculation raises ValueError out of the check, whatever its take-profit and
  holding time say.
\<close>

theorem position_exit_flat_raises:
  assumes "get_price (pr_symbol pos) = Inr c" "unrealized_pct pos c = Inr pct" "5 \<le> pct"
    and "pr_stop_loss_price pos < c" "get_bars (pr_symbol pos) 120 = Inr bars"
    and "15 \<le> length bars" "\<forall>b \<in> set bars. flat_at v b" "0 < v" "entry_bars pos bars \<noteq> []"
  shows "position_check_exit get_price get_bars today pos
    = Inl (ValueError ''trailing_pct must be positive'')"
proof -
  have nz: "pr_entry_price pos \<noteq> 0"
    using assms(2) by (auto simp: unrealized_pct_def res_simps)
  have "highest_high (entry_bars pos bars) = v"
    using highest_high_mem [OF assms(9)] assms(7) by (auto simp: entry_bars_def flat_at_def)
  moreover have "calculate_atr bars 14 = Inr 0" using assms(7) by (intro calculate_atr_flat) simp_all
  ultimately have "position_trailing_stop get_bars pos = Inl (ValueError ''trailing_pct must be positive'')"
    using assms nz
    by (simp add: position_trailing_stop_def Let_def res_simps dmul_def dquo_def trailing_stop_price_def)
  with assms(1-4) show ?thesis
    by (simp add: position_check_exit_def exit_cascade_def check_stop_loss_def)
qed

theorem position_exit_flat_raises_witness:
  "position_check_exit (\<lambda>_. Inr 53000) (\<lambda>_ _. Inr (replicate 20 (sample_bar 738005 53000 53000 53000)))
     738006 sample_position = Inl (ValueError ''trailing_pct must be positive'')"
proof (rule position_exit_flat_raises [where v = 53000 and pct = 6 and c = 53000
      and bars = "replicate 20 (sample_bar 738005 53000 53000 53000)"])
  show "unrealized_pct sample_position 53000 = Inr 6"
    by (simp add: unrealized_pct_def sample_position_def dec_eval)
qed (simp_all add: sample_position_def sample_bar_def flat_at_def entry_bars_def filter_replicate)

lemma rfold_check_all:
  "rfold (\<lambda>pos acc. rbind (check pos) (\<lambda>x. case x of Some s \<Rightarrow> Inr (acc @ [s]) | None \<Rightarrow> Inr acc)) ps acc
     = Inr xs \<longleftrightarrow> (\<forall>p \<in> set ps. \<exists>x. check p = Inr x)
        \<and> xs = acc @ List.map_filter (\<lambda>p. case check p of Inr x \<Rightarrow> x | Inl _ \<Rightarrow> None) ps"
proof (induction ps arbitrary: acc)
  case Nil
  show ?case by (auto simp: map_filter_def)
next
  case (Cons p ps)
  show ?case
  proof (cases "check p")
    case (Inr x)
    then show ?thesis by (cases x) (auto simp: Cons.IH map_filter_def)
  qed simp
qed

text \<open>
  Check_all_exit_conditions: it returns exactly when no position's check raises, and then the
  list holds the signals of the positions that have one, in the order of the positions.
\<close>

theorem check_all_exits_spec:
  "check_all_exits check ps = Inr xs \<longleftrightarrow> (\<forall>p \<in> set ps. \<exists>x. check p = Inr x)
     \<and> xs = List.map_filter (\<lambda>p. case check p of Inr x \<Rightarrow> x | Inl _ \<Rightarrow> None) ps"
  unfolding check_all_exits_def rfold_check_all by simp

theorem check_all_exits_spec_witness:
  "check_all_exits (\<lambda>p. Inr (check_stop_loss p 48000 (- 4))) [sample_position] \<noteq> Inr []"
proof
  assume "check_all_exits (\<lambda>p. Inr (check_stop_loss p 48000 (- 4))) [sample_position] = Inr []"
  then show False
    unfolding check_all_exits_spec by (simp add: check_stop_loss_def sample_position_def map_filter_def)
qed

end
