(* ===== verification/Risk_Manager.thy ===== *)
theory Risk_Manager
  imports Models
begin

text \<open>
  \<open>src/strategy/risk_manager.py\<close>: the eight quantitative rules a BUY order passes before it is
  executed. A rule gives a violation, a warning, a quantity cap, or none of them; \<open>check\<close>
  collects them and adjusts the quantity. The portfolio state comes from
  \<open>PortfolioStateService\<close>, the daily closes from a database query, and \<open>pct_change\<close> and \<open>corr\<close>
  from pandas: they are parameters. The symbols held form a Python set, here the list of the
  distinct symbols; its order shows only in the text of the correlation warning.
\<close>

datatype risk_warning =
    No_Stop_Loss
  | Entry_Equals_Stop
  | Correlation_Data_Missing symbol nat
  | High_Correlation "(symbol \<times> rat) list"
  | Zero_Portfolio

record rule_result =
  violation :: "string option"
  warning :: "risk_warning option"
  max_quantity :: "int option"

definition no_finding :: rule_result where
  "no_finding = \<lparr>violation = None, warning = None, max_quantity = None\<rparr>"

definition cap_result :: "bool \<Rightarrow> string \<Rightarrow> int \<Rightarrow> rule_result" where
  "cap_result violated name cap =
     \<lparr>violation = (if violated then Some name else None), warning = None, max_quantity = Some cap\<rparr>"

definition block_result :: "bool \<Rightarrow> string \<Rightarrow> rule_result" where
  "block_result violated name = (if violated then cap_result True name 0 else no_finding)"

datatype risk_reasoning =
    Exempt
  | Invalid_Price
  | Portfolio_Is_Zero
  | Checked bool "string list" "risk_warning list" int int

record risk_check_result =
  rk_passed :: bool
  rk_symbol :: symbol
  rk_violations :: "string list"
  rk_warnings :: "risk_warning list"
  rk_adjusted_quantity :: int
  rk_adjusted_amount_krw :: dec
  rk_max_allowed_quantity :: int
  rk_reasoning :: risk_reasoning

section \<open>The eight rules\<close>

definition check_position_sizing ::
  "settings \<Rightarrow> portfolio_state \<Rightarrow> int \<Rightarrow> dec \<Rightarrow> dec option \<Rightarrow> rule_result" where
  "check_position_sizing st ps quantity price stop_loss_price =
     (case stop_loss_price of
        None \<Rightarrow> no_finding\<lparr>warning := Some No_Stop_Loss\<rparr>
      | Some stop \<Rightarrow>
          let risk_per_share = dabs (dsub price stop) in
          if risk_per_share = 0 then no_finding\<lparr>warning := Some Entry_Equals_Stop\<rparr>
          else
            let max_risk = dquo (dmul (ps_total_value ps) (RISK_PER_TRADE_PCT st)) 100;
                risk_amount = dmul (of_int quantity) risk_per_share;
                max_qty = dint (dquo max_risk risk_per_share)
            in cap_result (max_risk < risk_amount) ''RISK_PER_TRADE'' max_qty)"

definition existing_value :: "portfolio_state \<Rightarrow> symbol \<Rightarrow> dec" where
  "existing_value ps s = dsum (map p_market_value (filter (\<lambda>p. p_symbol p = s) (ps_positions ps)))"

definition position_limit :: "settings \<Rightarrow> portfolio_state \<Rightarrow> dec" where
  "position_limit st ps =
     min (dquo (dmul (ps_total_value ps) (MAX_POSITION_PCT st)) 100) (of_int (MAX_POSITION_SIZE_KRW st))"

definition check_max_position ::
  "settings \<Rightarrow> portfolio_state \<Rightarrow> symbol \<Rightarrow> int \<Rightarrow> dec \<Rightarrow> rule_result" where
  "check_max_position st ps s quantity price =
     (let existing = existing_value ps s;
          new_total = dadd existing (dmul (of_int quantity) price);
          limit = position_limit st ps;
          remaining = dsub limit existing;
          max_qty = (if remaining \<le> 0 then 0 else dint (dquo remaining price))
      in cap_result (limit < new_total) ''MAX_POSITION'' max_qty)"

definition current_symbols :: "portfolio_state \<Rightarrow> symbol list" where
  "current_symbols ps = remdups (map p_symbol (ps_positions ps))"

definition check_max_holdings :: "settings \<Rightarrow> portfolio_state \<Rightarrow> symbol \<Rightarrow> rule_result" where
  "check_max_holdings st ps s =
     (if s \<in> set (current_symbols ps) then no_finding
      else block_result (MAX_PORTFOLIO_POSITIONS st \<le> int (length (current_symbols ps))) ''MAX_HOLDINGS'')"

definition sector_pct :: "portfolio_state \<Rightarrow> string \<Rightarrow> dec" where
  "sector_pct ps sector = (case dict_get (ps_sector_allocations ps) sector of None \<Rightarrow> 0 | Some v \<Rightarrow> v)"

definition check_sector_concentration ::
  "settings \<Rightarrow> portfolio_state \<Rightarrow> symbol \<Rightarrow> int \<Rightarrow> dec \<Rightarrow> string \<Rightarrow> rule_result" where
  "check_sector_concentration st ps s quantity price sector =
     (let current_pct = sector_pct ps sector;
          additional_pct = dmul (dquo (dmul (of_int quantity) price) (ps_total_value ps)) 100;
          new_pct = dadd current_pct additional_pct;
          limit = SECTOR_CONCENTRATION_PCT st;
          allowed_pct = dsub limit current_pct;
          max_qty = (if allowed_pct \<le> 0 then 0
                     else dint (dquo (dmul (dquo allowed_pct 100) (ps_total_value ps)) price))
      in cap_result (limit < new_pct) ''SECTOR_CONCENTRATION'' max_qty)"

definition check_max_drawdown :: "settings \<Rightarrow> portfolio_state \<Rightarrow> rule_result" where
  "check_max_drawdown st ps = block_result (MAX_DRAWDOWN_PCT st \<le> ps_drawdown_pct ps) ''MAX_DRAWDOWN''"

definition check_daily_loss_limit :: "settings \<Rightarrow> portfolio_state \<Rightarrow> rule_result" where
  "check_daily_loss_limit st ps =
     (let violations =
            (if ps_daily_pnl_pct ps < dneg (DAILY_LOSS_LIMIT_PCT st) then [''DAILY_LOSS_PCT''] else [])
          @ (if ps_daily_pnl ps < dneg (of_int (DAILY_LOSS_LIMIT_KRW st)) then [''DAILY_LOSS_KRW''] else [])
      in block_result (violations \<noteq> []) ''DAILY_LOSS_LIMIT'')"

definition check_daily_trades :: "settings \<Rightarrow> portfolio_state \<Rightarrow> rule_result" where
  "check_daily_trades st ps =
     block_result (MAX_DAILY_TRADES st \<le> ps_daily_trade_count ps) ''MAX_DAILY_TRADES''"

section \<open>Correlation\<close>

type_synonym series = "(date \<times> rat) list"

text \<open>
  \<open>fetch s n\<close> is the query for the last \<open>n\<close> closes, newest first; any exception in it is
  logged and gives None.
\<close>

definition get_daily_returns ::
  "(symbol \<Rightarrow> nat \<Rightarrow> exc + series) \<Rightarrow> (series \<Rightarrow> series) \<Rightarrow> symbol \<Rightarrow> series option" where
  "get_daily_returns fetch pct_change s =
     (case fetch s 61 of
        Inl e \<Rightarrow> None
      | Inr rows \<Rightarrow> if length rows < 2 then None else Some (pct_change (rev rows)))"

text \<open>\<open>corr\<close> is the pandas method on the rows with a common date, None for a NaN.\<close>

definition pearson_correlation ::
  "(series \<Rightarrow> series \<Rightarrow> rat option) \<Rightarrow> series \<Rightarrow> series \<Rightarrow> rat option" where
  "pearson_correlation corr s1 s2 =
     (let common = filter (\<lambda>d. d \<in> set (map fst s2)) (map fst s1) in
      if length common < 20 then None
      else corr (filter (\<lambda>r. fst r \<in> set common) s1) (filter (\<lambda>r. fst r \<in> set common) s2))"

record market_data =
  md_fetch :: "symbol \<Rightarrow> nat \<Rightarrow> exc + series"
  md_pct_change :: "series \<Rightarrow> series"
  md_corr :: "series \<Rightarrow> series \<Rightarrow> rat option"

definition md_returns :: "market_data \<Rightarrow> symbol \<Rightarrow> series option" where
  "md_returns md = get_daily_returns (md_fetch md) (md_pct_change md)"

definition high_corr_pairs ::
  "settings \<Rightarrow> market_data \<Rightarrow> series \<Rightarrow> symbol list \<Rightarrow> (symbol \<times> rat) list" where
  "high_corr_pairs st md candidate_returns holding =
     List.map_filter (\<lambda>h. case md_returns md h of
         None \<Rightarrow> None
       | Some h_returns \<Rightarrow>
           if length h_returns < 20 then None
           else case pearson_correlation (md_corr md) candidate_returns h_returns of
               None \<Rightarrow> None
             | Some c \<Rightarrow> if CORRELATION_THRESHOLD st \<le> c then Some (h, c) else None) holding"

definition check_correlation ::
  "settings \<Rightarrow> market_data \<Rightarrow> portfolio_state \<Rightarrow> symbol \<Rightarrow> rule_result" where
  "check_correlation st md ps s =
     (if ps_positions ps = [] then no_finding
      else let holding = filter (\<lambda>h. h \<noteq> s) (current_symbols ps) in
        if holding = [] then no_finding
        else case md_returns md s of
            None \<Rightarrow> no_finding\<lparr>warning := Some (Correlation_Data_Missing s 0)\<rparr>
          | Some candidate_returns \<Rightarrow>
              if length candidate_returns < 20
              then no_finding\<lparr>warning := Some (Correlation_Data_Missing s (length candidate_returns))\<rparr>
              else let pairs = high_corr_pairs st md candidate_returns holding in
                if pairs \<noteq> [] then no_finding\<lparr>warning := Some (High_Correlation pairs)\<rparr>
                else no_finding)"

section \<open>The check\<close>

definition rule_results ::
  "settings \<Rightarrow> market_data \<Rightarrow> portfolio_state \<Rightarrow> symbol \<Rightarrow> int \<Rightarrow> dec \<Rightarrow> dec option \<Rightarrow> string
     \<Rightarrow> rule_result list" where
  "rule_results st md ps s quantity price stop_loss_price sector =
     [check_position_sizing st ps quantity price stop_loss_price,
      check_max_position st ps s quantity price,
      check_max_holdings st ps s,
      check_sector_concentration st ps s quantity price sector,
      check_max_drawdown st ps,
      check_daily_loss_limit st ps,
      check_correlation st md ps s,
      check_daily_trades st ps]"

definition violations_of :: "rule_result list \<Rightarrow> string list" where
  "violations_of rs = List.map_filter violation rs"

definition caps_of :: "rule_result list \<Rightarrow> int list" where
  "caps_of rs = List.map_filter max_quantity rs"

definition has_block :: "rule_result list \<Rightarrow> bool" where
  "has_block rs \<longleftrightarrow> (\<exists>r \<in> set rs. violation r \<noteq> None \<and> max_quantity r = Some 0)"

definition adjust_quantity :: "rule_result list \<Rightarrow> int \<Rightarrow> int" where
  "adjust_quantity rs quantity =
     (if has_block rs then 0
      else if caps_of rs \<noteq> [] then max 0 (min quantity (Min (set (caps_of rs))))
      else quantity)"

definition max_allowed :: "rule_result list \<Rightarrow> int \<Rightarrow> int" where
  "max_allowed rs quantity = max 0 (if caps_of rs \<noteq> [] then Min (set (caps_of rs)) else quantity)"

definition build_reasoning ::
  "bool \<Rightarrow> string list \<Rightarrow> risk_warning list \<Rightarrow> int \<Rightarrow> int \<Rightarrow> risk_reasoning" where
  "build_reasoning passed violations warnings original_qty adjusted_qty =
     Checked passed violations warnings original_qty adjusted_qty"

definition rejected_result :: "symbol \<Rightarrow> string \<Rightarrow> risk_warning list \<Rightarrow> risk_reasoning \<Rightarrow> risk_check_result" where
  "rejected_result s v ws why =
     \<lparr>rk_passed = False, rk_symbol = s, rk_violations = [v], rk_warnings = ws,
      rk_adjusted_quantity = 0, rk_adjusted_amount_krw = 0, rk_max_allowed_quantity = 0,
      rk_reasoning = why\<rparr>"

definition risk_check ::
  "settings \<Rightarrow> market_data \<Rightarrow> exc + portfolio_state \<Rightarrow> symbol \<Rightarrow> signal_action \<Rightarrow> int \<Rightarrow> dec
     \<Rightarrow> dec option \<Rightarrow> string \<Rightarrow> exc + risk_check_result" where
  "risk_check st md current_state s action quantity price stop_loss_price sector =
     (if action \<in> {Sig_SELL, Sig_HOLD} then Inr
        \<lparr>rk_passed = True, rk_symbol = s, rk_violations = [], rk_warnings = [],
         rk_adjusted_quantity = quantity, rk_adjusted_amount_krw = dmul (of_int quantity) price,
         rk_max_allowed_quantity = quantity, rk_reasoning = Exempt\<rparr>
      else if price \<le> 0 then Inr (rejected_result s ''INVALID_PRICE'' [] Invalid_Price)
      else rbind current_state (\<lambda>ps.
        if ps_total_value ps \<le> 0
        then Inr (rejected_result s ''ZERO_PORTFOLIO'' [Zero_Portfolio] Portfolio_Is_Zero)
        else
          let results = rule_results st md ps s quantity price stop_loss_price sector;
              violations = violations_of results;
              warnings = List.map_filter warning results;
              adjusted_quantity = adjust_quantity results quantity;
              passed = (violations = [])
          in Inr \<lparr>rk_passed = passed, rk_symbol = s, rk_violations = violations,
               rk_warnings = warnings, rk_adjusted_quantity = adjusted_quantity,
               rk_adjusted_amount_krw = dmul (of_int adjusted_quantity) price,
               rk_max_allowed_quantity = max_allowed results quantity,
               rk_reasoning = build_reasoning passed violations warnings quantity adjusted_quantity\<rparr>))"

section \<open>Lemmas\<close>

lemmas rule_defs = check_position_sizing_def check_max_position_def check_max_holdings_def
  check_sector_concentration_def check_max_drawdown_def check_daily_loss_limit_def
  check_daily_trades_def

lemma rule_result_simps [simp]:
  "violation no_finding = None" "max_quantity no_finding = None" "warning no_finding = None"
  "violation (no_finding\<lparr>warning := w\<rparr>) = None" "max_quantity (no_finding\<lparr>warning := w\<rparr>) = None"
  "max_quantity (cap_result b n c) = Some c" "violation (cap_result b n c) = (if b then Some n else None)"
  "violation (block_result b n) = (if b then Some n else None)"
  "max_quantity (block_result b n) = (if b then Some 0 else None)"
  by (simp_all add: no_finding_def cap_result_def block_result_def)

lemma check_correlation_warns [simp]:
  "violation (check_correlation st md ps s) = None" "max_quantity (check_correlation st md ps s) = None"
  by (simp_all add: check_correlation_def Let_def split: option.splits)

lemma violations_of_Nil: "violations_of rs = [] \<longleftrightarrow> (\<forall>r \<in> set rs. violation r = None)"
  by (induction rs) (auto simp: violations_of_def map_filter_def split: option.splits)

lemma caps_of_mem: "c \<in> set (caps_of rs) \<longleftrightarrow> (\<exists>r \<in> set rs. max_quantity r = Some c)"
  by (induction rs) (auto simp: caps_of_def map_filter_def)

lemma adjust_quantity_bounds:
  assumes "0 \<le> q"
  shows "0 \<le> adjust_quantity rs q \<and> adjust_quantity rs q \<le> q"
    and "r \<in> set rs \<Longrightarrow> max_quantity r = Some c \<Longrightarrow> adjust_quantity rs q \<le> max 0 c"
    and "adjust_quantity rs q \<le> max_allowed rs q"
proof -
  show "0 \<le> adjust_quantity rs q \<and> adjust_quantity rs q \<le> q"
    using assms by (auto simp: adjust_quantity_def)
  show "adjust_quantity rs q \<le> max_allowed rs q"
    using assms by (auto simp: adjust_quantity_def max_allowed_def)
  assume "r \<in> set rs" "max_quantity r = Some c"
  then have c: "c \<in> set (caps_of rs)" by (auto simp: caps_of_mem)
  then have "Min (set (caps_of rs)) \<le> c" by simp
  moreover have "caps_of rs \<noteq> []" using c by auto
  ultimately show "adjust_quantity rs q \<le> max 0 c" using assms by (auto simp: adjust_quantity_def)
qed

text \<open>\<open>check\<close> on a BUY with a positive price and a portfolio that has value.\<close>

lemma risk_check_buy:
  assumes "0 < price" "0 < ps_total_value ps"
  shows "\<exists>r. risk_check st md (Inr ps) s Sig_BUY q price sl sector = Inr r
    \<and> rk_passed r = (violations_of (rule_results st md ps s q price sl sector) = [])
    \<and> rk_violations r = violations_of (rule_results st md ps s q price sl sector)
    \<and> rk_adjusted_quantity r = adjust_quantity (rule_results st md ps s q price sl sector) q
    \<and> rk_adjusted_amount_krw r = dmul (of_int (rk_adjusted_quantity r)) price
    \<and> rk_max_allowed_quantity r = max_allowed (rule_results st md ps s q price sl sector) q"
  using assms by (simp add: risk_check_def Let_def)

text \<open>The amounts the rules compare, for values of two decimal places below 28 digits.\<close>

definition held_value :: "portfolio_state \<Rightarrow> symbol \<Rightarrow> rat" where
  "held_value ps s = sum_list (map p_market_value (filter (\<lambda>p. p_symbol p = s) (ps_positions ps)))"

definition risk_scale_ok :: "settings \<Rightarrow> portfolio_state \<Rightarrow> symbol \<Rightarrow> dec \<Rightarrow> bool" where
  "risk_scale_ok st ps s price \<longleftrightarrow>
     on_grid 2 price \<and> on_grid 2 (ps_total_value ps) \<and> on_grid 2 (RISK_PER_TRADE_PCT st)
     \<and> on_grid 2 (MAX_POSITION_PCT st) \<and> 0 \<le> RISK_PER_TRADE_PCT st \<and> 0 \<le> MAX_POSITION_PCT st
     \<and> price * 10 ^ 2 \<le> 10 ^ 28
     \<and> ps_total_value ps * RISK_PER_TRADE_PCT st * 10 ^ 4 < 2 * 10 ^ 27
     \<and> ps_total_value ps * MAX_POSITION_PCT st * 10 ^ 4 < 2 * 10 ^ 27
     \<and> held_value ps s * 10 ^ 2 \<le> 10 ^ 28
     \<and> (\<forall>p \<in> set (ps_positions ps). on_grid 2 (p_market_value p) \<and> 0 \<le> p_market_value p)"

lemma existing_value_exact:
  assumes "risk_scale_ok st ps s price"
  shows "existing_value ps s = held_value ps s \<and> on_grid 2 (held_value ps s) \<and> 0 \<le> held_value ps s"
  using assms dsum_grid [of "map p_market_value (filter (\<lambda>p. p_symbol p = s) (ps_positions ps))" 2]
  by (simp add: existing_value_def held_value_def risk_scale_ok_def)

text \<open>What a positive quantity under the caps of rules 1 and 2 costs.\<close>

lemma sizing_cap_money:
  assumes "risk_scale_ok st ps s price" "0 < ps_total_value ps" "0 < n"
    and "on_grid 2 stop" "\<bar>price - stop\<bar> * 10 ^ 2 \<le> 10 ^ 28" "price \<noteq> stop"
    and "max_quantity (check_position_sizing st ps q price (Some stop)) = Some c" "n \<le> c"
  shows "of_int n * \<bar>price - stop\<bar> \<le> ps_total_value ps * RISK_PER_TRADE_PCT st / 100"
proof -
  note sc = assms(1) [unfolded risk_scale_ok_def]
  have g: "on_grid 2 (price - stop)" "on_grid 2 \<bar>price - stop\<bar>"
    using sc assms(4) by (auto intro: on_grid_abs on_grid_diff)
  have risk: "dabs (dsub price stop) = \<bar>price - stop\<bar>"
    using fix28_grid [OF g(1)] fix28_grid [OF g(2)] assms(5) by (simp add: dabs_def dsub_def)
  have B: "dquo (dmul (ps_total_value ps) (RISK_PER_TRADE_PCT st)) 100 = ps_total_value ps * RISK_PER_TRADE_PCT st / 100"
    and B6: "on_grid 6 (ps_total_value ps * RISK_PER_TRADE_PCT st / 100)"
    using pct_share_exact [of "ps_total_value ps" "RISK_PER_TRADE_PCT st", OF _ _ less_imp_le [OF assms(2)]] sc
    by blast+
  have "c = dint (dquo (dquo (dmul (ps_total_value ps) (RISK_PER_TRADE_PCT st)) 100) \<bar>price - stop\<bar>)"
    using assms(6,7) by (simp add: check_position_sizing_def Let_def risk)
  then have "n \<le> dint (dquo (ps_total_value ps * RISK_PER_TRADE_PCT st / 100) \<bar>price - stop\<bar>)"
    using assms(8) unfolding B by simp
  then show ?thesis
    using B6 sc assms(2,6) on_grid_lift [OF g(2), of 4]
    by (subst (asm) dint_dquo_le_iff [where g = 6]) simp_all
qed

lemma position_cap_money:
  assumes "risk_scale_ok st ps s price" "0 < ps_total_value ps" "0 < n" "0 < price"
    and "max_quantity (check_max_position st ps s q price) = Some c" "n \<le> c"
  shows "held_value ps s + of_int n * price
    \<le> min (ps_total_value ps * MAX_POSITION_PCT st / 100) (of_int (MAX_POSITION_SIZE_KRW st))"
proof -
  note sc = assms(1) [unfolded risk_scale_ok_def] and ev = existing_value_exact [OF assms(1)]
  define V P L where "V = held_value ps s" and "P = ps_total_value ps * MAX_POSITION_PCT st / 100"
    and "L = min P (of_int (MAX_POSITION_SIZE_KRW st))"
  have P: "dquo (dmul (ps_total_value ps) (MAX_POSITION_PCT st)) 100 = P" "on_grid 6 P"
    using pct_share_exact [of "ps_total_value ps" "MAX_POSITION_PCT st"] sc assms(2) by (simp_all add: P_def)
  then have L: "position_limit st ps = L" "on_grid 6 L"
    by (auto simp: position_limit_def L_def min_def)
  have V6: "on_grid 6 V" using on_grid_lift [of 2 V 4] ev by (simp add: V_def)
  have "0 < c" using assms(3,6) by simp
  then have pos: "V < L" and c: "c = dint (dquo (dsub L V) price)"
    using assms(5) dsub_pos_iff [of L V] ev L(1) by (auto simp: check_max_position_def Let_def V_def split: if_splits)
  have LP: "L \<le> P" and Pb: "P * 10 ^ 6 < 2 * 10 ^ 27" using sc by (simp_all add: L_def P_def)
  then have d: "on_grid 6 (L - V)" "0 \<le> L - V" "(L - V) * 10 ^ 6 < 2 * 10 ^ 27"
    using V6 L(2) pos ev by (auto simp: V_def intro: on_grid_diff)
  then have "dsub L V = L - V" by (simp add: dsub_def fix28_grid)
  then have "n \<le> dint (dquo (L - V) price)" using assms(6) c by simp
  then have "of_int n * price \<le> L - V"
    using d assms(4) sc on_grid_lift [of 2 price 4] by (subst (asm) dint_dquo_le_iff [where g = 6]) simp_all
  then have "V + of_int n * price \<le> L" by linarith
  then show ?thesis unfolding V_def L_def P_def .
qed

section \<open>Properties\<close>

text \<open>
  C11: check, on a BUY with a positive price and a portfolio that has value, always returns; the
  adjusted quantity is between 0 and the quantity asked for; and a drawdown at the limit, a
  daily loss beyond either limit, a used-up trade count or a new symbol with the holdings
  full make it fail with an adjusted quantity of 0.
\<close>

theorem risk_check_blocks:
  assumes "0 < price" "0 < ps_total_value ps" "0 \<le> q"
  shows "\<exists>r. risk_check st md (Inr ps) s Sig_BUY q price sl sector = Inr r
    \<and> 0 \<le> rk_adjusted_quantity r \<and> rk_adjusted_quantity r \<le> q
    \<and> rk_adjusted_quantity r \<le> rk_max_allowed_quantity r
    \<and> (MAX_DRAWDOWN_PCT st \<le> ps_drawdown_pct ps
       \<or> ps_daily_pnl_pct ps < dneg (DAILY_LOSS_LIMIT_PCT st)
       \<or> ps_daily_pnl ps < dneg (of_int (DAILY_LOSS_LIMIT_KRW st))
       \<or> MAX_DAILY_TRADES st \<le> ps_daily_trade_count ps
       \<or> s \<notin> set (current_symbols ps) \<and> MAX_PORTFOLIO_POSITIONS st \<le> int (length (current_symbols ps))
       \<longrightarrow> \<not> rk_passed r \<and> rk_adjusted_quantity r = 0)"
proof -
  define rs where "rs = rule_results st md ps s q price sl sector"
  obtain r where r: "risk_check st md (Inr ps) s Sig_BUY q price sl sector = Inr r"
    "rk_passed r = (violations_of rs = [])" "rk_adjusted_quantity r = adjust_quantity rs q"
    "rk_max_allowed_quantity r = max_allowed rs q"
    using risk_check_buy [OF assms(1,2)] unfolding rs_def by blast
  have block: "\<not> rk_passed r \<and> rk_adjusted_quantity r = 0"
    if "x \<in> set rs" "violation x \<noteq> None" "max_quantity x = Some 0" for x
    using that r by (auto simp: violations_of_Nil adjust_quantity_def has_block_def)
  have mem: "check_max_drawdown st ps \<in> set rs" "check_daily_loss_limit st ps \<in> set rs"
    "check_daily_trades st ps \<in> set rs" "check_max_holdings st ps s \<in> set rs"
    by (simp_all add: rs_def rule_results_def)
  have "\<not> rk_passed r \<and> rk_adjusted_quantity r = 0" if "MAX_DRAWDOWN_PCT st \<le> ps_drawdown_pct ps"
    using that by (intro block [OF mem(1)]) (simp_all add: check_max_drawdown_def)
  moreover have "\<not> rk_passed r \<and> rk_adjusted_quantity r = 0"
    if "ps_daily_pnl_pct ps < dneg (DAILY_LOSS_LIMIT_PCT st) \<or> ps_daily_pnl ps < dneg (of_int (DAILY_LOSS_LIMIT_KRW st))"
    using that by (intro block [OF mem(2)]) (auto simp: check_daily_loss_limit_def Let_def)
  moreover have "\<not> rk_passed r \<and> rk_adjusted_quantity r = 0" if "MAX_DAILY_TRADES st \<le> ps_daily_trade_count ps"
    using that by (intro block [OF mem(3)]) (simp_all add: check_daily_trades_def)
  moreover have "\<not> rk_passed r \<and> rk_adjusted_quantity r = 0"
    if "s \<notin> set (current_symbols ps) \<and> MAX_PORTFOLIO_POSITIONS st \<le> int (length (current_symbols ps))"
    using that by (intro block [OF mem(4)]) (simp_all add: check_max_holdings_def)
  ultimately show ?thesis
    using r(1,3,4) adjust_quantity_bounds [OF assms(3)] by auto
qed

definition sample_state :: portfolio_state where
  "sample_state = \<lparr>ps_account_id = ''default'', ps_total_value = 10000000, ps_cash = 9500000,
     ps_invested = 500000, ps_unrealized_pnl = 0, ps_daily_pnl = 0, ps_daily_pnl_pct = 0,
     ps_drawdown_pct = 12, ps_peak_value = 11000000, ps_positions = [], ps_sector_allocations = [],
     ps_daily_trade_count = 0, ps_timestamp = (738000, 600)\<rparr>"

text \<open>A market with no stored closes.\<close>

definition no_market_data :: market_data where
  "no_market_data = \<lparr>md_fetch = (\<lambda>_ _. Inr []), md_pct_change = id, md_corr = (\<lambda>_ _. None)\<rparr>"

theorem risk_check_blocks_witness:
  "\<exists>r. risk_check default_settings no_market_data (Inr sample_state) ''005930'' Sig_BUY 10 70000 None ''IT'' = Inr r
     \<and> \<not> rk_passed r \<and> rk_adjusted_quantity r = 0"
  using risk_check_blocks [of 70000 sample_state 10 default_settings no_market_data "''005930''" None "''IT''"]
  by (auto simp: sample_state_def default_settings_def)

text \<open>
  C12: check: on values of two decimal places, a positive adjusted quantity is affordable under
  the limits: with what is held of the symbol it stays within the percentage and the amount
  cap, and what is lost when the stop is hit stays within the risk per trade.
\<close>

theorem risk_check_adjusted_within_limits:
  assumes "risk_check st md (Inr ps) s Sig_BUY q price sl sector = Inr r"
    and "risk_scale_ok st ps s price" "0 \<le> q" "0 < rk_adjusted_quantity r"
  shows "held_value ps s + of_int (rk_adjusted_quantity r) * price
      \<le> min (ps_total_value ps * MAX_POSITION_PCT st / 100) (of_int (MAX_POSITION_SIZE_KRW st))
    \<and> (\<forall>stop. sl = Some stop \<and> on_grid 2 stop \<and> \<bar>price - stop\<bar> * 10 ^ 2 \<le> 10 ^ 28 \<longrightarrow>
         of_int (rk_adjusted_quantity r) * \<bar>price - stop\<bar> \<le> ps_total_value ps * RISK_PER_TRADE_PCT st / 100)"
proof -
  define rs where "rs = rule_results st md ps s q price sl sector"
  define n where "n = rk_adjusted_quantity r"
  have pos: "0 < price" "0 < ps_total_value ps"
    using assms(1,4) by (auto simp: risk_check_def rejected_result_def split: if_splits)
  have n: "n = adjust_quantity rs q" "0 < n"
    using risk_check_buy [OF pos, of st md s q sl sector] assms(1,4) by (simp_all add: rs_def n_def)
  have cap: "n \<le> c" if "x \<in> set rs" "max_quantity x = Some c" for x c
    using adjust_quantity_bounds(2) [OF assms(3) that] n by (simp add: max_def split: if_splits)
  have "held_value ps s + of_int n * price
      \<le> min (ps_total_value ps * MAX_POSITION_PCT st / 100) (of_int (MAX_POSITION_SIZE_KRW st))"
  proof -
    obtain c where c: "max_quantity (check_max_position st ps s q price) = Some c"
      by (simp add: check_max_position_def Let_def)
    have "check_max_position st ps s q price \<in> set rs" by (simp add: rs_def rule_results_def)
    from cap [OF this c] c show ?thesis using assms(2) pos n(2) by (intro position_cap_money) auto
  qed
  moreover have "of_int n * \<bar>price - stop\<bar> \<le> ps_total_value ps * RISK_PER_TRADE_PCT st / 100"
    if stop: "sl = Some stop" "on_grid 2 stop" "\<bar>price - stop\<bar> * 10 ^ 2 \<le> 10 ^ 28" for stop
  proof (cases "price = stop")
    case True
    then show ?thesis using assms(2) pos by (simp add: risk_scale_ok_def)
  next
    case False
    then obtain c where c: "max_quantity (check_position_sizing st ps q price (Some stop)) = Some c"
      by (simp add: check_position_sizing_def Let_def dabs_eq_0_iff dsub_eq_0_iff)
    have "check_position_sizing st ps q price (Some stop) \<in> set rs"
      by (simp add: rs_def rule_results_def stop(1))
    from cap [OF this c] c False stop show ?thesis
      using assms(2) pos n(2) by (intro sizing_cap_money) auto
  qed
  ultimately show ?thesis unfolding n_def by blast
qed

theorem risk_check_adjusted_within_limits_witness:
  "\<exists>r. risk_check default_settings no_market_data (Inr (sample_state\<lparr>ps_drawdown_pct := 0\<rparr>)) ''005930'' Sig_BUY 40
       50000 (Some 48000) ''IT'' = Inr r
     \<and> rk_adjusted_quantity r = 20 \<and> of_int (rk_adjusted_quantity r) * 50000 \<le> (1000000 :: rat)"
proof -
  define ps where "ps = sample_state\<lparr>ps_drawdown_pct := 0\<rparr>"
  obtain r where r: "risk_check default_settings no_market_data (Inr ps) ''005930'' Sig_BUY 40 50000 (Some 48000) ''IT'' = Inr r"
    "rk_adjusted_quantity r
       = adjust_quantity (rule_results default_settings no_market_data ps ''005930'' 40 50000 (Some 48000) ''IT'') 40"
    using risk_check_buy [of 50000 ps default_settings no_market_data "''005930''" 40 "Some 48000" "''IT''"]
    by (auto simp: ps_def sample_state_def)
  have "rule_results default_settings no_market_data ps ''005930'' 40 50000 (Some 48000) ''IT''
    = [cap_result False ''RISK_PER_TRADE'' 100, cap_result True ''MAX_POSITION'' 20, no_finding,
       cap_result False ''SECTOR_CONCENTRATION'' 60, no_finding, no_finding, no_finding, no_finding]"
    by (simp add: rule_results_def rule_defs check_correlation_def ps_def sample_state_def default_settings_def
        position_limit_def existing_value_def current_symbols_def sector_pct_def block_result_def dec_eval)
  then have "rk_adjusted_quantity r = 20"
    by (simp add: r(2) adjust_quantity_def has_block_def caps_of_def map_filter_def)
  moreover have "risk_scale_ok default_settings ps ''005930'' 50000"
    by (simp add: risk_scale_ok_def ps_def sample_state_def default_settings_def held_value_def)
  ultimately show ?thesis
    using risk_check_adjusted_within_limits [OF r(1)] r(1)
    by (auto simp: ps_def sample_state_def default_settings_def held_value_def)
qed

text \<open>Check: an order that passes also passes with any smaller quantity.\<close>

theorem risk_check_antimono:
  assumes "risk_check st md (Inr ps) s Sig_BUY q price sl sector = Inr r" "rk_passed r"
    and "risk_check st md (Inr ps) s Sig_BUY q' price sl sector = Inr r'" "q' \<le> q"
  shows "rk_passed r'"
proof -
  have pos: "0 < price" "0 < ps_total_value ps"
    using assms(1,2) by (auto simp: risk_check_def rejected_result_def split: if_splits)
  have v: "violations_of (rule_results st md ps s q price sl sector) = []"
    using risk_check_buy [OF pos, of st md s q sl sector] assms(1,2) by simp
  have m: "dmul (of_int q') x \<le> dmul (of_int q) x" if "0 \<le> x" for x
    using that assms(4) by (simp add: dmul_def d28.rnd_mono mult_right_mono)
  have "violation (check_position_sizing st ps q' price sl) = None"
  proof (cases sl)
    case (Some stop)
    with v m [of "dabs (dsub price stop)"] show ?thesis
      by (auto simp: violations_of_Nil rule_results_def check_position_sizing_def Let_def split: if_splits)
  qed (simp add: check_position_sizing_def)
  moreover have "violation (check_max_position st ps s q' price) = None"
  proof -
    have "dadd (existing_value ps s) (dmul (of_int q') price) \<le> dadd (existing_value ps s) (dmul (of_int q) price)"
      using m pos by (simp add: dadd_def d28.rnd_mono)
    then show ?thesis
      using v by (auto simp: violations_of_Nil rule_results_def check_max_position_def Let_def split: if_splits)
  qed
  moreover have "violation (check_sector_concentration st ps s q' price sector) = None"
  proof -
    have "dmul (of_int q') price / ps_total_value ps \<le> dmul (of_int q) price / ps_total_value ps"
      using m pos by (simp add: divide_right_mono)
    then have "dadd (sector_pct ps sector) (dmul (dquo (dmul (of_int q') price) (ps_total_value ps)) 100)
        \<le> dadd (sector_pct ps sector) (dmul (dquo (dmul (of_int q) price) (ps_total_value ps)) 100)"
      by (simp add: dadd_def dmul_def dquo_def d28.rnd_mono)
    then show ?thesis
      using v by (auto simp: violations_of_Nil rule_results_def check_sector_concentration_def Let_def
          split: if_splits intro: order_trans)
  qed
  ultimately have "violations_of (rule_results st md ps s q' price sl sector) = []"
    using v by (simp add: violations_of_Nil rule_results_def)
  then show ?thesis using risk_check_buy [OF pos, of st md s q' sl sector] assms(3) by simp
qed

theorem risk_check_antimono_witness:
  "\<exists>r. risk_check default_settings no_market_data (Inr (sample_state\<lparr>ps_drawdown_pct := 0\<rparr>)) ''005930'' Sig_BUY 7
       50000 (Some 48000) ''IT'' = Inr r \<and> rk_passed r"
proof -
  define ps where "ps = sample_state\<lparr>ps_drawdown_pct := 0\<rparr>"
  note ex = risk_check_buy [of 50000 ps default_settings no_market_data "''005930''" _ "Some 48000" "''IT''"]
  have pos: "(0 :: rat) < 50000" "0 < ps_total_value ps" by (simp_all add: ps_def sample_state_def)
  obtain r where r: "risk_check default_settings no_market_data (Inr ps) ''005930'' Sig_BUY 20 50000 (Some 48000) ''IT'' = Inr r"
    "rk_passed r = (violations_of (rule_results default_settings no_market_data ps ''005930'' 20 50000 (Some 48000) ''IT'') = [])"
    using ex [OF pos, of 20] by blast
  obtain r' where r': "risk_check default_settings no_market_data (Inr ps) ''005930'' Sig_BUY 7 50000 (Some 48000) ''IT'' = Inr r'"
    using ex [OF pos, of 7] by blast
  have "rk_passed r"
    by (simp add: r(2) violations_of_Nil rule_results_def rule_defs check_correlation_def ps_def
        sample_state_def default_settings_def position_limit_def existing_value_def current_symbols_def
        sector_pct_def block_result_def dec_eval)
  from risk_check_antimono [OF r(1) this r'] r' show ?thesis unfolding ps_def by simp
qed

end
