(* ===== verification/Position_Manager.thy ===== *)
theory Position_Manager
  imports Models
begin

text \<open>
  \<open>src/strategy/position_manager.py\<close>: the \<open>positions\<close> table and its operations. The table is
  the list of its rows in the order of their ids with the next id; a session that fails
  (\<open>up = False\<close>) raises DatabaseError and, being rolled back, leaves the table as it was.
  Amounts are stored as given (the columns hold two decimal places). What other components
  rely on is the locale \<open>position_store\<close>, interpreted on these operations.
\<close>

record position_table =
  pt_rows :: "position_record list"
  pt_next_id :: int

text \<open>The keyword arguments of \<open>create\<close>.\<close>

record position_args =
  pa_symbol :: symbol
  pa_strategy_type :: string
  pa_quantity :: int
  pa_entry_price :: dec
  pa_stop_loss_price :: dec
  pa_take_profit_price :: "dec option"
  pa_trailing_stop_pct :: "dec option"
  pa_max_holding_days :: "int option"
  pa_entry_session_id :: "uuid option"
  pa_account_id :: string

definition new_record :: "date \<Rightarrow> position_args \<Rightarrow> int \<Rightarrow> position_record" where
  "new_record today a i = \<lparr>pr_id = i, pr_account_id = pa_account_id a, pr_symbol = pa_symbol a,
     pr_strategy_type = pa_strategy_type a, pr_quantity = pa_quantity a,
     pr_avg_cost = pa_entry_price a, pr_entry_price = pa_entry_price a, pr_entry_date = today,
     pr_stop_loss_price = pa_stop_loss_price a, pr_take_profit_price = pa_take_profit_price a,
     pr_trailing_stop_pct = pa_trailing_stop_pct a, pr_max_holding_days = pa_max_holding_days a,
     pr_status = ''open'', pr_exit_price = None, pr_exit_date = None, pr_exit_reason = None,
     pr_realized_pnl = None, pr_entry_session_id = pa_entry_session_id a, pr_exit_session_id = None\<rparr>"

definition pm_create ::
  "bool \<Rightarrow> date \<Rightarrow> position_args \<Rightarrow> position_table \<Rightarrow> (exc + position_record) \<times> position_table" where
  "pm_create up today a t =
     (if \<not> up then (Inl (DatabaseError ''Position create failed''), t)
      else let r = new_record today a (pt_next_id t) in
        (Inr r, t\<lparr>pt_rows := pt_rows t @ [r], pt_next_id := pt_next_id t + 1\<rparr>))"

text \<open>The selected row is the one with the id; the ORM writes its fields back on commit.\<close>

definition find_row :: "int \<Rightarrow> position_table \<Rightarrow> position_record option" where
  "find_row i t = find (\<lambda>r. pr_id r = i) (pt_rows t)"

definition put_row :: "position_record \<Rightarrow> position_table \<Rightarrow> position_table" where
  "put_row r t = t\<lparr>pt_rows := map (\<lambda>r'. if pr_id r' = pr_id r then r else r') (pt_rows t)\<rparr>"

record close_args =
  ca_exit_price :: dec
  ca_exit_reason :: exit_reason
  ca_exit_session_id :: "uuid option"

definition closed_record :: "date \<Rightarrow> close_args \<Rightarrow> position_record \<Rightarrow> position_record" where
  "closed_record today c r = r\<lparr>pr_status := ''closed'', pr_exit_price := Some (ca_exit_price c),
     pr_exit_date := Some today, pr_exit_reason := Some (exit_reason_value (ca_exit_reason c)),
     pr_realized_pnl := Some (dmul (dsub (ca_exit_price c) (pr_avg_cost r)) (of_int (pr_quantity r))),
     pr_exit_session_id := ca_exit_session_id c\<rparr>"

definition pm_close ::
  "bool \<Rightarrow> date \<Rightarrow> int \<Rightarrow> close_args \<Rightarrow> position_table \<Rightarrow> (exc + position_record) \<times> position_table" where
  "pm_close up today i c t =
     (if \<not> up then (Inl (DatabaseError ''Position close failed''), t)
      else case find_row i t of
          None \<Rightarrow> (Inl (DatabaseError ''Position not found''), t)
        | Some r \<Rightarrow>
            if pr_status r = ''closed'' then (Inl (DatabaseError ''Position already closed''), t)
            else let r' = closed_record today c r in (Inr r', put_row r' t))"

definition pm_get_open ::
  "bool \<Rightarrow> strategy_type option \<Rightarrow> string option \<Rightarrow> position_table \<Rightarrow> exc + position_record list" where
  "pm_get_open up strategy account t =
     (if \<not> up then Inl (DatabaseError ''Open positions query failed'')
      else Inr (sort_key pr_entry_date (filter (\<lambda>r. pr_status r = ''open''
             \<and> (case strategy of None \<Rightarrow> True | Some s \<Rightarrow> pr_strategy_type r = strategy_type_value s)
             \<and> (case account of None \<Rightarrow> True | Some a \<Rightarrow> pr_account_id r = a)) (pt_rows t))))"

text \<open>\<open>limit(1)\<close> without an order: which of several matching rows comes is up to the database.\<close>

definition pm_get_by_symbol ::
  "bool \<Rightarrow> symbol \<Rightarrow> string \<Rightarrow> string option \<Rightarrow> position_table \<Rightarrow> exc + position_record option" where
  "pm_get_by_symbol up s status account t =
     (if \<not> up then Inl (DatabaseError ''Position query by symbol failed'')
      else Inr (find (\<lambda>r. pr_symbol r = s \<and> pr_status r = status
             \<and> (case account of None \<Rightarrow> True | Some a \<Rightarrow> pr_account_id r = a)) (pt_rows t)))"

definition pm_get_daily_entries ::
  "bool \<Rightarrow> date \<Rightarrow> string option \<Rightarrow> position_table \<Rightarrow> exc + nat" where
  "pm_get_daily_entries up d account t =
     (if \<not> up then Inl (DatabaseError ''Daily entries count failed'')
      else Inr (length (filter (\<lambda>r. pr_entry_date r = d
             \<and> (case account of None \<Rightarrow> True | Some a \<Rightarrow> pr_account_id r = a)) (pt_rows t))))"

definition pm_update_stop_loss ::
  "bool \<Rightarrow> int \<Rightarrow> dec \<Rightarrow> position_table \<Rightarrow> (exc + unit) \<times> position_table" where
  "pm_update_stop_loss up i stop t =
     (if \<not> up then (Inl (DatabaseError ''Stop loss update failed''), t)
      else case find_row i t of
          None \<Rightarrow> (Inl (DatabaseError ''Position not found''), t)
        | Some r \<Rightarrow>
            if pr_status r = ''closed'' then (Inl (DatabaseError ''Cannot update closed position''), t)
            else (Inr (), put_row (r\<lparr>pr_stop_loss_price := stop\<rparr>) t))"

section \<open>The interface\<close>

text \<open>
  What a client may assume of a store of positions: a failing call changes nothing, a new
  position gets an id no row has, closing takes exactly the named open position out.
\<close>

locale position_store =
  fixes create :: "'a \<Rightarrow> 't \<Rightarrow> (exc + position_record) \<times> 't"
    and close :: "int \<Rightarrow> 'c \<Rightarrow> 't \<Rightarrow> (exc + position_record) \<times> 't"
    and open_rows :: "'t \<Rightarrow> position_record list"
    and inv :: "'t \<Rightarrow> bool"
  assumes create_err: "create a t = (Inl e, t') \<Longrightarrow> t' = t"
    and close_err: "close i c t = (Inl e, t') \<Longrightarrow> t' = t"
    and create_ok: "inv t \<Longrightarrow> create a t = (Inr r, t') \<Longrightarrow>
          inv t' \<and> pr_id r \<notin> pr_id ` set (open_rows t) \<and> set (open_rows t') = insert r (set (open_rows t))"
    and close_ok: "inv t \<Longrightarrow> close i c t = (Inr r, t') \<Longrightarrow> inv t' \<and> pr_id r = i
          \<and> i \<in> pr_id ` set (open_rows t) \<and> set (open_rows t') = {x \<in> set (open_rows t). pr_id x \<noteq> i}"
begin

lemma inv_create: "inv t \<Longrightarrow> inv (snd (create a t))"
  by (metis create_err create_ok old.sum.exhaust prod.collapse)

lemma inv_close: "inv t \<Longrightarrow> inv (snd (close i c t))"
  by (metis close_err close_ok old.sum.exhaust prod.collapse)

lemma close_not_open: "inv t \<Longrightarrow> i \<notin> pr_id ` set (open_rows t) \<Longrightarrow> \<exists>e. close i c t = (Inl e, t)"
  by (metis close_err close_ok old.sum.exhaust prod.collapse)

lemma close_twice:
  assumes "inv t" "close i c t = (Inr r, t')" shows "\<exists>e. close i c' t' = (Inl e, t')"
proof -
  have o: "inv t'" "set (open_rows t') = {x \<in> set (open_rows t). pr_id x \<noteq> i}"
    using close_ok [OF assms] by blast+
  then have "i \<notin> pr_id ` set (open_rows t')" by (simp add: image_iff)
  with o(1) show ?thesis by (rule close_not_open)
qed

lemma create_then_close:
  assumes "inv t" "create a t = (Inr r, t1)" "close (pr_id r) c t1 = (Inr r2, t2)"
  shows "set (open_rows t2) = set (open_rows t)"
proof -
  have c: "inv t1" "pr_id r \<notin> pr_id ` set (open_rows t)" "set (open_rows t1) = insert r (set (open_rows t))"
    using create_ok [OF assms(1,2)] by blast+
  then have "pr_id x \<noteq> pr_id r" if "x \<in> set (open_rows t)" for x using that by (metis image_eqI)
  with close_ok [OF c(1) assms(3)] c(3) show ?thesis by auto
qed

end

section \<open>The table invariant\<close>

text \<open>
  Distinct ids below the next one; a row is open with no exit data, or closed with all of it
  and with the realised profit of its own price, cost and quantity.
\<close>

definition row_ok :: "position_record \<Rightarrow> bool" where
  "row_ok r \<longleftrightarrow>
     (pr_status r = ''open'' \<and> pr_exit_price r = None \<and> pr_exit_date r = None
        \<and> pr_exit_reason r = None \<and> pr_realized_pnl r = None)
   \<or> (pr_status r = ''closed'' \<and> pr_exit_date r \<noteq> None \<and>
        (case (pr_exit_price r, pr_exit_reason r) of
           (Some p, Some why) \<Rightarrow> why \<in> exit_reason_value ` UNIV
             \<and> pr_realized_pnl r = Some (dmul (dsub p (pr_avg_cost r)) (of_int (pr_quantity r)))
         | _ \<Rightarrow> False))"

definition table_ok :: "position_table \<Rightarrow> bool" where
  "table_ok t \<longleftrightarrow> distinct (map pr_id (pt_rows t)) \<and> (\<forall>r \<in> set (pt_rows t). pr_id r < pt_next_id t \<and> row_ok r)"

definition open_positions :: "position_table \<Rightarrow> position_record list" where
  "open_positions t = filter (\<lambda>r. pr_status r = ''open'') (pt_rows t)"

lemma put_row_ids [simp]: "map pr_id (pt_rows (put_row r t)) = map pr_id (pt_rows t)"
  by (auto simp: put_row_def)

lemma put_row_set:
  "find_row i t = Some r0 \<Longrightarrow> pr_id r = i
     \<Longrightarrow> set (pt_rows (put_row r t)) = insert r {x \<in> set (pt_rows t). pr_id x \<noteq> i}"
  by (auto simp: find_row_def put_row_def find_Some_iff image_iff)

lemma find_row_Some: "find_row i t = Some r \<Longrightarrow> r \<in> set (pt_rows t) \<and> pr_id r = i"
  by (auto simp: find_row_def find_Some_iff)

lemma find_row_unique:
  "table_ok t \<Longrightarrow> find_row i t = Some r \<Longrightarrow> x \<in> set (pt_rows t) \<Longrightarrow> pr_id x = i \<Longrightarrow> x = r"
  using find_row_Some [of i t r] by (auto simp: table_ok_def distinct_map inj_on_def)

lemma row_ok_new [simp]: "row_ok (new_record today a i)"
  by (simp add: row_ok_def new_record_def)

lemma row_ok_closed [simp]: "row_ok (closed_record today c r)"
  by (simp add: row_ok_def closed_record_def)

lemma closed_record_simps [simp]:
  "pr_id (closed_record today c r) = pr_id r" "pr_status (closed_record today c r) = ''closed''"
  by (simp_all add: closed_record_def)

lemma table_ok_put_row:
  "table_ok t \<Longrightarrow> find_row (pr_id r) t = Some r0 \<Longrightarrow> row_ok r \<Longrightarrow> table_ok (put_row r t)"
proof -
  assume ok: "table_ok t" and f: "find_row (pr_id r) t = Some r0" and r: "row_ok r"
  have "pr_id r0 < pt_next_id t" using ok find_row_Some [OF f] by (auto simp: table_ok_def)
  then have "pr_id r < pt_next_id t" using find_row_Some [OF f] by simp
  moreover have "pt_next_id (put_row r t) = pt_next_id t" by (simp add: put_row_def)
  ultimately show ?thesis
    unfolding table_ok_def put_row_ids put_row_set [OF f refl] using ok r by (auto simp: table_ok_def)
qed

lemma table_ok_create: "table_ok t \<Longrightarrow> table_ok (snd (pm_create up today a t))"
  by (auto simp: table_ok_def pm_create_def Let_def new_record_def [of _ _ "pt_next_id t"] row_ok_def)

lemma table_ok_close: "table_ok t \<Longrightarrow> table_ok (snd (pm_close up today i c t))"
proof (cases "find_row i t")
  case (Some r)
  assume "table_ok t"
  moreover have "find_row (pr_id (closed_record today c r)) t = Some r"
    using Some find_row_Some [OF Some] by simp
  ultimately show ?thesis using Some by (simp add: pm_close_def Let_def table_ok_put_row)
qed (simp add: pm_close_def)

lemma table_ok_update_stop_loss: "table_ok t \<Longrightarrow> table_ok (snd (pm_update_stop_loss up i stop t))"
proof (cases "find_row i t")
  case (Some r)
  assume ok: "table_ok t"
  then have "row_ok r" using find_row_Some [OF Some] by (simp add: table_ok_def)
  then have "row_ok (r\<lparr>pr_stop_loss_price := stop\<rparr>)" by (simp add: row_ok_def split: option.splits)
  with ok Some find_row_Some [OF Some] show ?thesis
    by (simp add: pm_update_stop_loss_def table_ok_put_row)
qed (simp add: pm_update_stop_loss_def)

interpretation pm: position_store "pm_create up today" "pm_close up today" open_positions table_ok
proof
  show "pm_create up today a t = (Inl e, t') \<Longrightarrow> t' = t" for a t e t'
    by (auto simp: pm_create_def Let_def split: if_splits)
  show "pm_close up today i c t = (Inl e, t') \<Longrightarrow> t' = t" for i c t e t'
    by (auto simp: pm_close_def Let_def split: if_splits option.splits)
  show "table_ok t' \<and> pr_id r \<notin> pr_id ` set (open_positions t)
      \<and> set (open_positions t') = insert r (set (open_positions t))"
    if "table_ok t" "pm_create up today a t = (Inr r, t')" for t a r t'
    using that table_ok_create [OF that(1), of up today a]
    by (auto simp: pm_create_def Let_def open_positions_def table_ok_def new_record_def split: if_splits)
  show "table_ok t' \<and> pr_id r = i \<and> i \<in> pr_id ` set (open_positions t)
      \<and> set (open_positions t') = {x \<in> set (open_positions t). pr_id x \<noteq> i}"
    if ok: "table_ok t" and c: "pm_close up today i c t = (Inr r, t')" for t i c r t'
  proof -
    from c obtain r0 where r0: "find_row i t = Some r0" "pr_status r0 \<noteq> ''closed''"
      and r: "r = closed_record today c r0" "t' = put_row r t"
      by (auto simp: pm_close_def Let_def split: if_splits option.splits)
    note mem = find_row_Some [OF r0(1)]
    then have "row_ok r0" using ok by (simp add: table_ok_def)
    with r0(2) have "pr_status r0 = ''open''" by (auto simp: row_ok_def)
    moreover have "set (pt_rows t') = insert r {x \<in> set (pt_rows t). pr_id x \<noteq> i}"
      unfolding r(2) using put_row_set [OF r0(1), of r] r(1) mem by simp
    ultimately show ?thesis
      using mem r table_ok_close [OF ok, of up today i c] c by (auto simp: open_positions_def)
  qed
qed

section \<open>Properties\<close>

text \<open>
  C20: close: it succeeds only on a row that is open; it returns that row closed with the exit data
  and the realised profit (exit price - average cost) * quantity, keeps the table invariant,
  takes exactly that row out of the open positions, and a second close of the same id fails
  and changes nothing.
\<close>

theorem position_close_once:
  assumes "table_ok t" "pm_close up today i c t = (Inr r, t')"
  shows "table_ok t' \<and> (\<exists>r0 \<in> set (open_positions t). pr_id r0 = i \<and> r = closed_record today c r0)
    \<and> pr_realized_pnl r = Some (dmul (dsub (ca_exit_price c) (pr_avg_cost r)) (of_int (pr_quantity r)))
    \<and> set (open_positions t') = {x \<in> set (open_positions t). pr_id x \<noteq> i}
    \<and> (\<exists>e. pm_close up2 today2 i c2 t' = (Inl e, t'))"
proof -
  from assms(2) obtain r0 where r0: "find_row i t = Some r0" "pr_status r0 \<noteq> ''closed''"
    and r: "r = closed_record today c r0"
    by (auto simp: pm_close_def Let_def split: if_splits option.splits)
  note mem = find_row_Some [OF r0(1)] and ok = pm.close_ok [OF assms]
  have "row_ok r0" using assms(1) mem by (simp add: table_ok_def)
  then have "r0 \<in> set (open_positions t)" using mem r0(2) by (auto simp: open_positions_def row_ok_def)
  moreover have "\<exists>e. pm_close up2 today2 i c2 t' = (Inl e, t')"
  proof (rule pm.close_not_open)
    have o: "set (open_positions t') = {x \<in> set (open_positions t). pr_id x \<noteq> i}" using ok by blast
    show "i \<notin> pr_id ` set (open_positions t')" unfolding o by (simp add: image_iff)
  qed (use ok in blast)
  ultimately show ?thesis using ok mem r by (auto simp: closed_record_def)
qed

definition sample_args :: position_args where
  "sample_args = \<lparr>pa_symbol = ''005930'', pa_strategy_type = ''swing'', pa_quantity = 10,
     pa_entry_price = 70000, pa_stop_loss_price = 67900, pa_take_profit_price = Some 73500,
     pa_trailing_stop_pct = None, pa_max_holding_days = Some 10, pa_entry_session_id = None,
     pa_account_id = ''default''\<rparr>"

definition sample_table :: position_table where
  "sample_table = snd (pm_create True 738000 sample_args \<lparr>pt_rows = [], pt_next_id = 1\<rparr>)"

lemma sample_table_ok: "table_ok sample_table"
  unfolding sample_table_def by (rule table_ok_create) (simp add: table_ok_def)

theorem position_close_once_witness:
  "\<exists>r t'. pm_close True 738003 1 \<lparr>ca_exit_price = 67000, ca_exit_reason = Exit_STOP_LOSS,
     ca_exit_session_id = None\<rparr> sample_table = (Inr r, t')
     \<and> pr_realized_pnl r = Some (- 30000) \<and> open_positions t' = []"
proof -
  define c where "c = \<lparr>ca_exit_price = 67000, ca_exit_reason = Exit_STOP_LOSS, ca_exit_session_id = None\<rparr>"
  obtain r t' where r: "pm_close True 738003 1 c sample_table = (Inr r, t')"
    and p: "pr_avg_cost r = 70000" "pr_quantity r = 10"
    by (simp add: pm_close_def sample_table_def pm_create_def new_record_def find_row_def sample_args_def
        Let_def closed_record_def)
  note f = position_close_once [OF sample_table_ok r]
  then have "pr_realized_pnl r = Some (- 30000)" by (simp add: p c_def dec_eval)
  moreover have "set (open_positions t') = {}"
    using f by (auto simp: open_positions_def sample_table_def pm_create_def new_record_def Let_def)
  ultimately show ?thesis using r by (auto simp: c_def)
qed

text \<open>
  Get_open: the rows returned are exactly the open ones of the asked strategy and account,
  each as often as in the table, in the order of their entry dates.
\<close>

theorem get_open_spec:
  assumes "pm_get_open up strategy account t = Inr rs"
  shows "up \<and> sorted (map pr_entry_date rs)
    \<and> mset rs = filter_mset (\<lambda>r. pr_status r = ''open''
        \<and> (\<forall>s. strategy = Some s \<longrightarrow> pr_strategy_type r = strategy_type_value s)
        \<and> (\<forall>a. account = Some a \<longrightarrow> pr_account_id r = a)) (mset (pt_rows t))"
  using assms by (cases strategy; cases account) (auto simp: pm_get_open_def split: if_splits)

end
