(* ===== verification/Portfolio_State.thy ===== *)
theory Portfolio_State
  imports Position_Manager
begin

text \<open>
  \<open>src/strategy/portfolio_state.py\<close>: the portfolio state assembled from the broker's balance and
  positions, the sector mapping (cache first, then the stock master), the stored snapshots
  and the positions table; and the daily snapshot. The broker's answers are arguments that
  may be errors; cache and database are up or down for the call. The Korean name of the
  sector for unmapped stocks is \<open>other_sector\<close>. An expired cache entry is an absent one.
\<close>

definition other_sector :: string where
  "other_sector = ''other''"

text \<open>A row of the stock master: the symbol and its sector, which may be NULL.\<close>

type_synonym stock_master = "(symbol, string option) dict"

record services =
  sv_cache_up :: bool
  sv_db_up :: bool
  sv_master :: stock_master

type_synonym sector_cache = "(symbol, string) dict"

definition cache_get :: "services \<Rightarrow> sector_cache \<Rightarrow> symbol \<Rightarrow> exc + string option" where
  "cache_get sv cache s =
     (if sv_cache_up sv then Inr (dict_get cache s) else Inl (CacheError ''cache get failed''))"

definition cache_set :: "services \<Rightarrow> symbol \<Rightarrow> string \<Rightarrow> sector_cache \<Rightarrow> exc + sector_cache" where
  "cache_set sv s v cache =
     (if sv_cache_up sv then Inr (dict_set s v cache) else Inl (CacheError ''cache set failed''))"

text \<open>The first loop: cached symbols go to the result, the others to the list of misses.\<close>

definition lookup_cached ::
  "services \<Rightarrow> sector_cache \<Rightarrow> symbol list \<Rightarrow> exc + (symbol, string) dict \<times> symbol list" where
  "lookup_cached sv cache symbols =
     rfold (\<lambda>s (res, miss). rbind (cache_get sv cache s) (\<lambda>c. case c of
              Some v \<Rightarrow> Inr (dict_set s v res, miss)
            | None \<Rightarrow> Inr (res, miss @ [s]))) symbols ([], [])"

definition mapped_sector :: "string option \<Rightarrow> string" where
  "mapped_sector v = (case v of None \<Rightarrow> other_sector | Some n \<Rightarrow> if n = '''' then other_sector else n)"

definition get_sector_map ::
  "services \<Rightarrow> symbol list \<Rightarrow> sector_cache \<Rightarrow> exc + (symbol, string) dict \<times> sector_cache" where
  "get_sector_map sv symbols cache =
     rbind (lookup_cached sv cache symbols) (\<lambda>(res, miss).
       if miss = [] then Inr (res, cache)
       else if \<not> sv_db_up sv then Inl (DatabaseError ''StockMaster sector query failed'')
       else
         rbind (rfold (\<lambda>(s, sector) (res, c).
                  let mapped = mapped_sector sector in
                  rbind (cache_set sv s mapped c) (\<lambda>c'. Inr (dict_set s mapped res, c')))
                (filter (\<lambda>(s, _). s \<in> set miss) (sv_master sv)) (res, cache)) (\<lambda>(res, c).
         Inr (foldl (\<lambda>r s. if dict_get r s = None then dict_set s other_sector r else r) res miss, c)))"

definition add_sector_value :: "(symbol, string) dict \<Rightarrow> (string, dec) dict \<Rightarrow> position \<Rightarrow> (string, dec) dict" where
  "add_sector_value sector_map vals pos =
     (let sector = (case dict_get sector_map (p_symbol pos) of None \<Rightarrow> other_sector | Some x \<Rightarrow> x);
          old = (case dict_get vals sector of None \<Rightarrow> 0 | Some v \<Rightarrow> v)
      in dict_set sector (dadd old (p_market_value pos)) vals)"

definition get_sector_allocations ::
  "services \<Rightarrow> position list \<Rightarrow> dec \<Rightarrow> sector_cache \<Rightarrow> exc + (string, dec) dict \<times> sector_cache" where
  "get_sector_allocations sv ps total_value cache =
     (if ps = [] \<or> total_value \<le> 0 then Inr ([], cache)
      else rbind (get_sector_map sv (map p_symbol ps) cache) (\<lambda>(sector_map, c).
        let vals = foldl (add_sector_value sector_map) [] ps
        in Inr (map (\<lambda>(k, v). (k, dmul (dquo v total_value) 100)) vals, c)))"

section \<open>Snapshots\<close>

text \<open>Unique per account and date: the upsert replaces the row of the same key.\<close>

type_synonym snapshot_table = "(string \<times> date, snapshot) dict"

definition snapshot_of :: "portfolio_state \<Rightarrow> snapshot" where
  "snapshot_of st = \<lparr>sn_total_value = ps_total_value st, sn_cash = ps_cash st,
     sn_invested = ps_invested st, sn_unrealized_pnl = ps_unrealized_pnl st,
     sn_realized_pnl_daily = 0, sn_peak_value = ps_peak_value st,
     sn_drawdown_pct = ps_drawdown_pct st, sn_positions_count = length (ps_positions st),
     sn_sector_allocations =
       (if ps_sector_allocations st = [] then None else Some (ps_sector_allocations st)),
     sn_trade_count_daily = nat (ps_daily_trade_count st)\<rparr>"

definition save_snapshot ::
  "services \<Rightarrow> string \<Rightarrow> portfolio_state \<Rightarrow> snapshot_table \<Rightarrow> (exc + unit) \<times> snapshot_table" where
  "save_snapshot sv account st tab =
     (if \<not> sv_db_up sv then (Inl (DatabaseError ''Portfolio snapshot upsert failed''), tab)
      else (Inr (), dict_set (account, fst (ps_timestamp st)) (snapshot_of st) tab))"

definition get_peak_value :: "services \<Rightarrow> string \<Rightarrow> snapshot_table \<Rightarrow> exc + dec" where
  "get_peak_value sv account tab =
     (if \<not> sv_db_up sv then Inl (DatabaseError ''Peak value query failed'')
      else let totals = map (\<lambda>(_, s). sn_total_value s) (filter (\<lambda>((a, _), _). a = account) tab)
           in Inr (if totals = [] then 0 else Max (set totals)))"

definition get_daily_trade_count :: "services \<Rightarrow> string \<Rightarrow> date \<Rightarrow> position_table \<Rightarrow> exc + nat" where
  "get_daily_trade_count sv account d t =
     (if \<not> sv_db_up sv then Inl (DatabaseError ''Daily trade count query failed'')
      else Inr (length (filter (\<lambda>r. pr_entry_date r = d \<and> pr_account_id r = account) (pt_rows t))))"

section \<open>The current state\<close>

definition get_current_state ::
  "services \<Rightarrow> string \<Rightarrow> datetime \<Rightarrow> exc + account_balance \<Rightarrow> exc + position list \<Rightarrow> snapshot_table
     \<Rightarrow> position_table \<Rightarrow> sector_cache \<Rightarrow> exc + portfolio_state \<times> sector_cache" where
  "get_current_state sv account now bal positions tab pt cache =
     rbind bal (\<lambda>balance.
     rbind positions (\<lambda>ps.
     rbind (get_sector_allocations sv ps (b_total_assets balance) cache) (\<lambda>(alloc, cache').
     rbind (get_peak_value sv account tab) (\<lambda>historical_peak.
       let peak = max historical_peak (b_total_assets balance);
           drawdown_pct = (if 0 < peak then dmul (dquo (dsub peak (b_total_assets balance)) peak) 100 else 0)
       in rbind (get_daily_trade_count sv account (fst now) pt) (\<lambda>cnt.
         Inr (\<lparr>ps_account_id = account, ps_total_value = b_total_assets balance,
               ps_cash = b_cash balance, ps_invested = b_invested balance,
               ps_unrealized_pnl = b_unrealized_pnl balance, ps_daily_pnl = b_daily_pnl balance,
               ps_daily_pnl_pct = b_daily_pnl_pct balance, ps_drawdown_pct = drawdown_pct,
               ps_peak_value = peak, ps_positions = ps, ps_sector_allocations = alloc,
               ps_daily_trade_count = int cnt, ps_timestamp = now\<rparr>, cache'))))))"

section \<open>Lemmas\<close>

lemma drawdown_bounds:
  assumes "0 \<le> v" "v \<le> p" "0 < p" "is_dec p"
  shows "0 \<le> dmul (dquo (dsub p v) p) 100 \<and> dmul (dquo (dsub p v) p) 100 \<le> 100
    \<and> (dmul (dquo (dsub p v) p) 100 = 0 \<longleftrightarrow> v = p)"
proof -
  have "dsub p v \<le> p" using assms unfolding dsub_def is_dec_def by (intro d28.rnd_le) simp_all
  then have "dsub p v / p \<le> 1" using assms(3) by simp
  then have "dquo (dsub p v) p \<le> 1" using is_dec_1 unfolding dquo_def is_dec_def by (intro d28.rnd_le) simp_all
  then have "dmul (dquo (dsub p v) p) 100 \<le> 100" by (intro dmul_le) simp_all
  moreover have "0 \<le> dmul (dquo (dsub p v) p) 100" using assms by (auto intro!: dec_nonneg)
  moreover have "dmul (dquo (dsub p v) p) 100 = 0 \<longleftrightarrow> v = p"
    using assms(3) by (simp add: dmul_def dquo_def dsub_eq_0_iff) auto
  ultimately show ?thesis by blast
qed

text \<open>The sector a symbol gets: the cached one, else the stock master's, else the fallback.\<close>

definition sector_name :: "services \<Rightarrow> sector_cache \<Rightarrow> symbol \<Rightarrow> string" where
  "sector_name sv cache s = (case dict_get cache s of
       Some v \<Rightarrow> v
     | None \<Rightarrow> (case dict_get (sv_master sv) s of None \<Rightarrow> other_sector | Some x \<Rightarrow> mapped_sector x))"

lemma lookup_cached_fold:
  assumes "rfold (\<lambda>s (res, miss). rbind (cache_get sv cache s) (\<lambda>c. case c of
              Some v \<Rightarrow> Inr (dict_set s v res, miss) | None \<Rightarrow> Inr (res, miss @ [s])))
            symbols (res0, miss0) = Inr (res, miss)"
  shows "miss = miss0 @ filter (\<lambda>s. dict_get cache s = None) symbols
    \<and> (\<forall>s. dict_get res s = (if s \<in> set symbols \<and> dict_get cache s \<noteq> None then dict_get cache s else dict_get res0 s))"
  using assms
proof (induction symbols arbitrary: res0 miss0)
  case (Cons s symbols)
  show ?case
  proof (cases "dict_get cache s")
    case None
    with Cons.prems have
      "rfold (\<lambda>s (res, miss). rbind (cache_get sv cache s) (\<lambda>c. case c of
              Some v \<Rightarrow> Inr (dict_set s v res, miss) | None \<Rightarrow> Inr (res, miss @ [s])))
            symbols (res0, miss0 @ [s]) = Inr (res, miss)"
      by (simp add: cache_get_def split: if_splits)
    from Cons.IH [OF this] None show ?thesis by auto
  next
    case (Some v)
    with Cons.prems have
      "rfold (\<lambda>s (res, miss). rbind (cache_get sv cache s) (\<lambda>c. case c of
              Some v \<Rightarrow> Inr (dict_set s v res, miss) | None \<Rightarrow> Inr (res, miss @ [s])))
            symbols (dict_set s v res0, miss0) = Inr (res, miss)"
      by (simp add: cache_get_def split: if_splits)
    from Cons.IH [OF this] Some show ?thesis by (auto simp: dict_simps)
  qed
qed simp

lemma master_fold:
  assumes "rfold (\<lambda>(s, sector) (res, c). let mapped = mapped_sector sector in
              rbind (cache_set sv s mapped c) (\<lambda>c'. Inr (dict_set s mapped res, c')))
            rows (res0, c0) = Inr (res, c)" "distinct (map fst rows)"
  shows "(\<forall>s. dict_get res s = (case dict_get rows s of None \<Rightarrow> dict_get res0 s | Some x \<Rightarrow> Some (mapped_sector x)))
    \<and> (\<forall>s. dict_get c s = (case dict_get rows s of None \<Rightarrow> dict_get c0 s | Some x \<Rightarrow> Some (mapped_sector x)))"
  using assms
proof (induction rows arbitrary: res0 c0)
  case (Cons r rows)
  obtain s sector where r: "r = (s, sector)" by (cases r)
  from Cons.prems have step:
    "rfold (\<lambda>(s, sector) (res, c). let mapped = mapped_sector sector in
              rbind (cache_set sv s mapped c) (\<lambda>c'. Inr (dict_set s mapped res, c')))
            rows (dict_set s (mapped_sector sector) res0, dict_set s (mapped_sector sector) c0) = Inr (res, c)"
    by (simp add: r cache_set_def Let_def split: if_splits)
  have "dict_get rows s = None" using Cons.prems(2) by (simp add: r map_of_eq_None_iff)
  with Cons.IH [OF step] Cons.prems(2) show ?case by (auto simp: r dict_simps split: option.splits)
qed simp

lemma fallback_fold:
  "dict_get (foldl (\<lambda>r s. if dict_get r s = None then dict_set s v r else r) res miss) x
     = (if x \<in> set miss \<and> dict_get res x = None then Some v else dict_get res x)"
  by (induction miss arbitrary: res) (auto simp: dict_simps)

lemma dict_get_filter: "dict_get (filter (\<lambda>(s, _). P s) d) x = (if P x then dict_get d x else None)"
  by (induction d) auto

lemma get_sector_map_spec:
  assumes "get_sector_map sv symbols cache = Inr (sm, cache')" "dict_ok (sv_master sv)" "s \<in> set symbols"
  shows "dict_get sm s = Some (sector_name sv cache s)"
    and "dict_get cache' s = (if dict_get cache s = None \<and> dict_get (sv_master sv) s = None then None
           else Some (sector_name sv cache s))"
proof -
  obtain res miss where lc: "lookup_cached sv cache symbols = Inr (res, miss)"
    using assms(1) by (cases "lookup_cached sv cache symbols") (auto simp: get_sector_map_def)
  note lf = lookup_cached_fold [OF lc [unfolded lookup_cached_def]]
  have goal: "dict_get sm s = Some (sector_name sv cache s) \<and>
     dict_get cache' s = (if dict_get cache s = None \<and> dict_get (sv_master sv) s = None then None
           else Some (sector_name sv cache s))"
  proof (cases "miss = []")
    case True
    with lf have "filter (\<lambda>s. dict_get cache s = None) symbols = []" by simp
    with assms(3) have "dict_get cache s \<noteq> None" by (simp add: filter_empty_conv)
    moreover have "sm = res" "cache' = cache" using assms(1) lc True by (simp_all add: get_sector_map_def)
    ultimately show ?thesis using lf assms(3) by (auto simp: sector_name_def)
  next
    case False
    define rows where "rows = filter (\<lambda>(s, _). s \<in> set miss) (sv_master sv)"
    obtain res2 where rf: "rfold (\<lambda>(s, sector) (res, c). let mapped = mapped_sector sector in
              rbind (cache_set sv s mapped c) (\<lambda>c'. Inr (dict_set s mapped res, c')))
            rows (res, cache) = Inr (res2, cache')"
      and sm: "sm = foldl (\<lambda>r s. if dict_get r s = None then dict_set s other_sector r else r) res2 miss"
      using assms(1) lc False by (auto simp: get_sector_map_def rows_def res_simps split: if_splits)
    have "distinct (map fst rows)"
      using assms(2) by (simp add: rows_def dict_ok_def dict_keys_def distinct_map_filter)
    note mf = master_fold [OF rf this]
    have "dict_get rows s = (if s \<in> set miss then dict_get (sv_master sv) s else None)"
      by (simp add: rows_def dict_get_filter)
    with lf mf assms(3) show ?thesis
      unfolding sm fallback_fold by (auto simp: sector_name_def split: option.splits)
  qed
  then show "dict_get sm s = Some (sector_name sv cache s)"
    and "dict_get cache' s = (if dict_get cache s = None \<and> dict_get (sv_master sv) s = None then None
           else Some (sector_name sv cache s))" by blast+
qed

lemma add_sector_fold:
  assumes "\<forall>p \<in> set ps. dict_get sm (p_symbol p) = Some (f (p_symbol p))"
  shows "dict_get (foldl (add_sector_value sm) vals ps) k =
    (if \<exists>p \<in> set ps. f (p_symbol p) = k
     then Some (foldl dadd (case dict_get vals k of None \<Rightarrow> 0 | Some v \<Rightarrow> v)
            (map p_market_value (filter (\<lambda>p. f (p_symbol p) = k) ps)))
     else dict_get vals k)"
  using assms
proof (induction ps arbitrary: vals)
  case (Cons p ps)
  then show ?case
    by (cases "\<exists>p \<in> set ps. f (p_symbol p) = k")
      (auto simp: add_sector_value_def Let_def dict_simps filter_empty_conv split: option.splits)
qed simp

lemma sector_allocations_spec:
  assumes "get_sector_allocations sv ps tot cache = Inr (alloc, cache')" "dict_ok (sv_master sv)"
    and "0 < tot"
  shows "dict_get alloc k =
    (if \<exists>p \<in> set ps. sector_name sv cache (p_symbol p) = k
     then Some (dmul (dquo (dsum (map p_market_value
            (filter (\<lambda>p. sector_name sv cache (p_symbol p) = k) ps))) tot) 100)
     else None)"
proof (cases "ps = []")
  case True
  with assms(1) show ?thesis by (simp add: get_sector_allocations_def)
next
  case False
  then obtain sm where sm: "get_sector_map sv (map p_symbol ps) cache = Inr (sm, cache')"
    and alloc: "alloc = map (\<lambda>(k, v). (k, dmul (dquo v tot) 100)) (foldl (add_sector_value sm) [] ps)"
    using assms(1,3) by (auto simp: get_sector_allocations_def res_simps Let_def)
  have "\<forall>p \<in> set ps. dict_get sm (p_symbol p) = Some (sector_name sv cache (p_symbol p))"
    using get_sector_map_spec(1) [OF sm assms(2)] by simp
  note add_sector_fold [OF this, of "[]" k]
  then show ?thesis unfolding alloc by (auto simp: dsum_def dict_get_map_values)
qed

section \<open>Properties\<close>

text \<open>
  Get_sector_map: every symbol asked for gets its cached sector, else the stock master's, else
  the fallback, and asking again with the cache it leaves behind gives the same sectors.
\<close>

theorem sector_map_stable:
  assumes "get_sector_map sv symbols cache = Inr (sm, cache')" "dict_ok (sv_master sv)"
    and "get_sector_map sv symbols cache' = Inr (sm2, cache2)" "s \<in> set symbols"
  shows "dict_get sm s = Some (sector_name sv cache s) \<and> dict_get sm2 s = dict_get sm s"
proof -
  note g = get_sector_map_spec [OF assms(1,2,4)]
  have "sector_name sv cache' s = sector_name sv cache s"
    using g(2) by (auto simp: sector_name_def split: option.splits)
  with g(1) get_sector_map_spec(1) [OF assms(3,2,4)] show ?thesis by simp
qed

definition sample_services :: services where
  "sample_services = \<lparr>sv_cache_up = True, sv_db_up = True,
     sv_master = [(''005930'', Some ''semiconductor''), (''000660'', None)]\<rparr>"

theorem sector_map_stable_witness:
  "\<exists>sm cache'. get_sector_map sample_services [''005930'', ''000660'', ''999999''] [] = Inr (sm, cache')
     \<and> dict_get sm ''000660'' = Some other_sector"
proof -
  let ?syms = "[''005930'', ''000660'', ''999999'']"
  obtain sm c where 1: "get_sector_map sample_services ?syms [] = Inr (sm, c)"
    and c: "c = [(''005930'', ''semiconductor''), (''000660'', other_sector)]"
    by (simp add: get_sector_map_def lookup_cached_def cache_get_def cache_set_def sample_services_def
        mapped_sector_def Let_def)
  obtain sm2 c2 where 2: "get_sector_map sample_services ?syms c = Inr (sm2, c2)"
    by (simp add: c get_sector_map_def lookup_cached_def cache_get_def cache_set_def sample_services_def
        mapped_sector_def Let_def)
  have "dict_ok (sv_master sample_services)" by (simp add: sample_services_def dict_ok_def dict_keys_def)
  from sector_map_stable [OF 1 this 2, of "''000660''"] 1 show ?thesis
    by (auto simp: sector_name_def sample_services_def mapped_sector_def)
qed

text \<open>
  C21: get_current_state: when it returns, the peak is the larger of the stored peak and the total,
  the drawdown lies between 0 and 100 percent and is 0 exactly at the peak, the allocation of
  a sector is the sum of the market values of its positions over the total, and the trade
  count is the number of positions entered today.
\<close>

theorem current_state_spec:
  assumes "get_current_state sv account now (Inr bal) (Inr ps) tab pt cache = Inr (st, cache')"
    and "dict_ok (sv_master sv)" "0 < b_total_assets bal" "is_dec (ps_peak_value st)"
    and "get_peak_value sv account tab = Inr hist"
  shows "ps_peak_value st = max hist (b_total_assets bal)
    \<and> 0 \<le> ps_drawdown_pct st \<and> ps_drawdown_pct st \<le> 100
    \<and> (ps_drawdown_pct st = 0 \<longleftrightarrow> hist \<le> ps_total_value st)
    \<and> (\<forall>p \<in> set ps. dict_get (ps_sector_allocations st) (sector_name sv cache (p_symbol p))
        = Some (dmul (dquo (dsum (map p_market_value (filter
            (\<lambda>p'. sector_name sv cache (p_symbol p') = sector_name sv cache (p_symbol p)) ps)))
              (ps_total_value st)) 100))
    \<and> ps_daily_trade_count st
        = int (length (filter (\<lambda>r. pr_entry_date r = fst now \<and> pr_account_id r = account) (pt_rows pt)))"
proof -
  define peak where "peak = max hist (b_total_assets bal)"
  have pos: "0 < peak" "b_total_assets bal \<le> peak" using assms(3) by (simp_all add: peak_def)
  obtain alloc where al: "get_sector_allocations sv ps (b_total_assets bal) cache = Inr (alloc, cache')"
    and st: "ps_sector_allocations st = alloc" "ps_total_value st = b_total_assets bal" "ps_peak_value st = peak"
      "ps_drawdown_pct st = dmul (dquo (dsub peak (b_total_assets bal)) peak) 100"
      "ps_daily_trade_count st = int (length (filter (\<lambda>r. pr_entry_date r = fst now \<and> pr_account_id r = account) (pt_rows pt)))"
    using assms(1,5) pos
    by (auto simp: get_current_state_def res_simps Let_def peak_def [symmetric] get_daily_trade_count_def
        split: if_splits)
  have "0 \<le> ps_drawdown_pct st \<and> ps_drawdown_pct st \<le> 100 \<and> (ps_drawdown_pct st = 0 \<longleftrightarrow> b_total_assets bal = peak)"
    using drawdown_bounds [of "b_total_assets bal" peak] pos assms(3,4) st by simp
  then show ?thesis
    using sector_allocations_spec [OF al assms(2,3)] st by (auto simp: peak_def max_def)
qed

definition sample_balance :: account_balance where
  "sample_balance = \<lparr>b_total_assets = 9000000, b_cash = 9000000, b_invested = 0,
     b_unrealized_pnl = 0, b_realized_pnl = 0, b_daily_pnl = 0, b_daily_pnl_pct = 0,
     b_positions_count = 0, b_timestamp = (738001, 600)\<rparr>"

definition sample_snapshots :: snapshot_table where
  "sample_snapshots = [((''default'', 738000), snapshot_of \<lparr>ps_account_id = ''default'',
     ps_total_value = 10000000, ps_cash = 10000000, ps_invested = 0, ps_unrealized_pnl = 0,
     ps_daily_pnl = 0, ps_daily_pnl_pct = 0, ps_drawdown_pct = 0, ps_peak_value = 10000000,
     ps_positions = [], ps_sector_allocations = [], ps_daily_trade_count = 0,
     ps_timestamp = (738000, 900)\<rparr>)]"

theorem current_state_spec_witness:
  "\<exists>st c. get_current_state sample_services ''default'' (738001, 600) (Inr sample_balance) (Inr [])
      sample_snapshots sample_table [] = Inr (st, c)
     \<and> ps_peak_value st = 10000000 \<and> ps_drawdown_pct st \<noteq> 0"
proof -
  have peak: "get_peak_value sample_services ''default'' sample_snapshots = Inr 10000000"
    by (simp add: get_peak_value_def sample_services_def sample_snapshots_def snapshot_of_def)
  obtain st c where st: "get_current_state sample_services ''default'' (738001, 600) (Inr sample_balance)
      (Inr []) sample_snapshots sample_table [] = Inr (st, c)" "ps_peak_value st = 10000000"
      "ps_total_value st = 9000000"
    by (simp add: get_current_state_def get_sector_allocations_def peak get_daily_trade_count_def
        Let_def sample_balance_def sample_services_def [THEN arg_cong, of sv_db_up])
  have "dict_ok (sv_master sample_services)" by (simp add: sample_services_def dict_ok_def dict_keys_def)
  from current_state_spec [OF st(1) this _ _ peak] st show ?thesis by (auto simp: sample_balance_def)
qed

end
