(* ===== verification/Data_Loader.thy ===== *)
theory Data_Loader
  imports Models
begin

text \<open>
  \<open>src/backtest/data_loader.py\<close>: the daily bars of a backtest, loaded once from the database and
  kept per symbol in the order of their dates, and the price queries on them. The table
  \<open>daily_ohlcv\<close> is the list of its rows, unique per symbol and date; a pandas frame indexed by
  date is the list of its bars. Property: the trading dates are strictly increasing and are
  exactly the dates of the loaded bars.
\<close>

record loader =
  ld_data :: "(symbol, ohlcv list) dict"
  ld_trading_dates :: "date list"
  ld_loaded :: bool
  ld_total_records :: nat

definition empty_loader :: loader where
  "empty_loader = \<lparr>ld_data = [], ld_trading_dates = [], ld_loaded = False, ld_total_records = 0\<rparr>"

text \<open>The query of \<open>load\<close>: symbol and date filters, ordered by date.\<close>

definition select_bars :: "ohlcv list \<Rightarrow> symbol list \<Rightarrow> date \<Rightarrow> date \<Rightarrow> ohlcv list" where
  "select_bars rows symbols start_date end_date =
     sort_key k_date (filter (\<lambda>b. k_symbol b \<in> set symbols \<and> start_date \<le> k_date b \<and> k_date b \<le> end_date) rows)"

text \<open>\<open>symbol_rows.setdefault(row.symbol, []).append(row)\<close>\<close>

definition add_row :: "(symbol, ohlcv list) dict \<Rightarrow> ohlcv \<Rightarrow> (symbol, ohlcv list) dict" where
  "add_row d b = dict_set (k_symbol b) ((case dict_get d (k_symbol b) of None \<Rightarrow> [] | Some bs \<Rightarrow> bs) @ [b]) d"

definition ld_load :: "ohlcv list \<Rightarrow> symbol list \<Rightarrow> date \<Rightarrow> date \<Rightarrow> loader" where
  "ld_load rows symbols start_date end_date =
     (let bars = select_bars rows symbols start_date end_date
      in \<lparr>ld_data = foldl add_row [] bars, ld_trading_dates = sorted_list_of_set (set (map k_date bars)),
          ld_loaded = True, ld_total_records = length bars\<rparr>)"

definition get_ohlcv :: "loader \<Rightarrow> symbol \<Rightarrow> date \<Rightarrow> ohlcv option" where
  "get_ohlcv ld s d = (case dict_get (ld_data ld) s of
       None \<Rightarrow> None | Some bars \<Rightarrow> find (\<lambda>b. k_date b = d) bars)"

definition get_ohlcv_range :: "loader \<Rightarrow> symbol \<Rightarrow> date \<Rightarrow> date \<Rightarrow> ohlcv list" where
  "get_ohlcv_range ld s start_date end_date = (case dict_get (ld_data ld) s of
       None \<Rightarrow> [] | Some bars \<Rightarrow> filter (\<lambda>b. start_date \<le> k_date b \<and> k_date b \<le> end_date) bars)"

definition get_close_price :: "loader \<Rightarrow> symbol \<Rightarrow> date \<Rightarrow> dec option" where
  "get_close_price ld s d = map_option k_close (get_ohlcv ld s d)"

definition get_open_price :: "loader \<Rightarrow> symbol \<Rightarrow> date \<Rightarrow> dec option" where
  "get_open_price ld s d = map_option k_open (get_ohlcv ld s d)"

section \<open>Lemmas\<close>

lemma foldl_add_row:
  "dict_get (foldl add_row d bars) s =
     (if filter (\<lambda>b. k_symbol b = s) bars = [] then dict_get d s
      else Some ((case dict_get d s of None \<Rightarrow> [] | Some bs \<Rightarrow> bs) @ filter (\<lambda>b. k_symbol b = s) bars))"
proof (induction bars arbitrary: d)
  case (Cons b bars)
  then show ?case by (auto simp: add_row_def dict_simps split: option.splits)
qed simp

lemma ld_load_data:
  "dict_get (ld_data (ld_load rows symbols a b)) s =
     (let bars = filter (\<lambda>r. k_symbol r = s) (select_bars rows symbols a b)
      in if bars = [] then None else Some bars)"
  by (simp add: ld_load_def Let_def foldl_add_row)

lemma get_ohlcv_mem: "get_ohlcv ld s d = Some b \<Longrightarrow> \<exists>bars. dict_get (ld_data ld) s = Some bars \<and> b \<in> set bars \<and> k_date b = d"
  by (auto simp: get_ohlcv_def find_Some_iff split: option.splits)

text \<open>Forgetting everything after a date.\<close>

definition ld_until :: "date \<Rightarrow> loader \<Rightarrow> loader" where
  "ld_until d ld = ld\<lparr>ld_data := map (\<lambda>(s, bars). (s, filter (\<lambda>b. k_date b \<le> d) bars)) (ld_data ld)\<rparr>"

lemma ld_until_data: "dict_get (ld_data (ld_until d ld)) s
    = map_option (filter (\<lambda>b. k_date b \<le> d)) (dict_get (ld_data ld) s)"
  by (simp add: ld_until_def dict_get_map_values)

lemma find_filter: "(\<And>x. P x \<Longrightarrow> Q x) \<Longrightarrow> find P (filter Q xs) = find P xs"
  by (induction xs) auto

lemma get_ohlcv_until: "d' \<le> d \<Longrightarrow> get_ohlcv (ld_until d ld) s d' = get_ohlcv ld s d'"
  by (auto simp: get_ohlcv_def ld_until_data intro!: find_filter split: option.splits)

lemma get_price_until:
  "d' \<le> d \<Longrightarrow> get_close_price (ld_until d ld) s d' = get_close_price ld s d'"
  "d' \<le> d \<Longrightarrow> get_open_price (ld_until d ld) s d' = get_open_price ld s d'"
  by (simp_all add: get_close_price_def get_open_price_def get_ohlcv_until)

lemma get_ohlcv_range_until:
  "d' \<le> d \<Longrightarrow> get_ohlcv_range (ld_until d ld) s a d' = get_ohlcv_range ld s a d'"
  by (auto simp: get_ohlcv_range_def ld_until_data intro!: filter_cong split: option.splits)

section \<open>Properties\<close>

text \<open>
  Load: the trading dates come out strictly increasing and are exactly the dates of the rows of
  the asked symbols in the asked range; the bars of each symbol are its rows in date order;
  and every bar of the range can be looked up by symbol and date when rows are unique.
\<close>

theorem ld_load_spec:
  assumes "\<And>x y. x \<in> set rows \<Longrightarrow> y \<in> set rows \<Longrightarrow> k_symbol x = k_symbol y \<Longrightarrow> k_date x = k_date y \<Longrightarrow> x = y"
    and "b \<in> set rows" "k_symbol b \<in> set symbols" "start_date \<le> k_date b" "k_date b \<le> end_date"
  shows "sorted_wrt (<) (ld_trading_dates (ld_load rows symbols start_date end_date))
    \<and> k_date b \<in> set (ld_trading_dates (ld_load rows symbols start_date end_date))
    \<and> set (ld_trading_dates (ld_load rows symbols start_date end_date))
        = k_date ` {r \<in> set rows. k_symbol r \<in> set symbols \<and> start_date \<le> k_date r \<and> k_date r \<le> end_date}
    \<and> get_ohlcv (ld_load rows symbols start_date end_date) (k_symbol b) (k_date b) = Some b"
proof -
  let ?ld = "ld_load rows symbols start_date end_date"
  define sel where "sel = select_bars rows symbols start_date end_date"
  have sel: "set sel = {r \<in> set rows. k_symbol r \<in> set symbols \<and> start_date \<le> k_date r \<and> k_date r \<le> end_date}"
    by (auto simp: sel_def select_bars_def)
  have dates: "ld_trading_dates ?ld = sorted_list_of_set (k_date ` set sel)"
    by (simp add: ld_load_def Let_def sel_def)
  define bars where "bars = filter (\<lambda>r. k_symbol r = k_symbol b) sel"
  have b: "b \<in> set bars" using assms sel by (simp add: bars_def)
  then have data: "dict_get (ld_data ?ld) (k_symbol b) = Some bars"
    by (auto simp: ld_load_data Let_def sel_def [symmetric] bars_def [symmetric])
  have "find (\<lambda>x. k_date x = k_date b) bars = Some b"
  proof -
    obtain x where x: "find (\<lambda>x. k_date x = k_date b) bars = Some x"
      using b by (cases "find (\<lambda>x. k_date x = k_date b) bars") (auto simp: find_None_iff)
    then have "x \<in> set bars" "k_date x = k_date b" by (auto simp: find_Some_iff)
    then have "x = b" using assms(1) [of x b] assms(2) sel by (auto simp: bars_def)
    with x show ?thesis by simp
  qed
  with data dates sel assms(2-5) show ?thesis
    by (auto simp: get_ohlcv_def strict_sorted_list_of_set)
qed

definition sample_rows :: "ohlcv list" where
  "sample_rows = map (\<lambda>(d, c). \<lparr>k_symbol = ''005930'', k_date = d, k_open = c, k_high = c + 1000,
     k_low = c - 1000, k_close = c + 500, k_volume = 1000\<rparr>)
     [(738002, 72000), (738000, 70000), (738001, 71000)]"

theorem ld_load_spec_witness:
  "\<exists>b. get_ohlcv (ld_load sample_rows [''005930''] 738000 738002) ''005930'' 738001 = Some b \<and> k_open b = 71000"
proof -
  define b where "b = sample_rows ! 2"
  have b: "b \<in> set sample_rows" "k_symbol b = ''005930''" "k_date b = 738001" "k_open b = 71000"
    by (simp_all add: b_def sample_rows_def)
  have "x = y" if "x \<in> set sample_rows" "y \<in> set sample_rows" "k_date x = k_date y" for x y
    using that by (auto simp: sample_rows_def)
  then show ?thesis using ld_load_spec [of sample_rows b "[''005930'']" 738000 738002] b by auto
qed

end
