(* ===== verification/Broker.thy ===== *)
theory Broker
  imports Models
begin

text \<open>
  The broker interface of \<open>src/broker/base.py\<close> as its clients use it: orders that are filled or
  raise, the positions held and the cash. The locale \<open>filling_broker\<close> states what the two
  brokers of the repository that execute orders themselves promise; it is interpreted on the
  backtest broker and on the in-memory broker. Its lemmas are about a sequence of orders of
  which some fail.
\<close>

text \<open>Shares held of a symbol; entries with quantity 0 stay in the dictionary.\<close>

definition held :: "(symbol, position) dict \<Rightarrow> symbol \<Rightarrow> int" where
  "held ps s = (case dict_get ps s of None \<Rightarrow> 0 | Some p \<Rightarrow> p_quantity p)"

definition order_delta :: "order_request \<Rightarrow> symbol \<Rightarrow> int" where
  "order_delta o' s = (if s = rq_symbol o' then
     (if rq_side o' = Side_BUY then rq_quantity o' else - rq_quantity o') else 0)"

text \<open>Placing orders one after another; a failing order is logged and skipped.\<close>

fun place_all :: "(order_request \<Rightarrow> 's \<Rightarrow> (exc + order_result) \<times> 's) \<Rightarrow> order_request list \<Rightarrow> 's
    \<Rightarrow> order_result list \<times> 's" where
  "place_all place [] s = ([], s)"
| "place_all place (o' # os) s =
     (let (r, s1) = place o' s; (rs, s2) = place_all place os s1
      in ((case r of Inl _ \<Rightarrow> rs | Inr x \<Rightarrow> x # rs), s2))"

definition result_delta :: "order_result \<Rightarrow> symbol \<Rightarrow> int" where
  "result_delta r s = (if s = or_symbol r then
     (if or_side r = Side_BUY then or_filled_quantity r else - or_filled_quantity r) else 0)"

locale filling_broker =
  fixes place :: "order_request \<Rightarrow> 's \<Rightarrow> (exc + order_result) \<times> 's"
    and positions :: "'s \<Rightarrow> (symbol, position) dict"
    and cash :: "'s \<Rightarrow> dec"
    and ok :: "order_request \<Rightarrow> bool"
    and inv :: "'s \<Rightarrow> bool"
  assumes fail_keeps: "place o' s = (Inl e, s') \<Longrightarrow> positions s' = positions s \<and> cash s' = cash s"
    and inv_place: "inv s \<Longrightarrow> ok o' \<Longrightarrow> inv (snd (place o' s))"
    and filled: "place o' s = (Inr r, s') \<Longrightarrow> or_status r = FILLED \<and> or_symbol r = rq_symbol o'
          \<and> or_side r = rq_side o' \<and> or_filled_quantity r = rq_quantity o'"
    and held_place: "inv s \<Longrightarrow> place o' s = (Inr r, s')
          \<Longrightarrow> held (positions s') x = held (positions s) x + order_delta o' x"
    and inv_held: "inv s \<Longrightarrow> 0 \<le> held (positions s) x"
    and inv_cash: "inv s \<Longrightarrow> 0 \<le> cash s"
begin

lemma result_delta_eq: "place o' s = (Inr r, s') \<Longrightarrow> result_delta r x = order_delta o' x"
  using filled by (simp add: result_delta_def order_delta_def)

lemma place_all_inv: "inv s \<Longrightarrow> \<forall>o' \<in> set os. ok o' \<Longrightarrow> inv (snd (place_all place os s))"
proof (induction os arbitrary: s)
  case (Cons o' os)
  have "inv (snd (place o' s))" using Cons.prems by (intro inv_place) simp_all
  with Cons.IH [of "snd (place o' s)"] Cons.prems(2) show ?case by (simp add: Let_def split_beta)
qed simp

lemma place_all_held:
  "inv s \<Longrightarrow> \<forall>o' \<in> set os. ok o' \<Longrightarrow> place_all place os s = (rs, s')
    \<Longrightarrow> held (positions s') x = held (positions s) x + sum_list (map (\<lambda>r. result_delta r x) rs)"
proof (induction os arbitrary: s rs)
  case (Cons o' os)
  obtain r s1 where p: "place o' s = (r, s1)" by fastforce
  obtain rs1 s2 where pa: "place_all place os s1 = (rs1, s2)" by fastforce
  have inv1: "inv s1" using inv_place [of s o'] Cons.prems p by simp
  have res: "s' = s2" "rs = (case r of Inl _ \<Rightarrow> rs1 | Inr y \<Rightarrow> y # rs1)"
    using Cons.prems(3) p pa by simp_all
  have IH: "held (positions s2) x = held (positions s1) x + sum_list (map (\<lambda>r. result_delta r x) rs1)"
    using Cons.IH [OF inv1] Cons.prems(2) pa res(1) by simp
  show ?case
  proof (cases r)
    case (Inl e)
    with p fail_keeps [of o' s e s1] IH Cons.prems(2) res show ?thesis by simp
  next
    case (Inr y)
    with p held_place [of s o' y s1 x] Cons.prems(1) result_delta_eq [of o' s y s1 x] IH Cons.prems(2) res
    show ?thesis by simp
  qed
qed simp

text \<open>So nobody can sell more of a symbol, over a whole run, than was there or bought.\<close>

lemma never_oversold:
  assumes "inv s" "\<forall>o' \<in> set os. ok o'" "place_all place os s = (rs, s')"
  shows "0 \<le> held (positions s) x + sum_list (map (\<lambda>r. result_delta r x) rs) \<and> 0 \<le> cash s'"
  using place_all_held [OF assms] place_all_inv [OF assms(1,2)] assms(3) inv_held [of s' x] inv_cash [of s']
  by simp

end

end
