(* ===== verification/Simulator.thy ===== *)
theory Simulator
  imports Data_Loader Broker
begin

text \<open>
  \<open>src/backtest/simulator.py\<close>: the date-aware broker of the backtests. Its state is the cash,
  the positions by symbol, the filled orders, the order counter, the realised profit and the
  current date; prices come from the loader. A raising operation leaves the state as it was
  (every raise comes before the first write). Times of day are minutes (09:00 is 540, 15:30
  is 930); order ids SIM-000001, ... are their numbers.
\<close>

record sim_broker =
  sb_initial_capital :: dec
  sb_cash :: dec
  sb_slippage_bps :: int
  sb_buy_rate :: dec
  sb_sell_rate :: dec
  sb_current_date :: "date option"
  sb_positions :: "(symbol, position) dict"
  sb_orders :: "order_result list"
  sb_order_counter :: nat
  sb_realized_pnl :: dec
  sb_trading_dates :: "date list"

definition sb_init :: "loader \<Rightarrow> dec \<Rightarrow> int \<Rightarrow> dec \<Rightarrow> dec \<Rightarrow> sim_broker" where
  "sb_init ld capital slippage_bps buy_pct sell_pct =
     \<lparr>sb_initial_capital = capital, sb_cash = capital, sb_slippage_bps = slippage_bps,
      sb_buy_rate = dquo buy_pct 100, sb_sell_rate = dquo sell_pct 100, sb_current_date = None,
      sb_positions = [], sb_orders = [], sb_order_counter = 0, sb_realized_pnl = 0,
      sb_trading_dates = ld_trading_dates ld\<rparr>"

section \<open>Valuation\<close>

definition pnl_pct :: "dec \<Rightarrow> dec \<Rightarrow> dec" where
  "pnl_pct price avg = (if avg \<noteq> 0 then dmul (dquo (dsub price avg) avg) 100 else 0)"

definition revalue :: "dec \<Rightarrow> position \<Rightarrow> position" where
  "revalue close p = p\<lparr>p_current_price := close, p_market_value := dmul close (of_int (p_quantity p)),
     p_unrealized_pnl := dmul (dsub close (p_average_cost p)) (of_int (p_quantity p)),
     p_unrealized_pnl_pct := pnl_pct close (p_average_cost p)\<rparr>"

definition update_valuations :: "loader \<Rightarrow> date \<Rightarrow> (symbol, position) dict \<Rightarrow> (symbol, position) dict" where
  "update_valuations ld d = map (\<lambda>(s, p). (s,
     if p_quantity p \<le> 0 then p
     else case get_close_price ld s d of None \<Rightarrow> p | Some close \<Rightarrow> revalue close p))"

definition sb_set_current_date :: "loader \<Rightarrow> date \<Rightarrow> sim_broker \<Rightarrow> sim_broker" where
  "sb_set_current_date ld d b =
     b\<lparr>sb_current_date := Some d, sb_positions := update_valuations ld d (sb_positions b)\<rparr>"

definition sb_get_positions :: "sim_broker \<Rightarrow> position list" where
  "sb_get_positions b = filter (\<lambda>p. 0 < p_quantity p) (dict_values (sb_positions b))"

definition sb_get_total_value :: "sim_broker \<Rightarrow> dec" where
  "sb_get_total_value b = dadd (sb_cash b) (dsum (map p_market_value (sb_get_positions b)))"

definition sb_get_balance :: "datetime \<Rightarrow> sim_broker \<Rightarrow> account_balance" where
  "sb_get_balance now b =
     (let ps = sb_get_positions b;
          invested = dsum (map (\<lambda>p. dmul (p_average_cost p) (of_int (p_quantity p))) ps);
          unrealized = dsum (map p_unrealized_pnl ps)
      in \<lparr>b_total_assets = dadd (dadd (sb_cash b) invested) unrealized, b_cash = sb_cash b,
          b_invested = invested, b_unrealized_pnl = unrealized, b_realized_pnl = sb_realized_pnl b,
          b_daily_pnl = 0, b_daily_pnl_pct = 0, b_positions_count = length ps,
          b_timestamp = (case sb_current_date b of Some d \<Rightarrow> (d, 930) | None \<Rightarrow> now)\<rparr>)"

section \<open>Prices\<close>

definition ensure_date_set :: "sim_broker \<Rightarrow> exc + date" where
  "ensure_date_set b = (case sb_current_date b of
     None \<Rightarrow> Inl (OrderError ''Current date not set'') | Some d \<Rightarrow> Inr d)"

text \<open>\<open>bisect_left\<close> on the sorted dates: the number of dates before the target.\<close>

definition find_date_index :: "sim_broker \<Rightarrow> date \<Rightarrow> exc + nat" where
  "find_date_index b d =
     (let idx = length (takeWhile (\<lambda>x. x < d) (sb_trading_dates b)) in
      if idx < length (sb_trading_dates b) \<and> sb_trading_dates b ! idx = d then Inr idx
      else Inl (OrderError ''not a valid trading date''))"

definition get_previous_close :: "loader \<Rightarrow> sim_broker \<Rightarrow> date \<Rightarrow> symbol \<Rightarrow> exc + dec" where
  "get_previous_close ld b d s =
     rbind (find_date_index b d) (\<lambda>idx.
       case (if 0 < idx then get_close_price ld s (sb_trading_dates b ! (idx - 1)) else None) of
         Some c \<Rightarrow> Inr c
       | None \<Rightarrow> Inr (case get_open_price ld s d of Some p \<Rightarrow> p | None \<Rightarrow> 0))"

definition sb_get_price :: "loader \<Rightarrow> sim_broker \<Rightarrow> symbol \<Rightarrow> exc + price_info" where
  "sb_get_price ld b s =
     rbind (ensure_date_set b) (\<lambda>d.
       case get_ohlcv ld s d of
         None \<Rightarrow> Inl (OrderError ''No price data'')
       | Some bar \<Rightarrow>
           rbind (get_previous_close ld b d s) (\<lambda>prev_close.
           let change_price = dsub (k_close bar) prev_close in
           Inr \<lparr>pi_symbol = s, pi_current_price = k_close bar, pi_previous_close = prev_close,
                pi_change_price = change_price,
                pi_change_percent = (if prev_close \<noteq> 0 then dmul (dquo change_price prev_close) 100 else 0),
                pi_high = k_high bar, pi_low = k_low bar, pi_volume = k_volume bar,
                pi_timestamp = (d, 930)\<rparr>))"

text \<open>\<open>max(0, idx - period_days + 1)\<close> is the truncated difference.\<close>

definition sb_get_daily_ohlcv :: "loader \<Rightarrow> sim_broker \<Rightarrow> symbol \<Rightarrow> nat \<Rightarrow> exc + ohlcv list" where
  "sb_get_daily_ohlcv ld b s period_days =
     rbind (ensure_date_set b) (\<lambda>d.
     rbind (find_date_index b d) (\<lambda>idx.
       let start_date = sb_trading_dates b ! (idx + 1 - period_days)
       in Inr (get_ohlcv_range ld s start_date d)))"

section \<open>Orders\<close>

definition calculate_slippage :: "sim_broker \<Rightarrow> order_side \<Rightarrow> dec \<Rightarrow> exc + dec" where
  "calculate_slippage b side base_price =
     (let rate = dquo (of_int (sb_slippage_bps b)) 10000;
          price = (if side = Side_BUY then dmul base_price (dadd 1 rate)
                   else dmul base_price (dsub 1 rate))
      in dquant 0 price)"

definition calculate_commission :: "sim_broker \<Rightarrow> order_side \<Rightarrow> dec \<Rightarrow> exc + dec" where
  "calculate_commission b side amount =
     dquant 0 (dmul amount (if side = Side_BUY then sb_buy_rate b else sb_sell_rate b))"

definition get_fill_price :: "loader \<Rightarrow> date \<Rightarrow> order_request \<Rightarrow> exc + dec" where
  "get_fill_price ld d o' =
     (if rq_type o' = MARKET then
        (case get_open_price ld (rq_symbol o') d of
           None \<Rightarrow> Inl (OrderError ''No price data'') | Some p \<Rightarrow> Inr p)
      else case rq_price o' of None \<Rightarrow> Inl (OrderError ''LIMIT order requires a price'') | Some p \<Rightarrow> Inr p)"

definition held_position :: "(symbol, position) dict \<Rightarrow> symbol \<Rightarrow> position option" where
  "held_position ps s = (case dict_get ps s of
     None \<Rightarrow> None | Some p \<Rightarrow> if 0 < p_quantity p then Some p else None)"

definition sb_execute_buy :: "date \<Rightarrow> order_request \<Rightarrow> dec \<Rightarrow> dec \<Rightarrow> sim_broker \<Rightarrow> exc + sim_broker" where
  "sb_execute_buy d o' fill_price commission b =
     (let q = rq_quantity o';
          total_cost = dadd (dmul fill_price (of_int q)) commission
      in if sb_cash b < total_cost then Inl InsufficientFundsError
      else
        let p = (case held_position (sb_positions b) (rq_symbol o') of
              Some existing \<Rightarrow>
                let old_total = dmul (p_average_cost existing) (of_int (p_quantity existing));
                    new_total = dadd old_total (dmul fill_price (of_int q));
                    new_qty = p_quantity existing + q;
                    new_avg = dquo new_total (of_int new_qty)
                in existing\<lparr>p_quantity := new_qty, p_average_cost := new_avg,
                     p_current_price := fill_price, p_market_value := dmul fill_price (of_int new_qty),
                     p_unrealized_pnl := dmul (dsub fill_price new_avg) (of_int new_qty),
                     p_unrealized_pnl_pct := pnl_pct fill_price new_avg, p_status := Pos_OPEN\<rparr>
            | None \<Rightarrow>
                \<lparr>p_account_id = ''default'', p_symbol = rq_symbol o', p_quantity = q,
                 p_average_cost = fill_price, p_current_price = fill_price,
                 p_market_value = dmul fill_price (of_int q), p_unrealized_pnl = 0,
                 p_unrealized_pnl_pct = 0, p_status = Pos_OPEN, p_entry_date = (d, 540)\<rparr>)
        in Inr (b\<lparr>sb_cash := dsub (sb_cash b) total_cost,
                  sb_positions := dict_set (rq_symbol o') p (sb_positions b)\<rparr>))"

definition sb_execute_sell :: "order_request \<Rightarrow> dec \<Rightarrow> dec \<Rightarrow> sim_broker \<Rightarrow> exc + sim_broker" where
  "sb_execute_sell o' fill_price commission b =
     (case held_position (sb_positions b) (rq_symbol o') of
        None \<Rightarrow> Inl (OrderError ''No position to sell'')
      | Some existing \<Rightarrow>
          let q = rq_quantity o' in
          if p_quantity existing < q then Inl (OrderError ''Insufficient quantity'')
          else
            let pnl = dmul (dsub fill_price (p_average_cost existing)) (of_int q);
                new_qty = p_quantity existing - q;
                p = (if new_qty = 0 then
                       existing\<lparr>p_quantity := new_qty, p_current_price := fill_price, p_market_value := 0,
                         p_unrealized_pnl := 0, p_unrealized_pnl_pct := 0, p_status := Pos_CLOSED\<rparr>
                     else
                       existing\<lparr>p_quantity := new_qty, p_current_price := fill_price,
                         p_market_value := dmul fill_price (of_int new_qty),
                         p_unrealized_pnl := dmul (dsub fill_price (p_average_cost existing)) (of_int new_qty),
                         p_unrealized_pnl_pct := pnl_pct fill_price (p_average_cost existing),
                         p_status := Pos_PARTIALLY_CLOSED\<rparr>)
            in Inr (b\<lparr>sb_realized_pnl := dadd (sb_realized_pnl b) pnl,
                      sb_cash := dadd (sb_cash b) (dsub (dmul fill_price (of_int q)) commission),
                      sb_positions := dict_set (rq_symbol o') p (sb_positions b)\<rparr>))"

definition sb_execute :: "date \<Rightarrow> order_request \<Rightarrow> dec \<Rightarrow> dec \<Rightarrow> sim_broker \<Rightarrow> exc + sim_broker" where
  "sb_execute d o' fill_price commission b =
     (if rq_side o' = Side_BUY then sb_execute_buy d o' fill_price commission b
      else sb_execute_sell o' fill_price commission b)"

text \<open>The price of the fill and the commission, before anything is written.\<close>

definition sb_quote :: "loader \<Rightarrow> sim_broker \<Rightarrow> order_request \<Rightarrow> exc + date \<times> dec \<times> dec" where
  "sb_quote ld b o' =
     rbind (ensure_date_set b) (\<lambda>d.
     rbind (get_fill_price ld d o') (\<lambda>base_price.
     rbind (if rq_type o' = MARKET then calculate_slippage b (rq_side o') base_price else Inr base_price)
       (\<lambda>fill_price.
     rbind (calculate_commission b (rq_side o') (dmul fill_price (of_int (rq_quantity o')))) (\<lambda>commission.
       Inr (d, fill_price, commission)))))"

definition sb_place_order :: "loader \<Rightarrow> order_request \<Rightarrow> sim_broker \<Rightarrow> (exc + order_result) \<times> sim_broker" where
  "sb_place_order ld o' b =
     (case rbind (sb_quote ld b o') (\<lambda>(d, fill_price, commission).
             rbind (sb_execute d o' fill_price commission b) (\<lambda>b'.
               let n = sb_order_counter b' + 1;
                   r = \<lparr>or_account_id = ''default'', or_order_id = n, or_symbol = rq_symbol o',
                        or_side = rq_side o', or_type = rq_type o', or_quantity = rq_quantity o',
                        or_price = fill_price, or_status = FILLED, or_filled_quantity = rq_quantity o',
                        or_filled_price = Some fill_price, or_commission = commission,
                        or_timestamp = (d, 540)\<rparr>
               in Inr (r, b'\<lparr>sb_order_counter := n, sb_orders := sb_orders b' @ [r]\<rparr>))) of
        Inl e \<Rightarrow> (Inl e, b)
      | Inr (r, b') \<Rightarrow> (Inr r, b'))"

definition sb_cancel_order :: "nat \<Rightarrow> sim_broker \<Rightarrow> bool \<times> sim_broker" where
  "sb_cancel_order order_id b = (False, b)"

section \<open>The invariant\<close>

definition loader_ok :: "loader \<Rightarrow> bool" where
  "loader_ok ld \<longleftrightarrow> (\<forall>(s, bars) \<in> set (ld_data ld). \<forall>b \<in> set bars. 0 \<le> k_open b \<and> 0 \<le> k_close b)"

definition position_ok :: "symbol \<Rightarrow> position \<Rightarrow> bool" where
  "position_ok s p \<longleftrightarrow> p_symbol p = s \<and> 0 \<le> p_quantity p \<and> 0 \<le> p_average_cost p \<and> 0 \<le> p_market_value p"

definition positions_ok :: "(symbol, position) dict \<Rightarrow> bool" where
  "positions_ok ps \<longleftrightarrow> dict_ok ps \<and> (\<forall>s p. dict_get ps s = Some p \<longrightarrow> position_ok s p)"

definition sb_ok :: "sim_broker \<Rightarrow> bool" where
  "sb_ok b \<longleftrightarrow> 0 \<le> sb_cash b \<and> positions_ok (sb_positions b)
     \<and> 0 \<le> sb_buy_rate b \<and> 0 \<le> sb_sell_rate b \<and> sb_sell_rate b \<le> 1 / 4
     \<and> 0 \<le> sb_slippage_bps b \<and> sb_slippage_bps b \<le> 10000
     \<and> map or_order_id (sb_orders b) = [1..<Suc (sb_order_counter b)]"

definition order_ok :: "order_request \<Rightarrow> bool" where
  "order_ok o' \<longleftrightarrow> 0 < rq_quantity o' \<and> (\<forall>p. rq_price o' = Some p \<longrightarrow> 0 \<le> p)"

lemma loader_ok_prices:
  "loader_ok ld \<Longrightarrow> get_close_price ld s d = Some p \<Longrightarrow> 0 \<le> p"
  "loader_ok ld \<Longrightarrow> get_open_price ld s d = Some p \<Longrightarrow> 0 \<le> p"
  by (auto simp: loader_ok_def get_close_price_def get_open_price_def
      dest!: get_ohlcv_mem map_of_SomeD)

lemma positions_ok_set:
  "positions_ok ps \<Longrightarrow> position_ok s p \<Longrightarrow> positions_ok (dict_set s p ps)"
  by (auto simp: positions_ok_def dict_simps)

lemma held_positionD: "held_position ps s = Some p \<Longrightarrow> dict_get ps s = Some p \<and> 0 < p_quantity p"
  by (auto simp: held_position_def split: option.splits if_splits)

lemma held_position_None: "positions_ok ps \<Longrightarrow> held_position ps s = None \<Longrightarrow> held ps s = 0"
  by (cases "dict_get ps s")
    (auto simp: held_position_def held_def positions_ok_def position_ok_def split: if_splits
      intro: order_antisym)

lemma commission_bounds:
  assumes "dquant 0 (dmul a r) = Inr c" "0 \<le> a" "0 \<le> r"
  shows "0 \<le> c \<and> (r \<le> 1 / 4 \<longrightarrow> c \<le> a)"
proof -
  have c0: "0 \<le> c" using assms by (intro dquant_nonneg [OF assms(1)]) (auto intro: dec_nonneg)
  have "c \<le> a" if r: "r \<le> 1 / 4"
  proof (cases "c < 1")
    case True
    obtain m where "c = of_int m" using assms(1) by (auto simp: dquant_def Let_def split: if_splits)
    with True c0 have "c = 0" by simp
    with assms(2) show ?thesis by simp
  next
    case False
    define x where "x = dmul a r"
    have near: "\<bar>c - x\<bar> \<le> 1 / 2" using dquant_Inr(3) [OF assms(1)] by (simp add: x_def)
    have ar: "0 \<le> a * r" "a * r \<le> a / 4" using assms(2,3) r mult_left_mono [OF r assms(2)] by simp_all
    have "\<bar>x - a * r\<bar> \<le> a * r * 5 / 10 ^ 28" using fix28_error [of "a * r"] ar(1) by (simp add: x_def dmul_def)
    also have "a * r * 5 / 10 ^ 28 \<le> a * r * 1"
      unfolding times_divide_eq_right [symmetric] mult.assoc by (intro mult_left_mono) (simp_all add: assms(2,3))
    finally have "x \<le> 2 * (a * r)" by (simp add: abs_le_iff)
    with near ar False show ?thesis by linarith
  qed
  with c0 show ?thesis by blast
qed

lemma slippage_nonneg:
  assumes "calculate_slippage b side p = Inr f" "0 \<le> p" "0 \<le> sb_slippage_bps b" "sb_slippage_bps b \<le> 10000"
  shows "0 \<le> f"
proof -
  have "of_int (sb_slippage_bps b) / 10000 \<le> (1 :: dec)" using assms(4) by simp
  then have rate: "0 \<le> dquo (of_int (sb_slippage_bps b)) 10000" "dquo (of_int (sb_slippage_bps b)) 10000 \<le> 1"
    using assms(3) is_dec_1 unfolding dquo_def is_dec_def by (auto intro: d28.rnd_le d28.rnd_nonneg)
  then have "0 \<le> dadd 1 (dquo (of_int (sb_slippage_bps b)) 10000)"
    "0 \<le> dsub 1 (dquo (of_int (sb_slippage_bps b)) 10000)" by (auto intro!: dec_nonneg)
  then have "0 \<le> (if side = Side_BUY then dmul p (dadd 1 (dquo (of_int (sb_slippage_bps b)) 10000))
       else dmul p (dsub 1 (dquo (of_int (sb_slippage_bps b)) 10000)))"
    using assms(2) by (auto intro: dec_nonneg)
  with assms(1) show ?thesis unfolding calculate_slippage_def Let_def by (rule dquant_nonneg)
qed

lemma sb_quote_bounds:
  assumes "sb_quote ld b o' = Inr (d, f, c)" "loader_ok ld" "sb_ok b" "order_ok o'"
  shows "0 \<le> f \<and> 0 \<le> c \<and> (rq_side o' = Side_SELL \<longrightarrow> c \<le> dmul f (of_int (rq_quantity o')))"
proof -
  from assms(1) obtain base where base: "get_fill_price ld d o' = Inr base"
    and f: "(if rq_type o' = MARKET then calculate_slippage b (rq_side o') base else Inr base) = Inr f"
    and c: "calculate_commission b (rq_side o') (dmul f (of_int (rq_quantity o'))) = Inr c"
    by (auto simp: sb_quote_def res_simps)
  have "0 \<le> base" using base assms(2,4)
    by (auto simp: get_fill_price_def order_ok_def loader_ok_prices split: if_splits option.splits)
  then have f0: "0 \<le> f" using f assms(3) slippage_nonneg by (auto simp: sb_ok_def split: if_splits)
  then have "0 \<le> dmul f (of_int (rq_quantity o'))" using assms(4) by (auto simp: order_ok_def intro: dec_nonneg)
  with commission_bounds [OF c [unfolded calculate_commission_def]] assms(3) f0 show ?thesis
    by (cases "rq_side o'") (auto simp: sb_ok_def)
qed

text \<open>The two executions: what they need, what they leave behind.\<close>

lemma sb_execute_buy_Inr:
  assumes "sb_execute_buy d o' f c b = Inr b'" "positions_ok (sb_positions b)"
  shows "dadd (dmul f (of_int (rq_quantity o'))) c \<le> sb_cash b
    \<and> sb_cash b' = dsub (sb_cash b) (dadd (dmul f (of_int (rq_quantity o'))) c)
    \<and> held (sb_positions b') x = held (sb_positions b) x + (if x = rq_symbol o' then rq_quantity o' else 0)
    \<and> (0 \<le> f \<and> 0 < rq_quantity o' \<longrightarrow> positions_ok (sb_positions b'))
    \<and> sb_orders b' = sb_orders b \<and> sb_order_counter b' = sb_order_counter b
    \<and> sb_realized_pnl b' = sb_realized_pnl b"
proof (cases "held_position (sb_positions b) (rq_symbol o')")
  case None
  with assms held_position_None [OF assms(2) None] show ?thesis
    by (auto simp: sb_execute_buy_def Let_def dict_simps held_def position_ok_def
        intro!: positions_ok_set dec_nonneg split: if_splits)
next
  case (Some p)
  note p = held_positionD [OF Some]
  then have "position_ok (rq_symbol o') p" using assms(2) by (simp add: positions_ok_def)
  with Some p assms show ?thesis
    by (auto simp: sb_execute_buy_def Let_def dict_simps held_def position_ok_def
        intro!: positions_ok_set dec_nonneg split: if_splits)
qed

lemma sb_execute_sell_Inr:
  assumes "sb_execute_sell o' f c b = Inr b'" "positions_ok (sb_positions b)"
  shows "rq_quantity o' \<le> held (sb_positions b) (rq_symbol o')
    \<and> sb_cash b' = dadd (sb_cash b) (dsub (dmul f (of_int (rq_quantity o'))) c)
    \<and> held (sb_positions b') x = held (sb_positions b) x - (if x = rq_symbol o' then rq_quantity o' else 0)
    \<and> (0 \<le> f \<longrightarrow> positions_ok (sb_positions b'))
    \<and> sb_orders b' = sb_orders b \<and> sb_order_counter b' = sb_order_counter b"
proof (cases "held_position (sb_positions b) (rq_symbol o')")
  case None
  with assms(1) show ?thesis by (simp add: sb_execute_sell_def)
next
  case (Some p)
  note p = held_positionD [OF Some]
  then have "position_ok (rq_symbol o') p" using assms(2) by (simp add: positions_ok_def)
  with Some p assms show ?thesis
    by (auto simp: sb_execute_sell_def Let_def dict_simps held_def position_ok_def
        intro!: positions_ok_set dec_nonneg split: if_splits)
qed

lemma sb_execute_params:
  "sb_execute_buy d o' f c b = Inr b' \<Longrightarrow> sb_buy_rate b' = sb_buy_rate b \<and> sb_sell_rate b' = sb_sell_rate b
     \<and> sb_slippage_bps b' = sb_slippage_bps b \<and> sb_current_date b' = sb_current_date b
     \<and> sb_trading_dates b' = sb_trading_dates b"
  "sb_execute_sell o' f c b = Inr b' \<Longrightarrow> sb_buy_rate b' = sb_buy_rate b \<and> sb_sell_rate b' = sb_sell_rate b
     \<and> sb_slippage_bps b' = sb_slippage_bps b \<and> sb_current_date b' = sb_current_date b
     \<and> sb_trading_dates b' = sb_trading_dates b"
  by (auto simp: sb_execute_buy_def sb_execute_sell_def Let_def split: if_splits option.splits)

text \<open>A filled order: the quote, the execution and the bookkeeping.\<close>

lemma sb_place_order_Inr:
  assumes "sb_place_order ld o' b = (Inr r, b')"
  obtains d f c b1 where "sb_quote ld b o' = Inr (d, f, c)"
    "sb_execute d o' f c b = Inr b1"
    "b' = b1\<lparr>sb_order_counter := sb_order_counter b1 + 1, sb_orders := sb_orders b1 @ [r]\<rparr>"
    "or_order_id r = sb_order_counter b1 + 1" "or_symbol r = rq_symbol o'" "or_side r = rq_side o'"
    "or_status r = FILLED" "or_filled_quantity r = rq_quantity o'" "or_filled_price r = Some f"
    "or_commission r = c"
proof -
  obtain d f c where q: "sb_quote ld b o' = Inr (d, f, c)"
    using assms by (cases "sb_quote ld b o'") (auto simp: sb_place_order_def)
  obtain b1 where e: "sb_execute d o' f c b = Inr b1"
    using assms q by (cases "sb_execute d o' f c b") (auto simp: sb_place_order_def)
  show thesis
    using assms by (intro that [OF q e]) (auto simp: sb_place_order_def q e Let_def)
qed

lemma sb_place_order_Inl: "sb_place_order ld o' b = (Inl e, b') \<Longrightarrow> b' = b"
  by (auto simp: sb_place_order_def split: sum.splits)

lemma sb_ok_place:
  assumes "loader_ok ld" "sb_ok b" "order_ok o'" shows "sb_ok (snd (sb_place_order ld o' b))"
proof (cases "sb_place_order ld o' b")
  case (Pair res b')
  show ?thesis
  proof (cases res)
    case (Inl e)
    with Pair sb_place_order_Inl [of ld o' b e b'] assms(2) show ?thesis by simp
  next
    case (Inr r)
    with Pair have pl: "sb_place_order ld o' b = (Inr r, b')" by simp
    obtain d f c b1 where q: "sb_quote ld b o' = Inr (d, f, c)"
      and e: "sb_execute d o' f c b = Inr b1"
      and b': "b' = b1\<lparr>sb_order_counter := sb_order_counter b1 + 1, sb_orders := sb_orders b1 @ [r]\<rparr>"
      and r: "or_order_id r = sb_order_counter b1 + 1"
      by (rule sb_place_order_Inr [OF pl])
    note bounds = sb_quote_bounds [OF q assms] and ok = assms(2) [unfolded sb_ok_def]
    have b1: "sb_ok b1"
    proof (cases "rq_side o'")
      case Side_BUY
      with e [unfolded sb_execute_def] have e': "sb_execute_buy d o' f c b = Inr b1" by simp
      with sb_execute_buy_Inr [OF e'] sb_execute_params(1) [OF e'] bounds ok assms(3) show ?thesis
        by (auto simp: sb_ok_def order_ok_def intro: dec_nonneg)
    next
      case Side_SELL
      with e [unfolded sb_execute_def] have e': "sb_execute_sell o' f c b = Inr b1" by simp
      have "0 \<le> dsub (dmul f (of_int (rq_quantity o'))) c" using bounds Side_SELL by (auto intro: dec_nonneg)
      with sb_execute_sell_Inr [OF e'] sb_execute_params(2) [OF e'] bounds ok show ?thesis
        by (auto simp: sb_ok_def intro: dec_nonneg)
    qed
    then show ?thesis using Pair b' r by (simp add: sb_ok_def)
  qed
qed

lemma sb_held_place:
  assumes "sb_ok b" "sb_place_order ld o' b = (Inr r, b')"
  shows "held (sb_positions b') x = held (sb_positions b) x + order_delta o' x"
proof -
  from assms(2) obtain d f c b1 where
    e: "sb_execute d o' f c b = Inr b1"
    and b': "sb_positions b' = sb_positions b1"
    by (rule sb_place_order_Inr) simp
  have ok: "positions_ok (sb_positions b)" using assms(1) by (simp add: sb_ok_def)
  show ?thesis
  proof (cases "rq_side o'")
    case Side_BUY
    with e [unfolded sb_execute_def] have "sb_execute_buy d o' f c b = Inr b1" by simp
    from sb_execute_buy_Inr [OF this ok, of x] b' Side_BUY show ?thesis by (simp add: order_delta_def)
  next
    case Side_SELL
    with e [unfolded sb_execute_def] have "sb_execute_sell o' f c b = Inr b1" by simp
    from sb_execute_sell_Inr [OF this ok, of x] b' Side_SELL show ?thesis by (simp add: order_delta_def)
  qed
qed

interpretation sim: filling_broker "sb_place_order ld" sb_positions sb_cash order_ok
  "\<lambda>b. loader_ok ld \<and> sb_ok b" for ld
proof
  show "sb_positions b' = sb_positions b \<and> sb_cash b' = sb_cash b"
    if "sb_place_order ld o' b = (Inl e, b')" for o' b e b'
    using sb_place_order_Inl [OF that] by simp
  show "loader_ok ld \<and> sb_ok (snd (sb_place_order ld o' b))" if "loader_ok ld \<and> sb_ok b" "order_ok o'" for b o'
    using that sb_ok_place by blast
  show "or_status r = FILLED \<and> or_symbol r = rq_symbol o' \<and> or_side r = rq_side o' \<and> or_filled_quantity r = rq_quantity o'"
    if "sb_place_order ld o' b = (Inr r, b')" for o' b r b'
    using that by (rule sb_place_order_Inr) simp
  show "held (sb_positions b') x = held (sb_positions b) x + order_delta o' x"
    if "loader_ok ld \<and> sb_ok b" "sb_place_order ld o' b = (Inr r, b')" for b o' r b' x
    using that sb_held_place by blast
  show "0 \<le> held (sb_positions b) x" if "loader_ok ld \<and> sb_ok b" for b x
    using that by (auto simp: sb_ok_def positions_ok_def position_ok_def held_def split: option.splits)
  show "0 \<le> sb_cash b" if "loader_ok ld \<and> sb_ok b" for b
    using that by (simp add: sb_ok_def)
qed

section \<open>Properties\<close>

text \<open>
  C19: place_order over any sequence of valid orders (positive quantities, non-negative limit
  prices): the cash never goes negative, the shares held of each symbol are those held before
  plus the filled buys minus the filled sells and never negative, and the order ids stay
  1, 2, 3, ...
\<close>

theorem sim_orders_safe:
  assumes "loader_ok ld" "sb_ok b" "\<forall>o' \<in> set os. order_ok o'"
    and "place_all (sb_place_order ld) os b = (rs, b')"
  shows "0 \<le> sb_cash b' \<and> map or_order_id (sb_orders b') = [1..<Suc (sb_order_counter b')]
    \<and> held (sb_positions b') x = held (sb_positions b) x + sum_list (map (\<lambda>r. result_delta r x) rs)
    \<and> 0 \<le> held (sb_positions b') x"
proof -
  have inv: "loader_ok ld \<and> sb_ok b" using assms by simp
  have "sb_ok b'" using sim.place_all_inv [OF inv assms(3)] assms(4) by simp
  then show ?thesis
    using sim.place_all_held [OF inv assms(3,4), of x] sim.never_oversold [OF inv assms(3,4), of x]
    by (simp add: sb_ok_def)
qed

definition sample_loader :: loader where
  "sample_loader = ld_load sample_rows [''005930''] 738000 738002"

definition sample_broker :: sim_broker where
  "sample_broker = sb_set_current_date sample_loader 738001
     (sb_init sample_loader 10000000 10 (15 / 1000) (195 / 1000))"

definition sample_order :: "order_side \<Rightarrow> int \<Rightarrow> order_request" where
  "sample_order side q = \<lparr>rq_account_id = ''default'', rq_symbol = ''005930'', rq_side = side,
     rq_type = LIMIT, rq_quantity = q, rq_price = Some 70000\<rparr>"

lemma select_sample_rows: "select_bars sample_rows [''005930''] 738000 738002
    = [sample_rows ! 1, sample_rows ! 2, sample_rows ! 0]"
  by (simp add: select_bars_def sample_rows_def sort_key_def)

lemma sample_loader_ok: "loader_ok sample_loader"
proof -
  have "ld_data sample_loader = [(''005930'', [sample_rows ! 1, sample_rows ! 2, sample_rows ! 0])]"
    by (simp add: sample_loader_def ld_load_def Let_def select_sample_rows) (simp add: add_row_def sample_rows_def)
  then show ?thesis by (simp add: loader_ok_def sample_rows_def)
qed

lemma sample_broker_ok: "sb_ok sample_broker"
  by (simp add: sample_broker_def sb_init_def sb_set_current_date_def update_valuations_def sb_ok_def
      positions_ok_def dec_eval)

theorem sim_orders_safe_witness:
  "\<exists>rs b'. place_all (sb_place_order sample_loader)
       [sample_order Side_BUY 10, sample_order Side_SELL 20, sample_order Side_SELL 4] sample_broker = (rs, b')
     \<and> 0 \<le> sb_cash b' \<and> 0 \<le> held (sb_positions b') ''005930''"
proof -
  let ?os = "[sample_order Side_BUY 10, sample_order Side_SELL 20, sample_order Side_SELL 4]"
  obtain rs b' where p: "place_all (sb_place_order sample_loader) ?os sample_broker = (rs, b')"
    by fastforce
  have "\<forall>o' \<in> set ?os. order_ok o'" by (simp add: order_ok_def sample_order_def)
  from sim_orders_safe [OF sample_loader_ok sample_broker_ok this p] p show ?thesis by blast
qed

text \<open>
  Place_order, order by order: an order that raises changes nothing; a filled BUY cost no more
  than the cash and is paid with its commission; a filled SELL was covered by the shares held,
  its proceeds less the commission are added; the commission never exceeds the proceeds.
\<close>

theorem sim_order_outcome:
  assumes "loader_ok ld" "sb_ok b" "order_ok o'" "sb_place_order ld o' b = (res, b')"
  shows "case res of
      Inl e \<Rightarrow> b' = b
    | Inr r \<Rightarrow> (\<exists>f. or_filled_price r = Some f \<and> 0 \<le> f \<and> 0 \<le> or_commission r
        \<and> (let amount = dmul f (of_int (rq_quantity o')) in
            if rq_side o' = Side_BUY
            then dadd amount (or_commission r) \<le> sb_cash b
               \<and> sb_cash b' = dsub (sb_cash b) (dadd amount (or_commission r))
            else rq_quantity o' \<le> held (sb_positions b) (rq_symbol o') \<and> or_commission r \<le> amount
               \<and> sb_cash b' = dadd (sb_cash b) (dsub amount (or_commission r))))"
proof (cases res)
  case (Inl e)
  then show ?thesis using assms(4) sb_place_order_Inl [of ld o' b e b'] by simp
next
  case (Inr r)
  with assms(4) have pl: "sb_place_order ld o' b = (Inr r, b')" by simp
  obtain d f c b1 where q: "sb_quote ld b o' = Inr (d, f, c)" and e: "sb_execute d o' f c b = Inr b1"
    and b': "sb_cash b' = sb_cash b1" and r: "or_filled_price r = Some f" "or_commission r = c"
    by (rule sb_place_order_Inr [OF pl]) simp
  note bounds = sb_quote_bounds [OF q assms(1-3)]
  have ok: "positions_ok (sb_positions b)" using assms(2) by (simp add: sb_ok_def)
  show ?thesis
  proof (cases "rq_side o'")
    case Side_BUY
    with e have "sb_execute_buy d o' f c b = Inr b1" by (simp add: sb_execute_def)
    from sb_execute_buy_Inr [OF this ok] Side_BUY bounds r b' Inr show ?thesis by (simp add: Let_def)
  next
    case Side_SELL
    with e have "sb_execute_sell o' f c b = Inr b1" by (simp add: sb_execute_def)
    from sb_execute_sell_Inr [OF this ok] Side_SELL bounds r b' Inr show ?thesis by (simp add: Let_def)
  qed
qed

theorem sim_order_outcome_witness:
  "\<exists>r b'. sb_place_order sample_loader (sample_order Side_BUY 10) sample_broker = (Inr r, b')
     \<and> sb_cash b' = dsub 10000000 (dadd 700000 (or_commission r))"
proof -
  have "order_ok (sample_order Side_BUY 10)" by (simp add: order_ok_def sample_order_def)
  note f = sim_order_outcome [OF sample_loader_ok sample_broker_ok this]
  have "\<exists>r b'. sb_place_order sample_loader (sample_order Side_BUY 10) sample_broker = (Inr r, b')
      \<and> or_filled_price r = Some 70000"
    by (simp add: sb_place_order_def sb_quote_def ensure_date_set_def get_fill_price_def sample_order_def
        sample_broker_def sb_init_def sb_set_current_date_def calculate_commission_def dquant_def
        sb_execute_def sb_execute_buy_def held_position_def update_valuations_def dec_eval)
  then obtain r b' where p: "sb_place_order sample_loader (sample_order Side_BUY 10) sample_broker = (Inr r, b')"
    "or_filled_price r = Some 70000" by blast
  have "sb_cash sample_broker = 10000000" "dmul 70000 (of_int 10) = 700000"
    by (simp_all add: sample_broker_def sb_init_def sb_set_current_date_def dec_eval)
  with f [OF p(1)] p show ?thesis by (auto simp: sample_order_def Let_def)
qed

text \<open>
  No look-ahead: at the current date, the price, the bars and the outcome of any order are the
  same when everything after that date is deleted from the loaded data, and the bars returned
  are dated no later than the current date.
\<close>

theorem sim_no_lookahead:
  assumes "sb_current_date b = Some d" "sorted_wrt (<) (sb_trading_dates b)"
  shows "sb_get_price (ld_until d ld) b s = sb_get_price ld b s
    \<and> sb_get_daily_ohlcv (ld_until d ld) b s n = sb_get_daily_ohlcv ld b s n
    \<and> sb_place_order (ld_until d ld) o' b = sb_place_order ld o' b
    \<and> (\<forall>bars. sb_get_daily_ohlcv ld b s n = Inr bars \<longrightarrow> (\<forall>bar \<in> set bars. k_date bar \<le> d))"
proof -
  have "get_previous_close (ld_until d ld) b d s = get_previous_close ld b d s"
  proof -
    have "sb_trading_dates b ! (idx - 1) \<le> d" if "find_date_index b d = Inr idx" "0 < idx" for idx
    proof -
      from that(1) have i: "idx < length (sb_trading_dates b)" "sb_trading_dates b ! idx = d"
        by (auto simp: find_date_index_def Let_def split: if_splits)
      with that(2) have "sb_trading_dates b ! (idx - 1) < sb_trading_dates b ! idx"
        by (intro sorted_wrt_nth_less [OF assms(2)]) simp_all
      with i show ?thesis by simp
    qed
    then show ?thesis
      unfolding get_previous_close_def get_price_until(2) [OF order_refl]
      by (intro rbind_cong refl) (auto simp: get_price_until)
  qed
  then have "sb_get_price (ld_until d ld) b s = sb_get_price ld b s"
    by (cases "get_ohlcv ld s d") (simp_all add: sb_get_price_def ensure_date_set_def assms(1) get_ohlcv_until)
  moreover have "sb_get_daily_ohlcv (ld_until d ld) b s n = sb_get_daily_ohlcv ld b s n"
    by (simp add: sb_get_daily_ohlcv_def ensure_date_set_def assms(1) get_ohlcv_range_until)
  moreover have "sb_quote (ld_until d ld) b o' = sb_quote ld b o'"
    by (simp add: sb_quote_def ensure_date_set_def assms(1) get_fill_price_def get_price_until)
  then have "sb_place_order (ld_until d ld) o' b = sb_place_order ld o' b"
    by (simp add: sb_place_order_def)
  moreover have "\<forall>bar \<in> set bars. k_date bar \<le> d" if "sb_get_daily_ohlcv ld b s n = Inr bars" for bars
    using that by (auto simp: sb_get_daily_ohlcv_def ensure_date_set_def assms(1) res_simps
        get_ohlcv_range_def Let_def split: option.splits)
  ultimately show ?thesis by blast
qed

theorem sim_no_lookahead_witness:
  "sb_get_daily_ohlcv (ld_until 738001 sample_loader) sample_broker ''005930'' 60
    = sb_get_daily_ohlcv sample_loader sample_broker ''005930'' 60"
proof -
  have "sb_current_date sample_broker = Some 738001" "sorted_wrt (<) (sb_trading_dates sample_broker)"
    by (simp_all add: sample_broker_def sb_set_current_date_def sb_init_def sample_loader_def ld_load_def
        Let_def strict_sorted_list_of_set)
  from sim_no_lookahead [OF this] show ?thesis by blast
qed

end
