(* ===== verification/Mock_Broker.thy ===== *)
theory Mock_Broker
  imports Simulator
begin

text \<open>
  \<open>src/broker/mock/client.py\<close>: the in-memory broker of the tests and of paper trading. It differs
  from the backtest broker in that prices come from a dictionary of snapshots, there is no
  slippage and no commission, orders are kept by id and can be looked at by \<open>cancel_order\<close>,
  and the order counter moves even when the order then raises. \<open>now\<close> is the clock.
\<close>

record mock_broker =
  mb_prices :: "(symbol, price_info) dict"
  mb_ohlcv_data :: "(symbol, ohlcv list) dict"
  mb_positions :: "(symbol, position) dict"
  mb_orders :: "(nat, order_result) dict"
  mb_cash :: dec
  mb_order_counter :: nat
  mb_realized_pnl :: dec
  mb_connected :: bool

definition mb_init :: "dec \<Rightarrow> (symbol, price_info) dict \<Rightarrow> (symbol, ohlcv list) dict
    \<Rightarrow> (symbol, position) dict \<Rightarrow> mock_broker" where
  "mb_init initial_cash prices ohlcv_data positions =
     \<lparr>mb_prices = prices, mb_ohlcv_data = ohlcv_data, mb_positions = positions, mb_orders = [],
      mb_cash = initial_cash, mb_order_counter = 0, mb_realized_pnl = 0, mb_connected = False\<rparr>"

definition mb_connect :: "mock_broker \<Rightarrow> mock_broker" where
  "mb_connect b = b\<lparr>mb_connected := True\<rparr>"

definition mb_disconnect :: "mock_broker \<Rightarrow> mock_broker" where
  "mb_disconnect b = b\<lparr>mb_connected := False\<rparr>"

definition mb_get_price :: "datetime \<Rightarrow> mock_broker \<Rightarrow> symbol \<Rightarrow> exc + price_info" where
  "mb_get_price now b s = (case dict_get (mb_prices b) s of
     None \<Rightarrow> Inl (OrderError ''No price data for symbol'')
   | Some p \<Rightarrow> Inr (p\<lparr>pi_timestamp := now\<rparr>))"

text \<open>Flat candles for the days before today, oldest first.\<close>

definition generate_synthetic_ohlcv :: "date \<Rightarrow> symbol \<Rightarrow> dec \<Rightarrow> nat \<Rightarrow> ohlcv list" where
  "generate_synthetic_ohlcv today s base_price period_days =
     map (\<lambda>i. \<lparr>k_symbol = s, k_date = today - int i, k_open = base_price, k_high = base_price,
               k_low = base_price, k_close = base_price, k_volume = 1000000\<rparr>)
       (rev [1..<Suc period_days])"

definition mb_get_daily_ohlcv :: "datetime \<Rightarrow> mock_broker \<Rightarrow> symbol \<Rightarrow> nat \<Rightarrow> ohlcv list" where
  "mb_get_daily_ohlcv now b s period_days =
     (case dict_get (mb_ohlcv_data b) s of
        Some (x # xs) \<Rightarrow> drop (length (x # xs) - period_days) (x # xs)
      | _ \<Rightarrow> generate_synthetic_ohlcv (fst now) s
               (case dict_get (mb_prices b) s of None \<Rightarrow> 50000 | Some p \<Rightarrow> pi_current_price p) period_days)"

definition mb_get_positions :: "mock_broker \<Rightarrow> position list" where
  "mb_get_positions b = filter (\<lambda>p. 0 < p_quantity p) (dict_values (mb_positions b))"

definition mb_get_balance :: "datetime \<Rightarrow> mock_broker \<Rightarrow> account_balance" where
  "mb_get_balance now b =
     (let ps = mb_get_positions b;
          invested = dsum (map (\<lambda>p. dmul (p_average_cost p) (of_int (p_quantity p))) ps);
          unrealized = dsum (map p_unrealized_pnl ps)
      in \<lparr>b_total_assets = dadd (dadd (mb_cash b) invested) unrealized, b_cash = mb_cash b,
          b_invested = invested, b_unrealized_pnl = unrealized, b_realized_pnl = mb_realized_pnl b,
          b_daily_pnl = 0, b_daily_pnl_pct = 0, b_positions_count = length ps, b_timestamp = now\<rparr>)"

definition mb_fill_price :: "mock_broker \<Rightarrow> order_request \<Rightarrow> exc + dec" where
  "mb_fill_price b o' =
     (if rq_type o' = MARKET then
        (case dict_get (mb_prices b) (rq_symbol o') of
           None \<Rightarrow> Inl (OrderError ''No price data for symbol'') | Some p \<Rightarrow> Inr (pi_current_price p))
      else case rq_price o' of None \<Rightarrow> Inl (OrderError ''LIMIT order requires a price'') | Some p \<Rightarrow> Inr p)"

definition mb_execute_buy :: "datetime \<Rightarrow> order_request \<Rightarrow> dec \<Rightarrow> dec \<Rightarrow> mock_broker \<Rightarrow> exc + mock_broker" where
  "mb_execute_buy now o' fill_price total_cost b =
     (if mb_cash b < total_cost then Inl InsufficientFundsError
      else
        let q = rq_quantity o';
            p = (case held_position (mb_positions b) (rq_symbol o') of
              Some existing \<Rightarrow>
                let old_total = dmul (p_average_cost existing) (of_int (p_quantity existing));
                    new_total = dadd old_total total_cost;
                    new_qty = p_quantity existing + q;
                    new_avg = dquo new_total (of_int new_qty);
                    market_value = dmul fill_price (of_int new_qty)
                in existing\<lparr>p_quantity := new_qty, p_average_cost := new_avg,
                     p_current_price := fill_price, p_market_value := market_value,
                     p_unrealized_pnl := dsub market_value (dmul new_avg (of_int new_qty)),
                     p_unrealized_pnl_pct := pnl_pct fill_price new_avg, p_status := Pos_OPEN\<rparr>
            | None \<Rightarrow>
                \<lparr>p_account_id = ''default'', p_symbol = rq_symbol o', p_quantity = q,
                 p_average_cost = fill_price, p_current_price = fill_price,
                 p_market_value = dmul fill_price (of_int q), p_unrealized_pnl = 0,
                 p_unrealized_pnl_pct = 0, p_status = Pos_OPEN, p_entry_date = now\<rparr>)
        in Inr (b\<lparr>mb_cash := dsub (mb_cash b) total_cost,
                  mb_positions := dict_set (rq_symbol o') p (mb_positions b)\<rparr>))"

definition mb_execute_sell :: "order_request \<Rightarrow> dec \<Rightarrow> mock_broker \<Rightarrow> exc + mock_broker" where
  "mb_execute_sell o' fill_price b =
     (case held_position (mb_positions b) (rq_symbol o') of
        None \<Rightarrow> Inl (OrderError ''No position to sell'')
      | Some existing \<Rightarrow>
          let q = rq_quantity o' in
          if p_quantity existing < q then Inl (OrderError ''Insufficient quantity'')
          else
            let pnl = dmul (dsub fill_price (p_average_cost existing)) (of_int q);
                new_qty = p_quantity existing - q;
                p = (if new_qty = 0 then
                       existing\<lparr>p_quantity := new_qty, p_current_price := fill_price, p_market_value := 0,
                         p_unrealized_pnl := 0, p_unrealized_pnl_pct := 0, p_status := Pos_CLOSED\<rparr>
                     else
                       existing\<lparr>p_quantity := new_qty, p_current_price := fill_price,
                         p_market_value := dmul fill_price (of_int new_qty),
                         p_unrealized_pnl := dmul (dsub fill_price (p_average_cost existing)) (of_int new_qty),
                         p_unrealized_pnl_pct := pnl_pct fill_price (p_average_cost existing),
                         p_status := Pos_PARTIALLY_CLOSED\<rparr>)
            in Inr (b\<lparr>mb_realized_pnl := dadd (mb_realized_pnl b) pnl,
                      mb_cash := dadd (mb_cash b) (dmul fill_price (of_int q)),
                      mb_positions := dict_set (rq_symbol o') p (mb_positions b)\<rparr>))"

definition mb_execute :: "datetime \<Rightarrow> order_request \<Rightarrow> dec \<Rightarrow> mock_broker \<Rightarrow> exc + mock_broker" where
  "mb_execute now o' fill_price b =
     (if rq_side o' = Side_BUY
      then mb_execute_buy now o' fill_price (dmul fill_price (of_int (rq_quantity o'))) b
      else mb_execute_sell o' fill_price b)"

definition mb_place_order :: "datetime \<Rightarrow> order_request \<Rightarrow> mock_broker \<Rightarrow> (exc + order_result) \<times> mock_broker" where
  "mb_place_order now o' b =
     (case mb_fill_price b o' of
        Inl e \<Rightarrow> (Inl e, b)
      | Inr fill_price \<Rightarrow>
          let order_id = mb_order_counter b + 1; b1 = b\<lparr>mb_order_counter := order_id\<rparr> in
          (case mb_execute now o' fill_price b1 of
             Inl e \<Rightarrow> (Inl e, b1)
           | Inr b2 \<Rightarrow>
               let r = \<lparr>or_account_id = ''default'', or_order_id = order_id, or_symbol = rq_symbol o',
                        or_side = rq_side o', or_type = rq_type o', or_quantity = rq_quantity o',
                        or_price = fill_price, or_status = FILLED, or_filled_quantity = rq_quantity o',
                        or_filled_price = Some fill_price, or_commission = 0, or_timestamp = now\<rparr>
               in (Inr r, b2\<lparr>mb_orders := dict_set order_id r (mb_orders b2)\<rparr>)))"

definition mb_cancel_order :: "nat \<Rightarrow> mock_broker \<Rightarrow> bool \<times> mock_broker" where
  "mb_cancel_order order_id b =
     (case dict_get (mb_orders b) order_id of
        None \<Rightarrow> (False, b)
      | Some existing \<Rightarrow>
          if or_status existing \<notin> {PENDING, SUBMITTED} then (False, b)
          else (True, b\<lparr>mb_orders := dict_set order_id (existing\<lparr>or_status := CANCELLED\<rparr>) (mb_orders b)\<rparr>))"

section \<open>The invariant and the contract\<close>

definition mb_ok :: "mock_broker \<Rightarrow> bool" where
  "mb_ok b \<longleftrightarrow> 0 \<le> mb_cash b \<and> positions_ok (mb_positions b)
     \<and> (\<forall>(s, p) \<in> set (mb_prices b). 0 \<le> pi_current_price p)
     \<and> (\<forall>i r. dict_get (mb_orders b) i = Some r \<longrightarrow> i \<le> mb_order_counter b \<and> or_status r = FILLED)"

lemma mb_fill_price_nonneg:
  "mb_fill_price b o' = Inr f \<Longrightarrow> mb_ok b \<Longrightarrow> order_ok o' \<Longrightarrow> 0 \<le> f"
  by (auto simp: mb_fill_price_def mb_ok_def order_ok_def split: if_splits option.splits dest!: map_of_SomeD)

lemma mb_execute_buy_Inr:
  assumes "mb_execute_buy now o' f c b = Inr b'" "positions_ok (mb_positions b)"
  shows "c \<le> mb_cash b \<and> mb_cash b' = dsub (mb_cash b) c
    \<and> held (mb_positions b') x = held (mb_positions b) x + (if x = rq_symbol o' then rq_quantity o' else 0)
    \<and> (0 \<le> f \<and> 0 \<le> c \<and> 0 < rq_quantity o' \<longrightarrow> positions_ok (mb_positions b'))"
proof (cases "held_position (mb_positions b) (rq_symbol o')")
  case None
  with assms held_position_None [OF assms(2) None] show ?thesis
    by (auto simp: mb_execute_buy_def Let_def dict_simps held_def position_ok_def
        intro!: positions_ok_set dec_nonneg split: if_splits)
next
  case (Some p)
  note p = held_positionD [OF Some]
  then have "position_ok (rq_symbol o') p" using assms(2) by (simp add: positions_ok_def)
  with Some p assms show ?thesis
    by (auto simp: mb_execute_buy_def Let_def dict_simps held_def position_ok_def
        intro!: positions_ok_set dec_nonneg split: if_splits)
qed

lemma mb_execute_sell_Inr:
  assumes "mb_execute_sell o' f b = Inr b'" "positions_ok (mb_positions b)"
  shows "rq_quantity o' \<le> held (mb_positions b) (rq_symbol o')
    \<and> mb_cash b' = dadd (mb_cash b) (dmul f (of_int (rq_quantity o')))
    \<and> held (mb_positions b') x = held (mb_positions b) x - (if x = rq_symbol o' then rq_quantity o' else 0)
    \<and> (0 \<le> f \<longrightarrow> positions_ok (mb_positions b'))"
proof (cases "held_position (mb_positions b) (rq_symbol o')")
  case None
  with assms(1) show ?thesis by (simp add: mb_execute_sell_def)
next
  case (Some p)
  note p = held_positionD [OF Some]
  then have "position_ok (rq_symbol o') p" using assms(2) by (simp add: positions_ok_def)
  with Some p assms show ?thesis
    by (auto simp: mb_execute_sell_def Let_def dict_simps held_def position_ok_def
        intro!: positions_ok_set dec_nonneg split: if_splits)
qed

lemma mb_execute_params:
  "mb_execute now o' f b = Inr b' \<Longrightarrow> mb_prices b' = mb_prices b \<and> mb_orders b' = mb_orders b
     \<and> mb_order_counter b' = mb_order_counter b"
  by (auto simp: mb_execute_def mb_execute_buy_def mb_execute_sell_def Let_def split: if_splits option.splits)

lemma mb_place_order_Inr:
  assumes "mb_place_order now o' b = (Inr r, b')"
  obtains f b2 where "mb_fill_price b o' = Inr f"
    "mb_execute now o' f (b\<lparr>mb_order_counter := mb_order_counter b + 1\<rparr>) = Inr b2"
    "b' = b2\<lparr>mb_orders := dict_set (mb_order_counter b + 1) r (mb_orders b2)\<rparr>"
    "or_symbol r = rq_symbol o'" "or_side r = rq_side o'" "or_status r = FILLED"
    "or_filled_quantity r = rq_quantity o'" "or_order_id r = mb_order_counter b + 1"
proof -
  obtain f where f: "mb_fill_price b o' = Inr f"
    using assms by (cases "mb_fill_price b o'") (auto simp: mb_place_order_def)
  obtain b2 where e: "mb_execute now o' f (b\<lparr>mb_order_counter := mb_order_counter b + 1\<rparr>) = Inr b2"
    using assms f
    by (cases "mb_execute now o' f (b\<lparr>mb_order_counter := mb_order_counter b + 1\<rparr>)")
      (auto simp: mb_place_order_def Let_def)
  have "b' = b2\<lparr>mb_orders := dict_set (mb_order_counter b + 1) r (mb_orders b2)\<rparr>
      \<and> or_symbol r = rq_symbol o' \<and> or_side r = rq_side o' \<and> or_status r = FILLED
      \<and> or_filled_quantity r = rq_quantity o' \<and> or_order_id r = mb_order_counter b + 1"
    using assms e by (auto simp: mb_place_order_def f Let_def)
  with f e that show thesis by blast
qed

lemma mb_place_order_Inl:
  "mb_place_order now o' b = (Inl e, b') \<Longrightarrow> b' = b \<or> b' = b\<lparr>mb_order_counter := mb_order_counter b + 1\<rparr>"
  by (auto simp: mb_place_order_def Let_def split: sum.splits)

lemma mb_held_place:
  assumes "mb_ok b" "mb_place_order now o' b = (Inr r, b')"
  shows "held (mb_positions b') x = held (mb_positions b) x + order_delta o' x"
proof -
  define b1 where "b1 = b\<lparr>mb_order_counter := mb_order_counter b + 1\<rparr>"
  obtain f b2 where e: "mb_execute now o' f b1 = Inr b2" and b': "mb_positions b' = mb_positions b2"
    unfolding b1_def by (rule mb_place_order_Inr [OF assms(2)]) simp
  have ok: "positions_ok (mb_positions b1)" and same: "mb_positions b1 = mb_positions b"
    using assms(1) by (simp_all add: mb_ok_def b1_def)
  show ?thesis
  proof (cases "rq_side o'")
    case Side_BUY
    with e have "mb_execute_buy now o' f (dmul f (of_int (rq_quantity o'))) b1 = Inr b2"
      by (simp add: mb_execute_def)
    from mb_execute_buy_Inr [OF this ok, of x] b' same Side_BUY show ?thesis by (simp add: order_delta_def)
  next
    case Side_SELL
    with e have "mb_execute_sell o' f b1 = Inr b2" by (simp add: mb_execute_def)
    from mb_execute_sell_Inr [OF this ok, of x] b' same Side_SELL show ?thesis by (simp add: order_delta_def)
  qed
qed

lemma mb_ok_place:
  assumes "mb_ok b" "order_ok o'" shows "mb_ok (snd (mb_place_order now o' b))"
proof (cases "mb_place_order now o' b")
  case (Pair res b')
  show ?thesis
  proof (cases res)
    case (Inl e)
    with Pair mb_place_order_Inl [of now o' b e b'] assms(1) show ?thesis
      by (fastforce simp: mb_ok_def)
  next
    case (Inr r)
    with Pair have pl: "mb_place_order now o' b = (Inr r, b')" by simp
    define b1 where "b1 = b\<lparr>mb_order_counter := mb_order_counter b + 1\<rparr>"
    obtain f b2 where f: "mb_fill_price b o' = Inr f" and e: "mb_execute now o' f b1 = Inr b2"
      and b': "b' = b2\<lparr>mb_orders := dict_set (mb_order_counter b + 1) r (mb_orders b2)\<rparr>"
      and r: "or_status r = FILLED"
      unfolding b1_def by (rule mb_place_order_Inr [OF pl])
    have f0: "0 \<le> f" using mb_fill_price_nonneg [OF f assms] .
    have ok: "positions_ok (mb_positions b1)" "0 \<le> mb_cash b1" using assms(1) by (simp_all add: mb_ok_def b1_def)
    have amount: "0 \<le> dmul f (of_int (rq_quantity o'))"
      using f0 assms(2) by (auto simp: order_ok_def intro: dec_nonneg)
    have "0 \<le> mb_cash b2 \<and> positions_ok (mb_positions b2)"
    proof (cases "rq_side o'")
      case Side_BUY
      with e have "mb_execute_buy now o' f (dmul f (of_int (rq_quantity o'))) b1 = Inr b2"
        by (simp add: mb_execute_def)
      from mb_execute_buy_Inr [OF this ok(1)] f0 amount assms(2) show ?thesis
        by (auto simp: order_ok_def intro: dec_nonneg)
    next
      case Side_SELL
      with e have "mb_execute_sell o' f b1 = Inr b2" by (simp add: mb_execute_def)
      from mb_execute_sell_Inr [OF this ok(1)] f0 amount ok(2) show ?thesis by (auto intro: dec_nonneg)
    qed
    then show ?thesis
      using Pair mb_execute_params [OF e] assms(1) r
      by (fastforce simp: mb_ok_def b' b1_def dict_simps)
  qed
qed

interpretation mock: filling_broker "mb_place_order now" mb_positions mb_cash order_ok mb_ok for now
proof
  show "mb_positions b' = mb_positions b \<and> mb_cash b' = mb_cash b"
    if "mb_place_order now o' b = (Inl e, b')" for o' b e b'
    using mb_place_order_Inl [OF that] by auto
  show "mb_ok (snd (mb_place_order now o' b))" if "mb_ok b" "order_ok o'" for b o'
    using that by (rule mb_ok_place)
  show "or_status r = FILLED \<and> or_symbol r = rq_symbol o' \<and> or_side r = rq_side o' \<and> or_filled_quantity r = rq_quantity o'"
    if "mb_place_order now o' b = (Inr r, b')" for o' b r b'
    by (rule mb_place_order_Inr [OF that]) simp
  show "held (mb_positions b') x = held (mb_positions b) x + order_delta o' x"
    if "mb_ok b" "mb_place_order now o' b = (Inr r, b')" for b o' r b' x
    using that by (rule mb_held_place)
  show "0 \<le> held (mb_positions b) x" if "mb_ok b" for b x
    using that by (auto simp: mb_ok_def positions_ok_def position_ok_def held_def split: option.splits)
  show "0 \<le> mb_cash b" if "mb_ok b" for b
    using that by (simp add: mb_ok_def)
qed

section \<open>Properties\<close>

text \<open>
  Place_order of the in-memory broker over any sequence of valid orders: cash and holdings stay
  non-negative, the holdings move by exactly the filled orders, and afterwards no order can be
  cancelled, since every recorded order is already filled.
\<close>

theorem mock_orders_safe:
  assumes "mb_ok b" "\<forall>o' \<in> set os. order_ok o'" "place_all (mb_place_order now) os b = (rs, b')"
  shows "0 \<le> mb_cash b' \<and> 0 \<le> held (mb_positions b') x
    \<and> held (mb_positions b') x = held (mb_positions b) x + sum_list (map (\<lambda>r. result_delta r x) rs)
    \<and> mb_cancel_order i b' = (False, b')"
proof -
  have ok: "mb_ok b'" using mock.place_all_inv [OF assms(1,2), of now] assms(3) by simp
  then have "mb_cancel_order i b' = (False, b')"
    by (auto simp: mb_cancel_order_def mb_ok_def split: option.splits)
  with ok show ?thesis
    using mock.place_all_held [OF assms, of x] mock.never_oversold [OF assms, of x] by (simp add: mb_ok_def)
qed

definition sample_price :: price_info where
  "sample_price = \<lparr>pi_symbol = ''005930'', pi_current_price = 72000, pi_previous_close = 71500,
     pi_change_price = 500, pi_change_percent = 7 / 10, pi_high = 72500, pi_low = 71000,
     pi_volume = 15000000, pi_timestamp = (738000, 600)\<rparr>"

definition sample_mock :: mock_broker where
  "sample_mock = mb_init 100000000 [(''005930'', sample_price)] [] []"

theorem mock_orders_safe_witness:
  "\<exists>rs b'. place_all (mb_place_order (738000, 600)) [sample_order Side_BUY 3, sample_order Side_SELL 5] sample_mock
      = (rs, b') \<and> 0 \<le> mb_cash b' \<and> mb_cancel_order 1 b' = (False, b')"
proof -
  let ?os = "[sample_order Side_BUY 3, sample_order Side_SELL 5]"
  obtain rs b' where p: "place_all (mb_place_order (738000, 600)) ?os sample_mock = (rs, b')" by fastforce
  have "mb_ok sample_mock"
    by (simp add: sample_mock_def mb_init_def mb_ok_def positions_ok_def sample_price_def)
  moreover have "\<forall>o' \<in> set ?os. order_ok o'" by (simp add: order_ok_def sample_order_def)
  ultimately show ?thesis using mock_orders_safe [OF _ _ p] p by blast
qed

end
