(* ===== verification/Metrics.thy ===== *)
theory Metrics
  imports Models
begin

text \<open>
  \<open>src/report/metrics.py\<close>: the stateless performance calculator. Snapshots are sorted by date,
  closed positions are rows with a realised profit. \<open>Decimal.sqrt\<close> and \<open>Decimal ** Decimal\<close> of
  the standard library, which are not rational operations, are the parameter \<open>dec_fns\<close>; both
  may raise InvalidOperation. The monthly breakdown takes the text of \<open>strftime("%Y-%m")\<close> as a
  function of the date.
\<close>

record dec_fns =
  df_pow :: "dec \<Rightarrow> dec \<Rightarrow> exc + dec"
  df_sqrt :: "dec \<Rightarrow> exc + dec"

definition sorted_snaps :: "bt_snapshot list \<Rightarrow> bt_snapshot list" where
  "sorted_snaps snaps = sort_key bs_date snaps"

section \<open>Returns and drawdown\<close>

text \<open>\<open>(curr - prev) / prev * 100\<close>, skipping a previous value of 0.\<close>

fun returns_of :: "dec list \<Rightarrow> dec list" where
  "returns_of (a # b # vs) =
     (if a = 0 then returns_of (b # vs) else dmul (dquo (dsub b a) a) 100 # returns_of (b # vs))"
| "returns_of _ = []"

definition daily_returns_from_snapshots :: "bt_snapshot list \<Rightarrow> dec list" where
  "daily_returns_from_snapshots snaps = returns_of (map sn_total_value (sorted_snaps snaps))"

definition dd_of :: "dec \<Rightarrow> dec \<Rightarrow> dec" where
  "dd_of peak v = dmul (dquo (dsub peak v) peak) 100"

fun drawdown_loop :: "dec \<Rightarrow> dec \<Rightarrow> dec list \<Rightarrow> dec" where
  "drawdown_loop peak max_dd [] = max_dd"
| "drawdown_loop peak max_dd (v # vs) =
     (let peak = (if peak < v then v else peak);
          max_dd = (if 0 < peak \<and> max_dd < dd_of peak v then dd_of peak v else max_dd)
      in drawdown_loop peak max_dd vs)"

definition raw_max_drawdown :: "dec list \<Rightarrow> dec" where
  "raw_max_drawdown vs = (case vs of [] \<Rightarrow> 0 | v # _ \<Rightarrow> drawdown_loop v 0 vs)"

definition calculate_max_drawdown :: "bt_snapshot list \<Rightarrow> exc + dec" where
  "calculate_max_drawdown snaps =
     (if snaps = [] then Inr 0
      else dquant 2 (raw_max_drawdown (map sn_total_value (sorted_snaps snaps))))"

section \<open>Sharpe and Sortino ratios\<close>

definition rf_daily_pct :: "dec_fns \<Rightarrow> dec \<Rightarrow> nat \<Rightarrow> exc + dec" where
  "rf_daily_pct df annual_pct trading_days =
     rbind (ddiv 1 (of_nat trading_days)) (\<lambda>e.
     rbind (df_pow df (dadd 1 (dquo annual_pct 100)) e) (\<lambda>p. Inr (dmul (dsub p 1) 100)))"

text \<open>\<open>sum(f(x) for x in xs)\<close> where \<open>f\<close> may raise.\<close>

definition dsum_map :: "('a \<Rightarrow> exc + dec) \<Rightarrow> 'a list \<Rightarrow> exc + dec" where
  "dsum_map f xs = rfold (\<lambda>x acc. rbind (f x) (\<lambda>y. Inr (dadd acc y))) xs 0"

definition calculate_sharpe_ratio :: "dec_fns \<Rightarrow> dec list \<Rightarrow> dec \<Rightarrow> nat \<Rightarrow> exc + dec option" where
  "calculate_sharpe_ratio df rets annual_pct trading_days =
     (if length rets < 2 then Inr None
      else rbind (rf_daily_pct df annual_pct trading_days) (\<lambda>rf_daily.
        let n = of_nat (length rets); mean_ret = dquo (dsum rets) n in
        rbind (dsum_map (\<lambda>r. df_pow df (dsub r mean_ret) 2) rets) (\<lambda>ss.
        rbind (df_sqrt df (dquo ss n)) (\<lambda>std_dev.
          if std_dev = 0 then Inr None
          else rbind (df_sqrt df (of_nat trading_days)) (\<lambda>root.
               rbind (dquant 4 (dmul (dquo (dsub mean_ret rf_daily) std_dev) root)) (\<lambda>x. Inr (Some x)))))))"

definition calculate_sortino_ratio :: "dec_fns \<Rightarrow> dec list \<Rightarrow> dec \<Rightarrow> nat \<Rightarrow> exc + dec option" where
  "calculate_sortino_ratio df rets annual_pct trading_days =
     (if length rets < 2 then Inr None
      else rbind (rf_daily_pct df annual_pct trading_days) (\<lambda>rf_daily.
        let downside = filter (\<lambda>r. r < rf_daily) rets in
        if downside = [] then Inr None
        else rbind (dsum_map (\<lambda>r. df_pow df (dsub r rf_daily) 2) downside) (\<lambda>ss.
             rbind (df_sqrt df (dquo ss (of_nat (length downside)))) (\<lambda>downside_std.
               if downside_std = 0 then Inr None
               else let mean_ret = dquo (dsum rets) (of_nat (length rets)) in
                 rbind (df_sqrt df (of_nat trading_days)) (\<lambda>root.
                 rbind (dquant 4 (dmul (dquo (dsub mean_ret rf_daily) downside_std) root))
                   (\<lambda>x. Inr (Some x)))))))"

section \<open>Wins and losses\<close>

definition is_win :: "position_record \<Rightarrow> bool" where
  "is_win p \<longleftrightarrow> (case pr_realized_pnl p of None \<Rightarrow> False | Some x \<Rightarrow> 0 < x)"

definition is_loss :: "position_record \<Rightarrow> bool" where
  "is_loss p \<longleftrightarrow> (case pr_realized_pnl p of None \<Rightarrow> False | Some x \<Rightarrow> x \<le> 0)"

definition calculate_win_rate :: "position_record list \<Rightarrow> exc + dec \<times> nat \<times> nat" where
  "calculate_win_rate ps =
     (let wins = length (filter is_win ps); losses = length (filter is_loss ps); n = wins + losses in
      if n = 0 then Inr (0, 0, 0)
      else rbind (dquant 2 (dmul (dquo (of_nat wins) (of_nat n)) 100)) (\<lambda>rate. Inr (rate, wins, losses)))"

definition calculate_profit_factor :: "position_record list \<Rightarrow> exc + dec option" where
  "calculate_profit_factor ps =
     (let profits = List.map_filter (\<lambda>p. case pr_realized_pnl p of
              Some x \<Rightarrow> if 0 < x then Some x else None | None \<Rightarrow> None) ps;
          losses = List.map_filter (\<lambda>p. case pr_realized_pnl p of
              Some x \<Rightarrow> if x < 0 then Some (dabs x) else None | None \<Rightarrow> None) ps;
          total_profit = dsum profits; total_loss = dsum losses
      in if total_profit = 0 \<and> total_loss = 0 then Inr None
         else if total_loss = 0 then Inr None
         else if total_profit = 0 then Inr (Some 0)
         else rbind (dquant 2 (dquo total_profit total_loss)) (\<lambda>x. Inr (Some x)))"

definition trade_pct :: "position_record \<Rightarrow> dec option" where
  "trade_pct p = (if pr_entry_price p = 0 then None
     else case pr_exit_price p of None \<Rightarrow> None
       | Some x \<Rightarrow> Some (dmul (dquo (dsub x (pr_entry_price p)) (pr_entry_price p)) 100))"

definition mean_quant :: "dec list \<Rightarrow> exc + dec" where
  "mean_quant xs = (if xs = [] then Inr 0 else dquant 2 (dquo (dsum xs) (of_nat (length xs))))"

definition calculate_avg_win_loss :: "position_record list \<Rightarrow> exc + dec \<times> dec" where
  "calculate_avg_win_loss ps =
     (let win_pcts = List.map_filter (\<lambda>p. if is_win p then trade_pct p else None) ps;
          loss_pcts = List.map_filter (\<lambda>p. if is_loss p then map_option dabs (trade_pct p) else None) ps
      in rbind (mean_quant win_pcts) (\<lambda>avg_win.
         rbind (mean_quant loss_pcts) (\<lambda>avg_loss. Inr (avg_win, avg_loss))))"

section \<open>All together\<close>

record performance_metrics =
  pm_period_start :: date
  pm_period_end :: date
  pm_total_return_pct :: dec
  pm_annualized_return_pct :: "dec option"
  pm_sharpe_ratio :: "dec option"
  pm_sortino_ratio :: "dec option"
  pm_max_drawdown_pct :: dec
  pm_win_rate_pct :: dec
  pm_avg_win_pct :: dec
  pm_avg_loss_pct :: dec
  pm_profit_factor :: "dec option"
  pm_total_trades :: nat
  pm_winning_trades :: nat
  pm_losing_trades :: nat

definition total_return :: "dec list \<Rightarrow> exc + dec" where
  "total_return vs =
     (if 2 \<le> length vs \<and> hd vs \<noteq> 0
      then dquant 2 (dmul (dquo (dsub (last vs) (hd vs)) (hd vs)) 100) else Inr 0)"

definition annualized_return :: "dec_fns \<Rightarrow> int \<Rightarrow> nat \<Rightarrow> dec \<Rightarrow> exc + dec option" where
  "annualized_return df days n_snaps ret =
     (if 0 < days \<and> 2 \<le> n_snaps \<and> ret \<noteq> 0 then
        rbind (df_pow df (dadd 1 (dquo ret 100)) (dquo 365 (of_int days))) (\<lambda>p.
        rbind (dquant 2 (dmul (dsub p 1) 100)) (\<lambda>x. Inr (Some x)))
      else Inr None)"

definition performance_calculate ::
  "dec_fns \<Rightarrow> position_record list \<Rightarrow> bt_snapshot list \<Rightarrow> date \<Rightarrow> date \<Rightarrow> dec \<Rightarrow> exc + performance_metrics" where
  "performance_calculate df rows snaps period_start period_end rf_pct =
     (let rets = daily_returns_from_snapshots snaps in
      rbind (calculate_sharpe_ratio df rets rf_pct 252) (\<lambda>sharpe.
      rbind (calculate_sortino_ratio df rets rf_pct 252) (\<lambda>sortino.
      rbind (calculate_max_drawdown snaps) (\<lambda>mdd.
      rbind (calculate_win_rate rows) (\<lambda>(win_rate, wins, losses).
      rbind (calculate_profit_factor rows) (\<lambda>profit_factor.
      rbind (calculate_avg_win_loss rows) (\<lambda>(avg_win, avg_loss).
      let vs = map sn_total_value (sorted_snaps snaps) in
      rbind (total_return vs) (\<lambda>ret.
      rbind (annualized_return df (period_end - period_start) (length vs) ret) (\<lambda>annualized.
        Inr \<lparr>pm_period_start = period_start, pm_period_end = period_end,
             pm_total_return_pct = ret, pm_annualized_return_pct = annualized,
             pm_sharpe_ratio = sharpe, pm_sortino_ratio = sortino, pm_max_drawdown_pct = mdd,
             pm_win_rate_pct = win_rate, pm_avg_win_pct = avg_win, pm_avg_loss_pct = avg_loss,
             pm_profit_factor = profit_factor, pm_total_trades = wins + losses,
             pm_winning_trades = wins, pm_losing_trades = losses\<rparr>)))))))))"

section \<open>Breakdowns\<close>

text \<open>\<open>defaultdict(list)\<close> with \<open>groups[key].append(p)\<close>.\<close>

definition add_group :: "('a \<Rightarrow> 'k) \<Rightarrow> ('k, 'a list) dict \<Rightarrow> 'a \<Rightarrow> ('k, 'a list) dict" where
  "add_group key groups p =
     dict_set (key p) ((case dict_get groups (key p) of None \<Rightarrow> [] | Some xs \<Rightarrow> xs) @ [p]) groups"

record breakdown =
  bd_trade_count :: nat
  bd_win_rate_pct :: dec
  bd_avg_pnl_pct :: "dec option"
  bd_total_pnl :: dec

definition realized_sum :: "position_record list \<Rightarrow> dec" where
  "realized_sum ps = dsum (List.map_filter pr_realized_pnl ps)"

definition breakdown_by_strategy :: "position_record list \<Rightarrow> exc + (string, breakdown) dict" where
  "breakdown_by_strategy rows =
     rfold (\<lambda>(strategy, ps) res.
        rbind (calculate_win_rate ps) (\<lambda>(win_rate, wins, losses).
        rbind (mean_quant (List.map_filter trade_pct ps)) (\<lambda>avg_pnl.
          Inr (dict_set strategy \<lparr>bd_trade_count = length ps, bd_win_rate_pct = win_rate,
             bd_avg_pnl_pct = Some avg_pnl, bd_total_pnl = realized_sum ps\<rparr> res))))
       (foldl (add_group pr_strategy_type) [] rows) []"

definition breakdown_by_month ::
  "(date \<Rightarrow> 'm::linorder) \<Rightarrow> position_record list \<Rightarrow> exc + ('m, breakdown) dict" where
  "breakdown_by_month month rows =
     (let groups = foldl (add_group (\<lambda>p. month (the (pr_exit_date p)))) []
                     (filter (\<lambda>p. pr_exit_date p \<noteq> None) rows)
      in rfold (\<lambda>k res. let ps = (case dict_get groups k of None \<Rightarrow> [] | Some xs \<Rightarrow> xs) in
          rbind (calculate_win_rate ps) (\<lambda>(win_rate, _, _).
            Inr (dict_set k \<lparr>bd_trade_count = length ps, bd_win_rate_pct = win_rate,
               bd_avg_pnl_pct = None, bd_total_pnl = realized_sum ps\<rparr> res)))
         (sort (dict_keys groups)) [])"

section \<open>Lemmas\<close>

lemma wins_losses_split:
  "length (filter is_win ps) + length (filter is_loss ps) = length (filter (\<lambda>p. pr_realized_pnl p \<noteq> None) ps)"
  by (induction ps) (auto simp: is_win_def is_loss_def split: option.splits)

text \<open>A higher peak makes the drawdown larger, for exact amounts.\<close>

lemma dd_of_mono:
  assumes "on_grid 2 p" "on_grid 2 q" "on_grid 2 v" "0 \<le> v" "0 < p" "p \<le> q" "v \<le> p" "q * 10 ^ 2 \<le> 10 ^ 28"
  shows "dd_of p v \<le> dd_of q v"
proof -
  have "dsub p v = p - v" "dsub q v = q - v"
    unfolding dsub_def using assms
    by (intro fix28_grid_le [of 2 _ q] on_grid_diff; simp)+
  moreover have "(p - v) / p \<le> (q - v) / q"
    using assms by (simp add: diff_divide_distrib divide_left_mono)
  ultimately show ?thesis by (simp add: dd_of_def dmul_def dquo_def d28.rnd_mono)
qed

lemma drawdown_loop_ge: "max_dd \<le> drawdown_loop peak max_dd vs"
proof (induction vs arbitrary: peak max_dd)
  case (Cons v vs)
  show ?case
    by (simp add: Let_def) (meson Cons.IH less_imp_le order_trans)
qed simp

text \<open>The loop bounds the drop from any earlier value to any later one.\<close>

lemma drawdown_loop_bounds:
  assumes "\<forall>x \<in> set (peak # vs). on_grid 2 x \<and> 0 \<le> x \<and> x * 10 ^ 2 \<le> 10 ^ 28"
    and "j < length vs" "p = peak \<or> (\<exists>i \<le> j. p = vs ! i)" "0 < p" "vs ! j \<le> p"
  shows "dd_of p (vs ! j) \<le> drawdown_loop peak max_dd vs"
  using assms
proof (induction vs arbitrary: peak max_dd j p)
  case (Cons v vs)
  define q where "q = (if peak < v then v else peak)"
  define d where "d = (if 0 < q \<and> max_dd < dd_of q v then dd_of q v else max_dd)"
  have loop: "drawdown_loop peak max_dd (v # vs) = drawdown_loop q d vs"
    by (simp add: q_def d_def Let_def)
  have q: "peak \<le> q" "v \<le> q" "on_grid 2 q" "0 \<le> q" "q * 10 ^ 2 \<le> 10 ^ 28"
    using Cons.prems(1) by (auto simp: q_def)
  show ?case
  proof (cases j)
    case 0
    then have p: "p = peak \<or> p = v" "v \<le> p" using Cons.prems(3,5) by auto
    then have "p \<le> q" "on_grid 2 p" using q Cons.prems(1) by auto
    then have "dd_of p v \<le> dd_of q v"
      using p q Cons.prems(1,4) by (intro dd_of_mono) auto
    also have "\<dots> \<le> d" using \<open>p \<le> q\<close> Cons.prems(4) by (auto simp: d_def)
    also have "\<dots> \<le> drawdown_loop q d vs" by (rule drawdown_loop_ge)
    finally show ?thesis by (simp only: loop 0 nth_Cons_0)
  next
    case (Suc k)
    have k: "k < length vs" using Cons.prems(2) Suc by simp
    have IHpre: "\<forall>x \<in> set (q # vs). on_grid 2 x \<and> 0 \<le> x \<and> x * 10 ^ 2 \<le> 10 ^ 28"
      using Cons.prems(1) q by auto
    have vk: "vs ! k \<in> set vs" using k by simp
    consider "p = peak \<or> p = v" | i where "i \<le> k" "p = vs ! i"
    proof (cases "p = peak")
      case False
      with Cons.prems(3) obtain i where "i \<le> j" "p = (v # vs) ! i" by blast
      with that Suc show thesis by (cases i) simp_all
    qed (use that in blast)
    then show ?thesis
    proof cases
      case 1
      then have "p \<le> q" "on_grid 2 p" using q Cons.prems(1) by auto
      moreover have "vs ! k \<le> p" using Cons.prems(5) Suc by simp
      ultimately have "dd_of p (vs ! k) \<le> dd_of q (vs ! k)"
        using q Cons.prems(1,4) vk by (intro dd_of_mono) auto
      also have "\<dots> \<le> drawdown_loop q d vs"
        using \<open>p \<le> q\<close> \<open>vs ! k \<le> p\<close> Cons.prems(4)
        by (intro Cons.IH [OF IHpre k]) auto
      finally show ?thesis by (simp only: loop Suc nth_Cons_Suc)
    next
      case 2
      have "dd_of p (vs ! k) \<le> drawdown_loop q d vs"
        using Cons.prems(4,5) Suc 2 by (intro Cons.IH [OF IHpre k]) auto
      then show ?thesis by (simp only: loop Suc nth_Cons_Suc)
    qed
  qed
qed simp

lemma raw_max_drawdown_bounds:
  assumes "\<forall>x \<in> set vs. on_grid 2 x \<and> 0 \<le> x \<and> x * 10 ^ 2 \<le> 10 ^ 28"
    and "i \<le> j" "j < length vs" "0 < vs ! i" "vs ! j \<le> vs ! i"
  shows "dd_of (vs ! i) (vs ! j) \<le> raw_max_drawdown vs"
proof (cases vs)
  case (Cons v ws)
  have "dd_of (vs ! i) (vs ! j) \<le> drawdown_loop v 0 vs"
    using assms Cons by (intro drawdown_loop_bounds) auto
  then show ?thesis by (simp add: raw_max_drawdown_def Cons)
qed (use assms in simp)

lemma raw_max_drawdown_nonneg: "0 \<le> raw_max_drawdown vs"
  using drawdown_loop_ge [of 0] by (cases vs) (simp_all add: raw_max_drawdown_def del: drawdown_loop.simps(2))

section \<open>Properties\<close>

text \<open>
  C22: calculate_max_drawdown: with the snapshots in date order, the reported maximum drawdown is
  non-negative and, up to the half cent of its final rounding, at least the percentage drop
  from any earlier total value to any later one.
\<close>

theorem max_drawdown_bounds_every_drop:
  assumes "calculate_max_drawdown snaps = Inr m" "vs = map sn_total_value (sorted_snaps snaps)"
    and "\<forall>x \<in> set vs. on_grid 2 x \<and> 0 \<le> x \<and> x * 10 ^ 2 \<le> 10 ^ 28"
    and "i \<le> j" "j < length vs" "0 < vs ! i" "vs ! j \<le> vs ! i"
  shows "0 \<le> m \<and> dd_of (vs ! i) (vs ! j) \<le> m + 1 / 200"
proof -
  have "vs \<noteq> []" using assms(5) by auto
  then have ne: "snaps \<noteq> []" using assms(2) by (auto simp: sorted_snaps_def)
  then have m: "dquant 2 (raw_max_drawdown vs) = Inr m"
    using assms(1,2) by (simp add: calculate_max_drawdown_def)
  have "\<bar>m - raw_max_drawdown vs\<bar> \<le> 1 / 200" using dquant_Inr(3) [OF m] by simp
  moreover have "dd_of (vs ! i) (vs ! j) \<le> raw_max_drawdown vs"
    using assms(3-7) by (rule raw_max_drawdown_bounds)
  moreover have "0 \<le> m" using dquant_nonneg [OF m raw_max_drawdown_nonneg] .
  ultimately show ?thesis by linarith
qed

definition sample_snapshot :: "date \<Rightarrow> dec \<Rightarrow> bt_snapshot" where
  "sample_snapshot d v = \<lparr>sn_total_value = v, sn_cash = v, sn_invested = 0, sn_unrealized_pnl = 0,
     sn_realized_pnl_daily = 0, sn_peak_value = v, sn_drawdown_pct = 0, sn_positions_count = 0,
     sn_sector_allocations = None, sn_trade_count_daily = 0, bs_id = 1, bs_date = d\<rparr>"

theorem max_drawdown_bounds_every_drop_witness:
  "\<exists>m. calculate_max_drawdown [sample_snapshot 3 90, sample_snapshot 1 100, sample_snapshot 2 120] = Inr m
     \<and> 25 \<le> m + 1 / 200"
proof -
  let ?s = "[sample_snapshot 3 90, sample_snapshot 1 100, sample_snapshot 2 120]"
  have vs: "[100, 120, 90] = map sn_total_value (sorted_snaps ?s)"
    by (simp add: sorted_snaps_def sample_snapshot_def sort_key_def)
  have m: "calculate_max_drawdown ?s = Inr 25"
    by (simp add: calculate_max_drawdown_def vs [symmetric])
      (simp add: raw_max_drawdown_def dd_of_def dquant_def dec_eval)
  have "dd_of 120 90 = 25" by (simp add: dd_of_def dec_eval)
  with max_drawdown_bounds_every_drop [OF m vs, of 1 2] m show ?thesis by simp
qed

text \<open>
  Calculate_win_rate: it always returns; wins and losses together are the positions with a
  realised profit, none counted twice, and the rate lies between 0 and 100 percent.
\<close>

theorem win_rate_spec:
  "\<exists>rate w l. calculate_win_rate ps = Inr (rate, w, l)
    \<and> w + l = length (filter (\<lambda>p. pr_realized_pnl p \<noteq> None) ps)
    \<and> w = length (filter is_win ps) \<and> l = length (filter is_loss ps)
    \<and> 0 \<le> rate \<and> rate \<le> 100"
proof -
  define w l where "w = length (filter is_win ps)" and "l = length (filter is_loss ps)"
  have sum: "w + l = length (filter (\<lambda>p. pr_realized_pnl p \<noteq> None) ps)"
    unfolding w_def l_def by (rule wins_losses_split)
  show ?thesis
  proof (cases "w + l = 0")
    case True
    then show ?thesis using sum by (simp add: calculate_win_rate_def Let_def w_def l_def)
  next
    case False
    define x where "x = dmul (dquo (of_nat w) (of_nat (w + l))) 100"
    have "(of_nat w :: dec) \<le> of_nat (w + l)" by simp
    moreover have pos: "(0 :: dec) < of_nat (w + l)" using False by (simp only: of_nat_0_less_iff)
    ultimately have "of_nat w / of_nat (w + l) \<le> (1 :: dec)" by (simp only: divide_le_eq_1_pos)
    then have "dquo (of_nat w) (of_nat (w + l)) \<le> 1"
      using is_dec_1 unfolding dquo_def is_dec_def by (intro d28.rnd_le)
    then have x: "0 \<le> x" "x \<le> 100" unfolding x_def by (auto intro!: dec_nonneg dmul_le)
    then obtain r where r: "dquant 2 x = Inr r" using dquant_defined [of x 2] by auto
    have h: "dquant 2 100 = Inr 100" by (simp add: dquant_def dec_eval)
    have "0 \<le> r" "r \<le> 100" using dquant_nonneg [OF r x(1)] dquant_mono [OF r h x(2)] by simp_all
    moreover have "calculate_win_rate ps = Inr (r, w, l)"
      using False r unfolding calculate_win_rate_def Let_def w_def [symmetric] l_def [symmetric] x_def
      by auto
    ultimately show ?thesis using sum unfolding w_def l_def by blast
  qed
qed

text \<open>
  Calculate_avg_win_loss: a trade that closed above its entry price but lost money to
  commission counts as a loss with the percentage it gained, so one such trade makes the
  average loss percentage positive although no price fell.
\<close>

theorem avg_loss_counts_gross_gain:
  assumes "pr_realized_pnl p = Some x" "x \<le> 0" "trade_pct p = Some g" "0 \<le> g" "is_dec g"
    and "dquant 2 g = Inr avg"
  shows "calculate_avg_win_loss [p] = Inr (0, avg)"
proof -
  have "dabs g = g" using assms(4,5) by (simp add: dabs_def is_dec_def)
  moreover have "dsum [g] = g" using assms(5) by (simp add: dsum_def dadd_def is_dec_def)
  moreover have "dquo g 1 = g" using assms(5) by (simp add: dquo_def is_dec_def)
  ultimately show ?thesis
    using assms(1-3,6) by (simp add: calculate_avg_win_loss_def is_win_def is_loss_def map_filter_def mean_quant_def)
qed

definition costly_trade :: position_record where
  "costly_trade = \<lparr>pr_id = 1, pr_account_id = ''default'', pr_symbol = ''005930'',
     pr_strategy_type = ''swing'', pr_quantity = 10, pr_avg_cost = 50000, pr_entry_price = 50000,
     pr_entry_date = 738000, pr_stop_loss_price = 48500, pr_take_profit_price = None,
     pr_trailing_stop_pct = None, pr_max_holding_days = Some 10, pr_status = ''closed'',
     pr_exit_price = Some 50050, pr_exit_date = Some 738009, pr_exit_reason = Some ''time_based'',
     pr_realized_pnl = Some (- 476), pr_entry_session_id = None, pr_exit_session_id = None\<rparr>"

theorem avg_loss_counts_gross_gain_witness:
  "calculate_avg_win_loss [costly_trade] = Inr (0, 1 / 10)"
proof (rule avg_loss_counts_gross_gain [where x = "- 476" and g = "1 / 10"])
  show "trade_pct costly_trade = Some (1 / 10)" by (simp add: trade_pct_def costly_trade_def dec_eval)
  show "is_dec (1 / 10)" by (simp add: is_dec_def dec_eval)
  show "dquant 2 (1 / 10) = Inr (1 / 10)" by (simp add: dquant_def dec_eval)
qed (simp_all add: costly_trade_def)

end
