(* ===== verification/Llm_Replay.thy ===== *)
theory Llm_Replay
  imports Models
begin

text \<open>
  \<open>src/backtest/llm_replay.py\<close>: the replay of logged LLM decisions as backtest signals. A time is
  a number of minutes (UTC), a date its day number, Korean time is nine hours ahead. The table
  \<open>decision_log\<close> is the list of its rows. Property: the decisions cached for a date and a
  symbol are exactly the matching rows of that Korean date, in time order.
\<close>

record decision_row =
  dl_decision_id :: uuid
  dl_symbol :: "symbol option"
  dl_stage :: string
  dl_decision :: string
  dl_confidence :: "dec option"
  dl_reasoning :: string
  dl_llm_model :: "string option"
  dl_created_at :: int

record replay_decision =
  rd_decision_id :: uuid
  rd_symbol :: symbol
  rd_stage :: string
  rd_decision :: string
  rd_confidence :: dec
  rd_reasoning :: string
  rd_llm_model :: "string option"
  rd_created_at :: int

type_synonym replay_cache = "(date \<times> symbol, replay_decision list) dict"

definition kst_date :: "int \<Rightarrow> date" where
  "kst_date t = (t + 540) div 1440"

definition default_stage_filter :: "string list" where
  "default_stage_filter = [''trade_decision'', ''stock_analysis'']"

definition actionable_decisions :: "string list" where
  "actionable_decisions = [''buy'', ''sell'', ''hold'']"

definition replay_rows ::
  "decision_row list \<Rightarrow> date \<Rightarrow> date \<Rightarrow> symbol list \<Rightarrow> string option \<Rightarrow> decision_row list" where
  "replay_rows rows start_date end_date symbols llm_model_filter =
     (let start_dt = start_date * 1440 - 540; end_dt = end_date * 1440 - 540 + 1440 in
      sort_key dl_created_at (filter (\<lambda>r. start_dt \<le> dl_created_at r \<and> dl_created_at r < end_dt
        \<and> (case dl_symbol r of None \<Rightarrow> False | Some s \<Rightarrow> s \<in> set symbols)
        \<and> dl_confidence r \<noteq> None
        \<and> dl_stage r \<in> set default_stage_filter
        \<and> dl_decision r \<in> set actionable_decisions
        \<and> (case llm_model_filter of None \<Rightarrow> True | Some m \<Rightarrow> dl_llm_model r = Some m)) rows))"

definition replay_of_row :: "decision_row \<Rightarrow> replay_decision" where
  "replay_of_row r = \<lparr>rd_decision_id = dl_decision_id r, rd_symbol = the (dl_symbol r),
     rd_stage = dl_stage r, rd_decision = dl_decision r, rd_confidence = the (dl_confidence r),
     rd_reasoning = dl_reasoning r, rd_llm_model = dl_llm_model r, rd_created_at = dl_created_at r\<rparr>"

definition add_replay :: "replay_cache \<Rightarrow> decision_row \<Rightarrow> replay_cache" where
  "add_replay c r = (let key = (kst_date (dl_created_at r), the (dl_symbol r)) in
     dict_set key ((case dict_get c key of None \<Rightarrow> [] | Some ds \<Rightarrow> ds) @ [replay_of_row r]) c)"

definition replay_load ::
  "decision_row list \<Rightarrow> date \<Rightarrow> date \<Rightarrow> symbol list \<Rightarrow> string option \<Rightarrow> replay_cache \<times> nat" where
  "replay_load rows start_date end_date symbols llm_model_filter =
     (let rs = replay_rows rows start_date end_date symbols llm_model_filter
      in (foldl add_replay [] rs, length rs))"

definition get_decisions :: "replay_cache \<Rightarrow> date \<Rightarrow> symbol \<Rightarrow> replay_decision list" where
  "get_decisions c d s = (case dict_get c (d, s) of None \<Rightarrow> [] | Some ds \<Rightarrow> ds)"

definition decision_to_signal :: "string \<Rightarrow> signal_action option" where
  "decision_to_signal v = (if v = ''buy'' then Some Sig_BUY else if v = ''sell'' then Some Sig_SELL else None)"

definition to_signal :: "replay_decision \<Rightarrow> signal option" where
  "to_signal d =
     (if rd_confidence d < 1 / 2 then None
      else case decision_to_signal (rd_decision d) of
          None \<Rightarrow> None
        | Some a \<Rightarrow> Some \<lparr>sg_symbol = rd_symbol d, sg_action = a, sg_confidence = rd_confidence d,
            sg_target_price = None, sg_stop_loss_price = None, sg_quantity = 0,
            sg_position_value_krw = 0\<rparr>)"

section \<open>Lemmas\<close>

lemma foldl_add_replay:
  "(case dict_get (foldl add_replay c rs) (d, s) of None \<Rightarrow> [] | Some ds \<Rightarrow> ds)
    = (case dict_get c (d, s) of None \<Rightarrow> [] | Some ds \<Rightarrow> ds)
      @ map replay_of_row (filter (\<lambda>r. kst_date (dl_created_at r) = d \<and> the (dl_symbol r) = s) rs)"
proof (induction rs arbitrary: c)
  case (Cons r rs)
  show ?case
    by (simp add: Cons.IH) (auto simp: add_replay_def Let_def dict_simps)
qed simp

lemma kst_date_range:
  "start_date * 1440 - 540 \<le> t \<and> t < end_date * 1440 - 540 + 1440 \<and> R
     \<longleftrightarrow> start_date \<le> kst_date t \<and> kst_date t \<le> end_date \<and> R"
  by (auto simp: kst_date_def)

section \<open>Properties\<close>

text \<open>
  Load and get_decisions: the decisions returned for a date and symbol are the logged rows of
  that symbol created on that Korean date (and no other date), actionable, of a replayed stage
  and with a confidence, in the order of their creation; dates outside the range give none.
\<close>

theorem replay_decisions_spec:
  "get_decisions (fst (replay_load rows start_date end_date symbols m)) d s
    = map replay_of_row (sort_key dl_created_at (filter (\<lambda>r. kst_date (dl_created_at r) = d
        \<and> dl_symbol r = Some s \<and> start_date \<le> d \<and> d \<le> end_date \<and> s \<in> set symbols
        \<and> dl_confidence r \<noteq> None \<and> dl_stage r \<in> {''trade_decision'', ''stock_analysis''}
        \<and> dl_decision r \<in> {''buy'', ''sell'', ''hold''} \<and> (m = None \<or> dl_llm_model r = m)) rows))"
proof -
  have "get_decisions (fst (replay_load rows start_date end_date symbols m)) d s
    = map replay_of_row (filter (\<lambda>r. kst_date (dl_created_at r) = d \<and> the (dl_symbol r) = s)
        (replay_rows rows start_date end_date symbols m))"
    using foldl_add_replay [of "[]" "replay_rows rows start_date end_date symbols m" d s]
    by (simp add: get_decisions_def replay_load_def Let_def)
  also have "\<dots> = map replay_of_row (sort_key dl_created_at (filter (\<lambda>r. kst_date (dl_created_at r) = d
        \<and> dl_symbol r = Some s \<and> start_date \<le> d \<and> d \<le> end_date \<and> s \<in> set symbols
        \<and> dl_confidence r \<noteq> None \<and> dl_stage r \<in> {''trade_decision'', ''stock_analysis''}
        \<and> dl_decision r \<in> {''buy'', ''sell'', ''hold''} \<and> (m = None \<or> dl_llm_model r = m)) rows))"
  proof -
    let ?P = "\<lambda>r. start_date \<le> kst_date (dl_created_at r) \<and> kst_date (dl_created_at r) \<le> end_date
        \<and> (case dl_symbol r of None \<Rightarrow> False | Some s \<Rightarrow> s \<in> set symbols)
        \<and> dl_confidence r \<noteq> None
        \<and> dl_stage r \<in> set default_stage_filter
        \<and> dl_decision r \<in> set actionable_decisions
        \<and> (case m of None \<Rightarrow> True | Some x \<Rightarrow> dl_llm_model r = Some x)"
    have rows: "replay_rows rows start_date end_date symbols m = sort_key dl_created_at (filter ?P rows)"
      unfolding replay_rows_def Let_def kst_date_range ..
    show ?thesis
      unfolding rows filter_sort filter_filter
      by (intro arg_cong [where f = "map replay_of_row"] arg_cong [where f = "sort_key dl_created_at"]
          filter_cong refl)
        (cases m; auto simp: default_stage_filter_def actionable_decisions_def
          split: option.splits)
  qed
  finally show ?thesis .
qed

theorem replay_decisions_spec_witness:
  "length (get_decisions (fst (replay_load
      [\<lparr>dl_decision_id = 1, dl_symbol = Some ''005930'', dl_stage = ''trade_decision'',
        dl_decision = ''buy'', dl_confidence = Some 1, dl_reasoning = '''', dl_llm_model = None,
        dl_created_at = 738000 * 1440 + 1000\<rparr>] 738000 738005 [''005930''] None)) 738001 ''005930'') = 1"
  unfolding replay_decisions_spec by (simp add: kst_date_def)

end
