(* ===== verification/Engine.thy ===== *)
theory Engine
  imports Simulator Metrics Llm_Replay Sizing Exit_Checker
begin

text \<open>
  \<open>src/backtest/engine.py\<close>: the day loop of a backtest, which exits positions, fills the
  signals of the day before, generates new signals and records a snapshot. The engine's state
  holds its own book of positions beside the simulated broker's. What the code gets from
  elsewhere is in \<open>engine_env\<close>: the loaded bars, the settings, the decision log (None without a
  session factory) and the indicator functions over the \<open>ta\<close> package, whose series are lists of
  floats with None for NaN, floats being rationals. A method that raises keeps what it changed before.
\<close>

section \<open>State\<close>

record engine =
  en_positions :: "(symbol, position_record) dict"
  en_closed :: "position_record list"
  en_snapshots :: "bt_snapshot list"
  en_trades :: "backtest_trade list"
  en_pending :: "signal list"
  en_highest :: "(symbol, dec) dict"
  en_position_id :: int
  en_snapshot_id :: nat
  en_peak :: dec
  en_daily_trades :: int
  en_daily_pnl :: dec
  en_replay :: "replay_cache option"
  en_broker :: sim_broker

text \<open>
  The indicators: SMA, RSI, MACD line with its signal line and the lower Bollinger band of a
  series of closes; the last ATR(14) of bars as the Decimal of its text; float conversion.
\<close>

record indicators =
  in_sma :: "dec list \<Rightarrow> int \<Rightarrow> exc + rat option list"
  in_rsi :: "dec list \<Rightarrow> exc + rat option list"
  in_macd :: "dec list \<Rightarrow> exc + rat option list \<times> rat option list"
  in_bb_lower :: "dec list \<Rightarrow> exc + rat option list"
  in_atr :: "ohlcv list \<Rightarrow> exc + dec option"
  in_float :: "dec \<Rightarrow> rat"

record engine_env =
  ee_loader :: loader
  ee_settings :: settings
  ee_indicators :: indicators
  ee_dec_fns :: dec_fns
  ee_decision_log :: "(exc + decision_row list) option"

abbreviation ee_sizer :: "engine_env \<Rightarrow> sizer" where
  "ee_sizer ev \<equiv> mk_sizer (ee_settings ev)"

definition engine_init :: "sim_broker \<Rightarrow> engine" where
  "engine_init b = \<lparr>en_positions = [], en_closed = [], en_snapshots = [], en_trades = [],
     en_pending = [], en_highest = [], en_position_id = 0, en_snapshot_id = 0, en_peak = 0,
     en_daily_trades = 0, en_daily_pnl = 0, en_replay = None, en_broker = b\<rparr>"

text \<open>\<open>_reset_state\<close> clears the engine; the broker it was given stays as it is.\<close>

definition reset_state :: "engine \<Rightarrow> engine" where
  "reset_state en = \<lparr>en_positions = [], en_closed = [], en_snapshots = [], en_trades = [],
     en_pending = [], en_highest = [], en_position_id = 0, en_snapshot_id = 0, en_peak = 0,
     en_daily_trades = 0, en_daily_pnl = 0, en_replay = None, en_broker = en_broker en\<rparr>"

text \<open>\<open>params.get(name, default)\<close>\<close>

definition param_or :: "backtest_config \<Rightarrow> string \<Rightarrow> dec \<Rightarrow> dec" where
  "param_or cfg name dflt = (case dict_get (cf_parameters cfg) name of None \<Rightarrow> dflt | Some v \<Rightarrow> v)"

section \<open>Exits\<close>

text \<open>The four exit conditions of \<open>_check_exits\<close>, given the price, the profit and the high.\<close>

definition engine_exit_signal ::
  "backtest_config \<Rightarrow> date \<Rightarrow> position_record \<Rightarrow> dec \<Rightarrow> dec \<Rightarrow> dec \<Rightarrow> exc + exit_signal option" where
  "engine_exit_signal cfg d pos close pct high =
     (case check_stop_loss pos close pct of
        Some x \<Rightarrow> Inr (Some x)
      | None \<Rightarrow>
          rbind (case pr_trailing_stop_pct pos of
                   None \<Rightarrow> Inr None
                 | Some activation \<Rightarrow>
                     if activation \<le> pct then
                       rbind (trailing_stop_price high activation) (\<lambda>stop.
                         Inr (check_trailing_stop pos close pct stop))
                     else Inr None) (\<lambda>trailing.
          Inr (first_some [trailing, check_take_profit pos close pct,
            check_time_based pos close pct d
              (if cf_strategy_type cfg = POSITION then ''next_session'' else ''end_of_day'')])))"

text \<open>The scan of one position; the second component collects \<open>symbols_to_exit\<close>.\<close>

definition scan_position ::
  "engine_env \<Rightarrow> backtest_config \<Rightarrow> date \<Rightarrow> symbol \<times> position_record \<Rightarrow> (engine \<times> (symbol \<times> string) list) action" where
  "scan_position ev cfg d = (\<lambda>(s, pos) (en, exits).
     case get_close_price (ee_loader ev) s d of
       None \<Rightarrow> (Inr (), (en, exits))
     | Some close \<Rightarrow>
         (case ddiv (dsub close (pr_entry_price pos)) (pr_entry_price pos) of
            Inl e \<Rightarrow> (Inl e, (en, exits))
          | Inr q \<Rightarrow>
              let pct = dmul q 100;
                  prev_high = (case dict_get (en_highest en) s of None \<Rightarrow> pr_entry_price pos | Some h \<Rightarrow> h);
                  high = max prev_high close;
                  en = en\<lparr>en_highest := dict_set s high (en_highest en)\<rparr>
              in case engine_exit_signal cfg d pos close pct high of
                   Inl e \<Rightarrow> (Inl e, (en, exits))
                 | Inr None \<Rightarrow> (Inr (), (en, exits))
                 | Inr (Some x) \<Rightarrow> (Inr (), (en, exits @ [(s, exit_reason_value (xs_reason x))]))))"

definition closed_row :: "date \<Rightarrow> string \<Rightarrow> dec \<Rightarrow> dec \<Rightarrow> position_record \<Rightarrow> position_record" where
  "closed_row d why close pnl pos = pos\<lparr>pr_exit_price := Some close, pr_exit_date := Some d,
     pr_exit_reason := Some why, pr_realized_pnl := Some pnl, pr_status := ''closed''\<rparr>"

text \<open>The bookkeeping of \<open>_execute_exit\<close> between the fill and the trade record.\<close>

definition book_exit :: "date \<Rightarrow> string \<Rightarrow> symbol \<Rightarrow> position_record \<Rightarrow> dec \<Rightarrow> dec \<Rightarrow> engine \<Rightarrow> engine" where
  "book_exit d why s pos close pnl en = en\<lparr>
     en_closed := en_closed en @ [closed_row d why close pnl pos],
     en_positions := dict_del s (en_positions en), en_highest := dict_del s (en_highest en),
     en_daily_pnl := dadd (en_daily_pnl en) pnl, en_daily_trades := en_daily_trades en + 1\<rparr>"

definition engine_execute_exit :: "engine_env \<Rightarrow> date \<Rightarrow> symbol \<times> string \<Rightarrow> engine action" where
  "engine_execute_exit ev d = (\<lambda>(s, why) en.
     case dict_get (en_positions en) s of
       None \<Rightarrow> (Inr (), en)
     | Some pos \<Rightarrow>
         (case get_close_price (ee_loader ev) s d of
            None \<Rightarrow> (Inr (), en)
          | Some close \<Rightarrow>
              (case mk_order_request ''default'' s Side_SELL LIMIT (pr_quantity pos) (Some close) of
                 Inl e \<Rightarrow> (Inl e, en)
               | Inr rq \<Rightarrow>
                   (case sb_place_order (ee_loader ev) rq (en_broker en) of
                      (Inl e, b) \<Rightarrow> (Inl e, en\<lparr>en_broker := b\<rparr>)
                    | (Inr result, b) \<Rightarrow>
                        let pnl = dsub (dmul (dsub close (pr_avg_cost pos)) (of_int (pr_quantity pos)))
                                    (or_commission result);
                            en = book_exit d why s pos close pnl (en\<lparr>en_broker := b\<rparr>)
                        in case mk_backtest_trade s Side_SELL (pr_quantity pos) close
                                  (or_commission result) 0 d (Some pnl) (Some why) of
                             Inl e \<Rightarrow> (Inl e, en)
                           | Inr t \<Rightarrow> (Inr (), en\<lparr>en_trades := en_trades en @ [t]\<rparr>)))))"

definition check_exits :: "engine_env \<Rightarrow> backtest_config \<Rightarrow> date \<Rightarrow> engine action" where
  "check_exits ev cfg d en =
     (case for_each (scan_position ev cfg d) (en_positions en) (en, []) of
        (Inl e, (en, _)) \<Rightarrow> (Inl e, en)
      | (Inr _, (en, exits)) \<Rightarrow> for_each (engine_execute_exit ev d) exits en)"

section \<open>Entries\<close>

definition cap_qty :: "dec \<Rightarrow> dec \<Rightarrow> int" where
  "cap_qty amount price = (if 0 < price then dint (dquo amount price) else 0)"

definition engine_risk_check :: "settings \<Rightarrow> symbol \<Rightarrow> int \<Rightarrow> dec \<Rightarrow> engine \<Rightarrow> bool \<times> int" where
  "engine_risk_check st s quantity price en =
     (if MAX_PORTFOLIO_POSITIONS st \<le> int (length (en_positions en)) then (False, 0)
      else if MAX_DAILY_TRADES st \<le> en_daily_trades en then (False, 0)
      else if dict_get (en_positions en) s \<noteq> None then (False, 0)
      else
        let max_by_pct = dquo (dmul (sb_get_total_value (en_broker en)) (MAX_POSITION_PCT st)) 100;
            adjusted = min quantity (cap_qty max_by_pct price);
            adjusted = min adjusted (cap_qty (of_int (MAX_POSITION_SIZE_KRW st)) price);
            adjusted = min adjusted (cap_qty (sb_cash (en_broker en)) price)
        in if adjusted \<le> 0 then (False, 0) else (True, adjusted))"

definition entry_row ::
  "backtest_config \<Rightarrow> date \<Rightarrow> signal \<Rightarrow> int \<Rightarrow> dec \<Rightarrow> int \<Rightarrow> position_record" where
  "entry_row cfg d sg q fill_price i =
     \<lparr>pr_id = i, pr_account_id = ''default'', pr_symbol = sg_symbol sg,
      pr_strategy_type = strategy_type_value (cf_strategy_type cfg), pr_quantity = q,
      pr_avg_cost = fill_price, pr_entry_price = fill_price, pr_entry_date = d,
      pr_stop_loss_price = (case sg_stop_loss_price sg of None \<Rightarrow> 0 | Some p \<Rightarrow> p),
      pr_take_profit_price = sg_target_price sg,
      pr_trailing_stop_pct = (if cf_strategy_type cfg = POSITION
        then Some (param_or cfg ''trailing_stop_pct'' 5) else None),
      pr_max_holding_days = Some (dint (param_or cfg ''max_holding_days''
        (if cf_strategy_type cfg = POSITION then 60 else 10))),
      pr_status = ''open'', pr_exit_price = None, pr_exit_date = None, pr_exit_reason = None,
      pr_realized_pnl = None, pr_entry_session_id = None, pr_exit_session_id = None\<rparr>"

definition book_entry :: "backtest_config \<Rightarrow> date \<Rightarrow> signal \<Rightarrow> int \<Rightarrow> dec \<Rightarrow> engine \<Rightarrow> engine" where
  "book_entry cfg d sg q fill_price en =
     (let i = en_position_id en + 1 in
      en\<lparr>en_position_id := i,
         en_positions := dict_set (sg_symbol sg) (entry_row cfg d sg q fill_price i) (en_positions en),
         en_highest := dict_set (sg_symbol sg) fill_price (en_highest en),
         en_daily_trades := en_daily_trades en + 1\<rparr>)"

text \<open>The body of the loop over the pending signals; a failing order is logged and skipped.\<close>

definition execute_signal :: "engine_env \<Rightarrow> backtest_config \<Rightarrow> date \<Rightarrow> signal \<Rightarrow> engine action" where
  "execute_signal ev cfg d sg en =
     (if sg_action sg \<noteq> Sig_BUY \<or> dict_get (en_positions en) (sg_symbol sg) \<noteq> None then (Inr (), en)
      else case get_open_price (ee_loader ev) (sg_symbol sg) d of
        None \<Rightarrow> (Inr (), en)
      | Some open_price \<Rightarrow>
          let (passed, q) = engine_risk_check (ee_settings ev) (sg_symbol sg) (sg_quantity sg) open_price en in
          if \<not> passed then (Inr (), en)
          else case mk_order_request ''default'' (sg_symbol sg) Side_BUY MARKET q None of
            Inl e \<Rightarrow> (Inl e, en)
          | Inr rq \<Rightarrow>
              (case sb_place_order (ee_loader ev) rq (en_broker en) of
                 (Inl _, b) \<Rightarrow> (Inr (), en\<lparr>en_broker := b\<rparr>)
               | (Inr result, b) \<Rightarrow>
                   let fill_price = (case or_filled_price result of
                           Some p \<Rightarrow> (if p = 0 then open_price else p) | None \<Rightarrow> open_price);
                       slippage = dmul (dabs (dsub fill_price open_price)) (of_int q);
                       en = book_entry cfg d sg q fill_price (en\<lparr>en_broker := b\<rparr>)
                   in case mk_backtest_trade (sg_symbol sg) Side_BUY q fill_price
                             (or_commission result) slippage d None None of
                        Inl e \<Rightarrow> (Inl e, en)
                      | Inr t \<Rightarrow> (Inr (), en\<lparr>en_trades := en_trades en @ [t]\<rparr>)))"

definition execute_pending_signals :: "engine_env \<Rightarrow> backtest_config \<Rightarrow> date \<Rightarrow> engine action" where
  "execute_pending_signals ev cfg d en =
     for_each (execute_signal ev cfg d) (en_pending en) (en\<lparr>en_pending := []\<rparr>)"

section \<open>Signals\<close>

definition bars_so_far :: "loader \<Rightarrow> symbol \<Rightarrow> date \<Rightarrow> ohlcv list" where
  "bars_so_far ld s d =
     get_ohlcv_range ld s (case ld_trading_dates ld of [] \<Rightarrow> d | earliest # _ \<Rightarrow> earliest) d"

text \<open>\<open>xs.iloc[-k]\<close>\<close>

definition iloc_back :: "nat \<Rightarrow> 'a list \<Rightarrow> exc + 'a" where
  "iloc_back k xs = (if 0 < k \<and> k \<le> length xs then Inr (xs ! (length xs - k))
     else Inl (ExternalError ''IndexError''))"

definition already_has :: "engine \<Rightarrow> symbol \<Rightarrow> bool" where
  "already_has en s \<longleftrightarrow> dict_get (en_positions en) s \<noteq> None \<or> (\<exists>sg \<in> set (en_pending en). sg_symbol sg = s)"

text \<open>The sizing and queueing that ends each of the three \<open>_try\<close> methods.\<close>

definition queue_buy ::
  "engine_env \<Rightarrow> symbol \<Rightarrow> dec \<Rightarrow> dec \<Rightarrow> dec \<times> dec \<Rightarrow> dec \<Rightarrow> engine \<Rightarrow> exc + engine" where
  "queue_buy ev s confidence entry_price = (\<lambda>(sl, tp) total_value en.
     rbind (sizing_calculate (ee_sizer ev) s entry_price sl (Some tp) total_value 0) (\<lambda>sizing.
       Inr (if sz_quantity sizing \<le> 0 then en
            else en\<lparr>en_pending := en_pending en @
              [\<lparr>sg_symbol = s, sg_action = Sig_BUY, sg_confidence = confidence, sg_target_price = Some tp,
                sg_stop_loss_price = Some sl, sg_quantity = sz_quantity sizing,
                sg_position_value_krw = sz_position_value_krw sizing\<rparr>]\<rparr>)))"

text \<open>
  \<open>_try_position_signal\<close> up to the entry condition: the last values, None when one is NaN or the
  condition fails, and the ATR otherwise.
\<close>

definition position_entry ::
  "indicators \<Rightarrow> int \<Rightarrow> int \<Rightarrow> rat \<Rightarrow> ohlcv list \<Rightarrow> exc + dec option" where
  "position_entry ind sma_short sma_long rsi_threshold bars =
     (if bars = [] \<or> int (length bars) < sma_long then Inr None
      else let closes = map k_close bars in
        rbind (in_sma ind closes sma_short) (\<lambda>sma_s. rbind (in_sma ind closes sma_long) (\<lambda>sma_l.
        rbind (in_rsi ind closes) (\<lambda>rsi. rbind (in_atr ind bars) (\<lambda>atr.
        rbind (iloc_back 1 sma_s) (\<lambda>s1. rbind (iloc_back 1 sma_l) (\<lambda>l1. rbind (iloc_back 1 rsi) (\<lambda>r1.
          Inr (case (s1, l1, r1) of
               (Some a, Some b, Some r) \<Rightarrow> if b < a \<and> r < rsi_threshold then atr else None
             | _ \<Rightarrow> None)))))))))"

definition try_position_signal ::
  "engine_env \<Rightarrow> backtest_config \<Rightarrow> date \<Rightarrow> dec \<Rightarrow> symbol \<Rightarrow> engine \<Rightarrow> exc + engine" where
  "try_position_signal ev cfg d total_value s en =
     (let sma_short = dint (param_or cfg ''sma_short'' 20); sma_long = dint (param_or cfg ''sma_long'' 60);
          rsi_threshold = in_float (ee_indicators ev) (param_or cfg ''rsi_threshold'' 40)
      in if already_has en s then Inr en
         else rbind (position_entry (ee_indicators ev) sma_short sma_long rsi_threshold
                       (bars_so_far (ee_loader ev) s d)) (\<lambda>atr.
           case (atr, get_close_price (ee_loader ev) s d) of
             (Some a, Some entry_price) \<Rightarrow>
               rbind (atr_based entry_price a (param_or cfg ''atr_stop_mult'' 2) (param_or cfg ''atr_tp_mult'' 3))
                 (\<lambda>levels. queue_buy ev s (6 / 10) entry_price levels total_value en)
           | _ \<Rightarrow> Inr en))"

text \<open>The count of the three swing conditions; None when a value is NaN.\<close>

definition swing_count :: "indicators \<Rightarrow> ohlcv list \<Rightarrow> exc + int option" where
  "swing_count ind bars =
     (if bars = [] \<or> length bars < 30 then Inr None
      else let closes = map k_close bars in
        rbind (in_rsi ind closes) (\<lambda>rsi. rbind (in_macd ind closes) (\<lambda>(macd, sig).
        rbind (in_bb_lower ind closes) (\<lambda>bbl.
        if length rsi < 2 \<or> length macd < 2 \<or> length bbl < 2 then Inr None
        else rbind (iloc_back 2 rsi) (\<lambda>r0. rbind (iloc_back 1 rsi) (\<lambda>r1.
          rbind (iloc_back 2 macd) (\<lambda>m0. rbind (iloc_back 1 macd) (\<lambda>m1.
          rbind (iloc_back 2 sig) (\<lambda>g0. rbind (iloc_back 1 sig) (\<lambda>g1.
          rbind (iloc_back 2 closes) (\<lambda>c0. rbind (iloc_back 1 closes) (\<lambda>c1.
          rbind (iloc_back 2 bbl) (\<lambda>b0. rbind (iloc_back 1 bbl) (\<lambda>b1.
            Inr (case (r0, r1, m0, m1, g0, g1, b0, b1) of
                (Some r0, Some r1, Some m0, Some m1, Some g0, Some g1, Some b0, Some b1) \<Rightarrow>
                  Some ((if r0 < 30 \<and> 30 \<le> r1 then 1 else 0)
                      + (if m0 \<le> g0 \<and> g1 < m1 then 1 else 0)
                      + (if in_float ind c0 \<le> b0 \<and> b1 < in_float ind c1 then 1 else 0))
              | _ \<Rightarrow> None)))))))))))))))"

definition try_swing_signal ::
  "engine_env \<Rightarrow> backtest_config \<Rightarrow> date \<Rightarrow> dec \<Rightarrow> symbol \<Rightarrow> engine \<Rightarrow> exc + engine" where
  "try_swing_signal ev cfg d total_value s en =
     (if already_has en s then Inr en
      else rbind (swing_count (ee_indicators ev) (bars_so_far (ee_loader ev) s d)) (\<lambda>count.
        case (count, get_close_price (ee_loader ev) s d) of
          (Some n, Some entry_price) \<Rightarrow>
            if n < dint (param_or cfg ''min_signals'' 2) then Inr en
            else rbind (fixed_percentage entry_price (param_or cfg ''stop_pct'' 3) (param_or cfg ''tp_pct'' 5))
              (\<lambda>levels. queue_buy ev s (1 / 2) entry_price levels total_value en)
        | _ \<Rightarrow> Inr en))"

definition compute_atr :: "engine_env \<Rightarrow> symbol \<Rightarrow> date \<Rightarrow> exc + dec option" where
  "compute_atr ev s d =
     (let bars = bars_so_far (ee_loader ev) s d in
      if bars = [] \<or> length bars < 14 then Inr None else in_atr (ee_indicators ev) bars)"

text \<open>\<open>max(decisions, key=lambda d: d.confidence)\<close>: the first of the largest.\<close>

definition best_decision :: "replay_decision \<Rightarrow> replay_decision list \<Rightarrow> replay_decision" where
  "best_decision = foldl (\<lambda>b x. if rd_confidence b < rd_confidence x then x else b)"

definition replay_levels ::
  "engine_env \<Rightarrow> backtest_config \<Rightarrow> date \<Rightarrow> symbol \<Rightarrow> dec \<Rightarrow> exc + (dec \<times> dec) option" where
  "replay_levels ev cfg d s current_price =
     (if cf_strategy_type cfg = POSITION then
        rbind (compute_atr ev s d) (\<lambda>atr. case atr of
          None \<Rightarrow> Inr None
        | Some a \<Rightarrow> rbind (atr_based current_price a (param_or cfg ''atr_stop_mult'' 2) (param_or cfg ''atr_tp_mult'' 3))
            (\<lambda>levels. Inr (Some levels)))
      else rbind (fixed_percentage current_price (param_or cfg ''stop_pct'' 3) (param_or cfg ''tp_pct'' 5))
        (\<lambda>levels. Inr (Some levels)))"

definition try_replay_signal ::
  "engine_env \<Rightarrow> backtest_config \<Rightarrow> date \<Rightarrow> dec \<Rightarrow> symbol \<Rightarrow> engine \<Rightarrow> exc + engine" where
  "try_replay_signal ev cfg d total_value s en =
     (if already_has en s then Inr en
      else case en_replay en of
        None \<Rightarrow> Inl AssertionError
      | Some cache \<Rightarrow>
          (case get_decisions cache d s of
             [] \<Rightarrow> Inr en
           | d0 # ds \<Rightarrow>
               let best = best_decision d0 ds in
               (case get_close_price (ee_loader ev) s d of
                  None \<Rightarrow> Inr en
                | Some current_price \<Rightarrow>
                    (case to_signal best of
                       None \<Rightarrow> Inr en
                     | Some sg \<Rightarrow>
                         if sg_action sg \<noteq> Sig_BUY then Inr en
                         else rbind (replay_levels ev cfg d s current_price) (\<lambda>levels. case levels of
                             None \<Rightarrow> Inr en
                           | Some l \<Rightarrow> queue_buy ev s (rd_confidence best) current_price l total_value en)))))"

text \<open>A symbol whose signal raises is logged and left out; it raises before it is queued.\<close>

definition guarded :: "(symbol \<Rightarrow> engine \<Rightarrow> exc + engine) \<Rightarrow> symbol list \<Rightarrow> engine \<Rightarrow> engine" where
  "guarded try ss en = foldl (\<lambda>en s. case try s en of Inl _ \<Rightarrow> en | Inr en' \<Rightarrow> en') en ss"

definition generate_signals :: "engine_env \<Rightarrow> backtest_config \<Rightarrow> date \<Rightarrow> engine action" where
  "generate_signals ev cfg d en =
     (let total_value = sb_get_total_value (en_broker en) in
      if cf_mode cfg = LLM_REPLAY then
        (if en_replay en = None then (Inl AssertionError, en)
         else (Inr (), guarded (try_replay_signal ev cfg d total_value) (cf_symbols cfg) en))
      else if cf_strategy_type cfg = POSITION then
        (Inr (), guarded (try_position_signal ev cfg d total_value) (cf_symbols cfg) en)
      else (Inr (), guarded (try_swing_signal ev cfg d total_value) (cf_symbols cfg) en))"

section \<open>Snapshots and the run\<close>

definition unrealized_sum :: "loader \<Rightarrow> date \<Rightarrow> position_record list \<Rightarrow> dec" where
  "unrealized_sum ld d ps = dsum (List.map_filter (\<lambda>p. map_option
     (\<lambda>close. dmul (dsub close (pr_avg_cost p)) (of_int (pr_quantity p))) (get_close_price ld (pr_symbol p) d)) ps)"

definition record_snapshot :: "engine_env \<Rightarrow> date \<Rightarrow> engine action" where
  "record_snapshot ev d en =
     (let total_value = sb_get_total_value (en_broker en); cash = sb_cash (en_broker en);
          peak = max (en_peak en) total_value; en = en\<lparr>en_peak := peak\<rparr>
      in case (if 0 < peak then dquant 2 (dmul (dquo (dsub peak total_value) peak) 100) else Inr 0) of
           Inl e \<Rightarrow> (Inl e, en)
         | Inr drawdown \<Rightarrow>
             let i = en_snapshot_id en + 1 in
             (Inr (), en\<lparr>en_snapshot_id := i, en_snapshots := en_snapshots en @
               [\<lparr>sn_total_value = total_value, sn_cash = cash, sn_invested = dsub total_value cash,
                 sn_unrealized_pnl = unrealized_sum (ee_loader ev) d (dict_values (en_positions en)),
                 sn_realized_pnl_daily = en_daily_pnl en, sn_peak_value = peak, sn_drawdown_pct = drawdown,
                 sn_positions_count = length (en_positions en), sn_sector_allocations = None,
                 sn_trade_count_daily = nat (en_daily_trades en), bs_id = i, bs_date = d\<rparr>]\<rparr>))"

definition start_day :: "engine_env \<Rightarrow> date \<Rightarrow> engine \<Rightarrow> engine" where
  "start_day ev d en = en\<lparr>en_daily_trades := 0, en_daily_pnl := 0,
     en_broker := sb_set_current_date (ee_loader ev) d (en_broker en)\<rparr>"

definition run_day :: "engine_env \<Rightarrow> backtest_config \<Rightarrow> date \<Rightarrow> engine action" where
  "run_day ev cfg d en =
     and_then (check_exits ev cfg d) (and_then (execute_pending_signals ev cfg d)
       (and_then (generate_signals ev cfg d) (record_snapshot ev d))) (start_day ev d en)"

definition force_close_all :: "engine_env \<Rightarrow> date \<Rightarrow> engine action" where
  "force_close_all ev last_date en =
     for_each (\<lambda>s. engine_execute_exit ev last_date (s, ''backtest_end'')) (dict_keys (en_positions en)) en"

definition calculate_metrics :: "engine_env \<Rightarrow> backtest_config \<Rightarrow> engine \<Rightarrow> exc + performance_metrics option" where
  "calculate_metrics ev cfg en =
     (if en_snapshots en = [] then Inr None
      else rbind (performance_calculate (ee_dec_fns ev) (en_closed en) (en_snapshots en) (cf_start_date cfg)
             (cf_end_date cfg) (RISK_FREE_RATE_PCT (ee_settings ev))) (\<lambda>m. Inr (Some m)))"

text \<open>A \<open>BacktestResult\<close>; its run id, its config and its time stamps are left out.\<close>

record backtest_result =
  br_status :: backtest_status
  br_metrics :: "performance_metrics option"
  br_trades :: "backtest_trade list"
  br_total_trades :: nat
  br_error :: "exc option"

definition failed_result :: "exc \<Rightarrow> engine \<Rightarrow> backtest_result" where
  "failed_result e en = \<lparr>br_status = Bt_FAILED, br_metrics = None, br_trades = en_trades en,
     br_total_trades = length (en_trades en), br_error = Some e\<rparr>"

definition completed_result :: "performance_metrics option \<Rightarrow> backtest_trade list \<Rightarrow> backtest_result" where
  "completed_result ms trades = \<lparr>br_status = Bt_COMPLETED, br_metrics = ms, br_trades = trades,
     br_total_trades = length trades, br_error = None\<rparr>"

definition init_run :: "engine_env \<Rightarrow> backtest_config \<Rightarrow> engine action" where
  "init_run ev cfg en =
     (let en = (reset_state en)\<lparr>en_peak := cf_initial_capital cfg\<rparr> in
      if cf_mode cfg \<noteq> LLM_REPLAY then (Inr (), en)
      else case ee_decision_log ev of
          None \<Rightarrow> (Inl (ValueError ''session_factory is required for LLM_REPLAY mode''), en)
        | Some (Inl e) \<Rightarrow> (Inl e, en\<lparr>en_replay := Some []\<rparr>)
        | Some (Inr rows) \<Rightarrow> (Inr (), en\<lparr>en_replay := Some (fst (replay_load rows (cf_start_date cfg)
            (cf_end_date cfg) (cf_symbols cfg) (cf_llm_model_filter cfg)))\<rparr>))"

definition run_dates :: "engine_env \<Rightarrow> backtest_config \<Rightarrow> date list" where
  "run_dates ev cfg = filter (\<lambda>d. cf_start_date cfg \<le> d \<and> d \<le> cf_end_date cfg) (ld_trading_dates (ee_loader ev))"

definition close_out :: "engine_env \<Rightarrow> date \<Rightarrow> engine action" where
  "close_out ev last_date en = (if en_positions en \<noteq> [] then force_close_all ev last_date en else (Inr (), en))"

definition engine_run :: "engine_env \<Rightarrow> backtest_config \<Rightarrow> engine \<Rightarrow> backtest_result \<times> engine" where
  "engine_run ev cfg en =
     (case init_run ev cfg en of
        (Inl e, en) \<Rightarrow> (failed_result e en, en)
      | (Inr _, en) \<Rightarrow>
          let dates = run_dates ev cfg in
          if dates = [] \<or> cf_symbols cfg = [] then (completed_result None [], en)
          else case and_then (for_each (run_day ev cfg) dates) (close_out ev (last dates)) en of
              (Inl e, en) \<Rightarrow> (failed_result e en, en)
            | (Inr _, en) \<Rightarrow>
                (case calculate_metrics ev cfg en of
                   Inl e \<Rightarrow> (failed_result e en, en)
                 | Inr ms \<Rightarrow> (completed_result ms (en_trades en), en)))"

end
