(* ===== verification/Engine_Invariant.thy ===== *)
theory Engine_Invariant
  imports Engine
begin

text \<open>
  What every step of the backtest engine keeps, also when it raises: the engine's book of
  positions and the simulated broker's agree share by share, the book is well formed, it never
  holds more symbols than the portfolio limit, and every row in the list of closed positions
  is closed with a realised profit. Properties of the risk check, of the run as a whole and of
  its end.
\<close>

section \<open>The invariant\<close>

definition book_ok :: "(symbol, position_record) dict \<Rightarrow> bool" where
  "book_ok ps \<longleftrightarrow> dict_ok ps \<and> (\<forall>s p. dict_get ps s = Some p \<longrightarrow>
     pr_symbol p = s \<and> 0 < pr_quantity p \<and> pr_status p = ''open'')"

definition book_qty :: "(symbol, position_record) dict \<Rightarrow> symbol \<Rightarrow> int" where
  "book_qty ps s = (case dict_get ps s of None \<Rightarrow> 0 | Some p \<Rightarrow> pr_quantity p)"

definition books_agree :: "engine \<Rightarrow> bool" where
  "books_agree en \<longleftrightarrow> (\<forall>s. held (sb_positions (en_broker en)) s = book_qty (en_positions en) s)"

definition en_ok :: "settings \<Rightarrow> engine \<Rightarrow> bool" where
  "en_ok st en \<longleftrightarrow> sb_ok (en_broker en) \<and> book_ok (en_positions en) \<and> books_agree en
     \<and> int (length (en_positions en)) \<le> max 0 (MAX_PORTFOLIO_POSITIONS st)
     \<and> (\<forall>r \<in> set (en_closed en). pr_status r = ''closed'' \<and> pr_realized_pnl r \<noteq> None)"

lemma en_ok_update [simp]:
  "en_ok st (en\<lparr>en_pending := a\<rparr>) = en_ok st en"
  "en_ok st (en\<lparr>en_snapshots := b\<rparr>) = en_ok st en"
  "en_ok st (en\<lparr>en_trades := c\<rparr>) = en_ok st en"
  "en_ok st (en\<lparr>en_highest := h\<rparr>) = en_ok st en"
  "en_ok st (en\<lparr>en_peak := p\<rparr>) = en_ok st en"
  "en_ok st (en\<lparr>en_snapshot_id := i\<rparr>) = en_ok st en"
  "en_ok st (en\<lparr>en_daily_trades := n\<rparr>) = en_ok st en"
  "en_ok st (en\<lparr>en_daily_pnl := x\<rparr>) = en_ok st en"
  "en_ok st (en\<lparr>en_replay := r\<rparr>) = en_ok st en"
  "en_ok st (en\<lparr>en_position_id := j\<rparr>) = en_ok st en"
  by (simp_all add: en_ok_def books_agree_def)

lemma book_ok_del: "book_ok ps \<Longrightarrow> book_ok (dict_del s ps)"
  by (auto simp: book_ok_def dict_simps split: if_splits)

lemma book_ok_set: "book_ok ps \<Longrightarrow> pr_symbol p = s \<Longrightarrow> 0 < pr_quantity p \<Longrightarrow> pr_status p = ''open''
    \<Longrightarrow> book_ok (dict_set s p ps)"
  by (auto simp: book_ok_def dict_simps)

lemma length_dict_set: "dict_get ps s = None \<Longrightarrow> length (dict_set s p ps) = Suc (length ps)"
  by (induction ps) auto

lemma length_dict_del: "length (dict_del s ps) \<le> length ps"
  by (rule length_delete_le)

section \<open>The broker's side\<close>

lemma update_valuations_get:
  "dict_get (update_valuations ld d ps) s = map_option (\<lambda>p. if p_quantity p \<le> 0 then p
     else case get_close_price ld s d of None \<Rightarrow> p | Some close \<Rightarrow> revalue close p) (dict_get ps s)"
  by (induction ps) (auto simp: update_valuations_def split: option.splits)

lemma held_update_valuations [simp]: "held (update_valuations ld d ps) s = held ps s"
  by (auto simp: held_def update_valuations_get revalue_def split: option.splits)

lemma dict_keys_update_valuations: "dict_keys (update_valuations ld d ps) = dict_keys ps"
  by (auto simp: dict_keys_def update_valuations_def)

lemma positions_ok_update_valuations:
  assumes "loader_ok ld" "positions_ok ps" shows "positions_ok (update_valuations ld d ps)"
  unfolding positions_ok_def
proof (intro conjI allI impI)
  show "dict_ok (update_valuations ld d ps)"
    using assms(2) by (simp add: positions_ok_def dict_ok_def dict_keys_update_valuations)
  fix s p assume "dict_get (update_valuations ld d ps) s = Some p"
  then obtain p0 where p0: "dict_get ps s = Some p0"
    and p: "p = (if p_quantity p0 \<le> 0 then p0
      else case get_close_price ld s d of None \<Rightarrow> p0 | Some close \<Rightarrow> revalue close p0)"
    by (auto simp: update_valuations_get)
  have "position_ok s p0" using assms(2) p0 by (simp add: positions_ok_def)
  moreover have "0 \<le> dmul close (of_int (p_quantity p0))"
    if "get_close_price ld s d = Some close" "0 \<le> p_quantity p0" for close
    using loader_ok_prices(1) [OF assms(1) that(1)] that(2) by (intro dec_nonneg) simp_all
  ultimately show "position_ok s p"
    by (auto simp: p position_ok_def revalue_def split: option.splits)
qed

lemma sb_ok_set_date: "loader_ok ld \<Longrightarrow> sb_ok b \<Longrightarrow> sb_ok (sb_set_current_date ld d b)"
  by (simp add: sb_ok_def sb_set_current_date_def positions_ok_update_valuations)

section \<open>The steps\<close>

lemma start_day_ok: "loader_ok (ee_loader ev) \<Longrightarrow> en_ok st en \<Longrightarrow> en_ok st (start_day ev d en)"
  using sb_ok_set_date [of "ee_loader ev" "en_broker en" d]
  by (simp add: en_ok_def start_day_def books_agree_def) (simp add: sb_set_current_date_def)

lemma highest_self: "\<exists>h. en = (en :: engine)\<lparr>en_highest := h\<rparr>"
  by (rule exI [of _ "en_highest en"]) simp

lemma scan_position_fst:
  assumes "scan_position ev cfg d x y = (r, en', exits)"
  shows "\<exists>h. en' = (fst y)\<lparr>en_highest := h\<rparr>"
proof -
  obtain s pos en xs where xy: "x = (s, pos)" "y = (en, xs)" by (cases x, cases y) auto
  from assms show ?thesis
    unfolding xy scan_position_def Let_def
    by (auto split: option.splits sum.splits intro!: highest_self)
qed

lemma scan_keeps: "keeps (\<lambda>(en, exits). en_ok st en) (for_each (scan_position ev cfg d) xs)"
proof (intro for_each_keeps keepsI)
  fix x and y :: "engine \<times> (symbol \<times> string) list"
  assume ok: "case y of (en, exits) \<Rightarrow> en_ok st en"
  obtain r en' exits where s: "scan_position ev cfg d x y = (r, en', exits)" by (metis prod_cases3)
  from scan_position_fst [OF s] ok show "case snd (scan_position ev cfg d x y) of (en, exits) \<Rightarrow> en_ok st en"
    by (auto simp: s split: prod.splits)
qed

text \<open>A sale of a whole position leaves both books without it.\<close>

lemma mk_order_request_Inr:
  "mk_order_request a s side ty q p = Inr o' \<Longrightarrow> 0 < q \<and> rq_symbol o' = s \<and> rq_side o' = side
     \<and> rq_type o' = ty \<and> rq_quantity o' = q \<and> rq_price o' = p"
  by (auto simp: mk_order_request_def split: if_splits)

lemma book_exit_ok:
  assumes "en_ok st en" "dict_get (en_positions en) s = Some pos" "sb_ok b"
    and "\<And>x. held (sb_positions b) x = held (sb_positions (en_broker en)) x - (if x = s then pr_quantity pos else 0)"
  shows "en_ok st (book_exit d why s pos close pnl (en\<lparr>en_broker := b\<rparr>))"
proof -
  have "held (sb_positions b) x = book_qty (dict_del s (en_positions en)) x" for x
    using assms(1,2,4) by (auto simp: en_ok_def books_agree_def book_qty_def dict_simps)
  moreover have "int (length (dict_del s (en_positions en))) \<le> max 0 (MAX_PORTFOLIO_POSITIONS st)"
    using assms(1) length_dict_del [of s "en_positions en"] by (auto simp: en_ok_def)
  ultimately show ?thesis
    using assms(1,3) book_ok_del [of "en_positions en" s]
    by (auto simp: en_ok_def books_agree_def book_exit_def closed_row_def)
qed

lemma book_entry_ok:
  assumes "en_ok st en" "dict_get (en_positions en) (sg_symbol sg) = None" "0 < q" "sb_ok b"
    and "int (length (en_positions en)) < MAX_PORTFOLIO_POSITIONS st"
    and "\<And>x. held (sb_positions b) x = held (sb_positions (en_broker en)) x + (if x = sg_symbol sg then q else 0)"
  shows "en_ok st (book_entry cfg d sg q f (en\<lparr>en_broker := b\<rparr>))"
proof -
  let ?row = "entry_row cfg d sg q f (en_position_id en + 1)"
  have "held (sb_positions b) x = book_qty (dict_set (sg_symbol sg) ?row (en_positions en)) x" for x
    using assms(1,2,6) by (auto simp: en_ok_def books_agree_def book_qty_def dict_simps entry_row_def)
  moreover have "book_ok (dict_set (sg_symbol sg) ?row (en_positions en))"
    using assms(1,3) by (intro book_ok_set) (simp_all add: en_ok_def entry_row_def)
  ultimately show ?thesis
    using assms(1,4,5) length_dict_set [OF assms(2), of ?row]
    by (simp add: en_ok_def books_agree_def book_entry_def Let_def)
qed

lemma execute_exit_ok:
  assumes "loader_ok (ee_loader ev)" "en_ok st en"
  shows "en_ok st (snd (engine_execute_exit ev d x en))"
proof -
  obtain s why where x: "x = (s, why)" by (cases x)
  show ?thesis
  proof (cases "dict_get (en_positions en) s")
    case None
    then show ?thesis using assms(2) by (simp add: engine_execute_exit_def x)
  next
    case pos: (Some pos)
    show ?thesis
    proof (cases "get_close_price (ee_loader ev) s d")
      case None
      then show ?thesis using assms(2) pos by (simp add: engine_execute_exit_def x)
    next
      case close: (Some close)
      show ?thesis
      proof (cases "mk_order_request ''default'' s Side_SELL LIMIT (pr_quantity pos) (Some close)")
        case (Inl e)
        then show ?thesis using assms(2) pos close by (simp add: engine_execute_exit_def x)
      next
        case rq: (Inr rq)
        note rq' = mk_order_request_Inr [OF rq]
        have ok: "order_ok rq" "sb_ok (en_broker en)"
          using rq' loader_ok_prices(1) [OF assms(1) close] assms(2) by (auto simp: order_ok_def en_ok_def)
        obtain r b where pl: "sb_place_order (ee_loader ev) rq (en_broker en) = (r, b)" by fastforce
        show ?thesis
        proof (cases r)
          case (Inl e)
          with pl sb_place_order_Inl [of "ee_loader ev" rq "en_broker en" e b] assms(2) pos close rq
          show ?thesis by (simp add: engine_execute_exit_def x)
        next
          case (Inr res)
          have "sb_ok b" using sb_ok_place [OF assms(1) ok(2,1)] pl by simp
          moreover have "held (sb_positions b) y
              = held (sb_positions (en_broker en)) y - (if y = s then pr_quantity pos else 0)" for y
            using sb_held_place [OF ok(2) pl [unfolded Inr], of y] rq' by (simp add: order_delta_def)
          ultimately have "en_ok st (book_exit d why s pos close pnl (en\<lparr>en_broker := b\<rparr>))" for pnl
            using assms(2) pos by (intro book_exit_ok)
          then show ?thesis
            by (simp add: engine_execute_exit_def x pos close rq pl Inr Let_def split: sum.split)
        qed
      qed
    qed
  qed
qed

lemma engine_risk_check_passed:
  assumes "engine_risk_check st s q0 price en = (True, q)"
  shows "0 < q \<and> q \<le> q0 \<and> int (length (en_positions en)) < MAX_PORTFOLIO_POSITIONS st
    \<and> en_daily_trades en < MAX_DAILY_TRADES st \<and> dict_get (en_positions en) s = None
    \<and> q \<le> cap_qty (dquo (dmul (sb_get_total_value (en_broker en)) (MAX_POSITION_PCT st)) 100) price
    \<and> q \<le> cap_qty (of_int (MAX_POSITION_SIZE_KRW st)) price \<and> q \<le> cap_qty (sb_cash (en_broker en)) price"
  using assms by (auto simp: engine_risk_check_def Let_def split: if_splits)

lemma execute_signal_ok:
  assumes "loader_ok (ee_loader ev)" "en_ok (ee_settings ev) en"
  shows "en_ok (ee_settings ev) (snd (execute_signal ev cfg d sg en))"
proof (cases "sg_action sg \<noteq> Sig_BUY \<or> dict_get (en_positions en) (sg_symbol sg) \<noteq> None
    \<or> get_open_price (ee_loader ev) (sg_symbol sg) d = None")
  case True
  then show ?thesis using assms(2) by (auto simp: execute_signal_def)
next
  case False
  then obtain price where price: "get_open_price (ee_loader ev) (sg_symbol sg) d = Some price"
    and g: "sg_action sg = Sig_BUY" "dict_get (en_positions en) (sg_symbol sg) = None" by auto
  obtain passed q where rc: "engine_risk_check (ee_settings ev) (sg_symbol sg) (sg_quantity sg) price en = (passed, q)"
    by fastforce
  show ?thesis
  proof (cases passed)
    case False
    then show ?thesis using assms(2) g price rc by (simp add: execute_signal_def)
  next
    case True
    from rc True have rc': "engine_risk_check (ee_settings ev) (sg_symbol sg) (sg_quantity sg) price en = (True, q)"
      by simp
    note risk = engine_risk_check_passed [OF rc']
    let ?mk = "mk_order_request ''default'' (sg_symbol sg) Side_BUY MARKET q None"
    obtain rq where rq: "?mk = Inr rq" using risk by (simp add: mk_order_request_def)
    note rq' = mk_order_request_Inr [OF rq]
    have ok: "order_ok rq" "sb_ok (en_broker en)"
      using rq' assms(2) by (auto simp: order_ok_def en_ok_def)
    obtain r b where pl: "sb_place_order (ee_loader ev) rq (en_broker en) = (r, b)" by fastforce
    show ?thesis
    proof (cases r)
      case (Inl e)
      with pl sb_place_order_Inl [of "ee_loader ev" rq "en_broker en" e b] assms(2) g price rc rq True
      show ?thesis by (simp add: execute_signal_def)
    next
      case (Inr res)
      have "sb_ok b" using sb_ok_place [OF assms(1) ok(2,1)] pl by simp
      moreover have "held (sb_positions b) y
          = held (sb_positions (en_broker en)) y + (if y = sg_symbol sg then q else 0)" for y
        using sb_held_place [OF ok(2) pl [unfolded Inr], of y] rq' by (simp add: order_delta_def)
      ultimately have "en_ok (ee_settings ev) (book_entry cfg d sg q f (en\<lparr>en_broker := b\<rparr>))" for f
        using assms(2) g risk by (intro book_entry_ok) simp_all
      then show ?thesis
        by (simp add: execute_signal_def g price rc True rq pl Inr Let_def split: sum.split)
    qed
  qed
qed

lemma check_exits_ok:
  assumes "loader_ok (ee_loader ev)" "en_ok st en"
  shows "en_ok st (snd (check_exits ev cfg d en))"
proof -
  obtain r en1 exits where s: "for_each (scan_position ev cfg d) (en_positions en) (en, []) = (r, en1, exits)"
    by (metis prod_cases3)
  have en1: "en_ok st en1" using keepsD [OF scan_keeps [of st ev cfg d "en_positions en"], where s = "(en, [])"] assms(2) s
    by simp
  have "keeps (en_ok st) (for_each (engine_execute_exit ev d) exits)"
    using assms(1) by (intro for_each_keeps keepsI execute_exit_ok)
  from keepsD [OF this en1] en1 show ?thesis by (cases r) (simp_all add: check_exits_def s)
qed

lemma execute_pending_ok:
  assumes "loader_ok (ee_loader ev)" "en_ok (ee_settings ev) en"
  shows "en_ok (ee_settings ev) (snd (execute_pending_signals ev cfg d en))"
proof -
  have "keeps (en_ok (ee_settings ev)) (for_each (execute_signal ev cfg d) (en_pending en))"
    using assms(1) by (intro for_each_keeps keepsI execute_signal_ok)
  from keepsD [OF this, of "en\<lparr>en_pending := []\<rparr>"] assms(2)
  show ?thesis by (simp add: execute_pending_signals_def)
qed

text \<open>Generating signals only queues signals.\<close>

lemma queue_buy_Inr:
  assumes "queue_buy ev s conf p levels tv en = Inr en'"
  shows "en' = en \<or> (\<exists>sg. en' = en\<lparr>en_pending := en_pending en @ [sg]\<rparr> \<and> sg_symbol sg = s
    \<and> sg_action sg = Sig_BUY \<and> 0 < sg_quantity sg
    \<and> sg_target_price sg = Some (snd levels) \<and> sg_stop_loss_price sg = Some (fst levels))"
proof -
  obtain sl tp z where l: "levels = (sl, tp)"
    and z: "sizing_calculate (ee_sizer ev) s p sl (Some tp) tv 0 = Inr z"
    using assms by (cases levels) (auto simp: queue_buy_def res_simps)
  show ?thesis
  proof (cases "sz_quantity z \<le> 0")
    case True
    then show ?thesis using assms by (simp add: queue_buy_def l z)
  next
    case False
    let ?sg = "\<lparr>sg_symbol = s, sg_action = Sig_BUY, sg_confidence = conf, sg_target_price = Some tp,
        sg_stop_loss_price = Some sl, sg_quantity = sz_quantity z, sg_position_value_krw = sz_position_value_krw z\<rparr>"
    from False have "en' = en\<lparr>en_pending := en_pending en @ [?sg]\<rparr>" using assms by (simp add: queue_buy_def l z)
    with False show ?thesis by (intro disjI2 exI [of _ ?sg]) (simp add: l)
  qed
qed

definition queues :: "(symbol \<Rightarrow> engine \<Rightarrow> exc + engine) \<Rightarrow> bool" where
  "queues try \<longleftrightarrow> (\<forall>s en en'. try s en = Inr en' \<longrightarrow> en' = en
     \<or> (\<not> already_has en s \<and> (\<exists>sg. en' = en\<lparr>en_pending := en_pending en @ [sg]\<rparr> \<and> sg_symbol sg = s
          \<and> sg_action sg = Sig_BUY \<and> 0 < sg_quantity sg)))"

lemma try_queues:
  "queues (try_position_signal ev cfg d tv)" "queues (try_swing_signal ev cfg d tv)"
  "queues (try_replay_signal ev cfg d tv)"
  unfolding queues_def try_position_signal_def try_swing_signal_def try_replay_signal_def Let_def
  by (auto simp: res_simps split: if_splits option.splits list.splits dest!: queue_buy_Inr)

lemma guarded_induct:
  assumes "queues try" "P en"
    and "\<And>en s sg. P en \<Longrightarrow> \<not> already_has en s \<Longrightarrow> sg_symbol sg = s \<Longrightarrow> sg_action sg = Sig_BUY
      \<Longrightarrow> 0 < sg_quantity sg \<Longrightarrow> P (en\<lparr>en_pending := en_pending en @ [sg]\<rparr>)"
  shows "P (guarded try ss en)"
  using assms(2,3)
proof (induction ss arbitrary: en)
  case (Cons s ss)
  have "P (case try s en of Inl _ \<Rightarrow> en | Inr en' \<Rightarrow> en')"
  proof (cases "try s en")
    case (Inr en')
    with assms(1) have "en' = en \<or> (\<not> already_has en s \<and> (\<exists>sg. en' = en\<lparr>en_pending := en_pending en @ [sg]\<rparr>
        \<and> sg_symbol sg = s \<and> sg_action sg = Sig_BUY \<and> 0 < sg_quantity sg))"
      by (auto simp: queues_def)
    with Cons.prems Inr show ?thesis by auto
  qed (use Cons.prems in simp)
  from Cons.IH [OF this] Cons.prems(2) show ?case by (simp add: guarded_def)
qed (simp add: guarded_def)

lemma generate_signals_cases:
  assumes "\<And>try. queues try \<Longrightarrow> P (guarded try (cf_symbols cfg) en)" "P en"
  shows "P (snd (generate_signals ev cfg d en))"
  using assms try_queues by (simp add: generate_signals_def Let_def)

lemma generate_signals_ok: "en_ok st en \<Longrightarrow> en_ok st (snd (generate_signals ev cfg d en))"
  by (rule generate_signals_cases) (auto intro!: guarded_induct [where P = "en_ok st"])

lemma record_snapshot_ok: "en_ok st en \<Longrightarrow> en_ok st (snd (record_snapshot ev d en))"
  by (simp add: record_snapshot_def Let_def split: sum.split)

lemma run_day_ok:
  assumes "loader_ok (ee_loader ev)" "en_ok (ee_settings ev) en"
  shows "en_ok (ee_settings ev) (snd (run_day ev cfg d en))"
proof -
  let ?ok = "en_ok (ee_settings ev)"
  have "keeps ?ok (check_exits ev cfg d)" "keeps ?ok (execute_pending_signals ev cfg d)"
    "keeps ?ok (generate_signals ev cfg d)" "keeps ?ok (record_snapshot ev d)"
    by (rule keepsI, erule check_exits_ok [OF assms(1)] execute_pending_ok [OF assms(1)]
        generate_signals_ok record_snapshot_ok)+
  then have "keeps ?ok (and_then (check_exits ev cfg d) (and_then (execute_pending_signals ev cfg d)
      (and_then (generate_signals ev cfg d) (record_snapshot ev d))))"
    by (intro and_then_keeps)
  then show ?thesis unfolding run_day_def by (rule keepsD) (rule start_day_ok [OF assms])
qed

lemma close_out_ok:
  assumes "loader_ok (ee_loader ev)" "en_ok st en" shows "en_ok st (snd (close_out ev d en))"
proof -
  have "keeps (en_ok st) (for_each (\<lambda>s. engine_execute_exit ev d (s, ''backtest_end'')) (dict_keys (en_positions en)))"
    using assms(1) by (intro for_each_keeps keepsI execute_exit_ok)
  from keepsD [OF this assms(2)] assms(2) show ?thesis by (simp add: close_out_def force_close_all_def)
qed

lemma init_run_ok:
  assumes "sb_ok (en_broker en)" "\<And>s. held (sb_positions (en_broker en)) s = 0"
  shows "en_ok st (snd (init_run ev cfg en))"
proof -
  have "en_ok st (reset_state en)"
    using assms by (simp add: en_ok_def reset_state_def book_ok_def books_agree_def book_qty_def)
  then show ?thesis by (simp add: init_run_def Let_def split: option.split sum.split)
qed

text \<open>The whole run keeps it, whichever way it ends.\<close>

lemma engine_run_snd:
  "snd (engine_run ev cfg en) =
     (let (r, en1) = init_run ev cfg en; dates = run_dates ev cfg
      in if (\<exists>e. r = Inl e) \<or> dates = [] \<or> cf_symbols cfg = [] then en1
         else snd (and_then (for_each (run_day ev cfg) dates) (close_out ev (last dates)) en1))"
  by (simp add: engine_run_def Let_def split: prod.split sum.split)

lemma engine_run_ok:
  assumes "loader_ok (ee_loader ev)" "sb_ok (en_broker en)" "\<And>s. held (sb_positions (en_broker en)) s = 0"
  shows "en_ok (ee_settings ev) (snd (engine_run ev cfg en))"
proof -
  obtain r en1 where i: "init_run ev cfg en = (r, en1)" by fastforce
  have en1: "en_ok (ee_settings ev) en1" using init_run_ok [OF assms(2,3), of _ ev cfg] i by simp
  have "keeps (en_ok (ee_settings ev)) (and_then (for_each (run_day ev cfg) ds) (close_out ev d))" for ds d
    using assms(1) by (intro and_then_keeps for_each_keeps keepsI run_day_ok close_out_ok)
  from keepsD [OF this en1] en1 show ?thesis by (simp add: engine_run_snd i Let_def)
qed

end
