(* ===== verification/Engine_Sample.thy ===== *)
theory Engine_Sample
  imports Engine_Invariant
begin

text \<open>
  A two-day replay of a logged buy decision, evaluated step by step: the signal of the first day
  is filled at the open of the second, so that the run reaches its end with an open position.
  The witnesses of the engine's properties use it.
\<close>

definition sample_env :: engine_env where
  "sample_env = \<lparr>ee_loader = sample_loader, ee_settings = default_settings,
     ee_indicators = \<lparr>in_sma = \<lambda>_ _. Inr [], in_rsi = \<lambda>_. Inr [], in_macd = \<lambda>_. Inr ([], []),
       in_bb_lower = \<lambda>_. Inr [], in_atr = \<lambda>_. Inr None, in_float = id\<rparr>,
     ee_dec_fns = \<lparr>df_pow = \<lambda>_ _. Inr 1, df_sqrt = \<lambda>_. Inr 1\<rparr>,
     ee_decision_log = Some (Inr [\<lparr>dl_decision_id = 1, dl_symbol = Some ''005930'', dl_stage = ''trade_decision'',
        dl_decision = ''buy'', dl_confidence = Some (1), dl_reasoning = '''', dl_llm_model = None,
        dl_created_at = 738000 * 1440 + 60\<rparr>])\<rparr>"

definition sample_config :: backtest_config where
  "sample_config = \<lparr>cf_strategy_type = SWING, cf_start_date = 738000, cf_end_date = 738001,
     cf_initial_capital = 10000000, cf_symbols = [''005930''], cf_mode = LLM_REPLAY,
     cf_parameters = [(''tp_pct'', 6)], cf_llm_model_filter = None\<rparr>"

definition sample_engine :: engine where
  "sample_engine = engine_init (sb_init sample_loader 10000000 10 (15 / 1000) (195 / 1000))"

lemma sample_loader_data:
  "ld_data sample_loader = [(''005930'', [sample_rows ! 1, sample_rows ! 2, sample_rows ! 0])]"
  by (simp add: sample_loader_def ld_load_def Let_def select_sample_rows) (simp add: add_row_def sample_rows_def)

lemma sample_prices:
  "get_close_price sample_loader ''005930'' 738000 = Some 70500"
  "get_close_price sample_loader ''005930'' 738001 = Some 71500"
  "get_open_price sample_loader ''005930'' 738001 = Some 71000"
  by (simp_all add: get_close_price_def get_open_price_def get_ohlcv_def sample_loader_data) (simp_all add: sample_rows_def)

lemma sample_dates: "run_dates sample_env sample_config = [738000, 738001]"
  by (simp add: run_dates_def sample_env_def sample_config_def sample_loader_def ld_load_def Let_def
      select_sample_rows) (simp add: sample_rows_def)

definition sample_signal :: signal where
  "sample_signal = \<lparr>sg_symbol = ''005930'', sg_action = Sig_BUY, sg_confidence = 1,
     sg_target_price = Some 74730, sg_stop_loss_price = Some 68385, sg_quantity = 14,
     sg_position_value_krw = 987000\<rparr>"

definition sample_cache :: replay_cache where
  "sample_cache = [((738000, ''005930''), [\<lparr>rd_decision_id = 1, rd_symbol = ''005930'',
     rd_stage = ''trade_decision'', rd_decision = ''buy'', rd_confidence = 1, rd_reasoning = '''',
     rd_llm_model = None, rd_created_at = 738000 * 1440 + 60\<rparr>])]"

lemma sample_init: "init_run sample_env sample_config sample_engine
   = (Inr (), sample_engine\<lparr>en_peak := 10000000, en_replay := Some sample_cache\<rparr>)"
  by (simp add: init_run_def sample_env_def sample_config_def sample_engine_def engine_init_def reset_state_def
      replay_load_def replay_rows_def default_stage_filter_def actionable_decisions_def add_replay_def
      replay_of_row_def kst_date_def sample_cache_def)

lemma sample_try:
  assumes "en_positions en = []" "en_pending en = []" "en_replay en = Some sample_cache"
  shows "try_replay_signal sample_env sample_config 738000 10000000 ''005930'' en
    = Inr (en\<lparr>en_pending := [sample_signal]\<rparr>)"
  using assms
  by (simp add: try_replay_signal_def already_has_def sample_cache_def get_decisions_def best_decision_def
      sample_env_def sample_config_def sample_prices to_signal_def decision_to_signal_def replay_levels_def param_or_def
     fixed_percentage_def dec_eval queue_buy_def)
    (simp add: sizing_calculate_def validate_sizing_def sized_qty_def raw_qty_def mk_sizer_def default_settings_def
     cap_from_pct_def cap_from_krw_def pct_of_portfolio_def risk_reward_ratio_def dquant_def dec_eval res_simps sample_signal_def)

lemma sample_total: "sb_get_total_value (sb_set_current_date ld d (sb_init ld 10000000 10 x y)) = 10000000"
  by (simp add: sb_get_total_value_def sb_set_current_date_def sb_init_def sb_get_positions_def dict_values_def
     update_valuations_def dec_eval)

lemma sample_day1: "\<exists>en. run_day sample_env sample_config 738000
     (sample_engine\<lparr>en_peak := 10000000, en_replay := Some sample_cache\<rparr>) = (Inr (), en)
   \<and> en_pending en = [sample_signal] \<and> en_positions en = [] \<and> en_peak en = 10000000
   \<and> en_broker en = sb_set_current_date sample_loader 738000 (sb_init sample_loader 10000000 10 (15 / 1000) (195 / 1000))
   \<and> en_replay en = Some sample_cache"
proof -
  define en where "en = start_day sample_env 738000 (sample_engine\<lparr>en_peak := 10000000, en_replay := Some sample_cache\<rparr>)"
  have e: "en_positions en = []" "en_pending en = []" "en_replay en = Some sample_cache" "en_peak en = 10000000"
    "en_broker en = sb_set_current_date sample_loader 738000 (sb_init sample_loader 10000000 10 (15 / 1000) (195 / 1000))"
    by (simp_all add: en_def start_day_def sample_engine_def engine_init_def) (simp_all add: sample_env_def)
  have t: "try_replay_signal sample_env sample_config 738000 10000000 ''005930'' en = Inr (en\<lparr>en_pending := [sample_signal]\<rparr>)"
    using sample_try [of en] e(1-3) by simp
  have c: "cf_symbols sample_config = [''005930'']" "cf_mode sample_config = LLM_REPLAY" by (simp_all add: sample_config_def)
  have g: "generate_signals sample_env sample_config 738000 en = (Inr (), en\<lparr>en_pending := [sample_signal]\<rparr>)"
    by (simp add: generate_signals_def c e(3,5) sample_total guarded_def t)
  have p: "execute_pending_signals sample_env sample_config 738000 en = (Inr (), en)"
    using e(2) by (simp add: execute_pending_signals_def)
  have x: "check_exits sample_env sample_config 738000 en = (Inr (), en)"
    by (simp add: check_exits_def e)
  show ?thesis
    unfolding run_day_def en_def [symmetric]
    by (simp add: and_then_def x p g record_snapshot_def e sample_total dquant_def dec_eval)
qed

lemma sample_order_fills:
  "\<exists>r b'. sb_place_order sample_loader \<lparr>rq_account_id = ''default'', rq_symbol = ''005930'', rq_side = Side_BUY,
        rq_type = MARKET, rq_quantity = 14, rq_price = None\<rparr>
      (sb_set_current_date sample_loader 738001 (sb_set_current_date sample_loader 738000
        (sb_init sample_loader 10000000 10 (15 / 1000) (195 / 1000)))) = (Inr r, b')
     \<and> or_filled_price r = Some 71071 \<and> sb_cash b' = 9004857 \<and> sb_get_total_value b' = 9999851"
  by (simp add: sb_place_order_def sb_quote_def ensure_date_set_def get_fill_price_def sample_prices
        sb_init_def sb_set_current_date_def calculate_slippage_def calculate_commission_def dquant_def
        sb_execute_def sb_execute_buy_def held_position_def update_valuations_def sb_get_total_value_def
        sb_get_positions_def dict_values_def dsum_def dec_eval)

lemma sample_day2:
  assumes "en_pending en = [sample_signal]" "en_positions en = []" "en_peak en = 10000000"
    "en_broker en = sb_set_current_date sample_loader 738000 (sb_init sample_loader 10000000 10 (15 / 1000) (195 / 1000))"
    "en_replay en = Some sample_cache"
  shows "\<exists>en' p. run_day sample_env sample_config 738001 en = (Inr (), en') \<and> en_positions en' = [(''005930'', p)]"
proof -
  obtain r b where pl: "sb_place_order sample_loader \<lparr>rq_account_id = ''default'', rq_symbol = ''005930'', rq_side = Side_BUY,
        rq_type = MARKET, rq_quantity = 14, rq_price = None\<rparr>
      (sb_set_current_date sample_loader 738001 (sb_set_current_date sample_loader 738000
        (sb_init sample_loader 10000000 10 (15 / 1000) (195 / 1000)))) = (Inr r, b)"
     and b: "or_filled_price r = Some 71071" "sb_cash b = 9004857" "sb_get_total_value b = 9999851" using sample_order_fills by blast
  let ?en = "start_day sample_env 738001 en"
  have ld: "ee_loader sample_env = sample_loader" "ee_settings sample_env = default_settings" by (simp_all add: sample_env_def)
  have tv: "sb_get_total_value (en_broker ?en) = 10000000" "sb_cash (en_broker ?en) = 10000000"
    using assms(4) by (simp_all add: start_day_def sb_get_total_value_def sb_set_current_date_def sb_init_def sb_get_positions_def
       update_valuations_def dict_values_def dec_eval)
  have rc: "engine_risk_check default_settings ''005930'' 14 71000 (?en\<lparr>en_pending := []\<rparr>) = (True, 14)"
    using tv assms by (simp add: engine_risk_check_def start_day_def default_settings_def cap_qty_def dec_eval)
  have x: "check_exits sample_env sample_config 738001 ?en = (Inr (), ?en)"
    by (simp add: check_exits_def start_day_def assms)
  define en1 where "en1 = ?en\<lparr>en_pending := []\<rparr>"
  have en1: "en_positions en1 = []" "en_pending en1 = []" "en_peak en1 = 10000000" "en_replay en1 = Some sample_cache"
    "en_broker en1 = sb_set_current_date sample_loader 738001 (sb_set_current_date sample_loader 738000
        (sb_init sample_loader 10000000 10 (15 / 1000) (195 / 1000)))"
    by (simp_all add: en1_def start_day_def assms) (simp add: sample_env_def)
  have sg: "sg_symbol sample_signal = ''005930''" "sg_action sample_signal = Sig_BUY" "sg_quantity sample_signal = 14"
    by (simp_all add: sample_signal_def)
  have rq: "mk_order_request ''default'' ''005930'' Side_BUY MARKET 14 None = Inr \<lparr>rq_account_id = ''default'', rq_symbol = ''005930'', rq_side = Side_BUY,
        rq_type = MARKET, rq_quantity = 14, rq_price = None\<rparr>" by (simp add: mk_order_request_def)
  define t where "t = en_trades en1 @ [\<lparr>bt_symbol = ''005930'', bt_side = Side_BUY, bt_quantity = 14, bt_price = 71071,
     bt_commission = or_commission r, bt_slippage = dmul (dabs (dsub 71071 71000)) 14,
     bt_trade_date = 738001, bt_pnl = None, bt_exit_reason = None\<rparr>]"
  have s: "execute_signal sample_env sample_config 738001 sample_signal en1
     = (Inr (), (book_entry sample_config 738001 sample_signal 14 71071 (en1\<lparr>en_broker := b\<rparr>))\<lparr>en_trades := t\<rparr>)"
    using rc [folded en1_def] pl
    by (simp add: execute_signal_def en1 sg ld sample_prices rq b mk_backtest_trade_def Let_def t_def book_entry_def)
  define en2 where "en2 = (book_entry sample_config 738001 sample_signal 14 71071 (en1\<lparr>en_broker := b\<rparr>))\<lparr>en_trades := t\<rparr>"
  have en2: "\<exists>p. en_positions en2 = [(''005930'', p)]" "en_replay en2 = Some sample_cache" "en_peak en2 = 10000000"
    "en_broker en2 = b"
    by (simp_all add: en2_def book_entry_def en1 sg Let_def)
  have pend: "en_pending ?en = [sample_signal]" by (simp add: start_day_def assms)
  have p: "execute_pending_signals sample_env sample_config 738001 ?en = (Inr (), en2)"
    unfolding execute_pending_signals_def pend en1_def [symmetric]
    using s by (simp add: and_then_def en2_def)
  have c: "cf_symbols sample_config = [''005930'']" "cf_mode sample_config = LLM_REPLAY" by (simp_all add: sample_config_def)
  have "already_has en2 ''005930''" using en2(1) by (auto simp: already_has_def)
  then have g: "generate_signals sample_env sample_config 738001 en2 = (Inr (), en2)"
    by (simp add: generate_signals_def c en2(2) guarded_def try_replay_signal_def)
  show ?thesis
    unfolding run_day_def using en2(1)
    by (auto simp add: and_then_def x p g record_snapshot_def en2 b dquant_def dec_eval)
qed
end
