(* ===== verification/Engine_Properties.thy ===== *)
theory Engine_Properties
  imports Engine_Sample
begin

text \<open>
  Properties of a backtest run: the books agree at the end of any run, a run that ends with an
  open position fails, one snapshot per trading day with its running peak and drawdown, what
  the queued signals look like, the caps of the risk check, and that a day does not look at
  later data.
\<close>

section \<open>The end of a run\<close>

lemma backtest_end_exit:
  "(dict_get (en_positions en) s = None \<or> get_close_price (ee_loader ev) s d = None
      \<longrightarrow> engine_execute_exit ev d (s, ''backtest_end'') en = (Inr (), en))
   \<and> (dict_get (en_positions en) s \<noteq> None \<and> get_close_price (ee_loader ev) s d \<noteq> None
      \<longrightarrow> (\<exists>e en'. engine_execute_exit ev d (s, ''backtest_end'') en = (Inl e, en')))"
proof -
  have bad: "parse_exit_reason ''backtest_end'' = Inl (ValidationError ''exit_reason'')"
    by (simp add: parse_exit_reason_def exit_reasons_def)
  show ?thesis
    by (auto simp: engine_execute_exit_def mk_backtest_trade_def bad Let_def
        split: option.splits sum.splits prod.splits)
qed

lemma force_close_all_Inr:
  assumes "for_each (\<lambda>s. engine_execute_exit ev d (s, ''backtest_end'')) ss en = (Inr (), en')"
    and "\<forall>s \<in> set ss. dict_get (en_positions en) s \<noteq> None"
  shows "en' = en \<and> (\<forall>s \<in> set ss. get_close_price (ee_loader ev) s d = None)"
  using assms
proof (induction ss arbitrary: en)
  case (Cons s ss)
  from Cons.prems(1) obtain en1 where e: "engine_execute_exit ev d (s, ''backtest_end'') en = (Inr (), en1)"
    and rest: "for_each (\<lambda>s. engine_execute_exit ev d (s, ''backtest_end'')) ss en1 = (Inr (), en')"
    by (auto simp: res_simps)
  have c: "get_close_price (ee_loader ev) s d = None"
    using backtest_end_exit [of en s ev d] e Cons.prems(2) by fastforce
  then have "en1 = en" using backtest_end_exit [of en s ev d] e by simp
  with Cons.IH [OF rest] Cons.prems(2) c show ?case by simp
qed simp

lemma close_out_Inr:
  assumes "close_out ev d en = (Inr (), en')"
  shows "en' = en \<and> (\<forall>s. dict_get (en_positions en) s \<noteq> None \<longrightarrow> get_close_price (ee_loader ev) s d = None)"
proof (cases "en_positions en = []")
  case True
  then show ?thesis using assms by (simp add: close_out_def)
next
  case False
  then have "for_each (\<lambda>s. engine_execute_exit ev d (s, ''backtest_end'')) (dict_keys (en_positions en)) en = (Inr (), en')"
    using assms by (simp add: close_out_def force_close_all_def)
  from force_close_all_Inr [OF this] show ?thesis
    by (metis dict_get_dom)
qed

text \<open>A completed run over some days is the loop over them, with nothing done at its end.\<close>

lemma engine_run_completed:
  assumes "engine_run ev cfg en = (res, en')" "br_status res = Bt_COMPLETED"
    and "run_dates ev cfg \<noteq> []" "cf_symbols cfg \<noteq> []"
  obtains en1 where "init_run ev cfg en = (Inr (), en1)"
    "for_each (run_day ev cfg) (run_dates ev cfg) en1 = (Inr (), en')"
    "\<And>s. dict_get (en_positions en') s \<noteq> None \<Longrightarrow> get_close_price (ee_loader ev) s (last (run_dates ev cfg)) = None"
    "br_trades res = en_trades en'" "\<exists>ms. calculate_metrics ev cfg en' = Inr ms \<and> br_metrics res = ms"
proof -
  let ?all = "and_then (for_each (run_day ev cfg) (run_dates ev cfg)) (close_out ev (last (run_dates ev cfg)))"
  obtain en1 where i: "init_run ev cfg en = (Inr (), en1)"
    using assms(1,2) by (cases "init_run ev cfg en" rule: prod.exhaust; cases "fst (init_run ev cfg en)")
      (auto simp: engine_run_def failed_result_def)
  obtain r en2 where a: "?all en1 = (r, en2)" by fastforce
  have r: "r = Inr ()"
    using assms i a by (cases r) (auto simp: engine_run_def failed_result_def Let_def)
  have m: "\<exists>ms. calculate_metrics ev cfg en2 = Inr ms \<and> res = completed_result ms (en_trades en2) \<and> en' = en2"
    using assms i a r
    by (cases "calculate_metrics ev cfg en2") (auto simp: engine_run_def failed_result_def Let_def)
  from a r obtain en3 where l: "for_each (run_day ev cfg) (run_dates ev cfg) en1 = (Inr (), en3)"
    and c: "close_out ev (last (run_dates ev cfg)) en3 = (Inr (), en2)" by (auto simp: res_simps)
  from close_out_Inr [OF c] m show thesis
    by (intro that [OF i]) (auto simp: l completed_result_def)
qed

section \<open>Snapshots\<close>

lemma record_snapshot_Inr:
  assumes "record_snapshot ev d en = (Inr (), en')"
  shows "\<exists>sn. en_snapshots en' = en_snapshots en @ [sn] \<and> bs_date sn = d \<and> bs_id sn = en_snapshot_id en + 1
    \<and> en_snapshot_id en' = en_snapshot_id en + 1 \<and> sn_peak_value sn = max (en_peak en) (sn_total_value sn)
    \<and> en_peak en' = sn_peak_value sn \<and> sn_total_value sn = sb_get_total_value (en_broker en)
    \<and> sn_positions_count sn = length (en_positions en)
    \<and> (if 0 < sn_peak_value sn
       then dquant 2 (dd_of (sn_peak_value sn) (sn_total_value sn)) = Inr (sn_drawdown_pct sn)
       else sn_drawdown_pct sn = 0)"
  using assms by (auto simp: record_snapshot_def Let_def dd_of_def split: sum.splits if_splits)

lemma sb_total_value_nonneg: "sb_ok b \<Longrightarrow> 0 \<le> sb_get_total_value b"
  unfolding sb_get_total_value_def
proof (intro dec_nonneg dsum_nonneg)
  assume ok: "sb_ok b"
  show "0 \<le> sb_cash b" using ok by (simp add: sb_ok_def)
  fix x assume "x \<in> set (map p_market_value (sb_get_positions b))"
  then obtain p where p: "p \<in> set (dict_values (sb_positions b))" "x = p_market_value p"
    by (auto simp: sb_get_positions_def)
  with ok obtain s where "position_ok s p"
    by (auto simp: sb_ok_def positions_ok_def dict_values_get)
  with p show "0 \<le> x" by (simp add: position_ok_def)
qed

lemma drawdown_pct_bounds:
  assumes "0 \<le> v" "v \<le> p" "0 < p" "dquant 2 (dd_of p v) = Inr x" "is_dec p"
  shows "0 \<le> x \<and> x \<le> 100"
proof -
  have sub: "0 \<le> dsub p v" "dsub p v \<le> p"
    using assms by (auto simp: dsub_def is_dec_def intro!: d28.rnd_nonneg d28.rnd_le)
  then have "dsub p v / p \<le> 1" using assms(3) by simp
  then have "dquo (dsub p v) p \<le> 1"
    using is_dec_1 unfolding dquo_def is_dec_def by (intro d28.rnd_le)
  then have dd: "0 \<le> dd_of p v" "dd_of p v \<le> 100"
    using sub assms(3) by (auto simp: dd_of_def intro!: dec_nonneg dmul_le)
  have h: "dquant 2 100 = Inr 100" by (simp add: dquant_def dec_eval)
  show ?thesis using dquant_nonneg [OF assms(4) dd(1)] dquant_mono [OF assms(4) h dd(2)] by simp
qed

definition snap_state :: "engine \<Rightarrow> bt_snapshot list \<times> nat \<times> dec" where
  "snap_state en = (en_snapshots en, en_snapshot_id en, en_peak en)"

lemma snap_state_exit: "snap_state (snd (engine_execute_exit ev d x en)) = snap_state en"
  by (auto simp: engine_execute_exit_def book_exit_def snap_state_def Let_def
      split: prod.splits option.splits sum.splits)

lemma snap_state_signal: "snap_state (snd (execute_signal ev cfg d sg en)) = snap_state en"
  by (auto simp: execute_signal_def book_entry_def snap_state_def Let_def
      split: prod.splits option.splits sum.splits)

lemma snap_state_scan: "snap_state (fst (snd (for_each (scan_position ev cfg d) xs (en, exits)))) = snap_state en"
proof -
  have "keeps (\<lambda>(en', exits). snap_state en' = snap_state en) (for_each (scan_position ev cfg d) xs)"
  proof (intro for_each_keeps keepsI)
    fix x and y :: "engine \<times> (symbol \<times> string) list"
    assume ok: "case y of (en', exits) \<Rightarrow> snap_state en' = snap_state en"
    obtain r en' exits where s: "scan_position ev cfg d x y = (r, en', exits)" by (metis prod_cases3)
    from scan_position_fst [OF s] ok
    show "case snd (scan_position ev cfg d x y) of (en', exits) \<Rightarrow> snap_state en' = snap_state en"
      by (auto simp: s snap_state_def split: prod.splits)
  qed
  from keepsD [OF this, where s = "(en, exits)"] show ?thesis by (simp add: split_beta)
qed

lemma snap_state_for_each:
  assumes "\<And>x en. snap_state (snd (f x en)) = snap_state en"
  shows "snap_state (snd (for_each f xs en)) = snap_state en"
proof -
  have "keeps (\<lambda>en'. snap_state en' = snap_state en) (for_each f xs)"
    by (intro for_each_keeps keepsI) (simp add: assms)
  from keepsD [OF this] show ?thesis by simp
qed

lemma snap_state_steps:
  "snap_state (snd (check_exits ev cfg d en)) = snap_state en"
  "snap_state (snd (execute_pending_signals ev cfg d en)) = snap_state en"
  "snap_state (snd (generate_signals ev cfg d en)) = snap_state en"
proof -
  obtain r en1 exits where s: "for_each (scan_position ev cfg d) (en_positions en) (en, []) = (r, en1, exits)"
    by (metis prod_cases3)
  have en1: "snap_state en1 = snap_state en"
    using snap_state_scan [of ev cfg d "en_positions en" en "[]"] by (simp add: s)
  have "snap_state (snd (for_each (engine_execute_exit ev d) exits en1)) = snap_state en1"
    by (intro snap_state_for_each snap_state_exit)
  with en1 show "snap_state (snd (check_exits ev cfg d en)) = snap_state en"
    by (cases r) (simp_all add: check_exits_def s)
  have "snap_state (snd (for_each (execute_signal ev cfg d) (en_pending en) (en\<lparr>en_pending := []\<rparr>)))
      = snap_state (en\<lparr>en_pending := []\<rparr>)"
    by (intro snap_state_for_each snap_state_signal)
  then show "snap_state (snd (execute_pending_signals ev cfg d en)) = snap_state en"
    by (simp add: execute_pending_signals_def snap_state_def)
  show "snap_state (snd (generate_signals ev cfg d en)) = snap_state en"
  proof (rule generate_signals_cases)
    fix f assume "queues f"
    then show "snap_state (guarded f (cf_symbols cfg) en) = snap_state en"
      by (rule guarded_induct [where P = "\<lambda>en'. snap_state en' = snap_state en"]) (simp_all add: snap_state_def)
  qed simp
qed

lemma run_day_Inr:
  assumes "run_day ev cfg d en = (Inr (), en')"
  obtains en1 en2 en3 where "check_exits ev cfg d (start_day ev d en) = (Inr (), en1)"
    "execute_pending_signals ev cfg d en1 = (Inr (), en2)" "generate_signals ev cfg d en2 = (Inr (), en3)"
    "record_snapshot ev d en3 = (Inr (), en')"
  using assms by (auto simp: run_day_def res_simps)

lemma run_day_snap:
  assumes "run_day ev cfg d en = (Inr (), en')" "loader_ok (ee_loader ev)" "en_ok (ee_settings ev) en"
  obtains en3 where "record_snapshot ev d en3 = (Inr (), en')" "snap_state en3 = snap_state en"
    "en_ok (ee_settings ev) en3"
proof -
  obtain en1 en2 en3 where c: "check_exits ev cfg d (start_day ev d en) = (Inr (), en1)"
    and e: "execute_pending_signals ev cfg d en1 = (Inr (), en2)" and g: "generate_signals ev cfg d en2 = (Inr (), en3)"
    and r: "record_snapshot ev d en3 = (Inr (), en')"
    using assms(1) by (rule run_day_Inr)
  have "snap_state (start_day ev d en) = snap_state en" by (simp add: snap_state_def start_day_def)
  then have "snap_state en3 = snap_state en"
    using snap_state_steps(1) [of ev cfg d "start_day ev d en"] snap_state_steps(2) [of ev cfg d en1]
      snap_state_steps(3) [of ev cfg d en2]
    by (simp add: c e g)
  moreover have "en_ok (ee_settings ev) en3"
    using check_exits_ok [OF assms(2) start_day_ok [OF assms(2,3), of d], of cfg d]
      execute_pending_ok [OF assms(2), of en1 cfg d] generate_signals_ok [of "ee_settings ev" en2 ev cfg d]
    by (simp add: c e g)
  ultimately show thesis using r that by blast
qed

definition snaps_ok :: "settings \<Rightarrow> dec \<Rightarrow> date list \<Rightarrow> engine \<Rightarrow> bool" where
  "snaps_ok st cap ds en \<longleftrightarrow> map bs_date (en_snapshots en) = ds
     \<and> map bs_id (en_snapshots en) = [1..<Suc (length ds)] \<and> en_snapshot_id en = length ds
     \<and> en_peak en = foldl max cap (map sn_total_value (en_snapshots en))
     \<and> (\<forall>i < length ds. sn_peak_value (en_snapshots en ! i)
           = foldl max cap (map sn_total_value (take (Suc i) (en_snapshots en))))
     \<and> (\<forall>sn \<in> set (en_snapshots en). 0 \<le> sn_total_value sn \<and> is_dec (sn_total_value sn)
           \<and> 0 \<le> sn_drawdown_pct sn \<and> sn_drawdown_pct sn \<le> 100
           \<and> int (sn_positions_count sn) \<le> max 0 (MAX_PORTFOLIO_POSITIONS st))"

lemma foldl_max_dec: "is_dec a \<Longrightarrow> (\<forall>x \<in> set xs. is_dec x) \<Longrightarrow> is_dec (foldl max a xs)"
  by (induction xs arbitrary: a) (auto simp: max_def)

lemma snaps_ok_day:
  assumes "run_day ev cfg d en = (Inr (), en')" "loader_ok (ee_loader ev)" "en_ok (ee_settings ev) en"
    and ok: "snaps_ok (ee_settings ev) cap ds en" and cap: "is_dec cap"
  shows "snaps_ok (ee_settings ev) cap (ds @ [d]) en'"
proof -
  obtain en3 where r: "record_snapshot ev d en3 = (Inr (), en')" and st: "snap_state en3 = snap_state en"
    and ok3: "en_ok (ee_settings ev) en3" using assms(1-3) by (rule run_day_snap)
  obtain sn where sn: "en_snapshots en' = en_snapshots en @ [sn]" "bs_date sn = d" "bs_id sn = en_snapshot_id en + 1"
    "en_snapshot_id en' = en_snapshot_id en + 1" "sn_peak_value sn = max (en_peak en) (sn_total_value sn)"
    "en_peak en' = sn_peak_value sn" "sn_total_value sn = sb_get_total_value (en_broker en3)"
    "sn_positions_count sn = length (en_positions en3)"
    and dd: "if 0 < sn_peak_value sn then dquant 2 (dd_of (sn_peak_value sn) (sn_total_value sn)) = Inr (sn_drawdown_pct sn)
       else sn_drawdown_pct sn = 0"
    using record_snapshot_Inr [OF r] st by (auto simp: snap_state_def)
  have v: "0 \<le> sn_total_value sn" "is_dec (sn_total_value sn)"
    using ok3 sb_total_value_nonneg by (simp_all add: sn en_ok_def sb_get_total_value_def)
  have len: "length (en_snapshots en) = length ds" using ok by (metis snaps_ok_def length_map)
  have "is_dec (en_peak en)"
    using ok cap by (auto simp: snaps_ok_def intro!: foldl_max_dec)
  then have pd: "is_dec (sn_peak_value sn)" using v by (simp add: sn(5) max_def)
  have le: "sn_total_value sn \<le> sn_peak_value sn" by (simp add: sn(5))
  have "0 \<le> sn_drawdown_pct sn \<and> sn_drawdown_pct sn \<le> 100"
  proof (cases "0 < sn_peak_value sn")
    case True
    with dd drawdown_pct_bounds [OF v(1) le True _ pd] show ?thesis by simp
  qed (use dd in simp)
  moreover have "int (sn_positions_count sn) \<le> max 0 (MAX_PORTFOLIO_POSITIONS (ee_settings ev))"
    using ok3 by (simp add: sn en_ok_def)
  moreover have "sn_peak_value sn = foldl max cap (map sn_total_value (en_snapshots en'))"
    using ok by (simp add: sn snaps_ok_def)
  ultimately show ?thesis
    using ok v len unfolding snaps_ok_def
    by (auto simp: sn nth_append less_Suc_eq)
qed

section \<open>Properties of a run\<close>

text \<open>
  C23: run, however it ends, started with a broker that holds no shares: the shares the broker holds
  are, symbol by symbol, the quantities of the engine's open positions; cash is never
  negative; open positions are open rows with positive quantities under their own symbol, no
  more of them than MAX_PORTFOLIO_POSITIONS; closed positions have a realised profit.
\<close>

theorem engine_run_books:
  assumes "loader_ok (ee_loader ev)" "sb_ok (en_broker en)" "\<And>s. held (sb_positions (en_broker en)) s = 0"
    and "engine_run ev cfg en = (res, en')"
  shows "held (sb_positions (en_broker en')) s = book_qty (en_positions en') s
    \<and> 0 \<le> sb_cash (en_broker en')
    \<and> (\<forall>p. dict_get (en_positions en') s = Some p \<longrightarrow> pr_symbol p = s \<and> 0 < pr_quantity p \<and> pr_status p = ''open'')
    \<and> int (length (en_positions en')) \<le> max 0 (MAX_PORTFOLIO_POSITIONS (ee_settings ev))
    \<and> (\<forall>r \<in> set (en_closed en'). pr_status r = ''closed'' \<and> pr_realized_pnl r \<noteq> None)"
  using engine_run_ok [OF assms(1-3), of cfg] assms(4)
  by (simp add: en_ok_def books_agree_def book_ok_def sb_ok_def)

lemma sample_engine_ok:
  "loader_ok (ee_loader sample_env)" "sb_ok (en_broker sample_engine)"
  "held (sb_positions (en_broker sample_engine)) s = 0"
  using sample_loader_ok
  by (simp_all add: sample_env_def sample_engine_def engine_init_def sb_init_def sb_ok_def positions_ok_def
      held_def dec_eval)

theorem engine_run_books_witness:
  "\<exists>res en'. engine_run sample_env sample_config sample_engine = (res, en')
     \<and> held (sb_positions (en_broker en')) ''005930'' = book_qty (en_positions en') ''005930''"
proof -
  obtain res en' where r: "engine_run sample_env sample_config sample_engine = (res, en')" by fastforce
  from engine_run_books [OF sample_engine_ok r] r show ?thesis by blast
qed

text \<open>
  C24: run with a position still open after its last day: when the position has a bar on that day,
  the forced sale at the end hits an exit reason the trade record does not accept, so the run
  comes back FAILED, without metrics.
\<close>

theorem open_position_fails_run:
  assumes "init_run ev cfg en = (Inr (), en1)" "run_dates ev cfg \<noteq> []" "cf_symbols cfg \<noteq> []"
    and "for_each (run_day ev cfg) (run_dates ev cfg) en1 = (Inr (), en2)"
    and "dict_get (en_positions en2) s = Some p" "get_close_price (ee_loader ev) s (last (run_dates ev cfg)) = Some c"
  shows "br_status (fst (engine_run ev cfg en)) = Bt_FAILED \<and> br_metrics (fst (engine_run ev cfg en)) = None"
proof -
  obtain r en3 where c: "close_out ev (last (run_dates ev cfg)) en2 = (r, en3)" by fastforce
  obtain e where "r = Inl e"
    using close_out_Inr [of ev "last (run_dates ev cfg)" en2 en3] c assms(5,6) by (cases r) auto
  with c assms show ?thesis
    by (simp add: engine_run_def and_then_def failed_result_def Let_def)
qed

theorem open_position_fails_run_witness:
  "br_status (fst (engine_run sample_env sample_config sample_engine)) = Bt_FAILED"
proof -
  let ?en1 = "sample_engine\<lparr>en_peak := 10000000, en_replay := Some sample_cache\<rparr>"
  obtain en where d1: "run_day sample_env sample_config 738000 ?en1 = (Inr (), en)"
    and e: "en_pending en = [sample_signal]" "en_positions en = []" "en_peak en = 10000000"
      "en_broker en = sb_set_current_date sample_loader 738000 (sb_init sample_loader 10000000 10 (15 / 1000) (195 / 1000))"
      "en_replay en = Some sample_cache"
    using sample_day1 by blast
  obtain en' p where d2: "run_day sample_env sample_config 738001 en = (Inr (), en')"
    and p: "en_positions en' = [(''005930'', p)]"
    using sample_day2 [OF e] by blast
  have loop: "for_each (run_day sample_env sample_config) (run_dates sample_env sample_config) ?en1 = (Inr (), en')"
    using d1 d2 by (simp add: sample_dates and_then_def)
  have "cf_symbols sample_config \<noteq> []" "ee_loader sample_env = sample_loader"
    by (simp_all add: sample_config_def sample_env_def)
  then show ?thesis
    using open_position_fails_run [OF sample_init _ _ loop, of "''005930''" p] p
    by (simp add: sample_dates sample_prices)
qed

text \<open>
  A COMPLETED run records one snapshot per trading day, in order, numbered 1, 2, 3, ...; the peak
  of each is the largest of the initial capital and the total values so far; the drawdown
  percentage lies between 0 and 100 and the positions are within the limit.
\<close>

theorem engine_run_snapshots:
  assumes "loader_ok (ee_loader ev)" "sb_ok (en_broker en)" "\<And>s. held (sb_positions (en_broker en)) s = 0"
    and "is_dec (cf_initial_capital cfg)" "run_dates ev cfg \<noteq> []" "cf_symbols cfg \<noteq> []"
    and "engine_run ev cfg en = (res, en')" "br_status res = Bt_COMPLETED"
  shows "snaps_ok (ee_settings ev) (cf_initial_capital cfg) (run_dates ev cfg) en'"
proof -
  obtain en1 where i: "init_run ev cfg en = (Inr (), en1)"
    and l: "for_each (run_day ev cfg) (run_dates ev cfg) en1 = (Inr (), en')"
    using assms(7,8,5,6) by (rule engine_run_completed)
  have "en_ok (ee_settings ev) en1" using init_run_ok [OF assms(2,3), of _ ev cfg] i by simp
  moreover have "snaps_ok (ee_settings ev) (cf_initial_capital cfg) [] en1"
    using i by (auto simp: init_run_def reset_state_def snaps_ok_def Let_def split: if_splits option.splits sum.splits)
  ultimately have start: "en_ok (ee_settings ev) en1 \<and> snaps_ok (ee_settings ev) (cf_initial_capital cfg) [] en1" ..
  have "en_ok (ee_settings ev) t \<and> snaps_ok (ee_settings ev) (cf_initial_capital cfg) (ds @ [d]) t"
    if "en_ok (ee_settings ev) u \<and> snaps_ok (ee_settings ev) (cf_initial_capital cfg) ds u"
      "run_day ev cfg d u = (Inr (), t)" for ds d u t
    using that snaps_ok_day [OF that(2) assms(1)] run_day_ok [OF assms(1), of u cfg d] assms(4) by simp
  then have "en_ok (ee_settings ev) en' \<and> snaps_ok (ee_settings ev) (cf_initial_capital cfg) (run_dates ev cfg) en'"
    by (intro for_each_invariant [where f = "run_day ev cfg" and P = "\<lambda>ds en. en_ok (ee_settings ev) en
        \<and> snaps_ok (ee_settings ev) (cf_initial_capital cfg) ds en", OF l start])
  then show ?thesis by blast
qed

definition quiet_config :: backtest_config where
  "quiet_config = sample_config\<lparr>cf_end_date := 738000, cf_mode := TECHNICAL\<rparr>"

theorem engine_run_snapshots_witness:
  "\<exists>res en'. engine_run sample_env quiet_config sample_engine = (res, en') \<and> br_status res = Bt_COMPLETED
     \<and> map bs_date (en_snapshots en') = [738000]"
proof -
  have dates: "run_dates sample_env quiet_config = [738000]"
    using sample_dates by (simp add: run_dates_def quiet_config_def sample_config_def sample_env_def
        sample_loader_def ld_load_def Let_def select_sample_rows) (simp add: sample_rows_def)
  have cfg: "cf_symbols quiet_config = [''005930'']" "cf_mode quiet_config = TECHNICAL"
    "cf_strategy_type quiet_config = SWING" "cf_initial_capital quiet_config = 10000000"
    by (simp_all add: quiet_config_def sample_config_def)
  define en1 where "en1 = (reset_state sample_engine)\<lparr>en_peak := 10000000\<rparr>"
  have i: "init_run sample_env quiet_config sample_engine = (Inr (), en1)"
    by (simp add: init_run_def cfg en1_def)
  have few: "length (bars_so_far (ee_loader sample_env) ''005930'' 738000) < 30"
    by (simp add: bars_so_far_def get_ohlcv_range_def sample_env_def sample_loader_data)
  define en2 where "en2 = start_day sample_env 738000 en1"
  have e: "en_positions en2 = []" "en_pending en2 = []" "en_peak en2 = 10000000" "en_snapshots en2 = []" "en_closed en2 = []"
    "en_broker en2 = sb_set_current_date sample_loader 738000 (sb_init sample_loader 10000000 10 (15 / 1000) (195 / 1000))"
    by (simp_all add: en2_def start_day_def en1_def reset_state_def sample_engine_def engine_init_def) (simp_all add: sample_env_def)
  have t: "try_swing_signal sample_env quiet_config 738000 tv ''005930'' en2 = Inr en2" for tv
    using few by (simp add: try_swing_signal_def swing_count_def)
  have "check_exits sample_env quiet_config 738000 en2 = (Inr (), en2)"
    "execute_pending_signals sample_env quiet_config 738000 en2 = (Inr (), en2)"
    "generate_signals sample_env quiet_config 738000 en2 = (Inr (), en2)"
    using e(2) by (simp_all add: check_exits_def e execute_pending_signals_def generate_signals_def cfg guarded_def t)
  moreover obtain en3 where r: "record_snapshot sample_env 738000 en2 = (Inr (), en3)" "en_positions en3 = []"
    "en_closed en3 = []" "map sn_total_value (en_snapshots en3) = [10000000]" "length (en_snapshots en3) = 1"
    by (simp add: record_snapshot_def e sample_total dquant_def dec_eval)
  ultimately have day: "run_day sample_env quiet_config 738000 en1 = (Inr (), en3)"
    by (simp add: run_day_def en2_def [symmetric] and_then_def)
  obtain sn where sn: "en_snapshots en3 = [sn]" "sn_total_value sn = 10000000"
    using r(4) by (cases "en_snapshots en3") auto
  have "\<exists>ms. calculate_metrics sample_env quiet_config en3 = Inr ms"
    by (simp add: calculate_metrics_def sn r performance_calculate_def daily_returns_from_snapshots_def sorted_snaps_def
        calculate_sharpe_ratio_def calculate_sortino_ratio_def calculate_max_drawdown_def raw_max_drawdown_def dd_of_def
        calculate_win_rate_def calculate_profit_factor_def calculate_avg_win_loss_def mean_quant_def total_return_def
        annualized_return_def map_filter_def dquant_def dec_eval)
  then obtain res en' where run: "engine_run sample_env quiet_config sample_engine = (res, en')"
    "br_status res = Bt_COMPLETED"
    by (auto simp: engine_run_def i dates cfg and_then_def day close_out_def r completed_result_def)
  have "run_dates sample_env quiet_config \<noteq> []" "cf_symbols quiet_config \<noteq> []" "is_dec (cf_initial_capital quiet_config)"
    by (simp_all add: dates cfg)
  from engine_run_snapshots [OF sample_engine_ok this(3,1,2) run] run show ?thesis
    by (auto simp: snaps_ok_def dates)
qed

section \<open>The risk check and the queue\<close>

lemma cap_qty_bound:
  assumes "q \<le> cap_qty a price" "0 < q" "on_grid g a" "on_grid 2 price" "2 \<le> g" "0 \<le> a" "a * 10 ^ g < 2 * 10 ^ 27"
  shows "of_int q * price \<le> a"
proof -
  have pos: "0 < price" using assms(1,2) by (auto simp: cap_qty_def split: if_splits)
  have "2 + (g - 2) = g" using assms(5) by simp
  then have "on_grid g price" using on_grid_lift [OF assms(4), of "g - 2"] by (simp only:)
  from dint_dquo_le_iff [OF assms(3) this assms(6) pos assms(7)] assms(1) pos show ?thesis
    by (simp add: cap_qty_def)
qed

text \<open>
  _risk_check, when it passes: the quantity is positive and at most the signal's, the symbol is
  not held, fewer positions than the limit are open and fewer trades than the limit were made
  that day; on amounts with two decimals the order's value at the given price is, exactly, at
  most the percentage cap, the amount cap and the cash.
\<close>

theorem engine_risk_check_caps:
  assumes "engine_risk_check st s q0 price en = (True, q)"
    and "tv = sb_get_total_value (en_broker en)" "cash = sb_cash (en_broker en)"
    and "on_grid 2 price" "on_grid 2 tv" "on_grid 2 cash" "on_grid 2 (MAX_POSITION_PCT st)"
    and "0 \<le> tv" "0 \<le> cash" "0 \<le> MAX_POSITION_PCT st" "0 \<le> MAX_POSITION_SIZE_KRW st"
    and "tv * MAX_POSITION_PCT st * 10 ^ 4 < 2 * 10 ^ 27" "cash * 10 ^ 2 < 2 * 10 ^ 27"
    and "of_int (MAX_POSITION_SIZE_KRW st) * 10 ^ 2 < (2 * 10 ^ 27 :: dec)"
  shows "0 < q \<and> q \<le> q0 \<and> dict_get (en_positions en) s = None
    \<and> int (length (en_positions en)) < MAX_PORTFOLIO_POSITIONS st \<and> en_daily_trades en < MAX_DAILY_TRADES st
    \<and> of_int q * price \<le> tv * MAX_POSITION_PCT st / 100
    \<and> of_int q * price \<le> of_int (MAX_POSITION_SIZE_KRW st) \<and> of_int q * price \<le> cash"
proof -
  note r = engine_risk_check_passed [OF assms(1), folded assms(2,3)]
  have share: "dquo (dmul tv (MAX_POSITION_PCT st)) 100 = tv * MAX_POSITION_PCT st / 100"
    "on_grid 6 (tv * MAX_POSITION_PCT st / 100)"
    using pct_share_exact [of tv "MAX_POSITION_PCT st"] assms(5,7,8,10,12) by simp_all
  have "tv * MAX_POSITION_PCT st / 100 * 10 ^ 6 < 2 * 10 ^ 27" using assms(12) by simp
  moreover have "0 \<le> tv * MAX_POSITION_PCT st / 100" using assms(8,10) by simp
  ultimately have "of_int q * price \<le> tv * MAX_POSITION_PCT st / 100"
    using r share assms(4) by (intro cap_qty_bound [where g = 6]) simp_all
  moreover have "of_int q * price \<le> of_int (MAX_POSITION_SIZE_KRW st)"
    using r assms(4,11,14) by (intro cap_qty_bound [where g = 2]) simp_all
  moreover have "of_int q * price \<le> cash"
    using r assms(4,6,9,13) by (intro cap_qty_bound [where g = 2]) simp_all
  ultimately show ?thesis using r by blast
qed

theorem engine_risk_check_caps_witness:
  "engine_risk_check default_settings ''005930'' 20 71000 sample_engine = (True, 14)
    \<and> of_int 14 * (71000 :: dec) \<le> 1000000"
proof -
  have tv: "sb_get_total_value (en_broker sample_engine) = 10000000" "sb_cash (en_broker sample_engine) = 10000000"
    by (simp_all add: sample_engine_def engine_init_def sb_init_def sb_get_total_value_def sb_get_positions_def
        dict_values_def dec_eval)
  have rc: "engine_risk_check default_settings ''005930'' 20 71000 sample_engine = (True, 14)"
    by (simp add: engine_risk_check_def tv, simp add: sample_engine_def engine_init_def default_settings_def
        cap_qty_def dec_eval)
  with engine_risk_check_caps [OF rc tv [symmetric]] show ?thesis by (simp add: default_settings_def)
qed

definition pending_ok :: "engine \<Rightarrow> bool" where
  "pending_ok en \<longleftrightarrow> distinct (map sg_symbol (en_pending en)) \<and> (\<forall>sg \<in> set (en_pending en).
     sg_action sg = Sig_BUY \<and> 0 < sg_quantity sg \<and> dict_get (en_positions en) (sg_symbol sg) = None)"

lemma execute_signal_pending: "en_pending (snd (execute_signal ev cfg d sg en)) = en_pending en"
  by (auto simp: execute_signal_def book_entry_def Let_def split: prod.splits option.splits sum.splits)

lemma execute_pending_clears: "en_pending (snd (execute_pending_signals ev cfg d en)) = []"
proof -
  have "keeps (\<lambda>en. en_pending en = []) (for_each (execute_signal ev cfg d) (en_pending en))"
    by (intro for_each_keeps keepsI) (simp add: execute_signal_pending)
  from keepsD [OF this, of "en\<lparr>en_pending := []\<rparr>"] show ?thesis by (simp add: execute_pending_signals_def)
qed

lemma generate_pending_ok:
  assumes "en_pending en = []" shows "pending_ok (snd (generate_signals ev cfg d en))"
proof (rule generate_signals_cases)
  fix f assume "queues f"
  then show "pending_ok (guarded f (cf_symbols cfg) en)"
    by (rule guarded_induct) (auto simp: assms pending_ok_def already_has_def)
qed (simp add: assms pending_ok_def)

text \<open>
  A day of the run executes every signal the day before queued, whatever becomes of it, and
  queues only its own: at the end of the day each queued signal buys a positive quantity of a
  symbol that is not held, and no symbol is queued twice.
\<close>

theorem run_day_queue:
  assumes "run_day ev cfg d en = (Inr (), en')"
  shows "pending_ok en'"
proof -
  obtain en1 en2 en3 where e: "execute_pending_signals ev cfg d en1 = (Inr (), en2)"
    and g: "generate_signals ev cfg d en2 = (Inr (), en3)" and r: "record_snapshot ev d en3 = (Inr (), en')"
    using assms by (rule run_day_Inr)
  have "pending_ok en3"
    using generate_pending_ok [of en2 ev cfg d] execute_pending_clears [of ev cfg d en1] e g by simp
  moreover have "en_pending en' = en_pending en3" "en_positions en' = en_positions en3"
    using r by (auto simp: record_snapshot_def Let_def split: sum.splits)
  ultimately show ?thesis by (simp add: pending_ok_def)
qed

theorem run_day_queue_witness:
  "\<exists>en'. run_day sample_env sample_config 738000
     (sample_engine\<lparr>en_peak := 10000000, en_replay := Some sample_cache\<rparr>) = (Inr (), en')
     \<and> pending_ok en' \<and> en_pending en' = [sample_signal]"
  using sample_day1 run_day_queue by blast

section \<open>No look-ahead\<close>

text \<open>The same environment, with the bars after a date deleted.\<close>

definition env_until :: "date \<Rightarrow> engine_env \<Rightarrow> engine_env" where
  "env_until d ev = ev\<lparr>ee_loader := ld_until d (ee_loader ev)\<rparr>"

definition on_day :: "date \<Rightarrow> engine \<Rightarrow> bool" where
  "on_day d en \<longleftrightarrow> sb_current_date (en_broker en) = Some d"

lemma env_until_sel [simp]:
  "ee_loader (env_until d ev) = ld_until d (ee_loader ev)" "ee_settings (env_until d ev) = ee_settings ev"
  "ee_indicators (env_until d ev) = ee_indicators ev" "ld_trading_dates (ld_until d ld) = ld_trading_dates ld"
  by (simp_all add: env_until_def ld_until_def)

lemma place_order_until:
  assumes "sb_current_date b = Some d"
  shows "sb_place_order (ld_until d ld) o' b = sb_place_order ld o' b"
  by (simp add: sb_place_order_def sb_quote_def ensure_date_set_def assms get_fill_price_def get_price_until)

lemma place_order_date:
  assumes "sb_place_order ld o' b = (r, b')" shows "sb_current_date b' = sb_current_date b"
proof (cases r)
  case (Inl e)
  with assms sb_place_order_Inl [of ld o' b e b'] show ?thesis by simp
next
  case (Inr x)
  obtain d f c b1 where e: "sb_execute d o' f c b = Inr b1" and b': "sb_current_date b' = sb_current_date b1"
    by (rule sb_place_order_Inr [OF assms [unfolded Inr]]) simp
  with sb_execute_params show ?thesis by (metis sb_execute_def)
qed

lemma exit_on_day: "on_day d en \<Longrightarrow> on_day d (snd (engine_execute_exit ev d x en))"
  by (auto simp: engine_execute_exit_def book_exit_def on_day_def Let_def place_order_date
      split: prod.splits option.splits sum.splits)

lemma signal_on_day: "on_day d en \<Longrightarrow> on_day d (snd (execute_signal ev cfg d sg en))"
  by (auto simp: execute_signal_def book_entry_def on_day_def Let_def place_order_date
      split: prod.splits option.splits sum.splits)

lemma exit_until: "on_day d en \<Longrightarrow> engine_execute_exit (env_until d ev) d x en = engine_execute_exit ev d x en"
  by (cases x) (simp add: engine_execute_exit_def get_price_until place_order_until on_day_def
      split: option.split sum.split)

lemma signal_until: "on_day d en \<Longrightarrow> execute_signal (env_until d ev) cfg d sg en = execute_signal ev cfg d sg en"
  by (simp add: execute_signal_def get_price_until place_order_until on_day_def split: option.split sum.split prod.split)

lemma scan_until: "scan_position (env_until d ev) cfg d = scan_position ev cfg d"
  by (simp add: scan_position_def get_price_until fun_eq_iff split: prod.split)

lemma for_each_eq:
  assumes "\<And>x s. P s \<Longrightarrow> f x s = g x s" "\<And>x. keeps P (g x)" "P s"
  shows "for_each f xs s = for_each g xs s"
  using assms(3)
proof (induction xs arbitrary: s)
  case (Cons x xs)
  obtain r s' where gx: "g x s = (r, s')" by fastforce
  have "P s'" using keepsD [OF assms(2) Cons.prems] gx by (metis snd_conv)
  then show ?case by (cases r) (simp_all add: and_then_def assms(1) [OF Cons.prems] gx Cons.IH)
qed simp

lemma check_exits_until:
  assumes "on_day d en"
  shows "check_exits (env_until d ev) cfg d en = check_exits ev cfg d en \<and> on_day d (snd (check_exits ev cfg d en))"
proof -
  obtain r en1 exits where s: "for_each (scan_position ev cfg d) (en_positions en) (en, []) = (r, en1, exits)"
    by (metis prod_cases3)
  have "keeps (\<lambda>(en, exits). on_day d en) (for_each (scan_position ev cfg d) (en_positions en))"
  proof (intro for_each_keeps keepsI)
    fix x and y :: "engine \<times> (symbol \<times> string) list"
    assume ok: "case y of (en, exits) \<Rightarrow> on_day d en"
    obtain r en' exits where s: "scan_position ev cfg d x y = (r, en', exits)" by (metis prod_cases3)
    from scan_position_fst [OF s] ok
    show "case snd (scan_position ev cfg d x y) of (en, exits) \<Rightarrow> on_day d en"
      by (auto simp: s on_day_def split: prod.splits)
  qed
  from keepsD [OF this, where s = "(en, [])"] assms s have en1: "on_day d en1" by simp
  have k: "keeps (on_day d) (engine_execute_exit ev d x)" for x by (intro keepsI exit_on_day)
  have "for_each (engine_execute_exit (env_until d ev) d) exits en1 = for_each (engine_execute_exit ev d) exits en1"
    by (rule for_each_eq [OF exit_until k en1])
  moreover have "on_day d (snd (for_each (engine_execute_exit ev d) exits en1))"
    using keepsD [OF for_each_keeps [OF k] en1] .
  ultimately show ?thesis using en1 by (cases r) (simp_all add: check_exits_def scan_until s)
qed

lemma execute_pending_until:
  assumes "on_day d en"
  shows "execute_pending_signals (env_until d ev) cfg d en = execute_pending_signals ev cfg d en"
proof -
  have k: "keeps (on_day d) (execute_signal ev cfg d sg)" for sg by (intro keepsI signal_on_day)
  have "on_day d (en\<lparr>en_pending := []\<rparr>)" using assms by (simp add: on_day_def)
  from for_each_eq [OF signal_until k this] show ?thesis by (simp add: execute_pending_signals_def)
qed

lemma bars_until: "bars_so_far (ld_until d ld) s d = bars_so_far ld s d"
  by (simp add: bars_so_far_def get_ohlcv_range_until)

lemma queue_buy_until: "queue_buy (env_until d ev) = queue_buy ev"
  by (simp add: queue_buy_def fun_eq_iff)

lemma try_until:
  "try_position_signal (env_until d ev) cfg d = try_position_signal ev cfg d"
  "try_swing_signal (env_until d ev) cfg d = try_swing_signal ev cfg d"
  "try_replay_signal (env_until d ev) cfg d = try_replay_signal ev cfg d"
  by (intro ext, simp add: try_position_signal_def try_swing_signal_def try_replay_signal_def queue_buy_until
      bars_until get_price_until [OF order_refl] replay_levels_def compute_atr_def Let_def
      cong: option.case_cong list.case_cong if_cong)+

lemma generate_until: "generate_signals (env_until d ev) cfg d = generate_signals ev cfg d"
  by (intro ext, simp add: generate_signals_def try_until Let_def)

lemma snapshot_until: "record_snapshot (env_until d ev) d = record_snapshot ev d"
  by (intro ext, simp add: record_snapshot_def unrealized_sum_def get_price_until Let_def cong: sum.case_cong)

text \<open>
  C25: no look-ahead in the engine: a whole day, with its exits, fills, new signals and snapshot, has
  the same outcome when every bar after that day is deleted from the data.
\<close>

theorem run_day_no_lookahead:
  "run_day (env_until d ev) cfg d en = run_day ev cfg d en"
proof -
  have "update_valuations (ld_until d ld) d ps = update_valuations ld d ps" for ld ps
    by (auto simp: update_valuations_def get_price_until)
  then have s: "start_day (env_until d ev) d en = start_day ev d en"
    by (simp add: start_day_def sb_set_current_date_def)
  have day: "on_day d (start_day ev d en)" by (simp add: on_day_def start_day_def sb_set_current_date_def)
  obtain r en1 where x: "check_exits ev cfg d (start_day ev d en) = (r, en1)" by fastforce
  then have "on_day d en1" "check_exits (env_until d ev) cfg d (start_day ev d en) = (r, en1)"
    using check_exits_until [OF day, of ev cfg] by simp_all
  then show ?thesis
    by (cases r) (simp_all add: run_day_def s generate_until snapshot_until and_then_def x execute_pending_until)
qed

end
