(* ===== verification/Walk_Forward.thy ===== *)
theory Walk_Forward
  imports Engine_Properties
begin

text \<open>
  \<open>src/backtest/walk_forward.py\<close>: the split of a period into in-sample and out-of-sample
  windows, the two backtests of each window on the same engine, and the averages over the
  out-of-sample results. Adding months to a date is \<open>dateutil\<close>'s \<open>relativedelta\<close>, the parameter
  \<open>add_months\<close>; what is used of it: adding no month changes nothing and every month adds at
  least a day. The loop over the windows is a partial function: it does not return when the
  window length is 0.
\<close>

section \<open>Windows\<close>

type_synonym window_dates = "date \<times> date \<times> date \<times> date"

definition window_at :: "(date \<Rightarrow> int \<Rightarrow> date) \<Rightarrow> int \<Rightarrow> int \<Rightarrow> date \<Rightarrow> window_dates" where
  "window_at add_months window_months oos_months cursor =
     (let is_end = add_months cursor window_months - 1; oos_start = is_end + 1;
          oos_end = add_months oos_start oos_months - 1
      in (cursor, is_end, oos_start, oos_end))"

partial_function (option) windows_from ::
  "(date \<Rightarrow> int \<Rightarrow> date) \<Rightarrow> int \<Rightarrow> int \<Rightarrow> date \<Rightarrow> date \<Rightarrow> window_dates list option" where
  [code]: "windows_from add_months window_months oos_months end_date cursor =
     (case window_at add_months window_months oos_months cursor of (is_start, is_end, oos_start, oos_end) \<Rightarrow>
        if end_date < oos_end then Some []
        else Option.bind (windows_from add_months window_months oos_months end_date oos_start)
               (\<lambda>ws. Some ((is_start, is_end, oos_start, oos_end) # ws)))"

definition generate_windows ::
  "(date \<Rightarrow> int \<Rightarrow> date) \<Rightarrow> date \<Rightarrow> date \<Rightarrow> int \<Rightarrow> int \<Rightarrow> window_dates list option" where
  "generate_windows add_months start_date end_date window_months oos_months =
     windows_from add_months window_months oos_months end_date start_date"

section \<open>The analysis\<close>

record wf_window =
  ww_index :: nat
  ww_is_start :: date
  ww_is_end :: date
  ww_oos_start :: date
  ww_oos_end :: date
  ww_is_metrics :: performance_metrics
  ww_oos_metrics :: performance_metrics
  ww_oos_trade_count :: nat

record wf_result =
  wr_windows :: "wf_window list"
  wr_aggregated :: performance_metrics
  wr_consistency_ratio :: dec
  wr_avg_oos_return :: dec
  wr_is_robust :: bool

definition empty_metrics :: "date \<Rightarrow> date \<Rightarrow> performance_metrics" where
  "empty_metrics period_start period_end = \<lparr>pm_period_start = period_start, pm_period_end = period_end,
     pm_total_return_pct = 0, pm_annualized_return_pct = None, pm_sharpe_ratio = None,
     pm_sortino_ratio = None, pm_max_drawdown_pct = 0, pm_win_rate_pct = 0, pm_avg_win_pct = 0,
     pm_avg_loss_pct = 0, pm_profit_factor = None, pm_total_trades = 0, pm_winning_trades = 0,
     pm_losing_trades = 0\<rparr>"

text \<open>A non-empty mean, and the mean of the values that are not None.\<close>

definition mean2 :: "dec list \<Rightarrow> exc + dec" where
  "mean2 xs = dquant 2 (dquo (dsum xs) (of_nat (length xs)))"

definition mean_some :: "dec option list \<Rightarrow> exc + dec option" where
  "mean_some xs = (let vals = List.map_filter id xs in
     if vals = [] then Inr None else rbind (mean2 vals) (\<lambda>x. Inr (Some x)))"

definition aggregate_oos_metrics :: "wf_window list \<Rightarrow> date \<Rightarrow> date \<Rightarrow> exc + performance_metrics" where
  "aggregate_oos_metrics windows fallback_start fallback_end =
     (if windows = [] then Inr (empty_metrics fallback_start fallback_end)
      else
        let ms = map ww_oos_metrics windows; tot = sum_list (map pm_total_trades ms);
            winning = sum_list (map pm_winning_trades ms) in
        rbind (mean2 (map pm_total_return_pct ms)) (\<lambda>ret. rbind (mean2 (map pm_max_drawdown_pct ms)) (\<lambda>mdd.
        rbind (mean_some (map pm_sharpe_ratio ms)) (\<lambda>sharpe. rbind (mean_some (map pm_sortino_ratio ms)) (\<lambda>sortino.
        rbind (if 0 < tot then dquant 2 (dmul (dquo (of_nat winning) (of_nat tot)) 100) else Inr 0) (\<lambda>win_rate.
        rbind (mean2 (map pm_avg_win_pct ms)) (\<lambda>avg_win. rbind (mean2 (map pm_avg_loss_pct ms)) (\<lambda>avg_loss.
        rbind (mean_some (map pm_profit_factor ms)) (\<lambda>pf.
          Inr \<lparr>pm_period_start = ww_oos_start (hd windows), pm_period_end = ww_oos_end (last windows),
               pm_total_return_pct = ret, pm_annualized_return_pct = None, pm_sharpe_ratio = sharpe,
               pm_sortino_ratio = sortino, pm_max_drawdown_pct = mdd, pm_win_rate_pct = win_rate,
               pm_avg_win_pct = avg_win, pm_avg_loss_pct = avg_loss, pm_profit_factor = pf,
               pm_total_trades = tot, pm_winning_trades = winning,
               pm_losing_trades = sum_list (map pm_losing_trades ms)\<rparr>)))))))))"

text \<open>The two runs of a window, one after the other on the engine the window before left.\<close>

definition run_window ::
  "engine_env \<Rightarrow> backtest_config \<Rightarrow> nat \<Rightarrow> window_dates \<Rightarrow> engine \<Rightarrow> wf_window \<times> engine" where
  "run_window ev cfg idx = (\<lambda>(is_start, is_end, oos_start, oos_end) en.
     let (is_result, en1) = engine_run ev (cfg\<lparr>cf_start_date := is_start, cf_end_date := is_end\<rparr>) en;
         (oos_result, en2) = engine_run ev (cfg\<lparr>cf_start_date := oos_start, cf_end_date := oos_end\<rparr>) en1
     in (\<lparr>ww_index = idx, ww_is_start = is_start, ww_is_end = is_end, ww_oos_start = oos_start,
          ww_oos_end = oos_end,
          ww_is_metrics = (case br_metrics is_result of Some m \<Rightarrow> m | None \<Rightarrow> empty_metrics is_start is_end),
          ww_oos_metrics = (case br_metrics oos_result of Some m \<Rightarrow> m | None \<Rightarrow> empty_metrics oos_start oos_end),
          ww_oos_trade_count = br_total_trades oos_result\<rparr>, en2))"

fun run_windows ::
  "engine_env \<Rightarrow> backtest_config \<Rightarrow> nat \<Rightarrow> window_dates list \<Rightarrow> engine \<Rightarrow> wf_window list \<times> engine" where
  "run_windows ev cfg idx [] en = ([], en)"
| "run_windows ev cfg idx (w # ws) en =
     (let (r, en1) = run_window ev cfg idx w en; (rs, en2) = run_windows ev cfg (idx + 1) ws en1 in (r # rs, en2))"

definition consistency :: "wf_window list \<Rightarrow> exc + dec" where
  "consistency windows = (if windows = [] then Inr 0
     else dquant 2 (dquo (of_nat (length (filter (\<lambda>w. 0 < pm_total_return_pct (ww_oos_metrics w)) windows)))
            (of_nat (length windows))))"

text \<open>\<open>run\<close>: None when the windows are never all generated, otherwise what it returns or raises.\<close>

definition walk_forward ::
  "(date \<Rightarrow> int \<Rightarrow> date) \<Rightarrow> engine_env \<Rightarrow> backtest_config \<Rightarrow> int \<Rightarrow> int \<Rightarrow> engine \<Rightarrow> (exc + wf_result) option" where
  "walk_forward add_months ev cfg window_months oos_months en =
     map_option (\<lambda>dates.
       let windows = fst (run_windows ev cfg 0 dates en) in
       rbind (aggregate_oos_metrics windows (cf_start_date cfg) (cf_end_date cfg)) (\<lambda>aggregated.
       rbind (consistency windows) (\<lambda>ratio.
       rbind (if windows = [] then Inr 0 else mean2 (map (\<lambda>w. pm_total_return_pct (ww_oos_metrics w)) windows)) (\<lambda>avg.
         Inr \<lparr>wr_windows = windows, wr_aggregated = aggregated, wr_consistency_ratio = ratio,
              wr_avg_oos_return = avg, wr_is_robust = (3 / 5 \<le> ratio)\<rparr>))))
     (generate_windows add_months (cf_start_date cfg) (cf_end_date cfg) window_months oos_months)"

section \<open>Properties\<close>

text \<open>Each window is made from its start, ends within the period, and the next starts where its OOS part does.\<close>

fun windows_chain :: "(date \<Rightarrow> int \<Rightarrow> date) \<Rightarrow> int \<Rightarrow> int \<Rightarrow> date \<Rightarrow> date \<Rightarrow> window_dates list \<Rightarrow> bool" where
  "windows_chain am wm om end_date cursor [] \<longleftrightarrow> end_date < snd (snd (snd (window_at am wm om cursor)))"
| "windows_chain am wm om end_date cursor (w # ws) \<longleftrightarrow> w = window_at am wm om cursor
     \<and> snd (snd (snd w)) \<le> end_date \<and> windows_chain am wm om end_date (fst (snd (snd w))) ws"

lemma windows_from_chain:
  assumes am: "\<And>d n. 0 \<le> n \<Longrightarrow> d + n \<le> am d n" and wm: "0 < wm" "0 \<le> om"
  shows "\<exists>ws. windows_from am wm om end_date cursor = Some ws \<and> windows_chain am wm om end_date cursor ws"
proof (induction "nat (end_date + 1 - cursor)" arbitrary: cursor rule: less_induct)
  case less
  obtain a b c d where w: "window_at am wm om cursor = (a, b, c, d)" by (metis prod_cases4)
  then have c: "c = am cursor wm" and d: "d = am c om - 1" by (auto simp: window_at_def Let_def)
  have "cursor < c" "c \<le> d + 1" using am [of wm cursor] am [of om c] wm c d by simp_all
  show ?case
  proof (cases "end_date < d")
    case True
    then show ?thesis by (simp add: windows_from.simps w)
  next
    case False
    have "nat (end_date + 1 - c) < nat (end_date + 1 - cursor)"
      using False \<open>cursor < c\<close> \<open>c \<le> d + 1\<close> by linarith
    from less [OF this] obtain ws where ws: "windows_from am wm om end_date c = Some ws"
      "windows_chain am wm om end_date c ws" by blast
    have "windows_from am wm om end_date cursor = Some ((a, b, c, d) # ws)"
      by (subst windows_from.simps) (simp add: w False ws)
    with ws w False show ?thesis by auto
  qed
qed

text \<open>What a chain says of neighbouring windows, and of the last one.\<close>

lemma windows_chain_nth:
  assumes "windows_chain am wm om end_date cursor ws" "i < length ws"
  shows "\<exists>is_start. ws ! i = window_at am wm om is_start
    \<and> (if i = 0 then is_start = cursor else is_start = fst (snd (snd (ws ! (i - 1)))))
    \<and> snd (snd (snd (ws ! i))) \<le> end_date"
  using assms
proof (induction ws arbitrary: cursor i)
  case (Cons w ws)
  show ?case
  proof (cases i)
    case (Suc k)
    with Cons.prems Cons.IH [of "fst (snd (snd w))" k] show ?thesis
      by (cases k) auto
  qed (use Cons.prems in auto)
qed simp

text \<open>
  Generate_windows with at least one month of window and no negative out-of-sample length
  returns. Every window lies in the period, its out-of-sample part starts the day after its
  in-sample part, and the next window starts where the out-of-sample part of the one before
  starts, so that in-sample parts never overlap and the out-of-sample part of a window is
  covered by the in-sample part of the next.
\<close>

theorem generate_windows_spec:
  assumes "\<And>d n. 0 \<le> n \<Longrightarrow> d + n \<le> am d n" "0 < wm" "0 \<le> om"
  shows "\<exists>ws. generate_windows am start_date end_date wm om = Some ws
    \<and> (\<forall>i < length ws. case ws ! i of (is_start, is_end, oos_start, oos_end) \<Rightarrow>
         is_start = (if i = 0 then start_date else fst (snd (snd (ws ! (i - 1)))))
         \<and> is_start \<le> is_end \<and> is_end = am is_start wm - 1 \<and> oos_start = is_end + 1
         \<and> oos_end = am oos_start om - 1 \<and> oos_end \<le> end_date)"
proof -
  obtain ws where ws: "generate_windows am start_date end_date wm om = Some ws"
    and chain: "windows_chain am wm om end_date start_date ws"
    using windows_from_chain [OF assms] by (auto simp: generate_windows_def)
  have "case ws ! i of (is_start, is_end, oos_start, oos_end) \<Rightarrow>
         is_start = (if i = 0 then start_date else fst (snd (snd (ws ! (i - 1)))))
         \<and> is_start \<le> is_end \<and> is_end = am is_start wm - 1 \<and> oos_start = is_end + 1
         \<and> oos_end = am oos_start om - 1 \<and> oos_end \<le> end_date" if i: "i < length ws" for i
  proof -
    obtain s where s: "ws ! i = window_at am wm om s"
      "if i = 0 then s = start_date else s = fst (snd (snd (ws ! (i - 1))))"
      "snd (snd (snd (ws ! i))) \<le> end_date" using windows_chain_nth [OF chain i] by blast
    have "s + wm \<le> am s wm" using assms(1) [of wm s] assms(2) by simp
    with s assms(2) show ?thesis by (auto simp: window_at_def Let_def split: if_splits)
  qed
  with ws show ?thesis by blast
qed

definition months30 :: "date \<Rightarrow> int \<Rightarrow> date" where
  "months30 d n = d + 30 * n"

theorem generate_windows_spec_witness:
  "\<exists>ws. generate_windows months30 738000 738365 6 2 = Some ws \<and> length ws = 1
     \<and> ws ! 0 = (738000, 738179, 738180, 738239)"
proof -
  have g: "generate_windows months30 738000 738365 6 2 = Some [(738000, 738179, 738180, 738239)]"
    by (simp add: generate_windows_def windows_from.simps window_at_def months30_def)
  have "\<And>d n. 0 \<le> n \<Longrightarrow> d + n \<le> months30 d n" by (simp add: months30_def)
  from generate_windows_spec [OF this, of 6 2 738000 738365] g show ?thesis by simp
qed

text \<open>
  C26: generate_windows with a window of 0 months never returns when the first out-of-sample part
  fits in the period: the start of the next window is the start of this one.
\<close>

theorem zero_window_never_returns:
  assumes "\<And>d. am d 0 = d" "am start_date om - 1 \<le> end_date"
  shows "generate_windows am start_date end_date 0 om = None"
proof (rule ccontr)
  assume "generate_windows am start_date end_date 0 om \<noteq> None"
  then obtain ws where ws: "windows_from am 0 om end_date start_date = Some ws"
    by (auto simp: generate_windows_def)
  obtain w where "Option.bind (windows_from am 0 om end_date start_date) (\<lambda>ws. Some (w # ws)) = Some ws"
    using ws assms by (subst (asm) windows_from.simps) (simp add: window_at_def Let_def)
  with ws have "w # ws = ws" by simp
  then show False by simp
qed

theorem zero_window_never_returns_witness:
  "generate_windows months30 738000 738365 0 2 = None"
  by (rule zero_window_never_returns) (simp_all add: months30_def)

lemma run_windows_map:
  "length (fst (run_windows ev cfg idx ws en)) = length ws
   \<and> (\<forall>i < length ws. ww_index (fst (run_windows ev cfg idx ws en) ! i) = idx + i
       \<and> ww_is_start (fst (run_windows ev cfg idx ws en) ! i) = fst (ws ! i)
       \<and> ww_oos_end (fst (run_windows ev cfg idx ws en) ! i) = snd (snd (snd (ws ! i))))"
proof (induction ws arbitrary: idx en)
  case (Cons w ws)
  obtain r en1 where r: "run_window ev cfg idx w en = (r, en1)" by fastforce
  then have "ww_index r = idx" "ww_is_start r = fst w" "ww_oos_end r = snd (snd (snd w))"
    by (auto simp: run_window_def Let_def split: prod.splits)
  with Cons.IH [of "idx + 1" en1] show ?case
    by (auto simp: r Let_def split_beta nth_Cons split: nat.split)
qed simp

lemma consistency_bounds:
  assumes "consistency windows = Inr x" shows "0 \<le> x \<and> x \<le> 1"
proof (cases "windows = []")
  case False
  define k n where "k = length (filter (\<lambda>w. 0 < pm_total_return_pct (ww_oos_metrics w)) windows)"
    and "n = length windows"
  have "k \<le> n" "0 < n" using False by (simp_all add: k_def n_def)
  then have "of_nat k / of_nat n \<le> (1 :: dec)" by (simp add: divide_le_eq)
  then have q: "0 \<le> dquo (of_nat k) (of_nat n)" "dquo (of_nat k) (of_nat n) \<le> 1"
    using is_dec_1 unfolding dquo_def is_dec_def by (auto intro: d28.rnd_le d28.rnd_nonneg)
  have x: "dquant 2 (dquo (of_nat k) (of_nat n)) = Inr x" using assms False by (simp add: consistency_def k_def n_def)
  have "dquant 2 1 = Inr 1" by (simp add: dquant_def dec_eval)
  with dquant_nonneg [OF x q(1)] dquant_mono [OF x _ q(2)] show ?thesis by blast
qed (use assms in \<open>simp add: consistency_def\<close>)

lemma aggregate_trades:
  assumes "aggregate_oos_metrics ws a b = Inr m"
  shows "pm_total_trades m = sum_list (map (\<lambda>w. pm_total_trades (ww_oos_metrics w)) ws)"
  using assms by (auto simp: aggregate_oos_metrics_def empty_metrics_def Let_def res_simps comp_def split: if_splits)

text \<open>
  Run of the walk-forward analysis, when it returns a result: one window result per generated
  window, in order and numbered from 0; the consistency ratio lies between 0 and 1 and decides
  robustness at 0.6; the aggregated trade counts are the sums over the windows.
\<close>

theorem walk_forward_result:
  assumes "walk_forward am ev cfg wm om en = Some (Inr r)"
    and "generate_windows am (cf_start_date cfg) (cf_end_date cfg) wm om = Some dates"
  shows "map ww_is_start (wr_windows r) = map fst dates
    \<and> map ww_index (wr_windows r) = [0..<length dates]
    \<and> 0 \<le> wr_consistency_ratio r \<and> wr_consistency_ratio r \<le> 1
    \<and> (wr_is_robust r \<longleftrightarrow> 3 / 5 \<le> wr_consistency_ratio r)
    \<and> pm_total_trades (wr_aggregated r) = sum_list (map (\<lambda>w. pm_total_trades (ww_oos_metrics w)) (wr_windows r))"
proof -
  define ws where "ws = fst (run_windows ev cfg 0 dates en)"
  from assms have "consistency ws = Inr (wr_consistency_ratio r)" "wr_windows r = ws"
    "wr_is_robust r \<longleftrightarrow> 3 / 5 \<le> wr_consistency_ratio r"
    and agg: "aggregate_oos_metrics ws (cf_start_date cfg) (cf_end_date cfg) = Inr (wr_aggregated r)"
    by (auto simp: walk_forward_def ws_def Let_def res_simps)
  moreover have "pm_total_trades (wr_aggregated r) = sum_list (map (\<lambda>w. pm_total_trades (ww_oos_metrics w)) ws)"
    using agg by (rule aggregate_trades)
  moreover have "map ww_is_start ws = map fst dates" "map ww_index ws = [0..<length dates]"
    using run_windows_map [of ev cfg 0 dates en] by (auto simp: ws_def intro!: nth_equalityI)
  ultimately show ?thesis using consistency_bounds [of ws] by simp
qed

definition one_window_config :: backtest_config where
  "one_window_config = sample_config\<lparr>cf_mode := TECHNICAL, cf_start_date := 738100, cf_end_date := 738400\<rparr>"

theorem walk_forward_result_witness:
  "\<exists>r. walk_forward months30 sample_env one_window_config 6 2 sample_engine = Some (Inr r)
     \<and> map ww_is_start (wr_windows r) = [738100] \<and> map ww_index (wr_windows r) = [0]
     \<and> \<not> wr_is_robust r \<and> wr_consistency_ratio r \<le> 1"
proof -
  have g: "generate_windows months30 (cf_start_date one_window_config) (cf_end_date one_window_config) 6 2
      = Some [(738100, 738279, 738280, 738339)]"
    by (simp add: generate_windows_def windows_from.simps window_at_def months30_def one_window_config_def)
  have no: "engine_run sample_env (one_window_config\<lparr>cf_start_date := a, cf_end_date := b\<rparr>) en
      = (completed_result None [], (reset_state en)\<lparr>en_peak := 10000000\<rparr>)" if "738002 < a" for a b en
  proof -
    have "run_dates sample_env (one_window_config\<lparr>cf_start_date := a, cf_end_date := b\<rparr>) = []"
      using that by (simp add: run_dates_def sample_env_def sample_loader_def ld_load_def Let_def
        select_sample_rows) (simp add: sample_rows_def)
    then show ?thesis by (simp add: engine_run_def init_run_def Let_def)
        (simp add: one_window_config_def sample_config_def)
  qed
  have "\<exists>r. walk_forward months30 sample_env one_window_config 6 2 sample_engine = Some (Inr r)
      \<and> \<not> wr_is_robust r"
    unfolding walk_forward_def g
    by (simp add: run_window_def no completed_result_def Let_def aggregate_oos_metrics_def empty_metrics_def
        consistency_def mean2_def mean_some_def map_filter_simps dec_eval dquant_def dsum_def)
  then obtain r where r: "walk_forward months30 sample_env one_window_config 6 2 sample_engine = Some (Inr r)"
    "\<not> wr_is_robust r" by blast
  with walk_forward_result [OF r(1) g] show ?thesis by simp
qed

end
