(* ===== verification/Execution_Store.thy ===== *)
theory Execution_Store
  imports Portfolio_State Risk_Manager
begin

text \<open>
  What the execution side of the program reads and writes: the tables \<open>orders\<close>, \<open>executions\<close> and
  \<open>approval_requests\<close> of \<open>src/db/models/execution.py\<close>, the positions and snapshots tables, the
  decision log, the approval keys of the cache, the approval manager's own dictionaries, the
  messages sent, and the broker's state. Every call out of the process (a database session, a
  Telegram message, the cache) is an external call; the \<open>n\<close>-th such call can raise, before or after
  it took effect, when the fault plan says so. Times are seconds; a new UUID is the next number.
\<close>

section \<open>Rows\<close>

record order_row =
  od_id :: int
  od_account_id :: string
  od_symbol :: symbol
  od_side :: order_side
  od_type :: order_type
  od_quantity :: int
  od_price :: dec
  od_status :: order_status
  od_approval_status :: approval_status
  od_original_quantity :: int
  od_modified_quantity :: "int option"
  od_session_id :: uuid
  od_position_id :: "int option"
  od_broker_order_id :: "nat option"
  od_filled_quantity :: int
  od_filled_price :: "dec option"
  od_commission :: dec
  od_rejection_reason :: rejection
  od_web_verify_result :: "web_verify_result option"
  od_web_verify_summary :: string

record execution_row =
  ex_order_id :: int
  ex_broker_order_id :: nat
  ex_fill_price :: dec
  ex_fill_quantity :: int
  ex_commission :: dec

text \<open>The status column of an approval request: pending, or one of the approval statuses.\<close>

datatype request_status = Req_Pending | Req_Status approval_status

record approval_row =
  ar_request_id :: uuid
  ar_order_id :: int
  ar_account_id :: string
  ar_status :: request_status
  ar_telegram_message_id :: "int option"
  ar_requested_at :: int
  ar_responded_at :: "int option"
  ar_modified_quantity :: "int option"
  ar_expires_at :: int

record log_row =
  lg_decision_id :: uuid
  lg_session_id :: uuid
  lg_stage :: decision_stage
  lg_decision :: string
  lg_symbol :: symbol
  lg_parent_id :: "uuid option"
  lg_account_id :: string

text \<open>The messages sent, as the values the templates print.\<close>

datatype message =
    Rejection_Message symbol order_side rejection
  | Execution_Message symbol order_side int dec dec approval_status
  | Auto_Message symbol order_side int
  | Request_Message uuid symbol order_side int dec
  | Update_Message int request_status "int option"
  | Exit_Message symbol exit_reason string
  | Report_Message string

fun decision_action_value :: "decision_action \<Rightarrow> string" where
  "decision_action_value Act_BUY = ''buy''"
| "decision_action_value Act_SELL = ''sell''"
| "decision_action_value Act_HOLD = ''hold''"
| "decision_action_value Act_APPROVE = ''approve''"
| "decision_action_value Act_REJECT = ''reject''"
| "decision_action_value Act_STOP_LOSS = ''stop_loss''"
| "decision_action_value Act_TAKE_PROFIT = ''take_profit''"

fun web_result_value :: "web_verify_result \<Rightarrow> string" where
  "web_result_value SAFE = ''safe''"
| "web_result_value WARNING = ''warning''"
| "web_result_value BLOCKED = ''blocked''"

section \<open>The world and its external calls\<close>

text \<open>
  The dictionaries an \<open>ApprovalManager\<close> keeps per waiting request: its event (set or not), the
  user's answer, the message with the buttons, the modified quantity and the account.
\<close>

record approval_manager =
  am_events :: "(uuid, bool) dict"
  am_results :: "(uuid, approval_status) dict"
  am_message_ids :: "(uuid, int) dict"
  am_modified :: "(uuid, int) dict"
  am_account_ids :: "(uuid, string) dict"

definition new_approval_manager :: approval_manager where
  "new_approval_manager = \<lparr>am_events = [], am_results = [], am_message_ids = [], am_modified = [],
     am_account_ids = []\<rparr>"

record 'b world =
  w_calls :: nat
  w_orders :: "order_row list"
  w_next_order_id :: int
  w_executions :: "execution_row list"
  w_approvals :: "approval_row list"
  w_positions :: position_table
  w_snapshots :: snapshot_table
  w_sectors :: sector_cache
  w_log :: "log_row list"
  w_sent :: "message list"
  w_next_uuid :: uuid
  w_manager :: approval_manager
  w_request_cache :: "(string \<times> uuid, request_status \<times> int) dict"
  w_broker :: 'b

datatype fault = Before exc | After exc

type_synonym fault_plan = "nat \<Rightarrow> fault option"

definition ext :: "fault_plan \<Rightarrow> ('b world, 'a) meth \<Rightarrow> ('b world, 'a) meth" where
  "ext fl f w = (let w0 = w\<lparr>w_calls := w_calls w + 1\<rparr> in
     case fl (w_calls w) of
       None \<Rightarrow> f w0 | Some (Before e) \<Rightarrow> (Inl e, w0) | Some (After e) \<Rightarrow> (Inl e, snd (f w0)))"

definition effect :: "('s \<Rightarrow> 's) \<Rightarrow> ('s, unit) meth" where
  "effect f s = (Inr (), f s)"

lemma ext_none: "fl (w_calls w) = None \<Longrightarrow> ext fl f w = f (w\<lparr>w_calls := w_calls w + 1\<rparr>)"
  by (simp add: ext_def)

lemma stays_ext [stays_intros]:
  assumes "\<And>w n. g (w\<lparr>w_calls := n\<rparr>) = g w" "stays g f" shows "stays g (ext fl f)"
  using assms by (auto simp: stays_def ext_def Let_def split: option.split fault.split)

lemma stays_effect [stays_intros]: "(\<And>s. g (f s) = g s) \<Longrightarrow> stays g (effect f)"
  by (simp add: stays_def effect_def)

section \<open>Queries\<close>

definition find_order :: "int \<Rightarrow> 'b world \<Rightarrow> order_row option" where
  "find_order i w = find (\<lambda>r. od_id r = i) (w_orders w)"

definition new_order_row ::
  "int \<Rightarrow> string \<Rightarrow> symbol \<Rightarrow> order_side \<Rightarrow> order_type \<Rightarrow> int \<Rightarrow> dec \<Rightarrow> uuid \<Rightarrow> order_row" where
  "new_order_row i account_id s side ty q price session_id =
     \<lparr>od_id = i, od_account_id = account_id, od_symbol = s, od_side = side, od_type = ty,
      od_quantity = q, od_price = price, od_status = PENDING, od_approval_status = AUTO_APPROVED,
      od_original_quantity = q, od_modified_quantity = None, od_session_id = session_id,
      od_position_id = None, od_broker_order_id = None, od_filled_quantity = 0,
      od_filled_price = None, od_commission = 0, od_rejection_reason = No_Rejection,
      od_web_verify_result = None, od_web_verify_summary = ''''\<rparr>"

definition create_order ::
  "fault_plan \<Rightarrow> string \<Rightarrow> symbol \<Rightarrow> order_side \<Rightarrow> order_type \<Rightarrow> int \<Rightarrow> dec \<Rightarrow> uuid \<Rightarrow> ('b world, int) meth" where
  "create_order fl account_id s side ty q price session_id = ext fl (\<lambda>w. let i = w_next_order_id w in
     (Inr i, w\<lparr>w_next_order_id := i + 1,
        w_orders := w_orders w @ [new_order_row i account_id s side ty q price session_id]\<rparr>))"

definition set_order :: "int \<Rightarrow> (order_row \<Rightarrow> order_row) \<Rightarrow> 'b world \<Rightarrow> 'b world" where
  "set_order i f w = w\<lparr>w_orders := map (\<lambda>r. if od_id r = i then f r else r) (w_orders w)\<rparr>"

definition update_order :: "fault_plan \<Rightarrow> int \<Rightarrow> (order_row \<Rightarrow> order_row) \<Rightarrow> ('b world, unit) meth" where
  "update_order fl i f = ext fl (effect (set_order i f))"

definition update_order_safe :: "fault_plan \<Rightarrow> int \<Rightarrow> (order_row \<Rightarrow> order_row) \<Rightarrow> ('b world, unit) meth" where
  "update_order_safe fl i f = mcatch (update_order fl i f) (\<lambda>_. mret ())"

definition get_order :: "fault_plan \<Rightarrow> int \<Rightarrow> ('b world, order_row option) meth" where
  "get_order fl i = ext fl (mget (find_order i))"

definition record_execution ::
  "fault_plan \<Rightarrow> int \<Rightarrow> nat \<Rightarrow> dec \<Rightarrow> int \<Rightarrow> dec \<Rightarrow> ('b world, unit) meth" where
  "record_execution fl i broker_order_id price q commission = ext fl (effect (\<lambda>w.
     w\<lparr>w_executions := w_executions w @ [\<lparr>ex_order_id = i, ex_broker_order_id = broker_order_id,
        ex_fill_price = price, ex_fill_quantity = q, ex_commission = commission\<rparr>]\<rparr>))"

definition send_message :: "fault_plan \<Rightarrow> message \<Rightarrow> ('b world, unit) meth" where
  "send_message fl msg = ext fl (effect (\<lambda>w. w\<lparr>w_sent := w_sent w @ [msg]\<rparr>))"

definition notify_safe :: "fault_plan \<Rightarrow> message \<Rightarrow> ('b world, unit) meth" where
  "notify_safe fl msg = mcatch (send_message fl msg) (\<lambda>_. mret ())"

text \<open>\<open>DecisionRecorder.record\<close>; a decision id is the position of the row in the log.\<close>

definition record_decision ::
  "fault_plan \<Rightarrow> uuid \<Rightarrow> decision_stage \<Rightarrow> string \<Rightarrow> symbol \<Rightarrow> uuid option \<Rightarrow> string \<Rightarrow> ('b world, uuid) meth" where
  "record_decision fl session_id stage decision s parent_id account_id =
     mcatch (ext fl (\<lambda>w. (Inr (length (w_log w)), w\<lparr>w_log := w_log w @ [\<lparr>lg_decision_id = length (w_log w),
        lg_session_id = session_id, lg_stage = stage, lg_decision = decision, lg_symbol = s,
        lg_parent_id = parent_id, lg_account_id = account_id\<rparr>]\<rparr>)))
       (\<lambda>_. mraise (DatabaseError ''Decision record insert failed''))"

definition record_decision_safe ::
  "fault_plan \<Rightarrow> uuid \<Rightarrow> decision_stage \<Rightarrow> string \<Rightarrow> symbol \<Rightarrow> uuid option \<Rightarrow> string \<Rightarrow> ('b world, uuid list) meth" where
  "record_decision_safe fl session_id stage decision s parent_id account_id =
     mcatch (mbind (record_decision fl session_id stage decision s parent_id account_id) (\<lambda>i. mret [i]))
       (\<lambda>_. mret [])"

text \<open>The position manager's methods: its own errors pass, any other is a DatabaseError.\<close>

definition database_error :: "string \<Rightarrow> exc \<Rightarrow> exc" where
  "database_error tag e = (case e of DatabaseError m \<Rightarrow> DatabaseError m | _ \<Rightarrow> DatabaseError tag)"

definition create_position :: "fault_plan \<Rightarrow> date \<Rightarrow> position_args \<Rightarrow> ('b world, position_record) meth" where
  "create_position fl today a = mcatch
     (ext fl (\<lambda>w. let (r, t) = pm_create True today a (w_positions w) in (r, w\<lparr>w_positions := t\<rparr>)))
     (\<lambda>e. mraise (database_error ''Position create failed'' e))"

definition close_position ::
  "fault_plan \<Rightarrow> date \<Rightarrow> int \<Rightarrow> close_args \<Rightarrow> ('b world, position_record) meth" where
  "close_position fl today i c = mcatch
     (ext fl (\<lambda>w. let (r, t) = pm_close True today i c (w_positions w) in (r, w\<lparr>w_positions := t\<rparr>)))
     (\<lambda>e. mraise (database_error ''Position close failed'' e))"

lemmas store_defs = create_order_def update_order_safe_def update_order_def get_order_def record_execution_def
  notify_safe_def send_message_def record_decision_safe_def record_decision_def create_position_def close_position_def

section \<open>What each query leaves alone\<close>

lemma store_broker [stays_intros]:
  "stays w_broker (create_order fl acct s side ty q p ss)" "stays w_broker (update_order fl i f)"
  "stays w_broker (update_order_safe fl i f)" "stays w_broker (get_order fl i)"
  "stays w_broker (record_execution fl i b p q c)" "stays w_broker (send_message fl msg)"
  "stays w_broker (notify_safe fl msg)" "stays w_broker (record_decision fl ss st d s par acct)"
  "stays w_broker (record_decision_safe fl ss st d s par acct)" "stays w_broker (create_position fl today a)"
  "stays w_broker (close_position fl today i ca)"
  unfolding store_defs set_order_def
  by (intro stays_intros; simp add: stays_def Let_def split_beta)+

lemma store_uuid [stays_intros]:
  "stays w_next_uuid (create_order fl acct s side ty q p ss)" "stays w_next_uuid (update_order fl i f)"
  "stays w_next_uuid (send_message fl msg)" "stays w_next_uuid (record_decision fl ss st d s par acct)"
  "stays w_next_uuid (notify_safe fl msg)" "stays w_next_uuid (record_decision_safe fl ss st d s par acct)"
  unfolding store_defs set_order_def
  by (intro stays_intros; simp add: stays_def Let_def split_beta)+

lemma store_positions [stays_intros]:
  "stays w_positions (create_order fl acct s side ty q p ss)" "stays w_positions (update_order fl i f)"
  "stays w_positions (update_order_safe fl i f)" "stays w_positions (get_order fl i)"
  "stays w_positions (record_execution fl i b p q c)" "stays w_positions (send_message fl msg)"
  "stays w_positions (notify_safe fl msg)" "stays w_positions (record_decision fl ss st d s par acct)"
  "stays w_positions (record_decision_safe fl ss st d s par acct)"
  unfolding store_defs set_order_def
  by (intro stays_intros; simp add: stays_def Let_def split_beta)+

lemma store_executions [stays_intros]:
  "stays w_executions (create_order fl acct s side ty q p ss)" "stays w_executions (update_order fl i f)"
  "stays w_executions (update_order_safe fl i f)" "stays w_executions (get_order fl i)"
  "stays w_executions (send_message fl msg)"
  "stays w_executions (notify_safe fl msg)" "stays w_executions (record_decision fl ss st d s par acct)"
  "stays w_executions (record_decision_safe fl ss st d s par acct)" "stays w_executions (create_position fl today a)"
  "stays w_executions (close_position fl today i ca)"
  unfolding store_defs set_order_def
  by (intro stays_intros; simp add: stays_def Let_def split_beta)+

section \<open>A fresh world\<close>

definition no_faults :: fault_plan where
  "no_faults n = None"

definition new_world :: "'b \<Rightarrow> 'b world" where
  "new_world b = \<lparr>w_calls = 0, w_orders = [], w_next_order_id = 1, w_executions = [], w_approvals = [],
     w_positions = \<lparr>pt_rows = [], pt_next_id = 1\<rparr>, w_snapshots = [], w_sectors = [], w_log = [],
     w_sent = [], w_next_uuid = 100, w_manager = new_approval_manager, w_request_cache = [], w_broker = b\<rparr>"

lemma no_faults_simp [simp]: "no_faults n = None"
  by (simp add: no_faults_def)

lemma ext_no_faults [simp]: "ext no_faults f w = f (w\<lparr>w_calls := w_calls w + 1\<rparr>)"
  by (simp add: ext_def)

end
