(* ===== verification/Web_Verify.thy ===== *)
theory Web_Verify
  imports Execution_Store
begin

text \<open>
  \<open>src/execution/web_verify.py\<close>: the last check of an order by a web search of a language model.
  The model's structured answer is a parameter that may be an exception. The check fails open:
  whatever goes wrong (the call, an unknown result string, the decision log), the order is SAFE.
\<close>

record web_output =
  wo_result :: string
  wo_summary :: string
  wo_issues :: "string list"
  wo_news_count :: int
  wo_reasoning :: string
  wo_cost_usd :: dec

type_synonym web_llm = "symbol \<Rightarrow> order_side \<Rightarrow> exc + web_output"

text \<open>\<open>WebVerifyResult(parsed.result)\<close>\<close>

definition parse_web_result :: "string \<Rightarrow> exc + web_verify_result" where
  "parse_web_result s = (case find (\<lambda>r. web_result_value r = s) [SAFE, WARNING, BLOCKED] of
     Some r \<Rightarrow> Inr r | None \<Rightarrow> Inl (ValueError ''WebVerifyResult''))"

definition safe_default :: "symbol \<Rightarrow> string \<Rightarrow> web_verification" where
  "safe_default s summary = \<lparr>wv_symbol = s, wv_result = SAFE, wv_summary = summary, wv_issues = [],
     wv_news_checked = 0, wv_cost_usd = 0, wv_reasoning = summary\<rparr>"

definition web_verification_of :: "symbol \<Rightarrow> web_output \<Rightarrow> web_verify_result \<Rightarrow> web_verification" where
  "web_verification_of s out r = \<lparr>wv_symbol = s, wv_result = r, wv_summary = wo_summary out,
     wv_issues = wo_issues out, wv_news_checked = wo_news_count out, wv_cost_usd = wo_cost_usd out,
     wv_reasoning = wo_reasoning out\<rparr>"

definition web_verify ::
  "fault_plan \<Rightarrow> settings \<Rightarrow> web_llm \<Rightarrow> symbol \<Rightarrow> order_side \<Rightarrow> uuid \<Rightarrow> uuid option \<Rightarrow> bool
     \<Rightarrow> ('b world, web_verification) meth" where
  "web_verify fl st llm s side session_id parent_id is_stop_loss =
     (if \<not> WEB_VERIFY_ENABLED st then mret (safe_default s ''disabled'')
      else if is_stop_loss \<and> WEB_VERIFY_SKIP_ON_STOP_LOSS st then mret (safe_default s ''stop_loss'')
      else mcatch
        (mbind (mlift (\<lambda>_. llm s side)) (\<lambda>out.
         mbind (mlift (\<lambda>_. parse_web_result (wo_result out))) (\<lambda>r.
         mbind (record_decision fl session_id Stage_EXECUTION (web_result_value r) s parent_id ''default'') (\<lambda>_.
         mret (web_verification_of s out r)))))
        (\<lambda>_. mret (safe_default s ''fail-open'')))"

lemma parse_web_result_Inr: "parse_web_result s = Inr r \<longleftrightarrow> s = web_result_value r"
  by (cases r) (auto simp: parse_web_result_def)

lemma web_verify_stays [stays_intros]:
  "stays w_broker (web_verify fl st llm s side ss par sl)" "stays w_next_uuid (web_verify fl st llm s side ss par sl)"
  "stays w_positions (web_verify fl st llm s side ss par sl)" "stays w_executions (web_verify fl st llm s side ss par sl)"
  unfolding web_verify_def by (intro stays_intros)+

lemma web_verify_blocked:
  assumes "WEB_VERIFY_ENABLED st" "\<not> (sl \<and> WEB_VERIFY_SKIP_ON_STOP_LOSS st)" "fl (w_calls w) = None"
    and "llm s side = Inr out" "wo_result out = ''blocked''"
  shows "\<exists>v w'. web_verify fl st llm s side ss par sl w = (Inr v, w') \<and> wv_result v = BLOCKED"
proof -
  have "parse_web_result ''blocked'' = Inr BLOCKED" by (simp add: parse_web_result_def)
  with assms show ?thesis
    by (auto simp: web_verify_def meth_defs record_decision_def ext_def Let_def web_verification_of_def)
qed

text \<open>
  C16: verify never raises, and it blocks or warns only when the check is enabled, the order is not
  a stop-loss that skips it, the model's answer said so and the answer was written to the
  decision log; otherwise the verification is SAFE. In particular a check whose log entry cannot
  be written lets a blocked order through.
\<close>

theorem web_verify_spec:
  "\<exists>v w'. web_verify fl st llm s side session_id parent_id sl w = (Inr v, w')
     \<and> (case if WEB_VERIFY_ENABLED st \<and> \<not> (sl \<and> WEB_VERIFY_SKIP_ON_STOP_LOSS st) \<and> fl (w_calls w) = None
             then rbind (llm s side) (\<lambda>out. parse_web_result (wo_result out)) else Inr SAFE of
          Inr r \<Rightarrow> wv_result v = r | Inl _ \<Rightarrow> wv_result v = SAFE)
     \<and> (wv_result v \<noteq> SAFE \<longrightarrow> (\<exists>out. llm s side = Inr out \<and> wo_result out = web_result_value (wv_result v)
          \<and> wv_summary v = wo_summary out \<and> (\<exists>l. w_log w' = w_log w @ [l] \<and> lg_decision l = wo_result out)))"
proof (cases "WEB_VERIFY_ENABLED st \<and> \<not> (sl \<and> WEB_VERIFY_SKIP_ON_STOP_LOSS st)")
  case False
  then show ?thesis by (auto simp: web_verify_def mret_def safe_default_def)
next
  case True
  have d: "web_verify fl st llm s side session_id parent_id sl = mcatch
        (mbind (mlift (\<lambda>_. llm s side)) (\<lambda>out.
         mbind (mlift (\<lambda>_. parse_web_result (wo_result out))) (\<lambda>r.
         mbind (record_decision fl session_id Stage_EXECUTION (web_result_value r) s parent_id ''default'') (\<lambda>_.
         mret (web_verification_of s out r)))))
        (\<lambda>_. mret (safe_default s ''fail-open''))"
    using True by (auto simp: web_verify_def)
  show ?thesis
  proof (cases "llm s side")
    case (Inl e)
    with True show ?thesis unfolding d by (simp add: meth_defs safe_default_def)
  next
    case out: (Inr out)
    show ?thesis
    proof (cases "parse_web_result (wo_result out)")
      case (Inl e)
      with True out show ?thesis unfolding d by (simp add: meth_defs safe_default_def)
    next
      case (Inr r)
      then have "wo_result out = web_result_value r" by (simp add: parse_web_result_Inr)
      then show ?thesis using True out Inr unfolding d
        by (cases "fl (w_calls w)"; simp add: meth_defs record_decision_def ext_def Let_def safe_default_def
              web_verification_of_def split: fault.split)
    qed
  qed
qed

definition halted_answer :: web_output where
  "halted_answer = \<lparr>wo_result = ''blocked'', wo_summary = ''trading halt'', wo_issues = [''halt''],
     wo_news_count = 3, wo_reasoning = ''halted'', wo_cost_usd = 1 / 100\<rparr>"

theorem web_verify_spec_witness:
  "\<exists>v w'. web_verify no_faults default_settings (\<lambda>_ _. Inr halted_answer) ''005930'' Side_BUY 1 None False (new_world ())
      = (Inr v, w') \<and> wv_result v = BLOCKED \<and> wv_summary v = ''trading halt'' \<and> length (w_log w') = 1
   \<and> (\<exists>v' w''. web_verify (\<lambda>_. Some (Before (ExternalError ''db''))) default_settings (\<lambda>_ _. Inr halted_answer)
        ''005930'' Side_BUY 1 None False (new_world ()) = (Inr v', w'') \<and> wv_result v' = SAFE)"
proof -
  have b: "wo_result halted_answer = ''blocked''" "wo_summary halted_answer = ''trading halt''"
    "w_log (new_world ()) = []" "WEB_VERIFY_ENABLED default_settings"
    by (simp_all add: halted_answer_def new_world_def default_settings_def)
  obtain v w' where v: "web_verify no_faults default_settings (\<lambda>_ _. Inr halted_answer) ''005930'' Side_BUY 1 None False (new_world ())
      = (Inr v, w')" "wv_result v = BLOCKED" "wv_summary v = ''trading halt''" "length (w_log w') = 1"
    using web_verify_spec [of no_faults default_settings "\<lambda>_ _. Inr halted_answer" "''005930''" Side_BUY 1 None False "new_world ()"]
    by (auto simp: b parse_web_result_def)
  obtain v' w'' where "web_verify (\<lambda>_. Some (Before (ExternalError ''db''))) default_settings (\<lambda>_ _. Inr halted_answer)
      ''005930'' Side_BUY 1 None False (new_world ()) = (Inr v', w'')" "wv_result v' = SAFE"
    using web_verify_spec [of "\<lambda>_. Some (Before (ExternalError ''db''))" default_settings "\<lambda>_ _. Inr halted_answer"
        "''005930''" Side_BUY 1 None False "new_world ()"] by (auto simp: b)
  with v show ?thesis by blast
qed

end
