(* ===== verification/Approval.thy ===== *)
theory Approval
  imports Web_Verify "HOL-Library.Sublist"
begin

text \<open>
  \<open>src/execution/approval.py\<close>, with \<open>respond_to_approval\<close> of \<open>src/api/routes/orders.py\<close>: whether an
  order runs automatically or waits for its user, the waiting, the user's answers over Telegram
  and over the API, the timeout, and the cleanup of expired requests. What the users do while a
  request waits is a list of events; each is handled to its end before the next, and the waiting
  coroutine resumes as soon as its event is set. In the program the callbacks wait for the database, the cache and
  Telegram before they set the result, and the timeout may come in between: \<open>Approval_Race\<close> cuts the same
  handlers at these points and lets them interleave.
  The clock is a function of the number of external calls made.
\<close>

datatype user_event =
    Callback string uuid
  | Api_Response string "int option" uuid

record approval_env =
  ap_faults :: fault_plan
  ap_settings :: settings
  ap_clock :: "nat \<Rightarrow> int"
  ap_message_id :: "uuid \<Rightarrow> int option"
  ap_events :: "uuid \<Rightarrow> user_event list"

record approval_args =
  aa_decision :: trade_decision
  aa_order_id :: int
  aa_session_id :: uuid
  aa_state :: portfolio_state
  aa_account_id :: string

section \<open>Reading the user's answer\<close>

text \<open>Python's \<open>int\<close> of an ASCII string: blanks around, a sign, digits with single underscores between.\<close>

definition is_blank :: "char \<Rightarrow> bool" where
  "is_blank c = ((of_char c :: nat) \<in> {9, 10, 11, 12, 13, 28, 29, 30, 31, 32})"

definition digit_of :: "char \<Rightarrow> nat option" where
  "digit_of c = (let n = of_char c in if 48 \<le> n \<and> n \<le> 57 then Some (n - 48) else None)"

fun read_digits :: "bool \<Rightarrow> nat \<Rightarrow> string \<Rightarrow> nat option" where
  "read_digits after_digit acc [] = (if after_digit then Some acc else None)"
| "read_digits after_digit acc (c # cs) =
     (case digit_of c of
        Some d \<Rightarrow> read_digits True (10 * acc + d) cs
      | None \<Rightarrow> if c = CHR ''_'' \<and> after_digit then read_digits False acc cs else None)"

definition strip :: "string \<Rightarrow> string" where
  "strip s = rev (dropWhile is_blank (rev (dropWhile is_blank s)))"

definition py_int :: "string \<Rightarrow> int option" where
  "py_int s = (case strip s of
     [] \<Rightarrow> None
   | c # cs \<Rightarrow> if c = CHR ''-'' then map_option (\<lambda>n. - int n) (read_digits False 0 cs)
               else if c = CHR ''+'' then map_option int (read_digits False 0 cs)
               else map_option int (read_digits False 0 (c # cs)))"

text \<open>The status an action stands for and the changed quantity; None for an unknown action.\<close>

definition parse_action :: "string \<Rightarrow> (approval_status \<times> int option) option" where
  "parse_action action =
     (if action = ''approve'' then Some (App_APPROVED, None)
      else if action = ''reject'' then Some (App_REJECTED, None)
      else if prefix ''modify:'' action then
        (case py_int (drop 7 action) of
           Some q \<Rightarrow> if q \<le> 0 then Some (App_REJECTED, None) else Some (App_APPROVED, Some q)
         | None \<Rightarrow> Some (App_REJECTED, None))
      else None)"

section \<open>Automatic approval\<close>

fun action_side :: "decision_action \<Rightarrow> order_side" where
  "action_side Act_SELL = Side_SELL"
| "action_side Act_STOP_LOSS = Side_SELL"
| "action_side Act_TAKE_PROFIT = Side_SELL"
| "action_side _ = Side_BUY"

definition td_value :: "trade_decision \<Rightarrow> dec" where
  "td_value td = dmul (of_int (td_quantity td)) (case td_price td of Some p \<Rightarrow> p | None \<Rightarrow> 0)"

definition td_portfolio_pct :: "trade_decision \<Rightarrow> portfolio_state \<Rightarrow> dec" where
  "td_portfolio_pct td ps =
     (if 0 < ps_total_value ps then dmul (dquo (td_value td) (ps_total_value ps)) 100 else 0)"

datatype auto_reason = Approval_Disabled | Exit_Order decision_action | Small_Sell dec

definition check_auto_approve :: "settings \<Rightarrow> trade_decision \<Rightarrow> dec \<Rightarrow> auto_reason option" where
  "check_auto_approve st td portfolio_pct =
     (if \<not> HUMAN_APPROVAL_REQUIRED st then Some Approval_Disabled
      else if td_action td \<in> {Act_STOP_LOSS, Act_TAKE_PROFIT} then Some (Exit_Order (td_action td))
      else if td_action td = Act_SELL \<and> td_price td \<noteq> None
           \<and> portfolio_pct \<le> AUTO_EXECUTE_MAX_PORTFOLIO_PCT st then Some (Small_Sell portfolio_pct)
      else None)"

section \<open>Rows and dictionaries of a request\<close>

definition find_approval :: "uuid \<Rightarrow> 'b world \<Rightarrow> approval_row option" where
  "find_approval rid w = find (\<lambda>r. ar_request_id r = rid) (w_approvals w)"

definition set_approval :: "uuid \<Rightarrow> (approval_row \<Rightarrow> approval_row) \<Rightarrow> 'b world \<Rightarrow> 'b world" where
  "set_approval rid f w =
     w\<lparr>w_approvals := map (\<lambda>r. if ar_request_id r = rid then f r else r) (w_approvals w)\<rparr>"

definition add_approval :: "uuid \<Rightarrow> int \<Rightarrow> string \<Rightarrow> request_status \<Rightarrow> int \<Rightarrow> int option \<Rightarrow> int \<Rightarrow> 'b world \<Rightarrow> 'b world" where
  "add_approval rid order_id acct status now responded expires w = w\<lparr>w_approvals := w_approvals w @
     [\<lparr>ar_request_id = rid, ar_order_id = order_id, ar_account_id = acct, ar_status = status,
       ar_telegram_message_id = None, ar_requested_at = now, ar_responded_at = responded,
       ar_modified_quantity = None, ar_expires_at = expires\<rparr>]\<rparr>"

definition set_order_approval :: "int \<Rightarrow> approval_status \<Rightarrow> int option \<Rightarrow> 'b world \<Rightarrow> 'b world" where
  "set_order_approval order_id s mq = set_order order_id (\<lambda>r. r\<lparr>od_approval_status := s,
     od_modified_quantity := (case mq of Some q \<Rightarrow> Some q | None \<Rightarrow> od_modified_quantity r)\<rparr>)"

text \<open>An answer written to both tables; the order is the one of the request's row.\<close>

definition answered :: "int \<Rightarrow> approval_status \<Rightarrow> int option \<Rightarrow> approval_row \<Rightarrow> approval_row" where
  "answered now s mq r = r\<lparr>ar_status := Req_Status s, ar_responded_at := Some now,
     ar_modified_quantity := (case mq of Some q \<Rightarrow> Some q | None \<Rightarrow> ar_modified_quantity r)\<rparr>"

definition write_answer :: "int \<Rightarrow> uuid \<Rightarrow> approval_status \<Rightarrow> int option \<Rightarrow> 'b world \<Rightarrow> 'b world" where
  "write_answer now rid s mq w =
     (let w1 = set_approval rid (answered now s mq) w
      in case find_approval rid w1 of None \<Rightarrow> w1 | Some r \<Rightarrow> set_order_approval (ar_order_id r) s mq w1)"

definition cache_status :: "string \<Rightarrow> uuid \<Rightarrow> request_status \<Rightarrow> int \<Rightarrow> 'b world \<Rightarrow> 'b world" where
  "cache_status acct rid s ttl w = w\<lparr>w_request_cache := dict_set (acct, rid) (s, ttl) (w_request_cache w)\<rparr>"

definition update_manager :: "(approval_manager \<Rightarrow> approval_manager) \<Rightarrow> 'b world \<Rightarrow> 'b world" where
  "update_manager f w = w\<lparr>w_manager := f (w_manager w)\<rparr>"

section \<open>The callback\<close>

definition callback_db :: "approval_env \<Rightarrow> uuid \<Rightarrow> approval_status \<Rightarrow> int option \<Rightarrow> ('b world, unit) meth" where
  "callback_db ap rid s mq = mcatch
     (mbind (mget (\<lambda>w. ap_clock ap (w_calls w))) (\<lambda>now. ext (ap_faults ap) (effect (write_answer now rid s mq))))
     (\<lambda>_. mret ())"

definition callback_cache :: "approval_env \<Rightarrow> uuid \<Rightarrow> approval_status \<Rightarrow> ('b world, unit) meth" where
  "callback_cache ap rid s = mcatch
     (mbind (mget (\<lambda>w. case dict_get (am_account_ids (w_manager w)) rid of Some a \<Rightarrow> a | None \<Rightarrow> ''default''))
        (\<lambda>acct. ext (ap_faults ap) (effect (cache_status acct rid (Req_Status s) 60))))
     (\<lambda>_. mret ())"

definition callback_message :: "approval_env \<Rightarrow> uuid \<Rightarrow> approval_status \<Rightarrow> int option \<Rightarrow> ('b world, unit) meth" where
  "callback_message ap rid s mq =
     mbind (mget (\<lambda>w. dict_get (am_message_ids (w_manager w)) rid)) (\<lambda>message_id. case message_id of
       None \<Rightarrow> mret ()
     | Some i \<Rightarrow> notify_safe (ap_faults ap) (Update_Message i (Req_Status s) mq))"

definition callback_signal :: "uuid \<Rightarrow> approval_status \<Rightarrow> int option \<Rightarrow> ('b world, unit) meth" where
  "callback_signal rid s mq w =
     (let w1 = update_manager (\<lambda>m. m\<lparr>am_results := dict_set rid s (am_results m),
            am_modified := (case mq of Some q \<Rightarrow> dict_set rid q (am_modified m) | None \<Rightarrow> am_modified m)\<rparr>) w
      in if dict_get (am_events (w_manager w)) rid = None then (Inl KeyError, w1)
         else (Inr (), update_manager (\<lambda>m. m\<lparr>am_events := dict_set rid True (am_events m)\<rparr>) w1))"

definition handle_callback :: "approval_env \<Rightarrow> string \<Rightarrow> uuid \<Rightarrow> ('b world, unit) meth" where
  "handle_callback ap action rid =
     mbind (mget (\<lambda>w. dict_get (am_events (w_manager w)) rid)) (\<lambda>pending.
       if pending = None then mret ()
       else case parse_action action of
         None \<Rightarrow> mret ()
       | Some a \<Rightarrow>
           mbind (callback_db ap rid (fst a) (snd a)) (\<lambda>_.
           mbind (callback_cache ap rid (fst a)) (\<lambda>_.
           mbind (callback_message ap rid (fst a) (snd a)) (\<lambda>_.
           callback_signal rid (fst a) (snd a)))))"

section \<open>The answer over the API\<close>

text \<open>
  The handler writes both tables and returns an HTTP status; it does not set the event. The
  validation of \<open>ApprovalResponse\<close> (422) comes first.
\<close>

definition respond_to_approval :: "approval_env \<Rightarrow> string \<Rightarrow> int option \<Rightarrow> uuid \<Rightarrow> ('b world, nat) meth" where
  "respond_to_approval ap action mq rid =
     (if action \<notin> {''approve'', ''reject'', ''modify''} \<or> (\<exists>q \<in> set_option mq. q \<le> 0) then mret 422
      else mcatch (ext (ap_faults ap) (\<lambda>w.
        case find_approval rid w of
          None \<Rightarrow> (Inr 404, w)
        | Some r \<Rightarrow>
            if ar_status r \<noteq> Req_Pending then (Inr 400, w)
            else if action = ''modify'' \<and> mq = None then (Inr 400, w)
            else (Inr 200, write_answer (ap_clock ap (w_calls w)) rid
                    (if action = ''reject'' then App_REJECTED else App_APPROVED) mq w)))
        (\<lambda>_. mret 500))"

section \<open>Waiting\<close>

definition process_event :: "approval_env \<Rightarrow> user_event \<Rightarrow> ('b world, unit) meth" where
  "process_event ap e = mcatch (case e of
       Callback action rid \<Rightarrow> handle_callback ap action rid
     | Api_Response action mq rid \<Rightarrow> mbind (respond_to_approval ap action mq rid) (\<lambda>_. mret ()))
     (\<lambda>_. mret ())"

definition is_signalled :: "uuid \<Rightarrow> 'b world \<Rightarrow> bool" where
  "is_signalled rid w = (dict_get (am_events (w_manager w)) rid = Some True)"

definition result_of :: "uuid \<Rightarrow> 'b world \<Rightarrow> approval_status" where
  "result_of rid w = (case dict_get (am_results (w_manager w)) rid of Some s \<Rightarrow> s | None \<Rightarrow> App_TIMEOUT)"

primrec wait_for_response :: "approval_env \<Rightarrow> uuid \<Rightarrow> user_event list \<Rightarrow> ('b world, approval_status) meth" where
  "wait_for_response ap rid [] = mret App_TIMEOUT"
| "wait_for_response ap rid (e # es) = mbind (process_event ap e) (\<lambda>_.
     mbind (mget (is_signalled rid)) (\<lambda>signalled.
       if signalled then mget (result_of rid) else wait_for_response ap rid es))"

section \<open>The request\<close>

definition handle_auto_approve :: "approval_env \<Rightarrow> approval_args \<Rightarrow> uuid \<Rightarrow> int \<Rightarrow> ('b world, approval_status) meth" where
  "handle_auto_approve ap a rid now =
     mbind (ext (ap_faults ap) (effect (\<lambda>w. set_order_approval (aa_order_id a) AUTO_APPROVED None
        (add_approval rid (aa_order_id a) (aa_account_id a) (Req_Status AUTO_APPROVED) now (Some now) now w)))) (\<lambda>_.
     mbind (record_decision (ap_faults ap) (aa_session_id a) Stage_APPROVAL (decision_action_value Act_APPROVE)
        (td_symbol (aa_decision a)) None (aa_account_id a)) (\<lambda>_.
     mbind (send_message (ap_faults ap) (Auto_Message (td_symbol (aa_decision a))
        (action_side (td_action (aa_decision a))) (td_quantity (aa_decision a)))) (\<lambda>_.
     mret AUTO_APPROVED)))"

definition handle_timeout :: "approval_env \<Rightarrow> approval_args \<Rightarrow> uuid \<Rightarrow> ('b world, unit) meth" where
  "handle_timeout ap a rid =
     mbind (mget (\<lambda>w. ap_clock ap (w_calls w))) (\<lambda>now.
     mbind (ext (ap_faults ap) (effect (\<lambda>w. set_order_approval (aa_order_id a) App_TIMEOUT None
        (set_approval rid (\<lambda>r. r\<lparr>ar_status := Req_Status App_TIMEOUT, ar_responded_at := Some now\<rparr>) w)))) (\<lambda>_.
     mbind (ext (ap_faults ap) (effect (cache_status (aa_account_id a) rid (Req_Status App_TIMEOUT) 60))) (\<lambda>_.
     mbind (mget (\<lambda>w. dict_get (am_message_ids (w_manager w)) rid)) (\<lambda>message_id.
     mbind (case message_id of None \<Rightarrow> mret ()
          | Some i \<Rightarrow> send_message (ap_faults ap) (Update_Message i (Req_Status App_TIMEOUT) None)) (\<lambda>_.
     mbind (send_message (ap_faults ap) (Rejection_Message (td_symbol (aa_decision a))
        (action_side (td_action (aa_decision a))) (Approval_Denied App_TIMEOUT))) (\<lambda>_.
     mbind (record_decision (ap_faults ap) (aa_session_id a) Stage_APPROVAL (decision_action_value Act_REJECT)
        (td_symbol (aa_decision a)) None (aa_account_id a)) (\<lambda>_.
     mret ())))))))"

definition register_request :: "uuid \<Rightarrow> int option \<Rightarrow> string \<Rightarrow> approval_manager \<Rightarrow> approval_manager" where
  "register_request rid message_id acct m = m\<lparr>am_events := dict_set rid False (am_events m),
     am_message_ids := (case message_id of Some i \<Rightarrow> dict_set rid i (am_message_ids m) | None \<Rightarrow> am_message_ids m),
     am_account_ids := dict_set rid acct (am_account_ids m)\<rparr>"

definition forget_request :: "uuid \<Rightarrow> approval_manager \<Rightarrow> approval_manager" where
  "forget_request rid m = m\<lparr>am_events := dict_del rid (am_events m), am_results := dict_del rid (am_results m),
     am_message_ids := dict_del rid (am_message_ids m), am_account_ids := dict_del rid (am_account_ids m)\<rparr>"

definition handle_manual_approve :: "approval_env \<Rightarrow> approval_args \<Rightarrow> uuid \<Rightarrow> int \<Rightarrow> ('b world, approval_status) meth" where
  "handle_manual_approve ap a rid now =
     (let timeout = HUMAN_APPROVAL_TIMEOUT_SEC (ap_settings ap) in
     mbind (ext (ap_faults ap) (effect (add_approval rid (aa_order_id a) (aa_account_id a) Req_Pending now None (now + timeout)))) (\<lambda>_.
     mbind (ext (ap_faults ap) (effect (cache_status (aa_account_id a) rid Req_Pending (timeout + 60)))) (\<lambda>_.
     mbind (send_message (ap_faults ap) (Request_Message rid (td_symbol (aa_decision a))
        (action_side (td_action (aa_decision a))) (td_quantity (aa_decision a)) (td_value (aa_decision a)))) (\<lambda>_.
     mbind (case ap_message_id ap rid of None \<Rightarrow> mret ()
          | Some i \<Rightarrow> ext (ap_faults ap) (effect (set_approval rid (\<lambda>r. r\<lparr>ar_telegram_message_id := Some i\<rparr>)))) (\<lambda>_.
     mbind (effect (update_manager (register_request rid (ap_message_id ap rid) (aa_account_id a)))) (\<lambda>_.
     mbind (wait_for_response ap rid (ap_events ap rid)) (\<lambda>status.
     mbind (if status = App_TIMEOUT then handle_timeout ap a rid else mret ()) (\<lambda>_.
     mbind (effect (update_manager (forget_request rid))) (\<lambda>_.
     mret status)))))))))"

definition fresh_uuid :: "('b world, uuid) meth" where
  "fresh_uuid w = (Inr (w_next_uuid w), w\<lparr>w_next_uuid := w_next_uuid w + 1\<rparr>)"

definition request_approval :: "approval_env \<Rightarrow> approval_args \<Rightarrow> ('b world, approval_status) meth" where
  "request_approval ap a =
     mbind fresh_uuid (\<lambda>rid.
     mbind (mget (\<lambda>w. ap_clock ap (w_calls w))) (\<lambda>now.
       case check_auto_approve (ap_settings ap) (aa_decision a) (td_portfolio_pct (aa_decision a) (aa_state a)) of
         Some _ \<Rightarrow> handle_auto_approve ap a rid now
       | None \<Rightarrow> handle_manual_approve ap a rid now))"

definition get_modified_quantity :: "uuid \<Rightarrow> 'b world \<Rightarrow> int option" where
  "get_modified_quantity rid w = dict_get (am_modified (w_manager w)) rid"

section \<open>Cleanup at startup\<close>

definition expired :: "int \<Rightarrow> approval_row \<Rightarrow> bool" where
  "expired now r \<longleftrightarrow> ar_status r = Req_Pending \<and> ar_expires_at r < now"

definition initialize :: "approval_env \<Rightarrow> ('b world, unit) meth" where
  "initialize ap =
     mbind (mget (\<lambda>w. ap_clock ap (w_calls w))) (\<lambda>now. ext (ap_faults ap) (effect (\<lambda>w.
       let ids = map ar_order_id (filter (expired now) (w_approvals w)) in
       w\<lparr>w_approvals := map (\<lambda>r. if expired now r
            then r\<lparr>ar_status := Req_Status App_TIMEOUT, ar_responded_at := Some now\<rparr> else r) (w_approvals w),
         w_orders := map (\<lambda>r. if od_id r \<in> set ids then r\<lparr>od_approval_status := App_TIMEOUT\<rparr> else r) (w_orders w)\<rparr>)))"

end
