(* ===== verification/Approval_Properties.thy ===== *)
theory Approval_Properties
  imports Approval
begin

text \<open>
  What \<open>request_approval\<close> promises in the sequential form of \<open>Approval\<close>, each callback handled to its end before
  the next (\<open>Approval_Race\<close> drops this): it returns whatever its users do, with the status of the
  first callback for it that can be read, and the tables agree with it. Answers over the API
  never decide. The reference definition is \<open>answer\<close>.
\<close>

fun answer :: "uuid \<Rightarrow> user_event list \<Rightarrow> (approval_status \<times> int option) option" where
  "answer rid [] = None"
| "answer rid (Callback action r # es) =
     (if r = rid then (case parse_action action of Some a \<Rightarrow> Some a | None \<Rightarrow> answer rid es) else answer rid es)"
| "answer rid (Api_Response action mq r # es) = answer rid es"

definition answer_status :: "uuid \<Rightarrow> user_event list \<Rightarrow> approval_status" where
  "answer_status rid es = (case answer rid es of Some a \<Rightarrow> fst a | None \<Rightarrow> App_TIMEOUT)"

lemma answer_Some: "answer rid es = Some a \<Longrightarrow> \<exists>action. Callback action rid \<in> set es \<and> parse_action action = Some a"
  by (induction rid es rule: answer.induct) (auto split: if_splits option.splits)

lemma parse_action_status: "parse_action action = Some a \<Longrightarrow> fst a \<in> {App_APPROVED, App_REJECTED}"
  by (auto simp: parse_action_def split: if_splits option.splits)

section \<open>What the parts leave alone\<close>

lemmas approval_defs = callback_db_def callback_cache_def callback_message_def callback_signal_def
  handle_callback_def respond_to_approval_def process_event_def handle_auto_approve_def handle_timeout_def
  handle_manual_approve_def fresh_uuid_def

lemmas approval_effects = write_answer_def set_order_approval_def set_order_def set_approval_def cache_status_def
  update_manager_def add_approval_def

lemma stays_signal [stays_intros]:
  "stays w_broker (callback_signal rid s mq)" "stays w_positions (callback_signal rid s mq)"
  "stays w_executions (callback_signal rid s mq)" "stays w_approvals (callback_signal rid s mq)"
  "stays w_orders (callback_signal rid s mq)"
  by (simp_all add: stays_def callback_signal_def Let_def update_manager_def)

lemma stays_respond [stays_intros]:
  "stays w_broker (respond_to_approval ap action mq rid)" "stays w_positions (respond_to_approval ap action mq rid)"
  "stays w_executions (respond_to_approval ap action mq rid)" "stays w_manager (respond_to_approval ap action mq rid)"
  unfolding respond_to_approval_def
  by (intro stays_intros; simp add: stays_def approval_effects Let_def split: option.split)+

lemma stays_callback_parts [stays_intros]:
  "stays w_broker (callback_db ap rid s mq)" "stays w_positions (callback_db ap rid s mq)"
  "stays w_executions (callback_db ap rid s mq)" "stays w_manager (callback_db ap rid s mq)"
  "stays w_broker (callback_cache ap rid s)" "stays w_positions (callback_cache ap rid s)"
  "stays w_executions (callback_cache ap rid s)" "stays w_manager (callback_cache ap rid s)"
  "stays w_approvals (callback_cache ap rid s)" "stays w_orders (callback_cache ap rid s)"
  "stays w_broker (callback_message ap rid s mq)" "stays w_positions (callback_message ap rid s mq)"
  "stays w_executions (callback_message ap rid s mq)" "stays w_manager (callback_message ap rid s mq)"
  "stays w_approvals (callback_message ap rid s mq)" "stays w_orders (callback_message ap rid s mq)"
  unfolding callback_db_def callback_cache_def callback_message_def notify_safe_def send_message_def
  by (intro stays_intros; simp add: approval_effects Let_def split: option.split)+

lemma stays_handlers [stays_intros]:
  "stays w_broker (process_event ap e)" "stays w_positions (process_event ap e)" "stays w_executions (process_event ap e)"
  "stays w_broker (handle_timeout ap a rid)" "stays w_positions (handle_timeout ap a rid)" "stays w_executions (handle_timeout ap a rid)"
  unfolding process_event_def handle_callback_def handle_timeout_def
  by (cases e; simp; intro stays_intros; simp add: approval_effects)+

lemma stays_wait [stays_intros]:
  "stays w_broker (wait_for_response ap rid es)" "stays w_positions (wait_for_response ap rid es)"
  "stays w_executions (wait_for_response ap rid es)"
  by (induction es) (simp_all, (intro stays_intros; assumption)+)

lemma request_approval_stays [stays_intros]:
  "stays w_broker (request_approval ap a)" "stays w_positions (request_approval ap a)" "stays w_executions (request_approval ap a)"
  unfolding request_approval_def handle_auto_approve_def handle_manual_approve_def Let_def
  by (intro stays_intros; simp add: stays_def fresh_uuid_def approval_effects)+

section \<open>Waiting decides as the reference does\<close>

lemma catch_unit: "\<exists>w'. mcatch m (\<lambda>_. mret ()) w = (Inr (), w')"
  by (cases "m w" rule: prod.exhaust; cases "fst (m w)") (simp_all add: mcatch_def mret_def)

lemma catch_unit_eq: "m = mcatch n (\<lambda>_. mret ()) \<Longrightarrow> \<exists>w'. m w = (Inr (), w')"
  by (simp add: catch_unit)

lemma callback_parts_return:
  "\<exists>w'. callback_db ap rid s mq w = (Inr (), w') \<and> w_manager w' = w_manager w"
  "\<exists>w'. callback_cache ap rid s w = (Inr (), w') \<and> w_manager w' = w_manager w \<and> w_approvals w' = w_approvals w \<and> w_orders w' = w_orders w"
  "\<exists>w'. callback_message ap rid s mq w = (Inr (), w') \<and> w_manager w' = w_manager w \<and> w_approvals w' = w_approvals w \<and> w_orders w' = w_orders w"
proof -
  obtain w1 where 1: "callback_db ap rid s mq w = (Inr (), w1)" using catch_unit_eq [OF callback_db_def, of ap rid s mq w] by blast
  then show "\<exists>w'. callback_db ap rid s mq w = (Inr (), w') \<and> w_manager w' = w_manager w"
    using staysD [OF stays_callback_parts(4) 1] by simp
  obtain w2 where 2: "callback_cache ap rid s w = (Inr (), w2)" using catch_unit_eq [OF callback_cache_def, of ap rid s w] by blast
  then show "\<exists>w'. callback_cache ap rid s w = (Inr (), w') \<and> w_manager w' = w_manager w \<and> w_approvals w' = w_approvals w \<and> w_orders w' = w_orders w"
    using staysD [OF stays_callback_parts(8) 2] staysD [OF stays_callback_parts(9) 2] staysD [OF stays_callback_parts(10) 2] by simp
  have "\<exists>w3. callback_message ap rid s mq w = (Inr (), w3)"
    by (cases "dict_get (am_message_ids (w_manager w)) rid")
      (simp_all add: callback_message_def notify_safe_def mbind_def mget_def mret_def catch_unit)
  then obtain w3 where 3: "callback_message ap rid s mq w = (Inr (), w3)" ..
  then show "\<exists>w'. callback_message ap rid s mq w = (Inr (), w') \<and> w_manager w' = w_manager w \<and> w_approvals w' = w_approvals w \<and> w_orders w' = w_orders w"
    using staysD [OF stays_callback_parts(14) 3] staysD [OF stays_callback_parts(15) 3] staysD [OF stays_callback_parts(16) 3] by simp
qed

text \<open>What a callback does to the manager: nothing, or the answer and the event of its request.\<close>

lemma handle_callback_cases:
  obtains (ignored) "dict_get (am_events (w_manager w)) rid = None \<or> parse_action action = None"
      "handle_callback ap action rid w = (Inr (), w)"
  | (decided) a w1 w2 where "parse_action action = Some a" "dict_get (am_events (w_manager w)) rid \<noteq> None"
      "callback_db ap rid (fst a) (snd a) w = (Inr (), w1)" "w_manager w2 = w_manager w"
      "w_approvals w2 = w_approvals w1" "w_orders w2 = w_orders w1"
      "handle_callback ap action rid w = callback_signal rid (fst a) (snd a) w2"
proof (cases "dict_get (am_events (w_manager w)) rid = None \<or> parse_action action = None")
  case True
  then show ?thesis using ignored by (auto simp: handle_callback_def meth_defs)
next
  case False
  then obtain a where a: "parse_action action = Some a" by blast
  obtain w1 where 1: "callback_db ap rid (fst a) (snd a) w = (Inr (), w1)" "w_manager w1 = w_manager w"
    using callback_parts_return(1) by blast
  obtain w2 where 2: "callback_cache ap rid (fst a) w1 = (Inr (), w2)" "w_manager w2 = w_manager w1"
    "w_approvals w2 = w_approvals w1" "w_orders w2 = w_orders w1"
    using callback_parts_return(2) by blast
  obtain w3 where 3: "callback_message ap rid (fst a) (snd a) w2 = (Inr (), w3)" "w_manager w3 = w_manager w2"
    "w_approvals w3 = w_approvals w2" "w_orders w3 = w_orders w2"
    using callback_parts_return(3) by blast
  have "handle_callback ap action rid w = callback_signal rid (fst a) (snd a) w3"
    using False a by (auto simp: handle_callback_def mbind_def mget_def 1(1) 2(1) 3(1))
  then show ?thesis using decided [OF a _ 1(1), of w3] False 1 2 3 by simp
qed

definition waiting :: "uuid \<Rightarrow> 'b world \<Rightarrow> bool" where
  "waiting rid w \<longleftrightarrow> dict_get (am_events (w_manager w)) rid = Some False"

lemma process_event_outcome:
  assumes "waiting rid w"
  obtains w' where "process_event ap e w = (Inr (), w')"
    "case answer rid [e] of Some a \<Rightarrow> is_signalled rid w' \<and> result_of rid w' = fst a | None \<Rightarrow> waiting rid w'"
proof (cases e)
  case (Callback action r)
  show ?thesis
  proof (cases rule: handle_callback_cases [of w r action ap])
    case ignored
    then have "process_event ap e w = (Inr (), w)" by (simp add: process_event_def Callback mcatch_def)
    moreover have "answer rid [e] = None" using ignored assms by (auto simp: Callback waiting_def)
    ultimately show ?thesis using that assms by simp
  next
    case (decided a w1 w2)
    define w3 where "w3 = snd (callback_signal r (fst a) (snd a) w2)"
    have s: "callback_signal r (fst a) (snd a) w2 = (Inr (), w3)"
      using decided by (simp add: w3_def callback_signal_def Let_def)
    then have "process_event ap e w = (Inr (), w3)" using decided by (simp add: process_event_def Callback mcatch_def)
    moreover have "dict_get (am_events (w_manager w3)) rid = (if r = rid then Some True else Some False)"
      "r = rid \<Longrightarrow> dict_get (am_results (w_manager w3)) rid = Some (fst a)"
      using assms decided by (auto simp: w3_def callback_signal_def Let_def update_manager_def waiting_def dict_simps)
    ultimately show ?thesis using that decided
      by (auto simp: Callback is_signalled_def result_of_def waiting_def)
  qed
next
  case (Api_Response action mq r)
  obtain w1 where w1: "process_event ap e w = (Inr (), w1)" using catch_unit_eq [OF process_event_def, of ap e w] by blast
  have "stays w_manager (process_event ap e)"
    unfolding process_event_def Api_Response by simp (intro stays_intros)
  then have m: "w_manager w1 = w_manager w" using w1 by (rule staysD)
  then show ?thesis using that w1 assms by (simp add: Api_Response waiting_def)
qed

lemma wait_answer:
  assumes "waiting rid w" shows "\<exists>w'. wait_for_response ap rid es w = (Inr (answer_status rid es), w')"
  using assms
proof (induction es arbitrary: w)
  case Nil
  show ?case by (simp add: mret_def answer_status_def)
next
  case (Cons e es)
  obtain w' where p: "process_event ap e w = (Inr (), w')"
    "case answer rid [e] of Some a \<Rightarrow> is_signalled rid w' \<and> result_of rid w' = fst a | None \<Rightarrow> waiting rid w'"
    using process_event_outcome [OF Cons.prems] .
  show ?case
  proof (cases "answer rid [e]")
    case None
    with p have w': "waiting rid w'" by simp
    then have "\<not> is_signalled rid w'" by (simp add: waiting_def is_signalled_def)
    moreover have "answer_status rid (e # es) = answer_status rid es"
      using None by (cases e) (auto simp: answer_status_def split: if_splits option.splits)
    ultimately show ?thesis using Cons.IH [OF w'] p by (simp add: mbind_def mget_def)
  next
    case (Some a)
    then have "answer_status rid (e # es) = fst a"
      by (cases e) (auto simp: answer_status_def split: if_splits option.splits)
    with Some p show ?thesis by (simp add: mbind_def mget_def)
  qed
qed

section \<open>The request\<close>

text \<open>When the approval status may be a yes: an automatic rule holds, or a callback for the request says so.\<close>

definition consented :: "approval_env \<Rightarrow> approval_args \<Rightarrow> uuid \<Rightarrow> bool" where
  "consented ap a rid \<longleftrightarrow>
     check_auto_approve (ap_settings ap) (aa_decision a) (td_portfolio_pct (aa_decision a) (aa_state a)) \<noteq> None
   \<or> (\<exists>action q. Callback action rid \<in> set (ap_events ap rid) \<and> parse_action action = Some (App_APPROVED, q))"

lemma manual_waits:
  fixes w :: "'b world"
  assumes "handle_manual_approve ap a rid now w = (Inr s, w')" shows "s = answer_status rid (ap_events ap rid)"
proof -
  obtain w1 w2 :: "'b world" where w1: "wait_for_response ap rid (ap_events ap rid)
      (update_manager (register_request rid (ap_message_id ap rid) (aa_account_id a)) w1) = (Inr s, w2)"
    using assms by (clarsimp simp: handle_manual_approve_def Let_def effect_def res_simps)
  have "waiting rid (update_manager (register_request rid (ap_message_id ap rid) (aa_account_id a)) w1)"
    by (simp add: waiting_def update_manager_def register_request_def dict_simps)
  with w1 wait_answer [of rid "update_manager (register_request rid (ap_message_id ap rid) (aa_account_id a)) w1"
     ap "ap_events ap rid"] show ?thesis by simp
qed

lemma request_approval_consent:
  fixes w :: "'b world"
  assumes "request_approval ap a w = (Inr s, w')" "s \<in> {AUTO_APPROVED, App_APPROVED}"
  shows "consented ap a (w_next_uuid w)"
proof (cases "check_auto_approve (ap_settings ap) (aa_decision a) (td_portfolio_pct (aa_decision a) (aa_state a))")
  case None
  then obtain now and w1 :: "'b world" where "handle_manual_approve ap a (w_next_uuid w) now w1 = (Inr s, w')"
    using assms(1) by (auto simp: request_approval_def mbind_def fresh_uuid_def mget_def)
  then have s: "s = answer_status (w_next_uuid w) (ap_events ap (w_next_uuid w))" by (rule manual_waits)
  then obtain b where b: "answer (w_next_uuid w) (ap_events ap (w_next_uuid w)) = Some b" "fst b = s"
    using assms(2) by (auto simp: answer_status_def split: option.splits)
  with answer_Some [OF b(1)] obtain action where "Callback action (w_next_uuid w) \<in> set (ap_events ap (w_next_uuid w))"
    and act: "parse_action action = Some b" by blast
  moreover have "fst b = App_APPROVED" using parse_action_status [OF act] b(2) assms(2) by auto
  ultimately show ?thesis unfolding consented_def by (metis prod.collapse)
qed (simp add: consented_def)

section \<open>The tables agree with the answer\<close>

definition request_row :: "uuid \<Rightarrow> int \<Rightarrow> 'b world \<Rightarrow> bool" where
  "request_row rid i w \<longleftrightarrow> (\<exists>r. find_approval rid w = Some r \<and> ar_order_id r = i)"

definition settled :: "uuid \<Rightarrow> int \<Rightarrow> approval_status \<Rightarrow> 'b world \<Rightarrow> bool" where
  "settled rid i s w \<longleftrightarrow>
     (\<exists>r. find_approval rid w = Some r \<and> ar_order_id r = i \<and> ar_status r = Req_Status s)
   \<and> (\<forall>o' \<in> set (w_orders w). od_id o' = i \<longrightarrow> od_approval_status o' = s)"

lemma find_approval_set:
  assumes "\<And>x. ar_request_id (f x) = ar_request_id x"
  shows "find_approval rid (set_approval r f w) = map_option (if rid = r then f else id) (find_approval rid w)"
proof -
  have "find (\<lambda>x. ar_request_id x = rid) (map (\<lambda>x. if ar_request_id x = r then f x else x) xs)
      = map_option (if rid = r then f else id) (find (\<lambda>x. ar_request_id x = rid) xs)" for xs
    by (induction xs) (auto simp: assms)
  then show ?thesis by (simp add: find_approval_def set_approval_def)
qed

lemma set_order_approval_simps [simp]:
  "find_approval rid (set_order_approval i s mq w) = find_approval rid w"
  "find_approval rid (add_approval rid' i acct st now resp ex w) =
     (case find_approval rid w of Some r \<Rightarrow> Some r | None \<Rightarrow> if rid' = rid then
        Some \<lparr>ar_request_id = rid', ar_order_id = i, ar_account_id = acct, ar_status = st, ar_telegram_message_id = None,
          ar_requested_at = now, ar_responded_at = resp, ar_modified_quantity = None, ar_expires_at = ex\<rparr> else None)"
proof -
  have "find P (xs @ ys) = (case find P xs of Some x \<Rightarrow> Some x | None \<Rightarrow> find P ys)" for P and xs ys :: "approval_row list"
    by (induction xs) auto
  then show "find_approval rid (add_approval rid' i acct st now resp ex w) =
     (case find_approval rid w of Some r \<Rightarrow> Some r | None \<Rightarrow> if rid' = rid then
        Some \<lparr>ar_request_id = rid', ar_order_id = i, ar_account_id = acct, ar_status = st, ar_telegram_message_id = None,
          ar_requested_at = now, ar_responded_at = resp, ar_modified_quantity = None, ar_expires_at = ex\<rparr> else None)"
    by (simp add: find_approval_def add_approval_def split: option.split)
qed (simp_all add: find_approval_def set_order_approval_def set_order_def)

lemma set_order_approval_orders:
  assumes "o' \<in> set (w_orders (set_order_approval i s mq w))" "od_id o' = i" shows "od_approval_status o' = s"
proof -
  have "(\<exists>r. o' = r\<lparr>od_approval_status := s, od_modified_quantity :=
      (case mq of Some q \<Rightarrow> Some q | None \<Rightarrow> od_modified_quantity r)\<rparr>) \<or> od_id o' \<noteq> i"
    using assms(1) by (simp add: set_order_approval_def set_order_def image_iff) blast
  with assms(2) show ?thesis by (elim disjE exE) simp_all
qed

lemma answered_simps [simp]:
  "ar_request_id (answered now s mq r) = ar_request_id r" "ar_order_id (answered now s mq r) = ar_order_id r"
  "ar_status (answered now s mq r) = Req_Status s"
  by (simp_all add: answered_def)

lemma write_answer_find:
  "find_approval rid (write_answer now r s mq w) = map_option (if rid = r then answered now s mq else id) (find_approval rid w)"
  by (simp add: write_answer_def Let_def find_approval_set split: option.split)

lemma write_answer_row: "request_row rid i w \<Longrightarrow> request_row rid i (write_answer now r s mq w)"
  by (auto simp: request_row_def write_answer_find)

lemma write_answer_settles:
  assumes "request_row rid i w" shows "settled rid i s (write_answer now rid s mq w)"
proof -
  from assms obtain r where r: "find_approval rid w = Some r" "ar_order_id r = i" by (auto simp: request_row_def)
  then have "write_answer now rid s mq w = set_order_approval i s mq (set_approval rid (answered now s mq) w)"
    by (simp add: write_answer_def Let_def find_approval_set)
  then have "od_approval_status o' = s" if "o' \<in> set (w_orders (write_answer now rid s mq w))" "od_id o' = i" for o'
    using set_order_approval_orders that by metis
  with r show ?thesis by (simp add: settled_def write_answer_find)
qed

lemma settled_cong: "w_approvals w = w_approvals v \<Longrightarrow> w_orders w = w_orders v \<Longrightarrow> settled rid i s w = settled rid i s v"
  and request_row_cong: "w_approvals w = w_approvals v \<Longrightarrow> request_row rid i w = request_row rid i v"
  by (simp_all add: settled_def request_row_def find_approval_def)

lemma callback_db_no_faults:
  "ap_faults ap = no_faults \<Longrightarrow> \<exists>now n. callback_db ap rid s mq w = (Inr (), write_answer now rid s mq (w\<lparr>w_calls := n\<rparr>))"
  by (auto simp: callback_db_def meth_defs effect_def)

lemma respond_outcome:
  assumes "ap_faults ap = no_faults"
  shows "\<exists>code v n. respond_to_approval ap action mq r w = (Inr code, v)
    \<and> (v = w\<lparr>w_calls := n\<rparr> \<or> (\<exists>now s. v = write_answer now r s mq (w\<lparr>w_calls := n\<rparr>)))"
proof (cases "action \<notin> {''approve'', ''reject'', ''modify''} \<or> (\<exists>q \<in> set_option mq. q \<le> 0)")
  case True
  then have "respond_to_approval ap action mq r w = (Inr 422, w\<lparr>w_calls := w_calls w\<rparr>)"
    by (simp add: respond_to_approval_def mret_def)
  then show ?thesis by blast
next
  case False
  then have d: "respond_to_approval ap action mq r = mcatch (ext (ap_faults ap) (\<lambda>w.
        case find_approval r w of
          None \<Rightarrow> (Inr 404, w)
        | Some r' \<Rightarrow>
            if ar_status r' \<noteq> Req_Pending then (Inr 400, w)
            else if action = ''modify'' \<and> mq = None then (Inr 400, w)
            else (Inr 200, write_answer (ap_clock ap (w_calls w)) r
                    (if action = ''reject'' then App_REJECTED else App_APPROVED) mq w)))
        (\<lambda>_. mret 500)"
    unfolding respond_to_approval_def by (rule if_not_P)
  show ?thesis unfolding d assms mcatch_def ext_no_faults
    by (cases "find_approval r (w\<lparr>w_calls := w_calls w + 1\<rparr>)") (simp_all, blast+)
qed

lemma process_event_rows:
  fixes w :: "'b world"
  assumes nf: "ap_faults ap = no_faults" and r: "request_row rid i w" and p: "process_event ap e w = (x, w')"
    and pend: "waiting rid w"
  shows "request_row rid i w' \<and> (\<forall>a. answer rid [e] = Some a \<longrightarrow> settled rid i (fst a) w'
     \<and> get_modified_quantity rid w' = (case snd a of Some q \<Rightarrow> Some q | None \<Rightarrow> get_modified_quantity rid w))
   \<and> (answer rid [e] = None \<longrightarrow> get_modified_quantity rid w' = get_modified_quantity rid w)"
proof (cases e)
  case (Callback action r')
  show ?thesis
  proof (cases rule: handle_callback_cases [of w r' action ap])
    case ignored
    then have "w' = w" using p by (simp add: process_event_def Callback mcatch_def)
    with r ignored pend show ?thesis by (auto simp: Callback waiting_def)
  next
    case (decided a w1 w2)
    obtain now n where w1: "w1 = write_answer now r' (fst a) (snd a) (w\<lparr>w_calls := n\<rparr>)"
      using callback_db_no_faults [OF nf, of r' "fst a" "snd a" w] decided by auto
    have w': "w' = snd (callback_signal r' (fst a) (snd a) w2)"
      using p decided by (auto simp: process_event_def Callback mcatch_def mret_def split: prod.splits sum.splits)
    have rows: "w_approvals w' = w_approvals w1" "w_orders w' = w_orders w1"
      using decided by (simp_all add: w' callback_signal_def Let_def update_manager_def)
    have r1: "request_row rid i (w\<lparr>w_calls := n\<rparr>)" using r by (simp add: request_row_def find_approval_def)
    have "get_modified_quantity rid w' = (if r' = rid then (case snd a of Some q \<Rightarrow> Some q | None \<Rightarrow> get_modified_quantity rid w)
        else get_modified_quantity rid w)"
      using decided by (auto simp: get_modified_quantity_def w' callback_signal_def Let_def update_manager_def dict_simps split: option.split)
    moreover have "request_row rid i w'"
      using write_answer_row [OF r1, of now r' "fst a" "snd a"] request_row_cong [OF rows(1)] w1 by simp
    moreover have "settled rid i (fst a) w'" if "r' = rid"
      using write_answer_settles [OF r1, of "fst a" now "snd a"] settled_cong [OF rows] w1 that by simp
    ultimately show ?thesis using decided by (auto simp: Callback)
  qed
next
  case (Api_Response action mq r')
  have "stays w_manager (process_event ap e)"
    unfolding process_event_def Api_Response by simp (intro stays_intros)
  then have m: "w_manager w' = w_manager w" using p by (rule staysD)
  have row: "request_row rid i (w\<lparr>w_calls := n\<rparr>)" for n using r by (simp add: request_row_def find_approval_def)
  have "request_row rid i w'"
  proof -
    obtain code v n where "respond_to_approval ap action mq r' w = (Inr code, v)"
      and v: "v = w\<lparr>w_calls := n\<rparr> \<or> (\<exists>now s. v = write_answer now r' s mq (w\<lparr>w_calls := n\<rparr>))"
      using respond_outcome [OF nf] by blast
    then have "w' = v" using p by (simp add: process_event_def Api_Response meth_defs)
    with v show ?thesis using row write_answer_row [OF row] by blast
  qed
  with m show ?thesis by (simp add: Api_Response get_modified_quantity_def)
qed

definition answer_quantity :: "uuid \<Rightarrow> user_event list \<Rightarrow> int option" where
  "answer_quantity rid es = (case answer rid es of Some a \<Rightarrow> snd a | None \<Rightarrow> None)"

lemma answer_status_final: "answer_status rid es \<in> {App_APPROVED, App_REJECTED, App_TIMEOUT}"
  using answer_Some parse_action_status by (auto simp: answer_status_def split: option.split) blast

lemma answer_Cons: "answer rid (e # es) = (case answer rid [e] of Some a \<Rightarrow> Some a | None \<Rightarrow> answer rid es)"
  by (cases e) (auto split: option.split)

lemma answer_status_TIMEOUT: "answer_status rid es = App_TIMEOUT \<longleftrightarrow> answer rid es = None"
proof (cases "answer rid es")
  case (Some b)
  with answer_Some [OF Some] parse_action_status [of _ b] have "fst b \<in> {App_APPROVED, App_REJECTED}" by blast
  with Some show ?thesis by (auto simp: answer_status_def)
qed (simp add: answer_status_def)

lemma wait_rows:
  fixes w :: "'b world"
  assumes "ap_faults ap = no_faults" "request_row rid i w" "waiting rid w" "get_modified_quantity rid w = None"
    and "wait_for_response ap rid es w = (x, w')"
  shows "x = Inr (answer_status rid es) \<and> request_row rid i w'
    \<and> (answer rid es \<noteq> None \<longrightarrow> settled rid i (answer_status rid es) w')
    \<and> get_modified_quantity rid w' = answer_quantity rid es"
  using assms(2-)
proof (induction es arbitrary: w)
  case Nil
  then show ?case by (simp add: mret_def answer_status_def answer_quantity_def)
next
  case (Cons e es)
  obtain w1 where p: "process_event ap e w = (Inr (), w1)"
    "case answer rid [e] of Some a \<Rightarrow> is_signalled rid w1 \<and> result_of rid w1 = fst a | None \<Rightarrow> waiting rid w1"
    using process_event_outcome [OF Cons.prems(2)] .
  note rows = process_event_rows [OF assms(1) Cons.prems(1) p(1) Cons.prems(2)]
  show ?case
  proof (cases "answer rid [e]")
    case None
    with p have w1: "waiting rid w1" by simp
    then have "\<not> is_signalled rid w1" by (simp add: waiting_def is_signalled_def)
    then have "wait_for_response ap rid es w1 = (x, w')" using Cons.prems(4) p by (simp add: mbind_def mget_def)
    with Cons.IH [of w1] w1 rows None Cons.prems(3) answer_Cons [of rid e es]
    show ?thesis by (simp add: answer_status_def answer_quantity_def)
  next
    case (Some a)
    with p have "(x, w') = (Inr (fst a), w1)" using Cons.prems(4) by (simp add: mbind_def mget_def)
    with rows Some Cons.prems(3) answer_Cons [of rid e es]
    show ?thesis by (simp add: answer_status_def answer_quantity_def split: option.split)
  qed
qed

text \<open>The manual path without faults: up to the waiting, and after it.\<close>

lemma no_faults_steps:
  assumes "ap_faults ap = no_faults"
  shows "ext (ap_faults ap) f w = f (w\<lparr>w_calls := w_calls w + 1\<rparr>)"
    and "send_message (ap_faults ap) msg w = (Inr (), w\<lparr>w_calls := w_calls w + 1, w_sent := w_sent w @ [msg]\<rparr>)"
    and "\<exists>l n. record_decision (ap_faults ap) ss st d s par acct w = (Inr (length (w_log w)),
            w\<lparr>w_calls := n, w_log := w_log w @ [l]\<rparr>)"
  using assms by (simp_all add: send_message_def record_decision_def effect_def mcatch_def) blast

lemma handle_timeout_no_faults:
  assumes nf: "ap_faults ap = no_faults" and r: "request_row rid (aa_order_id a) w"
  shows "\<exists>w'. handle_timeout ap a rid w = (Inr (), w') \<and> settled rid (aa_order_id a) App_TIMEOUT w' \<and> w_manager w' = w_manager w"
proof -
  let ?now = "ap_clock ap (w_calls w)" and ?i = "aa_order_id a"
  let ?w1 = "set_order_approval ?i App_TIMEOUT None (set_approval rid
     (\<lambda>r. r\<lparr>ar_status := Req_Status App_TIMEOUT, ar_responded_at := Some ?now\<rparr>) (w\<lparr>w_calls := w_calls w + 1\<rparr>))"
  have "find_approval rid (w\<lparr>w_calls := n\<rparr>) = find_approval rid w" for n by (simp add: find_approval_def)
  then have "\<exists>r. find_approval rid ?w1 = Some r \<and> ar_order_id r = ?i \<and> ar_status r = Req_Status App_TIMEOUT"
    using r by (auto simp: request_row_def find_approval_set)
  then have s1: "settled rid ?i App_TIMEOUT ?w1" using set_order_approval_orders by (auto simp: settled_def)
  obtain w' where w': "handle_timeout ap a rid w = (Inr (), w')" "w_approvals w' = w_approvals ?w1" "w_orders w' = w_orders ?w1"
    "w_manager w' = w_manager ?w1"
    by (cases "dict_get (am_message_ids (w_manager w)) rid")
      (use nf in \<open>simp_all add: handle_timeout_def mbind_def mget_def mret_def effect_def send_message_def
         record_decision_def mcatch_def cache_status_def set_order_approval_def set_order_def set_approval_def\<close>)
  have "w_manager ?w1 = w_manager w" by (simp add: set_order_approval_def set_order_def set_approval_def)
  with w' s1 settled_cong [OF w'(2,3)] show ?thesis by auto
qed

lemma manual_before_wait:
  fixes w :: "'b world"
  assumes nf: "ap_faults ap = no_faults" and fresh: "find_approval rid w = None"
  obtains w1 :: "'b world" where "request_row rid (aa_order_id a) w1" "waiting rid w1" "get_modified_quantity rid w1 = get_modified_quantity rid w"
    "handle_manual_approve ap a rid now w =
       mbind (wait_for_response ap rid (ap_events ap rid)) (\<lambda>status.
       mbind (if status = App_TIMEOUT then handle_timeout ap a rid else mret ()) (\<lambda>_.
       mbind (effect (update_manager (forget_request rid))) (\<lambda>_. mret status))) w1"
proof -
  let ?t = "HUMAN_APPROVAL_TIMEOUT_SEC (ap_settings ap)" and ?td = "aa_decision a"
  let ?w0 = "add_approval rid (aa_order_id a) (aa_account_id a) Req_Pending now None (now + ?t) (w\<lparr>w_calls := w_calls w + 1\<rparr>)"
  define tail :: "('b world, approval_status) meth" where "tail = mbind (wait_for_response ap rid (ap_events ap rid)) (\<lambda>status.
       mbind (if status = App_TIMEOUT then handle_timeout ap a rid else mret ()) (\<lambda>_.
       mbind (effect (update_manager (forget_request rid))) (\<lambda>_. mret status)))"
  have call: "request_row rid i (v\<lparr>w_calls := n, w_sent := ms\<rparr>) = request_row rid i v"
    "find_approval rid (v\<lparr>w_calls := n\<rparr>) = find_approval rid v" for i v n ms
    by (simp_all add: request_row_def find_approval_def)
  have r0: "request_row rid (aa_order_id a) ?w0" using fresh by (simp add: request_row_def call)
  obtain w1 where m: "handle_manual_approve ap a rid now w =
      tail (update_manager (register_request rid (ap_message_id ap rid) (aa_account_id a)) w1)"
    and r1: "request_row rid (aa_order_id a) w1" and "w_manager w1 = w_manager w"
  proof (cases "ap_message_id ap rid")
    case None
    let ?w1 = "(cache_status (aa_account_id a) rid Req_Pending (?t + 60) (?w0\<lparr>w_calls := w_calls w + 2\<rparr>))
      \<lparr>w_calls := w_calls w + 1 + 1 + 1, w_sent := w_sent w @ [Request_Message rid (td_symbol ?td) (action_side (td_action ?td))
         (td_quantity ?td) (td_value ?td)]\<rparr>"
    have "handle_manual_approve ap a rid now w =
      tail (update_manager (register_request rid (ap_message_id ap rid) (aa_account_id a)) ?w1)"
      using nf None by (simp add: handle_manual_approve_def tail_def Let_def mbind_def [of "ext _ _"] mbind_def [of "send_message _ _"]
        mbind_def [of "mret _"] mbind_def [of "effect _"] mret_def effect_def send_message_def add_approval_def cache_status_def)
    moreover have "request_row rid (aa_order_id a) ?w1"
      using r0 by (simp add: request_row_def find_approval_def cache_status_def)
    ultimately show ?thesis by (rule that) (simp add: cache_status_def add_approval_def)
  next
    case (Some i)
    let ?w1 = "set_approval rid (\<lambda>r. r\<lparr>ar_telegram_message_id := Some i\<rparr>)
      ((cache_status (aa_account_id a) rid Req_Pending (?t + 60) (?w0\<lparr>w_calls := w_calls w + 2\<rparr>))
      \<lparr>w_sent := w_sent w @ [Request_Message rid (td_symbol ?td) (action_side (td_action ?td))
         (td_quantity ?td) (td_value ?td)], w_calls := w_calls w + 1 + 1 + 1 + 1\<rparr>)"
    have "handle_manual_approve ap a rid now w =
      tail (update_manager (register_request rid (ap_message_id ap rid) (aa_account_id a)) ?w1)"
      using nf Some by (simp add: handle_manual_approve_def tail_def Let_def mbind_def [of "ext _ _"] mbind_def [of "send_message _ _"]
        mbind_def [of "effect _"] effect_def send_message_def add_approval_def cache_status_def)
    moreover have "find_approval rid (cache_status acct rid st t v\<lparr>w_sent := ms, w_calls := n\<rparr>) = find_approval rid v"
      for acct st t ms n and v :: "'b world" by (simp add: find_approval_def cache_status_def)
    then have "request_row rid (aa_order_id a) ?w1"
      using fresh by (simp add: request_row_def find_approval_set call)
    ultimately show ?thesis by (rule that) (simp add: cache_status_def add_approval_def set_approval_def)
  qed
  then show ?thesis
    by (intro that [of "update_manager (register_request rid (ap_message_id ap rid) (aa_account_id a)) w1"])
      (simp_all add: tail_def request_row_def find_approval_def waiting_def get_modified_quantity_def update_manager_def
        register_request_def dict_simps)
qed

text \<open>
  The sequential form of a request: no automatic rule covers its order, no external call fails, and each callback is
  handled to its end before the next and before the timeout. It returns whatever the users do while it waits, with the status of the reference answer, the
  first Telegram callback for this request that can be read, or TIMEOUT when there is none.
  The request's row and the order carry that status, the modified quantity is the one of that
  callback, and the request is no longer pending. Answers over the API decide nothing.
\<close>

theorem request_approval_answers:
  fixes w :: "'b world"
  defines "rid \<equiv> w_next_uuid w"
  assumes "ap_faults ap = no_faults"
    and "check_auto_approve (ap_settings ap) (aa_decision a) (td_portfolio_pct (aa_decision a) (aa_state a)) = None"
    and "find_approval rid w = None" "get_modified_quantity rid w = None"
  shows "\<exists>w'. request_approval ap a w = (Inr (answer_status rid (ap_events ap rid)), w')
    \<and> settled rid (aa_order_id a) (answer_status rid (ap_events ap rid)) w'
    \<and> get_modified_quantity rid w' = answer_quantity rid (ap_events ap rid)
    \<and> dict_get (am_events (w_manager w')) rid = None"
proof -
  let ?s = "answer_status rid (ap_events ap rid)" and ?w = "w\<lparr>w_next_uuid := rid + 1\<rparr>"
  have fresh: "find_approval rid ?w = None" "get_modified_quantity rid ?w = None"
    using assms(4,5) by (simp_all add: find_approval_def get_modified_quantity_def)
  obtain w1 :: "'b world" where w1: "request_row rid (aa_order_id a) w1" "waiting rid w1"
    "get_modified_quantity rid w1 = get_modified_quantity rid ?w"
    "handle_manual_approve ap a rid (ap_clock ap (w_calls w)) ?w =
       mbind (wait_for_response ap rid (ap_events ap rid)) (\<lambda>status.
       mbind (if status = App_TIMEOUT then handle_timeout ap a rid else mret ()) (\<lambda>_.
       mbind (effect (update_manager (forget_request rid))) (\<lambda>_. mret status))) w1"
    using manual_before_wait [OF assms(2) fresh(1)] .
  have run: "request_approval ap a w = handle_manual_approve ap a rid (ap_clock ap (w_calls w)) ?w"
    using assms(3) by (simp add: request_approval_def mbind_def fresh_uuid_def mget_def rid_def)
  obtain x w2 where w2: "wait_for_response ap rid (ap_events ap rid) w1 = (x, w2)" by fastforce
  note rows = wait_rows [OF assms(2) w1(1,2) _ w2] fresh(2) w1(3)
  have "\<exists>w3. (if ?s = App_TIMEOUT then handle_timeout ap a rid else mret ()) w2 = (Inr (), w3)
      \<and> settled rid (aa_order_id a) ?s w3 \<and> w_manager w3 = w_manager w2"
  proof (cases "?s = App_TIMEOUT")
    case True
    with handle_timeout_no_faults [OF assms(2), of rid a w2] rows show ?thesis by simp
  next
    case False
    with rows answer_status_TIMEOUT [of rid "ap_events ap rid"] show ?thesis by (simp add: mret_def)
  qed
  then obtain w3 where w3: "(if ?s = App_TIMEOUT then handle_timeout ap a rid else mret ()) w2 = (Inr (), w3)"
    "settled rid (aa_order_id a) ?s w3" "w_manager w3 = w_manager w2" by blast
  let ?w4 = "update_manager (forget_request rid) w3"
  have "request_approval ap a w = (Inr ?s, ?w4)"
    unfolding run w1(4) using rows w2 w3(1) by (simp add: mbind_def effect_def mret_def)
  moreover have "settled rid (aa_order_id a) ?s ?w4"
    using w3(2) settled_cong [of ?w4 w3] by (simp add: update_manager_def)
  moreover have "get_modified_quantity rid ?w4 = answer_quantity rid (ap_events ap rid)"
    using rows w3(3) by (simp add: get_modified_quantity_def update_manager_def forget_request_def)
  ultimately show ?thesis by (simp add: update_manager_def forget_request_def dict_simps)
qed

definition sample_decision :: trade_decision where
  "sample_decision = \<lparr>td_symbol = ''005930'', td_action = Act_BUY, td_confidence = 8 / 10, td_order_type = LIMIT,
     td_quantity = 10, td_price = Some 70000, td_stop_loss_price = Some 68000, td_take_profit_price = None\<rparr>"

definition sample_request :: approval_args where
  "sample_request = \<lparr>aa_decision = sample_decision, aa_order_id = 1, aa_session_id = 7, aa_state = sample_state,
     aa_account_id = ''default''\<rparr>"

definition sample_approval :: "user_event list \<Rightarrow> approval_env" where
  "sample_approval es = \<lparr>ap_faults = no_faults, ap_settings = default_settings, ap_clock = \<lambda>n. 1000 + int n,
     ap_message_id = \<lambda>_. Some 55, ap_events = \<lambda>_. es\<rparr>"

lemma sample_request_manual:
  "check_auto_approve default_settings sample_decision (td_portfolio_pct sample_decision ps) = None"
  by (simp add: check_auto_approve_def default_settings_def sample_decision_def)

theorem request_approval_answers_witness:
  "(\<exists>w. request_approval (sample_approval [Api_Response ''reject'' None 100, Callback ''later'' 100, Callback ''modify: 7'' 100])
      sample_request (new_world ()) = (Inr App_APPROVED, w) \<and> get_modified_quantity 100 w = Some 7)
   \<and> (\<exists>w. request_approval (sample_approval [Api_Response ''approve'' None 100]) sample_request (new_world ())
      = (Inr App_TIMEOUT, w) \<and> settled 100 1 App_TIMEOUT w)"
proof -
  have n: "w_next_uuid (new_world ()) = 100" by (simp add: new_world_def)
  have s: "ap_faults (sample_approval es) = no_faults" "ap_events (sample_approval es) = (\<lambda>_. es)"
    "ap_settings (sample_approval es) = default_settings" "aa_decision sample_request = sample_decision"
    "aa_order_id sample_request = 1" for es by (simp_all add: sample_approval_def sample_request_def)
  have f: "find_approval 100 (new_world ()) = None" "get_modified_quantity 100 (new_world ()) = None"
    by (simp_all add: new_world_def find_approval_def get_modified_quantity_def new_approval_manager_def)
  have p: "parse_action ''modify: 7'' = Some (App_APPROVED, Some 7)" "parse_action ''later'' = None"
    by (simp_all add: parse_action_def py_int_def strip_def is_blank_def digit_of_def)
  show ?thesis
    using request_approval_answers [of "sample_approval [Api_Response ''reject'' None 100, Callback ''later'' 100, Callback ''modify: 7'' 100]"
        sample_request "new_world ()"]
      request_approval_answers [of "sample_approval [Api_Response ''approve'' None 100]" sample_request "new_world ()"]
    by (auto simp: n s f p sample_request_manual answer_status_def answer_quantity_def)
qed

end
