(* ===== verification/Telegram.thy ===== *)
theory Telegram
  imports Approval_Properties
begin

text \<open>
  \<open>src/notification/telegram.py\<close>, the part that turns what a user does in the chat into events of
  the approval manager: the three buttons of a request, the press of a button, the prompt for a
  quantity and the text typed after it. The text of a UUID and \<open>UUID(text)\<close> are parameters;
  sending, polling and stopping are calls into aiogram.
\<close>

record telegram_bot =
  tg_disabled :: bool
  tg_chat_id :: string
  tg_pending_modify :: "(string, uuid) dict"

definition digit_char :: "nat \<Rightarrow> char" where
  "digit_char d = char_of (48 + d)"

fun show_nat :: "nat \<Rightarrow> string" where
  "show_nat n = (if n < 10 then [digit_char n] else show_nat (n div 10) @ [digit_char (n mod 10)])"

declare show_nat.simps [simp del]

text \<open>The callback data of the buttons of \<open>send_approval_request\<close>.\<close>

definition button_data :: "(uuid \<Rightarrow> string) \<Rightarrow> uuid \<Rightarrow> string list" where
  "button_data uuid_text rid = map (\<lambda>a. a @ CHR '':'' # uuid_text rid) [''approve'', ''reject'', ''modify'']"

text \<open>\<open>_on_callback_query\<close>: the event handed to the registered handler, if any.\<close>

definition on_callback_query :: "(string \<Rightarrow> uuid option) \<Rightarrow> string option \<Rightarrow> user_event option" where
  "on_callback_query parse_uuid data = (case data of
     None \<Rightarrow> None
   | Some d \<Rightarrow> if d = [] \<or> CHR '':'' \<notin> set d then None
       else map_option (Callback (takeWhile (\<lambda>c. c \<noteq> CHR '':'') d))
              (parse_uuid (tl (dropWhile (\<lambda>c. c \<noteq> CHR '':'') d))))"

text \<open>The prompt; nothing in the repository calls it but its tests.\<close>

definition send_quantity_prompt :: "uuid \<Rightarrow> telegram_bot \<Rightarrow> telegram_bot" where
  "send_quantity_prompt rid b =
     (if tg_disabled b then b else b\<lparr>tg_pending_modify := dict_set (tg_chat_id b) rid (tg_pending_modify b)\<rparr>)"

text \<open>\<open>_on_text_message\<close>: the event, whether the user is asked again, and the bot afterwards.\<close>

definition on_text_message :: "string \<Rightarrow> string \<Rightarrow> telegram_bot \<Rightarrow> user_event option \<times> bool \<times> telegram_bot" where
  "on_text_message chat text b = (case dict_get (tg_pending_modify b) chat of
     None \<Rightarrow> (None, False, b)
   | Some rid \<Rightarrow> (case py_int (strip text) of
       Some q \<Rightarrow> if q \<le> 0 then (None, True, b)
         else (Some (Callback (''modify:'' @ show_nat (nat q)) rid), False,
               b\<lparr>tg_pending_modify := dict_del chat (tg_pending_modify b)\<rparr>)
     | None \<Rightarrow> (None, True, b)))"

section \<open>A quantity survives the way through the text\<close>

lemma digit_of_char: "d < 10 \<Longrightarrow> digit_of (digit_char d) = Some d"
  by (simp add: digit_of_def digit_char_def)

lemma is_blank_digit: "d < 10 \<Longrightarrow> \<not> is_blank (digit_char d)"
  by (simp add: is_blank_def digit_char_def)

lemma digit_char_sign: "d < 10 \<Longrightarrow> digit_char d \<noteq> CHR ''-'' \<and> digit_char d \<noteq> CHR ''+''"
proof -
  assume d: "d < 10"
  then have "of_char (digit_char d) = 48 + d" by (simp add: digit_char_def)
  then show ?thesis using d by auto
qed

lemma read_digits_show: "read_digits b acc (show_nat n @ cs) = read_digits True (acc * 10 ^ length (show_nat n) + n) cs"
proof (induction n arbitrary: b acc cs rule: show_nat.induct)
  case (1 n)
  show ?case
  proof (cases "n < 10")
    case True
    then show ?thesis by (simp add: show_nat.simps [of n] digit_of_char algebra_simps)
  next
    case False
    have "read_digits b acc (show_nat n @ cs)
        = read_digits True (acc * 10 ^ length (show_nat (n div 10)) + n div 10) (digit_char (n mod 10) # cs)"
      using False 1 [OF False, of b acc "digit_char (n mod 10) # cs"] by (simp add: show_nat.simps [of n])
    also have "\<dots> = read_digits True (10 * (acc * 10 ^ length (show_nat (n div 10)) + n div 10) + n mod 10) cs"
      by (simp add: digit_of_char)
    finally show ?thesis using False by (simp add: show_nat.simps [of n] algebra_simps)
  qed
qed

lemma show_nat_chars: "c \<in> set (show_nat n) \<Longrightarrow> \<exists>d < 10. c = digit_char d"
proof (induction n rule: show_nat.induct)
  case (1 n)
  show ?case
  proof (cases "n < 10")
    case True
    with 1(2) show ?thesis by (auto simp: show_nat.simps [of n])
  next
    case False
    with 1 show ?thesis using mod_less_divisor [of 10 n] by (force simp: show_nat.simps [of n])
  qed
qed

lemma show_nat_not_Nil [simp]: "show_nat n \<noteq> []"
  by (simp add: show_nat.simps [of n])

lemma strip_show: "strip (show_nat n) = show_nat n"
proof -
  have "\<not> is_blank c" if "c \<in> set (show_nat n)" for c using show_nat_chars [OF that] is_blank_digit by auto
  then have d: "dropWhile is_blank xs = xs" if "set xs \<subseteq> set (show_nat n)" for xs
    using that by (cases xs) auto
  show ?thesis by (simp add: strip_def d)
qed

lemma py_int_show: "py_int (show_nat n) = Some (int n)"
proof -
  obtain c cs where c: "show_nat n = c # cs" by (cases "show_nat n") auto
  then have "c \<noteq> CHR ''-'' \<and> c \<noteq> CHR ''+''" using show_nat_chars [of c n] digit_char_sign by auto
  moreover have "read_digits False 0 (c # cs) = Some n" using read_digits_show [of False 0 n "[]"] c by simp
  ultimately show ?thesis using strip_show [of n] by (simp add: py_int_def c del: read_digits.simps)
qed

lemma parse_modify_show: "0 < q \<Longrightarrow> parse_action (''modify:'' @ show_nat (nat q)) = Some (App_APPROVED, Some q)"
  by (simp add: parse_action_def py_int_show)

text \<open>A text for UUIDs, to evaluate the handlers on.\<close>

definition py_uuid :: "string \<Rightarrow> uuid option" where
  "py_uuid s = map_option nat (py_int s)"

text \<open>What a readable callback of a pending request leaves in the manager, whatever calls fail.\<close>

lemma handle_callback_decides:
  assumes "parse_action action = Some a" "dict_get (am_events (w_manager w)) rid \<noteq> None"
  shows "\<exists>w'. handle_callback ap action rid w = (Inr (), w') \<and> is_signalled rid w'
    \<and> dict_get (am_results (w_manager w')) rid = Some (fst a)
    \<and> get_modified_quantity rid w' = (case snd a of Some q \<Rightarrow> Some q | None \<Rightarrow> get_modified_quantity rid w)"
proof (cases rule: handle_callback_cases [of w rid action ap])
  case ignored
  with assms show ?thesis by auto
next
  case (decided b w1 w2)
  then have "b = a" "dict_get (am_events (w_manager w2)) rid \<noteq> None" using assms by simp_all
  with decided show ?thesis
    by (auto simp: callback_signal_def Let_def update_manager_def is_signalled_def get_modified_quantity_def dict_simps split: option.splits)
qed

text \<open>
  C17: what the chat gives the approval manager, whatever database, cache and message calls fail. The buttons approve and
  reject of a pending request signal it with that status and leave its modified quantity as it was; the modify
  button is ignored by the manager, which changes nothing, because its action carries no quantity. A
  number above 0 typed after the prompt signals an approval with exactly that quantity and ends the prompt. After the
  prompt, any text that is no number, or a number of 0 or less, gives no event, asks again and keeps the prompt; without
  a prompt, text does nothing.
\<close>

theorem telegram_answers:
  assumes "parse_uuid (uuid_text rid) = Some rid" "\<not> tg_disabled b" "dict_get (am_events (w_manager w)) rid \<noteq> None"
  shows "map (\<lambda>d. on_callback_query parse_uuid (Some d)) (button_data uuid_text rid)
      = [Some (Callback ''approve'' rid), Some (Callback ''reject'' rid), Some (Callback ''modify'' rid)]
    \<and> (\<exists>w'. handle_callback ap ''approve'' rid w = (Inr (), w') \<and> is_signalled rid w'
         \<and> dict_get (am_results (w_manager w')) rid = Some App_APPROVED \<and> get_modified_quantity rid w' = get_modified_quantity rid w)
    \<and> (\<exists>w'. handle_callback ap ''reject'' rid w = (Inr (), w') \<and> is_signalled rid w'
         \<and> dict_get (am_results (w_manager w')) rid = Some App_REJECTED \<and> get_modified_quantity rid w' = get_modified_quantity rid w)
    \<and> handle_callback ap ''modify'' rid w = (Inr (), w)
    \<and> (\<forall>q > 0. \<exists>action b' w'. on_text_message (tg_chat_id b) (show_nat (nat q)) (send_quantity_prompt rid b)
           = (Some (Callback action rid), False, b')
         \<and> dict_get (tg_pending_modify b') (tg_chat_id b) = None
         \<and> handle_callback ap action rid w = (Inr (), w') \<and> is_signalled rid w'
         \<and> dict_get (am_results (w_manager w')) rid = Some App_APPROVED \<and> get_modified_quantity rid w' = Some q)
    \<and> (\<forall>typed. (\<forall>q. py_int (strip typed) = Some q \<longrightarrow> q \<le> 0) \<longrightarrow>
         on_text_message (tg_chat_id b) typed (send_quantity_prompt rid b) = (None, True, send_quantity_prompt rid b))
    \<and> (\<forall>chat typed b0. dict_get (tg_pending_modify b0) chat = None \<longrightarrow> on_text_message chat typed b0 = (None, False, b0))"
proof (intro conjI allI impI)
  have prompt: "dict_get (tg_pending_modify (send_quantity_prompt rid b)) (tg_chat_id b) = Some rid"
    using assms(2) by (simp add: send_quantity_prompt_def dict_simps)
  show "handle_callback ap ''modify'' rid w = (Inr (), w)"
    by (simp add: handle_callback_def meth_defs parse_action_def)
  show "\<exists>w'. handle_callback ap ''approve'' rid w = (Inr (), w') \<and> is_signalled rid w'
         \<and> dict_get (am_results (w_manager w')) rid = Some App_APPROVED \<and> get_modified_quantity rid w' = get_modified_quantity rid w"
    using handle_callback_decides [OF _ assms(3), of "''approve''" "(App_APPROVED, None)" ap] by (simp add: parse_action_def)
  show "\<exists>w'. handle_callback ap ''reject'' rid w = (Inr (), w') \<and> is_signalled rid w'
         \<and> dict_get (am_results (w_manager w')) rid = Some App_REJECTED \<and> get_modified_quantity rid w' = get_modified_quantity rid w"
    using handle_callback_decides [OF _ assms(3), of "''reject''" "(App_REJECTED, None)" ap] by (simp add: parse_action_def)
  show "on_text_message (tg_chat_id b) typed (send_quantity_prompt rid b) = (None, True, send_quantity_prompt rid b)"
    if "\<forall>q. py_int (strip typed) = Some q \<longrightarrow> q \<le> 0" for typed
    using that prompt by (auto simp: on_text_message_def split: option.split)
  show "on_text_message chat typed b0 = (None, False, b0)" if "dict_get (tg_pending_modify b0) chat = None" for chat typed b0
    using that by (simp add: on_text_message_def)
  fix q :: int assume q: "0 < q"
  let ?b = "send_quantity_prompt rid b" and ?action = "''modify:'' @ show_nat (nat q)"
  obtain w' where "handle_callback ap ?action rid w = (Inr (), w')" "is_signalled rid w'"
    "dict_get (am_results (w_manager w')) rid = Some App_APPROVED" "get_modified_quantity rid w' = Some q"
    using handle_callback_decides [OF parse_modify_show [OF q] assms(3), of ap] by auto
  moreover have "on_text_message (tg_chat_id b) (show_nat (nat q)) ?b = (Some (Callback ?action rid),
      False, ?b\<lparr>tg_pending_modify := dict_del (tg_chat_id b) (tg_pending_modify ?b)\<rparr>)"
    using q prompt by (simp add: on_text_message_def strip_show py_int_show)
  ultimately show "\<exists>action b' w'. on_text_message (tg_chat_id b) (show_nat (nat q)) ?b = (Some (Callback action rid), False, b')
         \<and> dict_get (tg_pending_modify b') (tg_chat_id b) = None
         \<and> handle_callback ap action rid w = (Inr (), w') \<and> is_signalled rid w'
         \<and> dict_get (am_results (w_manager w')) rid = Some App_APPROVED \<and> get_modified_quantity rid w' = Some q"
    by (intro exI [of _ ?action] exI [of _ w'] exI conjI) (assumption | simp add: dict_simps)+
qed (simp_all add: button_data_def on_callback_query_def assms)

definition sample_bot :: telegram_bot where
  "sample_bot = \<lparr>tg_disabled = False, tg_chat_id = ''42'', tg_pending_modify = []\<rparr>"

text \<open>A world with request 17 waiting.\<close>

definition asked_world :: "unit world" where
  "asked_world = update_manager (register_request 17 (Some 55) ''default'') (new_world ())"

theorem telegram_answers_witness:
  "on_callback_query py_uuid (Some ''modify:17'') = Some (Callback ''modify'' 17)
   \<and> handle_callback (sample_approval []) ''modify'' 17 asked_world = (Inr (), asked_world)
   \<and> (\<exists>w'. handle_callback (sample_approval []) ''reject'' 17 asked_world = (Inr (), w') \<and> is_signalled 17 w'
         \<and> dict_get (am_results (w_manager w')) 17 = Some App_REJECTED)
   \<and> on_text_message ''42'' ''ten'' (send_quantity_prompt 17 sample_bot) = (None, True, send_quantity_prompt 17 sample_bot)
   \<and> (\<exists>action b' w'. on_text_message ''42'' (show_nat 25) (send_quantity_prompt 17 sample_bot) = (Some (Callback action 17), False, b')
         \<and> handle_callback (sample_approval []) action 17 asked_world = (Inr (), w') \<and> get_modified_quantity 17 w' = Some 25)"
proof -
  have p: "py_uuid (show_nat 17) = Some 17" by (simp add: py_uuid_def py_int_show)
  have b: "\<not> tg_disabled sample_bot" "tg_chat_id sample_bot = ''42''" by (simp_all add: sample_bot_def)
  have a: "dict_get (am_events (w_manager asked_world)) 17 \<noteq> None"
    by (simp add: asked_world_def update_manager_def register_request_def dict_simps)
  have t: "show_nat 17 = ''17''" by code_simp
  have ten: "py_int (strip ''ten'') = None" by code_simp
  note T = telegram_answers [where uuid_text = show_nat and parse_uuid = py_uuid, OF p b(1) a, of "sample_approval []"]
  have "\<exists>action b' w'. on_text_message ''42'' (show_nat (nat 25)) (send_quantity_prompt 17 sample_bot) = (Some (Callback action 17), False, b')
         \<and> handle_callback (sample_approval []) action 17 asked_world = (Inr (), w') \<and> get_modified_quantity 17 w' = Some 25"
    using T b(2) by (metis zero_less_numeral)
  moreover have "on_text_message ''42'' ''ten'' (send_quantity_prompt 17 sample_bot) = (None, True, send_quantity_prompt 17 sample_bot)"
    using T b(2) ten by (metis option.distinct(1))
  ultimately show ?thesis using T t by (simp add: button_data_def) blast
qed

end
