(* ===== verification/Executor.thy ===== *)
theory Executor
  imports Telegram Mock_Broker
begin

text \<open>
  \<open>src/execution/executor.py\<close>: \<open>OrderExecutor\<close> takes a decision of the strategies to the broker and
  into the books: order row, web check, approval, risk re-check of a changed quantity, broker
  order, execution row, position, messages and decision log. The collaborators it is constructed
  with are fields of \<open>executor\<close>: the broker's operations, the verifier, the approval manager, and
  the data the portfolio service and the risk manager read. What it relies on is the locale
  \<open>order_gates\<close>, interpreted on the verifier and the approval manager of this development.
\<close>

record 'b executor =
  xe_faults :: fault_plan
  xe_settings :: settings
  xe_market :: market_data
  xe_services :: services
  xe_account :: string
  xe_now :: datetime
  xe_balance :: "'b \<Rightarrow> exc + account_balance"
  xe_holdings :: "'b \<Rightarrow> exc + position list"
  xe_place :: "order_request \<Rightarrow> 'b \<Rightarrow> (exc + order_result) \<times> 'b"
  xe_verify :: "symbol \<Rightarrow> order_side \<Rightarrow> uuid \<Rightarrow> uuid option \<Rightarrow> bool \<Rightarrow> ('b world, web_verification) meth"
  xe_approve :: "approval_args \<Rightarrow> ('b world, approval_status) meth"

section \<open>The calls to the collaborators\<close>

definition current_state :: "'b executor \<Rightarrow> ('b world, portfolio_state) meth" where
  "current_state xe = ext (xe_faults xe) (\<lambda>w.
     case get_current_state (xe_services xe) (xe_account xe) (xe_now xe) (xe_balance xe (w_broker w))
            (xe_holdings xe (w_broker w)) (w_snapshots w) (w_positions w) (w_sectors w) of
       Inl e \<Rightarrow> (Inl e, w)
     | Inr (ps, cache) \<Rightarrow> (Inr ps, w\<lparr>w_sectors := cache\<rparr>))"

definition broker_order :: "'b executor \<Rightarrow> order_request \<Rightarrow> ('b world, order_result) meth" where
  "broker_order xe rq w = (let (r, b) = xe_place xe rq (w_broker w) in (r, w\<lparr>w_broker := b\<rparr>))"

text \<open>The risk manager asks for the portfolio state only for a BUY at a positive price.\<close>

definition risk_recheck ::
  "'b executor \<Rightarrow> symbol \<Rightarrow> order_side \<Rightarrow> int \<Rightarrow> dec \<Rightarrow> dec option \<Rightarrow> ('b world, risk_check_result) meth" where
  "risk_recheck xe s side q price stop =
     (let action = (if side = Side_BUY then Sig_BUY else Sig_SELL);
          run = (\<lambda>ps. mlift (\<lambda>_. risk_check (xe_settings xe) (xe_market xe) ps s action q price stop ''''))
      in if side = Side_BUY \<and> 0 < price then mbind (mattempt (current_state xe)) run
         else run (Inl (ExternalError ''not asked for'')))"

section \<open>Results\<close>

text \<open>What the two paths know of the order they handle.\<close>

record order_context =
  oc_symbol :: symbol
  oc_side :: order_side
  oc_quantity :: int
  oc_session_id :: uuid
  oc_parent_id :: "uuid option"
  oc_account_id :: string
  oc_stage :: decision_stage

definition fail_result ::
  "order_context \<Rightarrow> int option \<Rightarrow> int \<Rightarrow> approval_status \<Rightarrow> web_verify_result option \<Rightarrow> uuid list \<Rightarrow> rejection
     \<Rightarrow> execution_result" where
  "fail_result c order_id q st web ids err = \<lparr>xr_success = False, xr_order_id = order_id,
     xr_broker_order_id = None, xr_symbol = oc_symbol c, xr_side = oc_side c, xr_quantity = q,
     xr_fill_price = None, xr_commission = 0, xr_approval_status = st, xr_web_verify_result = web,
     xr_position_id = None, xr_decision_ids = ids, xr_error = err\<rparr>"

text \<open>Recording a rejection in the decision log and returning it.\<close>

definition log_rejection ::
  "'b executor \<Rightarrow> order_context \<Rightarrow> int \<Rightarrow> int \<Rightarrow> approval_status \<Rightarrow> web_verification \<Rightarrow> rejection
     \<Rightarrow> ('b world, execution_result) meth" where
  "log_rejection xe c oid q st v err =
     mbind (record_decision_safe (xe_faults xe) (oc_session_id c) (oc_stage c) (decision_action_value Act_REJECT)
        (oc_symbol c) (oc_parent_id c) (oc_account_id c)) (\<lambda>ids.
     mret (fail_result c (Some oid) q st (Some (wv_result v)) ids err))"

definition cancel_order ::
  "'b executor \<Rightarrow> order_context \<Rightarrow> int \<Rightarrow> int \<Rightarrow> approval_status \<Rightarrow> web_verification \<Rightarrow> rejection
     \<Rightarrow> ('b world, execution_result) meth" where
  "cancel_order xe c oid q st v err =
     mbind (update_order (xe_faults xe) oid (\<lambda>r. r\<lparr>od_status := CANCELLED, od_rejection_reason := err\<rparr>)) (\<lambda>_.
     mbind (notify_safe (xe_faults xe) (Rejection_Message (oc_symbol c) (oc_side c) err)) (\<lambda>_.
     log_rejection xe c oid q st v err))"

definition deny_order ::
  "'b executor \<Rightarrow> order_context \<Rightarrow> int \<Rightarrow> approval_status \<Rightarrow> web_verification \<Rightarrow> ('b world, execution_result) meth" where
  "deny_order xe c oid st v =
     mbind (update_order (xe_faults xe) oid (\<lambda>r. r\<lparr>od_status := CANCELLED\<rparr>)) (\<lambda>_.
     log_rejection xe c oid (oc_quantity c) st v (Approval_Denied st))"

definition fail_order ::
  "'b executor \<Rightarrow> order_context \<Rightarrow> int \<Rightarrow> int \<Rightarrow> approval_status \<Rightarrow> web_verification \<Rightarrow> order_status
     \<Rightarrow> ('b world, execution_result) meth" where
  "fail_order xe c oid q st v broker_status =
     mbind (update_order (xe_faults xe) oid (\<lambda>r. r\<lparr>od_status := FAILED,
        od_rejection_reason := Broker_Failed broker_status\<rparr>)) (\<lambda>_.
     mret (fail_result c (Some oid) q st (Some (wv_result v)) [] (Broker_Failed broker_status)))"

definition verify_order ::
  "'b executor \<Rightarrow> order_context \<Rightarrow> int \<Rightarrow> bool \<Rightarrow> ('b world, web_verification) meth" where
  "verify_order xe c oid is_stop_loss =
     mbind (xe_verify xe (oc_symbol c) (oc_side c) (oc_session_id c) (oc_parent_id c) is_stop_loss) (\<lambda>v.
     mbind (update_order (xe_faults xe) oid (\<lambda>r. r\<lparr>od_web_verify_result := Some (wv_result v),
        od_web_verify_summary := wv_summary v\<rparr>)) (\<lambda>_.
     mret v))"

text \<open>
  The gates both paths pass before the broker: web check, portfolio state, approval. \<open>args\<close> are
  the arguments of the approval request, \<open>run\<close> is what follows.
\<close>

definition gate_order ::
  "'b executor \<Rightarrow> order_context \<Rightarrow> int \<Rightarrow> bool \<Rightarrow> (portfolio_state \<Rightarrow> approval_args)
     \<Rightarrow> (approval_status \<Rightarrow> web_verification \<Rightarrow> ('b world, execution_result) meth) \<Rightarrow> ('b world, execution_result) meth" where
  "gate_order xe c oid is_stop_loss args run =
     mbind (verify_order xe c oid is_stop_loss) (\<lambda>v.
       if wv_result v = BLOCKED
       then cancel_order xe c oid (oc_quantity c) AUTO_APPROVED v (Web_Blocked (wv_summary v))
       else mbind (current_state xe) (\<lambda>ps. mbind (xe_approve xe (args ps)) (\<lambda>st.
              if st \<in> {App_REJECTED, App_TIMEOUT} then deny_order xe c oid st v else run st v)))"

section \<open>The fill and the books\<close>

text \<open>\<open>filled_price or price\<close> and \<open>filled_quantity or quantity\<close>: 0 counts as missing.\<close>

definition fill_price :: "order_result \<Rightarrow> dec \<Rightarrow> dec" where
  "fill_price r price = (case or_filled_price r of None \<Rightarrow> price | Some p \<Rightarrow> if p = 0 then price else p)"

definition fill_quantity :: "order_result \<Rightarrow> int \<Rightarrow> int" where
  "fill_quantity r q = (if or_filled_quantity r = 0 then q else or_filled_quantity r)"

definition mark_filled :: "'b executor \<Rightarrow> int \<Rightarrow> order_result \<Rightarrow> int \<Rightarrow> dec \<Rightarrow> int option \<Rightarrow> ('b world, unit) meth" where
  "mark_filled xe oid r q price position_id =
     update_order (xe_faults xe) oid (\<lambda>o'. o'\<lparr>od_status := FILLED, od_broker_order_id := Some (or_order_id r),
        od_filled_quantity := q, od_filled_price := Some price, od_commission := or_commission r,
        od_position_id := position_id\<rparr>)"

text \<open>The last steps of both paths: the order row, the message, the decision log, the result.\<close>

definition finish_order ::
  "'b executor \<Rightarrow> order_context \<Rightarrow> int \<Rightarrow> approval_status \<Rightarrow> web_verification \<Rightarrow> order_result \<Rightarrow> int \<Rightarrow> dec
     \<Rightarrow> int option \<Rightarrow> decision_action \<Rightarrow> ('b world, execution_result) meth" where
  "finish_order xe c oid st v r q price position_id action =
     mbind (mark_filled xe oid r q price position_id) (\<lambda>_.
     mbind (notify_safe (xe_faults xe) (Execution_Message (oc_symbol c) (oc_side c) q price (or_commission r) st)) (\<lambda>_.
     mbind (record_decision_safe (xe_faults xe) (oc_session_id c) (oc_stage c) (decision_action_value action)
        (oc_symbol c) (oc_parent_id c) (oc_account_id c)) (\<lambda>ids.
     mret \<lparr>xr_success = True, xr_order_id = Some oid, xr_broker_order_id = Some (or_order_id r),
        xr_symbol = oc_symbol c, xr_side = oc_side c, xr_quantity = q, xr_fill_price = Some price,
        xr_commission = or_commission r, xr_approval_status = st, xr_web_verify_result = Some (wv_result v),
        xr_position_id = position_id, xr_decision_ids = ids, xr_error = No_Rejection\<rparr>)))"

text \<open>
  \<open>except Exception\<close> around both paths: the order is marked FAILED when it was created. The result
  reports AUTO_APPROVED, whatever the approval was.
\<close>

definition guarded_order ::
  "'b executor \<Rightarrow> order_context \<Rightarrow> ('b world, int) meth \<Rightarrow> (int \<Rightarrow> ('b world, execution_result) meth)
     \<Rightarrow> ('b world, execution_result) meth" where
  "guarded_order xe c create body w = (case create w of
     (Inl e, w1) \<Rightarrow> (Inr (fail_result c None (oc_quantity c) AUTO_APPROVED None [] (Raised e)), w1)
   | (Inr oid, w1) \<Rightarrow> mcatch (body oid) (\<lambda>e.
       mbind (update_order_safe (xe_faults xe) oid (\<lambda>r. r\<lparr>od_status := FAILED, od_rejection_reason := Raised e\<rparr>)) (\<lambda>_.
       mret (fail_result c (Some oid) (oc_quantity c) AUTO_APPROVED None [] (Raised e)))) w1)"

section \<open>Entry\<close>

record entry_args =
  ea_decision :: trade_decision
  ea_session_id :: uuid
  ea_strategy_type :: string
  ea_parent_id :: "uuid option"
  ea_account_id :: string

definition entry_context :: "entry_args \<Rightarrow> order_context" where
  "entry_context a = \<lparr>oc_symbol = td_symbol (ea_decision a), oc_side = action_side (td_action (ea_decision a)),
     oc_quantity = td_quantity (ea_decision a), oc_session_id = ea_session_id a, oc_parent_id = ea_parent_id a,
     oc_account_id = ea_account_id a, oc_stage = Stage_EXECUTION\<rparr>"

definition entry_price :: "entry_args \<Rightarrow> dec" where
  "entry_price a = (case td_price (ea_decision a) of Some p \<Rightarrow> p | None \<Rightarrow> 0)"

definition entry_approval :: "entry_args \<Rightarrow> int \<Rightarrow> portfolio_state \<Rightarrow> approval_args" where
  "entry_approval a oid ps = \<lparr>aa_decision = ea_decision a, aa_order_id = oid, aa_session_id = ea_session_id a,
     aa_state = ps, aa_account_id = ea_account_id a\<rparr>"

text \<open>The quantity to order, or the failed result of the risk check of a changed one.\<close>

definition effective_quantity ::
  "'b executor \<Rightarrow> entry_args \<Rightarrow> int \<Rightarrow> approval_status \<Rightarrow> web_verification \<Rightarrow> ('b world, execution_result + int) meth" where
  "effective_quantity xe a oid st v =
     mbind (get_order (xe_faults xe) oid) (\<lambda>row. case Option.bind row od_modified_quantity of
       None \<Rightarrow> mret (Inr (td_quantity (ea_decision a)))
     | Some mq \<Rightarrow>
         mbind (risk_recheck xe (td_symbol (ea_decision a)) (oc_side (entry_context a)) mq (entry_price a)
            (td_stop_loss_price (ea_decision a))) (\<lambda>rk.
         if \<not> rk_passed rk
         then mbind (cancel_order xe (entry_context a) oid mq st v (Risk_Failed (rk_violations rk))) (\<lambda>r. mret (Inl r))
         else mret (Inr (if rk_adjusted_quantity rk = 0 then mq else rk_adjusted_quantity rk))))"

definition entry_position :: "entry_args \<Rightarrow> int \<Rightarrow> dec \<Rightarrow> position_args" where
  "entry_position a q price = \<lparr>pa_symbol = td_symbol (ea_decision a), pa_strategy_type = ea_strategy_type a,
     pa_quantity = q, pa_entry_price = price,
     pa_stop_loss_price = (case td_stop_loss_price (ea_decision a) of Some p \<Rightarrow> p | None \<Rightarrow> 0),
     pa_take_profit_price = td_take_profit_price (ea_decision a), pa_trailing_stop_pct = None,
     pa_max_holding_days = None, pa_entry_session_id = Some (ea_session_id a), pa_account_id = ea_account_id a\<rparr>"

definition book_fill :: "'b executor \<Rightarrow> entry_args \<Rightarrow> int \<Rightarrow> approval_status \<Rightarrow> web_verification \<Rightarrow> int
     \<Rightarrow> order_result \<Rightarrow> ('b world, execution_result) meth" where
  "book_fill xe a oid st v eq r =
     (let q = fill_quantity r eq; price = fill_price r (entry_price a) in
      mbind (record_execution (xe_faults xe) oid (or_order_id r) price q (or_commission r)) (\<lambda>_.
      mbind (mcatch (mbind (create_position (xe_faults xe) (fst (xe_now xe)) (entry_position a q price)) (\<lambda>p. mret (Some (pr_id p))))
               (\<lambda>_. mret None)) (\<lambda>position_id.
      finish_order xe (entry_context a) oid st v r q price position_id
        (if oc_side (entry_context a) = Side_BUY then Act_BUY else Act_SELL))))"

definition place_entry :: "'b executor \<Rightarrow> entry_args \<Rightarrow> int \<Rightarrow> approval_status \<Rightarrow> web_verification \<Rightarrow> int
     \<Rightarrow> ('b world, execution_result) meth" where
  "place_entry xe a oid st v eq =
     mbind (mlift (\<lambda>_. mk_order_request (ea_account_id a) (td_symbol (ea_decision a)) (oc_side (entry_context a))
        (td_order_type (ea_decision a)) eq (Some (entry_price a)))) (\<lambda>rq.
     mbind (broker_order xe rq) (\<lambda>r.
       if or_status r \<notin> {FILLED, PARTIALLY_FILLED} then fail_order xe (entry_context a) oid eq st v (or_status r)
       else book_fill xe a oid st v eq r))"

definition entry_body :: "'b executor \<Rightarrow> entry_args \<Rightarrow> int \<Rightarrow> ('b world, execution_result) meth" where
  "entry_body xe a oid = gate_order xe (entry_context a) oid False (entry_approval a oid) (\<lambda>st v.
     mbind (effective_quantity xe a oid st v) (\<lambda>eq. case eq of
       Inl r \<Rightarrow> mret r | Inr q \<Rightarrow> place_entry xe a oid st v q))"

definition execute_entry :: "'b executor \<Rightarrow> entry_args \<Rightarrow> ('b world, execution_result) meth" where
  "execute_entry xe a = guarded_order xe (entry_context a)
     (create_order (xe_faults xe) (ea_account_id a) (td_symbol (ea_decision a)) (oc_side (entry_context a))
        (td_order_type (ea_decision a)) (td_quantity (ea_decision a)) (entry_price a) (ea_session_id a))
     (entry_body xe a)"

section \<open>Exit\<close>

fun exit_action :: "exit_reason \<Rightarrow> decision_action" where
  "exit_action Exit_STOP_LOSS = Act_STOP_LOSS"
| "exit_action Exit_TAKE_PROFIT = Act_TAKE_PROFIT"
| "exit_action _ = Act_SELL"

record exit_args =
  xa_signal :: exit_signal
  xa_position :: position_record
  xa_session_id :: uuid
  xa_parent_id :: "uuid option"
  xa_account_id :: string

definition exit_order_type :: "exit_signal \<Rightarrow> order_type" where
  "exit_order_type x = (if xs_reason x = Exit_STOP_LOSS \<and> xs_urgency x = ''immediate'' then MARKET else LIMIT)"

definition exit_trade_decision :: "exit_signal \<Rightarrow> position_record \<Rightarrow> trade_decision" where
  "exit_trade_decision x p = \<lparr>td_symbol = xs_symbol x, td_action = exit_action (xs_reason x),
     td_confidence = 9 / 10, td_order_type = exit_order_type x, td_quantity = pr_quantity p,
     td_price = Some (xs_current_price x), td_stop_loss_price = None, td_take_profit_price = None\<rparr>"

definition exit_context :: "exit_args \<Rightarrow> order_context" where
  "exit_context a = \<lparr>oc_symbol = xs_symbol (xa_signal a), oc_side = Side_SELL,
     oc_quantity = pr_quantity (xa_position a), oc_session_id = xa_session_id a, oc_parent_id = xa_parent_id a,
     oc_account_id = xa_account_id a, oc_stage = Stage_EXIT\<rparr>"

definition exit_approval :: "exit_args \<Rightarrow> int \<Rightarrow> portfolio_state \<Rightarrow> approval_args" where
  "exit_approval a oid ps = \<lparr>aa_decision = exit_trade_decision (xa_signal a) (xa_position a), aa_order_id = oid,
     aa_session_id = xa_session_id a, aa_state = ps, aa_account_id = xa_account_id a\<rparr>"

text \<open>The position is closed as a whole, whatever the filled quantity is.\<close>

definition book_exit_fill :: "'b executor \<Rightarrow> exit_args \<Rightarrow> int \<Rightarrow> approval_status \<Rightarrow> web_verification
     \<Rightarrow> order_result \<Rightarrow> ('b world, execution_result) meth" where
  "book_exit_fill xe a oid st v r =
     (let p = xa_position a; x = xa_signal a; q = fill_quantity r (pr_quantity p); price = fill_price r (xs_current_price x) in
      mbind (record_execution (xe_faults xe) oid (or_order_id r) price q (or_commission r)) (\<lambda>_.
      mbind (mcatch (mbind (close_position (xe_faults xe) (fst (xe_now xe)) (pr_id p) \<lparr>ca_exit_price = price,
                ca_exit_reason = xs_reason x, ca_exit_session_id = Some (xa_session_id a)\<rparr>) (\<lambda>_. mret ()))
               (\<lambda>_. mret ())) (\<lambda>_.
      finish_order xe (exit_context a) oid st v r q price (Some (pr_id p)) (exit_action (xs_reason x)))))"

definition place_exit :: "'b executor \<Rightarrow> exit_args \<Rightarrow> int \<Rightarrow> approval_status \<Rightarrow> web_verification
     \<Rightarrow> ('b world, execution_result) meth" where
  "place_exit xe a oid st v =
     mbind (mlift (\<lambda>_. mk_order_request (xa_account_id a) (xs_symbol (xa_signal a)) Side_SELL
        (exit_order_type (xa_signal a)) (pr_quantity (xa_position a)) (Some (xs_current_price (xa_signal a))))) (\<lambda>rq.
     mbind (broker_order xe rq) (\<lambda>r.
       if or_status r \<notin> {FILLED, PARTIALLY_FILLED}
       then fail_order xe (exit_context a) oid (pr_quantity (xa_position a)) st v (or_status r)
       else book_exit_fill xe a oid st v r))"

definition exit_body :: "'b executor \<Rightarrow> exit_args \<Rightarrow> int \<Rightarrow> ('b world, execution_result) meth" where
  "exit_body xe a oid = gate_order xe (exit_context a) oid (xs_reason (xa_signal a) = Exit_STOP_LOSS)
     (exit_approval a oid) (place_exit xe a oid)"

definition execute_exit :: "'b executor \<Rightarrow> exit_args \<Rightarrow> ('b world, execution_result) meth" where
  "execute_exit xe a = guarded_order xe (exit_context a)
     (create_order (xe_faults xe) (xa_account_id a) (xs_symbol (xa_signal a)) Side_SELL
        (exit_order_type (xa_signal a)) (pr_quantity (xa_position a)) (xs_current_price (xa_signal a)) (xa_session_id a))
     (exit_body xe a)"

end
