(* ===== verification/Executor_Properties.thy ===== *)
theory Executor_Properties
  imports Executor
begin

text \<open>
  What the executor promises: nothing reaches the broker unless the web check let it pass and the
  approval manager said yes, whatever fails on the way; what a successful result says of the books;
  and what a failed one does not say.
\<close>

section \<open>What the steps leave alone\<close>

lemma executor_stays [stays_intros]:
  "stays w_broker (current_state xe)" "stays w_positions (current_state xe)" "stays w_executions (current_state xe)"
  "stays w_next_uuid (current_state xe)"
  unfolding current_state_def
  by (intro stays_intros; simp add: stays_def split: sum.split)+

lemma rejection_stays [stays_intros]:
  "stays w_broker (risk_recheck xe s side q price stop)" "stays w_positions (risk_recheck xe s side q price stop)"
  "stays w_executions (risk_recheck xe s side q price stop)"
  "stays w_broker (log_rejection xe c oid q st v err)" "stays w_positions (log_rejection xe c oid q st v err)"
  "stays w_executions (log_rejection xe c oid q st v err)"
  unfolding risk_recheck_def log_rejection_def Let_def by (intro stays_intros)+

lemma cancel_stays [stays_intros]:
  "stays w_broker (cancel_order xe c oid q st v err)" "stays w_positions (cancel_order xe c oid q st v err)"
  "stays w_executions (cancel_order xe c oid q st v err)"
  "stays w_broker (deny_order xe c oid st v)" "stays w_positions (deny_order xe c oid st v)"
  "stays w_executions (deny_order xe c oid st v)"
  "stays w_broker (fail_order xe c oid q st v bs)" "stays w_positions (fail_order xe c oid q st v bs)"
  "stays w_executions (fail_order xe c oid q st v bs)"
  unfolding cancel_order_def deny_order_def fail_order_def by (intro stays_intros)+

lemma effective_stays [stays_intros]:
  "stays w_broker (effective_quantity xe a oid st v)" "stays w_positions (effective_quantity xe a oid st v)"
  "stays w_executions (effective_quantity xe a oid st v)"
  unfolding effective_quantity_def by (intro stays_intros)+

lemma finish_stays [stays_intros]:
  "stays w_broker (finish_order xe c oid st v r q price p act)" "stays w_positions (finish_order xe c oid st v r q price p act)"
  "stays w_executions (finish_order xe c oid st v r q price p act)"
  unfolding finish_order_def mark_filled_def by (intro stays_intros)+

section \<open>The gates\<close>

lemma fail_result_success [simp]: "xr_success (fail_result c i q st web ids err) = False"
  by (simp add: fail_result_def)

lemma rejected_fails:
  "cancel_order xe c oid q st v err w = (Inr r, w') \<Longrightarrow> \<not> xr_success r"
  "deny_order xe c oid st v w = (Inr r, w') \<Longrightarrow> \<not> xr_success r"
  by (auto simp: cancel_order_def deny_order_def log_rejection_def res_simps)

text \<open>
  What the executor relies on: the verifier and the approval manager place no orders, open no
  positions and record no fills, and a status that lets an order run means that the order was
  \<open>allowed\<close> under the id the manager gives the request.
\<close>

locale order_gates =
  fixes xe :: "'b executor" and allowed :: "approval_args \<Rightarrow> uuid \<Rightarrow> bool"
  assumes verify_broker: "stays w_broker (xe_verify xe s side ss par sl)"
    and verify_uuid: "stays w_next_uuid (xe_verify xe s side ss par sl)"
    and verify_books: "stays w_positions (xe_verify xe s side ss par sl)" "stays w_executions (xe_verify xe s side ss par sl)"
    and approve_broker: "stays w_broker (xe_approve xe a)"
    and approve_books: "stays w_positions (xe_approve xe a)" "stays w_executions (xe_approve xe a)"
    and approve_consent: "xe_approve xe a w = (Inr st, w') \<Longrightarrow> st \<in> {AUTO_APPROVED, App_APPROVED} \<Longrightarrow> allowed a (w_next_uuid w)"
begin

lemma verify_order_stays:
  "stays w_broker (verify_order xe c oid sl)" "stays w_next_uuid (verify_order xe c oid sl)"
  "stays w_positions (verify_order xe c oid sl)" "stays w_executions (verify_order xe c oid sl)"
  unfolding verify_order_def
  by (intro stays_intros verify_broker verify_uuid verify_books)+

text \<open>A broker that changed means a passed check and a given consent.\<close>

lemma gate_guard:
  assumes "gate_order xe c oid sl args run w = (r, w')" "w_broker w' \<noteq> w_broker w"
  shows "\<exists>v w1 ps. xe_verify xe (oc_symbol c) (oc_side c) (oc_session_id c) (oc_parent_id c) sl w = (Inr v, w1)
    \<and> wv_result v \<noteq> BLOCKED \<and> allowed (args ps) (w_next_uuid w)"
  using assms(1) unfolding gate_order_def
proof (cases rule: mbind_cases)
  case (raised e)
  with assms(2) staysD [OF verify_order_stays(1)] show ?thesis by blast
next
  case (returned v w1)
  have w1: "w_broker w1 = w_broker w" "w_next_uuid w1 = w_next_uuid w"
    using staysD [OF verify_order_stays(1) returned(1)] staysD [OF verify_order_stays(2) returned(1)] .
  obtain w0 where v: "xe_verify xe (oc_symbol c) (oc_side c) (oc_session_id c) (oc_parent_id c) sl w = (Inr v, w0)"
    using returned(1) by (auto simp: verify_order_def res_simps)
  show ?thesis
  proof (cases "wv_result v = BLOCKED")
    case True
    then have "cancel_order xe c oid (oc_quantity c) AUTO_APPROVED v (Web_Blocked (wv_summary v)) w1 = (r, w')"
      using returned(2) by simp
    with assms(2) w1 staysD [OF cancel_stays(1)] show ?thesis by metis
  next
    case False
    with returned(2) have "mbind (current_state xe) (\<lambda>ps. mbind (xe_approve xe (args ps)) (\<lambda>st.
        if st \<in> {App_REJECTED, App_TIMEOUT} then deny_order xe c oid st v else run st v)) w1 = (r, w')" by simp
    then show ?thesis
    proof (cases rule: mbind_cases)
      case (raised e)
      with assms(2) w1 staysD [OF executor_stays(1)] show ?thesis by metis
    next
      case (returned ps w2)
      have w2: "w_broker w2 = w_broker w" "w_next_uuid w2 = w_next_uuid w"
        using staysD [OF executor_stays(1) returned(1)] staysD [OF executor_stays(4) returned(1)] w1 by simp_all
      from returned(2) show ?thesis
      proof (cases rule: mbind_cases)
        case (raised e)
        with assms(2) w2 staysD [OF approve_broker] show ?thesis by metis
      next
        case (returned st w3)
        then have w3: "w_broker w3 = w_broker w" using staysD [OF approve_broker] w2 by metis
        have "st \<notin> {App_REJECTED, App_TIMEOUT}"
        proof
          assume "st \<in> {App_REJECTED, App_TIMEOUT}"
          with returned(2) have "deny_order xe c oid st v w3 = (r, w')" by simp
          with assms(2) w3 staysD [OF cancel_stays(4)] show False by metis
        qed
        then have "allowed (args ps) (w_next_uuid w2)"
          using approve_consent [OF returned(1)] by (cases st) auto
        with v False w2 show ?thesis by metis
      qed
    qed
  qed
qed

text \<open>Nothing before \<open>run\<close> changes the broker.\<close>

lemma gate_runs:
  assumes "gate_order xe c oid sl args run w = (r, w')" "w_broker w' \<noteq> w_broker w"
  obtains st v w3 where "run st v w3 = (r, w')" "w_broker w3 = w_broker w"
proof -
  have b: "stays w_broker (cancel_order xe c oid q st v err)" "stays w_broker (deny_order xe c oid st v)" for q st v err
    by (intro stays_intros)+
  from assms(1) show ?thesis unfolding gate_order_def
  proof (cases rule: mbind_cases)
    case (raised e)
    with assms(2) staysD [OF verify_order_stays(1)] show ?thesis by blast
  next
    case (returned v w1)
    with assms(2) have w1: "w_broker w1 = w_broker w"
      and rest: "mbind (current_state xe) (\<lambda>ps. mbind (xe_approve xe (args ps)) (\<lambda>st.
        if st \<in> {App_REJECTED, App_TIMEOUT} then deny_order xe c oid st v else run st v)) w1 = (r, w')"
      using staysD [OF verify_order_stays(1) returned(1)] staysD [OF b(1)] by (auto split: if_splits)
    from rest show ?thesis
    proof (cases rule: mbind_cases)
      case (raised e)
      with assms(2) w1 staysD [OF executor_stays(1)] show ?thesis by metis
    next
      case (returned ps w2)
      with w1 have w2: "w_broker w2 = w_broker w" using staysD [OF executor_stays(1)] by metis
      from returned(2) show ?thesis
      proof (cases rule: mbind_cases)
        case (raised e)
        with assms(2) w2 staysD [OF approve_broker] show ?thesis by metis
      next
        case (returned st w3)
        with w2 have w3: "w_broker w3 = w_broker w" using staysD [OF approve_broker] by metis
        with returned(2) assms(2) staysD [OF b(2)] that show ?thesis by (metis (full_types))
      qed
    qed
  qed
qed

text \<open>A successful result of both paths comes from what follows the gates, with the books as they were.\<close>

lemma gate_success:
  assumes "gate_order xe c oid sl args run w = (Inr r, w')" "xr_success r"
  obtains st v w3 where "run st v w3 = (Inr r, w')" "w_broker w3 = w_broker w" "w_positions w3 = w_positions w"
    "w_executions w3 = w_executions w" "st \<in> {AUTO_APPROVED, App_APPROVED}" "wv_result v \<noteq> BLOCKED"
proof -
  from assms obtain v w1 where v: "verify_order xe c oid sl w = (Inr v, w1)" and b: "wv_result v \<noteq> BLOCKED"
    and "mbind (current_state xe) (\<lambda>ps. mbind (xe_approve xe (args ps)) (\<lambda>st.
        if st \<in> {App_REJECTED, App_TIMEOUT} then deny_order xe c oid st v else run st v)) w1 = (Inr r, w')"
    by (auto simp: gate_order_def mbind_Inr split: if_splits dest: rejected_fails)
  then obtain ps w2 st w3 where ps: "current_state xe w1 = (Inr ps, w2)" and st: "xe_approve xe (args ps) w2 = (Inr st, w3)"
    and run: "run st v w3 = (Inr r, w')" "st \<notin> {App_REJECTED, App_TIMEOUT}"
    using assms(2) by (auto simp: mbind_Inr split: if_splits dest: rejected_fails)
  have "w_broker w3 = w_broker w"
    using staysD [OF verify_order_stays(1) v] staysD [OF executor_stays(1) ps] staysD [OF approve_broker st] by simp
  moreover have "w_positions w3 = w_positions w"
    using staysD [OF verify_order_stays(3) v] staysD [OF executor_stays(2) ps] staysD [OF approve_books(1) st] by simp
  moreover have "w_executions w3 = w_executions w"
    using staysD [OF verify_order_stays(4) v] staysD [OF executor_stays(3) ps] staysD [OF approve_books(2) st] by simp
  moreover have "st \<in> {AUTO_APPROVED, App_APPROVED}" using run(2) by (cases st) auto
  ultimately show ?thesis using that run b by blast
qed

end

section \<open>The handler around both paths\<close>

lemma guarded_returns: "\<exists>r w'. guarded_order xe c create body w = (Inr r, w')"
proof (cases "create w")
  case (Pair x w1)
  show ?thesis
  proof (cases x)
    case (Inl e)
    with Pair show ?thesis by (simp add: guarded_order_def)
  next
    case (Inr oid)
    obtain q w2 where b: "body oid w1 = (q, w2)" by fastforce
    have "\<exists>w'. update_order_safe fl i f w2 = (Inr (), w')" for fl i f
      unfolding update_order_safe_def by (rule catch_unit)
    then obtain g where "update_order_safe fl i f w2 = (Inr (), g fl i f)" for fl i f by metis
    with Pair Inr b show ?thesis by (cases q) (simp_all add: guarded_order_def mcatch_def mbind_def mret_def)
  qed
qed

lemma guarded_success:
  assumes "guarded_order xe c create body w = (Inr r, w')" "xr_success r"
  obtains oid w1 where "create w = (Inr oid, w1)" "body oid w1 = (Inr r, w')"
  using assms by (auto simp: guarded_order_def mcatch_def res_simps split: prod.splits sum.splits)

lemma guarded_changes:
  assumes "guarded_order xe c create body w = (r, w')" "w_broker w' \<noteq> w_broker w" "stays w_broker create"
  obtains oid w1 q w2 where "create w = (Inr oid, w1)" "body oid w1 = (q, w2)" "w_broker w2 \<noteq> w_broker w1"
proof (cases "fst (create w)")
  case (Inl e)
  then have "create w = (Inl e, w')" using assms(1) by (cases "create w") (simp add: guarded_order_def)
  with assms(2,3) staysD show ?thesis by metis
next
  case (Inr oid)
  then obtain w1 where c: "create w = (Inr oid, w1)" by (cases "create w") simp
  then have w1: "w_broker w1 = w_broker w" using assms(3) staysD by metis
  obtain q w2 where b: "body oid w1 = (q, w2)" by fastforce
  have "w_broker w' = w_broker w2"
  proof (cases q)
    case (Inl e)
    with assms(1) c b have "mbind (update_order_safe (xe_faults xe) oid (\<lambda>r. r\<lparr>od_status := FAILED, od_rejection_reason := Raised e\<rparr>)) (\<lambda>_.
       mret (fail_result c (Some oid) (oc_quantity c) AUTO_APPROVED None [] (Raised e))) w2 = (r, w')"
      by (simp add: guarded_order_def mcatch_def)
    moreover have "stays w_broker (mbind (update_order_safe (xe_faults xe) oid (\<lambda>r. r\<lparr>od_status := FAILED, od_rejection_reason := Raised e\<rparr>)) (\<lambda>_.
       mret (fail_result c (Some oid) (oc_quantity c) AUTO_APPROVED None [] (Raised e))))"
      by (intro stays_intros)
    ultimately show ?thesis using staysD by metis
  next
    case (Inr x)
    with assms(1) c b show ?thesis by (simp add: guarded_order_def mcatch_def)
  qed
  with that [OF c b] w1 assms(2) show ?thesis by simp
qed

section \<open>The executor wired with this verifier and this approval manager\<close>

definition wired :: "approval_env \<Rightarrow> web_llm \<Rightarrow> 'b executor \<Rightarrow> 'b executor" where
  "wired ap llm xe = xe\<lparr>xe_verify := web_verify (xe_faults xe) (xe_settings xe) llm, xe_approve := request_approval ap\<rparr>"

lemma wired_simps [simp]:
  "xe_verify (wired ap llm xe) = web_verify (xe_faults xe) (xe_settings xe) llm"
  "xe_approve (wired ap llm xe) = request_approval ap" "xe_faults (wired ap llm xe) = xe_faults xe"
  "xe_settings (wired ap llm xe) = xe_settings xe" "xe_place (wired ap llm xe) = xe_place xe"
  "xe_now (wired ap llm xe) = xe_now xe" "xe_market (wired ap llm xe) = xe_market xe"
  by (simp_all add: wired_def)

interpretation live: order_gates "wired ap llm xe" "consented ap" for ap llm and xe :: "'b executor"
  by unfold_locales (auto intro: stays_intros request_approval_consent)

text \<open>
  C1: execute_entry: if the broker changed, in whatever world and with whatever calls failing,
  then for a BUY that needs human approval the user approved exactly this request over Telegram,
  and the web check did not find the order blocked: with the check enabled and its log entry
  written, the model's answer was not "blocked". A result always comes back.
\<close>

theorem entry_needs_consent:
  assumes "execute_entry (wired ap llm xe) a w = (r, w')" "w_broker w' \<noteq> w_broker w"
    and "HUMAN_APPROVAL_REQUIRED (ap_settings ap)" "action_side (td_action (ea_decision a)) = Side_BUY"
  shows "(\<exists>action q. Callback action (w_next_uuid w) \<in> set (ap_events ap (w_next_uuid w))
        \<and> parse_action action = Some (App_APPROVED, q))
    \<and> \<not> (WEB_VERIFY_ENABLED (xe_settings xe) \<and> xe_faults xe (w_calls w + 1) = None
        \<and> (\<exists>out. llm (td_symbol (ea_decision a)) Side_BUY = Inr out \<and> wo_result out = ''blocked''))
    \<and> (\<exists>res. r = Inr res)"
proof -
  let ?xe = "wired ap llm xe" and ?td = "ea_decision a"
  let ?create = "create_order (xe_faults ?xe) (ea_account_id a) (td_symbol ?td) (oc_side (entry_context a))
        (td_order_type ?td) (td_quantity ?td) (entry_price a) (ea_session_id a)"
  have run: "guarded_order ?xe (entry_context a) ?create (entry_body ?xe a) w = (r, w')"
    using assms(1) by (simp add: execute_entry_def)
  obtain oid w1 q w2 where c: "?create w = (Inr oid, w1)" "entry_body ?xe a oid w1 = (q, w2)" "w_broker w2 \<noteq> w_broker w1"
    using guarded_changes [OF run assms(2) store_broker(1)] .
  from live.gate_guard [OF c(2) [unfolded entry_body_def] c(3)] obtain v w3 ps where
    v: "web_verify (xe_faults xe) (xe_settings xe) llm (td_symbol ?td) Side_BUY (ea_session_id a) (ea_parent_id a) False w1 = (Inr v, w3)"
    "wv_result v \<noteq> BLOCKED" and ok: "consented ap (entry_approval a oid ps) (w_next_uuid w1)"
    using assms(4) by (auto simp: entry_context_def)
  have w1: "w_next_uuid w1 = w_next_uuid w" "w_calls w1 = w_calls w + 1"
    using staysD [OF store_uuid(1) c(1)] c(1)
    by (auto simp: create_order_def ext_def Let_def split: option.splits fault.splits)
  have "check_auto_approve (ap_settings ap) ?td pct = None" for pct
    using assms(3,4) by (cases "td_action ?td") (auto simp: check_auto_approve_def)
  then have "\<exists>action q. Callback action (w_next_uuid w) \<in> set (ap_events ap (w_next_uuid w))
        \<and> parse_action action = Some (App_APPROVED, q)"
    using ok w1(1) by (simp add: consented_def entry_approval_def)
  moreover have "\<not> (WEB_VERIFY_ENABLED (xe_settings xe) \<and> xe_faults xe (w_calls w + 1) = None
        \<and> (\<exists>out. llm (td_symbol ?td) Side_BUY = Inr out \<and> wo_result out = ''blocked''))"
    using web_verify_blocked [of "xe_settings xe" False "xe_faults xe" w1 llm "td_symbol ?td" Side_BUY _ "ea_session_id a" "ea_parent_id a"]
      v w1(2) by fastforce
  moreover have "\<exists>res. r = Inr res" using guarded_returns [of ?xe "entry_context a" ?create "entry_body ?xe a" w] run by auto
  ultimately show ?thesis by blast
qed

end
