(* ===== verification/Executor_Sample.thy ===== *)
theory Executor_Sample
  imports Executor_Properties
begin

text \<open>
  One entry run to its end on the in-memory broker: a BUY of ten shares that its user approves.
  The witnesses of the executor's properties use it.
\<close>

definition sample_now :: datetime where
  "sample_now = (738000, 600)"

definition base_executor :: "fault_plan \<Rightarrow> mock_broker executor" where
  "base_executor fl = \<lparr>xe_faults = fl, xe_settings = default_settings, xe_market = no_market_data,
     xe_services = sample_services, xe_account = ''default'', xe_now = sample_now,
     xe_balance = (\<lambda>b. Inr (mb_get_balance sample_now b)), xe_holdings = (\<lambda>b. Inr (mb_get_positions b)),
     xe_place = mb_place_order sample_now, xe_verify = (\<lambda>s _ _ _ _. mret (safe_default s '''')),
     xe_approve = (\<lambda>_. mret App_REJECTED)\<rparr>"

definition sample_approvals :: "fault_plan \<Rightarrow> user_event list \<Rightarrow> approval_env" where
  "sample_approvals fl es = \<lparr>ap_faults = fl, ap_settings = default_settings, ap_clock = \<lambda>n. 1000 + int n,
     ap_message_id = \<lambda>_. Some 55, ap_events = \<lambda>_. es\<rparr>"

definition calm_web :: web_llm where
  "calm_web s side = Inr \<lparr>wo_result = ''safe'', wo_summary = ''nothing'', wo_issues = [], wo_news_count = 4,
     wo_reasoning = ''nothing'', wo_cost_usd = 1 / 100\<rparr>"

definition sample_executor :: "fault_plan \<Rightarrow> user_event list \<Rightarrow> mock_broker executor" where
  "sample_executor fl es = wired (sample_approvals fl es) calm_web (base_executor fl)"

definition sample_entry :: entry_args where
  "sample_entry = \<lparr>ea_decision = sample_decision, ea_session_id = 7, ea_strategy_type = ''swing'',
     ea_parent_id = None, ea_account_id = ''default''\<rparr>"

definition sample_world :: "mock_broker world" where
  "sample_world = new_world sample_mock"

lemma sample_balance_value: "mb_get_balance sample_now sample_mock = \<lparr>b_total_assets = 100000000, b_cash = 100000000,
    b_invested = 0, b_unrealized_pnl = 0, b_realized_pnl = 0, b_daily_pnl = 0, b_daily_pnl_pct = 0,
    b_positions_count = 0, b_timestamp = sample_now\<rparr>"
  by (simp add: mb_get_balance_def mb_get_positions_def sample_mock_def mb_init_def dict_values_def dec_eval)

definition sample_portfolio :: portfolio_state where
  "sample_portfolio = \<lparr>ps_account_id = ''default'', ps_total_value = 100000000, ps_cash = 100000000, ps_invested = 0,
     ps_unrealized_pnl = 0, ps_daily_pnl = 0, ps_daily_pnl_pct = 0, ps_drawdown_pct = 0, ps_peak_value = 100000000,
     ps_positions = [], ps_sector_allocations = [], ps_daily_trade_count = 0, ps_timestamp = sample_now\<rparr>"

text \<open>The steps up to the broker, when the first twelve external calls do not fail.\<close>

definition sample_log :: "log_row" where
  "sample_log = \<lparr>lg_decision_id = 0, lg_session_id = 7, lg_stage = Stage_EXECUTION, lg_decision = ''safe'',
     lg_symbol = ''005930'', lg_parent_id = None, lg_account_id = ''default''\<rparr>"

definition sample_order_row :: order_row where
  "sample_order_row = new_order_row 1 ''default'' ''005930'' Side_BUY LIMIT 10 70000 7"

definition calm_verification :: web_verification where
  "calm_verification = \<lparr>wv_symbol = ''005930'', wv_result = SAFE, wv_summary = ''nothing'', wv_issues = [],
     wv_news_checked = 4, wv_cost_usd = 1 / 100, wv_reasoning = ''nothing''\<rparr>"

definition checked_row :: order_row where
  "checked_row = sample_order_row\<lparr>od_web_verify_result := Some SAFE, od_web_verify_summary := ''nothing''\<rparr>"

definition created_world :: "mock_broker world" where
  "created_world = sample_world\<lparr>w_calls := 1, w_next_order_id := 2, w_orders := [sample_order_row]\<rparr>"

definition checked_world :: "mock_broker world" where
  "checked_world = sample_world\<lparr>w_calls := 4, w_next_order_id := 2, w_orders := [checked_row], w_log := [sample_log]\<rparr>"

lemma sample_entry_context:
  "entry_context sample_entry = \<lparr>oc_symbol = ''005930'', oc_side = Side_BUY, oc_quantity = 10, oc_session_id = 7,
     oc_parent_id = None, oc_account_id = ''default'', oc_stage = Stage_EXECUTION\<rparr>"
  "entry_price sample_entry = 70000" "td_quantity (ea_decision sample_entry) = 10" "ea_account_id sample_entry = ''default''"
  "td_symbol (ea_decision sample_entry) = ''005930''" "td_order_type (ea_decision sample_entry) = LIMIT"
  "ea_session_id sample_entry = 7"
  by (simp_all add: entry_context_def entry_price_def sample_entry_def sample_decision_def)

lemma sample_fields:
  "xe_faults (sample_executor fl es) = fl" "xe_place (sample_executor fl es) = mb_place_order sample_now"
  "xe_verify (sample_executor fl es) = web_verify fl default_settings calm_web"
  "xe_approve (sample_executor fl es) = request_approval (sample_approvals fl es)"
  "xe_now (sample_executor fl es) = sample_now"
  by (simp_all add: sample_executor_def wired_def base_executor_def)

lemma sample_create:
  assumes fl: "\<forall>n < 12. fl n = None"
  shows "create_order fl ''default'' ''005930'' Side_BUY LIMIT 10 70000 7 sample_world = (Inr 1, created_world)"
  by (simp add: create_order_def ext_def fl sample_world_def new_world_def created_world_def sample_order_row_def Let_def)

lemma sample_verified:
  assumes fl: "\<forall>n < 12. fl n = None"
  shows "verify_order (sample_executor fl es) (entry_context sample_entry) 1 False created_world
     = (Inr calm_verification, checked_world\<lparr>w_calls := 3\<rparr>)"
  by (simp add: verify_order_def sample_fields sample_entry_context web_verify_def default_settings_def calm_web_def
      meth_defs parse_web_result_def record_decision_def ext_def fl created_world_def sample_world_def new_world_def Let_def
      update_order_def effect_def set_order_def web_verification_of_def)
    (simp add: checked_world_def calm_verification_def sample_log_def checked_row_def sample_order_row_def new_order_row_def
      sample_world_def new_world_def)

lemma sample_state_step:
  assumes fl: "\<forall>n < 12. fl n = None"
  shows "current_state (sample_executor fl es) (checked_world\<lparr>w_calls := 3\<rparr>) = (Inr sample_portfolio, checked_world)"
proof -
  have h: "mb_get_positions sample_mock = []"
    by (simp add: mb_get_positions_def sample_mock_def mb_init_def dict_values_def)
  have g: "get_current_state sample_services ''default'' sample_now (Inr (mb_get_balance sample_now sample_mock)) (Inr [])
      [] \<lparr>pt_rows = [], pt_next_id = 1\<rparr> [] = Inr (sample_portfolio, [])"
    by (simp add: get_current_state_def sample_balance_value get_sector_allocations_def get_peak_value_def
       get_daily_trade_count_def Let_def sample_portfolio_def dec_eval sample_services_def [THEN arg_cong, of sv_db_up])
  show ?thesis
    by (simp add: current_state_def sample_executor_def wired_def base_executor_def g h fl ext_def
        checked_world_def sample_world_def new_world_def)
qed

lemma sample_parse: "parse_action ''approve'' = Some (App_APPROVED, None)"
  by (simp add: parse_action_def)

definition approved_row :: order_row where
  "approved_row = checked_row\<lparr>od_approval_status := App_APPROVED\<rparr>"

lemma sample_approved:
  assumes fl: "\<forall>n < 12. fl n = None"
  shows "\<exists>w'. request_approval (sample_approvals fl [Callback ''approve'' 100]) (entry_approval sample_entry 1 sample_portfolio)
      checked_world = (Inr App_APPROVED, w') \<and> w_calls w' = 11 \<and> w_orders w' = [approved_row]"
  apply (simp add: request_approval_def fresh_uuid_def meth_defs checked_world_def sample_world_def new_world_def
     entry_approval_def sample_entry_def sample_approvals_def check_auto_approve_def sample_decision_def default_settings_def)
  apply (simp add: handle_manual_approve_def Let_def meth_defs effect_def send_message_def add_approval_def cache_status_def
    update_manager_def register_request_def new_approval_manager_def set_approval_def ext_def fl)
  apply (simp add: process_event_def handle_callback_def meth_defs sample_parse callback_db_def callback_cache_def
     callback_message_def notify_safe_def send_message_def effect_def write_answer_def Let_def set_approval_def
     find_approval_def set_order_approval_def set_order_def cache_status_def callback_signal_def update_manager_def
     is_signalled_def result_of_def forget_request_def answered_def ext_def fl)
  apply (simp add: checked_row_def sample_order_row_def new_order_row_def approved_row_def)
  done

lemma sample_quantity:
  assumes "\<forall>n < 12. fl n = None" "w_calls w = 11" "w_orders w = [approved_row]"
  shows "effective_quantity (sample_executor fl es) sample_entry 1 st v w = (Inr (Inr 10), w\<lparr>w_calls := 12\<rparr>)"
  using assms(2,3) by (simp add: effective_quantity_def sample_fields get_order_def ext_def assms(1) meth_defs find_order_def
     approved_row_def checked_row_def sample_order_row_def new_order_row_def sample_entry_context)

text \<open>Everything up to the broker, in one step.\<close>

lemma sample_reaches_broker:
  assumes fl: "\<forall>n < 12. fl n = None"
  shows "\<exists>w4. entry_body (sample_executor fl [Callback ''approve'' 100]) sample_entry 1 created_world
      = place_entry (sample_executor fl [Callback ''approve'' 100]) sample_entry 1 App_APPROVED calm_verification 10 w4
    \<and> w_calls w4 = 12 \<and> w_orders w4 = [approved_row] \<and> w_broker w4 = sample_mock \<and> w_executions w4 = []
    \<and> w_positions w4 = \<lparr>pt_rows = [], pt_next_id = 1\<rparr>"
proof -
  let ?es = "[Callback ''approve'' 100]"
  obtain w3 where w3: "request_approval (sample_approvals fl ?es) (entry_approval sample_entry 1 sample_portfolio)
      checked_world = (Inr App_APPROVED, w3)" "w_calls w3 = 11" "w_orders w3 = [approved_row]"
    using sample_approved [OF fl] by blast
  have "w_broker w3 = sample_mock" "w_executions w3 = []" "w_positions w3 = \<lparr>pt_rows = [], pt_next_id = 1\<rparr>"
    using staysD [OF request_approval_stays(1) w3(1)] staysD [OF request_approval_stays(3) w3(1)]
      staysD [OF request_approval_stays(2) w3(1)] by (simp_all add: checked_world_def sample_world_def new_world_def)
  moreover have "entry_body (sample_executor fl ?es) sample_entry 1 created_world
      = place_entry (sample_executor fl ?es) sample_entry 1 App_APPROVED calm_verification 10 (w3\<lparr>w_calls := 12\<rparr>)"
    using sample_verified [OF fl, of ?es] sample_state_step [OF fl, of ?es] w3 sample_quantity [OF fl w3(2,3)]
    by (simp add: entry_body_def gate_order_def mbind_def sample_fields calm_verification_def)
  ultimately show ?thesis using w3(3) by (intro exI [of _ "w3\<lparr>w_calls := 12\<rparr>"]) simp
qed

lemma sample_place:
  "\<exists>b. mb_place_order sample_now \<lparr>rq_account_id = ''default'', rq_symbol = ''005930'', rq_side = Side_BUY, rq_type = LIMIT,
       rq_quantity = 10, rq_price = Some 70000\<rparr> sample_mock
     = (Inr \<lparr>or_account_id = ''default'', or_order_id = 1, or_symbol = ''005930'', or_side = Side_BUY, or_type = LIMIT,
          or_quantity = 10, or_price = 70000, or_status = FILLED, or_filled_quantity = 10, or_filled_price = Some 70000,
          or_commission = 0, or_timestamp = sample_now\<rparr>, b) \<and> mb_cash b = 99300000"
  by (simp add: mb_place_order_def mb_fill_price_def sample_mock_def mb_init_def mb_execute_def mb_execute_buy_def Let_def
      sample_price_def dec_eval)

end
