(* ===== verification/Executor_Claims.thy ===== *)
theory Executor_Claims
  imports Executor_Sample
begin

text \<open>
  The properties of \<open>OrderExecutor\<close>: what a successful entry and a successful exit say of the books,
  and the two cases in which the books do not say what the broker did.
\<close>

section \<open>A successful run of the last steps\<close>

lemma safe_keeps_orders:
  "stays w_orders (notify_safe fl msg)" "stays w_orders (record_decision_safe fl ss st d s par acct)"
  unfolding store_defs by (intro stays_intros; simp add: stays_def)+

lemma set_order_rows:
  assumes "o' \<in> set (w_orders (set_order i f w))" "od_id o' = i" "\<And>r. od_id (f r) = od_id r"
  shows "\<exists>r. o' = f r"
proof -
  have "(\<exists>r. o' = f r) \<or> od_id o' \<noteq> i"
    using assms(1) by (auto simp: set_order_def)
  with assms(2) show ?thesis by blast
qed

lemma update_order_Inr: "update_order fl i f w = (Inr u, w') \<Longrightarrow> w_orders w' = w_orders (set_order i f w)"
  by (auto simp: update_order_def ext_def effect_def set_order_def Let_def split: option.splits fault.splits)

lemma finish_success:
  assumes "finish_order xe c oid st v res q price pid action w = (Inr r, w')"
  shows "xr_success r \<and> xr_order_id r = Some oid \<and> xr_quantity r = q \<and> xr_fill_price r = Some price
    \<and> xr_position_id r = pid
    \<and> (\<forall>o' \<in> set (w_orders w'). od_id o' = oid \<longrightarrow> od_status o' = FILLED \<and> od_filled_quantity o' = q
         \<and> od_filled_price o' = Some price \<and> od_position_id o' = pid)"
proof -
  obtain w1 w2 w3 ids where w1: "mark_filled xe oid res q price pid w = (Inr (), w1)"
    and w2: "notify_safe (xe_faults xe) (Execution_Message (oc_symbol c) (oc_side c) q price (or_commission res) st) w1 = (Inr (), w2)"
    and w3: "record_decision_safe (xe_faults xe) (oc_session_id c) (oc_stage c) (decision_action_value action)
        (oc_symbol c) (oc_parent_id c) (oc_account_id c) w2 = (Inr ids, w')"
    and r: "xr_success r \<and> xr_order_id r = Some oid \<and> xr_quantity r = q \<and> xr_fill_price r = Some price \<and> xr_position_id r = pid"
    using assms by (auto simp: finish_order_def res_simps)
  have o: "w_orders w' = w_orders (set_order oid (\<lambda>o'. o'\<lparr>od_status := FILLED, od_broker_order_id := Some (or_order_id res),
        od_filled_quantity := q, od_filled_price := Some price, od_commission := or_commission res,
        od_position_id := pid\<rparr>) w)"
    using staysD [OF safe_keeps_orders(2) w3] staysD [OF safe_keeps_orders(1) w2] update_order_Inr [OF w1 [unfolded mark_filled_def]]
    by simp
  have "od_status o' = FILLED \<and> od_filled_quantity o' = q \<and> od_filled_price o' = Some price \<and> od_position_id o' = pid"
    if "o' \<in> set (w_orders w')" "od_id o' = oid" for o'
    using set_order_rows [OF that(1) [unfolded o] that(2)] by fastforce
  with r show ?thesis by blast
qed

lemma record_execution_Inr:
  "record_execution fl i b price q c w = (Inr u, w') \<Longrightarrow> w_executions w' = w_executions w @
     [\<lparr>ex_order_id = i, ex_broker_order_id = b, ex_fill_price = price, ex_fill_quantity = q, ex_commission = c\<rparr>]
   \<and> w_positions w' = w_positions w \<and> w_broker w' = w_broker w"
  by (auto simp: record_execution_def ext_def effect_def Let_def split: option.splits fault.splits)

lemma create_position_cases:
  assumes "mcatch (mbind (create_position fl today a) (\<lambda>p. mret (Some (pr_id p)))) (\<lambda>_. mret None) w = (Inr pid, w')"
  shows "(\<forall>i. pid = Some i \<longrightarrow> i = pt_next_id (w_positions w)
      \<and> pt_rows (w_positions w') = pt_rows (w_positions w) @ [new_record today a i]) \<and> (fl = no_faults \<longrightarrow> pid \<noteq> None)"
  using assms
  by (auto simp: create_position_def meth_defs ext_def pm_create_def Let_def new_record_def
      split: option.splits fault.splits)

lemma create_safe_stays:
  "stays w_broker (mcatch (mbind (create_position fl today a) (\<lambda>p. mret (Some (pr_id p)))) (\<lambda>_. mret None))"
  "stays w_executions (mcatch (mbind (create_position fl today a) (\<lambda>p. mret (Some (pr_id p)))) (\<lambda>_. mret None))"
  by (intro stays_intros)+

lemma finish_keeps:
  assumes "finish_order xe c oid st v res q price pid action w = (Inr r, w')"
  shows "w_executions w' = w_executions w" "w_positions w' = w_positions w" "w_broker w' = w_broker w"
  using staysD [OF finish_stays(3) assms] staysD [OF finish_stays(2) assms] staysD [OF finish_stays(1) assms] .

lemma effective_Inr:
  assumes "effective_quantity xe a oid st v w = (Inr (Inr q), w')"
  shows "q = td_quantity (ea_decision a) \<or> (\<exists>mq ps rk. risk_check (xe_settings xe) (xe_market xe) ps (td_symbol (ea_decision a))
      (if oc_side (entry_context a) = Side_BUY then Sig_BUY else Sig_SELL) mq (entry_price a)
      (td_stop_loss_price (ea_decision a)) '''' = Inr rk \<and> rk_passed rk
      \<and> q = (if rk_adjusted_quantity rk = 0 then mq else rk_adjusted_quantity rk))"
proof -
  obtain row w1 where "get_order (xe_faults xe) oid w = (Inr row, w1)"
    and e: "(case Option.bind row od_modified_quantity of
       None \<Rightarrow> mret (Inr (td_quantity (ea_decision a)))
     | Some mq \<Rightarrow>
         mbind (risk_recheck xe (td_symbol (ea_decision a)) (oc_side (entry_context a)) mq (entry_price a)
            (td_stop_loss_price (ea_decision a))) (\<lambda>rk.
         if \<not> rk_passed rk
         then mbind (cancel_order xe (entry_context a) oid mq st v (Risk_Failed (rk_violations rk))) (\<lambda>r. mret (Inl r))
         else mret (Inr (if rk_adjusted_quantity rk = 0 then mq else rk_adjusted_quantity rk)))) w1 = (Inr (Inr q), w')"
    using assms by (auto simp: effective_quantity_def mbind_Inr)
  show ?thesis
  proof (cases "Option.bind row od_modified_quantity")
    case None
    with e show ?thesis by (simp add: res_simps)
  next
    case (Some mq)
    with e obtain rk w2 where rk: "risk_recheck xe (td_symbol (ea_decision a)) (oc_side (entry_context a)) mq (entry_price a)
            (td_stop_loss_price (ea_decision a)) w1 = (Inr rk, w2)" "rk_passed rk"
        "q = (if rk_adjusted_quantity rk = 0 then mq else rk_adjusted_quantity rk)"
      by (auto simp: res_simps split: if_splits)
    then have "\<exists>ps. risk_check (xe_settings xe) (xe_market xe) ps (td_symbol (ea_decision a))
      (if oc_side (entry_context a) = Side_BUY then Sig_BUY else Sig_SELL) mq (entry_price a)
      (td_stop_loss_price (ea_decision a)) '''' = Inr rk"
      by (auto simp: risk_recheck_def Let_def res_simps mlift_def split: if_splits)
    with rk show ?thesis by blast
  qed
qed

lemma book_fill_success:
  fixes w :: "'b world"
  assumes "book_fill xe a oid st v eq res w = (Inr r, w')"
  defines "q \<equiv> fill_quantity res eq" and "price \<equiv> fill_price res (entry_price a)"
  shows "w_broker w' = w_broker w \<and> xr_quantity r = q \<and> xr_order_id r = Some oid
    \<and> w_executions w' = w_executions w @ [\<lparr>ex_order_id = oid, ex_broker_order_id = or_order_id res,
         ex_fill_price = price, ex_fill_quantity = q, ex_commission = or_commission res\<rparr>]
    \<and> (\<forall>o' \<in> set (w_orders w'). od_id o' = oid \<longrightarrow> od_status o' = FILLED \<and> od_filled_quantity o' = q)
    \<and> (\<forall>i. xr_position_id r = Some i \<longrightarrow> pt_rows (w_positions w') = pt_rows (w_positions w)
         @ [new_record (fst (xe_now xe)) (entry_position a q price) i])
    \<and> (xe_faults xe = no_faults \<longrightarrow> xr_position_id r \<noteq> None)"
proof -
  obtain w1 pid w2 where x: "record_execution (xe_faults xe) oid (or_order_id res) price q (or_commission res) w = (Inr (), w1)"
    and pid: "mcatch (mbind (create_position (xe_faults xe) (fst (xe_now xe)) (entry_position a q price)) (\<lambda>p. mret (Some (pr_id p))))
               (\<lambda>_. mret None) w1 = (Inr pid, w2)"
    and fin: "finish_order xe (entry_context a) oid st v res q price pid
        (if oc_side (entry_context a) = Side_BUY then Act_BUY else Act_SELL) w2 = (Inr r, w')"
    using assms by (auto simp: book_fill_def Let_def mbind_Inr)
  show ?thesis
    using record_execution_Inr [OF x] staysD [OF create_safe_stays(1) pid] staysD [OF create_safe_stays(2) pid]
      finish_success [OF fin] finish_keeps [OF fin] create_position_cases [OF pid] by simp
qed

text \<open>
  C2: execute_entry with a successful result: the broker filled one order for the decision's symbol
  and side, whose quantity is the decision's or a changed one that passed the risk check; exactly
  that fill is the new row of executions, the order row says FILLED with its quantity and price,
  and the position the result names is the one new row of positions, open, with the filled
  quantity and price, for a SELL decision too. Without faults there is such a position.
\<close>

theorem entry_success_books:
  assumes "execute_entry (wired ap llm xe) a w = (Inr r, w')" "xr_success r"
  shows "\<exists>rq res oid q. xe_place xe rq (w_broker w) = (Inr res, w_broker w')
    \<and> or_status res \<in> {FILLED, PARTIALLY_FILLED} \<and> rq_symbol rq = td_symbol (ea_decision a)
    \<and> rq_side rq = action_side (td_action (ea_decision a)) \<and> 0 < rq_quantity rq
    \<and> (rq_quantity rq = td_quantity (ea_decision a) \<or> (\<exists>mq ps rk. risk_check (xe_settings xe) (xe_market xe) ps
         (td_symbol (ea_decision a)) (if rq_side rq = Side_BUY then Sig_BUY else Sig_SELL) mq (entry_price a)
         (td_stop_loss_price (ea_decision a)) '''' = Inr rk \<and> rk_passed rk
         \<and> rq_quantity rq = (if rk_adjusted_quantity rk = 0 then mq else rk_adjusted_quantity rk)))
    \<and> q = fill_quantity res (rq_quantity rq) \<and> xr_quantity r = q \<and> xr_order_id r = Some oid
    \<and> w_executions w' = w_executions w @ [\<lparr>ex_order_id = oid, ex_broker_order_id = or_order_id res,
         ex_fill_price = fill_price res (entry_price a), ex_fill_quantity = q, ex_commission = or_commission res\<rparr>]
    \<and> (\<forall>o' \<in> set (w_orders w'). od_id o' = oid \<longrightarrow> od_status o' = FILLED \<and> od_filled_quantity o' = q)
    \<and> (\<forall>i. xr_position_id r = Some i \<longrightarrow> pt_rows (w_positions w') = pt_rows (w_positions w)
         @ [new_record (fst (xe_now xe)) (entry_position a q (fill_price res (entry_price a))) i])
    \<and> (xe_faults xe = no_faults \<longrightarrow> xr_position_id r \<noteq> None)"
proof -
  let ?xe = "wired ap llm xe" and ?td = "ea_decision a"
  let ?create = "create_order (xe_faults ?xe) (ea_account_id a) (td_symbol ?td) (oc_side (entry_context a))
        (td_order_type ?td) (td_quantity ?td) (entry_price a) (ea_session_id a)"
  have run: "guarded_order ?xe (entry_context a) ?create (entry_body ?xe a) w = (Inr r, w')"
    using assms(1) by (simp add: execute_entry_def)
  obtain oid w1 where c: "?create w = (Inr oid, w1)" "entry_body ?xe a oid w1 = (Inr r, w')"
    using guarded_success [OF run assms(2)] .
  obtain st v w3 where g: "mbind (effective_quantity ?xe a oid st v) (\<lambda>eq. case eq of
       Inl r \<Rightarrow> mret r | Inr q \<Rightarrow> place_entry ?xe a oid st v q) w3 = (Inr r, w')"
    "w_broker w3 = w_broker w1" "w_positions w3 = w_positions w1" "w_executions w3 = w_executions w1"
    using live.gate_success [OF c(2) [unfolded entry_body_def] assms(2)] by metis
  obtain eq w4 where e: "effective_quantity ?xe a oid st v w3 = (Inr eq, w4)"
    and e2: "(case eq of Inl r \<Rightarrow> mret r | Inr q \<Rightarrow> place_entry ?xe a oid st v q) w4 = (Inr r, w')"
    using g(1) by (auto simp: mbind_Inr)
  have "\<not> xr_success x" if "eq = Inl x" for x
    using e that by (auto simp: effective_quantity_def res_simps split: option.splits if_splits dest: rejected_fails)
  then obtain eq' where eq: "eq = Inr eq'" and p: "place_entry ?xe a oid st v eq' w4 = (Inr r, w')"
    using e2 assms(2) by (cases eq) (auto simp: res_simps)
  obtain rq res b w5 where rq: "mk_order_request (ea_account_id a) (td_symbol ?td) (oc_side (entry_context a))
        (td_order_type ?td) eq' (Some (entry_price a)) = Inr rq"
    and res: "xe_place xe rq (w_broker w4) = (Inr res, b)" "w5 = w4\<lparr>w_broker := b\<rparr>"
    and st: "or_status res \<in> {FILLED, PARTIALLY_FILLED}" and f: "book_fill ?xe a oid st v eq' res w5 = (Inr r, w')"
    using p assms(2)
    by (auto simp: place_entry_def res_simps mlift_def broker_order_def Let_def fail_order_def split: if_splits prod.splits)
  have k1: "w_broker w1 = w_broker w" "w_positions w1 = w_positions w" "w_executions w1 = w_executions w"
    using staysD [OF store_broker(1) c(1)] staysD [OF store_positions(1) c(1)] staysD [OF store_executions(1) c(1)] .
  have k4: "w_broker w4 = w_broker w" "w_positions w4 = w_positions w" "w_executions w4 = w_executions w"
    using staysD [OF effective_stays(1) e] staysD [OF effective_stays(2) e] staysD [OF effective_stays(3) e] g k1 by simp_all
  have ctx: "oc_side (entry_context a) = action_side (td_action ?td)" by (simp add: entry_context_def)
  have q: "rq_symbol rq = td_symbol ?td" "rq_side rq = oc_side (entry_context a)" "rq_quantity rq = eq'" "0 < eq'"
    using rq by (auto simp: mk_order_request_def split: if_splits)
  have "xe_place xe rq (w_broker w) = (Inr res, w_broker w')"
    using res k4(1) book_fill_success [OF f] by simp
  moreover have "eq' = td_quantity ?td \<or> (\<exists>mq ps rk. risk_check (xe_settings xe) (xe_market xe) ps (td_symbol ?td)
      (if rq_side rq = Side_BUY then Sig_BUY else Sig_SELL) mq (entry_price a) (td_stop_loss_price ?td) '''' = Inr rk
      \<and> rk_passed rk \<and> eq' = (if rk_adjusted_quantity rk = 0 then mq else rk_adjusted_quantity rk))"
    using effective_Inr [OF e [unfolded eq]] q(2) by simp
  ultimately show ?thesis using st q ctx k4 res(2) book_fill_success [OF f]
    by (intro exI [of _ rq] exI [of _ res] exI [of _ oid] exI [of _ "fill_quantity res eq'"]) simp
qed

section \<open>The sample entry\<close>

definition late_fault :: fault_plan where
  "late_fault n = (if n = 12 then Some (Before (ExternalError ''connection lost'')) else None)"

lemma sample_place_step:
  assumes "w_broker w = sample_mock"
  shows "\<exists>b. place_entry (sample_executor fl es) sample_entry 1 st v 10 w = book_fill (sample_executor fl es) sample_entry 1 st v 10
      \<lparr>or_account_id = ''default'', or_order_id = 1, or_symbol = ''005930'', or_side = Side_BUY, or_type = LIMIT,
          or_quantity = 10, or_price = 70000, or_status = FILLED, or_filled_quantity = 10, or_filled_price = Some 70000,
          or_commission = 0, or_timestamp = sample_now\<rparr> (w\<lparr>w_broker := b\<rparr>) \<and> mb_cash b = 99300000"
proof -
  obtain b where b: "mb_place_order sample_now \<lparr>rq_account_id = ''default'', rq_symbol = ''005930'', rq_side = Side_BUY, rq_type = LIMIT,
       rq_quantity = 10, rq_price = Some 70000\<rparr> sample_mock
     = (Inr \<lparr>or_account_id = ''default'', or_order_id = 1, or_symbol = ''005930'', or_side = Side_BUY, or_type = LIMIT,
          or_quantity = 10, or_price = 70000, or_status = FILLED, or_filled_quantity = 10, or_filled_price = Some 70000,
          or_commission = 0, or_timestamp = sample_now\<rparr>, b)" "mb_cash b = 99300000"
    using sample_place by blast
  then show ?thesis
    by (intro exI [of _ b]) (simp add: place_entry_def mk_order_request_def sample_entry_context meth_defs broker_order_def
        sample_fields assms Let_def)
qed

lemma sample_cash: "mb_cash (w_broker sample_world) = 100000000"
  by (simp add: sample_world_def new_world_def sample_mock_def mb_init_def)

lemma sample_run:
  assumes fl: "\<forall>n < 12. fl n = None"
  shows "\<exists>w5. execute_entry (sample_executor fl [Callback ''approve'' 100]) sample_entry sample_world
      = guarded_order (sample_executor fl [Callback ''approve'' 100]) (entry_context sample_entry) (\<lambda>w. (Inr 1, w5))
         (\<lambda>oid. book_fill (sample_executor fl [Callback ''approve'' 100]) sample_entry 1 App_APPROVED calm_verification 10
         \<lparr>or_account_id = ''default'', or_order_id = 1, or_symbol = ''005930'', or_side = Side_BUY, or_type = LIMIT,
          or_quantity = 10, or_price = 70000, or_status = FILLED, or_filled_quantity = 10, or_filled_price = Some 70000,
          or_commission = 0, or_timestamp = sample_now\<rparr>) sample_world
    \<and> mb_cash (w_broker w5) = 99300000 \<and> w_calls w5 = 12 \<and> w_orders w5 = [approved_row] \<and> w_executions w5 = []
    \<and> w_positions w5 = \<lparr>pt_rows = [], pt_next_id = 1\<rparr>"
proof -
  let ?xe = "sample_executor fl [Callback ''approve'' 100]"
  obtain w4 where w4: "entry_body ?xe sample_entry 1 created_world = place_entry ?xe sample_entry 1 App_APPROVED calm_verification 10 w4"
    "w_calls w4 = 12" "w_orders w4 = [approved_row]" "w_broker w4 = sample_mock" "w_executions w4 = []"
    "w_positions w4 = \<lparr>pt_rows = [], pt_next_id = 1\<rparr>" using sample_reaches_broker [OF fl] by blast
  obtain b where "place_entry ?xe sample_entry 1 App_APPROVED calm_verification 10 w4
      = book_fill ?xe sample_entry 1 App_APPROVED calm_verification 10
      \<lparr>or_account_id = ''default'', or_order_id = 1, or_symbol = ''005930'', or_side = Side_BUY, or_type = LIMIT,
          or_quantity = 10, or_price = 70000, or_status = FILLED, or_filled_quantity = 10, or_filled_price = Some 70000,
          or_commission = 0, or_timestamp = sample_now\<rparr> (w4\<lparr>w_broker := b\<rparr>)" "mb_cash b = 99300000"
    using sample_place_step [OF w4(4)] by blast
  with w4 show ?thesis
    by (intro exI [of _ "w4\<lparr>w_broker := b\<rparr>"])
      (simp add: execute_entry_def guarded_order_def sample_fields sample_entry_context sample_create [OF fl] mcatch_def)
qed

section \<open>A fill that is not recorded\<close>

lemma failed_booking:
  assumes "xe_faults xe (w_calls w) = Some (Before e)"
  shows "book_fill xe a oid st v q res w = (Inl e, w\<lparr>w_calls := w_calls w + 1\<rparr>)"
  using assms by (simp add: book_fill_def Let_def record_execution_def ext_def mbind_def)

lemma set_order_map: "w_orders (set_order i f w) = map (\<lambda>r. if od_id r = i then f r else r) (w_orders w)"
  by (simp add: set_order_def)

text \<open>
  C13: execute_entry, for any executor, entry and world: the order passed the web check, the approval and the risk
  check, the broker filled it, wholly or in part, and the one database call that records the fill raises e before it
  took effect, while the next call works. Then the result is a failure with that error, the broker keeps what it did,
  but there is no new execution row and no new position, and the row of the order says FAILED with that error. Nothing in
  the books shows what was traded.
\<close>

theorem filled_order_marked_failed:
  fixes w :: "'b world" and xe :: "'b executor"
  assumes "create_order (xe_faults xe) (ea_account_id a) (td_symbol (ea_decision a)) (oc_side (entry_context a))
        (td_order_type (ea_decision a)) (td_quantity (ea_decision a)) (entry_price a) (ea_session_id a) w = (Inr oid, w1)"
    and "verify_order (wired ap llm xe) (entry_context a) oid False w1 = (Inr v, w2)" "wv_result v \<noteq> BLOCKED"
    and "current_state (wired ap llm xe) w2 = (Inr ps, w3)"
    and "request_approval ap (entry_approval a oid ps) w3 = (Inr st, w4)" "st \<notin> {App_REJECTED, App_TIMEOUT}"
    and "effective_quantity (wired ap llm xe) a oid st v w4 = (Inr (Inr q), w5)"
    and "mk_order_request (ea_account_id a) (td_symbol (ea_decision a)) (oc_side (entry_context a))
        (td_order_type (ea_decision a)) q (Some (entry_price a)) = Inr rq"
    and "xe_place xe rq (w_broker w5) = (Inr res, b)" "or_status res \<in> {FILLED, PARTIALLY_FILLED}"
    and "xe_faults xe (w_calls w5) = Some (Before e)" "xe_faults xe (w_calls w5 + 1) = None"
  shows "\<exists>r w'. execute_entry (wired ap llm xe) a w = (Inr r, w') \<and> \<not> xr_success r \<and> xr_order_id r = Some oid \<and> xr_error r = Raised e
    \<and> xe_place xe rq (w_broker w) = (Inr res, w_broker w')
    \<and> w_executions w' = w_executions w \<and> w_positions w' = w_positions w
    \<and> w_orders w' = map (\<lambda>x. if od_id x = oid then x\<lparr>od_status := FAILED, od_rejection_reason := Raised e\<rparr> else x) (w_orders w5)"
proof -
  define X where "X = wired ap llm xe"
  let ?w = "w5\<lparr>w_broker := b, w_calls := w_calls w5 + 1\<rparr>"
  have s1: "w_broker w1 = w_broker w" "w_positions w1 = w_positions w" "w_executions w1 = w_executions w"
    using staysD [OF store_broker(1) assms(1)] staysD [OF store_positions(1) assms(1)] staysD [OF store_executions(1) assms(1)] .
  have s2: "w_broker w2 = w_broker w1" "w_positions w2 = w_positions w1" "w_executions w2 = w_executions w1"
    using assms(2) staysD [OF live.verify_order_stays(1)] staysD [OF live.verify_order_stays(3)] staysD [OF live.verify_order_stays(4)]
    unfolding X_def by metis+
  have s3: "w_broker w3 = w_broker w2" "w_positions w3 = w_positions w2" "w_executions w3 = w_executions w2"
    using staysD [OF executor_stays(1) assms(4)] staysD [OF executor_stays(2) assms(4)] staysD [OF executor_stays(3) assms(4)] .
  have s4: "w_broker w4 = w_broker w3" "w_positions w4 = w_positions w3" "w_executions w4 = w_executions w3"
    using staysD [OF request_approval_stays(1) assms(5)] staysD [OF request_approval_stays(2) assms(5)]
      staysD [OF request_approval_stays(3) assms(5)] .
  have s5: "w_broker w5 = w_broker w4" "w_positions w5 = w_positions w4" "w_executions w5 = w_executions w4"
    using staysD [OF effective_stays(1) assms(7)] staysD [OF effective_stays(2) assms(7)] staysD [OF effective_stays(3) assms(7)] .
  have X: "xe_faults X = xe_faults xe" "xe_place X = xe_place xe" "xe_approve X = request_approval ap" by (simp_all add: X_def)
  have place: "place_entry X a oid st v q w5 = (Inl e, ?w)"
    using assms(8-11) failed_booking [of X "w5\<lparr>w_broker := b\<rparr>" e a oid st v q res]
    by (auto simp: place_entry_def mbind_def mlift_def broker_order_def X)
  have body: "entry_body X a oid w1 = (Inl e, ?w)"
    using assms(2-7) [folded X_def] place by (simp add: entry_body_def gate_order_def mbind_def X)
  show ?thesis
    unfolding X_def [symmetric] using assms(1,9,12) body s1 s2 s3 s4 s5
    by (simp add: execute_entry_def guarded_order_def mcatch_def mbind_def X update_order_safe_def update_order_def ext_def effect_def
        mret_def fail_result_def set_order_def)
qed

theorem filled_order_marked_failed_witness:
  "\<exists>r w'. execute_entry (sample_executor late_fault [Callback ''approve'' 100]) sample_entry sample_world = (Inr r, w')
     \<and> \<not> xr_success r \<and> map od_status (w_orders w') = [FAILED] \<and> w_executions w' = [] \<and> pt_rows (w_positions w') = []
     \<and> mb_cash (w_broker sample_world) = 100000000 \<and> mb_cash (w_broker w') = 99300000"
proof -
  let ?es = "[Callback ''approve'' 100]"
  have fl: "\<forall>n < 12. late_fault n = None" by (simp add: late_fault_def)
  have X: "sample_executor late_fault ?es = wired (sample_approvals late_fault ?es) calm_web (base_executor late_fault)"
    by (simp add: sample_executor_def)
  have base: "xe_faults (base_executor late_fault) = late_fault" "xe_place (base_executor late_fault) = mb_place_order sample_now"
    by (simp_all add: base_executor_def)
  have create: "create_order (xe_faults (base_executor late_fault)) (ea_account_id sample_entry) (td_symbol (ea_decision sample_entry))
      (oc_side (entry_context sample_entry)) (td_order_type (ea_decision sample_entry)) (td_quantity (ea_decision sample_entry))
      (entry_price sample_entry) (ea_session_id sample_entry) sample_world = (Inr 1, created_world)"
    using sample_create [OF fl] by (simp add: sample_entry_context base)
  obtain w4 where w4: "request_approval (sample_approvals late_fault ?es) (entry_approval sample_entry 1 sample_portfolio)
      checked_world = (Inr App_APPROVED, w4)" "w_calls w4 = 11" "w_orders w4 = [approved_row]"
    using sample_approved [OF fl] by blast
  have broker: "w_broker w4 = sample_mock"
    using staysD [OF request_approval_stays(1) w4(1)] by (simp add: checked_world_def sample_world_def new_world_def)
  obtain b where b: "mb_place_order sample_now \<lparr>rq_account_id = ''default'', rq_symbol = ''005930'', rq_side = Side_BUY, rq_type = LIMIT,
       rq_quantity = 10, rq_price = Some 70000\<rparr> sample_mock
     = (Inr \<lparr>or_account_id = ''default'', or_order_id = 1, or_symbol = ''005930'', or_side = Side_BUY, or_type = LIMIT,
          or_quantity = 10, or_price = 70000, or_status = FILLED, or_filled_quantity = 10, or_filled_price = Some 70000,
          or_commission = 0, or_timestamp = sample_now\<rparr>, b)" "mb_cash b = 99300000" using sample_place by blast
  note F = filled_order_marked_failed [OF create sample_verified [OF fl, of ?es, unfolded X] _
      sample_state_step [OF fl, of ?es, unfolded X] w4(1) _ sample_quantity [OF fl w4(2,3), of ?es, unfolded X],
      of "\<lparr>rq_account_id = ''default'', rq_symbol = ''005930'', rq_side = Side_BUY, rq_type = LIMIT, rq_quantity = 10, rq_price = Some 70000\<rparr>",
      of _ b "ExternalError ''connection lost''"]
  have rows: "w_executions sample_world = []" "pt_rows (w_positions sample_world) = []" "w_broker sample_world = sample_mock"
    by (simp_all add: sample_world_def new_world_def)
  have cash: "mb_cash sample_mock = 100000000" using sample_cash rows(3) by simp
  show ?thesis
    unfolding X using F b broker rows cash w4(3)
    by (auto simp: calm_verification_def mk_order_request_def sample_entry_context base late_fault_def sample_cash
        approved_row_def checked_row_def sample_order_row_def new_order_row_def)
qed

lemma sample_success:
  "\<exists>r w'. execute_entry (sample_executor no_faults [Callback ''approve'' 100]) sample_entry sample_world = (Inr r, w')
     \<and> xr_success r \<and> mb_cash (w_broker w') = 99300000"
proof -
  show ?thesis using sample_run [of no_faults]
    by (auto simp: guarded_order_def mcatch_def book_fill_def Let_def meth_defs record_execution_def sample_fields
      effect_def create_position_def pm_create_def finish_order_def mark_filled_def update_order_def set_order_def
      notify_safe_def send_message_def record_decision_safe_def record_decision_def split: prod.split sum.split)
qed

theorem entry_success_books_witness:
  "\<exists>r w' q. execute_entry (sample_executor no_faults [Callback ''approve'' 100]) sample_entry sample_world = (Inr r, w')
     \<and> xr_success r \<and> length (w_executions w') = 1 \<and> length (pt_rows (w_positions w')) = 1 \<and> xr_quantity r = q \<and> 0 < q"
proof -
  obtain r w' where r: "execute_entry (sample_executor no_faults [Callback ''approve'' 100]) sample_entry sample_world = (Inr r, w')"
    "xr_success r" using sample_success by blast
  have n: "xe_faults (base_executor no_faults) = no_faults" "w_executions sample_world = []" "pt_rows (w_positions sample_world) = []"
    by (simp_all add: base_executor_def sample_world_def new_world_def)
  have fill: "0 < fill_quantity res (rq_quantity rq)"
    if "xe_place (base_executor no_faults) rq (w_broker sample_world) = (Inr res, b)" "0 < rq_quantity rq" for rq res b
    using that mock.filled [of sample_now rq "w_broker sample_world" res b] by (simp add: fill_quantity_def base_executor_def)
  have "length (w_executions w') = 1 \<and> length (pt_rows (w_positions w')) = 1 \<and> 0 < xr_quantity r"
    using entry_success_books [OF r(1) [unfolded sample_executor_def] r(2)]
  proof (elim exE conjE)
    fix rq res oid q
    assume "xe_place (base_executor no_faults) rq (w_broker sample_world) = (Inr res, w_broker w')"
      "0 < rq_quantity rq" and q: "q = fill_quantity res (rq_quantity rq)" "xr_quantity r = q"
    then have "0 < xr_quantity r" using fill by simp
    moreover assume "w_executions w' = w_executions sample_world @ [\<lparr>ex_order_id = oid, ex_broker_order_id = or_order_id res,
         ex_fill_price = fill_price res (entry_price sample_entry), ex_fill_quantity = q, ex_commission = or_commission res\<rparr>]"
      and "\<forall>i. xr_position_id r = Some i \<longrightarrow> pt_rows (w_positions w') = pt_rows (w_positions sample_world)
         @ [new_record (fst (xe_now (base_executor no_faults))) (entry_position sample_entry q (fill_price res (entry_price sample_entry))) i]"
      and "xe_faults (base_executor no_faults) = no_faults \<longrightarrow> xr_position_id r \<noteq> None"
    ultimately show ?thesis using n by auto
  qed
  with r show ?thesis by blast
qed

theorem entry_needs_consent_witness:
  "\<exists>action q. Callback action 100 \<in> set [Callback ''approve'' 100] \<and> parse_action action = Some (App_APPROVED, q)"
proof -
  obtain r w' where r: "execute_entry (sample_executor no_faults [Callback ''approve'' 100]) sample_entry sample_world = (Inr r, w')"
    "mb_cash (w_broker w') = 99300000" using sample_success by blast
  have "w_broker w' \<noteq> w_broker sample_world" using r(2) sample_cash by auto
  moreover have "HUMAN_APPROVAL_REQUIRED (ap_settings (sample_approvals no_faults [Callback ''approve'' 100]))"
    "action_side (td_action (ea_decision sample_entry)) = Side_BUY" "w_next_uuid sample_world = 100"
    "ap_events (sample_approvals no_faults [Callback ''approve'' 100]) = (\<lambda>_. [Callback ''approve'' 100])"
    by (simp_all add: sample_approvals_def default_settings_def sample_entry_def sample_decision_def sample_world_def new_world_def)
  ultimately show ?thesis
    using entry_needs_consent [OF r(1) [unfolded sample_executor_def]] by simp
qed

section \<open>Exit\<close>

lemma close_safe:
  assumes "mcatch (mbind (close_position fl today i c) (\<lambda>_. mret ())) (\<lambda>_. mret ()) w = (Inr u, w')"
  defines "closes \<equiv> (\<exists>row. find_row i (w_positions w) = Some row \<and> pr_status row \<noteq> ''closed''
      \<and> w_positions w' = put_row (closed_record today c row) (w_positions w))"
  shows "(w_positions w' = w_positions w \<or> closes) \<and> (fl = no_faults \<and>
      (\<exists>row. find_row i (w_positions w) = Some row \<and> pr_status row \<noteq> ''closed'') \<longrightarrow> closes)"
  using assms(1) unfolding closes_def
  by (auto simp: close_position_def meth_defs ext_def pm_close_def Let_def split: option.splits fault.splits if_splits)

lemma close_safe_stays:
  "stays w_broker (mcatch (mbind (close_position fl today i c) (\<lambda>_. mret ())) (\<lambda>_. mret ()))"
  "stays w_executions (mcatch (mbind (close_position fl today i c) (\<lambda>_. mret ())) (\<lambda>_. mret ()))"
  by (intro stays_intros)+

definition exit_close_args :: "exit_args \<Rightarrow> dec \<Rightarrow> close_args" where
  "exit_close_args a price = \<lparr>ca_exit_price = price, ca_exit_reason = xs_reason (xa_signal a),
     ca_exit_session_id = Some (xa_session_id a)\<rparr>"

lemma book_exit_success:
  assumes "book_exit_fill xe a oid st v res w = (Inr r, w')"
  defines "q \<equiv> fill_quantity res (pr_quantity (xa_position a))" and "price \<equiv> fill_price res (xs_current_price (xa_signal a))"
    and "closes \<equiv> (\<exists>row. find_row (pr_id (xa_position a)) (w_positions w) = Some row \<and> pr_status row \<noteq> ''closed''
      \<and> w_positions w' = put_row (closed_record (fst (xe_now xe)) (exit_close_args a (fill_price res (xs_current_price (xa_signal a)))) row) (w_positions w))"
  shows "w_broker w' = w_broker w \<and> xr_quantity r = q \<and> xr_order_id r = Some oid
    \<and> xr_position_id r = Some (pr_id (xa_position a))
    \<and> w_executions w' = w_executions w @ [\<lparr>ex_order_id = oid, ex_broker_order_id = or_order_id res,
         ex_fill_price = price, ex_fill_quantity = q, ex_commission = or_commission res\<rparr>]
    \<and> (w_positions w' = w_positions w \<or> closes)
    \<and> (xe_faults xe = no_faults \<and> (\<exists>row. find_row (pr_id (xa_position a)) (w_positions w) = Some row
         \<and> pr_status row \<noteq> ''closed'') \<longrightarrow> closes)"
proof -
  obtain w1 w2 where x: "record_execution (xe_faults xe) oid (or_order_id res) price q (or_commission res) w = (Inr (), w1)"
    and cl: "mcatch (mbind (close_position (xe_faults xe) (fst (xe_now xe)) (pr_id (xa_position a)) (exit_close_args a price))
        (\<lambda>_. mret ())) (\<lambda>_. mret ()) w1 = (Inr (), w2)"
    and fin: "finish_order xe (exit_context a) oid st v res q price (Some (pr_id (xa_position a)))
        (exit_action (xs_reason (xa_signal a))) w2 = (Inr r, w')"
    using assms(1) by (auto simp: book_exit_fill_def Let_def mbind_Inr exit_close_args_def q_def price_def)
  show ?thesis
    using record_execution_Inr [OF x] staysD [OF close_safe_stays(1) cl] staysD [OF close_safe_stays(2) cl]
      finish_success [OF fin] finish_keeps [OF fin] close_safe [OF cl]
    unfolding closes_def price_def [symmetric] by simp
qed

text \<open>
  C3: execute_exit with a successful result: the broker got one SELL of the position's whole quantity
  (a quantity the user changed is not used), the fill is the new row of executions, and the
  position's row is closed with the profit on its whole quantity, also when only a part was
  filled. The result names the position as closed even when closing it failed.
\<close>

theorem exit_success_books:
  assumes "execute_exit (wired ap llm xe) a w = (Inr r, w')" "xr_success r"
    and "find_row (pr_id (xa_position a)) (w_positions w) = Some row" "pr_status row = ''open''"
  shows "\<exists>rq res oid q price. xe_place xe rq (w_broker w) = (Inr res, w_broker w')
    \<and> or_status res \<in> {FILLED, PARTIALLY_FILLED} \<and> rq_symbol rq = xs_symbol (xa_signal a) \<and> rq_side rq = Side_SELL
    \<and> rq_quantity rq = pr_quantity (xa_position a) \<and> q = fill_quantity res (pr_quantity (xa_position a))
    \<and> price = fill_price res (xs_current_price (xa_signal a)) \<and> xr_quantity r = q
    \<and> xr_position_id r = Some (pr_id (xa_position a))
    \<and> w_executions w' = w_executions w @ [\<lparr>ex_order_id = oid, ex_broker_order_id = or_order_id res,
         ex_fill_price = price, ex_fill_quantity = q, ex_commission = or_commission res\<rparr>]
    \<and> (let closed = closed_record (fst (xe_now xe)) (exit_close_args a price) row in
       (w_positions w' = w_positions w \<and> xe_faults xe \<noteq> no_faults \<or> w_positions w' = put_row closed (w_positions w))
       \<and> pr_realized_pnl closed = Some (dmul (dsub price (pr_avg_cost row)) (of_int (pr_quantity row))))"
proof -
  let ?xe = "wired ap llm xe"
  let ?create = "create_order (xe_faults ?xe) (xa_account_id a) (xs_symbol (xa_signal a)) Side_SELL
        (exit_order_type (xa_signal a)) (pr_quantity (xa_position a)) (xs_current_price (xa_signal a)) (xa_session_id a)"
  have run: "guarded_order ?xe (exit_context a) ?create (exit_body ?xe a) w = (Inr r, w')"
    using assms(1) by (simp add: execute_exit_def)
  obtain oid w1 where c: "?create w = (Inr oid, w1)" "exit_body ?xe a oid w1 = (Inr r, w')"
    using guarded_success [OF run assms(2)] .
  obtain st v w3 where g: "place_exit ?xe a oid st v w3 = (Inr r, w')"
    "w_broker w3 = w_broker w1" "w_positions w3 = w_positions w1" "w_executions w3 = w_executions w1"
    using live.gate_success [OF c(2) [unfolded exit_body_def] assms(2)] by metis
  obtain rq res b where rq: "mk_order_request (xa_account_id a) (xs_symbol (xa_signal a)) Side_SELL
        (exit_order_type (xa_signal a)) (pr_quantity (xa_position a)) (Some (xs_current_price (xa_signal a))) = Inr rq"
    and res: "xe_place xe rq (w_broker w3) = (Inr res, b)"
    and st: "or_status res \<in> {FILLED, PARTIALLY_FILLED}" and f: "book_exit_fill ?xe a oid st v res (w3\<lparr>w_broker := b\<rparr>) = (Inr r, w')"
    using g(1) assms(2)
    by (auto simp: place_exit_def res_simps mlift_def broker_order_def Let_def fail_order_def split: if_splits prod.splits)
  have k1: "w_broker w1 = w_broker w" "w_positions w1 = w_positions w" "w_executions w1 = w_executions w"
    using staysD [OF store_broker(1) c(1)] staysD [OF store_positions(1) c(1)] staysD [OF store_executions(1) c(1)] .
  have q: "rq_symbol rq = xs_symbol (xa_signal a)" "rq_side rq = Side_SELL" "rq_quantity rq = pr_quantity (xa_position a)"
    using rq by (auto simp: mk_order_request_def split: if_splits)
  show ?thesis using book_exit_success [OF f] st q res g(2-) k1 assms(3,4)
    by (intro exI [of _ rq] exI [of _ res] exI [of _ oid] exI [of _ "fill_quantity res (pr_quantity (xa_position a))"]
        exI [of _ "fill_price res (xs_current_price (xa_signal a))"])
      (auto simp: Let_def closed_record_def exit_close_args_def)
qed

section \<open>An exit that is filled in part\<close>

text \<open>A broker that fills four shares of any order; its state is the number of shares left.\<close>

definition partial_place :: "order_request \<Rightarrow> int \<Rightarrow> (exc + order_result) \<times> int" where
  "partial_place rq n = (Inr \<lparr>or_account_id = ''default'', or_order_id = 9, or_symbol = rq_symbol rq, or_side = rq_side rq,
     or_type = rq_type rq, or_quantity = rq_quantity rq, or_price = 65000, or_status = PARTIALLY_FILLED,
     or_filled_quantity = 4, or_filled_price = Some 65000, or_commission = 0, or_timestamp = sample_now\<rparr>, n - 4)"

definition partial_base :: "int executor" where
  "partial_base = \<lparr>xe_faults = no_faults, xe_settings = default_settings, xe_market = no_market_data,
     xe_services = sample_services, xe_account = ''default'', xe_now = sample_now,
     xe_balance = (\<lambda>_. Inr sample_balance), xe_holdings = (\<lambda>_. Inr []), xe_place = partial_place,
     xe_verify = (\<lambda>s _ _ _ _. mret (safe_default s '''')), xe_approve = (\<lambda>_. mret App_REJECTED)\<rparr>"

definition held_row :: position_record where
  "held_row = new_record 737990 \<lparr>pa_symbol = ''005930'', pa_strategy_type = ''swing'', pa_quantity = 10,
     pa_entry_price = 70000, pa_stop_loss_price = 66000, pa_take_profit_price = None, pa_trailing_stop_pct = None,
     pa_max_holding_days = None, pa_entry_session_id = None, pa_account_id = ''default''\<rparr> 1"

definition stop_exit :: exit_args where
  "stop_exit = \<lparr>xa_signal = \<lparr>xs_symbol = ''005930'', xs_reason = Exit_STOP_LOSS, xs_urgency = ''immediate'',
       xs_current_price = 65000, xs_trigger_price = Some 66000, xs_unrealized_pnl_pct = 0,
       xs_recommended_action = Act_STOP_LOSS, xs_reasoning = Stop_Loss_Msg 65000 66000 0\<rparr>,
     xa_position = held_row, xa_session_id = 8, xa_parent_id = None, xa_account_id = ''default''\<rparr>"

definition held_world :: "int world" where
  "held_world = (new_world 10)\<lparr>w_positions := \<lparr>pt_rows = [held_row], pt_next_id = 2\<rparr>\<rparr>"

lemma stop_exit_fields:
  "xa_position stop_exit = held_row" "xs_symbol (xa_signal stop_exit) = ''005930''" "xs_reason (xa_signal stop_exit) = Exit_STOP_LOSS"
  "xs_current_price (xa_signal stop_exit) = 65000" "exit_order_type (xa_signal stop_exit) = MARKET"
  "exit_context stop_exit = \<lparr>oc_symbol = ''005930'', oc_side = Side_SELL, oc_quantity = 10, oc_session_id = 8, oc_parent_id = None,
     oc_account_id = ''default'', oc_stage = Stage_EXIT\<rparr>"
  "xa_account_id stop_exit = ''default''" "xa_session_id stop_exit = 8" "pr_quantity held_row = 10" "pr_id held_row = 1"
  by (simp_all add: stop_exit_def exit_order_type_def exit_context_def held_row_def new_record_def)

lemma partial_state:
  "\<exists>ps. get_current_state sample_services ''default'' sample_now (Inr sample_balance) (Inr []) [] t [] = Inr (ps, [])"
  by (simp add: get_current_state_def get_sector_allocations_def get_peak_value_def get_daily_trade_count_def Let_def
      sample_balance_def dec_eval sample_services_def [THEN arg_cong, of sv_db_up])

lemma partial_exit_run:
  "\<exists>r w'. execute_exit (wired (sample_approvals no_faults []) calm_web partial_base) stop_exit held_world = (Inr r, w') \<and> xr_success r"
proof -
  obtain ps where ps: "get_current_state sample_services ''default'' sample_now (Inr sample_balance) (Inr []) []
      \<lparr>pt_rows = [held_row], pt_next_id = 2\<rparr> [] = Inr (ps, [])" using partial_state by blast
  have f: "xe_faults partial_base = no_faults" "xe_settings partial_base = default_settings" "xe_place partial_base = partial_place"
    by (simp_all add: partial_base_def)
  have cs: "current_state (wired ap llm partial_base) w = (Inr ps, w\<lparr>w_calls := w_calls w + 1, w_sectors := []\<rparr>)"
    if "w_snapshots w = []" "w_positions w = \<lparr>pt_rows = [held_row], pt_next_id = 2\<rparr>" "w_sectors w = []" for ap llm w
    using that ps by (simp add: current_state_def wired_def partial_base_def)
  have auto_ok: "check_auto_approve default_settings (exit_trade_decision (xa_signal stop_exit) held_row) pct = Some (Exit_Order Act_STOP_LOSS)" for pct
    by (simp add: check_auto_approve_def default_settings_def exit_trade_decision_def stop_exit_fields)
  have v: "verify_order (wired ap calm_web partial_base) c oid True w
      = (Inr (safe_default (oc_symbol c) ''stop_loss''), set_order oid (\<lambda>r. r\<lparr>od_web_verify_result := Some SAFE,
          od_web_verify_summary := ''stop_loss''\<rparr>) (w\<lparr>w_calls := w_calls w + 1\<rparr>))" for ap c oid w
    by (simp add: verify_order_def f web_verify_def default_settings_def meth_defs update_order_def effect_def safe_default_def)
  have a: "\<exists>w'. request_approval (sample_approvals no_faults []) (exit_approval stop_exit oid ps') w = (Inr AUTO_APPROVED, w')" for oid ps' w
    by (simp add: request_approval_def fresh_uuid_def meth_defs exit_approval_def auto_ok stop_exit_fields sample_approvals_def
       handle_auto_approve_def effect_def record_decision_def send_message_def)
  have fin: "\<exists>r w'. finish_order (wired ap llm partial_base) c oid st v res q price pid act w = (Inr r, w') \<and> xr_success r"
    for ap llm c oid st v res q price pid act w
    by (simp add: finish_order_def f mark_filled_def update_order_def meth_defs effect_def notify_safe_def send_message_def
       record_decision_safe_def record_decision_def)
  have p: "\<exists>r w'. place_exit (wired ap llm partial_base) stop_exit oid st v w = (Inr r, w') \<and> xr_success r" for ap llm oid st v w
  proof -
    have cl: "\<exists>w'. mcatch m (\<lambda>_. mret ()) x = (Inr (), w')" for m and x :: "int world" by (rule catch_unit)
    obtain g where g: "mcatch m (\<lambda>_. mret ()) x = (Inr (), g m x)" for m and x :: "int world" using cl by metis
    show ?thesis
      by (simp add: place_exit_def mk_order_request_def stop_exit_fields mbind_def [of "mlift _"] mbind_def [of "broker_order _ _"]
         mlift_def broker_order_def f partial_place_def book_exit_fill_def Let_def record_execution_def
         mbind_def [of "ext _ _"] mbind_def [of "mcatch _ _"] effect_def g) (use fin in blast)
  qed
  have b: "\<exists>r w'. exit_body (wired (sample_approvals no_faults []) calm_web partial_base) stop_exit oid w = (Inr r, w') \<and> xr_success r"
    if "w_snapshots w = []" "w_positions w = \<lparr>pt_rows = [held_row], pt_next_id = 2\<rparr>" "w_sectors w = []" for oid w
  proof -
    obtain h where h: "request_approval (sample_approvals no_faults []) (exit_approval stop_exit i ps') x = (Inr AUTO_APPROVED, h i ps' x)"
      for i ps' and x :: "int world" using a by metis
    show ?thesis using that
      by (simp add: exit_body_def gate_order_def mbind_def v stop_exit_fields safe_default_def cs set_order_def h) (use p in blast)
  qed
  let ?w1 = "held_world\<lparr>w_calls := 1, w_next_order_id := 2,
     w_orders := [new_order_row 1 ''default'' ''005930'' Side_SELL MARKET 10 65000 8]\<rparr>"
  have c: "create_order no_faults ''default'' ''005930'' Side_SELL MARKET 10 65000 8 held_world = (Inr 1, ?w1)"
    by (simp add: create_order_def Let_def held_world_def new_world_def)
  have "w_snapshots ?w1 = []" "w_positions ?w1 = \<lparr>pt_rows = [held_row], pt_next_id = 2\<rparr>" "w_sectors ?w1 = []"
    by (simp_all add: held_world_def new_world_def)
  from b [OF this, of 1] obtain r w' where
    "exit_body (wired (sample_approvals no_faults []) calm_web partial_base) stop_exit 1 ?w1 = (Inr r, w')" "xr_success r" by blast
  then show ?thesis by (simp add: execute_exit_def guarded_order_def f stop_exit_fields c mcatch_def)
qed

theorem exit_success_books_witness:
  "\<exists>r w' row. execute_exit (wired (sample_approvals no_faults []) calm_web partial_base) stop_exit held_world = (Inr r, w')
     \<and> xr_success r \<and> xr_quantity r = 4 \<and> find_row 1 (w_positions w') = Some row \<and> pr_status row = ''closed''
     \<and> pr_quantity row = 10 \<and> pr_realized_pnl row = Some (- 50000)"
proof -
  obtain r w' where r: "execute_exit (wired (sample_approvals no_faults []) calm_web partial_base) stop_exit held_world = (Inr r, w')"
    "xr_success r" using partial_exit_run by blast
  have row: "find_row (pr_id (xa_position stop_exit)) (w_positions held_world) = Some held_row" "pr_status held_row = ''open''"
    by (simp_all add: stop_exit_fields held_world_def find_row_def) (simp add: held_row_def new_record_def)
  from exit_success_books [OF r row] obtain rq res price where
    res: "xe_place partial_base rq (w_broker held_world) = (Inr res, w_broker w')" and q: "xr_quantity r = fill_quantity res 10"
    and pr: "price = fill_price res 65000"
    and pos: "w_positions w' = put_row (closed_record (fst sample_now) (exit_close_args stop_exit price) held_row) (w_positions held_world)"
    by (auto simp: stop_exit_fields Let_def partial_base_def)
  have "price = 65000" "xr_quantity r = 4"
    using res q pr by (auto simp: partial_base_def partial_place_def fill_quantity_def fill_price_def)
  then show ?thesis using r pos
    by (intro exI [of _ r] exI [of _ w'] exI [of _ "closed_record (fst sample_now) (exit_close_args stop_exit 65000) held_row"])
      (simp add: held_world_def put_row_def find_row_def closed_record_def held_row_def new_record_def exit_close_args_def dec_eval)
qed

end
