(* ===== verification/Exit_Executor.thy ===== *)
theory Exit_Executor
  imports Executor_Claims Exit_Checker
begin

text \<open>
  \<open>src/execution/exit_executor.py\<close> and the jobs of \<open>src/scheduler/jobs.py\<close> that trade: a batch of exit
  signals is sorted by urgency, matched with the open positions and executed or only announced;
  the stop-loss job makes the signals from the open positions and the prices; the buy job runs the
  entries of a pipeline while the market is open. The broker's prices are a parameter.
\<close>

section \<open>A batch of exit signals\<close>

definition urgency_order :: "string \<Rightarrow> nat" where
  "urgency_order u = (if u = ''immediate'' then 0 else if u = ''end_of_day'' then 1
     else if u = ''next_session'' then 2 else 99)"

definition match_signal :: "exit_signal \<Rightarrow> position_record list \<Rightarrow> position_record option" where
  "match_signal x positions = find (\<lambda>p. pr_symbol p = xs_symbol x \<and> pr_status p = ''open'') positions"

text \<open>A result that carries no order.\<close>

definition no_order_result :: "exit_signal \<Rightarrow> position_record \<Rightarrow> uuid list \<Rightarrow> rejection \<Rightarrow> execution_result" where
  "no_order_result x p ids err = \<lparr>xr_success = False, xr_order_id = None, xr_broker_order_id = None,
     xr_symbol = xs_symbol x, xr_side = Side_SELL, xr_quantity = pr_quantity p, xr_fill_price = None,
     xr_commission = 0, xr_approval_status = AUTO_APPROVED, xr_web_verify_result = None,
     xr_position_id = None, xr_decision_ids = ids, xr_error = err\<rparr>"

definition exit_args_of :: "exit_signal \<Rightarrow> position_record \<Rightarrow> uuid \<Rightarrow> string \<Rightarrow> exit_args" where
  "exit_args_of x p session_id account_id = \<lparr>xa_signal = x, xa_position = p, xa_session_id = session_id,
     xa_parent_id = None, xa_account_id = account_id\<rparr>"

definition execute_exit_signal ::
  "'b executor \<Rightarrow> uuid \<Rightarrow> string \<Rightarrow> exit_signal \<Rightarrow> position_record \<Rightarrow> ('b world, execution_result) meth" where
  "execute_exit_signal xe session_id account_id x p =
     mcatch (execute_exit xe (exit_args_of x p session_id account_id)) (\<lambda>e. mret (no_order_result x p [] (Raised e)))"

definition next_session_signal ::
  "'b executor \<Rightarrow> uuid \<Rightarrow> string \<Rightarrow> exit_signal \<Rightarrow> position_record \<Rightarrow> ('b world, execution_result) meth" where
  "next_session_signal xe session_id account_id x p =
     mbind (record_decision_safe (xe_faults xe) session_id Stage_EXIT (decision_action_value (xs_recommended_action x))
        (xs_symbol x) None account_id) (\<lambda>ids.
     mbind (notify_safe (xe_faults xe) (Exit_Message (xs_symbol x) (xs_reason x) (xs_urgency x))) (\<lambda>_.
     mret (no_order_result x p ids Alert_Only)))"

definition handle_exit_signal ::
  "'b executor \<Rightarrow> uuid \<Rightarrow> string \<Rightarrow> exit_signal \<Rightarrow> position_record \<Rightarrow> ('b world, execution_result) meth" where
  "handle_exit_signal xe session_id account_id x p =
     (if xs_urgency x \<in> {''immediate'', ''end_of_day''} then execute_exit_signal xe session_id account_id x p
      else next_session_signal xe session_id account_id x p)"

primrec run_exit_signals ::
  "'b executor \<Rightarrow> position_record list \<Rightarrow> uuid \<Rightarrow> string \<Rightarrow> exit_signal list \<Rightarrow> ('b world, execution_result list) meth" where
  "run_exit_signals xe positions session_id account_id [] = mret []"
| "run_exit_signals xe positions session_id account_id (x # xs) = (case match_signal x positions of
     None \<Rightarrow> run_exit_signals xe positions session_id account_id xs
   | Some p \<Rightarrow> mbind (handle_exit_signal xe session_id account_id x p) (\<lambda>r.
       mbind (run_exit_signals xe positions session_id account_id xs) (\<lambda>rs. mret (r # rs))))"

definition process_exit_signals ::
  "'b executor \<Rightarrow> exit_signal list \<Rightarrow> position_record list \<Rightarrow> uuid \<Rightarrow> string \<Rightarrow> ('b world, execution_result list) meth" where
  "process_exit_signals xe signals positions session_id account_id =
     run_exit_signals xe positions session_id account_id (sort_key (\<lambda>x. urgency_order (xs_urgency x)) signals)"

section \<open>The stop-loss job\<close>

definition job_pnl_pct :: "position_record \<Rightarrow> dec \<Rightarrow> exc + dec" where
  "job_pnl_pct p price =
     (if 0 < pr_entry_price p then dquant 2 (dmul (dquo (dsub price (pr_entry_price p)) (pr_entry_price p)) 100)
      else Inr 0)"

text \<open>The trailing stop of the job is fixed: it is reckoned from the entry price.\<close>

definition job_trailing_stop :: "position_record \<Rightarrow> dec \<Rightarrow> dec" where
  "job_trailing_stop p pct = dmul (pr_entry_price p) (dsub 1 (dquo pct 100))"

definition job_exit_signal :: "(symbol \<Rightarrow> exc + dec) \<Rightarrow> date \<Rightarrow> position_record \<Rightarrow> exc + exit_signal option" where
  "job_exit_signal price_of today p =
     rbind (price_of (pr_symbol p)) (\<lambda>price.
     rbind (job_pnl_pct p price) (\<lambda>pnl.
       Inr (first_some [check_stop_loss p price pnl, check_take_profit p price pnl,
              Option.bind (pr_trailing_stop_pct p) (\<lambda>pct. check_trailing_stop p price pnl (job_trailing_stop p pct)),
              check_time_based p price pnl today ''end_of_day''])))"

text \<open>A position whose check raises is logged and left out.\<close>

definition job_signals :: "(symbol \<Rightarrow> exc + dec) \<Rightarrow> date \<Rightarrow> position_record list \<Rightarrow> exit_signal list" where
  "job_signals price_of today positions =
     List.map_filter (\<lambda>p. case job_exit_signal price_of today p of Inl _ \<Rightarrow> None | Inr x \<Rightarrow> x) positions"

definition open_rows_of :: "fault_plan \<Rightarrow> string \<Rightarrow> ('b world, position_record list) meth" where
  "open_rows_of fl account_id = mcatch (ext fl (mlift (\<lambda>w. pm_get_open True None (Some account_id) (w_positions w))))
     (\<lambda>e. mraise (database_error ''Open positions query failed'' e))"

text \<open>The job up to the monitoring alerts; the result is what the batch returned.\<close>

definition stop_loss_job ::
  "'b executor \<Rightarrow> ('b \<Rightarrow> symbol \<Rightarrow> exc + dec) \<Rightarrow> string \<Rightarrow> ('b world, execution_result list) meth" where
  "stop_loss_job xe prices account_id =
     mbind (open_rows_of (xe_faults xe) account_id) (\<lambda>positions.
     mbind (mget (\<lambda>w. job_signals (prices (w_broker w)) (fst (xe_now xe)) positions)) (\<lambda>signals.
       if signals = [] then mret []
       else mbind fresh_uuid (\<lambda>session_id. process_exit_signals xe signals positions session_id account_id)))"

section \<open>The buy orders of a pipeline\<close>

text \<open>\<open>_execute_buy_decisions\<close>: how many of the BUY decisions were executed. Times are seconds since midnight.\<close>

definition market_open :: "int \<Rightarrow> int \<Rightarrow> int \<Rightarrow> bool" where
  "market_open opens closes now \<longleftrightarrow> opens \<le> now \<and> now \<le> closes"

primrec run_entries :: "'b executor \<Rightarrow> uuid \<Rightarrow> string \<Rightarrow> string \<Rightarrow> trade_decision list \<Rightarrow> ('b world, nat) meth" where
  "run_entries xe session_id strategy account_id [] = mret 0"
| "run_entries xe session_id strategy account_id (td # tds) =
     mbind (mcatch (mbind (execute_entry xe \<lparr>ea_decision = td, ea_session_id = session_id, ea_strategy_type = strategy,
              ea_parent_id = None, ea_account_id = account_id\<rparr>) (\<lambda>r. mret (if xr_success r then 1 else 0)))
            (\<lambda>_. mret 0)) (\<lambda>n.
     mbind (run_entries xe session_id strategy account_id tds) (\<lambda>m. mret (n + m)))"

definition execute_buy_decisions ::
  "'b executor \<Rightarrow> bool \<Rightarrow> uuid \<Rightarrow> string \<Rightarrow> string \<Rightarrow> trade_decision list \<Rightarrow> ('b world, nat) meth" where
  "execute_buy_decisions xe is_open session_id strategy account_id decisions =
     (let buys = filter (\<lambda>td. td_action td = Act_BUY) decisions in
      if buys = [] \<or> \<not> is_open then mret 0 else run_entries xe session_id strategy account_id buys)"

section \<open>What a batch returns\<close>

lemma yields_names:
  "yields (\<lambda>r. xr_symbol r = oc_symbol c) (cancel_order xe c oid q st v err)"
  "yields (\<lambda>r. xr_symbol r = oc_symbol c) (deny_order xe c oid st v)"
  "yields (\<lambda>r. xr_symbol r = oc_symbol c) (fail_order xe c oid q st v bs)"
  "yields (\<lambda>r. xr_symbol r = oc_symbol c) (finish_order xe c oid st v res q price p act)"
  unfolding cancel_order_def deny_order_def fail_order_def finish_order_def log_rejection_def fail_result_def
  by (intro yields_intros; simp)+

lemma execute_exit_names: "yields (\<lambda>r. xr_symbol r = xs_symbol (xa_signal a)) (execute_exit xe a)"
proof -
  have c: "oc_symbol (exit_context a) = xs_symbol (xa_signal a)" by (simp add: exit_context_def)
  have "yields (\<lambda>r. xr_symbol r = oc_symbol (exit_context a)) (exit_body xe a oid)" for oid
    unfolding exit_body_def gate_order_def place_exit_def book_exit_fill_def Let_def
    by (intro yields_intros yields_names)
  then have "yields (\<lambda>r. xr_symbol r = oc_symbol (exit_context a)) (mcatch (exit_body xe a oid) (\<lambda>e.
       mbind (update_order_safe (xe_faults xe) oid (\<lambda>r. r\<lparr>od_status := FAILED, od_rejection_reason := Raised e\<rparr>)) (\<lambda>_.
       mret (fail_result (exit_context a) (Some oid) (oc_quantity (exit_context a)) AUTO_APPROVED None [] (Raised e)))))" for oid
    by (intro yields_intros) (simp_all add: fail_result_def)
  then show ?thesis unfolding execute_exit_def guarded_order_def yields_def c
    by (auto simp: fail_result_def c split: prod.splits sum.splits)
qed

lemma handle_exit_returns:
  "\<exists>r w'. handle_exit_signal xe sid acct x p w = (Inr r, w') \<and> xr_symbol r = xs_symbol x
    \<and> (xs_urgency x \<notin> {''immediate'', ''end_of_day''} \<longrightarrow> \<not> xr_success r \<and> xr_error r = Alert_Only
         \<and> w_broker w' = w_broker w \<and> w_positions w' = w_positions w)"
proof (cases "xs_urgency x \<in> {''immediate'', ''end_of_day''}")
  case True
  obtain r w' where r: "execute_exit xe (exit_args_of x p sid acct) w = (Inr r, w')"
    using guarded_returns unfolding execute_exit_def by metis
  with yieldsD [OF execute_exit_names r] True show ?thesis
    by (simp add: handle_exit_signal_def execute_exit_signal_def mcatch_def exit_args_of_def)
next
  case False
  have rd: "\<exists>ids w1. record_decision_safe fl ss st d s par ac v = (Inr ids, w1)" for fl ss st d s par ac and v :: "'a world"
    by (auto simp: record_decision_safe_def mcatch_def mret_def split: prod.split sum.split)
  obtain ids w1 where 1: "record_decision_safe (xe_faults xe) sid Stage_EXIT (decision_action_value (xs_recommended_action x))
        (xs_symbol x) None acct w = (Inr ids, w1)" using rd by blast
  obtain w2 where 2: "notify_safe (xe_faults xe) (Exit_Message (xs_symbol x) (xs_reason x) (xs_urgency x)) w1 = (Inr (), w2)"
    unfolding notify_safe_def using catch_unit by metis
  have "w_broker w2 = w_broker w" "w_positions w2 = w_positions w"
    using staysD [OF store_broker(9) 1] staysD [OF store_broker(7) 2] staysD [OF store_positions(9) 1] staysD [OF store_positions(7) 2]
    by simp_all
  with False 1 2 show ?thesis
    by (simp add: handle_exit_signal_def next_session_signal_def mbind_def mret_def no_order_result_def)
qed

lemma run_exit_signals_returns:
  "\<exists>rs w'. run_exit_signals xe ps sid acct xs w = (Inr rs, w')
    \<and> list_all2 (\<lambda>x r. xr_symbol r = xs_symbol x \<and> (xs_urgency x \<notin> {''immediate'', ''end_of_day''}
         \<longrightarrow> \<not> xr_success r \<and> xr_error r = Alert_Only)) (filter (\<lambda>x. match_signal x ps \<noteq> None) xs) rs
    \<and> ((\<forall>x \<in> set xs. xs_urgency x \<notin> {''immediate'', ''end_of_day''}) \<longrightarrow> w_broker w' = w_broker w \<and> w_positions w' = w_positions w)"
proof (induction xs arbitrary: w)
  case Nil
  show ?case by (simp add: mret_def)
next
  case (Cons x xs)
  show ?case
  proof (cases "match_signal x ps")
    case None
    with Cons.IH [of w] show ?thesis by auto
  next
    case (Some p)
    obtain r w1 where r: "handle_exit_signal xe sid acct x p w = (Inr r, w1)" "xr_symbol r = xs_symbol x"
      "xs_urgency x \<notin> {''immediate'', ''end_of_day''} \<longrightarrow> \<not> xr_success r \<and> xr_error r = Alert_Only
         \<and> w_broker w1 = w_broker w \<and> w_positions w1 = w_positions w"
      using handle_exit_returns [of xe sid acct x p w] by blast
    obtain rs w2 where "run_exit_signals xe ps sid acct xs w1 = (Inr rs, w2)"
      and "list_all2 (\<lambda>x r. xr_symbol r = xs_symbol x \<and> (xs_urgency x \<notin> {''immediate'', ''end_of_day''}
         \<longrightarrow> \<not> xr_success r \<and> xr_error r = Alert_Only)) (filter (\<lambda>x. match_signal x ps \<noteq> None) xs) rs"
      and "(\<forall>x \<in> set xs. xs_urgency x \<notin> {''immediate'', ''end_of_day''}) \<longrightarrow> w_broker w2 = w_broker w1 \<and> w_positions w2 = w_positions w1"
      using Cons.IH [of w1] by blast
    then show ?thesis using r Some by (simp add: mbind_def mret_def)
  qed
qed

text \<open>
  C14: process_exit_signals always returns, whatever fails: one result for each signal that has an
  open position of its symbol, in the order of urgency and, within an urgency, in the order given,
  each naming its signal's symbol. A signal that is neither immediate nor end-of-day is only
  announced; a batch of such signals changes neither the broker nor the positions.
\<close>

theorem exit_batch_spec:
  "\<exists>rs w'. process_exit_signals xe signals positions sid acct w = (Inr rs, w')
    \<and> (let todo = filter (\<lambda>x. match_signal x positions \<noteq> None) (sort_key (\<lambda>x. urgency_order (xs_urgency x)) signals) in
         map xr_symbol rs = map xs_symbol todo
       \<and> sorted (map (\<lambda>x. urgency_order (xs_urgency x)) todo)
       \<and> (\<forall>i < length todo. xs_urgency (todo ! i) \<notin> {''immediate'', ''end_of_day''}
            \<longrightarrow> \<not> xr_success (rs ! i) \<and> xr_error (rs ! i) = Alert_Only))
    \<and> ((\<forall>x \<in> set signals. xs_urgency x \<notin> {''immediate'', ''end_of_day''})
         \<longrightarrow> w_broker w' = w_broker w \<and> w_positions w' = w_positions w)"
proof -
  let ?f = "\<lambda>x. urgency_order (xs_urgency x)" and ?P = "\<lambda>x. match_signal x positions \<noteq> None"
  obtain rs w' where r: "process_exit_signals xe signals positions sid acct w = (Inr rs, w')"
    and l: "list_all2 (\<lambda>x r. xr_symbol r = xs_symbol x \<and> (xs_urgency x \<notin> {''immediate'', ''end_of_day''}
         \<longrightarrow> \<not> xr_success r \<and> xr_error r = Alert_Only)) (filter ?P (sort_key ?f signals)) rs"
    and k: "(\<forall>x \<in> set signals. xs_urgency x \<notin> {''immediate'', ''end_of_day''}) \<longrightarrow> w_broker w' = w_broker w \<and> w_positions w' = w_positions w"
    using run_exit_signals_returns [of xe positions sid acct "sort_key ?f signals" w]
    unfolding process_exit_signals_def by auto
  have "map xr_symbol rs = map xs_symbol (filter ?P (sort_key ?f signals))"
    using l by (auto simp: list_all2_conv_all_nth intro!: nth_equalityI)
  moreover have "sorted (map ?f (filter ?P (sort_key ?f signals)))"
    by (intro sorted_filter sorted_sort_key)
  ultimately show ?thesis using r k l by (auto simp: Let_def list_all2_conv_all_nth)
qed

definition late_signal :: "symbol \<Rightarrow> string \<Rightarrow> exit_signal" where
  "late_signal s u = \<lparr>xs_symbol = s, xs_reason = TIME_BASED, xs_urgency = u, xs_current_price = 71000,
     xs_trigger_price = None, xs_unrealized_pnl_pct = 1, xs_recommended_action = Act_SELL, xs_reasoning = Time_Msg 61 60 1\<rparr>"

theorem exit_batch_spec_witness:
  "\<exists>r w'. process_exit_signals partial_base [late_signal ''005930'' ''next_session'', late_signal ''000660'' ''tomorrow'']
       [held_row] 8 ''default'' held_world = (Inr [r], w')
     \<and> xr_symbol r = ''005930'' \<and> \<not> xr_success r \<and> xr_error r = Alert_Only \<and> w_broker w' = 10"
proof -
  let ?xs = "[late_signal ''005930'' ''next_session'', late_signal ''000660'' ''tomorrow'']"
  have f: "xs_symbol (late_signal s u) = s" "xs_urgency (late_signal s u) = u" for s u by (simp_all add: late_signal_def)
  have "sort_key (\<lambda>x. urgency_order (xs_urgency x)) ?xs = ?xs" by (simp add: f urgency_order_def)
  moreover have "match_signal (late_signal ''005930'' u) [held_row] = Some held_row" "match_signal (late_signal ''000660'' u) [held_row] = None" for u
    by (simp_all add: match_signal_def f held_row_def new_record_def)
  ultimately have todo: "filter (\<lambda>x. match_signal x [held_row] \<noteq> None) (sort_key (\<lambda>x. urgency_order (xs_urgency x)) ?xs)
      = [late_signal ''005930'' ''next_session'']" by simp
  obtain rs w' where p: "process_exit_signals partial_base ?xs [held_row] 8 ''default'' held_world = (Inr rs, w')"
    and m: "map xr_symbol rs = map xs_symbol [late_signal ''005930'' ''next_session'']"
    and r: "\<forall>i < length [late_signal ''005930'' ''next_session'']. xs_urgency ([late_signal ''005930'' ''next_session''] ! i)
        \<notin> {''immediate'', ''end_of_day''} \<longrightarrow> \<not> xr_success (rs ! i) \<and> xr_error (rs ! i) = Alert_Only"
    and k: "(\<forall>x \<in> set ?xs. xs_urgency x \<notin> {''immediate'', ''end_of_day''}) \<longrightarrow> w_broker w' = w_broker held_world \<and> w_positions w' = w_positions held_world"
    using exit_batch_spec [of partial_base ?xs "[held_row]" 8 "''default''" held_world] unfolding todo Let_def by blast
  obtain r0 where "rs = [r0]" using m by (cases rs) auto
  then show ?thesis using p m r k by (simp add: f held_world_def new_world_def)
qed

end
