(* ===== verification/Stop_Loss_Job.thy ===== *)
theory Stop_Loss_Job
  imports Exit_Executor
begin

text \<open>
  The stop-loss job run to its end: when the price of an account's open position is at or below its
  stop, no call fails and the broker fills the order, the position is sold and closed without
  anybody being asked.
\<close>

section \<open>A stop-loss exit without faults\<close>

lemma finish_no_faults:
  assumes "xe_faults xe = no_faults"
  shows "\<exists>r w'. finish_order xe c oid st v res q price pid act w = (Inr r, w') \<and> xr_success r"
  using assms by (simp add: finish_order_def mark_filled_def update_order_def meth_defs effect_def notify_safe_def
    send_message_def record_decision_safe_def record_decision_def)

lemma verify_skipped:
  assumes "WEB_VERIFY_SKIP_ON_STOP_LOSS (xe_settings xe)" "xe_faults xe = no_faults"
  shows "\<exists>v w'. verify_order (wired ap llm xe) c oid True w = (Inr v, w') \<and> wv_result v = SAFE \<and> w_broker w' = w_broker w
    \<and> w_snapshots w' = w_snapshots w \<and> w_positions w' = w_positions w \<and> w_sectors w' = w_sectors w"
  using assms by (simp add: verify_order_def web_verify_def meth_defs update_order_def effect_def safe_default_def set_order_def)

lemma auto_approved:
  assumes "ap_faults ap = no_faults" "check_auto_approve (ap_settings ap) (aa_decision a) (td_portfolio_pct (aa_decision a) (aa_state a)) \<noteq> None"
  shows "\<exists>w'. request_approval ap a w = (Inr AUTO_APPROVED, w')"
  using assms by (auto simp: request_approval_def fresh_uuid_def meth_defs handle_auto_approve_def effect_def
    record_decision_def send_message_def)

definition stop_loss_order :: "exit_args \<Rightarrow> order_request" where
  "stop_loss_order a = \<lparr>rq_account_id = xa_account_id a, rq_symbol = xs_symbol (xa_signal a), rq_side = Side_SELL,
     rq_type = exit_order_type (xa_signal a), rq_quantity = pr_quantity (xa_position a),
     rq_price = Some (xs_current_price (xa_signal a))\<rparr>"

lemma stop_loss_exit:
  fixes w :: "'b world"
  assumes nf: "xe_faults xe = no_faults" "ap_faults ap = no_faults"
    and skip: "WEB_VERIFY_SKIP_ON_STOP_LOSS (xe_settings xe)" "xs_reason (xa_signal a) = Exit_STOP_LOSS"
    and state: "get_current_state (xe_services xe) (xe_account xe) (xe_now xe) (xe_balance xe (w_broker w))
        (xe_holdings xe (w_broker w)) (w_snapshots w) (w_positions w) (w_sectors w) = Inr (ps, cache)"
    and place: "xe_place xe (stop_loss_order a) (w_broker w) = (Inr res, b)" "or_status res = FILLED"
    and pos: "0 < pr_quantity (xa_position a)"
    and row: "find_row (pr_id (xa_position a)) (w_positions w) = Some row" "pr_status row = ''open''"
  shows "\<exists>r w'. execute_exit (wired ap llm xe) a w = (Inr r, w') \<and> xr_success r \<and> w_broker w' = b
    \<and> w_positions w' = put_row (closed_record (fst (xe_now xe)) (exit_close_args a (fill_price res (xs_current_price (xa_signal a)))) row)
        (w_positions w)"
proof -
  let ?xe = "wired ap llm xe"
  obtain oid w1 where c: "create_order no_faults (xa_account_id a) (xs_symbol (xa_signal a)) Side_SELL
        (exit_order_type (xa_signal a)) (pr_quantity (xa_position a)) (xs_current_price (xa_signal a)) (xa_session_id a) w = (Inr oid, w1)"
    and w1: "w_broker w1 = w_broker w" "w_snapshots w1 = w_snapshots w" "w_positions w1 = w_positions w" "w_sectors w1 = w_sectors w"
    by (simp add: create_order_def Let_def)
  obtain v w2 where v: "verify_order ?xe (exit_context a) oid True w1 = (Inr v, w2)" "wv_result v = SAFE"
    "w_broker w2 = w_broker w1" "w_snapshots w2 = w_snapshots w1" "w_positions w2 = w_positions w1" "w_sectors w2 = w_sectors w1"
    using verify_skipped [OF skip(1) nf(1)] by metis
  obtain w3 where cs: "current_state ?xe w2 = (Inr ps, w3)"
    using state v w1 nf by (simp add: current_state_def wired_def)
  have w3: "w_broker w3 = w_broker w" "w_positions w3 = w_positions w"
    using staysD [OF executor_stays(1) cs] staysD [OF executor_stays(2) cs] v w1 by simp_all
  have "check_auto_approve (ap_settings ap) (aa_decision (exit_approval a oid ps)) pct \<noteq> None" for pct
    using skip(2) by (simp add: check_auto_approve_def exit_approval_def exit_trade_decision_def)
  then obtain w4 where ap: "request_approval ap (exit_approval a oid ps) w3 = (Inr AUTO_APPROVED, w4)"
    using auto_approved [OF nf(2)] by metis
  have w4: "w_broker w4 = w_broker w" "w_positions w4 = w_positions w"
    using staysD [OF request_approval_stays(1) ap] staysD [OF request_approval_stays(2) ap] w3 by simp_all
  have "\<exists>r w'. book_exit_fill ?xe a oid st v' res x = (Inr r, w') \<and> xr_success r" for st v' and x :: "'b world"
  proof -
    obtain g where g: "mcatch m (\<lambda>_. mret ()) y = (Inr (), g m y)" for m and y :: "'b world" using catch_unit by metis
    have "xe_faults ?xe = no_faults" using nf by simp
    from finish_no_faults [OF this] show ?thesis
      by (simp add: book_exit_fill_def Let_def record_execution_def mbind_def [of "ext _ _"] mbind_def [of "mcatch _ _"] effect_def nf g)
  qed
  then obtain r w' where r: "book_exit_fill ?xe a oid AUTO_APPROVED v res (w4\<lparr>w_broker := b\<rparr>) = (Inr r, w')" "xr_success r" by metis
  have closed: "w_broker w' = b \<and> w_positions w' = put_row (closed_record (fst (xe_now xe))
      (exit_close_args a (fill_price res (xs_current_price (xa_signal a)))) row) (w_positions w)"
    using book_exit_success [OF r(1)] row w4 nf by auto
  have "place_exit ?xe a oid AUTO_APPROVED v w4 = (Inr r, w')"
    using place pos w4 r by (simp add: place_exit_def mk_order_request_def meth_defs broker_order_def stop_loss_order_def Let_def)
  then have "exit_body ?xe a oid w1 = (Inr r, w')"
    using skip(2) v(1,2) cs ap by (simp add: exit_body_def gate_order_def mbind_def)
  then show ?thesis using r c closed by (simp add: execute_exit_def guarded_order_def nf mcatch_def)
qed


section \<open>The whole job\<close>

text \<open>The signal of a position whose price has reached its stop.\<close>

definition stop_signal :: "position_record \<Rightarrow> dec \<Rightarrow> dec \<Rightarrow> exit_signal" where
  "stop_signal p price pnl = \<lparr>xs_symbol = pr_symbol p, xs_reason = Exit_STOP_LOSS, xs_urgency = ''immediate'',
     xs_current_price = price, xs_trigger_price = Some (pr_stop_loss_price p), xs_unrealized_pnl_pct = pnl,
     xs_recommended_action = Act_STOP_LOSS, xs_reasoning = Stop_Loss_Msg price (pr_stop_loss_price p) pnl\<rparr>"

lemma stop_signal_fields [simp]:
  "xs_symbol (stop_signal p price pnl) = pr_symbol p" "xs_reason (stop_signal p price pnl) = Exit_STOP_LOSS"
  "xs_urgency (stop_signal p price pnl) = ''immediate''" "xs_current_price (stop_signal p price pnl) = price"
  by (simp_all add: stop_signal_def)

lemma job_stop_signal:
  assumes "price_of (pr_symbol p) = Inr price" "job_pnl_pct p price = Inr pnl" "price \<le> pr_stop_loss_price p"
  shows "job_signals price_of today [p] = [stop_signal p price pnl]"
  using assms by (simp add: job_signals_def job_exit_signal_def check_stop_loss_def stop_signal_def map_filter_def)

text \<open>
  C4: the stop-loss job sells. When the only open position of the account has fallen to its stop, no
  external call fails, the portfolio state can be reckoned and the broker fills the MARKET SELL
  of the whole position, the job returns one successful result and the position is closed at the
  fill price, with nobody asked: the web check is skipped and the approval is automatic,
  whatever the settings of human approval and the pending events say.
\<close>

theorem stop_loss_job_sells:
  fixes w :: "'b world"
  assumes nf: "xe_faults xe = no_faults" "ap_faults ap = no_faults" and skip: "WEB_VERIFY_SKIP_ON_STOP_LOSS (xe_settings xe)"
    and "open": "pm_get_open True None (Some acct) (w_positions w) = Inr [p]" "find_row (pr_id p) (w_positions w) = Some p"
    and price: "prices (w_broker w) (pr_symbol p) = Inr price" "job_pnl_pct p price = Inr pnl" "price \<le> pr_stop_loss_price p"
    and state: "get_current_state (xe_services xe) (xe_account xe) (xe_now xe) (xe_balance xe (w_broker w))
        (xe_holdings xe (w_broker w)) (w_snapshots w) (w_positions w) (w_sectors w) = Inr (ps, cache)"
    and place: "xe_place xe \<lparr>rq_account_id = acct, rq_symbol = pr_symbol p, rq_side = Side_SELL, rq_type = MARKET,
        rq_quantity = pr_quantity p, rq_price = Some price\<rparr> (w_broker w) = (Inr res, b)" "or_status res = FILLED"
    and pos: "0 < pr_quantity p"
  shows "\<exists>r w' row. stop_loss_job (wired ap llm xe) prices acct w = (Inr [r], w') \<and> xr_success r \<and> xr_symbol r = pr_symbol p
    \<and> w_broker w' = b \<and> w_positions w' = put_row row (w_positions w) \<and> pr_id row = pr_id p \<and> pr_status row = ''closed''
    \<and> pr_exit_price row = Some (fill_price res price) \<and> pr_exit_reason row = Some (exit_reason_value Exit_STOP_LOSS)"
proof -
  let ?xe = "wired ap llm xe" and ?x = "stop_signal p price pnl"
  define sid where "sid = w_next_uuid w"
  define w1 where "w1 = w\<lparr>w_calls := w_calls w + 1, w_next_uuid := sid + 1\<rparr>"
  let ?a = "exit_args_of ?x p sid acct"
  have srt: "sort_key pr_entry_date (filter (\<lambda>r. pr_status r = ''open'' \<and> pr_account_id r = acct) (pt_rows (w_positions w))) = [p]"
    using "open"(1) by (simp add: pm_get_open_def)
  have st: "pr_status p = ''open''" using arg_cong [OF srt, of set] by auto
  have m: "match_signal ?x [p] = Some p" by (simp add: match_signal_def st)
  have ot: "exit_order_type ?x = MARKET" by (simp add: exit_order_type_def)
  have pl: "xe_place xe (stop_loss_order ?a) (w_broker w1) = (Inr res, b)"
    using place(1) by (simp add: stop_loss_order_def exit_args_of_def ot w1_def)
  have a: "xa_signal ?a = ?x" "xa_position ?a = p" by (simp_all add: exit_args_of_def)
  have same: "w_broker w1 = w_broker w" "w_snapshots w1 = w_snapshots w" "w_positions w1 = w_positions w" "w_sectors w1 = w_sectors w"
    by (simp_all add: w1_def)
  obtain r w' where r: "execute_exit ?xe ?a w1 = (Inr r, w')" "xr_success r" "w_broker w' = b"
    "w_positions w' = put_row (closed_record (fst (xe_now xe)) (exit_close_args ?a (fill_price res price)) p) (w_positions w)"
    using stop_loss_exit [OF nf skip, where a = ?a and llm = llm and w = w1, unfolded a same stop_signal_fields,
        OF refl state pl [unfolded same] place(2) pos "open"(2) st] by blast
  have "xr_symbol r = pr_symbol p" using yieldsD [OF execute_exit_names r(1)] by (simp add: exit_args_of_def)
  moreover have "stop_loss_job ?xe prices acct w = (Inr [r], w')"
    using r(1) nf "open"(1) m job_stop_signal [of "prices (w_broker w)" p price pnl "fst (xe_now xe)", OF price]
    by (simp add: stop_loss_job_def open_rows_of_def meth_defs fresh_uuid_def process_exit_signals_def handle_exit_signal_def
        execute_exit_signal_def w1_def sid_def)
  ultimately show ?thesis using r
    by (intro exI [of _ r] exI [of _ w'] exI [of _ "closed_record (fst (xe_now xe)) (exit_close_args ?a (fill_price res price)) p"])
      (simp add: closed_record_def exit_close_args_def exit_args_of_def)
qed

text \<open>A broker that fills every order at 63,000; its state is the number of shares left.\<close>

definition full_place :: "order_request \<Rightarrow> int \<Rightarrow> (exc + order_result) \<times> int" where
  "full_place rq n = (Inr \<lparr>or_account_id = ''default'', or_order_id = 9, or_symbol = rq_symbol rq, or_side = rq_side rq,
     or_type = rq_type rq, or_quantity = rq_quantity rq, or_price = 63000, or_status = FILLED,
     or_filled_quantity = rq_quantity rq, or_filled_price = Some 63000, or_commission = 0, or_timestamp = sample_now\<rparr>,
     n - rq_quantity rq)"

theorem stop_loss_job_sells_witness:
  "\<exists>r w' row. stop_loss_job (wired (sample_approvals no_faults [Callback ''reject'' 100]) calm_web (partial_base\<lparr>xe_place := full_place\<rparr>))
       (\<lambda>_ _. Inr 63000) ''default'' held_world = (Inr [r], w') \<and> xr_success r \<and> w_broker w' = 0
     \<and> w_positions w' = put_row row (w_positions held_world) \<and> pr_id row = 1 \<and> pr_status row = ''closed''
     \<and> pr_exit_price row = Some 63000"
proof -
  let ?xe = "partial_base\<lparr>xe_place := full_place\<rparr>"
  have f: "xe_faults partial_base = no_faults" "xe_settings partial_base = default_settings"
    "xe_services partial_base = sample_services" "xe_account partial_base = ''default''" "xe_now partial_base = sample_now"
    "xe_balance partial_base = (\<lambda>_. Inr sample_balance)" "xe_holdings partial_base = (\<lambda>_. Inr [])" by (simp_all add: partial_base_def)
  have w: "w_broker held_world = 10" "w_snapshots held_world = []" "w_positions held_world = \<lparr>pt_rows = [held_row], pt_next_id = 2\<rparr>"
    "w_sectors held_world = []" by (simp_all add: held_world_def new_world_def)
  have r: "pr_status held_row = ''open''" "pr_account_id held_row = ''default''" "pr_stop_loss_price held_row = 66000"
    "pr_quantity held_row = 10" "pr_id held_row = 1" by (simp_all add: held_row_def new_record_def)
  obtain ps where ps: "get_current_state sample_services ''default'' sample_now (Inr sample_balance) (Inr []) []
      \<lparr>pt_rows = [held_row], pt_next_id = 2\<rparr> [] = Inr (ps, [])" using partial_state by blast
  have pnl: "job_pnl_pct held_row 63000 = Inr (- 10)"
    using dquant_of_int [of "- 10" 2] by (simp add: job_pnl_pct_def held_row_def new_record_def dec_eval)
  have run: "pm_get_open True None (Some ''default'') (w_positions held_world) = Inr [held_row]"
    "find_row (pr_id held_row) (w_positions held_world) = Some held_row"
    by (simp_all add: pm_get_open_def find_row_def w r)
  let ?rq = "\<lparr>rq_account_id = ''default'', rq_symbol = pr_symbol held_row, rq_side = Side_SELL, rq_type = MARKET,
      rq_quantity = pr_quantity held_row, rq_price = Some 63000\<rparr>"
  show ?thesis
    using stop_loss_job_sells [where xe = ?xe and ap = "sample_approvals no_faults [Callback ''reject'' 100]" and llm = calm_web
        and prices = "\<lambda>_ _. Inr 63000" and price = 63000 and w = held_world and p = held_row and acct = "''default''"
        and pnl = "- 10" and ps = ps and cache = "[]"
        and res = "projr (fst (full_place ?rq 10))" and b = 0] ps
    unfolding r(5) by (auto simp: f w r run [unfolded w r] pnl full_place_def sample_approvals_def
      default_settings_def [THEN arg_cong, of WEB_VERIFY_SKIP_ON_STOP_LOSS] fill_price_def)
qed

end
