(* ===== verification/World_Invariant.thy ===== *)
theory World_Invariant
  imports Stop_Loss_Job
begin

text \<open>
  What the tables of the execution side say of each other, at every moment and whatever calls fail:
  the positions table is well formed, order ids are unique, an execution belongs to an order, and
  an order marked FILLED has the execution that filled it. Every operation of the execution side
  keeps it.
\<close>

section \<open>The invariant\<close>

text \<open>What the invariant reads of an order row, and of the world.\<close>

definition order_core :: "order_row \<Rightarrow> int \<times> order_status \<times> nat option \<times> int \<times> dec option \<times> dec" where
  "order_core r = (od_id r, od_status r, od_broker_order_id r, od_filled_quantity r, od_filled_price r, od_commission r)"

definition books :: "'b world \<Rightarrow> position_table \<times> execution_row list \<times> int \<times> (int \<times> order_status \<times> nat option \<times> int \<times> dec option \<times> dec) list" where
  "books w = (w_positions w, w_executions w, w_next_order_id w, map order_core (w_orders w))"

definition backed_by :: "int \<times> order_status \<times> nat option \<times> int \<times> dec option \<times> dec \<Rightarrow> execution_row \<Rightarrow> bool" where
  "backed_by c x \<longleftrightarrow> (case c of (i, st, b, q, p, com) \<Rightarrow> ex_order_id x = i \<and> b = Some (ex_broker_order_id x)
     \<and> q = ex_fill_quantity x \<and> p = Some (ex_fill_price x) \<and> com = ex_commission x)"

fun books_ok :: "position_table \<times> execution_row list \<times> int \<times> (int \<times> order_status \<times> nat option \<times> int \<times> dec option \<times> dec) list \<Rightarrow> bool" where
  "books_ok (t, xs, n, cs) \<longleftrightarrow> table_ok t \<and> distinct (map fst cs) \<and> (\<forall>c \<in> set cs. fst c < n)
     \<and> (\<forall>x \<in> set xs. ex_order_id x \<in> fst ` set cs)
     \<and> (\<forall>c \<in> set cs. fst (snd c) = FILLED \<longrightarrow> (\<exists>x \<in> set xs. backed_by c x))"

definition world_ok :: "'b world \<Rightarrow> bool" where
  "world_ok w = books_ok (books w)"

text \<open>The invariant while the order \<open>i\<close> is handled, and while its fill \<open>x\<close> is booked.\<close>

definition handling :: "int \<Rightarrow> 'b world \<Rightarrow> bool" where
  "handling i w \<longleftrightarrow> world_ok w \<and> i \<in> od_id ` set (w_orders w)"

definition booking :: "execution_row \<Rightarrow> 'b world \<Rightarrow> bool" where
  "booking x w \<longleftrightarrow> world_ok w \<and> x \<in> set (w_executions w)"

lemma order_core_fst [simp]: "fst (order_core r) = od_id r" "fst (snd (order_core r)) = od_status r"
  by (simp_all add: order_core_def)

lemma books_handling: "handling i w \<longleftrightarrow> (books_ok (books w) \<and> i \<in> fst ` set (snd (snd (snd (books w)))))"
  by (auto simp: handling_def world_ok_def books_def image_iff)

lemma books_booking: "booking x w \<longleftrightarrow> (books_ok (books w) \<and> x \<in> set (fst (snd (books w))))"
  by (auto simp: booking_def world_ok_def books_def)

lemma stays_preserves:
  assumes "stays books m" shows "preserves world_ok m" "preserves (handling i) m" "preserves (booking x) m"
  using assms unfolding preserves_def stays_def world_ok_def books_handling books_booking by simp_all

lemma preserves_ext [preserves_intros]:
  assumes "\<And>w n. P (w\<lparr>w_calls := n\<rparr>) = P w" "preserves P f" shows "preserves P (ext fl f)"
  using assms by (auto simp: preserves_def ext_def Let_def split: option.split fault.split)

lemma books_simps [simp]: "books (w\<lparr>w_calls := n\<rparr>) = books w" "books (w\<lparr>w_broker := b\<rparr>) = books w"
  "books (w\<lparr>w_sectors := c\<rparr>) = books w" "books (w\<lparr>w_next_uuid := u\<rparr>) = books w" "books (w\<lparr>w_sent := ms\<rparr>) = books w"
  "books (w\<lparr>w_log := l\<rparr>) = books w" "books (w\<lparr>w_manager := am\<rparr>) = books w" "books (w\<lparr>w_approvals := as\<rparr>) = books w"
  "books (w\<lparr>w_request_cache := rc\<rparr>) = books w"
  by (simp_all add: books_def)

lemma invariant_calls [simp]: "world_ok (w\<lparr>w_calls := n\<rparr>) = world_ok w" "handling i (w\<lparr>w_calls := n\<rparr>) = handling i w"
  "booking x (w\<lparr>w_calls := n\<rparr>) = booking x w"
  by (simp_all add: world_ok_def handling_def booking_def)

section \<open>What does not touch the books\<close>

lemma books_set_order:
  assumes "\<And>r. order_core (f r) = order_core r" shows "books (set_order i f w) = books w"
  using assms by (simp add: books_def set_order_def)

lemma books_set_order_approval [simp]: "books (set_order_approval i s mq w) = books w"
  unfolding set_order_approval_def by (rule books_set_order) (simp add: order_core_def)

lemma books_set_approval [simp]: "books (set_approval rid g w) = books w"
  by (simp add: set_approval_def)

lemma books_approval_effects [simp]:
  "books (add_approval rid i acct rs now resp ex w) = books w" "books (cache_status acct rid rs ttl w) = books w"
  "books (update_manager h w) = books w" "books (write_answer now rid s mq w) = books w"
  by (simp_all add: add_approval_def cache_status_def update_manager_def write_answer_def Let_def split: option.split)

lemma books_leaves [stays_intros]: "stays books fresh_uuid" "stays books (callback_signal rid s mq)" "stays books (broker_order xe rq)"
  by (simp_all add: stays_def fresh_uuid_def callback_signal_def broker_order_def Let_def split_beta)

lemma books_store [stays_intros]:
  "stays books (get_order fl i)" "stays books (send_message fl msg)" "stays books (notify_safe fl msg)"
  "stays books (record_decision fl ss st d s par acct)" "stays books (record_decision_safe fl ss st d s par acct)"
  unfolding store_defs by (intro stays_intros; simp add: stays_def)+

lemma books_update: "(\<And>r. order_core (f r) = order_core r) \<Longrightarrow> stays books (update_order fl i f)"
  unfolding update_order_def by (intro stays_intros; simp add: books_set_order)

lemma books_callback [stays_intros]:
  "stays books (callback_db ap rid s mq)" "stays books (callback_cache ap rid s)" "stays books (callback_message ap rid s mq)"
  "stays books (respond_to_approval ap action mq rid)"
  unfolding callback_db_def callback_cache_def callback_message_def respond_to_approval_def
  by (intro stays_intros; simp add: stays_def Let_def split: option.split)+

lemma books_event [stays_intros]:
  "stays books (process_event ap e)" "stays books (handle_timeout ap a rid)"
  unfolding process_event_def handle_callback_def handle_timeout_def
  by (cases e; simp; intro stays_intros; simp)+

lemma books_wait [stays_intros]: "stays books (wait_for_response ap rid es)"
  by (induction es) (simp_all, (intro stays_intros; assumption)+)

lemma books_request [stays_intros]: "stays books (request_approval ap a)"
  unfolding request_approval_def handle_auto_approve_def handle_manual_approve_def Let_def
  by (intro stays_intros; simp)

lemma books_verify [stays_intros]: "stays books (web_verify fl st llm s side sid par sl)"
  unfolding web_verify_def by (intro stays_intros)

lemma books_state [stays_intros]: "stays books (current_state xe)"
  unfolding current_state_def by (intro stays_intros; simp add: stays_def split: sum.split)

lemma books_checks [stays_intros]:
  "stays books (risk_recheck xe s side q price stop)" "stays books (log_rejection xe c oid q st v err)"
  unfolding risk_recheck_def log_rejection_def Let_def by (intro stays_intros)+

lemma books_verify_order [stays_intros]: "stays books (verify_order (wired ap llm xe) c oid sl)"
  unfolding verify_order_def wired_simps by (intro stays_intros books_update) (simp add: order_core_def)

section \<open>What touches them\<close>

text \<open>Changing an order: one that becomes FILLED needs its execution.\<close>

lemma handling_set_order:
  assumes "handling oid w" "\<And>r. od_id (f r) = od_id r"
    and "\<And>r. od_id r = i \<Longrightarrow> od_status (f r) = FILLED \<Longrightarrow> \<exists>x \<in> set (w_executions w). backed_by (order_core (f r)) x"
  shows "handling oid (set_order i f w)"
proof -
  define g where "g r = (if od_id r = i then f r else r)" for r
  define cs where "cs = map order_core (w_orders w)"
  define cs' where "cs' = map order_core (map g (w_orders w))"
  have id: "od_id (g r) = od_id r" for r using assms(2) by (simp add: g_def)
  have m: "map fst cs' = map fst cs" by (simp add: cs_def cs'_def id comp_def)
  have s: "fst ` set cs' = fst ` set cs" using arg_cong [OF m, of set] by simp
  have b: "books w = (w_positions w, w_executions w, w_next_order_id w, cs)"
    "books (set_order i f w) = (w_positions w, w_executions w, w_next_order_id w, cs')"
    by (simp_all add: books_def set_order_def cs_def cs'_def g_def)
  have ok: "books_ok (w_positions w, w_executions w, w_next_order_id w, cs)" "oid \<in> fst ` set cs"
    using assms(1) by (simp_all add: books_handling b)
  have "\<exists>x \<in> set (w_executions w). backed_by c x" if "c \<in> set cs'" "fst (snd c) = FILLED" for c
  proof -
    from that obtain r where r: "r \<in> set (w_orders w)" "c = order_core (g r)" "od_status (g r) = FILLED"
      by (auto simp: cs'_def)
    show ?thesis
    proof (cases "od_id r = i")
      case True
      then show ?thesis using assms(3) [OF True] r by (simp add: g_def)
    next
      case False
      then have "order_core r \<in> set cs" "c = order_core r" "od_status r = FILLED" using r by (simp_all add: g_def cs_def)
      then show ?thesis using ok(1) by simp
    qed
  qed
  moreover have "fst c < w_next_order_id w" if "c \<in> set cs'" for c
  proof -
    from that have "fst c \<in> fst ` set cs" using s by (metis imageI)
    then show ?thesis using ok(1) by auto
  qed
  ultimately have "books_ok (w_positions w, w_executions w, w_next_order_id w, cs')"
    using ok(1) unfolding books_ok.simps m s by blast
  then show ?thesis using ok(2) by (simp add: books_handling b s)
qed

lemma preserves_effect [preserves_intros]: "(\<And>w. P w \<Longrightarrow> P (f w)) \<Longrightarrow> preserves P (effect f)"
  by (simp add: preserves_def effect_def)

lemma update_preserves:
  assumes "\<And>r. od_id (f r) = od_id r" "\<And>r. od_status (f r) \<noteq> FILLED"
  shows "preserves (handling oid) (update_order fl i f)" "preserves (handling oid) (update_order_safe fl i f)"
proof -
  show "preserves (handling oid) (update_order fl i f)" unfolding update_order_def
    by (intro preserves_intros handling_set_order) (simp_all add: assms)
  then show "preserves (handling oid) (update_order_safe fl i f)" unfolding update_order_safe_def by (intro preserves_intros)
qed


lemma handling_create:
  assumes "world_ok w" "create_order fl acct s side ty q p ss w = (Inr i, w')" shows "handling i w'"
proof -
  have w': "books w' = (w_positions w, w_executions w, w_next_order_id w + 1,
      map order_core (w_orders w) @ [order_core (new_order_row i acct s side ty q p ss)])" "i = w_next_order_id w"
    using assms(2) by (auto simp: create_order_def ext_def Let_def books_def split: option.splits fault.splits)
  have core: "order_core (new_order_row i acct s side ty q p ss) = (i, PENDING, None, 0, None, 0)"
    by (simp add: order_core_def new_order_row_def)
  show ?thesis using assms(1) unfolding books_handling w'(1) world_ok_def core
    by (auto simp: books_def w'(2) less_Suc_eq dest: bspec)
qed

lemma create_preserves: "preserves world_ok (create_order fl acct s side ty q p ss)"
proof (rule preservesI)
  fix w r and w' :: "'a world" assume w: "world_ok w" and c: "create_order fl acct s side ty q p ss w = (r, w')"
  show "world_ok w'"
  proof (cases "fl (w_calls w)")
    case None
    then obtain i where "create_order fl acct s side ty q p ss w = (Inr i, w')" using c by (auto simp: create_order_def ext_def Let_def)
    then show ?thesis using handling_create [OF w] by (simp add: handling_def)
  next
    case (Some f)
    have "create_order no_faults acct s side ty q p ss w = (Inr (w_next_order_id w), snd (create_order no_faults acct s side ty q p ss w))"
      by (simp add: create_order_def Let_def)
    from handling_create [OF w this] have "world_ok (snd (create_order no_faults acct s side ty q p ss w))" by (simp add: handling_def)
    then show ?thesis using c w Some by (cases f) (auto simp: create_order_def ext_def Let_def)
  qed
qed

text \<open>Recording the fill of the order that is handled; then everything up to the order row keeps the fill.\<close>

lemma handling_execution:
  "handling (ex_order_id x) w \<Longrightarrow> handling (ex_order_id x) (w\<lparr>w_executions := w_executions w @ [x]\<rparr>)"
  unfolding books_handling by (auto simp: books_def)

lemma record_preserves: "preserves (handling i) (record_execution fl i b p q c)"
  unfolding record_execution_def
  by (intro preserves_intros) (simp_all add: handling_execution [where x = "\<lparr>ex_order_id = i, ex_broker_order_id = b,
     ex_fill_price = p, ex_fill_quantity = q, ex_commission = c\<rparr>", simplified])

definition filling :: "int \<Rightarrow> execution_row \<Rightarrow> 'b world \<Rightarrow> bool" where
  "filling i x w \<longleftrightarrow> handling i w \<and> booking x w \<and> ex_order_id x = i"

lemma filling_simps: "filling i x w \<longleftrightarrow> handling i w \<and> x \<in> set (w_executions w) \<and> ex_order_id x = i"
  by (auto simp: filling_def booking_def handling_def)

lemma stays_filling: "stays books m \<Longrightarrow> preserves (filling i x) m"
  using stays_preserves [of m] unfolding preserves_def filling_def by blast

lemma positions_preserve:
  assumes "\<And>t. table_ok t \<Longrightarrow> table_ok (g t)"
  shows "filling i x w \<Longrightarrow> filling i x (w\<lparr>w_positions := g (w_positions w)\<rparr>)"
  using assms by (auto simp: filling_simps books_handling books_def)

lemma create_position_preserves: "preserves (filling i x) (create_position fl today a)"
  unfolding create_position_def
proof (intro preserves_intros)
  show "preserves (filling i x) (\<lambda>w. let (r, t) = pm_create True today a (w_positions w) in (r, w\<lparr>w_positions := t\<rparr>))"
    by (simp add: preserves_def split_beta Let_def positions_preserve [where g = "\<lambda>t. snd (pm_create True today a t)", OF table_ok_create])
qed (simp add: filling_simps)

lemma close_position_preserves: "preserves (filling i x) (close_position fl today p ca)"
  unfolding close_position_def
proof (intro preserves_intros)
  show "preserves (filling i x) (\<lambda>w. let (r, t) = pm_close True today p ca (w_positions w) in (r, w\<lparr>w_positions := t\<rparr>))"
    by (simp add: preserves_def split_beta Let_def positions_preserve [where g = "\<lambda>t. snd (pm_close True today p ca t)", OF table_ok_close])
qed (simp add: filling_simps)

lemma finish_preserves:
  assumes "x = \<lparr>ex_order_id = oid, ex_broker_order_id = or_order_id r, ex_fill_price = price, ex_fill_quantity = q,
      ex_commission = or_commission r\<rparr>"
  shows "preserves (filling oid x) (finish_order xe c oid st v r q price p act)"
  unfolding finish_order_def mark_filled_def update_order_def
proof (intro preserves_intros stays_filling [OF books_store(3)] stays_filling [OF books_store(5)])
  show "filling oid x (set_order oid (\<lambda>o'. o'\<lparr>od_status := FILLED, od_broker_order_id := Some (or_order_id r),
        od_filled_quantity := q, od_filled_price := Some price, od_commission := or_commission r,
        od_position_id := p\<rparr>) w)" if w: "filling oid x w" for w :: "'a world"
  proof -
    have "x \<in> set (w_executions w)" "handling oid w" using w by (simp_all add: filling_simps)
    then have "handling oid (set_order oid (\<lambda>o'. o'\<lparr>od_status := FILLED, od_broker_order_id := Some (or_order_id r),
        od_filled_quantity := q, od_filled_price := Some price, od_commission := or_commission r,
        od_position_id := p\<rparr>) w)"
      by (intro handling_set_order bexI [of _ x]) (simp_all add: backed_by_def order_core_def assms)
    then show ?thesis using w by (simp add: filling_simps set_order_def)
  qed
qed (simp add: filling_simps)


lemma recorded_preserves:
  assumes "preserves (filling i \<lparr>ex_order_id = i, ex_broker_order_id = b, ex_fill_price = p, ex_fill_quantity = q, ex_commission = c\<rparr>) m"
  shows "preserves (handling i) (mbind (record_execution fl i b p q c) (\<lambda>_. m))"
proof (rule preservesI)
  let ?x = "\<lparr>ex_order_id = i, ex_broker_order_id = b, ex_fill_price = p, ex_fill_quantity = q, ex_commission = c\<rparr>"
  fix w r w' assume w: "handling i w" and run: "mbind (record_execution fl i b p q c) (\<lambda>_. m) w = (r, w')"
  from run show "handling i w'"
  proof (cases rule: mbind_cases)
    case (raised e)
    then show ?thesis using preservesD [OF record_preserves w] by blast
  next
    case (returned u w1)
    have "handling i w1" using preservesD [OF record_preserves w] returned(1) by blast
    moreover have "?x \<in> set (w_executions w1)" using record_execution_Inr [OF returned(1)] by simp
    ultimately have "filling i ?x w1" by (simp add: filling_simps)
    from preservesD [OF assms this returned(2)] show ?thesis by (simp add: filling_simps)
  qed
qed

lemma rejections_preserve:
  "preserves (handling oid) (cancel_order xe c oid q st v err)" "preserves (handling oid) (deny_order xe c oid st v)"
  "preserves (handling oid) (fail_order xe c oid q st v bs)"
  unfolding cancel_order_def deny_order_def fail_order_def
  by (intro preserves_intros stays_preserves [OF books_store(3)] stays_preserves [OF books_checks(2)] update_preserves; simp)+

lemma gate_preserves:
  assumes "\<And>st v. preserves (handling oid) (run st v)"
  shows "preserves (handling oid) (gate_order (wired ap llm xe) c oid sl args run)"
  unfolding gate_order_def wired_simps
  by (intro preserves_intros rejections_preserve assms stays_preserves [OF books_verify_order] stays_preserves [OF books_state]
      stays_preserves [OF books_request])

lemma book_fill_preserves: "preserves (handling oid) (book_fill xe a oid st v q r)"
  unfolding book_fill_def Let_def
  by (intro recorded_preserves preserves_intros create_position_preserves finish_preserves refl)

lemma book_exit_preserves: "preserves (handling oid) (book_exit_fill xe a oid st v r)"
  unfolding book_exit_fill_def Let_def
  by (intro recorded_preserves preserves_intros close_position_preserves finish_preserves refl)

lemma place_preserves: "preserves (handling oid) (place_entry xe a oid st v q)" "preserves (handling oid) (place_exit xe e oid st v)"
  unfolding place_entry_def place_exit_def
  by (intro preserves_intros book_fill_preserves book_exit_preserves rejections_preserve stays_preserves [OF books_leaves(3)])+

lemma effective_preserves: "preserves (handling oid) (effective_quantity xe a oid st v)"
  unfolding effective_quantity_def
  by (intro preserves_intros rejections_preserve stays_preserves [OF books_store(1)] stays_preserves [OF books_checks(1)])

lemma entry_body_preserves: "preserves (handling oid) (entry_body (wired ap llm xe) a oid)"
proof -
  have "preserves (handling oid) (case eq of Inl r \<Rightarrow> mret r | Inr q \<Rightarrow> place_entry (wired ap llm xe) a oid st v q)" for eq st v
    by (cases eq) (simp_all add: preserves_intros place_preserves)
  then show ?thesis unfolding entry_body_def by (intro gate_preserves preserves_intros effective_preserves)
qed

lemma guarded_preserves:
  assumes "\<And>i. preserves (handling i) (body i)"
  shows "preserves world_ok (guarded_order xe c (create_order fl acct s side ty q p ss) body)"
proof (rule preservesI)
  fix w r and w' :: "'a world"
  assume w: "world_ok w" and run: "guarded_order xe c (create_order fl acct s side ty q p ss) body w = (r, w')"
  obtain z w1 where z: "create_order fl acct s side ty q p ss w = (z, w1)" by fastforce
  show "world_ok w'"
  proof (cases z)
    case (Inl e)
    then show ?thesis using run z preservesD [OF create_preserves w z] by (simp add: guarded_order_def)
  next
    case (Inr i)
    have h: "handling i w1" using handling_create [OF w] z Inr by simp
    have "preserves (handling i) (mcatch (body i) (\<lambda>e. mbind (update_order_safe (xe_faults xe) i
         (\<lambda>r. r\<lparr>od_status := FAILED, od_rejection_reason := Raised e\<rparr>))
         (\<lambda>_. mret (fail_result c (Some i) (oc_quantity c) AUTO_APPROVED None [] (Raised e)))))"
      by (intro preserves_intros assms update_preserves; simp)
    from preservesD [OF this h] have "handling i w'" using run z Inr by (simp add: guarded_order_def)
    then show ?thesis by (simp add: handling_def)
  qed
qed

lemma execute_preserves:
  "preserves world_ok (execute_entry (wired ap llm xe) a)" "preserves world_ok (execute_exit (wired ap llm xe) e)"
  unfolding execute_entry_def execute_exit_def exit_body_def
  by (intro guarded_preserves entry_body_preserves gate_preserves place_preserves)+

lemma exit_signal_preserves: "preserves world_ok (handle_exit_signal (wired ap llm xe) sid acct x p)"
  unfolding handle_exit_signal_def execute_exit_signal_def next_session_signal_def
  by (intro preserves_intros execute_preserves stays_preserves [OF books_store(3)] stays_preserves [OF books_store(5)])

lemma batch_preserves: "preserves world_ok (process_exit_signals (wired ap llm xe) xs ps sid acct)"
proof -
  have "preserves world_ok (run_exit_signals (wired ap llm xe) ps sid acct ys)" for ys
    by (induction ys) (simp_all add: preserves_intros exit_signal_preserves)
  then show ?thesis by (simp add: process_exit_signals_def)
qed

lemma job_preserves: "preserves world_ok (stop_loss_job (wired ap llm xe) prices acct)"
  unfolding stop_loss_job_def open_rows_of_def
  by (intro preserves_intros batch_preserves stays_preserves [OF books_leaves(1)]) simp

lemma buys_preserve: "preserves world_ok (execute_buy_decisions (wired ap llm xe) is_open sid strategy acct tds)"
proof -
  have "preserves world_ok (run_entries (wired ap llm xe) sid strategy acct ys)" for ys
    by (induction ys) (simp_all add: preserves_intros execute_preserves)
  then show ?thesis unfolding execute_buy_decisions_def Let_def by (intro preserves_intros)
qed

lemma initialize_books: "stays books (initialize ap)"
  unfolding initialize_def
  by (intro stays_intros) (auto simp: books_def Let_def order_core_def)

section \<open>The property\<close>

text \<open>
  C6: the tables stay consistent through every operation of the execution side, whatever the users do
  and whichever external calls fail before or after they took effect: positions have unique ids
  and are open or closed with complete exit data, order ids are unique and below the next one,
  every execution belongs to an order, and an order is FILLED only when an execution with its
  broker id, quantity, price and commission is there.
\<close>

theorem world_stays_consistent:
  fixes w :: "'b world"
  assumes "world_ok w"
  shows "world_ok (snd (execute_entry (wired ap llm xe) a w)) \<and> world_ok (snd (execute_exit (wired ap llm xe) e w))
    \<and> world_ok (snd (process_exit_signals (wired ap llm xe) xs ps sid acct w))
    \<and> world_ok (snd (stop_loss_job (wired ap llm xe) prices acct w))
    \<and> world_ok (snd (execute_buy_decisions (wired ap llm xe) is_open sid strategy acct tds w))
    \<and> world_ok (snd (process_event ap ev w)) \<and> world_ok (snd (initialize ap w))"
  using assms
  by (intro conjI preserves_snd [OF execute_preserves(1)] preserves_snd [OF execute_preserves(2)] preserves_snd [OF batch_preserves]
      preserves_snd [OF job_preserves] preserves_snd [OF buys_preserve] preserves_snd [OF stays_preserves(1) [OF books_event(1)]]
      preserves_snd [OF stays_preserves(1) [OF initialize_books]])

text \<open>The world of a run that fills an order, with a fault after the broker's fill.\<close>

theorem world_stays_consistent_witness:
  "world_ok (snd (execute_entry (sample_executor late_fault [Callback ''approve'' 100]) sample_entry sample_world))
     \<and> world_ok (snd (stop_loss_job (wired (sample_approvals no_faults []) calm_web partial_base) (\<lambda>_ _. Inr 65000) ''default'' held_world))"
proof -
  have "world_ok sample_world"
    by (simp add: world_ok_def books_def sample_world_def new_world_def table_ok_def)
  from world_stays_consistent [where xe = "base_executor late_fault" and llm = calm_web
      and ap = "sample_approvals late_fault [Callback ''approve'' 100]" and a = sample_entry, OF this]
  have "world_ok (snd (execute_entry (sample_executor late_fault [Callback ''approve'' 100]) sample_entry sample_world))"
    by (simp add: sample_executor_def)
  moreover have held: "world_ok held_world"
    by (simp add: world_ok_def books_def held_world_def new_world_def table_ok_def held_row_def row_ok_def new_record_def)
  from world_stays_consistent [where xe = partial_base and llm = calm_web and ap = "sample_approvals no_faults []"
      and prices = "\<lambda>_ _. Inr 65000" and acct = "''default''", OF this]
  have "world_ok (snd (stop_loss_job (wired (sample_approvals no_faults []) calm_web partial_base) (\<lambda>_ _. Inr 65000) ''default'' held_world))"
    by simp
  ultimately show ?thesis by blast
qed

end
