(* ===== verification/Calendar.thy ===== *)
theory Calendar
  imports Prelude
begin

text \<open>
  The part of Python's \<open>datetime.date\<close> the program uses: the proleptic Gregorian calendar, with a
  date as its ordinal (1 is 1 January of year 1). \<open>ord2ymd\<close> is \<open>date.fromordinal\<close>, \<open>mk_date\<close> the
  constructor \<open>date(y, m, d)\<close>; the lemmas show that they are inverse to each other, so that the
  ordinals carry the calendar.
\<close>

definition is_leap :: "int \<Rightarrow> bool" where
  "is_leap y \<longleftrightarrow> y mod 4 = 0 \<and> (y mod 100 \<noteq> 0 \<or> y mod 400 = 0)"

definition days_before_year :: "int \<Rightarrow> int" where
  "days_before_year y = (y - 1) * 365 + (y - 1) div 4 - (y - 1) div 100 + (y - 1) div 400"

definition days_in_month :: "int \<Rightarrow> int \<Rightarrow> int" where
  "days_in_month y m = (if m = 2 then if is_leap y then 29 else 28
     else if m = 4 \<or> m = 6 \<or> m = 9 \<or> m = 11 then 30 else 31)"

definition days_before_month :: "int \<Rightarrow> int \<Rightarrow> int" where
  "days_before_month y m = (let l = (if is_leap y then 1 else 0) in
     if m = 1 then 0 else if m = 2 then 31 else if m = 3 then 59 + l else if m = 4 then 90 + l
     else if m = 5 then 120 + l else if m = 6 then 151 + l else if m = 7 then 181 + l
     else if m = 8 then 212 + l else if m = 9 then 243 + l else if m = 10 then 273 + l
     else if m = 11 then 304 + l else 334 + l)"

definition ymd2ord :: "int \<Rightarrow> int \<Rightarrow> int \<Rightarrow> int" where
  "ymd2ord y m d = days_before_year y + days_before_month y m + d"

definition mk_date :: "int \<Rightarrow> int \<Rightarrow> int \<Rightarrow> exc + int" where
  "mk_date y m d = (if 1 \<le> y \<and> y \<le> 9999 \<and> 1 \<le> m \<and> m \<le> 12 \<and> 1 \<le> d \<and> d \<le> days_in_month y m
     then Inr (ymd2ord y m d) else Inl (ValueError ''date''))"

text \<open>The month and day of the \<open>r\<close>-th day (from 0) of a year.\<close>

definition month_of :: "int \<Rightarrow> int \<Rightarrow> int" where
  "month_of y r = (let l = (if is_leap y then 1 else 0) in
     if r < 31 then 1 else if r < 59 + l then 2 else if r < 90 + l then 3 else if r < 120 + l then 4
     else if r < 151 + l then 5 else if r < 181 + l then 6 else if r < 212 + l then 7
     else if r < 243 + l then 8 else if r < 273 + l then 9 else if r < 304 + l then 10
     else if r < 334 + l then 11 else 12)"

definition year_and_day :: "int \<Rightarrow> int \<times> int" where
  "year_and_day n = (let y0 = (n - 1) * 400 div 146097 + 1;
     y = (if n \<le> days_before_year y0 then y0 - 1 else if days_before_year (y0 + 1) < n then y0 + 1 else y0)
   in (y, n - days_before_year y - 1))"

definition ord2ymd :: "int \<Rightarrow> int \<times> int \<times> int" where
  "ord2ymd n = (case year_and_day n of (y, r) \<Rightarrow> (y, month_of y r, r - days_before_month y (month_of y r) + 1))"

definition year_of :: "int \<Rightarrow> int" where "year_of n = fst (ord2ymd n)"
definition month_in_year :: "int \<Rightarrow> int" where "month_in_year n = fst (snd (ord2ymd n))"
definition day_of :: "int \<Rightarrow> int" where "day_of n = snd (snd (ord2ymd n))"

text \<open>\<open>d.replace(day=1)\<close>\<close>

definition first_of_month :: "int \<Rightarrow> int" where
  "first_of_month n = n - (day_of n - 1)"

section \<open>Years\<close>

definition year_days :: "int \<Rightarrow> int" where
  "year_days y = (if is_leap y then 366 else 365)"

lemma div_pred: "0 < k \<Longrightarrow> y div k = (y - 1) div k + (if y mod k = 0 then 1 else 0)" for k :: int
proof (cases "y mod k = 0")
  case True
  assume k: "0 < k"
  from True obtain q where q: "y = k * q" by (metis dvd_eq_mod_eq_0 dvdE)
  have "(k * q - 1) div k = q - 1"
    using k by (intro int_div_pos_eq [where r = "k - 1"]) (simp_all add: algebra_simps)
  with q k True show ?thesis by simp
next
  case False
  assume k: "0 < k"
  then have "0 < y mod k" "y mod k < k" using False pos_mod_sign [of k y] pos_mod_bound [of k y] by linarith+
  then have "(y - 1) div k = y div k"
    using k mult_div_mod_eq [of k y] by (intro int_div_pos_eq [where r = "y mod k - 1"]) linarith+
  with False show ?thesis by simp
qed

lemma days_before_year_Suc: "days_before_year (y + 1) = days_before_year y + year_days y"
proof -
  have l: "y mod 400 = 0 \<Longrightarrow> y mod 100 = 0" "y mod 100 = 0 \<Longrightarrow> y mod 4 = 0"
    using mod_mod_cancel [of 100 400 y] mod_mod_cancel [of 4 100 y] by simp_all
  have d: "y div 4 = (y - 1) div 4 + (if y mod 4 = 0 then 1 else 0)"
    "y div 100 = (y - 1) div 100 + (if y mod 100 = 0 then 1 else 0)"
    "y div 400 = (y - 1) div 400 + (if y mod 400 = 0 then 1 else 0)" by (rule div_pred; simp)+
  have "days_before_year (y + 1) = y * 365 + y div 4 - y div 100 + y div 400" by (simp add: days_before_year_def)
  also have "\<dots> = days_before_year y + 365 + ((if y mod 4 = 0 then 1 else 0) - (if y mod 100 = 0 then 1 else 0) + (if y mod 400 = 0 then 1 else 0))"
    unfolding d days_before_year_def by (simp only: algebra_simps)
  also have "\<dots> = days_before_year y + year_days y"
    using l by (cases "y mod 4 = 0"; cases "y mod 100 = 0"; cases "y mod 400 = 0") (simp_all only: year_days_def is_leap_def; simp)+
  finally show ?thesis .
qed

lemma days_before_year_bounds:
  "146097 * (y - 1) - 699 \<le> 400 * days_before_year y \<and> 400 * days_before_year y \<le> 146097 * (y - 1) + 396"
proof -
  define x p q t where "x = y - 1" and "p = x div 4" and "q = x div 100" and "t = x div 400"
  have "4 * p \<le> x" "x \<le> 4 * p + 3" "100 * q \<le> x" "x \<le> 100 * q + 99"
    "400 * t \<le> x" "x \<le> 400 * t + 399" unfolding p_def q_def t_def by (simp; linarith)+
  then have "146097 * x - 699 \<le> 400 * (x * 365 + p - q + t) \<and> 400 * (x * 365 + p - q + t) \<le> 146097 * x + 396"
    by (auto simp: algebra_simps)
  then show ?thesis by (simp add: days_before_year_def x_def p_def q_def t_def)
qed

lemma year_and_day:
  assumes "year_and_day n = (y, r)"
  shows "n = days_before_year y + r + 1" "0 \<le> r" "r < year_days y"
proof -
  define y0 where "y0 = (n - 1) * 400 div 146097 + 1"
  have y0: "146097 * (y0 - 1) \<le> (n - 1) * 400" "(n - 1) * 400 < 146097 * y0"
    using pos_mod_bound [of 146097 "(n - 1) * 400"] pos_mod_sign [of 146097 "(n - 1) * 400"]
      mult_div_mod_eq [of 146097 "(n - 1) * 400"] by (simp_all add: y0_def)
  have lo: "days_before_year (y0 - 1) < n" using days_before_year_bounds [of "y0 - 1"] y0 by simp
  have hi: "n \<le> days_before_year (y0 + 1 + 1)" using days_before_year_bounds [of "y0 + 1 + 1"] y0 by simp
  have y: "y = (if n \<le> days_before_year y0 then y0 - 1 else if days_before_year (y0 + 1) < n then y0 + 1 else y0)"
    and r: "r = n - days_before_year y - 1"
    using assms by (simp_all only: year_and_day_def y0_def [symmetric] Let_def prod.inject; blast)+
  have "days_before_year y < n \<and> n \<le> days_before_year (y + 1)"
    using lo hi by (auto simp: y)
  with r show "n = days_before_year y + r + 1" "0 \<le> r" "r < year_days y"
    using days_before_year_Suc [of y] by linarith+
qed

lemma days_before_year_mono: "y \<le> y' \<Longrightarrow> days_before_year y \<le> days_before_year y'"
proof (induction y' rule: int_ge_induct)
  case (step i)
  have "0 \<le> year_days i" by (simp add: year_days_def)
  with step days_before_year_Suc [of i] show ?case by (simp add: algebra_simps)
qed simp

section \<open>Months\<close>

lemma month_of_range: "1 \<le> month_of y r" "month_of y r \<le> 12"
  by (auto simp: month_of_def Let_def)

lemma month_cases:
  fixes m :: int
  assumes "1 \<le> m" "m \<le> 12"
  obtains "m = 1" | "m = 2" | "m = 3" | "m = 4" | "m = 5" | "m = 6" | "m = 7" | "m = 8" | "m = 9" | "m = 10" | "m = 11" | "m = 12"
proof -
  have "m \<in> set [1,2,3,4,5,6,7,8,9,10,11,12]" using assms by (simp; presburger)
  with that show ?thesis by auto
qed

lemma month_of_day:
  assumes "0 \<le> r" "r < year_days y"
  shows "days_before_month y (month_of y r) \<le> r \<and> r < days_before_month y (month_of y r) + days_in_month y (month_of y r)"
proof -
  define m where "m = month_of y r"
  define l :: int where "l = (if is_leap y then 1 else 0)"
  have l: "0 \<le> l" "l \<le> 1" by (simp_all add: l_def)
  have "(m = 1 \<and> r < 31) \<or> (m = 2 \<and> 31 \<le> r \<and> r < 59 + l) \<or> (m = 3 \<and> 59 + l \<le> r \<and> r < 90 + l)
    \<or> (m = 4 \<and> 90 + l \<le> r \<and> r < 120 + l) \<or> (m = 5 \<and> 120 + l \<le> r \<and> r < 151 + l) \<or> (m = 6 \<and> 151 + l \<le> r \<and> r < 181 + l)
    \<or> (m = 7 \<and> 181 + l \<le> r \<and> r < 212 + l) \<or> (m = 8 \<and> 212 + l \<le> r \<and> r < 243 + l) \<or> (m = 9 \<and> 243 + l \<le> r \<and> r < 273 + l)
    \<or> (m = 10 \<and> 273 + l \<le> r \<and> r < 304 + l) \<or> (m = 11 \<and> 304 + l \<le> r \<and> r < 334 + l) \<or> (m = 12 \<and> 334 + l \<le> r)"
    unfolding m_def month_of_def l_def [symmetric] Let_def by (simp split: if_split)
  moreover have "r < 365 + l" using assms(2) by (simp add: year_days_def l_def split: if_splits)
  ultimately show ?thesis using assms(1) l unfolding m_def [symmetric]
    by (elim disjE conjE) (cases "is_leap y"; simp add: days_before_month_def days_in_month_def l_def)+
qed

lemma month_of_inverse:
  assumes "1 \<le> m" "m \<le> 12" "1 \<le> d" "d \<le> days_in_month y m"
  shows "month_of y (days_before_month y m + d - 1) = m"
    and "days_before_month y m + d \<le> year_days y" and "0 \<le> days_before_month y m"
proof -
  have "month_of y (days_before_month y m + d - 1) = m \<and> days_before_month y m + d \<le> year_days y \<and> 0 \<le> days_before_month y m"
    by (rule month_cases [OF assms(1,2)]) (use assms(3,4) in \<open>cases "is_leap y"; simp add: month_of_def days_before_month_def days_in_month_def year_days_def\<close>)+
  then show "month_of y (days_before_month y m + d - 1) = m" "days_before_month y m + d \<le> year_days y" "0 \<le> days_before_month y m" by blast+
qed

section \<open>Dates\<close>

lemma ord2ymd_ymd2ord:
  assumes "ord2ymd n = (y, m, d)"
  shows "ymd2ord y m d = n \<and> 1 \<le> m \<and> m \<le> 12 \<and> 1 \<le> d \<and> d \<le> days_in_month y m"
proof -
  obtain y' r where yr: "year_and_day n = (y', r)" by fastforce
  note yd = year_and_day [OF yr] and md = month_of_day [OF year_and_day(2,3) [OF yr]]
  from assms yr have "y' = y" "m = month_of y r" "d = r - days_before_month y m + 1" by (auto simp: ord2ymd_def)
  with yd md month_of_range [of y r] show ?thesis by (auto simp: ymd2ord_def)
qed

lemma ymd2ord_ord2ymd:
  assumes "1 \<le> m" "m \<le> 12" "1 \<le> d" "d \<le> days_in_month y m"
  shows "ord2ymd (ymd2ord y m d) = (y, m, d)"
proof -
  note mi = month_of_inverse [OF assms]
  obtain y' r where yr: "year_and_day (ymd2ord y m d) = (y', r)" by fastforce
  have e: "days_before_year y + (days_before_month y m + d - 1) = days_before_year y' + r"
    using year_and_day(1) [OF yr] by (simp add: ymd2ord_def)
  have r: "0 \<le> r" "r < year_days y'" using year_and_day(2,3) [OF yr] by auto
  have q: "0 \<le> days_before_month y m + d - 1" "days_before_month y m + d - 1 < year_days y" using mi assms by linarith+
  have "\<not> y < y'"
  proof
    assume "y < y'"
    then have "days_before_year (y + 1) \<le> days_before_year y'" using days_before_year_mono [of "y + 1" y'] by linarith
    then show False using days_before_year_Suc [of y] e r q by linarith
  qed
  moreover have "\<not> y' < y"
  proof
    assume "y' < y"
    then have "days_before_year (y' + 1) \<le> days_before_year y" using days_before_year_mono [of "y' + 1" y] by linarith
    then show False using days_before_year_Suc [of y'] e r q by linarith
  qed
  ultimately have y: "y' = y" by simp
  with e have "r = days_before_month y m + d - 1" by simp
  with yr y mi(1) show ?thesis by (simp add: ord2ymd_def)
qed

lemma day_of_range: "1 \<le> day_of n" "day_of n \<le> days_in_month (year_of n) (month_in_year n)"
  and month_in_year_range: "1 \<le> month_in_year n" "month_in_year n \<le> 12"
  using ord2ymd_ymd2ord [of n "year_of n" "month_in_year n" "day_of n"]
  by (simp_all add: year_of_def month_in_year_def day_of_def)

lemma ymd_of: "ymd2ord (year_of n) (month_in_year n) (day_of n) = n"
  using ord2ymd_ymd2ord [of n "year_of n" "month_in_year n" "day_of n"]
  by (simp add: year_of_def month_in_year_def day_of_def)

lemma first_of_month_eq: "first_of_month n = ymd2ord (year_of n) (month_in_year n) 1"
  using ymd_of [of n] by (simp add: first_of_month_def ymd2ord_def)

text \<open>The dates of one month are those from its first to before the first of the next.\<close>

definition next_month :: "int \<Rightarrow> int \<Rightarrow> int" where
  "next_month y m = (if m = 12 then ymd2ord (y + 1) 1 1 else ymd2ord y (m + 1) 1)"

lemma next_month_eq: "1 \<le> m \<Longrightarrow> m \<le> 12 \<Longrightarrow> next_month y m = ymd2ord y m 1 + days_in_month y m"
  by (erule (1) month_cases)
    (cases "is_leap y"; simp add: days_before_year_Suc next_month_def ymd2ord_def days_before_month_def days_in_month_def year_days_def)+

lemma in_month_iff:
  assumes "1 \<le> m" "m \<le> 12"
  shows "ymd2ord y m 1 \<le> n \<and> n < next_month y m \<longleftrightarrow> year_of n = y \<and> month_in_year n = m"
proof
  assume a: "ymd2ord y m 1 \<le> n \<and> n < next_month y m"
  define d where "d = n - ymd2ord y m 1 + 1"
  have "ord2ymd (ymd2ord y m d) = (y, m, d)"
    using a next_month_eq [OF assms, of y] assms by (intro ymd2ord_ord2ymd) (simp_all add: d_def)
  moreover have "ymd2ord y m d = n" by (simp add: d_def ymd2ord_def)
  ultimately show "year_of n = y \<and> month_in_year n = m" by (simp add: year_of_def month_in_year_def)
next
  assume "year_of n = y \<and> month_in_year n = m"
  then show "ymd2ord y m 1 \<le> n \<and> n < next_month y m"
    using ymd_of [of n] day_of_range [of n] next_month_eq [OF assms, of y] by (auto simp: ymd2ord_def)
qed

end
