(* ===== verification/Cost_Tracker.thy ===== *)
theory Cost_Tracker
  imports Execution_Store Calendar "HOL-Library.Sublist"
begin

text \<open>
  \<open>src/llm/cost_tracker.py\<close>: the table \<open>llm_usage\<close>, one row per day, provider, model and agent, which
  \<open>record_usage\<close> fills by an upsert, and the sums that are read from it. Columns are as wide as
  \<open>src/db/models/llm.py\<close> declares them: 32-bit integers, \<open>numeric(12, 6)\<close> amounts, bounded strings; a
  value that does not fit is an error of the database, as is a fault of the plan.
\<close>

section \<open>The table\<close>

record usage_row =
  ur_date :: int
  ur_provider :: string
  ur_model :: string
  ur_agent :: string
  ur_tokens_in :: int
  ur_tokens_out :: int
  ur_cost :: dec
  ur_calls :: int
  ur_escalations :: int

type_synonym ukey = "int \<times> string \<times> string \<times> string"

definition usage_key :: "usage_row \<Rightarrow> ukey" where
  "usage_key r = (ur_date r, ur_provider r, ur_model r, ur_agent r)"

text \<open>A value is rounded to the six places of its column, halves away from zero.\<close>

definition numeric6 :: "dec \<Rightarrow> dec" where
  "numeric6 x = of_int (round_half_up (x * 10 ^ 6)) / 10 ^ 6"

definition int4 :: "int \<Rightarrow> bool" where
  "int4 n \<longleftrightarrow> - (2 ^ 31) \<le> n \<and> n < 2 ^ 31"

definition row_fits :: "usage_row \<Rightarrow> bool" where
  "row_fits r \<longleftrightarrow> length (ur_provider r) \<le> 20 \<and> length (ur_model r) \<le> 100 \<and> length (ur_agent r) \<le> 50
     \<and> int4 (ur_tokens_in r) \<and> int4 (ur_tokens_out r) \<and> int4 (ur_calls r) \<and> int4 (ur_escalations r)
     \<and> \<bar>ur_cost r\<bar> < 10 ^ 6"

definition add_usage :: "usage_row \<Rightarrow> usage_row \<Rightarrow> usage_row" where
  "add_usage r x = r\<lparr>ur_tokens_in := ur_tokens_in r + ur_tokens_in x, ur_tokens_out := ur_tokens_out r + ur_tokens_out x,
     ur_cost := ur_cost r + ur_cost x, ur_calls := ur_calls r + ur_calls x,
     ur_escalations := ur_escalations r + ur_escalations x\<rparr>"

text \<open>INSERT ... ON CONFLICT (the unique key) DO UPDATE.\<close>

definition upsert :: "usage_row \<Rightarrow> usage_row list \<Rightarrow> exc + usage_row list" where
  "upsert x rows = (if \<not> row_fits x then Inl (DatabaseError ''value out of range'')
     else case find (\<lambda>r. usage_key r = usage_key x) rows of
       None \<Rightarrow> Inr (rows @ [x])
     | Some r \<Rightarrow> if row_fits (add_usage r x)
         then Inr (map (\<lambda>r. if usage_key r = usage_key x then add_usage r x else r) rows)
         else Inl (DatabaseError ''value out of range''))"

record llm_db =
  lb_calls :: nat
  lb_usage :: "usage_row list"

definition db_call :: "fault_plan \<Rightarrow> ('z llm_db_scheme, 'a) meth \<Rightarrow> ('z llm_db_scheme, 'a) meth" where
  "db_call fl f s = (let s0 = s\<lparr>lb_calls := lb_calls s + 1\<rparr> in
     case fl (lb_calls s) of
       None \<Rightarrow> f s0 | Some (Before e) \<Rightarrow> (Inl e, s0) | Some (After e) \<Rightarrow> (Inl e, snd (f s0)))"

section \<open>Recording\<close>

record llm_call =
  lc_provider :: string
  lc_model :: string
  lc_agent :: "string option"
  lc_tokens_in :: int
  lc_tokens_out :: int
  lc_cost :: dec
  lc_escalation :: bool

definition effective_agent :: "string option \<Rightarrow> string" where
  "effective_agent a = (case a of None \<Rightarrow> ''__system__'' | Some s \<Rightarrow> if s = '''' then ''__system__'' else s)"

definition usage_of_call :: "int \<Rightarrow> llm_call \<Rightarrow> usage_row" where
  "usage_of_call today c = \<lparr>ur_date = today, ur_provider = lc_provider c, ur_model = lc_model c,
     ur_agent = effective_agent (lc_agent c), ur_tokens_in = lc_tokens_in c, ur_tokens_out = lc_tokens_out c,
     ur_cost = numeric6 (lc_cost c), ur_calls = 1, ur_escalations = (if lc_escalation c then 1 else 0)\<rparr>"

definition do_upsert :: "usage_row \<Rightarrow> ('z llm_db_scheme, unit) meth" where
  "do_upsert x s = (case upsert x (lb_usage s) of Inl e \<Rightarrow> (Inl e, s) | Inr rows \<Rightarrow> (Inr (), s\<lparr>lb_usage := rows\<rparr>))"

definition record_usage :: "fault_plan \<Rightarrow> int \<Rightarrow> llm_call \<Rightarrow> ('z llm_db_scheme, unit) meth" where
  "record_usage fl today c = mcatch (db_call fl (do_upsert (usage_of_call today c))) (\<lambda>_. mret ())"

section \<open>Budget and statistics\<close>

text \<open>The settings of the language models and of the monitor, beside those of \<open>Models\<close>.\<close>

record llm_settings = settings +
  LLM_MONTHLY_BUDGET_USD :: dec
  LLM_BUDGET_WARNING_PCT :: int
  LLM_CONFIG_CACHE_TTL :: int
  MONITOR_STOP_LOSS_PROXIMITY_PCT :: dec
  MONITOR_SECTOR_WEIGHT_WARN_PCT :: dec
  MONITOR_LLM_BUDGET_WARN_PCT :: dec

definition default_llm_settings :: llm_settings where
  "default_llm_settings = settings.extend default_settings (llm_settings.fields 100 80 300 2 25 80)"

record budget_status =
  bs_current_month_cost_usd :: dec
  bs_budget_usd :: dec
  bs_remaining_usd :: dec
  bs_usage_percent :: dec
  bs_warning_triggered :: bool
  bs_budget_exceeded :: bool
  bs_escalation_disabled :: bool

definition usage_total :: "(usage_row \<Rightarrow> 'n::comm_monoid_add) \<Rightarrow> (ukey \<Rightarrow> bool) \<Rightarrow> usage_row list \<Rightarrow> 'n" where
  "usage_total f P rows = sum_list (map f (filter (\<lambda>r. P (usage_key r)) rows))"

definition budget_of :: "llm_settings \<Rightarrow> dec \<Rightarrow> budget_status" where
  "budget_of st current_cost =
    (let budget = LLM_MONTHLY_BUDGET_USD st;
         usage_pct = (if 0 < budget then dmul (dquo current_cost budget) 100 else 0)
     in \<lparr>bs_current_month_cost_usd = current_cost, bs_budget_usd = budget,
         bs_remaining_usd = max (dsub budget current_cost) 0, bs_usage_percent = usage_pct,
         bs_warning_triggered = of_int (LLM_BUDGET_WARNING_PCT st) \<le> usage_pct,
         bs_budget_exceeded = 100 \<le> usage_pct, bs_escalation_disabled = 100 \<le> usage_pct\<rparr>)"

definition get_budget_status :: "llm_settings \<Rightarrow> fault_plan \<Rightarrow> int \<Rightarrow> ('z llm_db_scheme, budget_status) meth" where
  "get_budget_status st fl today =
     mbind (db_call fl (mget (\<lambda>s. usage_total ur_cost (\<lambda>(d, _). first_of_month today \<le> d) (lb_usage s))))
       (\<lambda>cost. mret (budget_of st cost))"

definition opt_filter :: "('a \<Rightarrow> bool) \<Rightarrow> 'a option \<Rightarrow> bool" where
  "opt_filter p x = (case x of None \<Rightarrow> True | Some y \<Rightarrow> p y)"

text \<open>An empty provider or agent is no filter. Rows of one day come in the order of the table.\<close>

definition get_usage_stats ::
  "fault_plan \<Rightarrow> int option \<Rightarrow> int option \<Rightarrow> string option \<Rightarrow> string option \<Rightarrow> ('z llm_db_scheme, usage_row list) meth" where
  "get_usage_stats fl start_date end_date provider agent_type = db_call fl (mget (\<lambda>s.
     sort_key (\<lambda>r. - ur_date r) (filter (\<lambda>r.
       opt_filter (\<lambda>d. d \<le> ur_date r) start_date \<and> opt_filter (\<lambda>d. ur_date r \<le> d) end_date
       \<and> opt_filter (\<lambda>p. p = '''' \<or> ur_provider r = p) provider
       \<and> opt_filter (\<lambda>a. a = '''' \<or> ur_agent r = a) agent_type) (lb_usage s))))"

record monthly_summary =
  ms_total_cost_usd :: dec
  ms_total_calls :: int
  ms_total_tokens_in :: int
  ms_total_tokens_out :: int
  ms_total_escalations :: int
  ms_by_provider :: "(string, dec \<times> int) dict"

definition summary_of :: "(ukey \<Rightarrow> bool) \<Rightarrow> usage_row list \<Rightarrow> (string, dec \<times> int) dict \<Rightarrow> monthly_summary" where
  "summary_of P rows by_provider = \<lparr>ms_total_cost_usd = usage_total ur_cost P rows, ms_total_calls = usage_total ur_calls P rows,
     ms_total_tokens_in = usage_total ur_tokens_in P rows, ms_total_tokens_out = usage_total ur_tokens_out P rows,
     ms_total_escalations = usage_total ur_escalations P rows, ms_by_provider = by_provider\<rparr>"

definition group_providers :: "(ukey \<Rightarrow> bool) \<Rightarrow> usage_row list \<Rightarrow> (string, dec \<times> int) dict" where
  "group_providers P rows = map (\<lambda>p. (p, usage_total ur_cost (\<lambda>k. P k \<and> fst (snd k) = p) rows, usage_total ur_calls (\<lambda>k. P k \<and> fst (snd k) = p) rows))
     (remdups (map ur_provider (filter (\<lambda>r. P (usage_key r)) rows)))"

definition get_monthly_summary :: "fault_plan \<Rightarrow> int \<Rightarrow> int \<Rightarrow> ('z llm_db_scheme, monthly_summary) meth" where
  "get_monthly_summary fl year month =
     mbind (mlift (\<lambda>_. mk_date year month 1)) (\<lambda>first_day.
     mbind (mlift (\<lambda>_. if month = 12 then mk_date (year + 1) 1 1 else mk_date year (month + 1) 1)) (\<lambda>last_day.
     let P = (\<lambda>(d, _). first_day \<le> d \<and> d < last_day) in
     mbind (db_call fl (mget (\<lambda>s. summary_of P (lb_usage s) []))) (\<lambda>totals.
     mbind (db_call fl (mget (\<lambda>s. group_providers P (lb_usage s)))) (\<lambda>providers.
     mret (totals\<lparr>ms_by_provider := providers\<rparr>)))))"

section \<open>One upsert\<close>

lemma usage_key_add [simp]: "usage_key (add_usage r x) = usage_key r"
  by (simp add: usage_key_def add_usage_def)

lemma total_append: "usage_total f P (xs @ ys) = usage_total f P xs + usage_total f P ys"
  by (simp add: usage_total_def)

lemma total_single: "usage_total f P [x] = (if P (usage_key x) then f x else 0)"
  by (simp add: usage_total_def)

lemma total_Cons: "usage_total f P (y # ys) = (if P (usage_key y) then f y else 0) + usage_total f P ys"
  by (simp add: usage_total_def)

lemma total_update:
  assumes "distinct (map usage_key rows)" "r \<in> set rows" "usage_key r = usage_key x"
    "\<And>r. f (add_usage r x) = f r + f x"
  shows "usage_total f P (map (\<lambda>r. if usage_key r = usage_key x then add_usage r x else r) rows)
    = usage_total f P rows + (if P (usage_key x) then f x else 0)"
  using assms(1-3)
proof (induction rows)
  case (Cons a rows)
  let ?g = "\<lambda>r. if usage_key r = usage_key x then add_usage r x else r"
  show ?case
  proof (cases "usage_key a = usage_key x")
    case True
    with Cons.prems have "map ?g rows = rows"
      by (intro map_idI) (metis distinct.simps(2) image_eqI list.set_map list.simps(9))
    with True show ?thesis by (simp add: total_Cons assms(4) add_ac)
  next
    case False
    with Cons show ?thesis by (auto simp: total_Cons add_ac)
  qed
qed simp

lemma upsert_cases:
  assumes "upsert x rows = Inr rows'"
  obtains (new) "usage_key x \<notin> set (map usage_key rows)" "rows' = rows @ [x]"
  | (old) r where "r \<in> set rows" "usage_key r = usage_key x"
      "rows' = map (\<lambda>r. if usage_key r = usage_key x then add_usage r x else r) rows"
proof (cases "find (\<lambda>r. usage_key r = usage_key x) rows")
  case None
  then have "usage_key x \<notin> set (map usage_key rows)" by (auto simp: find_None_iff)
  with None assms new show ?thesis by (simp add: upsert_def split: if_splits)
next
  case (Some r)
  then have "r \<in> set rows" "usage_key r = usage_key x" by (auto simp: find_Some_iff)
  with Some assms old [of r] show ?thesis by (simp add: upsert_def split: if_splits)
qed

lemma upsert_keys:
  assumes "upsert x rows = Inr rows'" "distinct (map usage_key rows)"
  shows "distinct (map usage_key rows') \<and> set (map usage_key rows') = insert (usage_key x) (set (map usage_key rows))"
  using assms(1)
proof (cases rule: upsert_cases)
  case (old r)
  then have "map usage_key rows' = map usage_key rows" by simp
  with old assms(2) show ?thesis by (metis image_eqI insert_absorb list.set_map)
qed (use assms(2) in auto)

lemma upsert_total:
  assumes "upsert x rows = Inr rows'" "distinct (map usage_key rows)" "\<And>r. f (add_usage r x) = f r + f x"
  shows "usage_total f P rows' = usage_total f P (rows @ [x]) "
  using assms(1)
proof (cases rule: upsert_cases)
  case (old r)
  then show ?thesis using total_update [OF assms(2) old(1,2) assms(3)] by (simp add: total_append total_single)
qed simp

section \<open>The log of the calls\<close>

text \<open>
  The specification: the table represents a list of single calls when it has one row per key that
  occurs in the list, and every sum over rows selected by their key is the sum over the calls.
\<close>

definition same_total :: "(usage_row \<Rightarrow> 'n::comm_monoid_add) \<Rightarrow> usage_row list \<Rightarrow> usage_row list \<Rightarrow> bool" where
  "same_total f rows calls \<longleftrightarrow> (\<forall>P. usage_total f P rows = usage_total f P calls)"

definition represents :: "usage_row list \<Rightarrow> usage_row list \<Rightarrow> bool" where
  "represents rows calls \<longleftrightarrow> distinct (map usage_key rows) \<and> set (map usage_key rows) = set (map usage_key calls)
     \<and> same_total ur_cost rows calls \<and> same_total ur_calls rows calls \<and> same_total ur_tokens_in rows calls
     \<and> same_total ur_tokens_out rows calls \<and> same_total ur_escalations rows calls"

lemma represents_empty: "represents [] []"
  by (simp add: represents_def same_total_def)

lemma same_total_upsert:
  assumes "upsert x rows = Inr rows'" "distinct (map usage_key rows)" "\<And>r. f (add_usage r x) = f r + f x" "same_total f rows calls"
  shows "same_total f rows' (calls @ [x])"
  using upsert_total [OF assms(1-3)] assms(4) by (simp add: same_total_def total_append)

lemma represents_upsert:
  assumes "upsert x rows = Inr rows'" "represents rows calls" shows "represents rows' (calls @ [x])"
proof -
  have d: "distinct (map usage_key rows)" using assms(2) by (simp add: represents_def)
  note t = same_total_upsert [OF assms(1) d]
  show ?thesis using assms(2) upsert_keys [OF assms(1) d]
    by (auto simp: represents_def intro!: t) (simp_all add: add_usage_def)
qed

lemma represents_providers:
  assumes "represents rows calls" shows "set (map ur_provider (filter (\<lambda>r. P (usage_key r)) rows))
    = set (map ur_provider (filter (\<lambda>r. P (usage_key r)) calls))"
proof -
  have "set (map ur_provider (filter (\<lambda>r. P (usage_key r)) xs)) = (fst \<circ> snd) ` {k \<in> set (map usage_key xs). P k}" for xs
    by (force simp: usage_key_def image_iff)
  with assms show ?thesis by (simp add: represents_def)
qed

text \<open>Calls that are all accepted: the columns hold their sums.\<close>

definition nonneg_usage :: "usage_row \<Rightarrow> bool" where
  "nonneg_usage x \<longleftrightarrow> 0 \<le> ur_tokens_in x \<and> 0 \<le> ur_tokens_out x \<and> 0 \<le> ur_calls x \<and> 0 \<le> ur_escalations x \<and> 0 \<le> ur_cost x
     \<and> length (ur_provider x) \<le> 20 \<and> length (ur_model x) \<le> 100 \<and> length (ur_agent x) \<le> 50"

definition roomy :: "usage_row list \<Rightarrow> bool" where
  "roomy xs \<longleftrightarrow> list_all nonneg_usage xs \<and> sum_list (map ur_tokens_in xs) < 2 ^ 31 \<and> sum_list (map ur_tokens_out xs) < 2 ^ 31
     \<and> sum_list (map ur_calls xs) < 2 ^ 31 \<and> sum_list (map ur_escalations xs) < 2 ^ 31 \<and> sum_list (map ur_cost xs) < 10 ^ 6"

lemma total_bounds:
  fixes f :: "usage_row \<Rightarrow> 'n::linordered_ab_group_add"
  assumes "\<forall>x\<in>set xs. 0 \<le> f x" shows "0 \<le> usage_total f P xs \<and> usage_total f P xs \<le> sum_list (map f xs)"
  using assms by (induction xs) (auto simp: usage_total_def add_increasing add_mono)

lemma total_one_row:
  assumes "distinct (map usage_key rows)" "r \<in> set rows"
  shows "usage_total f ((=) (usage_key r)) rows = f r"
  using assms
proof (induction rows)
  case (Cons a rows)
  show ?case
  proof (cases "r = a")
    case True
    with Cons.prems have "filter (\<lambda>x. usage_key a = usage_key x) rows = []" by (auto simp: filter_empty_conv)
    with True show ?thesis by (simp add: usage_total_def)
  next
    case False
    with Cons.prems have r: "r \<in> set rows" by simp
    then have "usage_key r \<noteq> usage_key a" using Cons.prems(1) by (metis distinct.simps(2) image_eqI list.set_map list.simps(9))
    with r Cons show ?thesis by (simp add: total_Cons)
  qed
qed simp

text \<open>A call that fits with those before it is accepted.\<close>

lemma roomy_call:
  fixes f :: "usage_row \<Rightarrow> 'n::linordered_ab_group_add"
  assumes "\<forall>y\<in>set (calls @ [x]). 0 \<le> f y"
  shows "0 \<le> f x" "f x \<le> sum_list (map f (calls @ [x]))"
proof -
  have "0 \<le> sum_list (map f calls)" using assms by (intro sum_list_nonneg) auto
  then show "0 \<le> f x" "f x \<le> sum_list (map f (calls @ [x]))" using assms by simp_all
qed

lemma roomy_row:
  fixes f :: "usage_row \<Rightarrow> 'n::linordered_ab_group_add"
  assumes "distinct (map usage_key rows)" "r \<in> set rows" "same_total f rows calls" "\<forall>y\<in>set (calls @ [x]). 0 \<le> f y"
  shows "0 \<le> f r" "f r + f x \<le> sum_list (map f (calls @ [x]))"
proof -
  have "f r = usage_total f ((=) (usage_key r)) calls"
    using assms(3) total_one_row [OF assms(1,2), of f] by (simp add: same_total_def)
  with total_bounds [of calls f "(=) (usage_key r)"] assms(4) show "0 \<le> f r" "f r + f x \<le> sum_list (map f (calls @ [x]))" by simp_all
qed

lemma upsert_roomy:
  assumes "represents rows calls" "roomy (calls @ [x])" shows "\<exists>rows'. upsert x rows = Inr rows'"
proof -
  have nn: "\<forall>y\<in>set (calls @ [x]). nonneg_usage y" using assms(2) unfolding roomy_def list_all_iff by blast
  have nonneg: "\<forall>y\<in>set (calls @ [x]). 0 \<le> ur_tokens_in y" "\<forall>y\<in>set (calls @ [x]). 0 \<le> ur_tokens_out y"
    "\<forall>y\<in>set (calls @ [x]). 0 \<le> ur_calls y" "\<forall>y\<in>set (calls @ [x]). 0 \<le> ur_escalations y" "\<forall>y\<in>set (calls @ [x]). 0 \<le> ur_cost y"
    using nn by (simp_all add: nonneg_usage_def)
  have sums: "sum_list (map ur_tokens_in (calls @ [x])) < 2 ^ 31" "sum_list (map ur_tokens_out (calls @ [x])) < 2 ^ 31"
    "sum_list (map ur_calls (calls @ [x])) < 2 ^ 31" "sum_list (map ur_escalations (calls @ [x])) < 2 ^ 31" "sum_list (map ur_cost (calls @ [x])) < 10 ^ 6"
    using assms(2) by (simp_all only: roomy_def)
  have len: "length (ur_provider x) \<le> 20" "length (ur_model x) \<le> 100" "length (ur_agent x) \<le> 50"
    using nn by (simp_all add: nonneg_usage_def)
  have int4I: "int4 n" if "0 \<le> n" "n \<le> m" "m < 2 ^ 31" for n m using that by (simp add: int4_def)
  note x1 = roomy_call [OF nonneg(1)] roomy_call [OF nonneg(2)] roomy_call [OF nonneg(3)] roomy_call [OF nonneg(4)] roomy_call [OF nonneg(5)]
  have x: "row_fits x"
    unfolding row_fits_def using len x1 sums int4I by (metis abs_of_nonneg le_less_trans)
  show ?thesis
  proof (cases "find (\<lambda>r. usage_key r = usage_key x) rows")
    case None
    with x show ?thesis by (simp add: upsert_def)
  next
    case (Some r)
    then have r: "r \<in> set rows" "usage_key r = usage_key x" by (auto simp: find_Some_iff)
    have rep: "distinct (map usage_key rows)" "same_total ur_tokens_in rows calls" "same_total ur_tokens_out rows calls"
      "same_total ur_calls rows calls" "same_total ur_escalations rows calls" "same_total ur_cost rows calls"
      using assms(1) by (simp_all add: represents_def)
    note one = roomy_row [OF rep(1) r(1)]
    note r1 = one [OF rep(2) nonneg(1)] one [OF rep(3) nonneg(2)] one [OF rep(4) nonneg(3)] one [OF rep(5) nonneg(4)] one [OF rep(6) nonneg(5)]
    have "ur_provider r = ur_provider x" "ur_model r = ur_model x" "ur_agent r = ur_agent x" using r(2) by (simp_all add: usage_key_def)
    moreover have "int4 (ur_tokens_in r + ur_tokens_in x)" "int4 (ur_tokens_out r + ur_tokens_out x)"
      "int4 (ur_calls r + ur_calls x)" "int4 (ur_escalations r + ur_escalations x)"
      using x1 r1 sums int4I by (meson add_nonneg_nonneg)+
    moreover have "\<bar>ur_cost r + ur_cost x\<bar> < 10 ^ 6"
      using x1(9) r1(9,10) sums(5) by (metis abs_of_nonneg add_nonneg_nonneg le_less_trans)
    ultimately have "row_fits (add_usage r x)" using len by (simp add: row_fits_def add_usage_def)
    with Some x show ?thesis by (simp add: upsert_def)
  qed
qed

section \<open>Reading the sums\<close>

lemma represents_sums:
  assumes "represents rows calls"
  shows "usage_total ur_cost P rows = usage_total ur_cost P calls"
    and "summary_of P rows d = summary_of P calls d"
    and "dict_get (group_providers P rows) p = dict_get (group_providers P calls) p"
proof -
  have t: "usage_total ur_cost Q rows = usage_total ur_cost Q calls" "usage_total ur_calls Q rows = usage_total ur_calls Q calls"
    "usage_total ur_tokens_in Q rows = usage_total ur_tokens_in Q calls"
    "usage_total ur_tokens_out Q rows = usage_total ur_tokens_out Q calls"
    "usage_total ur_escalations Q rows = usage_total ur_escalations Q calls" for Q
    using assms by (simp_all add: represents_def same_total_def)
  then show "usage_total ur_cost P rows = usage_total ur_cost P calls" "summary_of P rows d = summary_of P calls d"
    by (simp_all add: summary_of_def)
  have g: "dict_get (map (\<lambda>p. (p, h p)) xs) p = (if p \<in> set xs then Some (h p) else None)" for h :: "string \<Rightarrow> dec \<times> int" and xs
    by (induction xs) auto
  show "dict_get (group_providers P rows) p = dict_get (group_providers P calls) p"
    unfolding group_providers_def g set_remdups represents_providers [OF assms] t ..
qed

text \<open>
  A percentage of the budget reaches 100 exactly when the cost reaches the budget, although both
  operations round: the amounts have six places and the budget is below \<open>10 ^ 20\<close>.
\<close>

lemma budget_reached:
  assumes "on_grid 6 c" "on_grid 6 b" "0 < b" "b \<le> 10 ^ 20"
  shows "100 \<le> dmul (dquo c b) 100 \<longleftrightarrow> b \<le> c"
proof
  assume "b \<le> c"
  with assms(3) have "1 \<le> c / b" by simp
  then have "fix28 1 \<le> fix28 (c / b)" by (rule fix28_mono)
  then have "1 \<le> dquo c b" by (simp add: dec_eval)
  then have "fix28 100 \<le> fix28 (dquo c b * 100)" by (intro fix28_mono) simp
  then show "100 \<le> dmul (dquo c b) 100" by (simp add: dec_eval)
next
  assume p: "100 \<le> dmul (dquo c b) 100"
  show "b \<le> c"
  proof (rule ccontr)
    assume "\<not> b \<le> c"
    from assms(1,2) obtain C B where CB: "c * 10 ^ 6 = of_int C" "b * 10 ^ 6 = of_int B" by (elim on_gridE) blast
    define m :: int where "m = 10 ^ 27 - 1"
    have less: "c < b" using \<open>\<not> b \<le> c\<close> by simp
    then have "(of_int C :: rat) < of_int B" unfolding CB [symmetric] by simp
    then have "C + 1 \<le> B" by simp
    then have "(of_int (C + 1) :: rat) \<le> of_int B" by (simp only: of_int_le_iff)
    then have "c * 10 ^ 6 + 1 \<le> b * 10 ^ 6" unfolding CB by simp
    moreover have "b / 10 ^ 27 * 10 ^ 6 \<le> 1" using assms(4) by simp
    ultimately have "c \<le> b * (1 - 1 / 10 ^ 27)" by (simp add: algebra_simps)
    then have "c / b \<le> of_int m * 10 powi (- 27)"
      using assms(3) by (simp add: divide_le_eq m_def power_int_minus_divide mult.commute)
    then have "dquo c b \<le> fix28 (of_int m * 10 powi (- 27))" unfolding dquo_def by (rule fix28_mono)
    also have "\<dots> = of_int m * 10 powi (- 27)" by (rule fix28_exact_less) (simp add: m_def)
    finally have "dquo c b * 100 \<le> of_int m * 10 powi (- 25)" by (simp add: power_int_minus_divide)
    then have "dmul (dquo c b) 100 \<le> fix28 (of_int m * 10 powi (- 25))" unfolding dmul_def by (rule fix28_mono)
    also have "\<dots> = of_int m * 10 powi (- 25)" by (rule fix28_exact_less) (simp add: m_def)
    also have "\<dots> < 100" by (simp add: m_def power_int_minus_divide)
    finally show False using p by simp
  qed
qed

section \<open>A run of calls\<close>

primrec record_all :: "fault_plan \<Rightarrow> (int \<times> llm_call) list \<Rightarrow> ('z llm_db_scheme, unit) meth" where
  "record_all fl [] = mret ()"
| "record_all fl (c # cs) = mbind (record_usage fl (fst c) (snd c)) (\<lambda>_. record_all fl cs)"

lemma record_usage_step:
  assumes "represents (lb_usage s) calls"
  obtains s' where "record_usage fl today c s = (Inr (), s')" "lb_calls s' = lb_calls s + 1"
    "represents (lb_usage s') calls \<or> represents (lb_usage s') (calls @ [usage_of_call today c])"
proof -
  define x where "x = usage_of_call today c"
  define s0 where "s0 = s\<lparr>lb_calls := lb_calls s + 1\<rparr>"
  have up: "lb_calls (snd (do_upsert x s0)) = lb_calls s + 1 \<and>
     (represents (lb_usage (snd (do_upsert x s0))) calls \<or> represents (lb_usage (snd (do_upsert x s0))) (calls @ [x]))"
    using assms represents_upsert [of x "lb_usage s"] by (auto simp: do_upsert_def s0_def split: sum.split)
  obtain r t where ru: "do_upsert x s0 = (r, t)" by fastforce
  have "\<exists>s'. record_usage fl today c s = (Inr (), s') \<and> (s' = s0 \<or> s' = t)"
    unfolding record_usage_def mcatch_def db_call_def Let_def x_def [symmetric] s0_def [symmetric] mret_def
    using ru by (cases r; cases "fl (lb_calls s)"; cases "the (fl (lb_calls s))") auto
  then obtain s' where s': "record_usage fl today c s = (Inr (), s')" "s' = s0 \<or> s' = t" by blast
  then have "lb_calls s' = lb_calls s + 1" "represents (lb_usage s') calls \<or> represents (lb_usage s') (calls @ [x])"
    using up ru assms by (auto simp: s0_def)
  with s'(1) that show thesis unfolding x_def by blast
qed

lemma record_usage_fits:
  assumes "represents (lb_usage s) calls" "roomy (calls @ [usage_of_call today c])"
  obtains s' where "record_usage no_faults today c s = (Inr (), s')" "represents (lb_usage s') (calls @ [usage_of_call today c])"
proof -
  obtain rows where u: "upsert (usage_of_call today c) (lb_usage s) = Inr rows" using upsert_roomy [OF assms] by blast
  then have "record_usage no_faults today c s = (Inr (), s\<lparr>lb_calls := lb_calls s + 1, lb_usage := rows\<rparr>)"
    by (simp add: record_usage_def mcatch_def db_call_def no_faults_def do_upsert_def)
  with represents_upsert [OF u assms(1)] that show thesis by simp
qed

lemma roomy_prefix: "roomy (xs @ ys) \<Longrightarrow> roomy xs"
proof -
  assume r: "roomy (xs @ ys)"
  have le: "sum_list (map f xs) \<le> sum_list (map f (xs @ ys))" if "\<forall>y\<in>set ys. 0 \<le> f y"
    for f :: "usage_row \<Rightarrow> 'n::linordered_ab_group_add"
    using sum_list_nonneg [of "map f ys"] that by auto
  have n: "\<forall>y\<in>set ys. nonneg_usage y" using r by (simp add: roomy_def list_all_iff)
  show "roomy xs"
    using r n le [of ur_tokens_in] le [of ur_tokens_out] le [of ur_calls] le [of ur_escalations] le [of ur_cost]
    by (simp add: roomy_def nonneg_usage_def)
qed

abbreviation usage_of :: "int \<times> llm_call \<Rightarrow> usage_row" where
  "usage_of \<equiv> \<lambda>(d, c). usage_of_call d c"

lemma record_all_log:
  assumes "represents (lb_usage s) calls"
  shows "\<exists>s' acc. record_all fl cs s = (Inr (), s') \<and> subseq acc (map usage_of cs) \<and> represents (lb_usage s') (calls @ acc)
    \<and> (fl = no_faults \<and> roomy (calls @ map usage_of cs) \<longrightarrow> acc = map usage_of cs)"
  using assms
proof (induction cs arbitrary: s calls)
  case Nil
  then show ?case by (auto simp: mret_def)
next
  case (Cons c cs)
  define x where "x = usage_of_call (fst c) (snd c)"
  have x: "usage_of c = x" by (simp add: x_def split_beta)
  obtain s1 acc1 where s1: "record_usage fl (fst c) (snd c) s = (Inr (), s1)" "represents (lb_usage s1) (calls @ acc1)"
      "acc1 = [] \<or> acc1 = [x]" "fl = no_faults \<and> roomy (calls @ [x]) \<longrightarrow> acc1 = [x]"
  proof (cases "fl = no_faults \<and> roomy (calls @ [x])")
    case True
    then show ?thesis using that [of _ "[x]"] record_usage_fits [OF Cons.prems, of "fst c" "snd c"] unfolding x_def by blast
  next
    case False
    obtain s' where "record_usage fl (fst c) (snd c) s = (Inr (), s')"
      "represents (lb_usage s') calls \<or> represents (lb_usage s') (calls @ [x])"
      using record_usage_step [OF Cons.prems, of fl "fst c" "snd c"] unfolding x_def by blast
    with that [of s' "[]"] that [of s' "[x]"] False show ?thesis by auto
  qed
  obtain s2 acc where s2: "record_all fl cs s1 = (Inr (), s2)" "subseq acc (map usage_of cs)" "represents (lb_usage s2) ((calls @ acc1) @ acc)"
      "fl = no_faults \<and> roomy ((calls @ acc1) @ map usage_of cs) \<longrightarrow> acc = map usage_of cs"
    using Cons.IH [OF s1(2)] by blast
  have "record_all fl (c # cs) s = (Inr (), s2)" using s1(1) s2(1) by (simp add: mbind_def)
  moreover have "subseq (acc1 @ acc) (map usage_of (c # cs))" using s1(3) s2(2) x by auto
  moreover have "fl = no_faults \<and> roomy (calls @ map usage_of (c # cs)) \<longrightarrow> acc1 @ acc = map usage_of (c # cs)"
    using s1(4) s2(4) x roomy_prefix [of "calls @ [x]" "map usage_of cs"] by auto
  ultimately show ?case using s2(3) by (metis append.assoc)
qed

section \<open>Properties\<close>

text \<open>
  C27: the usage table refines the log of the calls. Whatever calls are recorded on whatever days and
  whatever database calls fail, recording never raises, and there is a part of the calls, in their
  order (all of them without faults when the sums fit into the columns), that the table represents:
  the budget status is computed from the sum of their costs since the first of the month, and the
  monthly summary from those of that year and month. Escalation is switched off exactly when that
  sum has reached the budget.
\<close>

theorem cost_table_refines_log:
  assumes "represents (lb_usage s) calls"
  shows "\<exists>s' acc. record_all fl cs s = (Inr (), s') \<and> subseq acc (map usage_of cs)
    \<and> (fl = no_faults \<and> roomy (calls @ map usage_of cs) \<longrightarrow> acc = map usage_of cs)
    \<and> (let since = usage_total ur_cost (\<lambda>(d, _). first_of_month today \<le> d) (calls @ acc) in
        fst (get_budget_status st no_faults today s') = Inr (budget_of st since)
        \<and> (on_grid 6 since \<and> on_grid 6 (LLM_MONTHLY_BUDGET_USD st)
             \<and> 0 < LLM_MONTHLY_BUDGET_USD st \<and> LLM_MONTHLY_BUDGET_USD st \<le> 10 ^ 20 \<longrightarrow>
             (bs_escalation_disabled (budget_of st since) \<longleftrightarrow> LLM_MONTHLY_BUDGET_USD st \<le> since)))
    \<and> (1 \<le> y \<and> y < 9999 \<and> 1 \<le> m \<and> m \<le> 12 \<longrightarrow>
        (\<exists>sm. fst (get_monthly_summary no_faults y m s') = Inr sm
          \<and> sm\<lparr>ms_by_provider := []\<rparr> = summary_of (\<lambda>(d, _). year_of d = y \<and> month_in_year d = m) (calls @ acc) []
          \<and> (\<forall>p. dict_get (ms_by_provider sm) p =
               dict_get (group_providers (\<lambda>(d, _). year_of d = y \<and> month_in_year d = m) (calls @ acc)) p)))"
proof -
  obtain s' acc where s': "record_all fl cs s = (Inr (), s')" "subseq acc (map usage_of cs)" "represents (lb_usage s') (calls @ acc)"
    "fl = no_faults \<and> roomy (calls @ map usage_of cs) \<longrightarrow> acc = map usage_of cs"
    using record_all_log [OF assms] by blast
  define since where "since = usage_total ur_cost (\<lambda>(d, _). first_of_month today \<le> d) (calls @ acc)"
  have budget: "fst (get_budget_status st no_faults today s') = Inr (budget_of st since)"
    using represents_sums(1) [OF s'(3)] by (simp add: get_budget_status_def meth_defs db_call_def no_faults_def since_def)
  have disabled: "bs_escalation_disabled (budget_of st since) \<longleftrightarrow> LLM_MONTHLY_BUDGET_USD st \<le> since"
    if "on_grid 6 since" "on_grid 6 (LLM_MONTHLY_BUDGET_USD st)" "0 < LLM_MONTHLY_BUDGET_USD st" "LLM_MONTHLY_BUDGET_USD st \<le> 10 ^ 20"
    using budget_reached [OF that] that(3) by (simp add: budget_of_def Let_def)
  let ?Q = "\<lambda>(d, _). year_of d = y \<and> month_in_year d = m"
  have "\<exists>sm. fst (get_monthly_summary no_faults y m s') = Inr sm \<and> sm\<lparr>ms_by_provider := []\<rparr> = summary_of ?Q (calls @ acc) []
     \<and> (\<forall>p. dict_get (ms_by_provider sm) p = dict_get (group_providers ?Q (calls @ acc)) p)"
    if y: "1 \<le> y" "y < 9999" and m: "1 \<le> m" "m \<le> 12"
  proof -
    have first: "mk_date y m 1 = Inr (ymd2ord y m 1)" using y m by (simp add: mk_date_def days_in_month_def)
    have last: "(if m = 12 then mk_date (y + 1) 1 1 else mk_date y (m + 1) 1) = Inr (next_month y m)"
      using y m by (auto simp: mk_date_def days_in_month_def next_month_def)
    have P: "(\<lambda>(d, _). ymd2ord y m 1 \<le> d \<and> d < next_month y m) = ?Q" using in_month_iff [OF m, of y] by (auto simp: fun_eq_iff)
    have "fst (get_monthly_summary no_faults y m s') =
        Inr ((summary_of ?Q (lb_usage s') [])\<lparr>ms_by_provider := group_providers ?Q (lb_usage s')\<rparr>)"
      unfolding get_monthly_summary_def first last
      by (simp add: meth_defs db_call_def no_faults_def P summary_of_def Let_def)
    then show ?thesis using represents_sums(2,3) [OF s'(3)] by (simp add: summary_of_def)
  qed
  then show ?thesis unfolding Let_def using s' budget disabled
    by (intro exI [of _ s'] exI [of _ acc] conjI impI) (simp_all add: since_def)
qed

definition sample_calls :: "(int \<times> llm_call) list" where
  "sample_calls =
    [(739000, \<lparr>lc_provider = ''openai'', lc_model = ''gpt-5.4'', lc_agent = Some ''trader'', lc_tokens_in = 1000,
        lc_tokens_out = 200, lc_cost = 3 / 1000, lc_escalation = False\<rparr>),
     (739000, \<lparr>lc_provider = ''openai'', lc_model = ''gpt-5.4'', lc_agent = Some ''trader'', lc_tokens_in = 500,
        lc_tokens_out = 100, lc_cost = 7 / 1000, lc_escalation = True\<rparr>)]"

theorem cost_table_refines_log_witness:
  "\<exists>s'. record_all no_faults sample_calls \<lparr>lb_calls = 0, lb_usage = []\<rparr> = (Inr (), s')
     \<and> represents (lb_usage \<lparr>lb_calls = 0, lb_usage = []\<rparr>) []
     \<and> (\<exists>sm. fst (get_monthly_summary no_faults 2024 4 s') = Inr sm \<and> ms_total_cost_usd sm = 1 / 100 \<and> ms_total_calls sm = 2)"
proof -
  let ?s = "\<lparr>lb_calls = 0, lb_usage = []\<rparr>"
  have rep: "represents (lb_usage ?s) []" by (simp add: represents_empty)
  have cost: "numeric6 (3 / 1000) = 3 / 1000" "numeric6 (7 / 1000) = 7 / 1000"
    by (simp_all add: numeric6_def dec_eval)
  have roomy: "roomy ([] @ map usage_of sample_calls)"
    by (simp add: roomy_def sample_calls_def usage_of_call_def nonneg_usage_def effective_agent_def cost)
  have "year_and_day 739000 = (2024, 114)" by code_simp
  then have ymd: "year_of 739000 = 2024" "month_in_year 739000 = 4"
    by (simp_all add: year_of_def month_in_year_def ord2ymd_def month_of_def is_leap_def)
  obtain s' sm where r: "record_all no_faults sample_calls ?s = (Inr (), s')"
    "fst (get_monthly_summary no_faults 2024 4 s') = Inr sm"
    "sm\<lparr>ms_by_provider := []\<rparr> = summary_of (\<lambda>(d, _). year_of d = 2024 \<and> month_in_year d = 4) (map usage_of sample_calls) []"
    using cost_table_refines_log [OF rep, where fl = no_faults and cs = sample_calls and y = 2024 and m = 4
        and st = default_llm_settings and today = 739000] roomy by auto
  have "ms_total_cost_usd sm = 1 / 100 \<and> ms_total_calls sm = 2"
    using arg_cong [OF r(3), of ms_total_cost_usd] arg_cong [OF r(3), of ms_total_calls] ymd
    by (simp add: summary_of_def usage_total_def sample_calls_def usage_of_call_def usage_key_def cost)
  with r rep show ?thesis by blast
qed

end
