(* ===== verification/Redis_Cache.thy ===== *)
theory Redis_Cache
  imports Execution_Store "HOL-Library.Sublist"
begin

text \<open>
  \<open>src/data/cache.py\<close>: keys with a namespace, values with an expiry, JSON values, and the deletion of
  a namespace. The Redis server is a dictionary of full keys with its clock; a command can fail
  before or after it took effect when the fault plan says so. \<open>ExternalError ''redis''\<close> stands for
  a \<open>RedisError\<close>, which becomes a \<open>CacheError\<close>; any other exception passes. JSON encoding and
  decoding are parameters.
\<close>

record redis =
  rd_calls :: nat
  rd_now :: int
  rd_data :: "(string, string \<times> int option) dict"

definition redis_error :: "string \<Rightarrow> exc \<Rightarrow> exc" where
  "redis_error tag e = (if e = ExternalError ''redis'' then CacheError tag else e)"

text \<open>One command, with the mapping of its error.\<close>

definition command :: "fault_plan \<Rightarrow> string \<Rightarrow> (redis, 'a) meth \<Rightarrow> (redis, 'a) meth" where
  "command fl tag f s = (let s0 = s\<lparr>rd_calls := rd_calls s + 1\<rparr> in
     case fl (rd_calls s) of
       None \<Rightarrow> (case f s0 of (Inl e, s1) \<Rightarrow> (Inl (redis_error tag e), s1) | (Inr x, s1) \<Rightarrow> (Inr x, s1))
     | Some (Before e) \<Rightarrow> (Inl (redis_error tag e), s0)
     | Some (After e) \<Rightarrow> (Inl (redis_error tag e), snd (f s0)))"

definition alive :: "int \<Rightarrow> int option \<Rightarrow> bool" where
  "alive now expires = (case expires of None \<Rightarrow> True | Some t \<Rightarrow> now < t)"

definition rd_lookup :: "redis \<Rightarrow> string \<Rightarrow> string option" where
  "rd_lookup s k = (case dict_get (rd_data s) k of
     None \<Rightarrow> None | Some (v, expires) \<Rightarrow> if alive (rd_now s) expires then Some v else None)"

text \<open>The server refuses an expiry that is not positive.\<close>

definition rd_store :: "string \<Rightarrow> string \<Rightarrow> int option \<Rightarrow> (redis, unit) meth" where
  "rd_store k v ttl s = (case ttl of
     None \<Rightarrow> (Inr (), s\<lparr>rd_data := dict_set k (v, None) (rd_data s)\<rparr>)
   | Some t \<Rightarrow> if t \<le> 0 then (Inl (ExternalError ''redis''), s)
       else (Inr (), s\<lparr>rd_data := dict_set k (v, Some (rd_now s + t)) (rd_data s)\<rparr>))"

definition rd_delete :: "string list \<Rightarrow> (redis, nat) meth" where
  "rd_delete ks s = (Inr (length (filter (\<lambda>k. rd_lookup s k \<noteq> None) (remdups ks))),
     s\<lparr>rd_data := filter (\<lambda>(k, _). k \<notin> set ks) (rd_data s)\<rparr>)"

section \<open>The wrapper\<close>

definition make_key :: "string \<Rightarrow> string \<Rightarrow> string" where
  "make_key namespace key = namespace @ CHR '':'' # key"

definition rc_get :: "fault_plan \<Rightarrow> string \<Rightarrow> string \<Rightarrow> (redis, string option) meth" where
  "rc_get fl namespace key = command fl ''cache get failed'' (mget (\<lambda>s. rd_lookup s (make_key namespace key)))"

definition rc_set :: "fault_plan \<Rightarrow> string \<Rightarrow> string \<Rightarrow> string \<Rightarrow> int option \<Rightarrow> (redis, unit) meth" where
  "rc_set fl namespace key v ttl = command fl ''cache set failed'' (rd_store (make_key namespace key) v ttl)"

definition rc_delete :: "fault_plan \<Rightarrow> string \<Rightarrow> string \<Rightarrow> (redis, bool) meth" where
  "rc_delete fl namespace key =
     mbind (command fl ''cache delete failed'' (rd_delete [make_key namespace key])) (\<lambda>n. mret (0 < n))"

definition rc_exists :: "fault_plan \<Rightarrow> string \<Rightarrow> string \<Rightarrow> (redis, bool) meth" where
  "rc_exists fl namespace key =
     command fl ''cache exists failed'' (mget (\<lambda>s. rd_lookup s (make_key namespace key) \<noteq> None))"

definition get_json :: "(string \<Rightarrow> 'j option) \<Rightarrow> fault_plan \<Rightarrow> string \<Rightarrow> string \<Rightarrow> (redis, 'j option) meth" where
  "get_json decode fl namespace key = mbind (rc_get fl namespace key) (\<lambda>raw. case raw of
     None \<Rightarrow> mret None
   | Some v \<Rightarrow> (case decode v of None \<Rightarrow> mraise (CacheError ''cache JSON decode failed'') | Some j \<Rightarrow> mret (Some j)))"

definition set_json :: "('j \<Rightarrow> string option) \<Rightarrow> fault_plan \<Rightarrow> string \<Rightarrow> string \<Rightarrow> 'j \<Rightarrow> int option \<Rightarrow> (redis, unit) meth" where
  "set_json encode fl namespace key j ttl = (case encode j of
     None \<Rightarrow> mraise (CacheError ''cache JSON encode failed'')
   | Some raw \<Rightarrow> rc_set fl namespace key raw ttl)"

text \<open>
  \<open>clear_namespace\<close>: the loop over SCAN. \<open>pages\<close> are the answers the server gives for the pattern
  until its cursor is 0 again; each page is one command, and one more deletes its keys.
\<close>

primrec clear_pages :: "fault_plan \<Rightarrow> string list list \<Rightarrow> nat \<Rightarrow> (redis, nat) meth" where
  "clear_pages fl [] deleted = mret deleted"
| "clear_pages fl (ks # pages) deleted =
     mbind (command fl ''cache clear namespace failed'' (mret ())) (\<lambda>_.
     mbind (if ks = [] then mret 0 else command fl ''cache clear namespace failed'' (rd_delete ks)) (\<lambda>n.
     clear_pages fl pages (deleted + n)))"

definition clear_namespace :: "(string \<Rightarrow> redis \<Rightarrow> string list list) \<Rightarrow> fault_plan \<Rightarrow> string \<Rightarrow> (redis, nat) meth" where
  "clear_namespace scan fl namespace s = clear_pages fl (scan (make_key namespace ''*'') s) 0 s"

text \<open>
  What SCAN with MATCH documents of such a pattern: the argument is a glob, in which every character but \<open>* ? [ ]\<close> and
  the backslash stands for itself and a final \<open>*\<close> for any ending; an iteration returns every key that
  matches, and only such keys, some perhaps twice. The program does not escape the namespace; of a
  namespace with one of those characters nothing is assumed.
\<close>

definition literal :: "string \<Rightarrow> bool" where
  "literal p \<longleftrightarrow> set p \<inter> {CHR ''*'', CHR ''?'', CHR ''['', CHR '']'', CHR 0x5C} = {}"

definition scans :: "(string \<Rightarrow> redis \<Rightarrow> string list list) \<Rightarrow> bool" where
  "scans scan \<longleftrightarrow> (\<forall>p s. literal p \<longrightarrow> set (concat (scan (p @ ''*'') s)) = {k \<in> set (dict_keys (rd_data s)). prefix p k})"

section \<open>The laws of a cache\<close>

text \<open>What the clients of the cache rely on: what is read after a write, until the entry expires.\<close>

locale cache_store =
  fixes read :: "string \<Rightarrow> string \<Rightarrow> 's \<Rightarrow> string option"
    and "write" :: "string \<Rightarrow> string \<Rightarrow> string \<Rightarrow> int \<Rightarrow> 's \<Rightarrow> 's"
    and now :: "'s \<Rightarrow> int" and advance :: "int \<Rightarrow> 's \<Rightarrow> 's"
  assumes read_write: "0 < ttl \<Longrightarrow> 0 \<le> d \<Longrightarrow>
      read n k (advance d (write n k v ttl s)) = (if d < ttl then Some v else None)"
    and read_other: "make_key n k \<noteq> make_key n' k' \<Longrightarrow> 0 < ttl \<Longrightarrow> read n k (write n' k' v ttl s) = read n k s"
begin

lemma read_now: "0 < ttl \<Longrightarrow> advance 0 (write n k v ttl s) = write n k v ttl s \<Longrightarrow> read n k (write n k v ttl s) = Some v"
  using read_write [of ttl 0 n k v s] by simp

end

definition rd_write :: "string \<Rightarrow> string \<Rightarrow> string \<Rightarrow> int \<Rightarrow> redis \<Rightarrow> redis" where
  "rd_write n k v ttl s = snd (rd_store (make_key n k) v (Some ttl) s)"

definition rd_advance :: "int \<Rightarrow> redis \<Rightarrow> redis" where
  "rd_advance d s = s\<lparr>rd_now := rd_now s + d\<rparr>"

interpretation redis_store: cache_store "\<lambda>n k s. rd_lookup s (make_key n k)" rd_write rd_now rd_advance
  by unfold_locales
    (auto simp: rd_lookup_def rd_write_def rd_store_def rd_advance_def alive_def dict_simps split: option.splits)

lemma make_key_inj: "CHR '':'' \<notin> set n \<Longrightarrow> CHR '':'' \<notin> set n' \<Longrightarrow> make_key n k = make_key n' k' \<longleftrightarrow> n = n' \<and> k = k'"
proof (induction n arbitrary: n')
  case Nil
  then show ?case by (cases n') (auto simp: make_key_def)
next
  case (Cons c n)
  then show ?case by (cases n') (auto simp: make_key_def)
qed

section \<open>Without faults\<close>

lemma command_no_faults [simp]:
  "command no_faults tag f s = (case f (s\<lparr>rd_calls := rd_calls s + 1\<rparr>) of
     (Inl e, s1) \<Rightarrow> (Inl (redis_error tag e), s1) | (Inr x, s1) \<Rightarrow> (Inr x, s1))"
  by (simp add: command_def Let_def)

lemma rd_lookup_calls [simp]: "rd_lookup (s\<lparr>rd_calls := n\<rparr>) k = rd_lookup s k"
  by (simp add: rd_lookup_def split: option.split)

lemma rd_lookup_filter:
  "rd_lookup (s\<lparr>rd_data := filter (\<lambda>(k, _). k \<notin> K) (rd_data s)\<rparr>) k = (if k \<in> K then None else rd_lookup s k)"
proof -
  have "dict_get (filter (\<lambda>(k, _). k \<notin> K) d) k = (if k \<in> K then None else dict_get d k)" for d :: "(string, string \<times> int option) dict"
    by (induction d) auto
  then show ?thesis by (simp add: rd_lookup_def split: option.split)
qed

lemma clear_pages_no_faults:
  "\<exists>m s'. clear_pages no_faults pages n s = (Inr m, s') \<and> (\<forall>k. rd_lookup s' k = (if k \<in> set (concat pages) then None else rd_lookup s k))"
proof (induction pages arbitrary: n s)
  case Nil
  show ?case by (simp add: mret_def)
next
  case (Cons ks pages)
  define s1 where "s1 = (if ks = [] then s\<lparr>rd_calls := rd_calls s + 1\<rparr>
     else s\<lparr>rd_calls := rd_calls s + 2, rd_data := filter (\<lambda>(k, _). k \<notin> set ks) (rd_data s)\<rparr>)"
  have l: "rd_lookup s1 k = (if k \<in> set ks then None else rd_lookup s k)" for k
    using rd_lookup_filter [where s = "s\<lparr>rd_calls := rd_calls s + 2\<rparr>" and K = "set ks" and k = k] by (simp add: s1_def)
  have "\<exists>d. clear_pages no_faults (ks # pages) n s = clear_pages no_faults pages (n + d) s1"
    by (cases "ks = []") (auto simp: meth_defs s1_def rd_delete_def intro: exI [of _ 0])
  then obtain d where d: "clear_pages no_faults (ks # pages) n s = clear_pages no_faults pages (n + d) s1" by blast
  obtain m s' where r: "clear_pages no_faults pages (n + d) s1 = (Inr m, s')"
    "\<forall>k. rd_lookup s' k = (if k \<in> set (concat pages) then None else rd_lookup s1 k)" using Cons.IH by blast
  have "\<forall>k. rd_lookup s' k = (if k \<in> set (concat (ks # pages)) then None else rd_lookup s k)" using r(2) l by auto
  with d r(1) show ?case by metis
qed

section \<open>Properties\<close>

text \<open>
  The cache without faults. What set_json stored is what get_json returns while the entry lives,
  and nothing afterwards; entries of other keys are as before. Two pairs of namespace and key
  without a colon in the namespaces share an entry only when they are equal. For a namespace
  without glob characters, clear_namespace removes exactly the keys that begin with the namespace and a colon, so
  also those of every namespace below it.
\<close>

theorem cache_roundtrip:
  assumes "encode j = Some raw" "decode raw = Some j" "0 < ttl" "0 \<le> d" "scans scan"
  shows "\<exists>s1. set_json encode no_faults n k j (Some ttl) s = (Inr (), s1)
    \<and> fst (get_json decode no_faults n k (rd_advance d s1)) = Inr (if d < ttl then Some j else None)
    \<and> (\<forall>n' k'. make_key n' k' \<noteq> make_key n k \<longrightarrow> rd_lookup s1 (make_key n' k') = rd_lookup s (make_key n' k'))
    \<and> (\<forall>n' k'. CHR '':'' \<notin> set n \<longrightarrow> CHR '':'' \<notin> set n' \<longrightarrow> make_key n' k' = make_key n k \<longrightarrow> n' = n \<and> k' = k)
    \<and> (\<forall>m. literal m \<longrightarrow> (\<exists>cnt s2. clear_namespace scan no_faults m s1 = (Inr cnt, s2)
         \<and> (\<forall>x. rd_lookup s2 x = (if prefix (m @ '':'') x then None else rd_lookup s1 x))))"
proof -
  define s1 where "s1 = rd_write n k raw ttl (s\<lparr>rd_calls := rd_calls s + 1\<rparr>)"
  have set: "set_json encode no_faults n k j (Some ttl) s = (Inr (), s1)"
    using assms(1,3) by (simp add: set_json_def rc_set_def s1_def rd_write_def rd_store_def)
  have get: "fst (get_json decode no_faults n k (rd_advance d s1)) = Inr (if d < ttl then Some j else None)"
    using redis_store.read_write [OF assms(3,4), of n k raw "s\<lparr>rd_calls := rd_calls s + 1\<rparr>"] assms(2)
    by (simp add: get_json_def rc_get_def meth_defs s1_def)
  have other: "rd_lookup s1 (make_key n' k') = rd_lookup s (make_key n' k')" if "make_key n' k' \<noteq> make_key n k" for n' k'
    using redis_store.read_other [OF that assms(3)] by (simp add: s1_def)
  have clear: "\<exists>cnt s2. clear_namespace scan no_faults m s1 = (Inr cnt, s2)
      \<and> (\<forall>x. rd_lookup s2 x = (if prefix (m @ '':'') x then None else rd_lookup s1 x))" if m: "literal m" for m
  proof -
    have pat: "make_key m ''*'' = (m @ '':'') @ ''*''" "literal (m @ '':'')" using m by (simp_all add: make_key_def literal_def)
    obtain cnt s2 where c: "clear_namespace scan no_faults m s1 = (Inr cnt, s2)"
      "\<forall>x. rd_lookup s2 x = (if x \<in> set (concat (scan ((m @ '':'') @ ''*'') s1)) then None else rd_lookup s1 x)"
      using clear_pages_no_faults [of "scan ((m @ '':'') @ ''*'') s1" 0 s1] by (auto simp: clear_namespace_def pat(1))
    have "rd_lookup s2 x = (if prefix (m @ '':'') x then None else rd_lookup s1 x)" for x
    proof -
      have "x \<in> set (concat (scan ((m @ '':'') @ ''*'') s1)) \<longleftrightarrow> x \<in> set (dict_keys (rd_data s1)) \<and> prefix (m @ '':'') x"
        using assms(5) pat(2) unfolding scans_def by blast
      moreover have "rd_lookup s1 x = None" if "x \<notin> set (dict_keys (rd_data s1))"
        using that by (simp add: rd_lookup_def dict_get_dom [symmetric])
      ultimately show ?thesis using c(2) by presburger
    qed
    then show ?thesis using c(1) by blast
  qed
  show ?thesis using set get other clear make_key_inj by blast
qed

definition all_keys :: "string \<Rightarrow> redis \<Rightarrow> string list list" where
  "all_keys p s = [filter (prefix (butlast p)) (dict_keys (rd_data s))]"

theorem cache_roundtrip_witness:
  "\<exists>s1 cnt s2. set_json Some no_faults ''kis:price'' ''005930'' ''72000'' (Some 10) \<lparr>rd_calls = 0, rd_now = 0, rd_data = []\<rparr> = (Inr (), s1)
     \<and> clear_namespace all_keys no_faults ''kis'' s1 = (Inr cnt, s2) \<and> rd_lookup s2 ''kis:price:005930'' = None"
proof -
  let ?s = "\<lparr>rd_calls = 0, rd_now = 0, rd_data = []\<rparr>"
  have scan: "scans all_keys" by (auto simp: scans_def all_keys_def)
  obtain s1 where s1: "set_json Some no_faults ''kis:price'' ''005930'' ''72000'' (Some 10) ?s = (Inr (), s1)"
    and c: "\<forall>m. literal m \<longrightarrow> (\<exists>cnt s2. clear_namespace all_keys no_faults m s1 = (Inr cnt, s2)
         \<and> (\<forall>x. rd_lookup s2 x = (if prefix (m @ '':'') x then None else rd_lookup s1 x)))"
    using cache_roundtrip [where encode = Some and decode = Some and j = "''72000''" and raw = "''72000''" and ttl = 10 and d = 0
        and n = "''kis:price''" and k = "''005930''" and s = ?s, OF refl refl _ _ scan] by auto
  have "prefix (''kis'' @ '':'') ''kis:price:005930''" by simp
  moreover have "literal ''kis''" by (simp add: literal_def)
  ultimately show ?thesis using s1 c [rule_format, of "''kis''"] by auto
qed

end
