(* ===== verification/Llm_Config.thy ===== *)
theory Llm_Config
  imports Cost_Tracker Redis_Cache
begin

text \<open>
  The model assigned to each agent: the table \<open>agent_model_config\<close>, the lookup of \<open>src/llm/router.py\<close>
  (cache, then database, then the YAML defaults) and the updates of \<open>src/api/admin/llm_config.py\<close>.
  The YAML file is a parameter, with the fields that may be missing; so is the JSON form of a
  configuration. The router and the endpoints share one cache, which may be absent.
\<close>

section \<open>Data\<close>

datatype routing_mode = FIXED | ESCALATION

record agent_config =
  ac_agent_type :: string
  ac_routing_mode :: routing_mode
  ac_primary_model :: string
  ac_escalation_model :: "string option"
  ac_confidence_threshold :: "dec option"
  ac_is_active :: bool
  ac_updated_by :: string

record config_row =
  cf_agent_type :: string
  cf_routing_mode :: string
  cf_primary_model :: string
  cf_escalation_model :: "string option"
  cf_confidence_threshold :: "dec option"
  cf_is_active :: bool
  cf_updated_by :: string

record yaml_agent =
  ya_routing_mode :: "string option"
  ya_primary_model :: "string option"
  ya_escalation_model :: "string option"
  ya_confidence_threshold :: "dec option"

type_synonym yaml_file = "exc + (string, yaml_agent) dict"

definition agent_types :: "string list" where
  "agent_types = [''market_analyst'', ''stock_analyst'', ''risk_manager'', ''trader'', ''sentiment_analyzer'',
     ''report_generator'', ''web_verifier'']"

fun routing_mode_of :: "string \<Rightarrow> routing_mode option" where
  "routing_mode_of s = (if s = ''fixed'' then Some FIXED else if s = ''escalation'' then Some ESCALATION else None)"

text \<open>The pydantic model validates its two enums; the rest of a row has the right types.\<close>

definition mk_agent_config :: "config_row \<Rightarrow> exc + agent_config" where
  "mk_agent_config r = (if cf_agent_type r \<notin> set agent_types then Inl (ValidationError ''agent_type'')
     else case routing_mode_of (cf_routing_mode r) of
       None \<Rightarrow> Inl (ValidationError ''routing_mode'')
     | Some md \<Rightarrow> Inr \<lparr>ac_agent_type = cf_agent_type r, ac_routing_mode = md, ac_primary_model = cf_primary_model r,
         ac_escalation_model = cf_escalation_model r, ac_confidence_threshold = cf_confidence_threshold r,
         ac_is_active = cf_is_active r, ac_updated_by = cf_updated_by r\<rparr>)"

text \<open>What the table accepts; the threshold is a \<open>numeric(5, 4)\<close>.\<close>

definition numeric4 :: "dec \<Rightarrow> dec" where
  "numeric4 x = of_int (round_half_up (x * 10 ^ 4)) / 10 ^ 4"

definition config_row_fits :: "config_row \<Rightarrow> bool" where
  "config_row_fits r \<longleftrightarrow> length (cf_agent_type r) \<le> 50 \<and> length (cf_routing_mode r) \<le> 20 \<and> length (cf_primary_model r) \<le> 100
     \<and> opt_filter (\<lambda>m. length m \<le> 100) (cf_escalation_model r) \<and> length (cf_updated_by r) \<le> 50
     \<and> opt_filter (\<lambda>t. \<bar>t\<bar> < 10) (cf_confidence_threshold r)"

definition stored_config :: "config_row \<Rightarrow> config_row" where
  "stored_config r = r\<lparr>cf_confidence_threshold := map_option numeric4 (cf_confidence_threshold r)\<rparr>"

section \<open>State\<close>

record 'c llm_response =
  lr_content :: 'c
  lr_model :: string
  lr_provider :: string
  lr_tokens_in :: int
  lr_tokens_out :: int
  lr_cost_usd :: dec

text \<open>
  The router's world: beside the usage table the configurations, the cache, the initialised
  providers, the calls made to providers (the model, and whether it was the escalation) and, as a record of
  what was paid for, the answers they gave.
\<close>

record 'c llm_world = llm_db +
  lw_configs :: "config_row list"
  lw_cache :: "redis option"
  lw_providers :: "(string, string \<times> string) dict"
  lw_asked :: "(string \<times> bool) list"
  lw_answers :: "(string \<times> bool \<times> 'c llm_response) list"

definition cache_call :: "(redis, 'a) meth \<Rightarrow> redis \<Rightarrow> ('c llm_world, 'a) meth" where
  "cache_call f c w = (case f c of (r, c') \<Rightarrow> (r, w\<lparr>lw_cache := Some c'\<rparr>))"

fun is_cache_error :: "exc \<Rightarrow> bool" where
  "is_cache_error (CacheError _) = True"
| "is_cache_error _ = False"

definition tolerate_cache :: "('c llm_world, 'a) meth \<Rightarrow> 'a \<Rightarrow> ('c llm_world, 'a) meth" where
  "tolerate_cache f d = mcatch f (\<lambda>e. if is_cache_error e then mret d else mraise e)"

text \<open>The JSON form: \<open>model_dump\<close>, \<open>json.dumps\<close>, \<open>json.loads\<close> and \<open>model_validate\<close>.\<close>

record 'j config_json =
  cj_dump :: "agent_config \<Rightarrow> 'j"
  cj_encode :: "'j \<Rightarrow> string option"
  cj_decode :: "string \<Rightarrow> 'j option"
  cj_validate :: "'j \<Rightarrow> exc + agent_config"

definition json_ok :: "'j config_json \<Rightarrow> agent_config \<Rightarrow> bool" where
  "json_ok js c \<longleftrightarrow> (case cj_encode js (cj_dump js c) of
     None \<Rightarrow> False
   | Some raw \<Rightarrow> cj_decode js raw = Some (cj_dump js c) \<and> cj_validate js (cj_dump js c) = Inr c)"

section \<open>Lookup\<close>

definition cached_config :: "'j config_json \<Rightarrow> fault_plan \<Rightarrow> string \<Rightarrow> ('c llm_world, agent_config option) meth" where
  "cached_config js cfl agent w = (case lw_cache w of
     None \<Rightarrow> (Inr None, w)
   | Some c \<Rightarrow> tolerate_cache (mbind (cache_call (get_json (cj_decode js) cfl ''llm_config'' agent) c) (\<lambda>v. case v of
        None \<Rightarrow> mret None
      | Some j \<Rightarrow> mbind (mlift (\<lambda>_. cj_validate js j)) (\<lambda>cfg. mret (Some cfg)))) None w)"

definition store_config :: "'j config_json \<Rightarrow> llm_settings \<Rightarrow> fault_plan \<Rightarrow> string \<Rightarrow> agent_config \<Rightarrow> ('c llm_world, unit) meth" where
  "store_config js st cfl agent cfg w = (case lw_cache w of
     None \<Rightarrow> (Inr (), w)
   | Some c \<Rightarrow> tolerate_cache (cache_call (set_json (cj_encode js) cfl ''llm_config'' agent (cj_dump js cfg)
        (Some (LLM_CONFIG_CACHE_TTL st))) c) () w)"

text \<open>A threshold of 0 is no threshold.\<close>

definition yaml_threshold :: "yaml_agent \<Rightarrow> dec option" where
  "yaml_threshold y = (case ya_confidence_threshold y of Some t \<Rightarrow> if t = 0 then None else Some t | None \<Rightarrow> None)"

definition config_from_yaml :: "yaml_file \<Rightarrow> string \<Rightarrow> exc + agent_config option" where
  "config_from_yaml yaml agent = rbind yaml (\<lambda>agents. case dict_get agents agent of
     None \<Rightarrow> Inr None
   | Some y \<Rightarrow> (case (ya_routing_mode y, ya_primary_model y) of
       (Some md, Some p) \<Rightarrow> rbind (mk_agent_config \<lparr>cf_agent_type = agent, cf_routing_mode = md, cf_primary_model = p,
           cf_escalation_model = ya_escalation_model y, cf_confidence_threshold = yaml_threshold y,
           cf_is_active = True, cf_updated_by = ''system''\<rparr>) (\<lambda>c. Inr (Some c))
     | _ \<Rightarrow> Inl KeyError))"

definition find_config :: "string \<Rightarrow> config_row list \<Rightarrow> config_row option" where
  "find_config agent rows = find (\<lambda>r. cf_agent_type r = agent) rows"

definition stored_agent_config :: "'j config_json \<Rightarrow> yaml_file \<Rightarrow> llm_settings \<Rightarrow> fault_plan \<Rightarrow> fault_plan \<Rightarrow> string \<Rightarrow> ('c llm_world, agent_config) meth" where
  "stored_agent_config js yaml st fl cfl agent =
     mbind (db_call fl (mget (\<lambda>w. find_config agent (lw_configs w)))) (\<lambda>row. case row of
       Some r \<Rightarrow> mbind (mlift (\<lambda>_. mk_agent_config r)) (\<lambda>cfg. mbind (store_config js st cfl agent cfg) (\<lambda>_. mret cfg))
     | None \<Rightarrow> mbind (mlift (\<lambda>_. config_from_yaml yaml agent)) (\<lambda>c. case c of
         Some cfg \<Rightarrow> mret cfg | None \<Rightarrow> mraise (ProviderError ''no config'')))"

definition get_agent_config :: "'j config_json \<Rightarrow> yaml_file \<Rightarrow> llm_settings \<Rightarrow> fault_plan \<Rightarrow> fault_plan \<Rightarrow> string \<Rightarrow> ('c llm_world, agent_config) meth" where
  "get_agent_config js yaml st fl cfl agent = mbind (cached_config js cfl agent) (\<lambda>c. case c of
     Some cfg \<Rightarrow> mret cfg | None \<Rightarrow> stored_agent_config js yaml st fl cfl agent)"

section \<open>Updates\<close>

record config_update =
  cu_routing_mode :: "string option"
  cu_primary_model :: "string option"
  cu_escalation_model :: "string option"
  cu_confidence_threshold :: "dec option"
  cu_is_active :: "bool option"
  cu_updated_by :: string

definition given :: "'a option \<Rightarrow> 'a \<Rightarrow> 'a" where
  "given x old = (case x of None \<Rightarrow> old | Some v \<Rightarrow> v)"

definition given_opt :: "'a option \<Rightarrow> 'a option \<Rightarrow> 'a option" where
  "given_opt x old = (case x of None \<Rightarrow> old | Some v \<Rightarrow> Some v)"

definition changed_row :: "config_update \<Rightarrow> config_row \<Rightarrow> config_row" where
  "changed_row b r = r\<lparr>cf_routing_mode := given (cu_routing_mode b) (cf_routing_mode r),
     cf_primary_model := given (cu_primary_model b) (cf_primary_model r),
     cf_escalation_model := given_opt (cu_escalation_model b) (cf_escalation_model r),
     cf_confidence_threshold := given_opt (cu_confidence_threshold b) (cf_confidence_threshold r),
     cf_is_active := given (cu_is_active b) (cf_is_active r), cf_updated_by := cu_updated_by b\<rparr>"

definition commit_config :: "config_row \<Rightarrow> ('c llm_world, unit) meth" where
  "commit_config r w = (if config_row_fits (stored_config r)
     then (Inr (), w\<lparr>lw_configs := map (\<lambda>x. if cf_agent_type x = cf_agent_type r then stored_config r else x) (lw_configs w)\<rparr>)
     else (Inl (DatabaseError ''value out of range''), w))"

text \<open>\<open>get_cache()\<close> raises when there is no cache; every exception of the invalidation is caught.\<close>

definition drop_cached :: "fault_plan \<Rightarrow> string \<Rightarrow> ('c llm_world, unit) meth" where
  "drop_cached cfl agent w = (case lw_cache w of
     None \<Rightarrow> (Inr (), w)
   | Some c \<Rightarrow> mcatch (mbind (cache_call (rc_delete cfl ''llm_config'' agent) c) (\<lambda>_. mret ())) (\<lambda>_. mret ()) w)"

definition update_config :: "fault_plan \<Rightarrow> fault_plan \<Rightarrow> string \<Rightarrow> config_update \<Rightarrow> ('c llm_world, config_row) meth" where
  "update_config fl cfl agent body =
     mbind (db_call fl (mget (\<lambda>w. find_config agent (lw_configs w)))) (\<lambda>row. case row of
       None \<Rightarrow> mraise (ExternalError ''404'')
     | Some r \<Rightarrow> mbind (db_call fl (commit_config (changed_row body r))) (\<lambda>_.
         mbind (drop_cached cfl agent) (\<lambda>_. mret (changed_row body r))))"

definition yaml_row :: "string \<Rightarrow> yaml_agent \<Rightarrow> exc + config_row" where
  "yaml_row agent y = (case (ya_routing_mode y, ya_primary_model y) of
     (Some md, Some p) \<Rightarrow> Inr \<lparr>cf_agent_type = agent, cf_routing_mode = md, cf_primary_model = p,
       cf_escalation_model = ya_escalation_model y, cf_confidence_threshold = yaml_threshold y,
       cf_is_active = True, cf_updated_by = ''system''\<rparr>
   | _ \<Rightarrow> Inl KeyError)"

definition upsert_config :: "config_row \<Rightarrow> config_row list \<Rightarrow> exc + config_row list" where
  "upsert_config r rows = (if \<not> config_row_fits (stored_config r) then Inl (DatabaseError ''value out of range'')
     else if find_config (cf_agent_type r) rows = None then Inr (rows @ [stored_config r])
     else Inr (map (\<lambda>x. if cf_agent_type x = cf_agent_type r then stored_config r else x) rows))"

definition reset_rows :: "(string, yaml_agent) dict \<Rightarrow> config_row list \<Rightarrow> exc + config_row list" where
  "reset_rows agents rows = rfold (\<lambda>(agent, y) rows. rbind (yaml_row agent y) (\<lambda>r. upsert_config r rows)) agents rows"

text \<open>One transaction for all agents, then the whole namespace of the cache is cleared.\<close>

definition reset_configs :: "(string \<Rightarrow> redis \<Rightarrow> string list list) \<Rightarrow> yaml_file \<Rightarrow> fault_plan \<Rightarrow> fault_plan \<Rightarrow> ('c llm_world, nat) meth" where
  "reset_configs scan yaml fl cfl =
     mbind (mlift (\<lambda>_. yaml)) (\<lambda>agents.
     mbind (db_call fl (\<lambda>w. case reset_rows agents (lw_configs w) of
        Inl e \<Rightarrow> (Inl e, w) | Inr rows \<Rightarrow> (Inr (), w\<lparr>lw_configs := rows\<rparr>))) (\<lambda>_.
     mbind (\<lambda>w. case lw_cache w of None \<Rightarrow> (Inr (), w)
        | Some c \<Rightarrow> mcatch (mbind (cache_call (clear_namespace scan cfl ''llm_config'') c) (\<lambda>_. mret ())) (\<lambda>_. mret ()) w) (\<lambda>_.
     mret (length agents))))"

section \<open>Lookups without faults\<close>

lemma db_call_no_faults [simp]: "db_call no_faults f s = f (s\<lparr>lb_calls := lb_calls s + 1\<rparr>)"
  by (simp add: db_call_def no_faults_def)

abbreviation config_key :: "string \<Rightarrow> string" where
  "config_key agent \<equiv> make_key ''llm_config'' agent"

definition counted :: "redis \<Rightarrow> redis" where
  "counted c = c\<lparr>rd_calls := rd_calls c + 1\<rparr>"

lemma rd_lookup_counted [simp]: "rd_lookup (counted c) k = rd_lookup c k"
  by (simp add: counted_def)

lemma cached_miss:
  assumes "lw_cache w = Some c" "rd_lookup c (config_key agent) = None"
  shows "cached_config js no_faults agent w = (Inr None, w\<lparr>lw_cache := Some (counted c)\<rparr>)"
  using assms by (simp add: cached_config_def tolerate_cache_def cache_call_def get_json_def rc_get_def meth_defs counted_def)

lemma cached_hit:
  assumes "lw_cache w = Some c" "rd_lookup c (config_key agent) = Some raw" "cj_decode js raw = Some j" "cj_validate js j = Inr cfg"
  shows "cached_config js no_faults agent w = (Inr (Some cfg), w\<lparr>lw_cache := Some (counted c)\<rparr>)"
  using assms by (simp add: cached_config_def tolerate_cache_def cache_call_def get_json_def rc_get_def meth_defs counted_def)

lemma config_hit:
  assumes "lw_cache w = Some c" "rd_lookup c (config_key agent) = Some raw" "cj_decode js raw = Some j" "cj_validate js j = Inr cfg"
  shows "fst (get_agent_config js yaml st no_faults no_faults agent w) = Inr cfg"
  using cached_hit [OF assms] by (simp add: get_agent_config_def mbind_def mret_def)

lemma store_config_ok:
  assumes "lw_cache w = Some c" "cj_encode js (cj_dump js cfg) = Some raw" "0 < LLM_CONFIG_CACHE_TTL st"
  obtains c' where "store_config js st no_faults agent cfg w = (Inr (), w\<lparr>lw_cache := Some c'\<rparr>)"
    "rd_lookup c' (config_key agent) = Some raw"
proof -
  have "store_config js st no_faults agent cfg w = (Inr (), w\<lparr>lw_cache := Some (rd_write ''llm_config'' agent raw (LLM_CONFIG_CACHE_TTL st) (counted c))\<rparr>)"
    using assms by (simp add: store_config_def tolerate_cache_def cache_call_def set_json_def rc_set_def mcatch_def rd_store_def rd_write_def counted_def)
  moreover have "rd_lookup (rd_write ''llm_config'' agent raw (LLM_CONFIG_CACHE_TTL st) (counted c)) (config_key agent) = Some raw"
    using redis_store.read_now [OF assms(3)] by (simp add: rd_advance_def)
  ultimately show thesis by (rule that)
qed

lemma config_miss:
  assumes "json_ok js cfg" "0 < LLM_CONFIG_CACHE_TTL st" "lw_cache w = Some c" "rd_lookup c (config_key agent) = None"
    "find_config agent (lw_configs w) = Some r" "mk_agent_config r = Inr cfg"
  obtains w' c' raw where "get_agent_config js yaml st no_faults no_faults agent w = (Inr cfg, w')" "lw_cache w' = Some c'"
    "rd_lookup c' (config_key agent) = Some raw" "cj_decode js raw = Some (cj_dump js cfg)" "cj_validate js (cj_dump js cfg) = Inr cfg"
proof -
  from assms(1) obtain raw where raw: "cj_encode js (cj_dump js cfg) = Some raw" "cj_decode js raw = Some (cj_dump js cfg)"
    "cj_validate js (cj_dump js cfg) = Inr cfg" by (auto simp: json_ok_def split: option.splits)
  define w1 where "w1 = w\<lparr>lw_cache := Some (counted c), lb_calls := lb_calls w + 1\<rparr>"
  obtain c' where c': "store_config js st no_faults agent cfg w1 = (Inr (), w1\<lparr>lw_cache := Some c'\<rparr>)"
    "rd_lookup c' (config_key agent) = Some raw"
    using store_config_ok [OF _ raw(1) assms(2), of w1 "counted c"] by (auto simp: w1_def)
  have "get_agent_config js yaml st no_faults no_faults agent w = (Inr cfg, w1\<lparr>lw_cache := Some c'\<rparr>)"
    using cached_miss [OF assms(3,4), of js] assms(5,6) c'(1)
    by (simp add: get_agent_config_def stored_agent_config_def meth_defs w1_def)
  then show thesis by (rule that) (use c' raw in simp_all)
qed

lemma config_invalid:
  assumes "lw_cache w = Some c" "rd_lookup c (config_key agent) = None" "find_config agent (lw_configs w) = Some r" "mk_agent_config r = Inl e"
  shows "fst (get_agent_config js yaml st no_faults no_faults agent w) = Inl e"
  using cached_miss [OF assms(1,2), of js] assms(3,4)
  by (simp add: get_agent_config_def stored_agent_config_def meth_defs)

section \<open>An update\<close>

lemma find_config_update:
  assumes "find_config agent rows = Some r" "cf_agent_type r' = agent"
  shows "find_config agent (map (\<lambda>x. if cf_agent_type x = agent then r' else x) rows) = Some r'"
  using assms by (induction rows) (auto simp: find_config_def)

lemma find_config_agent: "find_config agent rows = Some r \<Longrightarrow> cf_agent_type r = agent"
  by (auto simp: find_config_def find_Some_iff)

lemma changed_agent [simp]: "cf_agent_type (stored_config (changed_row b r)) = cf_agent_type r" "cf_agent_type (changed_row b r) = cf_agent_type r"
  by (simp_all add: stored_config_def changed_row_def)

text \<open>The database part of an update, and what the cache holds afterwards.\<close>

lemma update_config_db:
  assumes "find_config agent (lw_configs w) = Some r" "config_row_fits (stored_config (changed_row body r))"
  obtains w' where "update_config no_faults cfl agent body w = (case drop_cached cfl agent w' of (_, w2) \<Rightarrow> (Inr (changed_row body r), w2))"
    "find_config agent (lw_configs w') = Some (stored_config (changed_row body r))" "lw_cache w' = lw_cache w"
proof -
  define w' where "w' = w\<lparr>lb_calls := lb_calls w + 2,
     lw_configs := map (\<lambda>x. if cf_agent_type x = agent then stored_config (changed_row body r) else x) (lw_configs w)\<rparr>"
  have a: "cf_agent_type r = agent" using find_config_agent [OF assms(1)] .
  have drop: "\<exists>w2. drop_cached cfl agent w' = (Inr (), w2)"
    by (auto simp: drop_cached_def mcatch_def mret_def split: option.split prod.split sum.split)
  have "update_config no_faults cfl agent body w = (case drop_cached cfl agent w' of (_, w2) \<Rightarrow> (Inr (changed_row body r), w2))"
    using assms a drop by (auto simp: update_config_def commit_config_def meth_defs w'_def numeral_2_eq_2)
  moreover have "find_config agent (lw_configs w') = Some (stored_config (changed_row body r))"
    using find_config_update [OF assms(1), of "stored_config (changed_row body r)"] a by (simp add: w'_def)
  ultimately show thesis by (rule that) (simp add: w'_def)
qed

lemma drop_cached_ok:
  assumes "lw_cache w = Some c"
  obtains c' where "drop_cached no_faults agent w = (Inr (), w\<lparr>lw_cache := Some c'\<rparr>)" "rd_lookup c' (config_key agent) = None"
proof -
  define c' where "c' = (counted c)\<lparr>rd_data := filter (\<lambda>(k, _). k \<notin> set [config_key agent]) (rd_data c)\<rparr>"
  have "drop_cached no_faults agent w = (Inr (), w\<lparr>lw_cache := Some c'\<rparr>)"
    using assms by (simp add: drop_cached_def cache_call_def rc_delete_def meth_defs rd_delete_def c'_def counted_def)
  moreover have "rd_lookup c' (config_key agent) = None"
    using rd_lookup_filter [where K = "set [config_key agent]" and s = "counted c" and k = "config_key agent"] by (simp add: c'_def counted_def)
  ultimately show thesis by (rule that)
qed

lemma drop_cached_fails:
  assumes "lw_cache w = Some c"
  shows "drop_cached (\<lambda>_. Some (Before e)) agent w = (Inr (), w\<lparr>lw_cache := Some (counted c)\<rparr>)"
  using assms by (simp add: drop_cached_def cache_call_def rc_delete_def command_def meth_defs counted_def)

text \<open>
  An update of a configuration through the API is what the router uses from the next lookup on
  (twice: from the database, then from the cache it filled), when the cache works. When the deletion
  in the cache fails, the update still succeeds, and the router goes on with the configuration that
  was cached until that entry expires. A routing mode that is no enum value is stored all the same,
  and every lookup of that agent then raises a ValidationError.
\<close>

theorem config_update_visible:
  assumes "lw_cache w = Some c" "0 < LLM_CONFIG_CACHE_TTL st" "find_config agent (lw_configs w) = Some r"
    "config_row_fits (stored_config (changed_row body r))"
    "\<And>cfg. mk_agent_config (stored_config (changed_row body r)) = Inr cfg \<Longrightarrow> json_ok js cfg"
  shows "(\<exists>w1. update_config no_faults no_faults agent body w = (Inr (changed_row body r), w1)
      \<and> (case mk_agent_config (stored_config (changed_row body r)) of
          Inr cfg \<Rightarrow> \<exists>w2. get_agent_config js yaml st no_faults no_faults agent w1 = (Inr cfg, w2)
            \<and> fst (get_agent_config js yaml st no_faults no_faults agent w2) = Inr cfg
        | Inl e \<Rightarrow> fst (get_agent_config js yaml st no_faults no_faults agent w1) = Inl e))
    \<and> (\<exists>w1. update_config no_faults (\<lambda>_. Some (Before e)) agent body w = (Inr (changed_row body r), w1)
      \<and> (\<forall>old. json_ok js old \<and> rd_lookup c (make_key ''llm_config'' agent) = cj_encode js (cj_dump js old) \<longrightarrow>
           fst (get_agent_config js yaml st no_faults no_faults agent w1) = Inr old))"
proof
  let ?r' = "stored_config (changed_row body r)"
  obtain w' where w': "update_config no_faults no_faults agent body w = (case drop_cached no_faults agent w' of (_, w2) \<Rightarrow> (Inr (changed_row body r), w2))"
    "find_config agent (lw_configs w') = Some ?r'" "lw_cache w' = Some c"
    using update_config_db [OF assms(3,4)] assms(1) by metis
  obtain c' where c': "drop_cached no_faults agent w' = (Inr (), w'\<lparr>lw_cache := Some c'\<rparr>)" "rd_lookup c' (config_key agent) = None"
    using drop_cached_ok [OF w'(3)] .
  define w1 where "w1 = w'\<lparr>lw_cache := Some c'\<rparr>"
  have u: "update_config no_faults no_faults agent body w = (Inr (changed_row body r), w1)" using w'(1) c'(1) by (simp add: w1_def)
  have w1: "lw_cache w1 = Some c'" "find_config agent (lw_configs w1) = Some ?r'" using w'(2) by (simp_all add: w1_def)
  show "\<exists>w1. update_config no_faults no_faults agent body w = (Inr (changed_row body r), w1)
      \<and> (case mk_agent_config ?r' of
          Inr cfg \<Rightarrow> \<exists>w2. get_agent_config js yaml st no_faults no_faults agent w1 = (Inr cfg, w2)
            \<and> fst (get_agent_config js yaml st no_faults no_faults agent w2) = Inr cfg
        | Inl e \<Rightarrow> fst (get_agent_config js yaml st no_faults no_faults agent w1) = Inl e)"
  proof (cases "mk_agent_config ?r'")
    case (Inl e)
    with u config_invalid [OF w1(1) c'(2) w1(2) Inl] show ?thesis by auto
  next
    case (Inr cfg)
    obtain w2 c2 raw where l: "get_agent_config js yaml st no_faults no_faults agent w1 = (Inr cfg, w2)" "lw_cache w2 = Some c2"
      "rd_lookup c2 (config_key agent) = Some raw" "cj_decode js raw = Some (cj_dump js cfg)" "cj_validate js (cj_dump js cfg) = Inr cfg"
      using config_miss [OF assms(5) [OF Inr] assms(2) w1(1) c'(2) w1(2) Inr] .
    with u Inr config_hit [OF l(2-5)] show ?thesis by auto
  qed
next
  obtain w' where w': "update_config no_faults (\<lambda>_. Some (Before e)) agent body w =
      (case drop_cached (\<lambda>_. Some (Before e)) agent w' of (_, w2) \<Rightarrow> (Inr (changed_row body r), w2))" "lw_cache w' = Some c"
    using update_config_db [OF assms(3,4)] assms(1) by metis
  have "fst (get_agent_config js yaml st no_faults no_faults agent (w'\<lparr>lw_cache := Some (counted c)\<rparr>)) = Inr old"
    if "json_ok js old" "rd_lookup c (config_key agent) = cj_encode js (cj_dump js old)" for old
    using that by (cases "cj_encode js (cj_dump js old)") (auto simp: json_ok_def intro!: config_hit [of _ "counted c"])
  with w' drop_cached_fails [OF w'(2), of e agent]
  show "\<exists>w1. update_config no_faults (\<lambda>_. Some (Before e)) agent body w = (Inr (changed_row body r), w1)
      \<and> (\<forall>old. json_ok js old \<and> rd_lookup c (make_key ''llm_config'' agent) = cj_encode js (cj_dump js old) \<longrightarrow>
           fst (get_agent_config js yaml st no_faults no_faults agent w1) = Inr old)"
    by auto
qed

definition sample_config :: config_row where
  "sample_config = \<lparr>cf_agent_type = ''trader'', cf_routing_mode = ''fixed'', cf_primary_model = ''openai/gpt-4o'',
     cf_escalation_model = None, cf_confidence_threshold = None, cf_is_active = True, cf_updated_by = ''system''\<rparr>"

definition sample_llm_world :: "string llm_world" where
  "sample_llm_world = \<lparr>lb_calls = 0, lb_usage = [], lw_configs = [sample_config],
     lw_cache = Some \<lparr>rd_calls = 0, rd_now = 0, rd_data = []\<rparr>, lw_providers = [], lw_asked = [], lw_answers = []\<rparr>"

text \<open>A JSON form that keeps apart the fields the sample changes.\<close>

definition sample_json :: "(string \<times> bool) config_json" where
  "sample_json = \<lparr>cj_dump = (\<lambda>c. (ac_primary_model c, ac_is_active c)),
     cj_encode = (\<lambda>(p, a). Some ((if a then CHR ''1'' else CHR ''0'') # p)),
     cj_decode = (\<lambda>s. case s of [] \<Rightarrow> None | a # p \<Rightarrow> Some (p, a = CHR ''1'')),
     cj_validate = (\<lambda>(p, a). Inr \<lparr>ac_agent_type = ''trader'', ac_routing_mode = FIXED, ac_primary_model = p,
       ac_escalation_model = None, ac_confidence_threshold = None, ac_is_active = a, ac_updated_by = ''admin''\<rparr>)\<rparr>"

definition sample_update :: "string \<Rightarrow> config_update" where
  "sample_update mode = \<lparr>cu_routing_mode = Some mode, cu_primary_model = Some ''openai/gpt-4.1-mini'', cu_escalation_model = None,
     cu_confidence_threshold = None, cu_is_active = None, cu_updated_by = ''admin''\<rparr>"

theorem config_update_visible_witness:
  "(\<exists>w1. update_config no_faults no_faults ''trader'' (sample_update ''fixed'') sample_llm_world
        = (Inr (changed_row (sample_update ''fixed'') sample_config), w1)
      \<and> (\<exists>cfg. fst (get_agent_config sample_json (Inr []) default_llm_settings no_faults no_faults ''trader'' w1) = Inr cfg
           \<and> ac_primary_model cfg = ''openai/gpt-4.1-mini''))
   \<and> (\<exists>w1. update_config no_faults no_faults ''trader'' (sample_update ''cheap'') sample_llm_world
        = (Inr (changed_row (sample_update ''cheap'') sample_config), w1)
      \<and> fst (get_agent_config sample_json (Inr []) default_llm_settings no_faults no_faults ''trader'' w1) = Inl (ValidationError ''routing_mode''))"
proof -
  have base: "lw_cache sample_llm_world = Some \<lparr>rd_calls = 0, rd_now = 0, rd_data = []\<rparr>" "0 < LLM_CONFIG_CACHE_TTL default_llm_settings"
    "find_config ''trader'' (lw_configs sample_llm_world) = Some sample_config"
    by (simp_all add: sample_llm_world_def find_config_def sample_config_def default_llm_settings_def default_settings_def settings.defs llm_settings.defs)
  have fits: "config_row_fits (stored_config (changed_row (sample_update md) sample_config))" if "length md \<le> 20" for md
    using that by (simp add: config_row_fits_def stored_config_def changed_row_def sample_update_def sample_config_def opt_filter_def given_def given_opt_def)
  have mk: "mk_agent_config (stored_config (changed_row (sample_update ''fixed'') sample_config)) =
      Inr \<lparr>ac_agent_type = ''trader'', ac_routing_mode = FIXED, ac_primary_model = ''openai/gpt-4.1-mini'', ac_escalation_model = None,
        ac_confidence_threshold = None, ac_is_active = True, ac_updated_by = ''admin''\<rparr>"
    "mk_agent_config (stored_config (changed_row (sample_update ''cheap'') sample_config)) = Inl (ValidationError ''routing_mode'')"
    by (simp_all add: mk_agent_config_def stored_config_def changed_row_def sample_update_def sample_config_def given_def given_opt_def agent_types_def)
  have json: "json_ok sample_json cfg" if "mk_agent_config (stored_config (changed_row (sample_update ''fixed'') sample_config)) = Inr cfg" for cfg
    using that mk(1) by (auto simp: json_ok_def sample_json_def)
  show ?thesis
  proof
    show "\<exists>w1. update_config no_faults no_faults ''trader'' (sample_update ''fixed'') sample_llm_world
        = (Inr (changed_row (sample_update ''fixed'') sample_config), w1)
      \<and> (\<exists>cfg. fst (get_agent_config sample_json (Inr []) default_llm_settings no_faults no_faults ''trader'' w1) = Inr cfg
           \<and> ac_primary_model cfg = ''openai/gpt-4.1-mini'')"
      using config_update_visible [OF base fits json, where yaml = "Inr []"] mk(1) by force
    show "\<exists>w1. update_config no_faults no_faults ''trader'' (sample_update ''cheap'') sample_llm_world
        = (Inr (changed_row (sample_update ''cheap'') sample_config), w1)
      \<and> fst (get_agent_config sample_json (Inr []) default_llm_settings no_faults no_faults ''trader'' w1) = Inl (ValidationError ''routing_mode'')"
      using config_update_visible [OF base fits, where yaml = "Inr []" and js = sample_json, of "''cheap''"] mk(2) by force
  qed
qed

end
