(* ===== verification/Llm_Provider.thy ===== *)
theory Llm_Provider
  imports Llm_Config
begin

text \<open>
  The three providers of \<open>src/llm/providers/\<close> around their SDK clients: the retry loop with its
  exponential waits, the token counts (estimated where the service gives none), the cost from the
  price table, and the answers of \<open>chat\<close> and \<open>structured_output\<close>. What the client answers at each
  attempt is a parameter; so are the texts that are only measured and the schema's validation.
  The conversion of messages and tools to each SDK's format is not modelled.
\<close>

section \<open>Errors of the clients\<close>

text \<open>
  The exception classes the handlers tell apart. \<open>Api_Error\<close> carries the HTTP status of the error,
  or \<open>None\<close> when the exception object has no such attribute.
\<close>

datatype client_error = Auth_Error | Rate_Limit_Error | Timeout_Error | Api_Error "int option" | Other_Error

datatype verdict = Try_Again | Give_Up exc

definition anthropic_verdict :: "bool \<Rightarrow> client_error \<Rightarrow> verdict" where
  "anthropic_verdict is_last e = (case e of
     Auth_Error \<Rightarrow> Give_Up (ProviderError ''auth'')
   | Rate_Limit_Error \<Rightarrow> Try_Again | Timeout_Error \<Rightarrow> Try_Again
   | Api_Error _ \<Rightarrow> Give_Up (ProviderError ''api'') | Other_Error \<Rightarrow> Give_Up (ProviderError ''unexpected''))"

text \<open>The OpenAI handler reads the status of every API error; an object without one raises AttributeError.\<close>

definition openai_verdict :: "bool \<Rightarrow> client_error \<Rightarrow> verdict" where
  "openai_verdict is_last e = (case e of
     Auth_Error \<Rightarrow> Give_Up (ProviderError ''auth'')
   | Rate_Limit_Error \<Rightarrow> Try_Again | Timeout_Error \<Rightarrow> Try_Again
   | Api_Error None \<Rightarrow> Give_Up (ExternalError ''AttributeError'')
   | Api_Error (Some st) \<Rightarrow> if st \<noteq> 0 \<and> 500 \<le> st \<and> \<not> is_last then Try_Again else Give_Up (ProviderError ''api'')
   | Other_Error \<Rightarrow> Give_Up (ProviderError ''unexpected''))"

text \<open>Google's client errors carry their code; its server errors are \<open>Timeout_Error\<close> here: always retried.\<close>

definition google_verdict :: "bool \<Rightarrow> client_error \<Rightarrow> verdict" where
  "google_verdict is_last e = (case e of
     Api_Error st \<Rightarrow> if st \<in> {Some 401, Some 403} then Give_Up (ProviderError ''auth'')
       else if st = Some 429 then Try_Again else Give_Up (ProviderError ''client'')
   | Timeout_Error \<Rightarrow> Try_Again
   | _ \<Rightarrow> Give_Up (ProviderError ''unexpected''))"

section \<open>The retry loop\<close>

text \<open>The outcome with the waits made, in seconds; \<open>as\<close> are the attempts left, counted from 0.\<close>

fun retry_loop :: "(bool \<Rightarrow> client_error \<Rightarrow> verdict) \<Rightarrow> nat \<Rightarrow> (nat \<Rightarrow> client_error + 'a) \<Rightarrow> nat list \<Rightarrow> (exc + 'a) \<times> nat list" where
  "retry_loop verdict max_retries api [] = (Inl (ProviderError ''max retries''), [])"
| "retry_loop verdict max_retries api (a # as) = (case api a of
     Inr x \<Rightarrow> (Inr x, [])
   | Inl e \<Rightarrow> (case verdict (\<not> a < max_retries) e of
       Give_Up ex \<Rightarrow> (Inl ex, [])
     | Try_Again \<Rightarrow> (case retry_loop verdict max_retries api as of
         (r, waits) \<Rightarrow> (r, if a < max_retries then 2 ^ a # waits else waits))))"

definition call_with_retry :: "(bool \<Rightarrow> client_error \<Rightarrow> verdict) \<Rightarrow> nat \<Rightarrow> (nat \<Rightarrow> client_error + 'a) \<Rightarrow> (exc + 'a) \<times> nat list" where
  "call_with_retry verdict max_retries api = retry_loop verdict max_retries api [0..<max_retries + 1]"

section \<open>Tokens and cost\<close>

definition estimate_tokens :: "string \<Rightarrow> int" where
  "estimate_tokens text = max (int (length text) div 4) 1"

definition calculate_cost :: "(string, dec \<times> dec) dict \<Rightarrow> string \<Rightarrow> int \<Rightarrow> int \<Rightarrow> dec" where
  "calculate_cost pricing model_id tokens_in tokens_out = (case dict_get pricing model_id of
     None \<Rightarrow> 0
   | Some (r_in, r_out) \<Rightarrow> dadd (dquo (dmul r_in (of_int tokens_in)) 1000000) (dquo (dmul r_out (of_int tokens_out)) 1000000))"

definition openai_pricing :: "(string, dec \<times> dec) dict" where
  "openai_pricing = [(''gpt-5.2-2025-12-11'', 2, 8), (''gpt-4o'', 5 / 2, 10), (''gpt-4.1-mini'', 2 / 5, 8 / 5)]"

definition google_pricing :: "(string, dec \<times> dec) dict" where
  "google_pricing = [(''gemini-3.1-pro-preview'', 2, 15), (''gemini-3-flash-preview'', 1 / 2, 3),
     (''gemini-3.1-flash-lite-preview'', 1 / 4, 3 / 2)]"

definition anthropic_pricing :: "(string, dec \<times> dec) dict" where
  "anthropic_pricing = [(''claude-opus-4-6'', 5, 25), (''claude-sonnet-4-5-20250929'', 3, 15), (''claude-haiku-4-5-20251001'', 1, 5)]"

section \<open>Answers\<close>

record 'b api_answer =
  aa_text :: string
  aa_blocks :: "(string \<times> 'b) list"
  aa_usage :: "(int \<times> int) option"

text \<open>A count the service gives is used as it is, or only when it is not 0.\<close>

definition given_tokens :: "'b api_answer \<Rightarrow> string \<Rightarrow> string \<Rightarrow> int \<times> int" where
  "given_tokens a prompt content = (case aa_usage a of
     Some (i, u) \<Rightarrow> (i, u) | None \<Rightarrow> (estimate_tokens prompt, estimate_tokens content))"

definition counted_tokens :: "'b api_answer \<Rightarrow> string \<Rightarrow> string \<Rightarrow> int \<times> int" where
  "counted_tokens a prompt content = (let (i, u) = (case aa_usage a of Some p \<Rightarrow> p | None \<Rightarrow> (0, 0)) in
     (if i = 0 then estimate_tokens prompt else i, if u = 0 then estimate_tokens content else u))"

definition response_of :: "string \<Rightarrow> (string, dec \<times> dec) dict \<Rightarrow> string \<Rightarrow> 'c \<Rightarrow> int \<times> int \<Rightarrow> 'c llm_response" where
  "response_of provider pricing model_id content tokens = \<lparr>lr_content = content, lr_model = model_id, lr_provider = provider,
     lr_tokens_in = fst tokens, lr_tokens_out = snd tokens,
     lr_cost_usd = calculate_cost pricing model_id (fst tokens) (snd tokens)\<rparr>"

definition openai_chat :: "nat \<Rightarrow> string \<Rightarrow> string \<Rightarrow> (nat \<Rightarrow> client_error + 'b api_answer) \<Rightarrow> exc + string llm_response" where
  "openai_chat max_retries model_id prompt api = rbind (fst (call_with_retry openai_verdict max_retries api)) (\<lambda>a.
     Inr (response_of ''openai'' openai_pricing model_id (aa_text a) (given_tokens a prompt (aa_text a))))"

definition anthropic_chat :: "nat \<Rightarrow> string \<Rightarrow> string \<Rightarrow> (nat \<Rightarrow> client_error + 'b api_answer) \<Rightarrow> exc + string llm_response" where
  "anthropic_chat max_retries model_id prompt api = rbind (fst (call_with_retry anthropic_verdict max_retries api)) (\<lambda>a.
     Inr (response_of ''anthropic'' anthropic_pricing model_id (aa_text a) (given_tokens a prompt (aa_text a))))"

definition google_chat :: "nat \<Rightarrow> string \<Rightarrow> string \<Rightarrow> (nat \<Rightarrow> client_error + 'b api_answer) \<Rightarrow> exc + string llm_response" where
  "google_chat max_retries model_id prompt api = rbind (fst (call_with_retry google_verdict max_retries api)) (\<lambda>a.
     Inr (response_of ''google'' google_pricing model_id (aa_text a) (counted_tokens a prompt (aa_text a))))"

definition json_structured ::
  "string \<Rightarrow> (string, dec \<times> dec) dict \<Rightarrow> (bool \<Rightarrow> client_error \<Rightarrow> verdict) \<Rightarrow> nat \<Rightarrow> string \<Rightarrow> string \<Rightarrow> (string \<Rightarrow> 'c option)
     \<Rightarrow> (nat \<Rightarrow> client_error + 'b api_answer) \<Rightarrow> exc + 'c llm_response" where
  "json_structured provider pricing verdict max_retries model_id prompt parse api =
     rbind (fst (call_with_retry verdict max_retries api)) (\<lambda>a.
       case parse (aa_text a) of None \<Rightarrow> Inl (ProviderError ''structured output'')
       | Some c \<Rightarrow> Inr (response_of provider pricing model_id c (counted_tokens a prompt (aa_text a))))"

definition openai_structured where
  "openai_structured max_retries = json_structured ''openai'' openai_pricing openai_verdict max_retries"

definition google_structured where
  "google_structured max_retries = json_structured ''google'' google_pricing google_verdict max_retries"

text \<open>The first tool call with the schema's name counts; the estimate of its output reads the printed blocks.\<close>

definition anthropic_structured ::
  "nat \<Rightarrow> string \<Rightarrow> string \<Rightarrow> string \<Rightarrow> ('b \<Rightarrow> 'c option) \<Rightarrow> (nat \<Rightarrow> client_error + 'b api_answer) \<Rightarrow> exc + 'c llm_response" where
  "anthropic_structured max_retries model_id prompt tool_name parse api =
     rbind (fst (call_with_retry anthropic_verdict max_retries api)) (\<lambda>a.
       case find (\<lambda>(n, _). n = tool_name) (aa_blocks a) of
         None \<Rightarrow> Inl (ProviderError ''no tool_use'')
       | Some (_, b) \<Rightarrow> (case parse b of None \<Rightarrow> Inl (ProviderError ''structured output'')
         | Some c \<Rightarrow> Inr (response_of ''anthropic'' anthropic_pricing model_id c (counted_tokens a prompt (aa_text a)))))"

section \<open>What a call answers\<close>

definition decisive :: "(bool \<Rightarrow> client_error \<Rightarrow> verdict) \<Rightarrow> nat \<Rightarrow> (nat \<Rightarrow> client_error + 'a) \<Rightarrow> nat \<Rightarrow> bool" where
  "decisive verdict m api i = (case api i of Inr _ \<Rightarrow> True | Inl e \<Rightarrow> verdict (\<not> i < m) e \<noteq> Try_Again)"

definition outcome_of :: "(bool \<Rightarrow> client_error \<Rightarrow> verdict) \<Rightarrow> nat \<Rightarrow> client_error + 'a \<Rightarrow> nat \<Rightarrow> exc + 'a" where
  "outcome_of verdict m r i = (case r of Inr x \<Rightarrow> Inr x
     | Inl e \<Rightarrow> (case verdict (\<not> i < m) e of Give_Up ex \<Rightarrow> Inl ex | Try_Again \<Rightarrow> Inl (ProviderError ''max retries'')))"

lemma find_mem: "find P xs = Some x \<Longrightarrow> x \<in> set xs"
  by (auto simp: find_Some_iff)

lemma retry_loop_first:
  "j \<le> m + 1 \<Longrightarrow> retry_loop verdict m api [j..<m + 1] = (case find (decisive verdict m api) [j..<m + 1] of
     None \<Rightarrow> (Inl (ProviderError ''max retries''), map (\<lambda>i. 2 ^ i) [j..<m])
   | Some i \<Rightarrow> (outcome_of verdict m (api i) i, map (\<lambda>i. 2 ^ i) [j..<i]))"
proof (induction "m + 1 - j" arbitrary: j)
  case 0
  then have "j = m + 1" by simp
  then show ?case by simp
next
  case (Suc n)
  then have j: "j < m + 1" "[j..<m + 1] = j # [Suc j..<m + 1]" by (simp_all add: upt_rec)
  have IH: "retry_loop verdict m api [Suc j..<m + 1] = (case find (decisive verdict m api) [Suc j..<m + 1] of
     None \<Rightarrow> (Inl (ProviderError ''max retries''), map (\<lambda>i. 2 ^ i) [Suc j..<m])
   | Some i \<Rightarrow> (outcome_of verdict m (api i) i, map (\<lambda>i. 2 ^ i) [Suc j..<i]))"
    using Suc.hyps(2) j(1) by (intro Suc.hyps(1)) simp_all
  show ?case
  proof (cases "decisive verdict m api j")
    case True
    then show ?thesis unfolding j(2)
      by (auto simp: decisive_def outcome_of_def split: sum.splits verdict.splits)
  next
    case False
    then obtain e where e: "api j = Inl e" "verdict (\<not> j < m) e = Try_Again" by (auto simp: decisive_def split: sum.splits)
    have last: "j < m" if "find (decisive verdict m api) [Suc j..<m + 1] = Some i" for i
      using that j(1) by (cases "j = m") auto
    have i: "Suc j \<le> i" if "find (decisive verdict m api) [Suc j..<m + 1] = Some i" for i
      using find_mem [OF that] by auto
    show ?thesis
    proof (cases "find (decisive verdict m api) [Suc j..<m + 1]")
      case None
      with e False IH show ?thesis unfolding j(2) by (simp add: upt_rec [of j m])
    next
      case (Some k)
      with e False IH last [OF Some] i [OF Some] show ?thesis unfolding j(2) by (simp add: upt_rec [of j k])
    qed
  qed
qed

lemma waits_sum: "sum_list (map (\<lambda>i. 2 ^ i) [0..<i]) = (2::nat) ^ i - 1"
  by (induction i) simp_all

text \<open>A cost is exact: prices have two places, and no token count comes near \<open>10 ^ 15\<close>.\<close>

lemma calculate_cost_exact:
  assumes "dict_get pricing model_id = Some (p, q)" "on_grid 2 p" "on_grid 2 q" "0 \<le> p" "p < 1000" "0 \<le> q" "q < 1000"
    "0 \<le> i" "i < 10 ^ 15" "0 \<le> u" "u < 10 ^ 15"
  shows "calculate_cost pricing model_id i u = (p * of_int i + q * of_int u) / 1000000"
proof -
  have part: "dquo (dmul r (of_int t)) 1000000 = r * of_int t / 1000000 \<and> on_grid 8 (r * of_int t / 1000000)
      \<and> 0 \<le> r * of_int t / 1000000 \<and> r * of_int t / 1000000 \<le> 10 ^ 12"
    if "on_grid 2 r" "0 \<le> r" "r < 1000" "0 \<le> t" "t < 10 ^ 15" for r t
  proof -
    have t: "of_int t \<le> (10 ^ 15 :: rat)" using that(5) by (metis of_int_less_iff of_int_numeral of_int_power order_less_imp_le)
    have b: "0 \<le> r * of_int t" "r * of_int t \<le> 1000 * 10 ^ 15"
      using that t mult_mono [of r 1000 "of_int t" "10 ^ 15 :: rat"] by auto
    have g: "on_grid 2 (r * of_int t)" using that(1) by (metis on_grid_mult_int)
    have "on_grid 4 (r * of_int t / 100)" "on_grid 6 (r * of_int t / 100 / 100)" "on_grid 8 (r * of_int t / 100 / 100 / 100)"
      using on_grid_hundredth [OF g] on_grid_hundredth [of 4 "r * of_int t / 100"] on_grid_hundredth [of 6 "r * of_int t / 100 / 100"] by simp_all
    then have g8: "on_grid 8 (r * of_int t / 1000000)" by simp
    have "fix28 (r * of_int t) = r * of_int t" "fix28 (r * of_int t / 1000000) = r * of_int t / 1000000"
      using b by (intro fix28_grid [OF g] fix28_grid [OF g8]; simp)+
    with g8 b show ?thesis by (simp add: dmul_def dquo_def)
  qed
  note P = part [OF assms(2,4,5,8,9)] and Q = part [OF assms(3,6,7,10,11)]
  have "on_grid 8 (p * of_int i / 1000000 + q * of_int u / 1000000)" using P Q by (blast intro: on_grid_add)
  then have "fix28 (p * of_int i / 1000000 + q * of_int u / 1000000) = p * of_int i / 1000000 + q * of_int u / 1000000"
    using P Q by (intro fix28_grid) auto
  then show ?thesis using assms(1) conjunct1 [OF P] conjunct1 [OF Q]
    by (simp only: calculate_cost_def dadd_def add_divide_distrib option.case prod.case)
qed

text \<open>
  The retry loop of every provider makes at most LLM_MAX_RETRIES + 1 attempts and answers as
  the first attempt that is not to be repeated, having waited 1, 2, 4, ... seconds before it; when
  there is none it raises ProviderError after waiting less than 2 to the power LLM_MAX_RETRIES seconds. The
  Anthropic and Google handlers raise nothing but ProviderError; the OpenAI handler raises
  AttributeError for an API error without a status code.
\<close>

theorem provider_retry_spec:
  "call_with_retry verdict m api = (case find (decisive verdict m api) [0..<m + 1] of
      None \<Rightarrow> (Inl (ProviderError ''max retries''), map (\<lambda>i. 2 ^ i) [0..<m])
    | Some i \<Rightarrow> (outcome_of verdict m (api i) i, map (\<lambda>i. 2 ^ i) [0..<i]))
   \<and> sum_list (snd (call_with_retry verdict m api)) < 2 ^ m
   \<and> (\<forall>e \<in> {anthropic_verdict, google_verdict}. \<forall>ex. fst (call_with_retry e m api) = Inl ex \<longrightarrow> (\<exists>t. ex = ProviderError t))
   \<and> (api 0 = Inl (Api_Error None) \<longrightarrow> fst (call_with_retry openai_verdict m api) = Inl (ExternalError ''AttributeError''))"
proof -
  have eq: "call_with_retry v m api = (case find (decisive v m api) [0..<m + 1] of
      None \<Rightarrow> (Inl (ProviderError ''max retries''), map (\<lambda>i. 2 ^ i) [0..<m])
    | Some i \<Rightarrow> (outcome_of v m (api i) i, map (\<lambda>i. 2 ^ i) [0..<i]))" for v
    unfolding call_with_retry_def by (rule retry_loop_first) simp
  have "sum_list (snd (call_with_retry verdict m api)) < 2 ^ m"
  proof (cases "find (decisive verdict m api) [0..<m + 1]")
    case None
    then show ?thesis unfolding eq by (simp add: waits_sum)
  next
    case (Some i)
    then have "i < m + 1" using find_mem [OF Some] by auto
    then have "(2::nat) ^ i \<le> 2 ^ m" by simp
    then have "(2::nat) ^ i - 1 < 2 ^ m" by (metis diff_less less_le_trans less_one zero_less_numeral zero_less_power)
    then show ?thesis unfolding eq using Some by (simp add: waits_sum del: upt_Suc)
  qed
  moreover have "\<exists>t. ex = ProviderError t" if "v \<in> {anthropic_verdict, google_verdict}" "fst (call_with_retry v m api) = Inl ex" for v ex
  proof -
    have "v b e = Try_Again \<or> (\<exists>t. v b e = Give_Up (ProviderError t))" for b e
      using that(1) by (cases e) (auto simp: anthropic_verdict_def google_verdict_def split: if_splits)
    then show ?thesis using that(2) unfolding eq
      by (auto simp: outcome_of_def split: option.splits sum.splits verdict.splits) (metis verdict.distinct(1) verdict.inject)
  qed
  moreover have "fst (call_with_retry openai_verdict m api) = Inl (ExternalError ''AttributeError'')" if "api 0 = Inl (Api_Error None)"
    using that by (simp add: call_with_retry_def upt_rec [of 0] openai_verdict_def del: upt_Suc)
  ultimately show ?thesis using eq by blast
qed

theorem provider_retry_spec_witness:
  "fst (call_with_retry anthropic_verdict 3 (\<lambda>i. if i < 2 then Inl Timeout_Error else Inr i)) = Inr 2
   \<and> fst (call_with_retry openai_verdict 3 (\<lambda>_. Inl (Api_Error None) :: client_error + nat)) = Inl (ExternalError ''AttributeError'')"
proof -
  have "fst (call_with_retry anthropic_verdict 3 (\<lambda>i. if i < 2 then Inl Timeout_Error else Inr i)) = Inr 2"
    by (simp add: call_with_retry_def anthropic_verdict_def upt_rec)
  with provider_retry_spec [where verdict = openai_verdict and m = 3 and api = "\<lambda>_. Inl (Api_Error None) :: client_error + nat"]
  show ?thesis by blast
qed

end
