(* ===== verification/Llm_Router.thy ===== *)
theory Llm_Router
  imports Llm_Provider
begin

text \<open>
  \<open>src/llm/router.py\<close>: \<open>route\<close> and \<open>route_structured\<close>, from the configuration of the agent over the
  call of its primary model and the recorded usage to the escalation of an answer with low
  confidence. What the providers answer is a parameter: the \<open>n\<close>-th call made, to that model. An
  answer is the response with its content, for \<open>route_structured\<close> the parsed object; reading its
  confidence, \<open>Decimal(str(...))\<close> included, is a parameter that may raise.
\<close>

section \<open>Providers\<close>

definition provider_names :: "string list" where
  "provider_names = [''openai'', ''google'', ''anthropic'']"

definition split_model :: "string \<Rightarrow> string \<times> string" where
  "split_model s = (takeWhile (\<lambda>c. c \<noteq> CHR ''/'') s, drop 1 (dropWhile (\<lambda>c. c \<noteq> CHR ''/'') s))"

definition parse_model_string :: "string \<Rightarrow> exc + string \<times> string" where
  "parse_model_string s = (if CHR ''/'' \<notin> set s then Inl (ProviderError ''invalid model string'')
     else if fst (split_model s) \<notin> set provider_names then Inl (ProviderError ''unknown provider'')
     else Inr (split_model s))"

text \<open>\<open>ready p\<close> is what initialising a provider raises, when it does (a missing API key).\<close>

definition get_or_create_provider :: "(string \<Rightarrow> exc option) \<Rightarrow> string \<Rightarrow> ('c llm_world, string \<times> string) meth" where
  "get_or_create_provider ready ms w = (case dict_get (lw_providers w) ms of
     Some p \<Rightarrow> (Inr p, w)
   | None \<Rightarrow> (case parse_model_string ms of
       Inl e \<Rightarrow> (Inl e, w)
     | Inr p \<Rightarrow> (case ready (fst p) of
         Some e \<Rightarrow> (Inl e, w)
       | None \<Rightarrow> (Inr p, w\<lparr>lw_providers := dict_set ms p (lw_providers w)\<rparr>))))"

type_synonym 'c models = "nat \<Rightarrow> string \<Rightarrow> exc + 'c llm_response"

definition ask :: "'c models \<Rightarrow> string \<Rightarrow> bool \<Rightarrow> ('c llm_world, 'c llm_response) meth" where
  "ask models ms esc w = (let w1 = w\<lparr>lw_asked := lw_asked w @ [(ms, esc)]\<rparr> in
     case models (length (lw_asked w)) ms of
       Inl e \<Rightarrow> (Inl e, w1) | Inr r \<Rightarrow> (Inr r, w1\<lparr>lw_answers := lw_answers w @ [(ms, esc, r)]\<rparr>))"

definition usage_call :: "string \<Rightarrow> string \<Rightarrow> string \<Rightarrow> bool \<Rightarrow> 'c llm_response \<Rightarrow> llm_call" where
  "usage_call agent provider model_id esc r = \<lparr>lc_provider = provider, lc_model = model_id, lc_agent = Some agent,
     lc_tokens_in = lr_tokens_in r, lc_tokens_out = lr_tokens_out r, lc_cost = lr_cost_usd r, lc_escalation = esc\<rparr>"

text \<open>One call of a model: the provider, its answer, the recorded usage.\<close>

definition model_call ::
  "(string \<Rightarrow> exc option) \<Rightarrow> 'c models \<Rightarrow> fault_plan \<Rightarrow> int \<Rightarrow> string \<Rightarrow> string \<Rightarrow> bool \<Rightarrow> ('c llm_world, 'c llm_response) meth" where
  "model_call ready models fl today agent ms esc =
     mbind (get_or_create_provider ready ms) (\<lambda>p.
     mbind (ask models ms esc) (\<lambda>r.
     mbind (mlift (\<lambda>_. parse_model_string ms)) (\<lambda>q.
     mbind (record_usage fl today (usage_call agent (fst q) (snd p) esc r)) (\<lambda>_. mret r))))"

section \<open>Routing\<close>

record 'c routing_result =
  rr_response :: "'c llm_response"
  rr_escalated :: bool
  rr_primary_response :: "'c llm_response option"
  rr_config :: agent_config

definition plain_result :: "agent_config \<Rightarrow> 'c llm_response \<Rightarrow> 'c routing_result" where
  "plain_result cfg r = \<lparr>rr_response = r, rr_escalated = False, rr_primary_response = None, rr_config = cfg\<rparr>"

definition escalated_result :: "agent_config \<Rightarrow> dec \<Rightarrow> 'c llm_response \<Rightarrow> 'c llm_response \<Rightarrow> dec option \<Rightarrow> 'c routing_result" where
  "escalated_result cfg x r e y = \<lparr>rr_response = (case y of None \<Rightarrow> r | Some v \<Rightarrow> if x < v then e else r),
     rr_escalated = True, rr_primary_response = Some r, rr_config = cfg\<rparr>"

text \<open>The model and the threshold, when the configuration asks for escalation at all.\<close>

definition escalation_of :: "agent_config \<Rightarrow> (string \<times> dec) option" where
  "escalation_of cfg = (case (ac_routing_mode cfg, ac_escalation_model cfg, ac_confidence_threshold cfg) of
     (ESCALATION, Some em, Some t) \<Rightarrow> if em = '''' then None else Some (em, t) | _ \<Rightarrow> None)"

type_synonym 'c confidence = "'c llm_response \<Rightarrow> exc + dec option"

definition escalate ::
  "(string \<Rightarrow> exc option) \<Rightarrow> 'c models \<Rightarrow> 'c confidence \<Rightarrow> llm_settings \<Rightarrow> fault_plan \<Rightarrow> int \<Rightarrow> string
     \<Rightarrow> agent_config \<Rightarrow> string \<Rightarrow> dec \<Rightarrow> 'c llm_response \<Rightarrow> ('c llm_world, 'c routing_result) meth" where
  "escalate ready models conf st fl today agent cfg em x r =
     mbind (get_budget_status st fl today) (\<lambda>b.
     if bs_escalation_disabled b then mret (plain_result cfg r)
     else mbind (model_call ready models fl today agent em True) (\<lambda>e.
       mbind (mlift (\<lambda>_. conf e)) (\<lambda>y. mret (escalated_result cfg x r e y))))"

definition checked_answer ::
  "(string \<Rightarrow> exc option) \<Rightarrow> 'c models \<Rightarrow> 'c confidence option \<Rightarrow> llm_settings \<Rightarrow> fault_plan \<Rightarrow> int \<Rightarrow> string
     \<Rightarrow> agent_config \<Rightarrow> 'c llm_response \<Rightarrow> ('c llm_world, 'c routing_result) meth" where
  "checked_answer ready models conf st fl today agent cfg r = (case (escalation_of cfg, conf) of
     (Some (em, t), Some cf) \<Rightarrow> mbind (mlift (\<lambda>_. cf r)) (\<lambda>x. case x of
        None \<Rightarrow> mret (plain_result cfg r)
      | Some v \<Rightarrow> if v < t then escalate ready models cf st fl today agent cfg em v r else mret (plain_result cfg r))
   | _ \<Rightarrow> mret (plain_result cfg r))"

definition route ::
  "'j config_json \<Rightarrow> yaml_file \<Rightarrow> (string \<Rightarrow> exc option) \<Rightarrow> 'c models \<Rightarrow> 'c confidence option \<Rightarrow> llm_settings
     \<Rightarrow> fault_plan \<Rightarrow> fault_plan \<Rightarrow> int \<Rightarrow> string \<Rightarrow> ('c llm_world, 'c routing_result) meth" where
  "route js yaml ready models conf st fl cfl today agent =
     mbind (get_agent_config js yaml st fl cfl agent) (\<lambda>cfg.
     if \<not> ac_is_active cfg then mraise (ProviderError ''inactive'')
     else mbind (model_call ready models fl today agent (ac_primary_model cfg) False)
       (checked_answer ready models conf st fl today agent cfg))"

text \<open>The structured form always has a confidence to read, and returns the parsed object as well.\<close>

definition route_structured ::
  "'j config_json \<Rightarrow> yaml_file \<Rightarrow> (string \<Rightarrow> exc option) \<Rightarrow> 'c models \<Rightarrow> 'c confidence \<Rightarrow> llm_settings
     \<Rightarrow> fault_plan \<Rightarrow> fault_plan \<Rightarrow> int \<Rightarrow> string \<Rightarrow> ('c llm_world, 'c \<times> 'c routing_result) meth" where
  "route_structured js yaml ready models conf st fl cfl today agent =
     mbind (route js yaml ready models (Some conf) st fl cfl today agent)
       (\<lambda>res. mret (lr_content (rr_response res), res))"

text \<open>\<open>shutdown\<close>: every provider is shut down, what one raises is caught, and all are forgotten.\<close>

definition router_shutdown :: "('c llm_world, unit) meth" where
  "router_shutdown w = (Inr (), w\<lparr>lw_providers := []\<rparr>)"

section \<open>One call of a model\<close>

definition providers_ok :: "'c llm_world \<Rightarrow> bool" where
  "providers_ok w \<longleftrightarrow> (\<forall>ms p. dict_get (lw_providers w) ms = Some p \<longrightarrow> parse_model_string ms = Inr p)"

abbreviation paid :: "int \<Rightarrow> string \<Rightarrow> string \<times> bool \<times> 'c llm_response \<Rightarrow> usage_row" where
  "paid today agent \<equiv> \<lambda>(ms, esc, r). usage_of_call today (usage_call agent (fst (split_model ms)) (snd (split_model ms)) esc r)"

lemma parse_split: "parse_model_string ms = Inr p \<Longrightarrow> p = split_model ms"
  by (simp add: parse_model_string_def split: if_splits)

lemma get_provider:
  assumes "get_or_create_provider ready ms w = (r, w')" "providers_ok w"
  shows "providers_ok w'" "lw_answers w' = lw_answers w" "lb_usage w' = lb_usage w" "lw_asked w' = lw_asked w" "\<And>p. r = Inr p \<Longrightarrow> parse_model_string ms = Inr p"
  using assms by (auto simp: get_or_create_provider_def providers_ok_def dict_simps split: option.splits sum.splits if_splits)

lemma record_usage_world:
  "record_usage fl today c w = (r, w') \<Longrightarrow> lw_answers w' = lw_answers w \<and> lw_providers w' = lw_providers w \<and> lw_asked w' = lw_asked w"
  by (auto simp: record_usage_def mcatch_def db_call_def do_upsert_def Let_def mret_def split: option.splits fault.splits sum.splits prod.splits)

text \<open>What the usage table represents after a call, with the part of the answers it counted.\<close>

definition accounts :: "fault_plan \<Rightarrow> usage_row list \<Rightarrow> usage_row list \<Rightarrow> usage_row list \<Rightarrow> usage_row list \<Rightarrow> bool" where
  "accounts fl table calls new acc \<longleftrightarrow> represents table (calls @ acc) \<and> subseq acc new
     \<and> (fl = no_faults \<and> roomy (calls @ new) \<longrightarrow> acc = new)"

lemma model_call_cases:
  assumes "model_call ready models fl today agent ms esc w = (r, w')" "providers_ok w" "represents (lb_usage w) calls"
  obtains (failed) e where "r = Inl e" "providers_ok w'" "lw_answers w' = lw_answers w" "accounts fl (lb_usage w') calls [] []"
      "lw_asked w' = lw_asked w \<or> lw_asked w' = lw_asked w @ [(ms, esc)]"
  | (answered) a acc where "r = Inr a" "providers_ok w'" "lw_answers w' = lw_answers w @ [(ms, esc, a)]"
      "lw_asked w' = lw_asked w @ [(ms, esc)]" "accounts fl (lb_usage w') calls [paid today agent (ms, esc, a)] acc"
proof -
  obtain q w1 where g: "get_or_create_provider ready ms w = (q, w1)" by fastforce
  note gp = get_provider [OF g assms(2)]
  show thesis
  proof (cases q)
    case (Inl e)
    with assms(1,3) gp(1-4) g show thesis by (intro failed) (auto simp: model_call_def mbind_def accounts_def)
  next
    case (Inr p)
    have p: "parse_model_string ms = Inr p" using gp(5) [OF Inr] .
    define w2 where "w2 = w1\<lparr>lw_asked := lw_asked w @ [(ms, esc)]\<rparr>"
    show thesis
    proof (cases "models (length (lw_asked w)) ms")
      case (Inl e)
      with assms(1,3) gp(1-4) g Inr show thesis
        by (intro failed [of e]) (auto simp: model_call_def mbind_def ask_def Let_def accounts_def providers_ok_def)
    next
      case (Inr a)
      define w3 where "w3 = w2\<lparr>lw_answers := lw_answers w @ [(ms, esc, a)]\<rparr>"
      define c where "c = usage_call agent (fst p) (snd p) esc a"
      have rep: "represents (lb_usage w3) calls" using assms(3) gp(3) by (simp add: w3_def w2_def)
      have run: "model_call ready models fl today agent ms esc w = mbind (record_usage fl today c) (\<lambda>_. mret a) w3"
        using g \<open>q = Inr p\<close> Inr p gp(2,4) by (simp add: model_call_def mbind_def ask_def mlift_def w3_def w2_def c_def)
      have paid: "paid today agent (ms, esc, a) = usage_of_call today c"
        using parse_split [OF p] by (simp add: c_def)
      obtain acc w4 where w4: "record_usage fl today c w3 = (Inr (), w4)" "accounts fl (lb_usage w4) calls [usage_of_call today c] acc"
      proof (cases "fl = no_faults \<and> roomy (calls @ [usage_of_call today c])")
        case True
        then show thesis
          using record_usage_fits [OF rep, of today c] that [of _ "[usage_of_call today c]"] by (auto simp: accounts_def)
      next
        case False
        obtain w4 where "record_usage fl today c w3 = (Inr (), w4)"
          "represents (lb_usage w4) calls \<or> represents (lb_usage w4) (calls @ [usage_of_call today c])"
          using record_usage_step [OF rep] by blast
        with that [of w4 "[]"] that [of w4 "[usage_of_call today c]"] False show thesis by (auto simp: accounts_def)
      qed
      have "r = Inr a" "w' = w4" using assms(1) run w4(1) by (auto simp: mbind_def mret_def)
      moreover have "providers_ok w4" "lw_answers w4 = lw_answers w @ [(ms, esc, a)]" "lw_asked w4 = lw_asked w @ [(ms, esc)]"
        using record_usage_world [OF w4(1)] gp(1) by (simp_all add: providers_ok_def w3_def w2_def)
      ultimately show thesis using w4(2) paid by (intro answered [of a acc]) simp_all
    qed
  qed
qed

section \<open>A routed request\<close>

lemma cache_call_world:
  "cache_call f c w = (r, w') \<Longrightarrow> lw_answers w' = lw_answers w \<and> lw_providers w' = lw_providers w \<and> lb_usage w' = lb_usage w \<and> lw_asked w' = lw_asked w"
  by (auto simp: cache_call_def split: prod.splits)

definition untouched :: "'c llm_world \<Rightarrow> (string \<times> bool \<times> 'c llm_response) list \<times> (string, string \<times> string) dict \<times> usage_row list \<times> (string \<times> bool) list" where
  "untouched w = (lw_answers w, lw_providers w, lb_usage w, lw_asked w)"

lemma stays_cache_call [stays_intros]: "stays untouched (cache_call f c)"
  by (rule staysI) (auto simp: untouched_def cache_call_def split: prod.splits)

lemma stays_db_read [stays_intros]: "stays untouched (db_call fl (mget f))"
  by (rule staysI) (auto simp: untouched_def db_call_def mget_def Let_def split: option.splits fault.splits)

lemma stays_cached_config [stays_intros]: "stays untouched (cached_config js cfl agent)"
proof (rule staysI)
  fix w r w' assume c: "cached_config js cfl agent w = (r, w')"
  show "untouched w' = untouched w"
  proof (cases "lw_cache w")
    case None
    with c show ?thesis by (simp add: cached_config_def)
  next
    case (Some d)
    let ?m = "tolerate_cache (mbind (cache_call (get_json (cj_decode js) cfl ''llm_config'' agent) d) (\<lambda>v. case v of
        None \<Rightarrow> mret None
      | Some j \<Rightarrow> mbind (mlift (\<lambda>_. cj_validate js j)) (\<lambda>cfg. mret (Some cfg)))) None"
    have "stays untouched ?m"
      unfolding tolerate_cache_def by (intro stays_intros)
    moreover have "?m w = (r, w')" using c Some by (simp add: cached_config_def)
    ultimately show ?thesis by (rule staysD)
  qed
qed

lemma stays_store_config [stays_intros]: "stays untouched (store_config js st cfl agent cfg)"
proof (rule staysI)
  fix w r w' assume c: "store_config js st cfl agent cfg w = (r, w')"
  show "untouched w' = untouched w"
  proof (cases "lw_cache w")
    case None
    with c show ?thesis by (simp add: store_config_def)
  next
    case (Some d)
    let ?m = "tolerate_cache (cache_call (set_json (cj_encode js) cfl ''llm_config'' agent (cj_dump js cfg)
        (Some (LLM_CONFIG_CACHE_TTL st))) d) ()"
    have "stays untouched ?m" unfolding tolerate_cache_def by (intro stays_intros)
    moreover have "?m w = (r, w')" using c Some by (simp add: store_config_def)
    ultimately show ?thesis by (rule staysD)
  qed
qed

lemma stays_config: "stays untouched (get_agent_config js yaml st fl cfl agent)"
  unfolding get_agent_config_def stored_agent_config_def by (intro stays_intros)

lemma stays_budget: "stays untouched (get_budget_status st fl today)"
  unfolding get_budget_status_def by (intro stays_intros)

lemma untouched_iff: "untouched w' = untouched w \<longleftrightarrow> lw_answers w' = lw_answers w \<and> lw_providers w' = lw_providers w \<and> lb_usage w' = lb_usage w \<and> lw_asked w' = lw_asked w"
  by (simp add: untouched_def)

text \<open>The budget that lets an escalation through is the one of the recorded costs.\<close>

definition under_budget :: "llm_settings \<Rightarrow> int \<Rightarrow> usage_row list \<Rightarrow> bool" where
  "under_budget st today calls \<longleftrightarrow>
     \<not> bs_escalation_disabled (budget_of st (usage_total ur_cost (\<lambda>(d, _). first_of_month today \<le> d) calls))"

lemma budget_status_result:
  assumes "get_budget_status st fl today w = (Inr b, w')" "represents (lb_usage w) calls"
  shows "bs_escalation_disabled b \<longleftrightarrow> \<not> under_budget st today calls"
proof -
  have "b = budget_of st (usage_total ur_cost (\<lambda>(d, _). first_of_month today \<le> d) (lb_usage w))"
    using assms(1) by (auto simp: get_budget_status_def mbind_def mret_def db_call_def mget_def Let_def split: option.splits fault.splits)
  then show ?thesis using represents_sums(1) [OF assms(2)] by (simp add: under_budget_def)
qed

text \<open>The result a request may have, given the configuration and the answers that were paid for.\<close>

definition chosen :: "'c confidence option \<Rightarrow> (string \<times> bool \<times> 'c llm_response) list \<Rightarrow> 'c routing_result \<Rightarrow> bool" where
  "chosen conf new res \<longleftrightarrow> (let cfg = rr_config res in ac_is_active cfg \<and>
     (\<exists>p. (new = [(ac_primary_model cfg, False, p)] \<and> res = plain_result cfg p)
        \<or> (\<exists>cf em t x e y. conf = Some cf \<and> escalation_of cfg = Some (em, t) \<and> cf p = Inr (Some x) \<and> x < t \<and> cf e = Inr y
             \<and> new = [(ac_primary_model cfg, False, p), (em, True, e)] \<and> res = escalated_result cfg x p e y)))"

text \<open>
  The calls a request may have made, given the configuration and the answers: none, the primary model, or the primary
  and then the escalation model, the latter only for a primary answer below the threshold. At
  most the last of them gave no answer.
\<close>

definition calls_of :: "(string \<times> bool \<times> 'c llm_response) list \<Rightarrow> (string \<times> bool) list" where
  "calls_of new = map (\<lambda>(ms, esc, _). (ms, esc)) new"

definition asks :: "'c confidence option \<Rightarrow> agent_config \<Rightarrow> (string \<times> bool \<times> 'c llm_response) list \<Rightarrow> (string \<times> bool) list \<Rightarrow> bool" where
  "asks conf cfg new asked \<longleftrightarrow> ac_is_active cfg \<and> calls_of new \<in> {asked, butlast asked} \<and>
     (asked = [] \<or> asked = [(ac_primary_model cfg, False)]
      \<or> (\<exists>cf em t x p rest. conf = Some cf \<and> escalation_of cfg = Some (em, t) \<and> new = (ac_primary_model cfg, False, p) # rest
           \<and> cf p = Inr (Some x) \<and> x < t \<and> asked = [(ac_primary_model cfg, False), (em, True)]))"

lemma escalate_cases:
  assumes "escalate ready models cf st fl today agent cfg em x p w = (r, w')" "providers_ok w" "represents (lb_usage w) calls"
  obtains (skipped) "lw_answers w' = lw_answers w" "providers_ok w'" "accounts fl (lb_usage w') calls [] []"
      "lw_asked w' = lw_asked w" "\<And>res. r = Inr res \<Longrightarrow> res = plain_result cfg p"
  | (unanswered) e where "lw_answers w' = lw_answers w" "providers_ok w'" "accounts fl (lb_usage w') calls [] []"
      "lw_asked w' = lw_asked w @ [(em, True)]" "under_budget st today calls" "r = Inl e"
  | (asked) e acc where "lw_answers w' = lw_answers w @ [(em, True, e)]" "providers_ok w'" "under_budget st today calls"
      "accounts fl (lb_usage w') calls [paid today agent (em, True, e)] acc" "lw_asked w' = lw_asked w @ [(em, True)]"
      "\<And>res. r = Inr res \<Longrightarrow> (\<exists>y. cf e = Inr y \<and> res = escalated_result cfg x p e y)"
  using assms(1) unfolding escalate_def
proof (cases rule: mbind_cases)
  case (raised e)
  then have "untouched w' = untouched w" using staysD [OF stays_budget] by blast
  with raised(2) assms(2,3) show thesis
    by (intro skipped) (auto simp: untouched_iff providers_ok_def accounts_def)
next
  case (returned b w1)
  have u: "lw_answers w1 = lw_answers w" "providers_ok w1" "represents (lb_usage w1) calls" "lw_asked w1 = lw_asked w"
    using staysD [OF stays_budget returned(1)] assms(2,3) by (auto simp: untouched_iff providers_ok_def)
  have b: "bs_escalation_disabled b \<longleftrightarrow> \<not> under_budget st today calls" using budget_status_result [OF returned(1) assms(3)] .
  show thesis
  proof (cases "bs_escalation_disabled b")
    case True
    with returned(2) u show thesis by (intro skipped) (auto simp: mret_def accounts_def)
  next
    case False
    from returned(2) False have "mbind (model_call ready models fl today agent em True)
        (\<lambda>e. mbind (mlift (\<lambda>_. cf e)) (\<lambda>y. mret (escalated_result cfg x p e y))) w1 = (r, w')" by simp
    then show thesis
    proof (cases rule: mbind_cases)
      case (raised e)
      from raised(1) u(2,3) show thesis
      proof (cases rule: model_call_cases)
        case (failed e')
        with raised(2) u b False show thesis by (cases "lw_asked w' = lw_asked w1") (auto intro: skipped unanswered)
      qed simp
    next
      case (returned e w2)
      have w2: "w' = w2" "\<And>res. r = Inr res \<Longrightarrow> (\<exists>y. cf e = Inr y \<and> res = escalated_result cfg x p e y)"
        using returned(2) by (auto simp: mbind_def mlift_def mret_def split: sum.splits)
      from returned(1) u(2,3) show thesis
      proof (cases rule: model_call_cases)
        case (answered a acc)
        with w2 u(1,4) b False show thesis by (intro asked [of a acc]) auto
      qed simp
    qed
  qed
qed

text \<open>
  C28: a routed request, whatever the providers answer and whatever database and cache calls fail. Of the
  configuration found for the agent, it calls the primary model at most once, and after it the escalation model at
  most once: only for an answer whose confidence is below the threshold, and only while the costs recorded this
  month are below the budget. No call is repeated, and only the last call made may be without an answer. Every answer
  given, also when the request raises, is counted at most once in the usage table, and exactly once
  when the database works and the sums fit. A result is the primary answer, or after an escalation
  the escalated answer if its confidence is higher and the primary one otherwise, and then every call made was answered.
\<close>

theorem route_accounts_and_chooses:
  assumes "route js yaml ready models conf st fl cfl today agent w = (r, w')" "providers_ok w" "represents (lb_usage w) calls"
  shows "\<exists>new asked acc. lw_answers w' = lw_answers w @ new \<and> lw_asked w' = lw_asked w @ asked \<and> providers_ok w'
    \<and> (new = [] \<and> asked = [] \<or> (\<exists>cfg. fst (get_agent_config js yaml st fl cfl agent w) = Inr cfg \<and> asks conf cfg new asked
         \<and> (\<forall>res. r = Inr res \<longrightarrow> rr_config res = cfg)))
    \<and> accounts fl (lb_usage w') calls (map (paid today agent) new) acc
    \<and> (length asked = 2 \<longrightarrow> (\<exists>first rest. acc = first @ rest \<and> length first \<le> 1 \<and> under_budget st today (calls @ first)))
    \<and> (\<forall>res. r = Inr res \<longrightarrow> chosen conf new res \<and> asked = calls_of new)"
  using assms(1) unfolding route_def
proof (cases rule: mbind_cases)
  case (raised e)
  then have "untouched w' = untouched w" using staysD [OF stays_config] by blast
  with raised(2) assms(2,3) show ?thesis
    by (intro exI [of _ "[]"]) (auto simp: untouched_iff providers_ok_def accounts_def)
next
  case (returned cfg w1)
  have found: "fst (get_agent_config js yaml st fl cfl agent w) = Inr cfg" using returned(1) by simp
  have u: "lw_answers w1 = lw_answers w" "providers_ok w1" "represents (lb_usage w1) calls" "lw_asked w1 = lw_asked w"
    using staysD [OF stays_config returned(1)] assms(2,3) by (auto simp: untouched_iff providers_ok_def)
  show ?thesis
  proof (cases "ac_is_active cfg")
    case False
    with returned(2) u show ?thesis by (intro exI [of _ "[]"]) (auto simp: mraise_def accounts_def)
  next
    case active: True
    with returned(2) have "mbind (model_call ready models fl today agent (ac_primary_model cfg) False)
        (checked_answer ready models conf st fl today agent cfg) w1 = (r, w')" by simp
    then show ?thesis
    proof (cases rule: mbind_cases)
      case (raised e)
      from raised(1) u(2,3) show ?thesis
      proof (cases rule: model_call_cases)
        case (failed e')
        then obtain asked where "asked = [] \<or> asked = [(ac_primary_model cfg, False)]" "lw_asked w' = lw_asked w @ asked"
          using u(4) by (metis append_Nil2)
        with failed u(1) raised(2) found active show ?thesis
          by (intro exI [of _ "[]"] exI [of _ asked]) (auto simp: asks_def calls_of_def)
      qed simp
    next
      case (returned p w2)
      from returned(1) u(2,3) show ?thesis
      proof (cases rule: model_call_cases)
        case (answered a acc)
        then have a: "p = a" by simp
        define new where "new = [(ac_primary_model cfg, False, p)]"
        define one where "one = [(ac_primary_model cfg, False)]"
        have new: "lw_answers w2 = lw_answers w @ new" "accounts fl (lb_usage w2) calls (map (paid today agent) new) acc"
          "lw_asked w2 = lw_asked w @ one"
          using answered(3-5) u(1,4) a by (simp_all add: new_def one_def)
        have rep: "represents (lb_usage w2) (calls @ acc)" using new(2) by (simp add: accounts_def)
        have len: "length acc \<le> 1" using new(2) by (auto simp: accounts_def new_def dest: list_emb_length)
        have asks1: "asks conf cfg new one" using active by (simp add: asks_def calls_of_def new_def one_def)
        have plain: ?thesis if "lw_answers w' = lw_answers w @ new" "providers_ok w'" "lw_asked w' = lw_asked w @ one"
            "accounts fl (lb_usage w') calls (map (paid today agent) new) acc" "\<And>res. r = Inr res \<Longrightarrow> res = plain_result cfg p"
        proof -
          have "chosen conf new (plain_result cfg p) \<and> one = calls_of new" "rr_config (plain_result cfg p) = cfg"
            using active by (simp_all add: chosen_def new_def one_def calls_of_def plain_result_def)
          then have "\<forall>res. r = Inr res \<longrightarrow> chosen conf new res \<and> one = calls_of new" "\<forall>res. r = Inr res \<longrightarrow> rr_config res = cfg"
            using that(5) by metis+
          then show ?thesis using that(1-4) asks1 found
            by (intro exI [of _ new] exI [of _ one] exI [of _ acc]) (simp add: one_def)
        qed
        show ?thesis
        proof (cases "\<exists>em t cf x. escalation_of cfg = Some (em, t) \<and> conf = Some cf \<and> cf p = Inr (Some x) \<and> x < t")
          case False
          then have "w' = w2 \<and> (\<forall>res. r = Inr res \<longrightarrow> res = plain_result cfg p)"
            using returned(2) by (auto simp: checked_answer_def mbind_def mlift_def mret_def split: option.splits sum.splits prod.splits if_splits)
          then show ?thesis using plain new answered(2) by blast
        next
          case True
          then obtain em t cf x where e: "escalation_of cfg = Some (em, t)" "conf = Some cf" "cf p = Inr (Some x)" "x < t" by blast
          define two where "two = [(ac_primary_model cfg, False), (em, True)]"
          have asks2: "asks conf cfg (new @ rest) two" if "calls_of rest \<in> {[], [(em, True)]}" for rest
            using that active e by (auto simp: asks_def calls_of_def new_def two_def)
          from returned(2) e have "escalate ready models cf st fl today agent cfg em x p w2 = (r, w')"
            by (simp add: checked_answer_def mbind_def mlift_def)
          then show ?thesis using answered(2) rep
          proof (cases rule: escalate_cases)
            case skipped
            then have "accounts fl (lb_usage w') calls (map (paid today agent) new) acc"
              using new(2) by (simp add: accounts_def)
            with skipped new(1,3) show ?thesis by (intro plain) simp_all
          next
            case (unanswered e')
            then have "accounts fl (lb_usage w') calls (map (paid today agent) new) acc" "lw_asked w' = lw_asked w @ two"
              "lw_answers w' = lw_answers w @ new"
              using new by (simp_all add: accounts_def one_def two_def)
            with unanswered(2,5,6) asks2 [of "[]"] found len show ?thesis
              by (intro exI [of _ new] exI [of _ two] exI [of _ acc]) (auto simp: calls_of_def)
          next
            case (asked e' acc')
            define new' where "new' = new @ [(em, True, e')]"
            have "accounts fl (lb_usage w') calls (map (paid today agent) new') (acc @ acc')"
              using new(2) asked(4) roomy_prefix [of "calls @ map (paid today agent) new" "[paid today agent (em, True, e')]"]
              by (auto simp: accounts_def new'_def list_emb_append_mono)
            moreover have "lw_answers w' = lw_answers w @ new'" using new(1) asked(1) by (simp add: new'_def)
            moreover have "lw_asked w' = lw_asked w @ two" using new(3) asked(5) by (simp add: one_def two_def)
            moreover have "asks conf cfg new' two" unfolding new'_def by (rule asks2) (simp add: calls_of_def)
            moreover have "chosen conf new' res \<and> two = calls_of new'" "rr_config res = cfg" if "r = Inr res" for res
              using asked(6) [OF that] e active
              by (auto simp: chosen_def Let_def new'_def new_def two_def calls_of_def escalated_result_def)
            ultimately show ?thesis using asked(2,3) len found
              by (intro exI [of _ new'] exI [of _ two] exI [of _ "acc @ acc'"]) auto
          qed
        qed
      qed simp
    qed
  qed
qed

text \<open>An escalation that fails loses the primary answer, although that one was paid for.\<close>

lemma escalation_failure_raises:
  assumes "get_agent_config js yaml st fl cfl agent w = (Inr cfg, w1)" "ac_is_active cfg"
    "model_call ready models fl today agent (ac_primary_model cfg) False w1 = (Inr p, w2)"
    "escalation_of cfg = Some (em, t)" "cf p = Inr (Some x)" "x < t"
    "get_budget_status st fl today w2 = (Inr b, w3)" "\<not> bs_escalation_disabled b"
    "model_call ready models fl today agent em True w3 = (Inl e, w4)"
  shows "route js yaml ready models (Some cf) st fl cfl today agent w = (Inl e, w4)"
  using assms by (simp add: route_def checked_answer_def escalate_def mbind_def mlift_def)

section \<open>A sample request\<close>

definition analyst_config :: config_row where
  "analyst_config = \<lparr>cf_agent_type = ''stock_analyst'', cf_routing_mode = ''escalation'', cf_primary_model = ''google/gemini-3-flash-preview'',
     cf_escalation_model = Some ''openai/gpt-4o'', cf_confidence_threshold = Some (3 / 5), cf_is_active = True, cf_updated_by = ''system''\<rparr>"

definition analyst_world :: "dec llm_world" where
  "analyst_world = \<lparr>lb_calls = 0, lb_usage = [], lw_configs = [analyst_config], lw_cache = None, lw_providers = [], lw_asked = [], lw_answers = []\<rparr>"

definition sample_models :: "dec models" where
  "sample_models n ms = Inr \<lparr>lr_content = (if n = 0 then 1 / 2 else 9 / 10), lr_model = snd (split_model ms),
     lr_provider = fst (split_model ms), lr_tokens_in = 1000, lr_tokens_out = 100, lr_cost_usd = 1\<rparr>"

definition content_confidence :: "dec confidence" where
  "content_confidence r = Inr (Some (lr_content r))"

lemma year_and_day_739000: "year_and_day 739000 = (2024, 114)"
  by code_simp

lemma sample_route:
  obtains w' res where "route sample_json (Inr []) (\<lambda>_. None) sample_models (Some content_confidence) default_llm_settings
      no_faults no_faults 739000 ''stock_analyst'' analyst_world = (Inr res, w')"
    "rr_escalated res" "lr_content (rr_response res) = 9 / 10"
proof -
  have cfg: "get_agent_config sample_json (Inr []) default_llm_settings no_faults no_faults ''stock_analyst'' analyst_world =
     (Inr \<lparr>ac_agent_type = ''stock_analyst'', ac_routing_mode = ESCALATION, ac_primary_model = ''google/gemini-3-flash-preview'',
       ac_escalation_model = Some ''openai/gpt-4o'', ac_confidence_threshold = Some (3 / 5), ac_is_active = True, ac_updated_by = ''system''\<rparr>,
      analyst_world\<lparr>lb_calls := 1\<rparr>)"
    by (simp add: get_agent_config_def cached_config_def stored_agent_config_def store_config_def meth_defs analyst_world_def find_config_def
        analyst_config_def mk_agent_config_def agent_types_def)
  have num: "numeric6 1 = 1" by (simp add: numeric6_def dec_eval)
  have ymd: "first_of_month 739000 = 738977" by (simp add: first_of_month_def day_of_def ord2ymd_def year_and_day_739000 month_of_def days_before_month_def is_leap_def)
  have parse: "parse_model_string ''google/gemini-3-flash-preview'' = Inr (''google'', ''gemini-3-flash-preview'')"
    "parse_model_string ''openai/gpt-4o'' = Inr (''openai'', ''gpt-4o'')"
    by (simp_all add: parse_model_string_def split_model_def provider_names_def)
  have budget: "dmul (dquo 1 100) 100 = 1" by (simp add: dec_eval)
  define w1 where "w1 = analyst_world\<lparr>lb_calls := 1\<rparr>"
  define run where "run = route sample_json (Inr []) (\<lambda>_. None) sample_models (Some content_confidence) default_llm_settings
      no_faults no_faults 739000 ''stock_analyst'' analyst_world"
  have "\<exists>w' res. run = (Inr res, w') \<and> rr_escalated res \<and> lr_content (rr_response res) = 9 / 10"
    unfolding run_def route_def mbind_def cfg
    by (simp add: model_call_def mbind_def get_or_create_provider_def parse analyst_world_def ask_def sample_models_def mlift_def
        record_usage_def mcatch_def do_upsert_def upsert_def usage_call_def usage_of_call_def num row_fits_def int4_def effective_agent_def
        mret_def checked_answer_def escalation_of_def content_confidence_def escalate_def get_budget_status_def mget_def
        usage_total_def usage_key_def ymd budget_of_def default_llm_settings_def default_settings_def settings.defs llm_settings.defs
        budget escalated_result_def add_usage_def Let_def)
  then show thesis using that unfolding run_def by blast
qed

theorem route_accounts_and_chooses_witness:
  "\<exists>w' res new. route sample_json (Inr []) (\<lambda>_. None) sample_models (Some content_confidence) default_llm_settings
       no_faults no_faults 739000 ''stock_analyst'' analyst_world = (Inr res, w')
     \<and> lw_answers w' = new \<and> lw_asked w' = calls_of new \<and> length new = 2 \<and> chosen (Some content_confidence) new res
     \<and> rr_escalated res \<and> lr_content (rr_response res) = 9 / 10"
proof -
  obtain w' res where r: "route sample_json (Inr []) (\<lambda>_. None) sample_models (Some content_confidence) default_llm_settings
      no_faults no_faults 739000 ''stock_analyst'' analyst_world = (Inr res, w')"
    "rr_escalated res" "lr_content (rr_response res) = 9 / 10" using sample_route .
  have "providers_ok analyst_world" "represents (lb_usage analyst_world) []" "lw_answers analyst_world = []" "lw_asked analyst_world = []"
    by (simp_all add: providers_ok_def analyst_world_def represents_empty)
  with route_accounts_and_chooses [OF r(1), where calls = "[]"]
  obtain new where new: "lw_answers w' = new" "lw_asked w' = calls_of new" "chosen (Some content_confidence) new res" by auto
  have "res \<noteq> plain_result cfg p" for cfg p using r(2) by (auto simp: plain_result_def)
  with new(3) have "length new = 2" by (auto simp: chosen_def Let_def)
  with r new show ?thesis by blast
qed

end
