(* ===== verification/Monitor.thy ===== *)
theory Monitor
  imports Redis_Cache Cost_Tracker Telegram
begin

text \<open>
  \<open>src/scheduler/monitor.py\<close>: the four checks of the trading monitor, their alerts and the keys in
  the cache that keep an alert from being sent twice a day. Every account has a monitor of its own, run by the account's
  stop-loss job, which the scheduler's trigger never starts twice at a time (\<open>max_instances=1\<close>). A job started by hand
  (\<open>run_job_now\<close>) while the scheduled one runs is not held back by that and is not covered here: the
  runs of one account's monitor are taken one after the other. The jobs of
  different accounts run concurrently on the one cache, so whenever a monitor waits for the cache, the
  others may write to it. The clock stands still within a run: a run over midnight is not covered. What the checks read (the open
  positions, prices, the portfolio's state, the budget) is given to a run as the results of those
  calls; \<open>monitor_env\<close> collects them, and \<open>wired_env\<close> takes them from the modelled components. The
  texts of the messages are not modelled.
\<close>

section \<open>Dates as strings\<close>

definition digits :: "nat \<Rightarrow> nat \<Rightarrow> string" where
  "digits w n = map (\<lambda>i. digit_char (n div 10 ^ (w - 1 - i) mod 10)) [0..<w]"

definition iso_date :: "int \<Rightarrow> string" where
  "iso_date d = digits 4 (nat (year_of d)) @ ''-'' @ digits 2 (nat (month_in_year d)) @ ''-'' @ digits 2 (nat (day_of d))"

section \<open>State\<close>

datatype alert_type = STOP_LOSS_PROXIMITY | SECTOR_CONCENTRATION | LLM_BUDGET | PORTFOLIO_DRAWDOWN

record alert =
  al_type :: alert_type
  al_symbol :: "string option"
  al_current :: dec
  al_threshold :: dec

text \<open>
  \<open>TelegramBot.send_message\<close> delivers, or answers None (the bot is disabled, or the service refused
  and the error was logged), or lets another exception through. \<open>mo_handled\<close> lists the alerts whose
  sending did not raise, with their keys; \<open>mo_delivered\<close> those that arrived. \<open>mo_others n\<close> are the
  keys the monitors of other accounts mark while this one waits for its \<open>n\<close>-th cache command; reading is the only
  other thing they do there.
\<close>

datatype send_outcome = Delivered | Dropped | Raised exc

record monitor =
  mo_cache :: redis
  mo_sends :: nat
  mo_handled :: "(string \<times> alert) list"
  mo_delivered :: "(string \<times> alert) list"
  mo_others :: "nat \<Rightarrow> string list"

record monitor_env =
  me_positions :: "exc + position_record list"
  me_price :: "symbol \<Rightarrow> exc + dec"
  me_sector_state :: "exc + portfolio_state"
  me_drawdown_state :: "exc + portfolio_state"
  me_budget :: "exc + budget_status"

definition others_mark :: "string list \<Rightarrow> redis \<Rightarrow> redis" where
  "others_mark ks c = fold (\<lambda>k. rd_write ''alert'' k ''1'' 86400) ks c"

definition cache_now :: "monitor \<Rightarrow> redis" where
  "cache_now s = others_mark (mo_others s (rd_calls (mo_cache s))) (mo_cache s)"

definition with_cache :: "(redis, 'a) meth \<Rightarrow> (monitor, 'a) meth" where
  "with_cache f s = (case f (cache_now s) of (r, c) \<Rightarrow> (r, s\<lparr>mo_cache := c\<rparr>))"

section \<open>Sending\<close>

definition is_alert_sent_today :: "fault_plan \<Rightarrow> string \<Rightarrow> (monitor, bool) meth" where
  "is_alert_sent_today cfl key = mcatch (mbind (with_cache (rc_get cfl ''alert'' key)) (\<lambda>v. mret (v \<noteq> None))) (\<lambda>_. mret False)"

definition mark_alert_sent :: "fault_plan \<Rightarrow> string \<Rightarrow> (monitor, unit) meth" where
  "mark_alert_sent cfl key = mcatch (with_cache (rc_set cfl ''alert'' key ''1'' (Some 86400))) (\<lambda>_. mret ())"

definition send_alert :: "(nat \<Rightarrow> send_outcome) \<Rightarrow> string \<Rightarrow> alert \<Rightarrow> (monitor, unit) meth" where
  "send_alert tg key a s = (let s1 = s\<lparr>mo_sends := mo_sends s + 1\<rparr> in
     case tg (mo_sends s) of
       Raised e \<Rightarrow> (Inl e, s1)
     | Dropped \<Rightarrow> (Inr (), s1\<lparr>mo_handled := mo_handled s @ [(key, a)]\<rparr>)
     | Delivered \<Rightarrow> (Inr (), s1\<lparr>mo_handled := mo_handled s @ [(key, a)], mo_delivered := mo_delivered s @ [(key, a)]\<rparr>))"

definition emit_alert :: "(nat \<Rightarrow> send_outcome) \<Rightarrow> fault_plan \<Rightarrow> string \<Rightarrow> alert \<Rightarrow> (monitor, unit) meth" where
  "emit_alert tg cfl key a = mbind (send_alert tg key a) (\<lambda>_. mark_alert_sent cfl key)"

text \<open>An alert that is due: nothing when its key is in the cache.\<close>

definition alert_once :: "(nat \<Rightarrow> send_outcome) \<Rightarrow> fault_plan \<Rightarrow> string \<Rightarrow> alert \<Rightarrow> (monitor, alert list) meth" where
  "alert_once tg cfl key a = mbind (is_alert_sent_today cfl key) (\<lambda>sent.
     if sent then mret [] else mbind (emit_alert tg cfl key a) (\<lambda>_. mret [a]))"

section \<open>The checks\<close>

definition stop_loss_key :: "string \<Rightarrow> symbol \<Rightarrow> int \<Rightarrow> string" where
  "stop_loss_key account s today = ''stop_loss_proximity:'' @ account @ '':'' @ s @ '':'' @ iso_date today"

definition distance_pct :: "dec \<Rightarrow> dec \<Rightarrow> dec" where
  "distance_pct current stop = dmul (dquo (dsub current stop) current) 100"

definition check_position :: "(nat \<Rightarrow> send_outcome) \<Rightarrow> fault_plan \<Rightarrow> llm_settings \<Rightarrow> string \<Rightarrow> int \<Rightarrow> monitor_env \<Rightarrow> position_record \<Rightarrow> (monitor, alert list) meth" where
  "check_position tg cfl st account today env p =
     (if pr_stop_loss_price p \<le> 0 then mret []
      else mbind (is_alert_sent_today cfl (stop_loss_key account (pr_symbol p) today)) (\<lambda>sent.
        if sent then mret []
        else case me_price env (pr_symbol p) of
          Inl _ \<Rightarrow> mret []
        | Inr current \<Rightarrow>
            if current \<le> 0 then mret []
            else if distance_pct current (pr_stop_loss_price p) \<le> MONITOR_STOP_LOSS_PROXIMITY_PCT st then
              let a = \<lparr>al_type = STOP_LOSS_PROXIMITY, al_symbol = Some (pr_symbol p),
                       al_current = distance_pct current (pr_stop_loss_price p), al_threshold = MONITOR_STOP_LOSS_PROXIMITY_PCT st\<rparr>
              in mbind (emit_alert tg cfl (stop_loss_key account (pr_symbol p) today) a) (\<lambda>_. mret [a])
            else mret []))"

text \<open>The loop that gathers the alerts; when its body raises, those before are sent but not returned.\<close>

primrec gather :: "('x \<Rightarrow> ('s, 'a list) meth) \<Rightarrow> 'x list \<Rightarrow> ('s, 'a list) meth" where
  "gather f [] = mret []"
| "gather f (x # xs) = mbind (f x) (\<lambda>as. mbind (gather f xs) (\<lambda>bs. mret (as @ bs)))"

definition check_stop_loss_proximity where
  "check_stop_loss_proximity tg cfl st account today env =
     mbind (mlift (\<lambda>_. me_positions env)) (gather (check_position tg cfl st account today env))"

definition sector_key :: "string \<Rightarrow> string \<Rightarrow> int \<Rightarrow> string" where
  "sector_key account sector today = ''sector_concentration:'' @ account @ '':'' @ sector @ '':'' @ iso_date today"

definition check_sector :: "(nat \<Rightarrow> send_outcome) \<Rightarrow> fault_plan \<Rightarrow> llm_settings \<Rightarrow> string \<Rightarrow> int \<Rightarrow> string \<times> dec \<Rightarrow> (monitor, alert list) meth" where
  "check_sector tg cfl st account today = (\<lambda>(sector, allocation).
     if allocation \<le> MONITOR_SECTOR_WEIGHT_WARN_PCT st then mret []
     else alert_once tg cfl (sector_key account sector today)
       \<lparr>al_type = SECTOR_CONCENTRATION, al_symbol = Some sector, al_current = allocation, al_threshold = MONITOR_SECTOR_WEIGHT_WARN_PCT st\<rparr>)"

definition check_sector_concentration_alert where
  "check_sector_concentration_alert tg cfl st account today env =
     mbind (mlift (\<lambda>_. me_sector_state env)) (\<lambda>state. gather (check_sector tg cfl st account today) (ps_sector_allocations state))"

definition check_llm_budget :: "(nat \<Rightarrow> send_outcome) \<Rightarrow> fault_plan \<Rightarrow> llm_settings \<Rightarrow> int \<Rightarrow> monitor_env \<Rightarrow> (monitor, alert list) meth" where
  "check_llm_budget tg cfl st today env = mbind (mlift (\<lambda>_. me_budget env)) (\<lambda>b.
     if bs_usage_percent b < MONITOR_LLM_BUDGET_WARN_PCT st then mret []
     else alert_once tg cfl (''llm_budget:monthly:'' @ iso_date today)
       \<lparr>al_type = LLM_BUDGET, al_symbol = None, al_current = bs_usage_percent b, al_threshold = MONITOR_LLM_BUDGET_WARN_PCT st\<rparr>)"

definition check_portfolio_drawdown :: "(nat \<Rightarrow> send_outcome) \<Rightarrow> fault_plan \<Rightarrow> llm_settings \<Rightarrow> string \<Rightarrow> int \<Rightarrow> monitor_env \<Rightarrow> (monitor, alert list) meth" where
  "check_portfolio_drawdown tg cfl st account today env = mbind (mlift (\<lambda>_. me_drawdown_state env)) (\<lambda>state.
     if ps_drawdown_pct state < MAX_DRAWDOWN_PCT st then mret []
     else alert_once tg cfl (''portfolio_drawdown:'' @ account @ '':portfolio:'' @ iso_date today)
       \<lparr>al_type = PORTFOLIO_DRAWDOWN, al_symbol = None, al_current = ps_drawdown_pct state, al_threshold = MAX_DRAWDOWN_PCT st\<rparr>)"

text \<open>One check after the other; what a check raises is logged.\<close>

primrec run_checks :: "('s, 'a list) meth list \<Rightarrow> ('s, 'a list) meth" where
  "run_checks [] = mret []"
| "run_checks (c # cs) = mbind (mcatch c (\<lambda>_. mret [])) (\<lambda>as. mbind (run_checks cs) (\<lambda>bs. mret (as @ bs)))"

definition check_all :: "(nat \<Rightarrow> send_outcome) \<Rightarrow> fault_plan \<Rightarrow> llm_settings \<Rightarrow> string \<Rightarrow> int \<Rightarrow> monitor_env \<Rightarrow> (monitor, alert list) meth" where
  "check_all tg cfl st account today env = run_checks
     [check_stop_loss_proximity tg cfl st account today env, check_sector_concentration_alert tg cfl st account today env,
      check_llm_budget tg cfl st today env, check_portfolio_drawdown tg cfl st account today env]"

section \<open>The components behind the reads\<close>

definition wired_env ::
  "services \<Rightarrow> string \<Rightarrow> datetime \<Rightarrow> exc + account_balance \<Rightarrow> exc + position list \<Rightarrow> (symbol \<Rightarrow> exc + dec) \<Rightarrow> position_table
     \<Rightarrow> snapshot_table \<Rightarrow> sector_cache \<Rightarrow> llm_settings \<Rightarrow> llm_db \<Rightarrow> monitor_env" where
  "wired_env sv account now bal ps price pt tab sectors st db =
     (let state = (\<lambda>c. get_current_state sv account now bal ps tab pt c);
          first = state sectors;
          second = (case first of Inl _ \<Rightarrow> state sectors | Inr (_, c) \<Rightarrow> state c)
      in \<lparr>me_positions = pm_get_open True None (Some account) pt, me_price = price,
          me_sector_state = (case first of Inl e \<Rightarrow> Inl e | Inr (s, _) \<Rightarrow> Inr s),
          me_drawdown_state = (case second of Inl e \<Rightarrow> Inl e | Inr (s, _) \<Rightarrow> Inr s),
          me_budget = fst (get_budget_status st no_faults (fst now) db)\<rparr>)"

section \<open>Runs\<close>

text \<open>Seconds since the epoch of the ordinals; the local clock is \<open>tz\<close> seconds ahead.\<close>

definition local_date :: "int \<Rightarrow> monitor \<Rightarrow> int" where
  "local_date tz s = (rd_now (mo_cache s) + tz) div 86400"

text \<open>Time passes between the runs of an account's monitor, and the other accounts' monitors mark their keys.\<close>

definition pass_time :: "nat \<Rightarrow> string list \<Rightarrow> monitor \<Rightarrow> monitor" where
  "pass_time d ks s = s\<lparr>mo_cache := others_mark ks (rd_advance (int d) (mo_cache s))\<rparr>"

datatype monitor_step = Passes nat "string list" | Runs monitor_env

primrec monitor_runs :: "(nat \<Rightarrow> send_outcome) \<Rightarrow> fault_plan \<Rightarrow> llm_settings \<Rightarrow> int \<Rightarrow> string \<Rightarrow> monitor_step list \<Rightarrow> (monitor, alert list) meth" where
  "monitor_runs tg cfl st tz account [] s = (Inr [], s)"
| "monitor_runs tg cfl st tz account (x # xs) s = (case x of
     Passes d ks \<Rightarrow> monitor_runs tg cfl st tz account xs (pass_time d ks s)
   | Runs env \<Rightarrow> mbind (check_all tg cfl st account (local_date tz s) env)
       (\<lambda>as. mbind (monitor_runs tg cfl st tz account xs) (\<lambda>bs. mret (as @ bs))) s)"

primrec dates_ok :: "int \<Rightarrow> int \<Rightarrow> monitor_step list \<Rightarrow> bool" where
  "dates_ok tz now [] = True"
| "dates_ok tz now (x # xs) = (case x of Passes d ks \<Rightarrow> dates_ok tz (now + int d) xs
   | Runs env \<Rightarrow> (let y = year_of ((now + tz) div 86400) in 1 \<le> y \<and> y \<le> 9999 \<and> dates_ok tz now xs))"

section \<open>Every run returns\<close>

lemma run_checks_returns: "\<exists>as. fst (run_checks cs s) = Inr as"
proof (induction cs arbitrary: s)
  case (Cons c cs)
  obtain r s1 where c: "c s = (r, s1)" by fastforce
  then have "\<exists>as. mcatch c (\<lambda>_. mret []) s = (Inr as, s1)" by (cases r) (simp_all add: mcatch_def mret_def)
  with Cons [of s1] show ?case by (auto simp: mbind_def mret_def split: prod.split sum.split)
qed (simp add: mret_def)

lemma check_all_returns: "\<exists>as. fst (check_all tg cfl st account today env s) = Inr as"
  unfolding check_all_def by (rule run_checks_returns)

lemma monitor_runs_returns: "\<exists>as. fst (monitor_runs tg cfl st tz account xs s) = Inr as"
proof (induction xs arbitrary: s)
  case (Cons x xs)
  show ?case
  proof (cases x)
    case (Passes d ks)
    then show ?thesis using Cons by simp
  next
    case (Runs env)
    obtain as s2 where c: "check_all tg cfl st account (local_date tz s) env s = (Inr as, s2)"
      using check_all_returns [of tg cfl st account "local_date tz s" env s] by (metis prod.collapse)
    obtain bs s3 where "monitor_runs tg cfl st tz account xs s2 = (Inr bs, s3)" using Cons [of s2] by (metis prod.collapse)
    with c Runs show ?thesis by (simp add: mbind_def mret_def)
  qed
qed simp

section \<open>Keys end with their date\<close>

lemma digit_char_inj: "a < 10 \<Longrightarrow> b < 10 \<Longrightarrow> digit_char a = digit_char b \<longleftrightarrow> a = b"
  by (metis digit_of_char option.inject)

lemma digits_inj:
  assumes "digits w m = digits w n" "m < 10 ^ w" "n < 10 ^ w" shows "m = n"
  using assms
proof (induction w arbitrary: m n)
  case (Suc w)
  have digit: "m div 10 ^ (w - i) mod 10 = n div 10 ^ (w - i) mod 10" if "i \<le> w" for i
  proof -
    have "digits (Suc w) m ! i = digits (Suc w) n ! i" using Suc.prems(1) by simp
    then show ?thesis using that by (simp add: digits_def digit_char_inj del: upt_Suc)
  qed
  have "digits w (m div 10) = digits w (n div 10)"
  proof (rule nth_equalityI)
    fix i assume "i < length (digits w (m div 10))"
    then have i: "i < w" by (simp add: digits_def)
    have "k div 10 div 10 ^ (w - 1 - i) = k div 10 ^ (w - i)" for k :: nat
      using i by (simp add: div_mult2_eq [symmetric] power_Suc [symmetric] Suc_diff_Suc del: power_Suc)
    then show "digits w (m div 10) ! i = digits w (n div 10) ! i" using digit [of i] i by (simp add: digits_def)
  qed (simp add: digits_def)
  moreover have "m div 10 < 10 ^ w" "n div 10 < 10 ^ w" using Suc.prems by (simp_all add: less_mult_imp_div_less mult.commute)
  ultimately have "m div 10 = n div 10" by (rule Suc.IH)
  moreover have "m mod 10 = n mod 10" using digit [of w] by simp
  ultimately show ?case by (metis div_mult_mod_eq)
qed simp

definition dated :: "int \<Rightarrow> bool" where
  "dated d \<longleftrightarrow> 1 \<le> year_of d \<and> year_of d \<le> 9999"

lemma length_digits [simp]: "length (digits w n) = w"
  by (simp add: digits_def)

lemma iso_date_length [simp]: "length (iso_date d) = 10"
  by (simp add: iso_date_def)

lemma iso_date_inj:
  assumes "iso_date a = iso_date b" "dated a" "dated b" shows "a = b"
proof -
  have e: "digits 4 (nat (year_of a)) = digits 4 (nat (year_of b))" "digits 2 (nat (month_in_year a)) = digits 2 (nat (month_in_year b))"
    "digits 2 (nat (day_of a)) = digits 2 (nat (day_of b))"
    using assms(1) by (simp_all add: iso_date_def append_eq_append_conv)
  have d: "day_of x \<le> 31" for x using day_of_range(2) [of x] by (simp add: days_in_month_def split: if_splits)
  have "nat (year_of a) = nat (year_of b)" using e(1) assms(2,3) by (intro digits_inj [of 4]) (simp_all add: dated_def nat_less_iff)
  moreover have "nat (month_in_year a) = nat (month_in_year b)"
    using e(2) month_in_year_range [of a] month_in_year_range [of b] by (intro digits_inj [of 2]) (simp_all add: nat_less_iff)
  moreover have "nat (day_of a) = nat (day_of b)"
    using e(3) day_of_range(1) [of a] day_of_range(1) [of b] d [of a] d [of b] by (intro digits_inj [of 2]) (simp_all add: nat_less_iff)
  ultimately have "year_of a = year_of b \<and> month_in_year a = month_in_year b \<and> day_of a = day_of b"
    using assms(2,3) month_in_year_range(1) [of a] month_in_year_range(1) [of b] day_of_range(1) [of a] day_of_range(1) [of b]
    unfolding dated_def by (metis eq_nat_nat_iff order_trans zero_le_one)
  then show ?thesis using ymd_of [of a] ymd_of [of b] by metis
qed

lemma dated_suffix: "p @ iso_date a = q @ iso_date b \<Longrightarrow> dated a \<Longrightarrow> dated b \<Longrightarrow> a = b"
  by (rule iso_date_inj) simp_all

section \<open>What the other monitors do\<close>

lemma write_entry:
  "0 < ttl \<Longrightarrow> dict_get (rd_data (rd_write n k v ttl c)) x = (if x = make_key n k then Some (v, Some (rd_now c + ttl)) else dict_get (rd_data c) x)"
  by (simp add: rd_write_def rd_store_def dict_simps)

lemma rd_write_same [simp]: "rd_now (rd_write n k v ttl c) = rd_now c" "rd_calls (rd_write n k v ttl c) = rd_calls c"
  by (simp_all add: rd_write_def rd_store_def)

lemma others_mark_same [simp]: "rd_now (others_mark ks c) = rd_now c" "rd_calls (others_mark ks c) = rd_calls c"
  unfolding others_mark_def by (induction ks arbitrary: c) simp_all

lemma cache_now_same [simp]: "rd_now (cache_now s) = rd_now (mo_cache s)" "rd_calls (cache_now s) = rd_calls (mo_cache s)"
  by (simp_all add: cache_now_def)

text \<open>An entry that outlives a date keeps doing so when it, or any other, is marked on that date or later.\<close>

definition outlives :: "int \<Rightarrow> int \<Rightarrow> redis \<Rightarrow> string \<Rightarrow> bool" where
  "outlives tz d c k \<longleftrightarrow> (\<exists>v e. dict_get (rd_data c) (make_key ''alert'' k) = Some (v, Some e) \<and> d < (e + tz) div 86400)"

lemma outlives_mark:
  assumes "d \<le> (rd_now c + tz) div 86400" "outlives tz d c k \<or> k = k'"
  shows "outlives tz d (rd_write ''alert'' k' ''1'' 86400 c) k"
proof -
  have "(rd_now c + 86400 + tz) div 86400 = (rd_now c + tz) div 86400 + 1"
    using div_add_self2 [of 86400 "rd_now c + tz"] by (simp add: algebra_simps)
  with assms show ?thesis unfolding outlives_def by (cases "make_key ''alert'' k = make_key ''alert'' k'") (auto simp: write_entry make_key_def)
qed

lemma outlives_others: "d \<le> (rd_now c + tz) div 86400 \<Longrightarrow> outlives tz d c k \<Longrightarrow> outlives tz d (others_mark ks c) k"
  unfolding others_mark_def by (induction ks arbitrary: c) (simp_all add: outlives_mark)

lemma lookup_others: "rd_lookup c (make_key ''alert'' k) \<noteq> None \<Longrightarrow> rd_lookup (others_mark ks c) (make_key ''alert'' k) \<noteq> None"
  unfolding others_mark_def
proof (induction ks arbitrary: c)
  case (Cons x ks)
  have "rd_lookup (rd_write ''alert'' x ''1'' 86400 c) (make_key ''alert'' k) \<noteq> None"
    using Cons.prems by (auto simp: rd_lookup_def write_entry alive_def split: option.splits if_splits)
  with Cons.IH show ?case by simp
qed simp

section \<open>Each key once\<close>

text \<open>Every key that was handled has an entry that outlives the day in its name.\<close>

definition marked :: "int \<Rightarrow> monitor \<Rightarrow> string \<Rightarrow> bool" where
  "marked tz s k \<longleftrightarrow> (\<exists>p d. k = p @ iso_date d \<and> dated d \<and> d \<le> local_date tz s \<and> outlives tz d (mo_cache s) k)"

definition once_ok :: "int \<Rightarrow> monitor \<Rightarrow> bool" where
  "once_ok tz s \<longleftrightarrow> distinct (map fst (mo_handled s)) \<and> set (mo_delivered s) \<subseteq> set (mo_handled s)
     \<and> (\<forall>k \<in> fst ` set (mo_handled s). marked tz s k)"

definition on_date :: "int \<Rightarrow> int \<Rightarrow> monitor \<Rightarrow> bool" where
  "on_date tz today s \<longleftrightarrow> once_ok tz s \<and> local_date tz s = today"

lemma marked_others:
  assumes "marked tz s k" "c = (others_mark ks (mo_cache s))\<lparr>rd_calls := n\<rparr>" shows "marked tz (s\<lparr>mo_cache := c\<rparr>) k"
proof -
  from assms(1) obtain p d where k: "k = p @ iso_date d" "dated d" "d \<le> (rd_now (mo_cache s) + tz) div 86400" "outlives tz d (mo_cache s) k"
    by (auto simp: marked_def local_date_def)
  moreover have "outlives tz d c k" using outlives_others [OF k(3,4), of ks] by (simp add: assms(2) outlives_def)
  ultimately show ?thesis unfolding marked_def using assms(2) by (intro exI [of _ p] exI [of _ d]) (simp add: local_date_def)
qed

lemma marked_cache: "mo_cache s' = mo_cache s \<Longrightarrow> marked tz s' k = marked tz s k"
  by (simp add: marked_def local_date_def)

lemma on_date_others:
  assumes "on_date tz today s" "c = (others_mark ks (mo_cache s))\<lparr>rd_calls := n\<rparr>" shows "on_date tz today (s\<lparr>mo_cache := c\<rparr>)"
  using assms marked_others [OF _ assms(2)] by (auto simp: on_date_def once_ok_def local_date_def)

definition called :: "monitor \<Rightarrow> redis" where
  "called s = (cache_now s)\<lparr>rd_calls := rd_calls (mo_cache s) + 1\<rparr>"

lemma on_date_called: "on_date tz today s \<Longrightarrow> on_date tz today (s\<lparr>mo_cache := called s\<rparr>)"
  by (rule on_date_others) (simp_all add: called_def cache_now_def)

lemma sent_today_eq:
  "is_alert_sent_today no_faults key s = (Inr (rd_lookup (called s) (make_key ''alert'' key) \<noteq> None), s\<lparr>mo_cache := called s\<rparr>)"
  by (simp add: is_alert_sent_today_def with_cache_def rc_get_def meth_defs called_def)

lemma mark_no_faults:
  "mark_alert_sent no_faults key s = (Inr (), s\<lparr>mo_cache := rd_write ''alert'' key ''1'' 86400 (called s)\<rparr>)"
  by (simp add: mark_alert_sent_def with_cache_def rc_set_def rd_store_def rd_write_def meth_defs called_def)

lemma sent_today_no_faults:
  assumes "is_alert_sent_today no_faults key s = (r, s')" "on_date tz today s"
  obtains sent where "r = Inr sent" "on_date tz today s'" "sent \<longleftrightarrow> rd_lookup (mo_cache s') (make_key ''alert'' key) \<noteq> None"
  using assms on_date_called [OF assms(2)] by (auto simp: sent_today_eq)

lemma fresh_key:
  assumes "on_date tz today s" "rd_lookup (mo_cache s) (make_key ''alert'' key) = None" "key = p @ iso_date today" "dated today"
  shows "key \<notin> fst ` set (mo_handled s)"
proof
  assume "key \<in> fst ` set (mo_handled s)"
  then have "marked tz s key" using assms(1) by (auto simp: on_date_def once_ok_def)
  then obtain q d v e where k: "key = q @ iso_date d" "dated d" "dict_get (rd_data (mo_cache s)) (make_key ''alert'' key) = Some (v, Some e)"
    "d < (e + tz) div 86400" unfolding marked_def outlives_def by blast
  have "d = today" using dated_suffix [of q d p today] k(1,2) assms(3,4) by simp
  moreover have "\<not> rd_now (mo_cache s) < e" using k(3) assms(2) by (simp add: rd_lookup_def alive_def split: if_splits)
  then have "(e + tz) div 86400 \<le> local_date tz s" unfolding local_date_def by (intro zdiv_mono1) simp_all
  ultimately show False using k(4) assms(1) by (simp add: on_date_def)
qed

lemma emit_once:
  assumes "on_date tz today s" "key \<notin> fst ` set (mo_handled s)" "key = p @ iso_date today" "dated today"
  shows "on_date tz today (snd (emit_alert tg no_faults key a s))"
proof -
  define s1 where "s1 = s\<lparr>mo_sends := mo_sends s + 1\<rparr>"
  have s1: "on_date tz today s1" using assms(1) marked_cache [of s1 s] by (simp add: on_date_def once_ok_def local_date_def s1_def)
  show ?thesis
  proof (cases "\<exists>e. tg (mo_sends s) = Raised e")
    case True
    then show ?thesis using s1 by (auto simp: emit_alert_def send_alert_def mbind_def s1_def Let_def)
  next
    case False
    define dl where "dl = (if tg (mo_sends s) = Delivered then mo_delivered s @ [(key, a)] else mo_delivered s)"
    define s2 where "s2 = s1\<lparr>mo_handled := mo_handled s @ [(key, a)], mo_delivered := dl\<rparr>"
    have send: "send_alert tg key a s = (Inr (), s2)"
      using False by (cases "tg (mo_sends s)") (simp_all add: send_alert_def s2_def s1_def dl_def Let_def)
    define c where "c = rd_write ''alert'' key ''1'' 86400 (called s2)"
    have emit: "emit_alert tg no_faults key a s = (Inr (), s2\<lparr>mo_cache := c\<rparr>)"
      using send by (simp add: emit_alert_def mbind_def mark_no_faults c_def)
    have old: "once_ok tz s" "local_date tz s = today" using assms(1) by (simp_all add: on_date_def)
    have date: "local_date tz (s2\<lparr>mo_cache := x\<rparr>) = today" if "rd_now x = rd_now (mo_cache s)" for x
      using old(2) that by (simp add: local_date_def)
    have now: "rd_now (called s2) = rd_now (mo_cache s)" by (simp add: called_def s2_def s1_def)
    have m: "marked tz (s2\<lparr>mo_cache := c\<rparr>) k" if "marked tz (s2\<lparr>mo_cache := called s2\<rparr>) k \<or> k = key" for k
    proof (cases "k = key")
      case True
      have "outlives tz today c key" unfolding c_def
        by (rule outlives_mark) (use date [OF now] in \<open>simp_all add: local_date_def\<close>)
      moreover have "local_date tz (s2\<lparr>mo_cache := c\<rparr>) = today" by (rule date) (simp add: c_def now)
      ultimately show ?thesis using assms(3,4) unfolding marked_def True by auto
    next
      case False
      with that obtain q d where k: "k = q @ iso_date d" "dated d" "d \<le> (rd_now (called s2) + tz) div 86400" "outlives tz d (called s2) k"
        by (auto simp: marked_def local_date_def)
      then show ?thesis using outlives_mark [of d "called s2" tz k key] by (auto simp: marked_def local_date_def c_def)
    qed
    have kept: "marked tz (s2\<lparr>mo_cache := c\<rparr>) k" if "marked tz s k" for k
    proof (rule m, rule disjI1)
      have "marked tz s2 k" using that marked_cache [of s2 s] by (simp add: s2_def s1_def)
      then show "marked tz (s2\<lparr>mo_cache := called s2\<rparr>) k" by (rule marked_others) (simp add: called_def cache_now_def)
    qed
    moreover have "set dl \<subseteq> insert (key, a) (set (mo_delivered s))" by (auto simp: dl_def)
    ultimately have "once_ok tz (s2\<lparr>mo_cache := c\<rparr>)"
      using old(1) assms(2) m [of key] by (auto simp: once_ok_def s2_def s1_def)
    moreover have "local_date tz (s2\<lparr>mo_cache := c\<rparr>) = today" by (rule date) (simp add: c_def now)
    ultimately show ?thesis using emit by (simp add: on_date_def)
  qed
qed

lemma emit_result: "fst (mbind (emit_alert tg cfl key a) (\<lambda>_. mret [a]) s) = Inr x \<Longrightarrow> x = [a]"
  by (auto simp: mbind_def mret_def split: prod.splits sum.splits)

lemma snd_mbind_mret [simp]: "snd (mbind m (\<lambda>_. mret x) s) = snd (m s)"
  by (auto simp: mbind_def mret_def split: prod.split sum.split)

lemma alert_once_preserves [preserves_intros]:
  assumes "key = p @ iso_date today" "dated today"
  shows "preserves (on_date tz today) (alert_once tg no_faults key a)"
proof (rule preservesI)
  fix s r s' assume s: "on_date tz today s" and run: "alert_once tg no_faults key a s = (r, s')"
  obtain q s1 where q: "is_alert_sent_today no_faults key s = (q, s1)" by fastforce
  obtain sent where "q = Inr sent" and s1: "on_date tz today s1" and sent: "sent \<longleftrightarrow> rd_lookup (mo_cache s1) (make_key ''alert'' key) \<noteq> None"
    using sent_today_no_faults [OF q s] .
  show "on_date tz today s'"
  proof (cases sent)
    case True
    with run q \<open>q = Inr sent\<close> s1 show ?thesis by (simp add: alert_once_def mbind_def mret_def)
  next
    case False
    with run q \<open>q = Inr sent\<close> have "s' = snd (emit_alert tg no_faults key a s1)"
      by (auto simp: alert_once_def mbind_def mret_def split: prod.splits sum.splits)
    with emit_once [OF s1 fresh_key [OF s1 _ assms] assms] sent False show ?thesis by simp
  qed
qed

lemma check_position_preserves [preserves_intros]:
  assumes "dated today" shows "preserves (on_date tz today) (check_position tg no_faults st account today env p)"
proof (rule preservesI)
  fix s r s' assume s: "on_date tz today s" and run: "check_position tg no_faults st account today env p s = (r, s')"
  define key where "key = stop_loss_key account (pr_symbol p) today"
  have key: "key = (''stop_loss_proximity:'' @ account @ '':'' @ pr_symbol p @ '':'') @ iso_date today" by (simp add: key_def stop_loss_key_def)
  show "on_date tz today s'"
  proof (cases "pr_stop_loss_price p \<le> 0")
    case True
    with run s show ?thesis by (simp add: check_position_def mret_def)
  next
    case False
    obtain q s1 where q: "is_alert_sent_today no_faults key s = (q, s1)" by fastforce
    obtain sent where qs: "q = Inr sent" and s1: "on_date tz today s1" and sent: "sent \<longleftrightarrow> rd_lookup (mo_cache s1) (make_key ''alert'' key) \<noteq> None"
      using sent_today_no_faults [OF q s] .
    have "s' = s1 \<or> (\<not> sent \<and> (\<exists>a r. emit_alert tg no_faults key a s1 = (r, s')))"
      using run q qs False unfolding check_position_def key_def [symmetric] Let_def
      by (auto simp: mbind_def mret_def split: prod.splits sum.splits if_splits)
    with emit_once [OF s1 fresh_key [OF s1 _ key assms] key assms] sent s1 show ?thesis by (metis snd_conv)
  qed
qed

lemma gather_preserves [preserves_intros]: "(\<And>x. preserves P (f x)) \<Longrightarrow> preserves P (gather f xs)"
  by (induction xs) (auto intro!: preserves_intros)

lemma run_checks_preserves: "(\<And>c. c \<in> set cs \<Longrightarrow> preserves P c) \<Longrightarrow> preserves P (run_checks cs)"
  by (induction cs) (auto intro!: preserves_intros)

text \<open>The clock of the cache does not move during a check.\<close>

definition clock :: "monitor \<Rightarrow> int" where
  "clock s = rd_now (mo_cache s)"

lemma stays_command:
  assumes "\<And>s r s'. f s = (r, s') \<Longrightarrow> rd_now s' = rd_now s" shows "stays clock (with_cache (command fl tag f))"
proof (rule staysI)
  fix s r s' assume "with_cache (command fl tag f) s = (r, s')"
  moreover have "rd_now (snd (f c)) = rd_now c" for c using assms by (metis prod.collapse)
  ultimately show "clock s' = clock s"
    using assms by (auto simp: with_cache_def command_def clock_def Let_def split: prod.splits sum.splits option.splits fault.splits)
qed

lemma stays_sent_today [stays_intros]: "stays clock (is_alert_sent_today cfl key)"
  unfolding is_alert_sent_today_def rc_get_def
  by (intro stays_intros stays_command) (auto simp: mget_def)

lemma stays_mark [stays_intros]: "stays clock (mark_alert_sent cfl key)"
  unfolding mark_alert_sent_def rc_set_def
  by (intro stays_intros stays_command) (auto simp: rd_store_def split: option.splits if_splits)

lemma stays_emit [stays_intros]: "stays clock (emit_alert tg cfl key a)"
proof -
  have "stays clock (send_alert tg key a)"
    by (rule staysI) (auto simp: send_alert_def clock_def Let_def split: send_outcome.splits)
  then show ?thesis unfolding emit_alert_def by (intro stays_intros)
qed

lemma stays_gather [stays_intros]: "(\<And>x. stays f (g x)) \<Longrightarrow> stays f (gather g xs)"
  by (induction xs) (auto intro!: stays_intros)

lemma stays_run_checks: "(\<And>c. c \<in> set cs \<Longrightarrow> stays f c) \<Longrightarrow> stays f (run_checks cs)"
  by (induction cs) (auto intro!: stays_intros)

lemma stays_alert_once [stays_intros]: "stays clock (alert_once tg cfl key a)"
  unfolding alert_once_def by (intro stays_intros)

lemma stays_check_position [stays_intros]: "stays clock (check_position tg cfl st account today env p)"
  unfolding check_position_def Let_def by (auto intro!: stays_intros split: sum.split)

lemma check_all_clock: "stays (\<lambda>s. rd_now (mo_cache s)) (check_all tg cfl st account today env)"
proof -
  have "stays clock (check_sector tg cfl st account today x)" for x
    unfolding check_sector_def by (auto intro!: stays_intros split: prod.split)
  then have "stays clock (check_all tg cfl st account today env)"
    unfolding check_all_def check_stop_loss_proximity_def check_sector_concentration_alert_def check_llm_budget_def check_portfolio_drawdown_def
    by (auto intro!: stays_run_checks stays_intros)
  then show ?thesis by (simp add: stays_def clock_def)
qed

lemma check_all_preserves:
  assumes "dated today" shows "preserves (on_date tz today) (check_all tg no_faults st account today env)"
proof -
  have sector: "preserves (on_date tz today) (check_sector tg no_faults st account today x)" for x
    unfolding check_sector_def by (cases x) (auto simp: sector_key_def intro!: preserves_intros alert_once_preserves
      [where p = "''sector_concentration:'' @ account @ '':'' @ fst x @ '':''"] assms)
  have budget: "preserves (on_date tz today) (check_llm_budget tg no_faults st today env)"
    unfolding check_llm_budget_def
    by (intro preserves_intros) (auto intro!: alert_once_preserves [where p = "''llm_budget:monthly:''"] assms)
  have drawdown: "preserves (on_date tz today) (check_portfolio_drawdown tg no_faults st account today env)"
    unfolding check_portfolio_drawdown_def
    by (intro preserves_intros) (auto intro!: alert_once_preserves [where p = "''portfolio_drawdown:'' @ account @ '':portfolio:''"] assms)
  show ?thesis
    unfolding check_all_def check_stop_loss_proximity_def check_sector_concentration_alert_def
    by (rule run_checks_preserves)
      (auto intro!: preserves_bind preserves_leaf gather_preserves check_position_preserves assms sector budget drawdown)
qed

lemma once_ok_pass_time: "once_ok tz s \<Longrightarrow> once_ok tz (pass_time d ks s)"
proof -
  assume s: "once_ok tz s"
  have "marked tz (pass_time d ks s) k" if m: "marked tz s k" for k
  proof -
    let ?t = "s\<lparr>mo_cache := rd_advance (int d) (mo_cache s)\<rparr>"
    have "local_date tz s \<le> local_date tz ?t" unfolding local_date_def by (intro zdiv_mono1) (simp_all add: rd_advance_def)
    with m have "marked tz ?t k" by (auto simp: marked_def outlives_def rd_advance_def intro: order_trans)
    from marked_others [OF this, where c = "others_mark ks (rd_advance (int d) (mo_cache s))" and ks = ks and n = "rd_calls (mo_cache s)"]
    show ?thesis by (simp add: pass_time_def rd_advance_def others_mark_same(2) [symmetric])
  qed
  with s show ?thesis by (simp add: once_ok_def pass_time_def)
qed

lemma monitor_runs_once:
  assumes "once_ok tz s" "dates_ok tz (rd_now (mo_cache s)) xs"
  shows "once_ok tz (snd (monitor_runs tg no_faults st tz account xs s))"
  using assms
proof (induction xs arbitrary: s)
  case (Cons x xs)
  show ?case
  proof (cases x)
    case (Passes d ks)
    then show ?thesis using Cons.IH [OF once_ok_pass_time [OF Cons.prems(1)], of d ks] Cons.prems(2)
      by (simp add: pass_time_def rd_advance_def)
  next
    case (Runs env)
    define today where "today = local_date tz s"
    have dated: "dated today" "dates_ok tz (rd_now (mo_cache s)) xs"
      using Cons.prems(2) by (simp_all add: Runs dated_def today_def local_date_def Let_def)
    have s1: "on_date tz today s" using Cons.prems(1) by (simp add: on_date_def today_def)
    obtain as s2 where c: "check_all tg no_faults st account today env s = (Inr as, s2)"
      using check_all_returns [of tg no_faults st account today env s] by (metis prod.collapse)
    have s2: "on_date tz today s2" using preservesD [OF check_all_preserves [OF dated(1)] s1 c] .
    have "stays (\<lambda>s. rd_now (mo_cache s)) (check_all tg no_faults st account today env)" by (rule check_all_clock)
    then have "rd_now (mo_cache s2) = rd_now (mo_cache s)" using c staysD by metis
    then have "once_ok tz s2" "dates_ok tz (rd_now (mo_cache s2)) xs" using s2 dated(2) by (simp_all add: on_date_def)
    then have "once_ok tz (snd (monitor_runs tg no_faults st tz account xs s2))" by (rule Cons.IH)
    moreover have "snd (monitor_runs tg no_faults st tz account (x # xs) s) = snd (monitor_runs tg no_faults st tz account xs s2)"
      using c by (auto simp: Runs today_def [symmetric] mbind_def mret_def split: prod.split sum.split)
    ultimately show ?thesis by (simp only:)
  qed
qed simp

section \<open>What is due is handled\<close>

definition has :: "string \<Rightarrow> monitor \<Rightarrow> bool" where
  "has k s \<longleftrightarrow> rd_lookup (mo_cache s) (make_key ''alert'' k) \<noteq> None"

lemma has_called: "has k s \<Longrightarrow> has k (s\<lparr>mo_cache := called s\<rparr>)"
  using lookup_others [of "mo_cache s" k] by (simp add: has_def called_def cache_now_def)

lemma has_sent_today [preserves_intros]: "preserves (has k) (is_alert_sent_today no_faults key)"
  by (auto simp: preserves_def sent_today_eq has_called)

lemma has_marked: "has key (snd (mark_alert_sent no_faults key s))"
  by (simp add: mark_no_faults has_def rd_lookup_def write_entry alive_def)

lemma has_mark [preserves_intros]: "preserves (has k) (mark_alert_sent no_faults key)"
proof (rule preservesI)
  fix s r s' assume "has k s" "mark_alert_sent no_faults key s = (r, s')"
  then show "has k s'"
    using has_marked [of key s] has_called [of k s] redis_store.read_other [where n = "''alert''" and k = k and n' = "''alert''" and k' = key and ttl = 86400]
    by (cases "make_key ''alert'' k = make_key ''alert'' key") (auto simp: has_def mark_no_faults)
qed

lemma has_emit [preserves_intros]: "preserves (has k) (emit_alert tg no_faults key a)"
proof -
  have "preserves (has k) (send_alert tg key a)"
    by (auto simp: preserves_def send_alert_def has_def Let_def split: send_outcome.split)
  then show ?thesis unfolding emit_alert_def by (intro preserves_intros)
qed

lemma has_check_position: "preserves (has k) (check_position tg no_faults st account today env p)"
  unfolding check_position_def Let_def by (auto intro!: preserves_intros split: sum.split)

lemma has_other_checks:
  "preserves (has k) (check_sector_concentration_alert tg no_faults st account today env)"
  "preserves (has k) (check_llm_budget tg no_faults st today env)"
  "preserves (has k) (check_portfolio_drawdown tg no_faults st account today env)"
proof -
  have once: "preserves (has k) (alert_once tg no_faults key a)" for key a
    unfolding alert_once_def by (intro preserves_intros)
  have "preserves (has k) (check_sector tg no_faults st account today x)" for x
    unfolding check_sector_def by (auto intro!: preserves_intros(1-5) once split: prod.split)
  then show "preserves (has k) (check_sector_concentration_alert tg no_faults st account today env)"
    unfolding check_sector_concentration_alert_def by (intro preserves_bind preserves_leaf gather_preserves)
  show "preserves (has k) (check_llm_budget tg no_faults st today env)" "preserves (has k) (check_portfolio_drawdown tg no_faults st account today env)"
    unfolding check_llm_budget_def check_portfolio_drawdown_def by (auto intro!: preserves_bind preserves_leaf preserves_if once)
qed

definition due :: "llm_settings \<Rightarrow> monitor_env \<Rightarrow> position_record \<Rightarrow> bool" where
  "due st env p \<longleftrightarrow> 0 < pr_stop_loss_price p \<and> (\<exists>c. me_price env (pr_symbol p) = Inr c \<and> 0 < c
     \<and> distance_pct c (pr_stop_loss_price p) \<le> MONITOR_STOP_LOSS_PROXIMITY_PCT st)"

lemma check_position_due:
  assumes "\<And>n e. tg n \<noteq> Raised e"
  obtains as s' where "check_position tg no_faults st account today env p s = (Inr as, s')"
    "due st env p \<Longrightarrow> has (stop_loss_key account (pr_symbol p) today) s'"
proof -
  let ?key = "stop_loss_key account (pr_symbol p) today"
  define s1 where "s1 = s\<lparr>mo_cache := called s\<rparr>"
  have sent: "is_alert_sent_today no_faults ?key s = (Inr (has ?key s1), s1)"
    by (simp add: sent_today_eq s1_def has_def)
  have emit: "\<exists>s2. emit_alert tg no_faults ?key a s1 = (Inr (), s2) \<and> has ?key s2" for a
  proof -
    obtain s2 where "send_alert tg ?key a s1 = (Inr (), s2)"
      using assms [of "mo_sends s1"] by (cases "tg (mo_sends s1)") (auto simp: send_alert_def Let_def)
    then show ?thesis using has_marked [of ?key s2] by (auto simp: emit_alert_def mbind_def mark_no_faults)
  qed
  show thesis
  proof (cases "pr_stop_loss_price p \<le> 0")
    case True
    then show thesis by (intro that [of "[]" s]) (simp_all add: check_position_def mret_def due_def)
  next
    case stop: False
    show thesis
    proof (cases "has ?key s1 \<or> \<not> due st env p")
      case True
      then show thesis using stop sent
        by (intro that [of "[]" s1]) (auto simp: check_position_def mbind_def mret_def due_def split: sum.split)
    next
      case False
      then obtain v where v: "me_price env (pr_symbol p) = Inr v" "0 < v"
        "distance_pct v (pr_stop_loss_price p) \<le> MONITOR_STOP_LOSS_PROXIMITY_PCT st" by (auto simp: due_def)
      let ?a = "\<lparr>al_type = STOP_LOSS_PROXIMITY, al_symbol = Some (pr_symbol p),
                       al_current = distance_pct v (pr_stop_loss_price p), al_threshold = MONITOR_STOP_LOSS_PROXIMITY_PCT st\<rparr>"
      obtain s2 where "emit_alert tg no_faults ?key ?a s1 = (Inr (), s2)" "has ?key s2" using emit by blast
      with stop sent v False show thesis
        by (intro that [of "[?a]" s2]) (simp_all add: check_position_def mbind_def mret_def Let_def)
    qed
  qed
qed

lemma gather_due:
  assumes "\<And>n e. tg n \<noteq> Raised e"
  shows "\<exists>as s'. gather (check_position tg no_faults st account today env) ps s = (Inr as, s')
     \<and> (\<forall>p \<in> set ps. due st env p \<longrightarrow> has (stop_loss_key account (pr_symbol p) today) s')"
proof (induction ps arbitrary: s)
  case (Cons p ps)
  obtain as s1 where one: "check_position tg no_faults st account today env p s = (Inr as, s1)"
    "due st env p \<Longrightarrow> has (stop_loss_key account (pr_symbol p) today) s1" by (rule check_position_due [where tg = tg and st = st and account = account and today = today and env = env and p = p and s = s, OF assms]) blast+
  obtain bs s2 where rest: "gather (check_position tg no_faults st account today env) ps s1 = (Inr bs, s2)"
    "\<forall>p \<in> set ps. due st env p \<longrightarrow> has (stop_loss_key account (pr_symbol p) today) s2" using Cons.IH by blast
  have "has k s2" if "has k s1" for k
    using preservesD [OF gather_preserves [OF has_check_position] that rest(1)] .
  then have "\<forall>q \<in> set (p # ps). due st env q \<longrightarrow> has (stop_loss_key account (pr_symbol q) today) s2"
    using one(2) rest(2) by simp
  moreover have "gather (check_position tg no_faults st account today env) (p # ps) s = (Inr (as @ bs), s2)"
    using one(1) rest(1) by (simp add: mbind_def mret_def)
  ultimately show ?case by blast
qed (simp add: mret_def)

lemma check_all_due:
  assumes "\<And>n e. tg n \<noteq> Raised e" "me_positions env = Inr ps" "p \<in> set ps" "due st env p"
  shows "has (stop_loss_key account (pr_symbol p) today) (snd (check_all tg no_faults st account today env s))"
proof -
  obtain as s1 where g: "gather (check_position tg no_faults st account today env) ps s = (Inr as, s1)"
    "has (stop_loss_key account (pr_symbol p) today) s1" using gather_due [where tg = tg, OF assms(1)] assms(3,4) by metis
  let ?rest = "run_checks [check_sector_concentration_alert tg no_faults st account today env,
      check_llm_budget tg no_faults st today env, check_portfolio_drawdown tg no_faults st account today env]"
  have "preserves (has k) ?rest" for k
    by (rule run_checks_preserves) (use has_other_checks in auto)
  then have "has (stop_loss_key account (pr_symbol p) today) (snd (?rest s1))" using g(2) by (rule preserves_snd)
  moreover have "snd (check_all tg no_faults st account today env s) = snd (?rest s1)"
    unfolding check_all_def run_checks.simps(2) [of "check_stop_loss_proximity tg no_faults st account today env"]
    using g(1) assms(2) by (auto simp: check_stop_loss_proximity_def mbind_def mlift_def mcatch_def mret_def split: prod.split sum.split)
  ultimately show ?thesis by simp
qed

section \<open>Properties\<close>

text \<open>
  C29: the monitor of an account over any sequence of its runs, one after the other (as its trigger starts them; a run started
  by hand in the middle of another is not covered), with any prices and portfolio states, while the
  monitors of the other accounts mark any keys in the same cache, between its runs and before each of its cache
  commands. Every run returns, whatever cache and sending calls fail. While the cache works, it never sends an
  alert of the same key (kind of alert, account, symbol or sector, day) twice, and each position whose
  stop is near has its key marked after a run unless sending raises. A message the bot drops
  counts as sent: its alert is not repeated that day.
\<close>

theorem monitor_alerts_once:
  assumes "mo_handled s = []" "mo_delivered s = []" "dates_ok tz (rd_now (mo_cache s)) xs"
  shows "(\<exists>as. fst (monitor_runs tg cfl st tz account xs s) = Inr as)
    \<and> (let t = snd (monitor_runs tg no_faults st tz account xs s) in
         distinct (map fst (mo_handled t)) \<and> set (mo_delivered t) \<subseteq> set (mo_handled t))
    \<and> (\<forall>ps p. (\<forall>n e. tg n \<noteq> Raised e) \<and> me_positions env = Inr ps \<and> p \<in> set ps \<and> due st env p \<longrightarrow>
         rd_lookup (mo_cache (snd (check_all tg no_faults st account today env s)))
           (make_key ''alert'' (stop_loss_key account (pr_symbol p) today)) \<noteq> None)"
proof -
  have "once_ok tz s" using assms(1,2) by (simp add: once_ok_def)
  from monitor_runs_once [OF this assms(3), of tg st account] show ?thesis
    using monitor_runs_returns check_all_due [of tg env _ _ st account today s] by (auto simp: once_ok_def has_def Let_def)
qed

text \<open>
  The key of the budget alert has no account. Two monitors that read it before either marked it both send: below, the
  second monitor, whose read came first too, has the first one's mark arrive before its own.
\<close>

definition budget_key :: "int \<Rightarrow> string" where
  "budget_key today = ''llm_budget:monthly:'' @ iso_date today"

lemma budget_alert_per_account:
  assumes "me_budget env = Inr b" "MONITOR_LLM_BUDGET_WARN_PCT st \<le> bs_usage_percent b" "tg (mo_sends s) = Delivered"
    "rd_lookup (called s) (make_key ''alert'' (budget_key today)) = None"
    "budget_key today \<in> set (mo_others s (rd_calls (mo_cache s) + 1))"
  shows "mo_delivered (snd (check_llm_budget tg no_faults st today env s)) = mo_delivered s @
     [(budget_key today, \<lparr>al_type = LLM_BUDGET, al_symbol = None, al_current = bs_usage_percent b, al_threshold = MONITOR_LLM_BUDGET_WARN_PCT st\<rparr>)]"
  using assms unfolding budget_key_def
  by (simp add: check_llm_budget_def mbind_def mlift_def alert_once_def sent_today_eq emit_alert_def send_alert_def mark_no_faults mret_def Let_def)

definition near_position :: position_record where
  "near_position = \<lparr>pr_id = 1, pr_account_id = ''default'', pr_symbol = ''005930'', pr_strategy_type = ''swing'', pr_quantity = 10,
     pr_avg_cost = 100, pr_entry_price = 100, pr_entry_date = 738990, pr_stop_loss_price = 99, pr_take_profit_price = None,
     pr_trailing_stop_pct = None, pr_max_holding_days = None, pr_status = ''open'', pr_exit_price = None, pr_exit_date = None,
     pr_exit_reason = None, pr_realized_pnl = None, pr_entry_session_id = None, pr_exit_session_id = None\<rparr>"

definition near_env :: monitor_env where
  "near_env = \<lparr>me_positions = Inr [near_position], me_price = (\<lambda>_. Inr 100), me_sector_state = Inl (CacheError ''no state''),
     me_drawdown_state = Inl (CacheError ''no state''), me_budget = Inl (CacheError ''no state'')\<rparr>"

definition quiet_monitor :: monitor where
  "quiet_monitor = \<lparr>mo_cache = \<lparr>rd_calls = 0, rd_now = 739000 * 86400, rd_data = []\<rparr>, mo_sends = 0, mo_handled = [], mo_delivered = [],
     mo_others = (\<lambda>n. if n = 1 then [''llm_budget:monthly:2024-04-23''] else [])\<rparr>"

definition near_steps :: "monitor_step list" where
  "near_steps = [Runs near_env, Passes 300 [''portfolio_drawdown:second:portfolio:2024-04-23''], Runs near_env]"

text \<open>The first message is dropped; the run five minutes later does not send it again.\<close>

definition first_dropped :: "nat \<Rightarrow> send_outcome" where
  "first_dropped n = (if n = 0 then Dropped else Delivered)"

theorem monitor_alerts_once_witness:
  "dates_ok 0 (739000 * 86400) near_steps
   \<and> (let t = snd (monitor_runs first_dropped no_faults default_llm_settings 0 ''default'' near_steps quiet_monitor)
      in distinct (map fst (mo_handled t)) \<and> set (mo_delivered t) \<subseteq> set (mo_handled t))
   \<and> rd_lookup (mo_cache (snd (check_all first_dropped no_faults default_llm_settings ''default'' 739000 near_env quiet_monitor)))
       (make_key ''alert'' (stop_loss_key ''default'' ''005930'' 739000)) \<noteq> None"
proof -
  have y: "year_of 739000 = 2024" by code_simp
  have dates: "dates_ok 0 (739000 * 86400) near_steps"
    by (simp add: y near_steps_def)
  have due: "due default_llm_settings near_env near_position"
    by (simp add: due_def near_env_def near_position_def distance_pct_def default_llm_settings_def default_settings_def settings.defs llm_settings.defs dec_eval)
  show ?thesis
    using monitor_alerts_once [where s = quiet_monitor and tz = 0 and tg = first_dropped and st = default_llm_settings
        and xs = near_steps and env = near_env and account = "''default''" and today = 739000]
      dates due y by (auto simp: quiet_monitor_def near_env_def near_position_def first_dropped_def Let_def)
qed

end
