(* ===== verification/Kis_Models.thy ===== *)
theory Kis_Models
  imports Monitor
begin

text \<open>
  \<open>src/broker/kis/models.py\<close>: the broker's answers, whose values are all strings, and their
  conversion into the domain models. A JSON object is a dictionary of strings; a missing field is
  the empty string, as the pydantic models declare. \<open>Decimal(text)\<close> and \<open>int(text)\<close> are written out
  for ASCII texts. A text that names a NaN or an infinity is a Decimal, which the domain models
  refuse: the conversion raises the ValidationError at once.
\<close>

type_synonym json_object = "(string, string) dict"

definition field :: "json_object \<Rightarrow> string \<Rightarrow> string" where
  "field j k = (case dict_get j k of None \<Rightarrow> '''' | Some v \<Rightarrow> v)"

section \<open>Decimal of a string\<close>

datatype decimal_text = Malformed | Not_Finite | Finite rat

definition is_digit :: "char \<Rightarrow> bool" where
  "is_digit c \<longleftrightarrow> digit_of c \<noteq> None"

definition digit_value :: "char \<Rightarrow> nat" where
  "digit_value c = (case digit_of c of None \<Rightarrow> 0 | Some d \<Rightarrow> d)"

definition digits_value :: "string \<Rightarrow> nat" where
  "digits_value = foldl (\<lambda>acc c. 10 * acc + digit_value c) 0"

definition lower :: "char \<Rightarrow> char" where
  "lower c = (let n = of_char c :: nat in if 65 \<le> n \<and> n \<le> 90 then char_of (n + 32) else c)"

definition scale10 :: "rat \<Rightarrow> int \<Rightarrow> rat" where
  "scale10 x e = (if 0 \<le> e then x * 10 ^ nat e else x / 10 ^ nat (- e))"

text \<open>The exponent: \<open>E\<close>, an optional sign, at least one digit, and nothing after it.\<close>

definition read_exponent :: "string \<Rightarrow> int option" where
  "read_exponent cs = (case cs of
     [] \<Rightarrow> Some 0
   | c # ds \<Rightarrow> if lower c \<noteq> CHR ''e'' then None
       else let neg = (take 1 ds = ''-''); ds' = (if take 1 ds \<in> {''-'', ''+''} then drop 1 ds else ds)
         in if ds' = [] \<or> \<not> list_all is_digit ds' then None
            else Some (if neg then - int (digits_value ds') else int (digits_value ds')))"

definition names_special :: "string \<Rightarrow> bool" where
  "names_special cs \<longleftrightarrow> (let w = map lower cs in w \<in> {''inf'', ''infinity''}
     \<or> (prefix ''nan'' w \<and> list_all is_digit (drop 3 w)) \<or> (prefix ''snan'' w \<and> list_all is_digit (drop 4 w)))"

definition read_unsigned :: "string \<Rightarrow> decimal_text" where
  "read_unsigned cs = (let ip = takeWhile is_digit cs; r = dropWhile is_digit cs;
       fp = (if take 1 r = ''.'' then takeWhile is_digit (drop 1 r) else []);
       r' = (if take 1 r = ''.'' then dropWhile is_digit (drop 1 r) else r)
     in if names_special cs then Not_Finite
        else if ip = [] \<and> fp = [] then Malformed
        else case read_exponent r' of None \<Rightarrow> Malformed
          | Some e \<Rightarrow> Finite (scale10 (of_nat (digits_value (ip @ fp))) (e - int (length fp))))"

fun negate_text :: "decimal_text \<Rightarrow> decimal_text" where
  "negate_text (Finite x) = Finite (- x)"
| "negate_text t = t"

text \<open>Underscores are dropped wherever they stand, blanks around the text too.\<close>

definition py_decimal :: "string \<Rightarrow> decimal_text" where
  "py_decimal s = (case filter (\<lambda>c. c \<noteq> CHR ''_'') (strip s) of
     [] \<Rightarrow> Malformed
   | c # cs \<Rightarrow> if c = CHR ''-'' then negate_text (read_unsigned cs)
       else if c = CHR ''+'' then read_unsigned cs else read_unsigned (c # cs))"

section \<open>The helpers\<close>

definition to_decimal :: "string \<Rightarrow> exc + rat" where
  "to_decimal s = (if strip s = [] then Inr 0 else case py_decimal (strip s) of
     Malformed \<Rightarrow> Inr 0 | Not_Finite \<Rightarrow> Inl (ValidationError ''finite number'') | Finite x \<Rightarrow> Inr x)"

definition to_int :: "string \<Rightarrow> int" where
  "to_int s = (if strip s = [] then 0 else case py_int (strip s) of None \<Rightarrow> 0 | Some n \<Rightarrow> n)"

section \<open>Conversion to the domain\<close>

text \<open>Signs 4 and 5 are the falling ones; the amount is then negative whatever sign it came with.\<close>

definition price_to_domain :: "symbol \<Rightarrow> datetime \<Rightarrow> json_object \<Rightarrow> exc + price_info" where
  "price_to_domain s now j =
     rbind (to_decimal (field j ''prdy_vrss'')) (\<lambda>cp.
     rbind (to_decimal (field j ''prdy_ctrt'')) (\<lambda>ct.
     let falling = field j ''prdy_vrss_sign'' \<in> {''4'', ''5''};
         change = (if falling then dneg (dabs cp) else cp); pct = (if falling then dneg (dabs ct) else ct) in
     rbind (to_decimal (field j ''stck_prpr'')) (\<lambda>price.
     rbind (to_decimal (field j ''stck_sdpr'')) (\<lambda>prev.
     rbind (to_decimal (field j ''stck_hgpr'')) (\<lambda>high.
     rbind (to_decimal (field j ''stck_lwpr'')) (\<lambda>low.
     Inr \<lparr>pi_symbol = s, pi_current_price = price, pi_previous_close = prev, pi_change_price = change,
          pi_change_percent = pct, pi_high = high, pi_low = low, pi_volume = to_int (field j ''acml_vol''),
          pi_timestamp = now\<rparr>))))))"

text \<open>\<open>date(int(s[:4]), int(s[4:6]), int(s[6:8]))\<close>\<close>

definition int_of_text :: "string \<Rightarrow> exc + int" where
  "int_of_text s = (case py_int s of None \<Rightarrow> Inl (ValueError ''int'') | Some n \<Rightarrow> Inr n)"

definition chart_date :: "string \<Rightarrow> exc + date" where
  "chart_date s = rbind (int_of_text (take 4 s)) (\<lambda>y. rbind (int_of_text (take 2 (drop 4 s))) (\<lambda>m.
     rbind (int_of_text (take 2 (drop 6 s))) (\<lambda>d. mk_date y m d)))"

text \<open>The traded value is converted too; no modelled component reads it.\<close>

definition chart_to_domain :: "symbol \<Rightarrow> json_object \<Rightarrow> exc + ohlcv" where
  "chart_to_domain s j =
     rbind (chart_date (field j ''stck_bsop_date'')) (\<lambda>d.
     rbind (to_decimal (field j ''stck_oprc'')) (\<lambda>op.
     rbind (to_decimal (field j ''stck_hgpr'')) (\<lambda>high.
     rbind (to_decimal (field j ''stck_lwpr'')) (\<lambda>low.
     rbind (to_decimal (field j ''stck_clpr'')) (\<lambda>cl.
     rbind (to_decimal (field j ''acml_tr_pbmn'')) (\<lambda>_.
     Inr \<lparr>k_symbol = s, k_date = d, k_open = op, k_high = high, k_low = low, k_close = cl,
          k_volume = to_int (field j ''acml_vol'')\<rparr>))))))"

definition holding_to_domain :: "datetime \<Rightarrow> json_object \<Rightarrow> exc + position" where
  "holding_to_domain now j = (let q = to_int (field j ''hldg_qty'') in
     rbind (to_decimal (field j ''pchs_avg_pric'')) (\<lambda>cost.
     rbind (to_decimal (field j ''prpr'')) (\<lambda>price.
     rbind (to_decimal (field j ''evlu_amt'')) (\<lambda>value.
     rbind (to_decimal (field j ''evlu_pfls_amt'')) (\<lambda>pnl.
     rbind (to_decimal (field j ''evlu_pfls_rt'')) (\<lambda>pct.
     Inr \<lparr>p_account_id = ''default'', p_symbol = field j ''pdno'', p_quantity = q, p_average_cost = cost,
          p_current_price = price, p_market_value = value, p_unrealized_pnl = pnl, p_unrealized_pnl_pct = pct,
          p_status = (if 0 < q then Pos_OPEN else Pos_CLOSED), p_entry_date = now\<rparr>))))))"

section \<open>Lemmas\<close>

lemma is_digit_char: "d < 10 \<Longrightarrow> is_digit (digit_char d)"
  by (simp add: is_digit_def digit_of_char)

lemma digit_value_char: "d < 10 \<Longrightarrow> digit_value (digit_char d) = d"
  by (simp add: digit_value_def digit_of_char)

lemma is_digit_plain: "is_digit c \<Longrightarrow> c \<noteq> CHR ''_'' \<and> c \<noteq> CHR ''-'' \<and> c \<noteq> CHR ''+'' \<and> c \<noteq> CHR ''.'' \<and> \<not> is_blank c"
  by (auto simp: is_digit_def digit_of_def is_blank_def Let_def split: if_splits)

lemma digits_digit: "c \<in> set (digits w n) \<Longrightarrow> is_digit c"
  by (auto simp: digits_def is_digit_char)

lemma strip_plain: "list_all (\<lambda>c. \<not> is_blank c) s \<Longrightarrow> strip s = s"
proof -
  assume s: "list_all (\<lambda>c. \<not> is_blank c) s"
  then have "dropWhile is_blank xs = xs" if "set xs = set s" for xs
    using that by (cases xs) (auto simp: list_all_iff)
  then show ?thesis by (simp add: strip_def)
qed

text \<open>A fixed-width number reads as itself, so a date written as YYYYMMDD is read back.\<close>

lemma read_digits_list:
  "list_all is_digit s \<Longrightarrow> s \<noteq> [] \<or> b \<Longrightarrow> read_digits b acc s = Some (foldl (\<lambda>acc c. 10 * acc + digit_value c) acc s)"
  by (induction s arbitrary: b acc) (auto simp: is_digit_def digit_value_def split: option.split)

lemma foldl_digits:
  "foldl (\<lambda>acc c. 10 * acc + digit_value c) acc (digits w n) = acc * 10 ^ w + n mod 10 ^ w"
proof (induction w arbitrary: n acc)
  case 0
  show ?case by (simp add: digits_def)
next
  case (Suc w)
  have s: "digits (Suc w) n = digits w (n div 10) @ [digit_char (n mod 10)]"
    by (auto simp: digits_def div_mult2_eq [symmetric] power_Suc [symmetric] Suc_diff_Suc simp del: power_Suc intro!: map_cong)
  have "n mod 10 ^ Suc w = 10 * (n div 10 mod 10 ^ w) + n mod 10"
    by (simp add: mod_mult2_eq)
  moreover have "10 * (acc * 10 ^ w + n div 10 mod 10 ^ w) + n mod 10
      = acc * 10 ^ Suc w + (10 * (n div 10 mod 10 ^ w) + n mod 10)"
    by (simp add: algebra_simps)
  ultimately show ?case unfolding s foldl_append Suc.IH by (simp add: digit_value_char)
qed

lemma py_int_digits:
  assumes "0 < w" "n < 10 ^ w" shows "py_int (digits w n) = Some (int n)"
proof -
  have d: "list_all is_digit (digits w n)" by (simp add: list_all_iff digits_digit)
  then have "list_all (\<lambda>c. \<not> is_blank c) (digits w n)" by (auto simp: list_all_iff is_digit_plain)
  then have s: "strip (digits w n) = digits w n" by (rule strip_plain)
  have ne: "digits w n \<noteq> []" using assms(1) by (metis length_digits length_greater_0_conv)
  have r: "read_digits False 0 (digits w n) = Some n"
    using read_digits_list [OF d] ne foldl_digits [of 0 w n] assms(2) by simp
  obtain c cs where c: "digits w n = c # cs" using ne by (cases "digits w n") auto
  have "is_digit c" using d by (simp add: c)
  then have "c \<noteq> CHR ''-''" "c \<noteq> CHR ''+''" by (simp_all add: is_digit_plain)
  then show ?thesis using s r by (simp add: py_int_def c)
qed

definition compact_date :: "date \<Rightarrow> string" where
  "compact_date d = digits 4 (nat (year_of d)) @ digits 2 (nat (month_in_year d)) @ digits 2 (nat (day_of d))"

lemma day_le_31: "day_of x \<le> 31"
  using day_of_range(2) [of x] by (simp add: days_in_month_def split: if_splits)

lemma chart_date_compact: "dated d \<Longrightarrow> chart_date (compact_date d) = Inr d"
proof -
  assume d: "dated d"
  have m: "1 \<le> month_in_year d" "month_in_year d \<le> 12" and k: "1 \<le> day_of d" "day_of d \<le> 31"
    using month_in_year_range [of d] day_of_range(1) [of d] day_le_31 [of d] by simp_all
  have "py_int (digits 4 (nat (year_of d))) = Some (year_of d)"
    using d py_int_digits [of 4 "nat (year_of d)"] by (simp add: dated_def nat_less_iff)
  moreover have "py_int (digits 2 (nat (month_in_year d))) = Some (month_in_year d)"
    using m py_int_digits [of 2 "nat (month_in_year d)"] by (simp add: nat_less_iff)
  moreover have "py_int (digits 2 (nat (day_of d))) = Some (day_of d)"
    using k py_int_digits [of 2 "nat (day_of d)"] by (simp add: nat_less_iff)
  moreover have "mk_date (year_of d) (month_in_year d) (day_of d) = Inr d"
    using d m k(1) day_of_range(2) [of d] ymd_of [of d] by (simp add: mk_date_def dated_def)
  ultimately show ?thesis by (simp add: chart_date_def compact_date_def int_of_text_def)
qed

end
