(* ===== verification/Kis_Client.thy ===== *)
theory Kis_Client
  imports Kis_Models
begin

text \<open>
  \<open>src/broker/kis/auth.py\<close> and \<open>client.py\<close>: the client of the brokerage's REST interface. The service
  is a parameter that answers a request, given the requests sent before it; the client's state holds
  the Redis cache with the token, the two parts \<open>connect\<close> creates, the requests sent and the number
  of rate-limit sleeps. Every value of an answer is a string, as the interface documents. The texts of
  the errors are not kept; an error is \<open>BrokerError\<close> with the name of its class. The semaphore is not
  modelled: requests are sequential.
\<close>

section \<open>Requests and answers\<close>

datatype request =
    Token_Request (request_url: string)
  | Api_Request (request_method: string) (request_url: string) (request_tr_id: string) (request_token: string)
      (request_tr_cont: string) (request_params: json_object)

record kis_answer =
  an_tr_cont :: string
  an_top :: json_object
  an_output :: json_object
  an_output1 :: "json_object list"
  an_output2 :: "json_object list"

datatype api_reply = Client_Error | Not_Json | Reply kis_answer
text \<open>\<open>Token_Status\<close> is an answer whose status is not 200.\<close>

datatype token_reply = Token_Client_Error | Token_Status int | Token_Not_Json | Token_Body json_object

text \<open>The master files: the lines of every file of the archive, decoded.\<close>

datatype master_reply = Master_Client_Error | Master_Status int | Bad_Archive "string list list" | Archive "string list list"

record service =
  sv_api :: "request list \<Rightarrow> request \<Rightarrow> api_reply"
  sv_token :: "request list \<Rightarrow> request \<Rightarrow> token_reply"
  sv_master_file :: "string \<Rightarrow> master_reply"

section \<open>The client\<close>

record kis_config =
  kc_account_id :: string
  kc_app_key :: string
  kc_app_secret :: string
  kc_is_paper :: bool
  kc_base_url :: string
  kc_token_ttl :: int
  kc_cano :: string
  kc_acnt_prdt_cd :: string
  kc_rate_limit_interval :: rat

record kis =
  ks_cache :: redis
  ks_session :: bool
  ks_auth :: bool
  ks_sent :: "request list"
  ks_sleeps :: nat

definition paper_base_url :: string where "paper_base_url = ''https://openapivts.koreainvestment.com:29443''"
definition prod_base_url :: string where "prod_base_url = ''https://openapi.koreainvestment.com:9443''"

definition rstrip_slash :: "string \<Rightarrow> string" where
  "rstrip_slash s = rev (dropWhile (\<lambda>c. c = CHR ''/'') (rev s))"

definition base_url_of :: "string \<Rightarrow> bool \<Rightarrow> string" where
  "base_url_of url paper = (if url \<noteq> [] then rstrip_slash url else if paper then paper_base_url else prod_base_url)"

text \<open>The two ways to make a client. With settings the account is always \<open>default\<close>.\<close>

record kis_settings =
  KIS_APP_KEY :: string
  KIS_APP_SECRET :: string
  KIS_ACCOUNT_NO :: string
  KIS_ACCOUNT_PROD :: string
  KIS_IS_PAPER :: bool
  KIS_BASE_URL :: string
  KIS_RATE_LIMIT_INTERVAL :: rat
  KIS_TOKEN_REDIS_TTL :: int

definition from_settings :: "kis_settings \<Rightarrow> kis_config" where
  "from_settings st = \<lparr>kc_account_id = ''default'', kc_app_key = KIS_APP_KEY st, kc_app_secret = KIS_APP_SECRET st,
     kc_is_paper = KIS_IS_PAPER st, kc_base_url = base_url_of (KIS_BASE_URL st) (KIS_IS_PAPER st),
     kc_token_ttl = KIS_TOKEN_REDIS_TTL st, kc_cano = take 8 (KIS_ACCOUNT_NO st),
     kc_acnt_prdt_cd = KIS_ACCOUNT_PROD st, kc_rate_limit_interval = KIS_RATE_LIMIT_INTERVAL st\<rparr>"

record account_credentials =
  cr_account_id :: string
  cr_app_key :: string
  cr_app_secret :: string
  cr_account_no :: string
  cr_account_prod :: string
  cr_is_paper :: bool

definition from_credentials :: "account_credentials \<Rightarrow> rat option \<Rightarrow> int \<Rightarrow> kis_config" where
  "from_credentials cr interval ttl = \<lparr>kc_account_id = cr_account_id cr, kc_app_key = cr_app_key cr,
     kc_app_secret = cr_app_secret cr, kc_is_paper = cr_is_paper cr, kc_base_url = base_url_of '''' (cr_is_paper cr),
     kc_token_ttl = ttl, kc_cano = take 8 (cr_account_no cr), kc_acnt_prdt_cd = cr_account_prod cr,
     kc_rate_limit_interval = (case interval of Some i \<Rightarrow> i | None \<Rightarrow> if cr_is_paper cr then 1 / 2 else 1 / 20)\<rparr>"

section \<open>Tokens\<close>

definition on_cache :: "(redis, 'a) meth \<Rightarrow> (kis, 'a) meth" where
  "on_cache f s = (case f (ks_cache s) of (r, c) \<Rightarrow> (r, s\<lparr>ks_cache := c\<rparr>))"

definition send :: "request \<Rightarrow> kis \<Rightarrow> kis" where
  "send rq s = s\<lparr>ks_sent := ks_sent s @ [rq]\<rparr>"

definition cache_key_token :: "kis_config \<Rightarrow> string" where
  "cache_key_token kc = kc_account_id kc @ '':token''"

definition token_request :: "kis_config \<Rightarrow> request" where
  "token_request kc = Token_Request (kc_base_url kc @ ''/oauth2/tokenP'')"

definition ask_token :: "service \<Rightarrow> kis_config \<Rightarrow> (kis, string) meth" where
  "ask_token sv kc s = ((case sv_token sv (ks_sent s) (token_request kc) of
       Token_Client_Error \<Rightarrow> Inl (BrokerError ''AuthError'')
     | Token_Status _ \<Rightarrow> Inl (BrokerError ''AuthError'')
     | Token_Not_Json \<Rightarrow> Inl (ValueError ''json'')
     | Token_Body j \<Rightarrow> if field j ''access_token'' = [] then Inl (BrokerError ''AuthError'')
         else Inr (field j ''access_token'')), send (token_request kc) s)"

definition issue_token :: "service \<Rightarrow> kis_config \<Rightarrow> fault_plan \<Rightarrow> (kis, string) meth" where
  "issue_token sv kc fl = mbind (ask_token sv kc) (\<lambda>token.
     mbind (on_cache (rc_set fl ''kis'' (cache_key_token kc) token (Some (kc_token_ttl kc)))) (\<lambda>_. mret token))"

definition get_token :: "service \<Rightarrow> kis_config \<Rightarrow> fault_plan \<Rightarrow> (kis, string) meth" where
  "get_token sv kc fl = mbind (on_cache (rc_get fl ''kis'' (cache_key_token kc))) (\<lambda>cached.
     case cached of Some t \<Rightarrow> mret t | None \<Rightarrow> issue_token sv kc fl)"

definition refresh_token :: "service \<Rightarrow> kis_config \<Rightarrow> fault_plan \<Rightarrow> (kis, string) meth" where
  "refresh_token sv kc fl = mbind (on_cache (rc_delete fl ''kis'' (cache_key_token kc))) (\<lambda>_. issue_token sv kc fl)"

definition convert_tr_id :: "bool \<Rightarrow> string \<Rightarrow> string" where
  "convert_tr_id paper tr_id = (case tr_id of
     [] \<Rightarrow> tr_id
   | c # cs \<Rightarrow> if paper \<and> c \<in> {CHR ''T'', CHR ''J'', CHR ''C''} then CHR ''V'' # cs else tr_id)"

text \<open>The headers of a request, as far as they depend on it.\<close>

definition build_request :: "kis_config \<Rightarrow> string \<Rightarrow> string \<Rightarrow> string \<Rightarrow> string \<Rightarrow> string \<Rightarrow> json_object \<Rightarrow> request" where
  "build_request kc meth_name path tr_id tr_cont token params =
     Api_Request meth_name (kc_base_url kc @ path) (convert_tr_id (kc_is_paper kc) tr_id) token tr_cont params"

section \<open>Life cycle\<close>

definition connect :: "service \<Rightarrow> kis_config \<Rightarrow> fault_plan \<Rightarrow> (kis, unit) meth" where
  "connect sv kc fl s =
     (let s1 = s\<lparr>ks_session := True\<rparr> in
      if kc_app_key kc = [] \<or> kc_app_secret kc = [] then (Inl (ExternalError ''ConfigurationError''), s1)
      else mbind (get_token sv kc fl) (\<lambda>_. mret ()) (s1\<lparr>ks_auth := True\<rparr>))"

definition disconnect :: "kis \<Rightarrow> kis" where
  "disconnect s = s\<lparr>ks_session := False, ks_auth := False\<rparr>"

section \<open>One request\<close>

text \<open>The call itself: a sleep follows the answer, but not a network error.\<close>

definition exchange :: "service \<Rightarrow> request \<Rightarrow> (kis, kis_answer) meth" where
  "exchange sv rq s = (case sv_api sv (ks_sent s) rq of
     Client_Error \<Rightarrow> (Inl (BrokerError ''APIError''), send rq s)
   | Not_Json \<Rightarrow> (Inl (BrokerError ''APIError''), (send rq s)\<lparr>ks_sleeps := ks_sleeps s + 1\<rparr>)
   | Reply a \<Rightarrow> (Inr a, (send rq s)\<lparr>ks_sleeps := ks_sleeps s + 1\<rparr>))"

definition is_ok :: "kis_answer \<Rightarrow> bool" where
  "is_ok a \<longleftrightarrow> field (an_top a) ''rt_cd'' = ''0''"

definition token_expired :: "kis_answer \<Rightarrow> bool" where
  "token_expired a \<longleftrightarrow> field (an_top a) ''msg_cd'' \<in> {''EGW00123'', ''EGW00121''}"

text \<open>\<open>_handle_error\<close>; \<open>again\<close> is the branch of an expired token.\<close>

definition handle_error :: "(kis, kis_answer) meth \<Rightarrow> kis_answer \<Rightarrow> (kis, kis_answer) meth" where
  "handle_error again a =
     (if token_expired a then again
      else if field (an_top a) ''msg_cd'' = ''EGW00201'' then mraise (BrokerError ''RateLimitError'')
      else if field (an_top a) ''msg_cd'' = ''APBK0013'' then mraise InsufficientFundsError
      else mraise (BrokerError ''KISResponseError''))"

definition attempt :: "service \<Rightarrow> kis_config \<Rightarrow> fault_plan \<Rightarrow> (string \<Rightarrow> request) \<Rightarrow> (kis, kis_answer) meth" where
  "attempt sv kc fl rq s =
     (if \<not> ks_session s \<or> \<not> ks_auth s then (Inl (BrokerError ''BrokerError''), s)
      else mbind (get_token sv kc fl) (\<lambda>token. exchange sv (rq token)) s)"

text \<open>\<open>_do_request\<close>: the argument counts the retries left, so 0 is \<open>is_retry\<close>.\<close>

primrec do_request :: "service \<Rightarrow> kis_config \<Rightarrow> fault_plan \<Rightarrow> (string \<Rightarrow> request) \<Rightarrow> nat \<Rightarrow> (kis, kis_answer) meth" where
  "do_request sv kc fl rq 0 = mbind (attempt sv kc fl rq) (\<lambda>a.
     if is_ok a then mret a else handle_error (mraise (BrokerError ''TokenExpiredError'')) a)"
| "do_request sv kc fl rq (Suc n) = mbind (attempt sv kc fl rq) (\<lambda>a.
     if is_ok a then mret a
     else handle_error (mbind (refresh_token sv kc fl) (\<lambda>_. do_request sv kc fl rq n)) a)"

definition kis_request ::
  "service \<Rightarrow> kis_config \<Rightarrow> fault_plan \<Rightarrow> string \<Rightarrow> string \<Rightarrow> string \<Rightarrow> string \<Rightarrow> json_object \<Rightarrow> (kis, kis_answer) meth" where
  "kis_request sv kc fl meth_name path tr_id tr_cont params =
     do_request sv kc fl (\<lambda>token. build_request kc meth_name path tr_id tr_cont token params) 1"

section \<open>Market data\<close>

definition kis_get_price :: "service \<Rightarrow> kis_config \<Rightarrow> fault_plan \<Rightarrow> datetime \<Rightarrow> symbol \<Rightarrow> (kis, price_info) meth" where
  "kis_get_price sv kc fl now s =
     mbind (kis_request sv kc fl ''GET'' ''/uapi/domestic-stock/v1/quotations/inquire-price'' ''FHKST01010100'' ''''
        [(''FID_COND_MRKT_DIV_CODE'', ''J''), (''FID_INPUT_ISCD'', s)]) (\<lambda>a.
     mlift (\<lambda>_. price_to_domain s now (an_output a)))"

definition chart_params :: "symbol \<Rightarrow> date \<Rightarrow> date \<Rightarrow> json_object" where
  "chart_params s first_day last_day = [(''FID_COND_MRKT_DIV_CODE'', ''J''), (''FID_INPUT_ISCD'', s),
     (''FID_INPUT_DATE_1'', compact_date first_day), (''FID_INPUT_DATE_2'', compact_date last_day),
     (''FID_PERIOD_DIV_CODE'', ''D''), (''FID_ORG_ADJ_PRC'', ''0'')]"

text \<open>The loop over the items of a page: the bars so far, the number of new ones, the oldest date.\<close>

definition add_bar :: "ohlcv \<Rightarrow> ohlcv list \<times> nat \<times> date option \<Rightarrow> ohlcv list \<times> nat \<times> date option" where
  "add_bar b st = (case st of (bars, cnt, oldest) \<Rightarrow>
     let new = k_date b \<notin> k_date ` set bars in
     (if new then bars @ [b] else bars, if new then cnt + 1 else cnt,
      case oldest of None \<Rightarrow> Some (k_date b) | Some d \<Rightarrow> if k_date b < d then Some (k_date b) else Some d))"

fun read_page :: "symbol \<Rightarrow> json_object list \<Rightarrow> ohlcv list \<times> nat \<times> date option \<Rightarrow> exc + ohlcv list \<times> nat \<times> date option" where
  "read_page s [] st = Inr st"
| "read_page s (j # js) st = (if field j ''stck_bsop_date'' = [] then read_page s js st
     else rbind (chart_to_domain s j) (\<lambda>b. read_page s js (add_bar b st)))"

text \<open>The pages: the first argument is the number of pages that may still be asked for.\<close>

primrec chart_pages ::
  "nat \<Rightarrow> service \<Rightarrow> kis_config \<Rightarrow> fault_plan \<Rightarrow> symbol \<Rightarrow> date \<Rightarrow> date \<Rightarrow> ohlcv list \<Rightarrow> (kis, ohlcv list) meth" where
  "chart_pages 0 sv kc fl s first_day last_day bars = mret bars"
| "chart_pages (Suc n) sv kc fl s first_day last_day bars =
     mbind (kis_request sv kc fl ''GET'' ''/uapi/domestic-stock/v1/quotations/inquire-daily-itemchartprice'' ''FHKST03010100'' ''''
        (chart_params s first_day last_day)) (\<lambda>a.
     if an_output2 a = [] then mret bars
     else mbind (mlift (\<lambda>_. read_page s (an_output2 a) (bars, 0, None))) (\<lambda>(bars', cnt, oldest).
       case oldest of None \<Rightarrow> mret bars'
       | Some d \<Rightarrow> if cnt < 100 then mret bars'
           else if d - 1 < first_day then mret bars'
           else chart_pages n sv kc fl s first_day (d - 1) bars'))"

definition max_ohlcv_pages :: nat where "max_ohlcv_pages = 20"
definition max_balance_pages :: nat where "max_balance_pages = 10"

definition kis_get_daily_ohlcv ::
  "service \<Rightarrow> kis_config \<Rightarrow> fault_plan \<Rightarrow> date \<Rightarrow> symbol \<Rightarrow> int \<Rightarrow> (kis, ohlcv list) meth" where
  "kis_get_daily_ohlcv sv kc fl today s period_days =
     mbind (chart_pages max_ohlcv_pages sv kc fl s (today - period_days) today []) (\<lambda>bars. mret (sort_key k_date bars))"

section \<open>Stock master\<close>

datatype market_type = KOSPI | KOSDAQ

record stock_info =
  si_symbol :: symbol
  si_name :: string
  si_market_type :: market_type

text \<open>One line of a master file; the two fields before the fixed tail are cut at 9 and 21 characters.\<close>

definition parse_master_line :: "market_type \<Rightarrow> nat \<Rightarrow> string \<Rightarrow> stock_info option" where
  "parse_master_line mt part2_len line =
     (if length line \<le> part2_len then None
      else let part1 = take (length line - part2_len) line; short_code = strip (take 9 part1) in
        if length part1 < 21 then None
        else if \<not> (length short_code = 6 \<and> list_all is_digit short_code) then None
        else Some \<lparr>si_symbol = short_code, si_name = strip (drop 21 part1), si_market_type = mt\<rparr>)"

text \<open>A broken archive keeps the stocks read before the error.\<close>

definition parse_mst :: "service \<Rightarrow> string \<Rightarrow> market_type \<Rightarrow> nat \<Rightarrow> (kis, stock_info list) meth" where
  "parse_mst sv url mt part2_len s =
     (if \<not> ks_session s then (Inl (BrokerError ''BrokerError''), s)
      else (Inr (case sv_master_file sv url of
          Master_Client_Error \<Rightarrow> [] | Master_Status _ \<Rightarrow> []
        | Bad_Archive fs \<Rightarrow> List.map_filter (parse_master_line mt part2_len) (concat fs)
        | Archive fs \<Rightarrow> List.map_filter (parse_master_line mt part2_len) (concat fs)), s))"

definition kospi_url :: string where
  "kospi_url = ''https://new.real.download.dws.co.kr/common/master/kospi_code.mst.zip''"
definition kosdaq_url :: string where
  "kosdaq_url = ''https://new.real.download.dws.co.kr/common/master/kosdaq_code.mst.zip''"

definition get_stock_master :: "service \<Rightarrow> (kis, stock_info list) meth" where
  "get_stock_master sv = mbind (parse_mst sv kospi_url KOSPI 228) (\<lambda>xs.
     mbind (parse_mst sv kosdaq_url KOSDAQ 222) (\<lambda>ys. mret (xs @ ys)))"

section \<open>Orders\<close>

text \<open>
  \<open>str\<close> of a Decimal shows its exponent, which a rational does not have; \<open>show_dec\<close> stands for it.
  The domain model's order number is a number here; \<open>order_key\<close> reads the broker's text.
\<close>

definition order_params :: "(dec \<Rightarrow> string) \<Rightarrow> kis_config \<Rightarrow> order_request \<Rightarrow> json_object" where
  "order_params show_dec kc o' =
     [(''CANO'', kc_cano kc), (''ACNT_PRDT_CD'', kc_acnt_prdt_cd kc), (''PDNO'', rq_symbol o'),
      (''ORD_DVSN'', if rq_type o' = LIMIT then ''00'' else ''01''), (''ORD_QTY'', show_nat (nat (rq_quantity o'))),
      (''ORD_UNPR'', if rq_type o' = MARKET then ''0'' else case rq_price o' of
          None \<Rightarrow> ''0'' | Some p \<Rightarrow> if p = 0 then ''0'' else show_dec p)]
     @ (if rq_side o' = Side_BUY then [] else [(''SLL_TYPE'', ''01'')])"

definition order_tr_id :: "order_request \<Rightarrow> string" where
  "order_tr_id o' = (if rq_side o' = Side_BUY then ''TTTC0012U'' else ''TTTC0011U'')"

definition order_path :: string where
  "order_path = ''/uapi/domestic-stock/v1/trading/order-cash''"

definition kis_place_order ::
  "service \<Rightarrow> kis_config \<Rightarrow> fault_plan \<Rightarrow> (dec \<Rightarrow> string) \<Rightarrow> (string \<Rightarrow> nat) \<Rightarrow> datetime \<Rightarrow> order_request \<Rightarrow> (kis, order_result) meth" where
  "kis_place_order sv kc fl show_dec order_key now o' =
     mbind (kis_request sv kc fl ''POST'' order_path (order_tr_id o') '''' (order_params show_dec kc o')) (\<lambda>a.
     mret \<lparr>or_account_id = ''default'', or_order_id = order_key (field (an_output a) ''ODNO''), or_symbol = rq_symbol o',
       or_side = rq_side o', or_type = rq_type o', or_quantity = rq_quantity o',
       or_price = (case rq_price o' of None \<Rightarrow> 0 | Some p \<Rightarrow> p), or_status = SUBMITTED, or_filled_quantity = 0,
       or_filled_price = None, or_commission = 0, or_timestamp = now\<rparr>)"

definition kis_cancel_order :: "string \<Rightarrow> (kis, bool) meth" where
  "kis_cancel_order order_id = mraise (ExternalError ''NotImplementedError'')"

section \<open>Account\<close>

definition balance_params :: "kis_config \<Rightarrow> string \<Rightarrow> string \<Rightarrow> json_object" where
  "balance_params kc ctx_fk ctx_nk = [(''CANO'', kc_cano kc), (''ACNT_PRDT_CD'', kc_acnt_prdt_cd kc), (''AFHR_FLPR_YN'', ''N''),
     (''OFL_YN'', ''''), (''INQR_DVSN'', ''02''), (''UNPR_DVSN'', ''01''), (''FUND_STTL_ICLD_YN'', ''N''),
     (''FNCG_AMT_AUTO_RDPT_YN'', ''N''), (''PRCS_DVSN'', ''00''), (''CTX_AREA_FK100'', ctx_fk), (''CTX_AREA_NK100'', ctx_nk)]"

primrec balance_pages ::
  "nat \<Rightarrow> service \<Rightarrow> kis_config \<Rightarrow> fault_plan \<Rightarrow> string \<Rightarrow> string \<Rightarrow> string \<Rightarrow> json_object list \<Rightarrow> json_object option
     \<Rightarrow> (kis, json_object list \<times> json_object) meth" where
  "balance_pages 0 sv kc fl tr_cont ctx_fk ctx_nk items summary =
     mret (items, case summary of None \<Rightarrow> [] | Some j \<Rightarrow> j)"
| "balance_pages (Suc n) sv kc fl tr_cont ctx_fk ctx_nk items summary =
     mbind (kis_request sv kc fl ''GET'' ''/uapi/domestic-stock/v1/trading/inquire-balance'' ''TTTC8434R'' tr_cont
        (balance_params kc ctx_fk ctx_nk)) (\<lambda>a.
     let items' = items @ an_output1 a;
         summary' = (case summary of None \<Rightarrow> (case an_output2 a of [] \<Rightarrow> None | j # _ \<Rightarrow> Some j) | Some j \<Rightarrow> Some j)
     in if an_tr_cont a \<in> {''M'', ''F''}
        then balance_pages n sv kc fl ''N'' (field (an_top a) ''ctx_area_fk100'') (field (an_top a) ''ctx_area_nk100'') items' summary'
        else mret (items', case summary' of None \<Rightarrow> [] | Some j \<Rightarrow> j))"

definition fetch_balance_pages :: "service \<Rightarrow> kis_config \<Rightarrow> fault_plan \<Rightarrow> (kis, json_object list \<times> json_object) meth" where
  "fetch_balance_pages sv kc fl = balance_pages max_balance_pages sv kc fl '''' '''' '''' [] None"

definition balance_of :: "datetime \<Rightarrow> json_object list \<times> json_object \<Rightarrow> exc + account_balance" where
  "balance_of now pages = (case pages of (items, summary) \<Rightarrow>
     rbind (to_decimal (field summary ''dnca_tot_amt'')) (\<lambda>cash.
     rbind (to_decimal (field summary ''pchs_amt_smtl_amt'')) (\<lambda>invested.
     rbind (to_decimal (field summary ''evlu_pfls_smtl_amt'')) (\<lambda>unrealized.
     rbind (to_decimal (field summary ''tot_evlu_amt'')) (\<lambda>total_assets.
     rbind (to_decimal (field summary ''thdt_sll_amt'')) (\<lambda>sold.
     rbind (to_decimal (field summary ''thdt_buy_amt'')) (\<lambda>bought.
     Inr \<lparr>b_total_assets = total_assets, b_cash = cash, b_invested = invested, b_unrealized_pnl = unrealized,
          b_realized_pnl = 0, b_daily_pnl = dsub sold bought, b_daily_pnl_pct = 0,
          b_positions_count = length (filter (\<lambda>j. 0 < to_int (field j ''hldg_qty'')) items), b_timestamp = now\<rparr>)))))))"

definition kis_get_balance :: "service \<Rightarrow> kis_config \<Rightarrow> fault_plan \<Rightarrow> datetime \<Rightarrow> (kis, account_balance) meth" where
  "kis_get_balance sv kc fl now = mbind (fetch_balance_pages sv kc fl) (\<lambda>pages. mlift (\<lambda>_. balance_of now pages))"

fun holdings_of :: "datetime \<Rightarrow> json_object list \<Rightarrow> exc + position list" where
  "holdings_of now [] = Inr []"
| "holdings_of now (j # js) = (if 0 < to_int (field j ''hldg_qty'')
     then rbind (holding_to_domain now j) (\<lambda>p. rbind (holdings_of now js) (\<lambda>ps. Inr (p # ps)))
     else holdings_of now js)"

definition kis_get_positions :: "service \<Rightarrow> kis_config \<Rightarrow> fault_plan \<Rightarrow> datetime \<Rightarrow> (kis, position list) meth" where
  "kis_get_positions sv kc fl now = mbind (fetch_balance_pages sv kc fl) (\<lambda>(items, _). mlift (\<lambda>_. holdings_of now items))"

end
