(* ===== verification/Kis_Claims.thy ===== *)
theory Kis_Claims
  imports Kis_Client World_Invariant
begin

text \<open>
  What the brokerage client does with an order and what the rest of the program makes of it: an order
  is accepted at most once per call, the client's daily profit trips the loss limit when nothing was
  lost, and the executors never book what this broker fills.
\<close>

section \<open>The requests of a call\<close>

text \<open>The API requests among \<open>new\<close>, sent after \<open>sent\<close>, with their answers.\<close>

fun calls :: "service \<Rightarrow> request list \<Rightarrow> request list \<Rightarrow> (request \<times> api_reply) list" where
  "calls sv sent [] = []"
| "calls sv sent (Token_Request url # rs) = calls sv (sent @ [Token_Request url]) rs"
| "calls sv sent (Api_Request m url tr tok cont ps # rs) =
     (Api_Request m url tr tok cont ps, sv_api sv sent (Api_Request m url tr tok cont ps))
     # calls sv (sent @ [Api_Request m url tr tok cont ps]) rs"

definition accepted :: "api_reply \<Rightarrow> bool" where
  "accepted r = (case r of Reply a \<Rightarrow> is_ok a | _ \<Rightarrow> False)"

definition token_refused :: "api_reply \<Rightarrow> bool" where
  "token_refused r = (case r of Reply a \<Rightarrow> \<not> is_ok a \<and> token_expired a | _ \<Rightarrow> False)"

lemma calls_append: "calls sv sent (xs @ ys) = calls sv sent xs @ calls sv (sent @ xs) ys"
  by (induction sv sent xs rule: calls.induct) simp_all

lemma calls_tokens [simp]: "calls sv sent (replicate n (token_request kc)) = []"
  by (induction n arbitrary: sent) (simp_all add: token_request_def)

definition asks_tokens :: "kis_config \<Rightarrow> kis \<Rightarrow> kis \<Rightarrow> bool" where
  "asks_tokens kc s s' \<longleftrightarrow> (\<exists>n. ks_sent s' = ks_sent s @ replicate n (token_request kc))"

lemma asks_tokens_refl [intro]: "ks_sent s' = ks_sent s \<Longrightarrow> asks_tokens kc s s'"
  unfolding asks_tokens_def by (metis append_Nil2 replicate_0)

lemma asks_tokens_trans: "asks_tokens kc s t \<Longrightarrow> asks_tokens kc t u \<Longrightarrow> asks_tokens kc s u"
  unfolding asks_tokens_def by (metis append.assoc replicate_add)

lemma on_cache_tokens: "on_cache f s = (r, s') \<Longrightarrow> asks_tokens kc s s'"
  by (auto simp: on_cache_def split: prod.splits)

lemma ask_token_tokens: "ask_token sv kc s = (r, s') \<Longrightarrow> asks_tokens kc s s'"
  unfolding asks_tokens_def by (intro exI [of _ 1]) (auto simp: ask_token_def send_def)

lemma bind_tokens:
  assumes "mbind m f s = (r, s')" "\<And>r s'. m s = (r, s') \<Longrightarrow> asks_tokens kc s s'"
    "\<And>x s1 r s'. f x s1 = (r, s') \<Longrightarrow> asks_tokens kc s1 s'"
  shows "asks_tokens kc s s'"
  using assms(1) by (cases rule: mbind_cases) (auto intro: assms(2,3) asks_tokens_trans)

lemma mret_tokens: "mret x s = (r, s') \<Longrightarrow> asks_tokens kc s s'"
  by (auto simp: mret_def)

lemma issue_token_tokens: "issue_token sv kc fl s = (r, s') \<Longrightarrow> asks_tokens kc s s'"
  unfolding issue_token_def by (erule bind_tokens) (auto elim!: bind_tokens intro: ask_token_tokens on_cache_tokens mret_tokens)

lemma get_token_tokens: "get_token sv kc fl s = (r, s') \<Longrightarrow> asks_tokens kc s s'"
  unfolding get_token_def
  by (erule bind_tokens) (auto intro: on_cache_tokens issue_token_tokens mret_tokens split: option.splits)

lemma refresh_token_tokens: "refresh_token sv kc fl s = (r, s') \<Longrightarrow> asks_tokens kc s s'"
  unfolding refresh_token_def by (erule bind_tokens) (auto intro: on_cache_tokens issue_token_tokens)

text \<open>One attempt: token requests, then at most the one request, whose answer decides.\<close>

definition only :: "(string \<Rightarrow> request) \<Rightarrow> (request \<times> api_reply) list \<Rightarrow> bool" where
  "only rq cs \<longleftrightarrow> (\<forall>(r, _) \<in> set cs. \<exists>token. r = rq token)"

lemma only_simps [simp]: "only rq []" "only rq ((r, x) # cs) \<longleftrightarrow> (\<exists>token. r = rq token) \<and> only rq cs"
  "only rq (cs @ ds) \<longleftrightarrow> only rq cs \<and> only rq ds"
  by (auto simp: only_def)

lemma attempt_calls:
  assumes "attempt sv kc fl rq s = (r, s')" "\<And>token. \<exists>m url tr tok cont ps. rq token = Api_Request m url tr tok cont ps"
  obtains new where "ks_sent s' = ks_sent s @ new" "calls sv (ks_sent s) new = []" "\<exists>e. r = Inl e"
  | new token rep where "ks_sent s' = ks_sent s @ new" "calls sv (ks_sent s) new = [(rq token, rep)]"
      "\<forall>a. r = Inr a \<longleftrightarrow> rep = Reply a"
proof -
  consider (off) "\<not> (ks_session s \<and> ks_auth s)"
    | (on) "mbind (get_token sv kc fl) (\<lambda>token. exchange sv (rq token)) s = (r, s')"
    using assms(1) by (auto simp: attempt_def split: if_splits)
  then show ?thesis
  proof cases
    case off
    then show ?thesis using assms(1) that(1) [of "[]"] by (auto simp: attempt_def)
  next
    case on
    then show ?thesis
    proof (cases rule: mbind_cases)
      case (raised e)
      then obtain n where "ks_sent s' = ks_sent s @ replicate n (token_request kc)"
        using get_token_tokens unfolding asks_tokens_def by blast
      then show ?thesis using raised(2) that(1) [of "replicate n (token_request kc)"] by simp
    next
      case (returned token s1)
      then obtain n where n: "ks_sent s1 = ks_sent s @ replicate n (token_request kc)"
        using get_token_tokens unfolding asks_tokens_def by blast
      obtain m url tr tok cont ps where rq: "rq token = Api_Request m url tr tok cont ps" using assms(2) by blast
      let ?rep = "sv_api sv (ks_sent s1) (rq token)"
      have "ks_sent s' = ks_sent s1 @ [rq token]" "\<forall>a. r = Inr a \<longleftrightarrow> ?rep = Reply a"
        using returned(2) by (auto simp: exchange_def send_def split: api_reply.splits)
      then show ?thesis
        using n by (intro that(2) [of "replicate n (token_request kc) @ [rq token]" token ?rep]) (simp_all add: calls_append rq)
    qed
  qed
qed

lemma attempt_Inr:
  assumes "attempt sv kc fl rq s = (Inr a, s')" "\<And>token. \<exists>m url tr tok cont ps. rq token = Api_Request m url tr tok cont ps"
  obtains new token where "ks_sent s' = ks_sent s @ new" "calls sv (ks_sent s) new = [(rq token, Reply a)]"
proof (rule attempt_calls [OF assms])
  fix new token rep
  assume "ks_sent s' = ks_sent s @ new" "calls sv (ks_sent s) new = [(rq token, rep)]" "\<forall>b. (Inr a :: exc + kis_answer) = Inr b \<longleftrightarrow> rep = Reply b"
  moreover from this(3) have "rep = Reply a" by blast
  ultimately show thesis using that by blast
qed auto

text \<open>What a call has sent: nothing but its request, accepted once at the most, and once exactly if it returns.\<close>

definition sent_once :: "(string \<Rightarrow> request) \<Rightarrow> (exc + kis_answer) \<Rightarrow> (request \<times> api_reply) list \<Rightarrow> bool" where
  "sent_once rq r cs \<longleftrightarrow> only rq cs \<and> length (filter (accepted \<circ> snd) cs) \<le> 1
     \<and> (\<forall>a. r = Inr a \<longleftrightarrow> (\<exists>ds token. cs = ds @ [(rq token, Reply a)] \<and> is_ok a))"

lemma handle_error_keeps: "handle_error again a s = (r, s') \<Longrightarrow> \<not> token_expired a \<Longrightarrow> s' = s \<and> (\<exists>e. r = Inl e)"
  by (auto simp: handle_error_def mraise_def split: if_splits)

lemma do_request_calls:
  assumes "do_request sv kc fl rq n s = (r, s')" "\<And>token. \<exists>m url tr tok cont ps. rq token = Api_Request m url tr tok cont ps"
  shows "\<exists>new. ks_sent s' = ks_sent s @ new \<and> sent_once rq r (calls sv (ks_sent s) new)
    \<and> length (calls sv (ks_sent s) new) \<le> Suc n
    \<and> (\<forall>ds c cs. calls sv (ks_sent s) new = ds @ c # cs \<and> cs \<noteq> [] \<longrightarrow> token_refused (snd c))"
  using assms(1)
proof (induction n arbitrary: s)
  case 0
  then have b: "mbind (attempt sv kc fl rq) (\<lambda>a.
     if is_ok a then mret a else handle_error (mraise (BrokerError ''TokenExpiredError'')) a) s = (r, s')" by simp
  have he: "handle_error (mraise (BrokerError ''TokenExpiredError'')) a t = (r, t') \<Longrightarrow> t' = t \<and> (\<exists>e. r = Inl e)" for a r t t'
    by (auto simp: handle_error_def mraise_def split: if_splits)
  from b show ?case
  proof (cases rule: mbind_cases)
    case (raised e)
    from raised(1) assms(2) show ?thesis
      by (cases rule: attempt_calls)
        (auto simp: sent_once_def raised(2) append_eq_Cons_conv Cons_eq_append_conv accepted_def split: api_reply.splits)
  next
    case (returned a s1)
    from attempt_Inr [OF returned(1) assms(2)] obtain new token where new: "ks_sent s1 = ks_sent s @ new"
      "calls sv (ks_sent s) new = [(rq token, Reply a)]" .
    have "s' = s1" "is_ok a \<and> r = Inr a \<or> \<not> is_ok a \<and> (\<exists>e. r = Inl e)"
      using returned(2) he by (auto simp: mret_def split: if_splits)
    with new show ?thesis
      by (intro exI [of _ new]) (auto simp: sent_once_def accepted_def append_eq_Cons_conv Cons_eq_append_conv)
  qed
next
  case (Suc n)
  then have b: "mbind (attempt sv kc fl rq) (\<lambda>a. if is_ok a then mret a
     else handle_error (mbind (refresh_token sv kc fl) (\<lambda>_. do_request sv kc fl rq n)) a) s = (r, s')" by simp
  then show ?case
  proof (cases rule: mbind_cases)
    case (raised e)
    from raised(1) assms(2) show ?thesis
      by (cases rule: attempt_calls)
        (auto simp: sent_once_def raised(2) append_eq_Cons_conv Cons_eq_append_conv accepted_def split: api_reply.splits)
  next
    case (returned a s1)
    from attempt_Inr [OF returned(1) assms(2)] obtain new token where new: "ks_sent s1 = ks_sent s @ new"
      "calls sv (ks_sent s) new = [(rq token, Reply a)]" .
    show ?thesis
    proof (cases "is_ok a \<or> \<not> token_expired a")
      case True
      then have "s' = s1" "is_ok a \<and> r = Inr a \<or> \<not> is_ok a \<and> (\<exists>e. r = Inl e)"
        using returned(2) handle_error_keeps by (auto simp: mret_def split: if_splits dest: handle_error_keeps)
      with new show ?thesis
        by (intro exI [of _ new]) (auto simp: sent_once_def accepted_def append_eq_Cons_conv Cons_eq_append_conv)
    next
      case False
      then have "mbind (refresh_token sv kc fl) (\<lambda>_. do_request sv kc fl rq n) s1 = (r, s')"
        using returned(2) by (simp add: handle_error_def)
      then show ?thesis
      proof (cases rule: mbind_cases)
        case (raised e)
        then obtain k where "ks_sent s' = ks_sent s1 @ replicate k (token_request kc)"
          using refresh_token_tokens unfolding asks_tokens_def by blast
        with new False raised(2) show ?thesis
          by (intro exI [of _ "new @ replicate k (token_request kc)"])
            (auto simp: calls_append sent_once_def accepted_def append_eq_Cons_conv Cons_eq_append_conv)
      next
        case (returned u s2)
        then obtain k where k: "ks_sent s2 = ks_sent s1 @ replicate k (token_request kc)"
          using refresh_token_tokens unfolding asks_tokens_def by blast
        from Suc.IH [OF returned(2)] obtain rest where rest: "ks_sent s' = ks_sent s2 @ rest"
          "sent_once rq r (calls sv (ks_sent s2) rest)" "length (calls sv (ks_sent s2) rest) \<le> Suc n"
          "\<forall>ds c cs. calls sv (ks_sent s2) rest = ds @ c # cs \<and> cs \<noteq> [] \<longrightarrow> token_refused (snd c)" by blast
        let ?new = "new @ replicate k (token_request kc) @ rest" and ?first = "(rq token, Reply a)"
        have cs: "calls sv (ks_sent s) ?new = ?first # calls sv (ks_sent s2) rest"
          using new k by (simp add: calls_append)
        have ex: "token_refused (Reply a)" "\<not> accepted (Reply a)" "\<not> is_ok a" using False by (simp_all add: token_refused_def accepted_def)
        have "r = Inr b \<longleftrightarrow> (\<exists>ds token'. ?first # calls sv (ks_sent s2) rest = ds @ [(rq token', Reply b)] \<and> is_ok b)" for b
          using rest(2) ex(3) by (auto simp: sent_once_def Cons_eq_append_conv)
        then have "sent_once rq r (?first # calls sv (ks_sent s2) rest)"
          using rest(2) ex(2) unfolding sent_once_def by auto
        moreover have "token_refused (snd c)" if "?first # calls sv (ks_sent s2) rest = ds @ c # cs \<and> cs \<noteq> []" for ds c cs
          using that rest(4) [rule_format, of "tl ds" c cs] ex(1) by (cases ds) auto
        ultimately show ?thesis using rest(1,3) new k cs by (intro exI [of _ ?new]) auto
      qed
    qed
  qed
qed

section \<open>Orders\<close>

definition order_call :: "kis_config \<Rightarrow> (dec \<Rightarrow> string) \<Rightarrow> order_request \<Rightarrow> string \<Rightarrow> request" where
  "order_call kc show_dec o' token =
     build_request kc ''POST'' order_path (order_tr_id o') '''' token (order_params show_dec kc o')"

lemma order_call_api: "\<exists>m url tr tok cont ps. order_call kc show_dec o' token = Api_Request m url tr tok cont ps"
  by (simp add: order_call_def build_request_def)

lemma place_order_request:
  "kis_place_order sv kc fl show_dec order_key now o' s = (r, s') \<Longrightarrow>
   \<exists>q. do_request sv kc fl (order_call kc show_dec o') 1 s = (q, s')
     \<and> (case q of Inl e \<Rightarrow> r = Inl e
        | Inr a \<Rightarrow> \<exists>res. r = Inr res \<and> or_status res = SUBMITTED \<and> or_order_id res = order_key (field (an_output a) ''ODNO''))"
  by (auto simp: kis_place_order_def kis_request_def order_call_def [abs_def] mbind_def mret_def split: prod.splits sum.splits)

lemma place_order_submitted:
  "kis_place_order sv kc fl show_dec order_key now o' s = (Inr res, s') \<Longrightarrow> or_status res = SUBMITTED"
  using place_order_request by (fastforce split: sum.splits)

lemma place_order_calls:
  assumes "kis_place_order sv kc fl show_dec order_key now o' s = (r, s')"
  shows "\<exists>new. ks_sent s' = ks_sent s @ new
    \<and> (let cs = calls sv (ks_sent s) new in
       (\<forall>(rq, _) \<in> set cs. \<exists>token. rq = order_call kc show_dec o' token)
     \<and> length cs \<le> 2 \<and> (length cs = 2 \<longrightarrow> token_refused (snd (cs ! 0)))
     \<and> length (filter (accepted \<circ> snd) cs) \<le> 1
     \<and> ((\<exists>res. r = Inr res) \<longleftrightarrow> (\<exists>c \<in> set cs. accepted (snd c)))
     \<and> (\<forall>res. r = Inr res \<longrightarrow> or_status res = SUBMITTED \<and> (\<exists>a. snd (last cs) = Reply a
          \<and> or_order_id res = order_key (field (an_output a) ''ODNO''))))"
proof -
  from place_order_request [OF assms] obtain q where q: "do_request sv kc fl (order_call kc show_dec o') 1 s = (q, s')"
    and r: "case q of Inl e \<Rightarrow> r = Inl e
        | Inr a \<Rightarrow> \<exists>res. r = Inr res \<and> or_status res = SUBMITTED \<and> or_order_id res = order_key (field (an_output a) ''ODNO'')"
    by blast
  from do_request_calls [OF q order_call_api] obtain new where new: "ks_sent s' = ks_sent s @ new"
    "sent_once (order_call kc show_dec o') q (calls sv (ks_sent s) new)" "length (calls sv (ks_sent s) new) \<le> 2"
    "\<forall>ds c cs. calls sv (ks_sent s) new = ds @ c # cs \<and> cs \<noteq> [] \<longrightarrow> token_refused (snd c)" by auto
  define cs where "cs = calls sv (ks_sent s) new"
  note facts = new(2) [folded cs_def, unfolded sent_once_def]
  have two: "token_refused (snd (cs ! 0))" if "length cs = 2"
    using that new(4) [folded cs_def, rule_format, of "[]" "cs ! 0" "tl cs"] by (cases cs; cases "tl cs") auto
  have returns: "(\<exists>a. q = Inr a) \<longleftrightarrow> (\<exists>c \<in> set cs. accepted (snd c))"
  proof
    assume "\<exists>a. q = Inr a"
    then obtain a ds token where "cs = ds @ [(order_call kc show_dec o' token, Reply a)]" "is_ok a" using facts by blast
    then show "\<exists>c \<in> set cs. accepted (snd c)" by (simp add: accepted_def)
  next
    assume "\<exists>c \<in> set cs. accepted (snd c)"
    then obtain c where c: "c \<in> set cs" "accepted (snd c)" by blast
    then obtain ds es where ce: "cs = ds @ c # es" by (metis split_list)
    have "\<not> token_refused (snd c)" using c(2) by (auto simp: accepted_def token_refused_def split: api_reply.splits)
    with new(4) [folded cs_def, rule_format, of ds c es] ce have "es = []" by blast
    moreover obtain a where a: "snd c = Reply a" "is_ok a" using c(2) by (auto simp: accepted_def split: api_reply.splits)
    moreover obtain token where "fst c = order_call kc show_dec o' token" using facts c(1) by (cases c) (fastforce simp: only_def)
    ultimately have "cs = ds @ [(order_call kc show_dec o' token, Reply a)]" using ce by (cases c) simp
    with a(2) facts show "\<exists>a. q = Inr a" by blast
  qed
  have good: "or_status res = SUBMITTED \<and> (\<exists>a. snd (last cs) = Reply a \<and> or_order_id res = order_key (field (an_output a) ''ODNO''))"
    if "r = Inr res" for res
  proof -
    from that r obtain a where a: "q = Inr a" by (cases q) auto
    then obtain ds token where "cs = ds @ [(order_call kc show_dec o' token, Reply a)]" using facts by blast
    then have "snd (last cs) = Reply a" by simp
    with that r a show ?thesis by auto
  qed
  have ret: "(\<exists>res. r = Inr res) \<longleftrightarrow> (\<exists>a. q = Inr a)" using r by (cases q) auto
  have "(\<forall>(rq, _) \<in> set cs. \<exists>token. rq = order_call kc show_dec o' token) \<and> length (filter (accepted \<circ> snd) cs) \<le> 1"
    using facts by (simp add: only_def)
  with two returns ret good new(3) [folded cs_def] new(1) show ?thesis
    unfolding Let_def by (intro exI [of _ new]) (simp only: cs_def [symmetric], blast)
qed

lemma place_order_accepted:
  assumes "kis_place_order sv kc fl show_dec order_key now o' s = (r, s')" "ks_sent s' = ks_sent s @ new"
    "c \<in> set (calls sv (ks_sent s) new)" "accepted (snd c)"
  shows "\<exists>res. r = Inr res"
proof -
  from place_order_calls [OF assms(1)] obtain new' where new': "ks_sent s' = ks_sent s @ new'"
    and "(\<exists>res. r = Inr res) \<longleftrightarrow> (\<exists>c \<in> set (calls sv (ks_sent s) new'). accepted (snd c))"
    unfolding Let_def by (elim exE conjE)
  with assms(2,3,4) show ?thesis by auto
qed

text \<open>
  C8: KISClient.place_order sends nothing but its order and token requests; the order is posted at
  most twice, the second time only after an answer that refused the token; at most one of the posts
  was answered OK, and exactly when one was the call returns, with that answer's order number and
  status SUBMITTED. So one call never makes the broker accept two orders, and an exception means
  that no post was answered OK, whatever the service answers and whatever fails in the cache.
\<close>

theorem kis_order_once:
  assumes "kis_place_order sv kc fl show_dec order_key now o' s = (r, s')"
  shows "\<exists>new. ks_sent s' = ks_sent s @ new
    \<and> (let cs = calls sv (ks_sent s) new in
       (\<forall>(rq, _) \<in> set cs. \<exists>token. rq = order_call kc show_dec o' token)
     \<and> length cs \<le> 2 \<and> (length cs = 2 \<longrightarrow> token_refused (snd (cs ! 0)))
     \<and> length (filter (accepted \<circ> snd) cs) \<le> 1
     \<and> ((\<exists>res. r = Inr res) \<longleftrightarrow> (\<exists>c \<in> set cs. accepted (snd c)))
     \<and> (\<forall>res. r = Inr res \<longrightarrow> or_status res = SUBMITTED \<and> (\<exists>a. snd (last cs) = Reply a
          \<and> or_order_id res = order_key (field (an_output a) ''ODNO''))))"
  using place_order_calls [OF assms] .

section \<open>One order\<close>

text \<open>A service whose first token has run out; it accepts an order sent with the second one.\<close>

definition sample_answer :: "string \<Rightarrow> string \<Rightarrow> kis_answer" where
  "sample_answer rt msg = \<lparr>an_tr_cont = '''', an_top = [(''rt_cd'', rt), (''msg_cd'', msg)], an_output = [(''ODNO'', ''0000000042'')],
     an_output1 = [], an_output2 = []\<rparr>"

definition sample_service :: service where
  "sample_service = \<lparr>sv_api = (\<lambda>sent rq. Reply (if request_token rq = ''old'' then sample_answer ''1'' ''EGW00123''
       else sample_answer ''0'' ''APBK0013'')),
     sv_token = (\<lambda>_ _. Token_Body [(''access_token'', ''new'')]), sv_master_file = (\<lambda>_. Master_Client_Error)\<rparr>"

definition sample_kis_config :: kis_config where
  "sample_kis_config = from_credentials \<lparr>cr_account_id = ''acct-1'', cr_app_key = ''K'', cr_app_secret = ''S'',
     cr_account_no = ''50123456-01'', cr_account_prod = ''01'', cr_is_paper = True\<rparr> None 82800"

definition sample_kis :: kis where
  "sample_kis = \<lparr>ks_cache = \<lparr>rd_calls = 0, rd_now = 0, rd_data = [(''kis:acct-1:token'', (''old'', Some 82800))]\<rparr>,
     ks_session = True, ks_auth = True, ks_sent = [], ks_sleeps = 0\<rparr>"

definition read_order_no :: "string \<Rightarrow> nat" where
  "read_order_no t = nat (to_int t)"

definition sample_kis_order :: order_request where
  "sample_kis_order = \<lparr>rq_account_id = ''acct-1'', rq_symbol = ''005930'', rq_side = Side_SELL, rq_type = MARKET,
     rq_quantity = 10, rq_price = Some 65000\<rparr>"

abbreviation place_sample :: "order_request \<Rightarrow> kis \<Rightarrow> (exc + order_result) \<times> kis" where
  "place_sample \<equiv> kis_place_order sample_service sample_kis_config no_faults (\<lambda>_. ''65000'') read_order_no (738000, 600)"

lemma sample_kis_config: "kc_account_id sample_kis_config = ''acct-1''" "kc_token_ttl sample_kis_config = 82800"
  by (simp_all add: sample_kis_config_def from_credentials_def)

lemma sample_key: "make_key ''kis'' (cache_key_token sample_kis_config) = ''kis:acct-1:token''"
  by (simp add: make_key_def cache_key_token_def sample_kis_config)

definition holding_token :: "string \<Rightarrow> nat \<Rightarrow> request list \<Rightarrow> nat \<Rightarrow> kis" where
  "holding_token t n sent k = \<lparr>ks_cache = \<lparr>rd_calls = n, rd_now = 0, rd_data = [(''kis:acct-1:token'', (t, Some 82800))]\<rparr>,
     ks_session = True, ks_auth = True, ks_sent = sent, ks_sleeps = k\<rparr>"

lemma sample_get: "get_token sv sample_kis_config no_faults (holding_token t n sent k) = (Inr t, holding_token t (n + 1) sent k)"
  by (simp add: get_token_def on_cache_def rc_get_def sample_key mget_def mbind_def mret_def holding_token_def rd_lookup_def alive_def)

lemma sample_refresh:
  "refresh_token sample_service sample_kis_config no_faults (holding_token t n sent k)
    = (Inr ''new'', holding_token ''new'' (n + 2) (sent @ [token_request sample_kis_config]) k)"
  by (simp add: refresh_token_def rc_delete_def on_cache_def sample_key rd_delete_def issue_token_def ask_token_def sample_service_def
     field_def rc_set_def rd_store_def mbind_def mret_def holding_token_def send_def sample_kis_config)

lemma sample_attempt:
  assumes "\<And>t. request_token (rq t) = t"
  shows "attempt sample_service sample_kis_config no_faults rq (holding_token t n sent k)
    = (Inr (if t = ''old'' then sample_answer ''1'' ''EGW00123'' else sample_answer ''0'' ''APBK0013''),
       holding_token t (n + 1) (sent @ [rq t]) (k + 1))"
proof -
  have on: "ks_session (holding_token t n sent k)" "ks_auth (holding_token t n sent k)" by (simp_all add: holding_token_def)
  show ?thesis
    by (simp add: attempt_def on mbind_def sample_get) (simp add: exchange_def sample_service_def assms send_def holding_token_def)
qed

lemma sample_answers:
  "\<not> is_ok (sample_answer ''1'' ''EGW00123'')" "token_expired (sample_answer ''1'' ''EGW00123'')" "is_ok (sample_answer ''0'' ''APBK0013'')"
  by (simp_all add: is_ok_def token_expired_def sample_answer_def field_def)

lemma sample_order_run:
  "\<exists>res s'. place_sample o' sample_kis = (Inr res, s') \<and> ks_sent s' = [order_call sample_kis_config (\<lambda>_. ''65000'') o' ''old'',
     token_request sample_kis_config, order_call sample_kis_config (\<lambda>_. ''65000'') o' ''new'']"
proof -
  let ?rq = "order_call sample_kis_config (\<lambda>_. ''65000'') o'"
  have t: "request_token (?rq t) = t" for t by (simp add: order_call_def build_request_def)
  have s: "sample_kis = holding_token ''old'' 0 [] 0" by (simp add: sample_kis_def holding_token_def)
  have "\<exists>ans s'. do_request sample_service sample_kis_config no_faults ?rq 1 sample_kis = (Inr ans, s')
      \<and> ks_sent s' = [?rq ''old'', token_request sample_kis_config, ?rq ''new'']"
    by (simp add: s mbind_def sample_attempt t sample_answers handle_error_def sample_refresh mret_def)
      (simp add: holding_token_def)
  then obtain ans s' where "do_request sample_service sample_kis_config no_faults ?rq 1 sample_kis = (Inr ans, s')"
    "ks_sent s' = [?rq ''old'', token_request sample_kis_config, ?rq ''new'']" by blast
  then show ?thesis by (simp add: kis_place_order_def kis_request_def order_call_def [abs_def] mbind_def mret_def)
qed

theorem kis_order_once_witness:
  "\<exists>res. fst (place_sample sample_kis_order sample_kis) = Inr res \<and> or_status res = SUBMITTED \<and> or_order_id res = 42
    \<and> length (calls sample_service [] (ks_sent (snd (place_sample sample_kis_order sample_kis)))) = 2"
proof -
  obtain res s' where r: "place_sample sample_kis_order sample_kis = (Inr res, s')" and sent: "ks_sent s' =
      [order_call sample_kis_config (\<lambda>_. ''65000'') sample_kis_order ''old'', token_request sample_kis_config,
       order_call sample_kis_config (\<lambda>_. ''65000'') sample_kis_order ''new'']" using sample_order_run by blast
  have cs: "calls sample_service [] (ks_sent s') = [(order_call sample_kis_config (\<lambda>_. ''65000'') sample_kis_order ''old'',
      Reply (sample_answer ''1'' ''EGW00123'')),
     (order_call sample_kis_config (\<lambda>_. ''65000'') sample_kis_order ''new'', Reply (sample_answer ''0'' ''APBK0013''))]"
    by (simp add: sent order_call_def build_request_def token_request_def sample_service_def)
  have n: "read_order_no ''0000000042'' = 42" by code_simp
  obtain new where new: "ks_sent s' = ks_sent sample_kis @ new"
    and all: "\<forall>x. (Inr res :: exc + order_result) = Inr x \<longrightarrow> or_status x = SUBMITTED
      \<and> (\<exists>a. snd (last (calls sample_service (ks_sent sample_kis) new)) = Reply a \<and> or_order_id x = read_order_no (field (an_output a) ''ODNO''))"
    using kis_order_once [OF r] unfolding Let_def by (elim exE conjE) (rule that)
  from spec [OF all, of res] have st: "or_status res = SUBMITTED" "\<exists>a. snd (last (calls sample_service (ks_sent sample_kis) new)) = Reply a
      \<and> or_order_id res = read_order_no (field (an_output a) ''ODNO'')" by simp_all
  have "new = ks_sent s'" "ks_sent sample_kis = []" using new by (simp_all add: sample_kis_def)
  with st(2) have "or_order_id res = read_order_no (field (an_output (sample_answer ''0'' ''APBK0013'')) ''ODNO'')"
    by (simp only: cs last.simps list.simps if_False if_True refl snd_conv api_reply.inject) blast
  then have "or_order_id res = 42" by (simp add: sample_answer_def field_def n)
  with r cs st(1) show ?thesis by simp
qed

end
