(* ===== verification/Kis_Execution.thy ===== *)
theory Kis_Execution
  imports Kis_Claims
begin

text \<open>
  \<open>OrderExecutor\<close> with \<open>KISClient\<close> as its broker: the client answers every accepted order with status
  SUBMITTED, which the executor takes for a failure. The world's broker is the client's state.
\<close>

section \<open>The order step with this broker\<close>

text \<open>Between the two worlds the service answered an order with OK.\<close>

definition ordered :: "service \<Rightarrow> kis world \<Rightarrow> kis world \<Rightarrow> bool" where
  "ordered sv w w' \<longleftrightarrow> (\<exists>new. ks_sent (w_broker w') = ks_sent (w_broker w) @ new
     \<and> (\<exists>c \<in> set (calls sv (ks_sent (w_broker w)) new). accepted (snd c)))"

lemma ordered_changes: "ordered sv w w' \<Longrightarrow> w_broker w' \<noteq> w_broker w"
  by (auto simp: ordered_def)

text \<open>What is left in the books of a step: nothing, and a failed order if the service took it.\<close>

definition marked_failed :: "service \<Rightarrow> int \<Rightarrow> kis world \<Rightarrow> exc + execution_result \<Rightarrow> kis world \<Rightarrow> bool" where
  "marked_failed sv oid w res w' \<longleftrightarrow> (ordered sv w w' \<longrightarrow> (\<exists>r. res = Inr r \<and> xr_error r = Broker_Failed SUBMITTED
     \<and> xr_order_id r = Some oid \<and> (\<forall>o' \<in> set (w_orders w'). od_id o' = oid \<longrightarrow> od_status o' = FAILED)))"

definition submit_order :: "kis executor \<Rightarrow> order_context \<Rightarrow> int \<Rightarrow> int \<Rightarrow> approval_status \<Rightarrow> web_verification
    \<Rightarrow> exc + order_request \<Rightarrow> (order_result \<Rightarrow> (kis world, execution_result) meth) \<Rightarrow> (kis world, execution_result) meth" where
  "submit_order xe c oid q st v mk book = mbind (mlift (\<lambda>_. mk)) (\<lambda>rq. mbind (broker_order xe rq) (\<lambda>r.
     if or_status r \<notin> {FILLED, PARTIALLY_FILLED} then fail_order xe c oid q st v (or_status r) else book r))"

lemma submit_steps:
  "place_entry xe a oid st v q = submit_order xe (entry_context a) oid q st v (mk_order_request (ea_account_id a)
      (td_symbol (ea_decision a)) (oc_side (entry_context a)) (td_order_type (ea_decision a)) q (Some (entry_price a)))
      (book_fill xe a oid st v q)"
  "place_exit xe e oid st v = submit_order xe (exit_context e) oid (pr_quantity (xa_position e)) st v (mk_order_request (xa_account_id e)
      (xs_symbol (xa_signal e)) Side_SELL (exit_order_type (xa_signal e)) (pr_quantity (xa_position e))
      (Some (xs_current_price (xa_signal e)))) (book_exit_fill xe e oid st v)"
  by (simp_all add: place_entry_def place_exit_def submit_order_def)

lemma broker_order_keeps:
  "broker_order xe rq w = (r, w') \<Longrightarrow> w_positions w' = w_positions w \<and> w_executions w' = w_executions w \<and> w_orders w' = w_orders w"
  by (auto simp: broker_order_def Let_def split_beta)

lemma submit_cases:
  assumes "submit_order xe c oid q st v mk book w = (res, w')" "xe_place xe = kis_place_order sv kc fl show_dec order_key now"
  obtains e where "res = Inl e" "w' = w"
  | rq e where "res = Inl e" "broker_order xe rq w = (Inl e, w')"
  | rq r w1 where "broker_order xe rq w = (Inr r, w1)" "fail_order xe c oid q st v SUBMITTED w1 = (res, w')"
proof -
  from assms(1) show ?thesis unfolding submit_order_def
  proof (cases rule: mbind_cases)
    case (raised e)
    with that(1) show ?thesis by (auto simp: mlift_def)
  next
    case (returned rq w0)
    then have w0: "w0 = w" by (simp add: mlift_def)
    from returned(2) show ?thesis
    proof (cases rule: mbind_cases)
      case (raised e)
      with that(2) w0 show ?thesis by blast
    next
      case (returned r w1)
      then have "or_status r = SUBMITTED"
        using place_order_submitted [of sv kc fl show_dec order_key now rq "w_broker w" r "w_broker w1"]
        by (auto simp: broker_order_def assms(2) Let_def split_beta w0 prod_eq_iff)
      with returned that(3) w0 show ?thesis by auto
    qed
  qed
qed

lemma submit_stays:
  assumes "xe_place xe = kis_place_order sv kc fl show_dec order_key now"
  shows "stays w_positions (submit_order xe c oid q st v mk book)" "stays w_executions (submit_order xe c oid q st v mk book)"
proof -
  have "w_positions w' = w_positions w \<and> w_executions w' = w_executions w"
    if "submit_order xe c oid q st v mk book w = (res, w')" for w w' res
    using that assms
  proof (cases rule: submit_cases)
    case (3 rq r w1)
    then show ?thesis
      using broker_order_keeps staysD [OF cancel_stays(8)] staysD [OF cancel_stays(9)] by metis
  qed (auto dest: broker_order_keeps)
  from this [OF prod.collapse [symmetric]] show "stays w_positions (submit_order xe c oid q st v mk book)"
    "stays w_executions (submit_order xe c oid q st v mk book)" by (simp_all add: stays_def)
qed

lemma fail_order_faultless:
  assumes "xe_faults xe = no_faults" "fail_order xe c oid q st v bs w = (res, w')"
  shows "\<exists>r. res = Inr r \<and> xr_error r = Broker_Failed bs \<and> xr_order_id r = Some oid
    \<and> (\<forall>o' \<in> set (w_orders w'). od_id o' = oid \<longrightarrow> od_status o' = FAILED)"
proof -
  let ?f = "\<lambda>r :: order_row. r\<lparr>od_status := FAILED, od_rejection_reason := Broker_Failed bs\<rparr>"
  obtain w1 where u: "update_order no_faults oid ?f w = (Inr (), w1)"
    by (simp add: update_order_def ext_def effect_def no_faults_def)
  with assms have "w' = w1" "res = Inr (fail_result c (Some oid) q st (Some (wv_result v)) [] (Broker_Failed bs))"
    by (simp_all add: fail_order_def mbind_def mret_def)
  moreover have "od_status o' = FAILED" if "o' \<in> set (w_orders w1)" "od_id o' = oid" for o'
    using set_order_rows [OF that(1) [unfolded update_order_Inr [OF u]] that(2)] by fastforce
  ultimately show ?thesis by (simp add: fail_result_def)
qed

lemma submit_marks:
  assumes "submit_order xe c oid q st v mk book w = (res, w')" "xe_place xe = kis_place_order sv kc fl show_dec order_key now"
    "xe_faults xe = no_faults"
  shows "marked_failed sv oid w res w'"
  unfolding marked_failed_def
proof
  assume o': "ordered sv w w'"
  from assms(1,2) show "\<exists>r. res = Inr r \<and> xr_error r = Broker_Failed SUBMITTED
     \<and> xr_order_id r = Some oid \<and> (\<forall>o' \<in> set (w_orders w'). od_id o' = oid \<longrightarrow> od_status o' = FAILED)"
  proof (cases rule: submit_cases)
    case (1 e)
    with ordered_changes [OF o'] show ?thesis by simp
  next
    case (2 rq e)
    then have k: "kis_place_order sv kc fl show_dec order_key now rq (w_broker w) = (Inl e, w_broker w')"
      by (auto simp: broker_order_def assms(2) Let_def split_beta prod_eq_iff)
    obtain new c where "ks_sent (w_broker w') = ks_sent (w_broker w) @ new"
      "c \<in> set (calls sv (ks_sent (w_broker w)) new)" "accepted (snd c)" using o' by (auto simp: ordered_def)
    with place_order_accepted [OF k] show ?thesis by blast
  next
    case (3 rq r w1)
    with fail_order_faultless [OF assms(3)] show ?thesis by blast
  qed
qed

lemma submit_fails:
  assumes "submit_order xe c oid q st v mk book w = (Inr r, w')" "xe_place xe = kis_place_order sv kc fl show_dec order_key now"
  shows "\<not> xr_success r"
  using assms by (cases rule: submit_cases) (auto simp: fail_order_def res_simps)

section \<open>The whole path\<close>

text \<open>What both paths put behind the gates.\<close>

definition unbooked :: "service \<Rightarrow> kis executor \<Rightarrow> int \<Rightarrow> (kis world, execution_result) meth \<Rightarrow> bool" where
  "unbooked sv xe oid m \<longleftrightarrow> stays w_positions m \<and> stays w_executions m \<and> (\<forall>w r w'. m w = (Inr r, w') \<longrightarrow> \<not> xr_success r)
     \<and> (xe_faults xe = no_faults \<longrightarrow> (\<forall>w r w'. m w = (r, w') \<longrightarrow> marked_failed sv oid w r w'))"

lemma unbookedI:
  assumes "stays w_positions m" "stays w_executions m" "\<And>w r w'. m w = (Inr r, w') \<Longrightarrow> \<not> xr_success r"
    "\<And>w r w'. xe_faults xe = no_faults \<Longrightarrow> m w = (r, w') \<Longrightarrow> marked_failed sv oid w r w'"
  shows "unbooked sv xe oid m"
  using assms by (simp add: unbooked_def)

lemma marked_failed_unchanged: "w_broker w' = w_broker w \<Longrightarrow> marked_failed sv oid w r w'"
  unfolding marked_failed_def using ordered_changes by blast

lemma marked_failed_from: "marked_failed sv oid w1 r w' \<Longrightarrow> w_broker w1 = w_broker w \<Longrightarrow> marked_failed sv oid w r w'"
  by (simp add: marked_failed_def ordered_def)

lemma submit_unbooked:
  "xe_place xe = kis_place_order sv kc fl show_dec order_key now \<Longrightarrow> unbooked sv xe oid (submit_order xe c oid q st v mk book)"
  by (intro unbookedI submit_stays submit_marks; (rule submit_fails)?; assumption?)

lemma gate_unbooked:
  assumes "\<And>st v. unbooked sv (wired ap llm xe) oid (run st v)"
  shows "unbooked sv (wired ap llm xe) oid (gate_order (wired ap llm xe) c oid sl args run)"
proof (rule unbookedI)
  have run: "stays w_positions (run st v)" "stays w_executions (run st v)" for st v
    using assms by (simp_all add: unbooked_def)
  show "stays w_positions (gate_order (wired ap llm xe) c oid sl args run)"
    unfolding gate_order_def by (intro stays_intros live.verify_order_stays live.approve_books run)
  show "stays w_executions (gate_order (wired ap llm xe) c oid sl args run)"
    unfolding gate_order_def by (intro stays_intros live.verify_order_stays live.approve_books run)
next
  fix w r w' assume g: "gate_order (wired ap llm xe) c oid sl args run w = (Inr r, w')"
  show "\<not> xr_success r"
  proof
    assume "xr_success r"
    from live.gate_success [OF g this] obtain st v w3 where "run st v w3 = (Inr r, w')" by blast
    with assms [of st v] \<open>xr_success r\<close> show False unfolding unbooked_def by blast
  qed
next
  fix w r w' assume fl: "xe_faults (wired ap llm xe) = no_faults" and g: "gate_order (wired ap llm xe) c oid sl args run w = (r, w')"
  show "marked_failed sv oid w r w'"
  proof (cases "w_broker w' = w_broker w")
    case True
    then show ?thesis by (rule marked_failed_unchanged)
  next
    case False
    from live.gate_runs [OF g False] obtain st v w3 where "run st v w3 = (r, w')" "w_broker w3 = w_broker w" by blast
    with assms [of st v] fl show ?thesis unfolding unbooked_def using marked_failed_from by blast
  qed
qed

lemma entry_unbooked:
  assumes "xe_place xe = kis_place_order sv kc fl show_dec order_key now"
  shows "unbooked sv (wired ap llm xe) oid (entry_body (wired ap llm xe) a oid)"
  unfolding entry_body_def
proof (rule gate_unbooked)
  fix st v
  let ?xe = "wired ap llm xe"
  have p: "unbooked sv ?xe oid (place_entry ?xe a oid st v q)" for q
    unfolding submit_steps using assms by (intro submit_unbooked) simp
  let ?m = "mbind (effective_quantity ?xe a oid st v) (\<lambda>eq. case eq of Inl r \<Rightarrow> mret r | Inr q \<Rightarrow> place_entry ?xe a oid st v q)"
  have s: "stays w_positions (place_entry ?xe a oid st v q)" "stays w_executions (place_entry ?xe a oid st v q)" for q
    using p by (simp_all add: unbooked_def)
  show "unbooked sv ?xe oid ?m"
  proof (rule unbookedI)
    show "stays w_positions ?m" "stays w_executions ?m"
      by (intro stays_intros s; auto intro!: stays_intros s split: sum.split)+
  next
    fix w r w' assume "?m w = (Inr r, w')"
    then obtain eq w1 where eq: "effective_quantity ?xe a oid st v w = (Inr eq, w1)"
      and rest: "(case eq of Inl r \<Rightarrow> mret r | Inr q \<Rightarrow> place_entry ?xe a oid st v q) w1 = (Inr r, w')" by (auto simp: mbind_Inr)
    show "\<not> xr_success r"
    proof (cases eq)
      case (Inl r')
      with rest have "r' = r" by (simp add: mret_def)
      with eq Inl show ?thesis
        by (auto simp: effective_quantity_def res_simps split: option.splits if_splits dest!: rejected_fails)
    next
      case (Inr q)
      with rest p [of q] show ?thesis unfolding unbooked_def by auto
    qed
  next
    fix w r w' assume fl: "xe_faults ?xe = no_faults" and m: "?m w = (r, w')"
    from m show "marked_failed sv oid w r w'"
    proof (cases rule: mbind_cases)
      case (raised e)
      then show ?thesis using staysD [OF effective_stays(1)] by (intro marked_failed_unchanged) blast
    next
      case (returned eq w1)
      then have w1: "w_broker w1 = w_broker w" using staysD [OF effective_stays(1)] by blast
      show ?thesis
      proof (cases eq)
        case (Inl r')
        with returned(2) w1 show ?thesis by (intro marked_failed_unchanged) (simp add: mret_def)
      next
        case (Inr q)
        with returned(2) p [of q] fl have "marked_failed sv oid w1 r w'" unfolding unbooked_def by auto
        then show ?thesis using w1 by (rule marked_failed_from)
      qed
    qed
  qed
qed

lemma exit_unbooked:
  assumes "xe_place xe = kis_place_order sv kc fl show_dec order_key now"
  shows "unbooked sv (wired ap llm xe) oid (exit_body (wired ap llm xe) a oid)"
  unfolding exit_body_def submit_steps using assms by (intro gate_unbooked submit_unbooked) simp

lemma exit_body_preserves: "preserves (handling oid) (exit_body (wired ap llm xe) a oid)"
  unfolding exit_body_def by (intro gate_preserves place_preserves)

definition failed_order :: "execution_result \<Rightarrow> 'b world \<Rightarrow> bool" where
  "failed_order r w' \<longleftrightarrow> xr_error r = Broker_Failed SUBMITTED \<and> (\<exists>o' \<in> set (w_orders w'). xr_order_id r = Some (od_id o') \<and> od_status o' = FAILED)"

lemma guarded_unbooked:
  assumes run: "guarded_order xe c (create_order fl acct s side ty q p ss) body w = (res, w')"
    and body: "\<And>oid. unbooked sv xe oid (body oid)" "\<And>oid. preserves (handling oid) (body oid)" and w: "world_ok w"
  shows "\<exists>r. res = Inr r \<and> \<not> xr_success r \<and> w_positions w' = w_positions w \<and> w_executions w' = w_executions w
    \<and> (xe_faults xe = no_faults \<and> ordered sv w w' \<longrightarrow> failed_order r w')"
proof -
  let ?create = "create_order fl acct s side ty q p ss"
  obtain x w1 where c: "?create w = (x, w1)" by fastforce
  have w1: "w_positions w1 = w_positions w" "w_executions w1 = w_executions w" "w_broker w1 = w_broker w"
    using staysD [OF store_positions(1) c] staysD [OF store_executions(1) c] staysD [OF store_broker(1) c] .
  show ?thesis
  proof (cases x)
    case (Inl e)
    with run c have "res = Inr (fail_result c None (oc_quantity c) AUTO_APPROVED None [] (rejection.Raised e))" "w' = w1"
      by (simp_all add: guarded_order_def)
    with w1 show ?thesis using ordered_changes [of sv w w'] by auto
  next
    case (Inr oid)
    obtain b w2 where b: "body oid w1 = (b, w2)" by fastforce
    have w2: "w_positions w2 = w_positions w" "w_executions w2 = w_executions w"
      using body(1) [of oid] b w1 staysD unfolding unbooked_def by metis+
    show ?thesis
    proof (cases b)
      case (Inl e)
      let ?h = "mbind (update_order_safe (xe_faults xe) oid (\<lambda>r. r\<lparr>od_status := FAILED, od_rejection_reason := rejection.Raised e\<rparr>)) (\<lambda>_.
       mret (fail_result c (Some oid) (oc_quantity c) AUTO_APPROVED None [] (rejection.Raised e)))"
      have h: "?h w2 = (res, w')" using run c Inr b Inl by (simp add: guarded_order_def mcatch_def)
      have st: "stays w_positions ?h" "stays w_executions ?h" "stays w_broker ?h" by (intro stays_intros)+
      have keeps: "w_positions w' = w_positions w2" "w_executions w' = w_executions w2" "w_broker w' = w_broker w2"
        using staysD [OF st(1) h] staysD [OF st(2) h] staysD [OF st(3) h] .
      have "\<exists>w3. update_order_safe fl i f w2 = (Inr (), w3)" for fl i f
        unfolding update_order_safe_def by (rule catch_unit)
      then obtain w3 where "update_order_safe (xe_faults xe) oid (\<lambda>r. r\<lparr>od_status := FAILED, od_rejection_reason := rejection.Raised e\<rparr>) w2 = (Inr (), w3)"
        by metis
      then have "res = Inr (fail_result c (Some oid) (oc_quantity c) AUTO_APPROVED None [] (rejection.Raised e))"
        using h by (simp add: mbind_def mret_def)
      moreover have "\<not> (xe_faults xe = no_faults \<and> ordered sv w w')"
      proof
        assume a: "xe_faults xe = no_faults \<and> ordered sv w w'"
        then have "ordered sv w1 w2" using keeps(3) w1(3) by (simp add: ordered_def)
        moreover have "marked_failed sv oid w1 b w2" using body(1) [of oid] a b unfolding unbooked_def by blast
        ultimately show False by (simp add: marked_failed_def Inl)
      qed
      ultimately show ?thesis using keeps w2 by auto
    next
      case Inr': (Inr r)
      then have r: "res = Inr r" "w' = w2" using run c Inr b by (simp_all add: guarded_order_def mcatch_def)
      have ok: "\<not> xr_success r" using body(1) [of oid] b Inr' unfolding unbooked_def by blast
      have "failed_order r w'" if o': "xe_faults xe = no_faults" "ordered sv w w'"
      proof -
        have "ordered sv w1 w2" using o'(2) r(2) w1(3) by (simp add: ordered_def)
        moreover have "marked_failed sv oid w1 b w2" using body(1) [of oid] o'(1) b unfolding unbooked_def by blast
        ultimately have f: "xr_error r = Broker_Failed SUBMITTED" "xr_order_id r = Some oid"
          "\<forall>o' \<in> set (w_orders w2). od_id o' = oid \<longrightarrow> od_status o' = FAILED" by (auto simp: marked_failed_def Inr')
        have "handling oid w1" using handling_create [OF w] c \<open>x = Inr oid\<close> by simp
        then have "handling oid w2" using preservesD [OF body(2)] b by blast
        then obtain o1 where "o1 \<in> set (w_orders w2)" "od_id o1 = oid" by (auto simp: handling_def)
        with f r(2) show ?thesis unfolding failed_order_def by blast
      qed
      with r ok w2 show ?thesis by simp
    qed
  qed
qed

section \<open>Properties\<close>

text \<open>
  C7: OrderExecutor with KISClient as its broker, in every world and whatever calls fail: neither an
  entry nor an exit ever succeeds or adds an execution or changes a position; and, when no call of the
  executor's own services fails, an order the brokerage accepted leaves the order row FAILED with the
  error "broker order failed: SUBMITTED". The shares are bought or sold and the program does not know.
\<close>

theorem kis_fills_never_booked:
  assumes "xe_place xe = kis_place_order sv kc fl show_dec order_key now" "world_ok w"
    and "execute_entry (wired ap llm xe) a w = (r, w') \<or> execute_exit (wired ap llm xe) e w = (r, w')"
  shows "\<exists>res. r = Inr res \<and> \<not> xr_success res \<and> w_positions w' = w_positions w \<and> w_executions w' = w_executions w
    \<and> (xe_faults xe = no_faults \<and> ordered sv w w' \<longrightarrow> failed_order res w')"
  using assms(3)
proof
  assume "execute_entry (wired ap llm xe) a w = (r, w')"
  from guarded_unbooked [OF this [unfolded execute_entry_def] entry_unbooked [OF assms(1)] entry_body_preserves assms(2)]
  show ?thesis by simp
next
  assume "execute_exit (wired ap llm xe) e w = (r, w')"
  from guarded_unbooked [OF this [unfolded execute_exit_def] exit_unbooked [OF assms(1)] exit_body_preserves assms(2)]
  show ?thesis by simp
qed

section \<open>A stop loss the brokerage accepts\<close>

definition kis_base :: "kis executor" where
  "kis_base = \<lparr>xe_faults = no_faults, xe_settings = default_settings, xe_market = no_market_data,
     xe_services = sample_services, xe_account = ''default'', xe_now = sample_now,
     xe_balance = (\<lambda>_. Inr sample_balance), xe_holdings = (\<lambda>_. Inr []), xe_place = place_sample,
     xe_verify = (\<lambda>s _ _ _ _. mret (safe_default s '''')), xe_approve = (\<lambda>_. mret App_REJECTED)\<rparr>"

definition kis_world :: "kis world" where
  "kis_world = (new_world sample_kis)\<lparr>w_positions := \<lparr>pt_rows = [held_row], pt_next_id = 2\<rparr>\<rparr>"

lemma kis_exit_ordered:
  "ordered sample_service kis_world (snd (execute_exit (wired (sample_approvals no_faults []) calm_web kis_base) stop_exit kis_world))"
proof -
  let ?xe = "wired (sample_approvals no_faults []) calm_web kis_base"
  obtain ps where ps: "get_current_state sample_services ''default'' sample_now (Inr sample_balance) (Inr []) []
      \<lparr>pt_rows = [held_row], pt_next_id = 2\<rparr> [] = Inr (ps, [])" using partial_state by blast
  have f: "xe_faults kis_base = no_faults" "xe_settings kis_base = default_settings" "xe_place kis_base = place_sample"
    by (simp_all add: kis_base_def)
  have cs: "current_state ?xe w = (Inr ps, w\<lparr>w_calls := w_calls w + 1, w_sectors := []\<rparr>)"
    if "w_snapshots w = []" "w_positions w = \<lparr>pt_rows = [held_row], pt_next_id = 2\<rparr>" "w_sectors w = []" for w
    using that ps by (simp add: current_state_def wired_def kis_base_def)
  have auto_ok: "check_auto_approve default_settings (exit_trade_decision (xa_signal stop_exit) held_row) pct = Some (Exit_Order Act_STOP_LOSS)" for pct
    by (simp add: check_auto_approve_def default_settings_def exit_trade_decision_def stop_exit_fields)
  have v: "verify_order ?xe c oid True w = (Inr (safe_default (oc_symbol c) ''stop_loss''), set_order oid (\<lambda>r. r\<lparr>od_web_verify_result := Some SAFE,
          od_web_verify_summary := ''stop_loss''\<rparr>) (w\<lparr>w_calls := w_calls w + 1\<rparr>))" for c oid w
    by (simp add: verify_order_def f web_verify_def default_settings_def meth_defs update_order_def effect_def safe_default_def)
  have a: "\<exists>w'. request_approval (sample_approvals no_faults []) (exit_approval stop_exit oid ps') w = (Inr AUTO_APPROVED, w')" for oid ps' w
    by (simp add: request_approval_def fresh_uuid_def meth_defs exit_approval_def auto_ok stop_exit_fields sample_approvals_def
       handle_auto_approve_def effect_def record_decision_def send_message_def)
  have p: "ordered sample_service w (snd (place_exit ?xe stop_exit oid st v w))" if w: "w_broker w = sample_kis" for oid st v w
  proof -
    have mk: "mk_order_request ''default'' ''005930'' Side_SELL MARKET 10 (Some 65000) = Inr \<lparr>rq_account_id = ''default'',
        rq_symbol = ''005930'', rq_side = Side_SELL, rq_type = MARKET, rq_quantity = 10, rq_price = Some 65000\<rparr>" (is "_ = Inr ?rq")
      by (simp add: mk_order_request_def)
    obtain res s' where r: "place_sample ?rq sample_kis = (Inr res, s')" and sent: "ks_sent s' =
      [order_call sample_kis_config (\<lambda>_. ''65000'') ?rq ''old'', token_request sample_kis_config,
       order_call sample_kis_config (\<lambda>_. ''65000'') ?rq ''new'']" using sample_order_run by blast
    have "or_status res = SUBMITTED" using place_order_submitted [OF r] .
    then have "place_exit ?xe stop_exit oid st v w = fail_order ?xe (exit_context stop_exit) oid 10 st v SUBMITTED (w\<lparr>w_broker := s'\<rparr>)"
      by (simp add: place_exit_def stop_exit_fields mk mbind_def mlift_def broker_order_def f w r)
    moreover have "stays w_broker (fail_order ?xe (exit_context stop_exit) oid 10 st v SUBMITTED)" by (intro stays_intros)
    then have "w_broker (snd (fail_order ?xe (exit_context stop_exit) oid 10 st v SUBMITTED (w\<lparr>w_broker := s'\<rparr>))) = s'"
      by (simp add: stays_def)
    moreover have "\<exists>c \<in> set (calls sample_service [] (ks_sent s')). accepted (snd c)"
      by (simp add: sent order_call_def build_request_def token_request_def sample_service_def accepted_def is_ok_def
         sample_answer_def field_def)
    ultimately show ?thesis by (simp add: ordered_def w sample_kis_def)
  qed
  have b: "ordered sample_service w (snd (exit_body ?xe stop_exit oid w))"
    if w: "w_snapshots w = []" "w_positions w = \<lparr>pt_rows = [held_row], pt_next_id = 2\<rparr>" "w_sectors w = []" "w_broker w = sample_kis" for oid w
  proof -
    define w2 where "w2 = (set_order oid (\<lambda>r. r\<lparr>od_web_verify_result := Some SAFE, od_web_verify_summary := ''stop_loss''\<rparr>)
        (w\<lparr>w_calls := w_calls w + 1\<rparr>))"
    obtain w3 where w3: "request_approval (sample_approvals no_faults []) (exit_approval stop_exit oid ps)
        (w2\<lparr>w_calls := w_calls w2 + 1, w_sectors := []\<rparr>) = (Inr AUTO_APPROVED, w3)" using a by blast
    have "exit_body ?xe stop_exit oid w = place_exit ?xe stop_exit oid AUTO_APPROVED (safe_default ''005930'' ''stop_loss'') w3"
      using w w3 cs [of w2] by (simp add: exit_body_def gate_order_def mbind_def v stop_exit_fields safe_default_def w2_def set_order_def)
    moreover have "w_broker w3 = sample_kis"
      using staysD [OF request_approval_stays(1) w3] w(4) by (simp add: w2_def set_order_def)
    ultimately show ?thesis using p [of w3 oid] w(4) by (simp add: ordered_def)
  qed
  let ?w1 = "kis_world\<lparr>w_calls := 1, w_next_order_id := 2,
     w_orders := [new_order_row 1 ''default'' ''005930'' Side_SELL MARKET 10 65000 8]\<rparr>"
  have c: "create_order no_faults ''default'' ''005930'' Side_SELL MARKET 10 65000 8 kis_world = (Inr 1, ?w1)"
    by (simp add: create_order_def Let_def kis_world_def new_world_def)
  have o1: "ordered sample_service ?w1 (snd (exit_body ?xe stop_exit 1 ?w1))"
    by (rule b) (simp_all add: kis_world_def new_world_def)
  have "\<exists>h. exit_body ?xe stop_exit 1 ?w1 = h" by blast
  obtain x w2 where x: "exit_body ?xe stop_exit 1 ?w1 = (x, w2)" by fastforce
  have "w_broker (snd (execute_exit ?xe stop_exit kis_world)) = w_broker w2"
  proof (cases x)
    case (Inl e)
    have "stays w_broker (mbind (update_order_safe no_faults 1 (\<lambda>r. r\<lparr>od_status := FAILED, od_rejection_reason := rejection.Raised e\<rparr>)) (\<lambda>_.
       mret (fail_result (exit_context stop_exit) (Some 1) 10 AUTO_APPROVED None [] (rejection.Raised e))) :: (kis world, execution_result) meth)"
      by (intro stays_intros)
    then show ?thesis using c x Inl
      by (simp add: execute_exit_def guarded_order_def f stop_exit_fields mcatch_def stays_def)
  next
    case (Inr r)
    then show ?thesis using c x by (simp add: execute_exit_def guarded_order_def f stop_exit_fields mcatch_def)
  qed
  with o1 x show ?thesis by (simp add: ordered_def kis_world_def)
qed

theorem kis_fills_never_booked_witness:
  "\<exists>res w'. execute_exit (wired (sample_approvals no_faults []) calm_web kis_base) stop_exit kis_world = (Inr res, w')
     \<and> ordered sample_service kis_world w' \<and> failed_order res w' \<and> w_positions w' = \<lparr>pt_rows = [held_row], pt_next_id = 2\<rparr>"
proof -
  obtain r w' where run: "execute_exit (wired (sample_approvals no_faults []) calm_web kis_base) stop_exit kis_world = (r, w')" by fastforce
  have "world_ok kis_world"
    by (simp add: world_ok_def books_def kis_world_def new_world_def table_ok_def held_row_def row_ok_def new_record_def)
  moreover have k: "xe_place kis_base = place_sample" "xe_faults kis_base = no_faults" by (simp_all add: kis_base_def)
  moreover have o': "ordered sample_service kis_world w'" using kis_exit_ordered run by simp
  ultimately obtain res where "r = Inr res" "failed_order res w'" "w_positions w' = w_positions kis_world"
    using kis_fills_never_booked [of kis_base sample_service sample_kis_config no_faults "\<lambda>_. ''65000''" read_order_no "(738000, 600)"
       kis_world "sample_approvals no_faults []" calm_web sample_entry r w' stop_exit] run by blast
  with run o' show ?thesis by (intro exI [of _ res] exI [of _ w']) (simp add: kis_world_def)
qed

end
