(* ===== verification/Kis_Account.thy ===== *)
theory Kis_Account
  imports Kis_Claims
begin

text \<open>
  The client's account and market data: what its daily profit does to the risk manager, and that the
  paging of the daily bars returns the service's history.
\<close>

section \<open>The daily profit\<close>

lemma blocked_by_daily_loss:
  assumes "0 < price" "0 < ps_total_value ps" "ps_daily_pnl ps < dneg (of_int (DAILY_LOSS_LIMIT_KRW st))"
  shows "\<exists>r. risk_check st md (Inr ps) s Sig_BUY q price sl sector = Inr r \<and> \<not> rk_passed r \<and> rk_adjusted_quantity r = 0"
proof -
  let ?rs = "rule_results st md ps s q price sl sector"
  have "check_daily_loss_limit st ps \<in> set ?rs" by (simp add: rule_results_def)
  moreover have "violation (check_daily_loss_limit st ps) \<noteq> None" "max_quantity (check_daily_loss_limit st ps) = Some 0"
    using assms(3) by (simp_all add: check_daily_loss_limit_def Let_def)
  ultimately have "violations_of ?rs \<noteq> []" "has_block ?rs" by (auto simp: violations_of_Nil has_block_def)
  then show ?thesis
    using risk_check_buy [OF assms(1,2), of st md s q sl sector] by (auto simp: adjust_quantity_def)
qed

lemma balance_fields:
  assumes "balance_of now (items, summary) = Inr b"
  shows "\<exists>sold bought. to_decimal (field summary ''thdt_sll_amt'') = Inr sold
    \<and> to_decimal (field summary ''thdt_buy_amt'') = Inr bought \<and> b_daily_pnl b = dsub sold bought \<and> b_daily_pnl_pct b = 0"
  using assms by (auto simp: balance_of_def res_simps)

lemma state_fields:
  "get_current_state svc account now (Inr b) hs tab pt cache = Inr (ps, cache') \<Longrightarrow>
     ps_total_value ps = b_total_assets b \<and> ps_daily_pnl ps = b_daily_pnl b"
  by (auto simp: get_current_state_def res_simps Let_def split: prod.splits)

text \<open>
  C10: KISClient.get_balance reports as the daily profit the day's sales minus the day's purchases, as
  the account summary states them. So whoever has bought more than DAILY_LOSS_LIMIT_KRW worth of
  shares today beyond what was sold (whole won amounts), with or without a loss, is refused every
  further BUY by the risk manager: not passed, adjusted quantity 0, for every symbol and quantity.
\<close>

theorem kis_buys_trip_daily_loss:
  assumes "kis_get_balance sv kc fl now s = (Inr b, s1)"
    and "get_current_state svc account now (Inr b) hs tab pt cache = Inr (ps, cache')"
  shows "\<exists>items summary sold bought. fetch_balance_pages sv kc fl s = (Inr (items, summary), s1)
    \<and> to_decimal (field summary ''thdt_sll_amt'') = Inr sold \<and> to_decimal (field summary ''thdt_buy_amt'') = Inr bought
    \<and> ps_daily_pnl ps = dsub sold bought
    \<and> (\<forall>S B. sold = of_int S \<and> bought = of_int B \<and> DAILY_LOSS_LIMIT_KRW st < B - S \<and> 0 \<le> DAILY_LOSS_LIMIT_KRW st
         \<and> DAILY_LOSS_LIMIT_KRW st < 10 ^ 28 \<and> 0 < b_total_assets b \<and> 0 < price
         \<longrightarrow> (\<exists>r. risk_check st md (Inr ps) code Sig_BUY q price sl sector = Inr r \<and> \<not> rk_passed r \<and> rk_adjusted_quantity r = 0))"
proof -
  from assms(1) obtain items summary where f: "fetch_balance_pages sv kc fl s = (Inr (items, summary), s1)"
    and b: "balance_of now (items, summary) = Inr b"
    by (auto simp: kis_get_balance_def mbind_Inr mlift_def)
  from balance_fields [OF b] obtain sold bought where v: "to_decimal (field summary ''thdt_sll_amt'') = Inr sold"
    "to_decimal (field summary ''thdt_buy_amt'') = Inr bought" "b_daily_pnl b = dsub sold bought" by blast
  have ps: "ps_total_value ps = b_total_assets b" "ps_daily_pnl ps = dsub sold bought"
    using state_fields [OF assms(2)] v(3) by simp_all
  have "\<exists>r. risk_check st md (Inr ps) code Sig_BUY q price sl sector = Inr r \<and> \<not> rk_passed r \<and> rk_adjusted_quantity r = 0"
    if h: "sold = of_int S" "bought = of_int B" "DAILY_LOSS_LIMIT_KRW st < B - S" "0 \<le> DAILY_LOSS_LIMIT_KRW st"
      "DAILY_LOSS_LIMIT_KRW st < 10 ^ 28" "0 < b_total_assets b" "0 < price" for S B
  proof -
    let ?L = "DAILY_LOSS_LIMIT_KRW st"
    have "is_dec (of_int (- ?L - 1))" "is_dec (of_int (- ?L))" using h(4,5) by (intro is_dec_of_int; simp)+
    moreover have "sold - bought \<le> of_int (- ?L - 1)" using h(1,2,3) by linarith
    ultimately have "dsub sold bought \<le> of_int (- ?L - 1)" "dneg (of_int ?L) = of_int (- ?L)"
      by (simp_all add: dsub_def dneg_def is_dec_def d28.rnd_le)
    then have "ps_daily_pnl ps < dneg (of_int ?L)" using ps(2) by simp
    with h(6,7) ps(1) show ?thesis by (intro blocked_by_daily_loss) simp_all
  qed
  with f v(1,2) ps(2) show ?thesis by blast
qed

section \<open>Paging of the daily bars\<close>

lemma dated_iff: "dated d \<longleftrightarrow> 1 \<le> d \<and> d \<le> 3652059"
proof -
  obtain y r where y: "year_and_day d = (y, r)" by fastforce
  have yr: "year_of d = y" by (simp add: year_of_def ord2ymd_def y)
  note b = year_and_day [OF y]
  have lo: "days_before_year y < d" and hi: "d \<le> days_before_year (y + 1)"
    using b days_before_year_Suc [of y] by linarith+
  have one: "days_before_year 1 = 0" and last': "days_before_year 10000 = 3652059" by (simp_all add: days_before_year_def)
  have "1 \<le> y \<longleftrightarrow> 1 \<le> d"
    using days_before_year_mono [of 1 y] days_before_year_mono [of "y + 1" 1] lo hi one by linarith
  moreover have "y \<le> 9999 \<longleftrightarrow> d \<le> 3652059"
    using days_before_year_mono [of "y + 1" 10000] days_before_year_mono [of 10000 y] lo hi last' by linarith
  ultimately show ?thesis by (simp add: dated_def yr)
qed

text \<open>
  What the service documents for a symbol with the bars \<open>bars\<close> (newest first): a request for a range
  of dates is answered with the newest hundred bars of the range, encoded by \<open>enc\<close>.
\<close>

definition newest_first :: "ohlcv list \<Rightarrow> bool" where
  "newest_first bars \<longleftrightarrow> sorted_wrt (\<lambda>a b. k_date b < k_date a) bars"

definition between :: "date \<Rightarrow> date \<Rightarrow> ohlcv list \<Rightarrow> ohlcv list" where
  "between a b bars = filter (\<lambda>k. a \<le> k_date k \<and> k_date k \<le> b) bars"

definition chart_call :: "kis_config \<Rightarrow> symbol \<Rightarrow> date \<Rightarrow> date \<Rightarrow> string \<Rightarrow> request" where
  "chart_call kc s a b token = build_request kc ''GET'' ''/uapi/domestic-stock/v1/quotations/inquire-daily-itemchartprice''
     ''FHKST03010100'' '''' token (chart_params s a b)"

definition serves_history :: "service \<Rightarrow> kis_config \<Rightarrow> symbol \<Rightarrow> (ohlcv \<Rightarrow> json_object) \<Rightarrow> ohlcv list \<Rightarrow> bool" where
  "serves_history sv kc s enc bars \<longleftrightarrow> (\<forall>sent a b token. dated a \<and> dated b \<longrightarrow>
     (\<exists>ans. sv_api sv sent (chart_call kc s a b token) = Reply ans \<and> is_ok ans
        \<and> an_output2 ans = map enc (take 100 (between a b bars))))"

definition encodes :: "symbol \<Rightarrow> (ohlcv \<Rightarrow> json_object) \<Rightarrow> ohlcv list \<Rightarrow> bool" where
  "encodes s enc bars \<longleftrightarrow> (\<forall>b \<in> set bars. chart_to_domain s (enc b) = Inr b \<and> field (enc b) ''stck_bsop_date'' \<noteq> [])"

text \<open>A connected client whose token is in the cache.\<close>

definition ready :: "kis_config \<Rightarrow> kis \<Rightarrow> bool" where
  "ready kc s \<longleftrightarrow> ks_session s \<and> ks_auth s \<and> (\<exists>t. rd_lookup (ks_cache s) (make_key ''kis'' (cache_key_token kc)) = Some t)"

lemma ready_request:
  assumes "ready kc s" "\<And>sent token. \<exists>ans. sv_api sv sent (rq token) = Reply ans \<and> is_ok ans \<and> P ans"
  shows "\<exists>ans s'. do_request sv kc no_faults rq 1 s = (Inr ans, s') \<and> ready kc s' \<and> P ans"
proof -
  from assms(1) obtain t where t: "rd_lookup (ks_cache s) (make_key ''kis'' (cache_key_token kc)) = Some t"
    and on: "ks_session s" "ks_auth s" by (auto simp: ready_def)
  define s1 where "s1 = s\<lparr>ks_cache := (ks_cache s)\<lparr>rd_calls := rd_calls (ks_cache s) + 1\<rparr>\<rparr>"
  have g: "get_token sv kc no_faults s = (Inr t, s1)"
    by (simp add: get_token_def on_cache_def rc_get_def mget_def mbind_def mret_def t s1_def)
  obtain ans where a: "sv_api sv (ks_sent s1) (rq t) = Reply ans" "is_ok ans" "P ans" using assms(2) by blast
  have "do_request sv kc no_faults rq 1 s = (Inr ans, (send (rq t) s1)\<lparr>ks_sleeps := ks_sleeps s1 + 1\<rparr>)"
    using a(1,2) on by (simp add: attempt_def mbind_def g exchange_def mret_def)
  moreover have "ready kc ((send (rq t) s1)\<lparr>ks_sleeps := ks_sleeps s1 + 1\<rparr>)"
    using t on by (simp add: ready_def send_def s1_def)
  ultimately show ?thesis using a(3) by blast
qed

lemma read_page_encoded:
  assumes "encodes s enc page" "newest_first page" "\<And>b c. b \<in> set page \<Longrightarrow> c \<in> set acc \<Longrightarrow> k_date b < k_date c"
    "case oldest of None \<Rightarrow> True | Some d \<Rightarrow> \<forall>b \<in> set page. k_date b < d"
  shows "read_page s (map enc page) (acc, n, oldest)
    = Inr (acc @ page, n + length page, if page = [] then oldest else Some (k_date (last page)))"
  using assms
proof (induction page arbitrary: acc n oldest)
  case (Cons b page)
  have enc: "chart_to_domain s (enc b) = Inr b" "field (enc b) ''stck_bsop_date'' \<noteq> []" "encodes s enc page"
    using Cons.prems(1) by (simp_all add: encodes_def)
  have new: "k_date b \<notin> k_date ` set acc" using Cons.prems(3) [of b] by force
  have nf: "newest_first page" "\<And>c. c \<in> set page \<Longrightarrow> k_date c < k_date b" using Cons.prems(2) by (auto simp: newest_first_def)
  have add: "add_bar b (acc, n, oldest) = (acc @ [b], n + 1, Some (k_date b))"
    using new Cons.prems(4) by (auto simp: add_bar_def split: option.splits)
  have "read_page s (map enc page) (acc @ [b], n + 1, Some (k_date b)) = Inr ((acc @ [b]) @ page, n + 1 + length page,
      if page = [] then Some (k_date b) else Some (k_date (last page)))"
    by (rule Cons.IH) (use enc nf Cons.prems(3) in auto)
  with enc add show ?case by simp
qed simp

text \<open>The bars of a range before the last one of its first page are the rest of the range.\<close>

lemma between_rest:
  assumes "newest_first bars" "0 < n" "n \<le> length (between a b bars)" and R: "R = between a b bars"
  shows "between a (k_date (last (take n R)) - 1) bars = drop n R"
proof -
  have nf: "sorted_wrt (\<lambda>a b. k_date b < k_date a) R"
    using assms(1) unfolding R between_def newest_first_def by (rule sorted_wrt_filter)
  have "take n R \<noteq> []" using assms(2,3) R by (cases R) auto
  then obtain P l where t: "take n R = P @ [l]" by (cases "take n R" rule: rev_cases) auto
  then have R': "R = P @ l # drop n R" by (metis append.assoc append_Cons append_Nil append_take_drop_id)
  have "\<forall>x \<in> set P. k_date l < k_date x" "\<forall>y \<in> set (drop n R). k_date y < k_date l"
    using nf by (subst (asm) R', simp add: sorted_wrt_append)+
  then have f: "filter (\<lambda>k. k_date k < k_date l) P = []" "filter (\<lambda>k. k_date k < k_date l) (drop n R) = drop n R"
    by (auto simp: filter_empty_conv filter_id_conv)
  have "l \<in> set R" using R' by (metis in_set_conv_decomp)
  then have d: "k_date l \<le> b" by (simp add: R between_def)
  have "between a (k_date l - 1) bars = filter (\<lambda>k. k_date k < k_date l) R"
    using d unfolding R between_def by (auto intro!: filter_cong)
  also have "... = filter (\<lambda>k. k_date k < k_date l) (P @ l # drop n R)" using R' by simp
  also have "... = drop n R" by (simp add: f)
  finally show ?thesis by (simp add: t)
qed

lemma between_newest: "newest_first bars \<Longrightarrow> newest_first (between a b bars)"
  unfolding between_def newest_first_def by (rule sorted_wrt_filter)

lemma take_newest: "newest_first R \<Longrightarrow> newest_first (take n R)"
  unfolding newest_first_def by (metis append_take_drop_id sorted_wrt_append)

lemma chart_pages_history:
  assumes "serves_history sv kc s enc bars" "encodes s enc bars" "newest_first bars" "dated a" "dated b" "ready kc st"
    "\<forall>c \<in> set acc. b < k_date c"
  shows "\<exists>st'. chart_pages n sv kc no_faults s a b acc st = (Inr (acc @ take (100 * n) (between a b bars)), st') \<and> ready kc st'"
  using assms(5-)
proof (induction n arbitrary: b acc st)
  case 0
  then show ?case by (simp add: mret_def)
next
  case (Suc n)
  define R where "R = between a b bars"
  have "\<And>sent token. \<exists>ans. sv_api sv sent (chart_call kc s a b token) = Reply ans \<and> is_ok ans \<and> an_output2 ans = map enc (take 100 R)"
    using assms(1,4) Suc.prems(1) unfolding serves_history_def R_def by blast
  from ready_request [where rq = "chart_call kc s a b" and P = "\<lambda>ans. an_output2 ans = map enc (take 100 R)", OF Suc.prems(2) this]
  obtain ans st1 where q: "do_request sv kc no_faults (chart_call kc s a b) 1 st = (Inr ans, st1)" "ready kc st1"
    "an_output2 ans = map enc (take 100 R)" by blast
  have rq: "kis_request sv kc no_faults ''GET'' ''/uapi/domestic-stock/v1/quotations/inquire-daily-itemchartprice''
      ''FHKST03010100'' '''' (chart_params s a b) st = (Inr ans, st1)"
    using q(1) by (simp add: kis_request_def chart_call_def [abs_def])
  have finish: ?case if "chart_pages (Suc n) sv kc no_faults s a b acc st = (Inr (acc @ X), s1)" "ready kc s1"
    "X = take (100 * Suc n) R" for X s1
    using that unfolding R_def by blast
  show ?case
  proof (cases "R = []")
    case True
    then have "chart_pages (Suc n) sv kc no_faults s a b acc st = (Inr acc, st1)"
      using q(3) rq by (simp add: mbind_def mret_def)
    moreover have "acc = acc @ take (100 * Suc n) (between a b bars)" using True by (simp add: R_def)
    ultimately show ?thesis using q(2) by metis
  next
    case False
    let ?page = "take 100 R" and ?d = "k_date (last (take 100 R))"
    have ne: "?page \<noteq> []" using False by simp
    have nf: "newest_first ?page" using take_newest between_newest assms(3) unfolding R_def by blast
    have enc: "encodes s enc ?page" using assms(2) by (auto simp: encodes_def R_def between_def dest: in_set_takeD)
    have less: "k_date x < k_date c" if "x \<in> set ?page" "c \<in> set acc" for x c
      using that Suc.prems(3) by (fastforce simp: R_def between_def dest: in_set_takeD)
    have page: "read_page s (an_output2 ans) (acc, 0, None) = Inr (acc @ ?page, length ?page, Some ?d)"
      using read_page_encoded [OF enc nf less, where n = 0 and oldest = None] ne q(3) by simp
    have step: "chart_pages (Suc n) sv kc no_faults s a b acc st = (if length ?page < 100 \<or> ?d - 1 < a then mret (acc @ ?page)
        else chart_pages n sv kc no_faults s a (?d - 1) (acc @ ?page)) st1"
      using rq page q(3) ne by (simp add: mbind_def mlift_def)
    have d: "a \<le> ?d" "?d \<le> b"
      using last_in_set [OF ne] by (auto simp: R_def between_def dest: in_set_takeD)
    show ?thesis
    proof (cases "length R < 100")
      case True
      then show ?thesis using step q(2) by (intro finish [of R st1]) (simp_all add: mret_def)
    next
      case full: False
      have rest: "between a (?d - 1) bars = drop 100 R"
        by (rule between_rest [OF assms(3) _ _ R_def]) (use full R_def in simp_all)
      have all: "take (100 * Suc n) R = ?page @ take (100 * n) (drop 100 R)"
        by (simp add: take_add)
      show ?thesis
      proof (cases "?d - 1 < a")
        case True
        then have "between a (?d - 1) bars = []" by (auto simp: between_def filter_empty_conv)
        with rest all step q(2) True show ?thesis by (intro finish [of ?page st1]) (simp_all add: mret_def)
      next
        case False
        have "dated (?d - 1)" using assms(4) Suc.prems(1) d False by (simp add: dated_iff)
        moreover have "\<forall>c \<in> set (acc @ ?page). ?d - 1 < k_date c"
        proof
          fix c assume c: "c \<in> set (acc @ ?page)"
          have "c \<in> set ?page \<longrightarrow> ?d \<le> k_date c"
          proof -
            obtain P l where t: "?page = P @ [l]" using ne by (cases ?page rule: rev_cases) auto
            then show ?thesis using nf unfolding newest_first_def by (auto simp: sorted_wrt_append less_imp_le)
          qed
          with c Suc.prems(3) d(2) show "?d - 1 < k_date c" by auto
        qed
        ultimately obtain st2 where "chart_pages n sv kc no_faults s a (?d - 1) (acc @ ?page) st1
            = (Inr ((acc @ ?page) @ take (100 * n) (between a (?d - 1) bars)), st2)" "ready kc st2"
          using Suc.IH [OF _ q(2)] by blast
        with step full False rest all show ?thesis by (intro finish [of _ st2]) simp_all
      qed
    qed
  qed
qed

lemma sort_newest: "newest_first xs \<Longrightarrow> sort_key k_date xs = rev xs"
proof -
  assume n: "newest_first xs"
  then have "sorted (map k_date (rev xs))"
    unfolding newest_first_def by (induction xs) (auto simp: sorted_append less_imp_le)
  moreover have "sort_key k_date xs = sort_key k_date (rev xs)"
  proof (rule sort_key_inj_key_eq)
    show "inj_on k_date (set xs)"
      using n unfolding newest_first_def by (induction xs) auto
  qed (simp, rule sorted_sort_key)
  ultimately show ?thesis by (metis sort_key_id_if_sorted)
qed

text \<open>
  C9: KISClient.get_daily_ohlcv, on a service that answers each date range with the newest hundred of
  its bars: the result is exactly the bars of the last period_days days, oldest first, no bar twice
  and none missing, across the page boundaries; of more than 2000 bars (twenty pages) it is the
  newest 2000. It returns: no page loop is left early by an error.
\<close>

theorem kis_ohlcv_pages_complete:
  assumes "serves_history sv kc s enc bars" "encodes s enc bars" "newest_first bars"
    and "dated today" "dated (today - period_days)" "ready kc st"
  shows "\<exists>st'. kis_get_daily_ohlcv sv kc no_faults today s period_days st
    = (Inr (rev (take 2000 (between (today - period_days) today bars))), st')"
proof -
  obtain st' where "chart_pages 20 sv kc no_faults s (today - period_days) today [] st
      = (Inr (take 2000 (between (today - period_days) today bars)), st')"
    using chart_pages_history [OF assms(1-3,5,4,6), of "[]" 20] by auto
  moreover have "sort_key k_date (take 2000 (between (today - period_days) today bars)) = rev (take 2000 (between (today - period_days) today bars))"
    by (intro sort_newest take_newest between_newest assms(3))
  ultimately show ?thesis by (simp add: kis_get_daily_ohlcv_def max_ohlcv_pages_def mbind_def mret_def)
qed

section \<open>A service that keeps the contract\<close>

text \<open>It reads the range from the request and answers as documented.\<close>

definition history_service :: "symbol \<Rightarrow> (ohlcv \<Rightarrow> json_object) \<Rightarrow> ohlcv list \<Rightarrow> service" where
  "history_service s enc bars = \<lparr>sv_api = (\<lambda>_ rq. let ps = request_params rq in
       case (chart_date (field ps ''FID_INPUT_DATE_1''), chart_date (field ps ''FID_INPUT_DATE_2'')) of
         (Inr a, Inr b) \<Rightarrow> Reply \<lparr>an_tr_cont = '''', an_top = [(''rt_cd'', ''0'')], an_output = [], an_output1 = [],
            an_output2 = map enc (take 100 (between a b bars))\<rparr>
       | _ \<Rightarrow> Client_Error),
     sv_token = (\<lambda>_ _. Token_Client_Error), sv_master_file = (\<lambda>_. Master_Client_Error)\<rparr>"

lemma history_service_serves: "serves_history (history_service s enc bars) kc s enc bars"
proof -
  have "field (chart_params s a b) ''FID_INPUT_DATE_1'' = compact_date a" "field (chart_params s a b) ''FID_INPUT_DATE_2'' = compact_date b" for a b
    by (simp_all add: chart_params_def field_def)
  then show ?thesis
    by (simp add: serves_history_def history_service_def chart_call_def build_request_def chart_date_compact Let_def is_ok_def)
      (simp add: field_def)
qed

definition sample_bar :: "int \<Rightarrow> ohlcv" where
  "sample_bar d = \<lparr>k_symbol = ''005930'', k_date = d, k_open = 70, k_high = 72, k_low = 69, k_close = 71, k_volume = 5\<rparr>"

definition sample_enc :: "ohlcv \<Rightarrow> json_object" where
  "sample_enc k = [(''stck_bsop_date'', compact_date (k_date k)), (''stck_oprc'', ''70''), (''stck_hgpr'', ''72''),
     (''stck_lwpr'', ''69''), (''stck_clpr'', ''71''), (''acml_vol'', ''5''), (''acml_tr_pbmn'', '''')]"

lemma sample_texts: "to_decimal ''70'' = Inr 70" "to_decimal ''72'' = Inr 72" "to_decimal ''69'' = Inr 69" "to_decimal ''71'' = Inr 71"
  "to_int ''5'' = 5" "to_decimal '''' = Inr 0"
  by code_simp+

lemma sample_encodes: "dated d \<Longrightarrow> chart_to_domain ''005930'' (sample_enc (sample_bar d)) = Inr (sample_bar d)"
  by (simp add: chart_to_domain_def sample_enc_def field_def sample_bar_def chart_date_compact sample_texts)

text \<open>150 bars on 150 days: two pages.\<close>

definition sample_history :: "ohlcv list" where
  "sample_history = map (\<lambda>i. sample_bar (738000 - int i)) [0..<150]"

theorem kis_ohlcv_pages_complete_witness:
  "\<exists>st'. kis_get_daily_ohlcv (history_service ''005930'' sample_enc sample_history) sample_kis_config no_faults 738000 ''005930'' 120 sample_kis
     = (Inr (rev (take 2000 (between (738000 - 120) 738000 sample_history))), st')"
proof -
  have "encodes ''005930'' sample_enc sample_history"
    by (auto simp: encodes_def sample_history_def sample_encodes dated_iff)
      (simp add: sample_enc_def field_def compact_date_def digits_def)
  moreover have "newest_first sample_history"
    by (simp add: newest_first_def sample_history_def sorted_wrt_map sample_bar_def sorted_wrt_upt [THEN sorted_wrt_mono_rel [rotated]])
  moreover have "ready sample_kis_config sample_kis"
    by (simp add: ready_def sample_key sample_kis_def rd_lookup_def alive_def)
  ultimately show ?thesis
    by (intro kis_ohlcv_pages_complete) (simp_all add: dated_iff history_service_serves)
qed

text \<open>An account that bought for 700000 won today and sold nothing, without any loss.\<close>

definition sample_summary :: json_object where
  "sample_summary = [(''dnca_tot_amt'', ''3''), (''tot_evlu_amt'', ''10''), (''thdt_buy_amt'', ''7E5''), (''thdt_sll_amt'', ''0'')]"

definition balance_service :: service where
  "balance_service = \<lparr>sv_api = (\<lambda>_ _. Reply \<lparr>an_tr_cont = ''D'', an_top = [(''rt_cd'', ''0'')], an_output = [], an_output1 = [],
     an_output2 = [sample_summary]\<rparr>),
     sv_token = (\<lambda>_ _. Token_Client_Error), sv_master_file = (\<lambda>_. Master_Client_Error)\<rparr>"

definition sample_kis_balance :: account_balance where
  "sample_kis_balance = \<lparr>b_total_assets = 10, b_cash = 3, b_invested = 0, b_unrealized_pnl = 0, b_realized_pnl = 0,
     b_daily_pnl = - 700000, b_daily_pnl_pct = 0, b_positions_count = 0, b_timestamp = (738000, 600)\<rparr>"

lemma balance_texts: "to_decimal ''3'' = Inr 3" "to_decimal ''10'' = Inr 10" "to_decimal ''7E5'' = Inr 700000" "to_decimal ''0'' = Inr 0"
  by code_simp+

lemma balance_run:
  "\<exists>s1. kis_get_balance balance_service sample_kis_config no_faults (738000, 600) sample_kis = (Inr sample_kis_balance, s1)
    \<and> fetch_balance_pages balance_service sample_kis_config no_faults sample_kis = (Inr ([], sample_summary), s1)"
proof -
  define ans where "ans = \<lparr>an_tr_cont = ''D'', an_top = [(''rt_cd'', ''0'')], an_output = [], an_output1 = [],
     an_output2 = [sample_summary]\<rparr>"
  have "ready sample_kis_config sample_kis" by (simp add: ready_def sample_key sample_kis_def rd_lookup_def alive_def)
  moreover have "is_ok ans" by (simp add: ans_def is_ok_def field_def)
  then have "\<exists>a. sv_api balance_service sent (rq token) = Reply a \<and> is_ok a \<and> a = ans" for sent token and rq :: "string \<Rightarrow> request"
    by (simp add: balance_service_def ans_def)
  ultimately have req: "\<exists>s'. do_request balance_service sample_kis_config no_faults rq 1 sample_kis = (Inr ans, s')" for rq
    using ready_request [where P = "\<lambda>a. a = ans"] by blast
  have kr: "\<exists>s'. kis_request balance_service sample_kis_config no_faults m p tr c ps sample_kis = (Inr ans, s')" for m p tr c ps
    unfolding kis_request_def by (rule req)
  have "\<exists>s1. balance_pages (Suc n) balance_service sample_kis_config no_faults '''' '''' '''' [] None sample_kis = (Inr ([], sample_summary), s1)" for n
  proof -
    obtain s' where "kis_request balance_service sample_kis_config no_faults ''GET'' ''/uapi/domestic-stock/v1/trading/inquire-balance''
       ''TTTC8434R'' '''' (balance_params sample_kis_config '''' '''') sample_kis = (Inr ans, s')" using kr by blast
    then show ?thesis by (simp add: mbind_def) (simp add: mret_def ans_def)
  qed
  moreover have "max_balance_pages = Suc 9" by (simp add: max_balance_pages_def)
  ultimately have "\<exists>s1. fetch_balance_pages balance_service sample_kis_config no_faults sample_kis = (Inr ([], sample_summary), s1)"
    unfolding fetch_balance_pages_def by metis
  then obtain s1 where "fetch_balance_pages balance_service sample_kis_config no_faults sample_kis = (Inr ([], sample_summary), s1)" by blast
  moreover have "balance_of (738000, 600) ([], sample_summary) = Inr sample_kis_balance"
    by (simp add: balance_of_def sample_summary_def field_def balance_texts sample_texts sample_kis_balance_def dec_eval)
  ultimately show ?thesis by (simp add: kis_get_balance_def mbind_def mlift_def)
qed

theorem kis_buys_trip_daily_loss_witness:
  "\<exists>ps cache r. get_current_state sample_services ''default'' (738000, 600) (Inr sample_kis_balance) (Inr []) []
      \<lparr>pt_rows = [], pt_next_id = 1\<rparr> [] = Inr (ps, cache)
    \<and> ps_daily_pnl ps = - 700000
    \<and> risk_check default_settings no_market_data (Inr ps) ''005930'' Sig_BUY 1 1000 None '''' = Inr r
    \<and> \<not> rk_passed r \<and> rk_adjusted_quantity r = 0"
proof -
  obtain s1 where bal: "kis_get_balance balance_service sample_kis_config no_faults (738000, 600) sample_kis = (Inr sample_kis_balance, s1)"
    and fetch: "fetch_balance_pages balance_service sample_kis_config no_faults sample_kis = (Inr ([], sample_summary), s1)"
    using balance_run by blast
  have "\<exists>ps cache. get_current_state sample_services ''default'' (738000, 600) (Inr sample_kis_balance) (Inr []) []
      \<lparr>pt_rows = [], pt_next_id = 1\<rparr> [] = Inr (ps, cache)"
    by (simp add: get_current_state_def get_sector_allocations_def get_peak_value_def get_daily_trade_count_def Let_def
      sample_kis_balance_def dec_eval sample_services_def [THEN arg_cong, of sv_db_up])
  then obtain ps cache where st: "get_current_state sample_services ''default'' (738000, 600) (Inr sample_kis_balance) (Inr []) []
      \<lparr>pt_rows = [], pt_next_id = 1\<rparr> [] = Inr (ps, cache)" by blast
  obtain items summary sold bought where f: "fetch_balance_pages balance_service sample_kis_config no_faults sample_kis = (Inr (items, summary), s1)"
    and v: "to_decimal (field summary ''thdt_sll_amt'') = Inr sold" "to_decimal (field summary ''thdt_buy_amt'') = Inr bought"
    and pnl: "ps_daily_pnl ps = dsub sold bought"
    and blocked: "\<forall>S B. sold = of_int S \<and> bought = of_int B \<and> DAILY_LOSS_LIMIT_KRW default_settings < B - S
       \<and> 0 \<le> DAILY_LOSS_LIMIT_KRW default_settings \<and> DAILY_LOSS_LIMIT_KRW default_settings < 10 ^ 28
       \<and> 0 < b_total_assets sample_kis_balance \<and> 0 < (1000 :: dec) \<longrightarrow>
       (\<exists>r. risk_check default_settings no_market_data (Inr ps) ''005930'' Sig_BUY 1 1000 None '''' = Inr r \<and> \<not> rk_passed r \<and> rk_adjusted_quantity r = 0)"
    using kis_buys_trip_daily_loss [OF bal st, where st = default_settings and md = no_market_data and code = "''005930''" and q = 1
        and price = 1000 and sl = None and sector = "''''"] by blast
  have "ps_daily_pnl ps = - 700000" using state_fields [OF st] by (simp add: sample_kis_balance_def)
  moreover have "sold = 0 \<and> bought = 700000"
  proof -
    have s: "summary = sample_summary" using f fetch by simp
    show ?thesis using v unfolding s by (simp add: sample_summary_def field_def balance_texts)
  qed
  ultimately show ?thesis using st blocked [rule_format, of 0 700000] by (auto simp: default_settings_def sample_kis_balance_def)
qed

end
