(* ===== verification/Patterns.thy ===== *)
theory Patterns
  imports Prelude Models
begin

text \<open>
  \<open>src/analysis/technical\<close>: the indicators of a price frame and the chart patterns read from them. A
  series is a list of rationals with None for NaN, over one common index. The formulas of the \<open>ta\<close>
  package are a parameter; what the program adds to them is modelled. Float arithmetic is modelled
  as exact arithmetic, and \<open>round(x, 2)\<close> as rounding half to even. Descriptions are left out.
\<close>

type_synonym series = "rat option list"

section \<open>Indicators\<close>

record ta_lib =
  ta_sma :: "nat \<Rightarrow> series \<Rightarrow> series"
  ta_ema :: "nat \<Rightarrow> series \<Rightarrow> series"
  ta_macd :: "series \<Rightarrow> series \<times> series \<times> series"
  ta_rsi :: "nat \<Rightarrow> series \<Rightarrow> series"
  ta_stoch :: "series \<Rightarrow> series \<Rightarrow> series \<Rightarrow> series \<times> series"
  ta_bollinger :: "nat \<Rightarrow> series \<Rightarrow> series \<times> series \<times> series"

record frame =
  fr_high :: "rat list"
  fr_low :: "rat list"
  fr_close :: "rat list"
  fr_volume :: "rat list"

record technical_indicators =
  ti_symbol :: symbol
  ti_sma_5 :: series
  ti_sma_20 :: series
  ti_sma_60 :: series
  ti_sma_120 :: series
  ti_ema_12 :: series
  ti_ema_26 :: series
  ti_macd_line :: series
  ti_macd_signal :: series
  ti_macd_histogram :: series
  ti_rsi_14 :: series
  ti_stoch_k :: series
  ti_stoch_d :: series
  ti_bb_upper :: series
  ti_bb_middle :: series
  ti_bb_lower :: series
  ti_volume_sma_20 :: series
  ti_latest_rsi :: "rat option"
  ti_latest_macd_histogram :: "rat option"
  ti_latest_stoch_k :: "rat option"
  ti_latest_bb_position :: "rat option"

definition dropna :: "series \<Rightarrow> rat list" where
  "dropna xs = List.map_filter id xs"

definition last_valid :: "series \<Rightarrow> rat option" where
  "last_valid xs = (if dropna xs = [] then None else Some (last (dropna xs)))"

text \<open>The position of the close in the band; a band of width 0 has none.\<close>

definition bb_position :: "rat option \<Rightarrow> rat option \<Rightarrow> rat option \<Rightarrow> rat option" where
  "bb_position close upper lower = (case (close, upper, lower) of
     (Some c, Some u, Some l) \<Rightarrow> if u - l = 0 then None else Some ((c - l) / (u - l))
   | _ \<Rightarrow> None)"

definition empty_indicators :: "symbol \<Rightarrow> technical_indicators" where
  "empty_indicators s = \<lparr>ti_symbol = s, ti_sma_5 = [], ti_sma_20 = [], ti_sma_60 = [], ti_sma_120 = [], ti_ema_12 = [],
     ti_ema_26 = [], ti_macd_line = [], ti_macd_signal = [], ti_macd_histogram = [], ti_rsi_14 = [], ti_stoch_k = [],
     ti_stoch_d = [], ti_bb_upper = [], ti_bb_middle = [], ti_bb_lower = [], ti_volume_sma_20 = [], ti_latest_rsi = None,
     ti_latest_macd_histogram = None, ti_latest_stoch_k = None, ti_latest_bb_position = None\<rparr>"

definition compute_all_indicators :: "ta_lib \<Rightarrow> frame \<Rightarrow> symbol \<Rightarrow> technical_indicators" where
  "compute_all_indicators ta df s = (if fr_close df = [] then empty_indicators s else
     let close = map Some (fr_close df); high = map Some (fr_high df); low = map Some (fr_low df);
         volume = map Some (fr_volume df); (macd_line, macd_signal, macd_histogram) = ta_macd ta close;
         rsi = ta_rsi ta 14 close; (stoch_k, stoch_d) = ta_stoch ta high low close;
         (bb_upper, bb_middle, bb_lower) = ta_bollinger ta 20 close
     in \<lparr>ti_symbol = s, ti_sma_5 = ta_sma ta 5 close, ti_sma_20 = ta_sma ta 20 close, ti_sma_60 = ta_sma ta 60 close,
         ti_sma_120 = ta_sma ta 120 close, ti_ema_12 = ta_ema ta 12 close, ti_ema_26 = ta_ema ta 26 close,
         ti_macd_line = macd_line, ti_macd_signal = macd_signal, ti_macd_histogram = macd_histogram, ti_rsi_14 = rsi,
         ti_stoch_k = stoch_k, ti_stoch_d = stoch_d, ti_bb_upper = bb_upper, ti_bb_middle = bb_middle, ti_bb_lower = bb_lower,
         ti_volume_sma_20 = ta_sma ta 20 volume, ti_latest_rsi = last_valid rsi,
         ti_latest_macd_histogram = last_valid macd_histogram, ti_latest_stoch_k = last_valid stoch_k,
         ti_latest_bb_position = last_valid (map (\<lambda>(c, u, l). bb_position c u l) (zip close (zip bb_upper bb_lower)))\<rparr>)"

section \<open>Swing points\<close>

record pattern_signal =
  pg_name :: string
  pg_type :: string
  pg_confidence :: dec

definition round2 :: "rat \<Rightarrow> rat" where
  "round2 x = of_int (round_half_even (x * 100)) / 100"

definition tiny :: rat where
  "tiny = 1 / 10 ^ 10"

text \<open>The inner loop of \<open>_find_local_extrema\<close>: is the point still a high, still a low.\<close>

fun compare_neighbours :: "series \<Rightarrow> nat \<Rightarrow> rat \<Rightarrow> nat list \<Rightarrow> bool \<times> bool \<Rightarrow> bool \<times> bool" where
  "compare_neighbours vs i v [] st = st"
| "compare_neighbours vs i v (j # js) (is_high, is_low) = (case (vs ! (i - j), vs ! (i + j)) of
     (Some l, Some r) \<Rightarrow> compare_neighbours vs i v js
        (is_high \<and> \<not> (v \<le> l \<or> v \<le> r), is_low \<and> \<not> (v \<ge> l \<or> v \<ge> r))
   | _ \<Rightarrow> (False, False))"

definition classify :: "nat \<Rightarrow> series \<Rightarrow> nat \<Rightarrow> bool \<times> bool" where
  "classify order vs i = (case vs ! i of None \<Rightarrow> (False, False)
     | Some v \<Rightarrow> compare_neighbours vs i v [1..<order + 1] (True, True))"

definition find_local_extrema :: "nat \<Rightarrow> series \<Rightarrow> nat list \<times> nat list" where
  "find_local_extrema order vs = (let is = [order..<length vs - order] in
     (filter (\<lambda>i. fst (classify order vs i)) is, filter (\<lambda>i. snd (classify order vs i)) is))"

definition find_swing_points :: "nat \<Rightarrow> rat list \<Rightarrow> (nat \<times> rat) list \<times> (nat \<times> rat) list" where
  "find_swing_points order vs = (case find_local_extrema order (map Some vs) of (hs, ls) \<Rightarrow>
     (map (\<lambda>i. (i, vs ! i)) hs, map (\<lambda>i. (i, vs ! i)) ls))"

section \<open>Crosses\<close>

definition last_n :: "nat \<Rightarrow> 'a list \<Rightarrow> 'a list" where
  "last_n n xs = drop (length xs - n) xs"

text \<open>
  The difference of two series of one frame. pandas aligns the operands by their index; where only one has a row
  the difference is NaN, and both crosses drop those rows next, so ending with the shorter series loses nothing.
\<close>

definition subtract :: "series \<Rightarrow> series \<Rightarrow> series" where
  "subtract xs ys = map2 (\<lambda>x y. case (x, y) of (Some a, Some b) \<Rightarrow> Some (a - b) | _ \<Rightarrow> None) xs ys"

text \<open>The first crossing of the window, and its signal. \<open>crosses a b\<close> is the condition on two neighbours.\<close>

definition cross_confidence :: "nat \<Rightarrow> rat list \<Rightarrow> rat \<Rightarrow> rat" where
  "cross_confidence i recent long_last = (let recency = rat_of_nat i / rat_of_nat (length recent) * (15 / 100);
     gap = \<bar>last recent\<bar> / max \<bar>long_last\<bar> tiny; gap_bonus = min (gap * 5) (15 / 100)
   in min (6 / 10 + recency + gap_bonus) (9 / 10))"

definition detect_cross :: "(rat \<Rightarrow> rat \<Rightarrow> bool) \<Rightarrow> string \<Rightarrow> string \<Rightarrow> series \<Rightarrow> series \<Rightarrow> nat \<Rightarrow> pattern_signal option" where
  "detect_cross crosses nm ty short long lookback = (let valid = dropna (subtract short long) in
     if length valid < lookback + 1 then None
     else let recent = last_n (lookback + 1) valid in
       case find (\<lambda>i. crosses (recent ! (i - 1)) (recent ! i)) [1..<length recent] of
         None \<Rightarrow> None
       | Some i \<Rightarrow> Some \<lparr>pg_name = nm, pg_type = ty,
           pg_confidence = round2 (cross_confidence i recent (last (dropna long)))\<rparr>)"

definition detect_golden_cross :: "series \<Rightarrow> series \<Rightarrow> nat \<Rightarrow> pattern_signal option" where
  "detect_golden_cross = detect_cross (\<lambda>a b. a \<le> 0 \<and> 0 < b) ''golden_cross'' ''bullish''"

definition detect_death_cross :: "series \<Rightarrow> series \<Rightarrow> nat \<Rightarrow> pattern_signal option" where
  "detect_death_cross = detect_cross (\<lambda>a b. 0 \<le> a \<and> b < 0) ''death_cross'' ''bearish''"

section \<open>Levels\<close>

text \<open>Clusters of the sorted values, each kept with its newest value first; the last cluster comes first.\<close>

fun cluster_values :: "rat list \<Rightarrow> rat list list \<Rightarrow> rat list list" where
  "cluster_values [] cs = cs"
| "cluster_values (v # vs) [] = cluster_values vs [[v]]"
| "cluster_values (v # vs) (c # cs) = (if \<bar>v - hd c\<bar> / max \<bar>hd c\<bar> tiny \<le> 15 / 1000
     then cluster_values vs ((v # c) # cs) else cluster_values vs ([v] # c # cs))"

definition mean :: "rat list \<Rightarrow> rat" where
  "mean c = sum_list c / rat_of_nat (length c)"

definition cluster :: "(nat \<times> rat) list \<Rightarrow> rat list" where
  "cluster points = (if points = [] then [] else
     let clusters = rev (cluster_values (sort (map snd points)) []);
         levels = map (\<lambda>c. round2 (mean c)) (filter (\<lambda>c. 2 \<le> length c) clusters)
     in if levels = [] \<and> clusters \<noteq> [] then [round2 (mean (hd clusters))] else levels)"

definition detect_support_resistance :: "rat list \<Rightarrow> nat \<Rightarrow> rat list \<times> rat list" where
  "detect_support_resistance prices window = (if length prices < window * 2 + 1 then ([], [])
     else case find_swing_points window prices of (hs, ls) \<Rightarrow> (cluster ls, cluster hs))"

section \<open>Double tops and bottoms\<close>

definition near_pair :: "rat \<Rightarrow> rat \<Rightarrow> rat \<Rightarrow> bool" where
  "near_pair tolerance v1 v2 = (\<not> \<bar>v2 - v1\<bar> / max v1 tiny > tolerance)"

definition between_points :: "(nat \<times> rat) list \<Rightarrow> nat \<Rightarrow> nat \<Rightarrow> rat list" where
  "between_points swings p1 p2 = map snd (filter (\<lambda>(p, v). p1 < p \<and> p < p2) swings)"

text \<open>
  The confidence with the price \<open>away\<close> from the neckline, positive beyond it. The division of the
  confirmed case has no guard: a neckline of 0 raises ZeroDivisionError.
\<close>

definition neckline_confidence :: "rat \<Rightarrow> rat \<Rightarrow> exc + rat" where
  "neckline_confidence away neckline = rbind
     (if 0 < away then (if neckline = 0 then Inl DivisionByZero else Inr (7 / 10 + min (away / neckline * 5) (2 / 10)))
      else Inr (1 / 2 + (if - away / max neckline tiny < 3 / 100 then 1 / 10 else 0)))
     (\<lambda>c. Inr (min c (9 / 10)))"

text \<open>
  The loop over the neighbouring pairs, the newest first. \<open>peaks\<close> are the highs of a top or the lows
  of a bottom, newest first; \<open>pick\<close> is the neckline of its candidates, \<open>away\<close> the distance beyond it.
\<close>

fun scan_pairs :: "rat \<Rightarrow> (rat list \<Rightarrow> rat) \<Rightarrow> (rat \<Rightarrow> rat) \<Rightarrow> (nat \<times> rat) list \<Rightarrow> (nat \<times> rat) list \<Rightarrow> exc + rat option" where
  "scan_pairs tolerance pick away others ((p2, v2) # (p1, v1) # ps) =
     (if p2 \<le> p1 \<or> \<not> near_pair tolerance v1 v2 \<or> between_points others p1 p2 = []
      then scan_pairs tolerance pick away others ((p1, v1) # ps)
      else let neckline = pick (between_points others p1 p2) in
        rbind (neckline_confidence (away neckline) neckline) (\<lambda>c. Inr (Some c)))"
| "scan_pairs tolerance pick away others _ = Inr None"

definition min_of :: "rat list \<Rightarrow> rat" where
  "min_of xs = foldl min (hd xs) (tl xs)"

definition max_of :: "rat list \<Rightarrow> rat" where
  "max_of xs = foldl max (hd xs) (tl xs)"

definition pattern_of :: "string \<Rightarrow> string \<Rightarrow> rat option \<Rightarrow> pattern_signal option" where
  "pattern_of nm ty c = map_option (\<lambda>c. \<lparr>pg_name = nm, pg_type = ty, pg_confidence = round2 c\<rparr>) c"

definition detect_double_top :: "rat list \<Rightarrow> nat \<Rightarrow> rat \<Rightarrow> exc + pattern_signal option" where
  "detect_double_top prices window tolerance = (if length prices < 20 then Inr None else
     let recent = last_n window prices; (hs, ls) = find_swing_points 3 recent in
     if length hs < 2 \<or> ls = [] then Inr None
     else rbind (scan_pairs tolerance min_of (\<lambda>neckline. neckline - last recent) ls (rev hs))
       (\<lambda>c. Inr (pattern_of ''double_top'' ''bearish'' c)))"

definition detect_double_bottom :: "rat list \<Rightarrow> nat \<Rightarrow> rat \<Rightarrow> exc + pattern_signal option" where
  "detect_double_bottom prices window tolerance = (if length prices < 20 then Inr None else
     let recent = last_n window prices; (hs, ls) = find_swing_points 3 recent in
     if length ls < 2 \<or> hs = [] then Inr None
     else rbind (scan_pairs tolerance max_of (\<lambda>neckline. last recent - neckline) hs (rev ls))
       (\<lambda>c. Inr (pattern_of ''double_bottom'' ''bullish'' c)))"

section \<open>Divergence\<close>

text \<open>\<open>min\<close> with a key takes the first of the nearest points.\<close>

fun nearest_swing :: "(nat \<times> rat) list \<Rightarrow> nat \<Rightarrow> (nat \<times> rat) option" where
  "nearest_swing [] t = None"
| "nearest_swing (x # xs) t = Some (foldl (\<lambda>b y. if \<bar>int (fst y) - int t\<bar> < \<bar>int (fst b) - int t\<bar> then y else b) x xs)"

definition divergence_confidence :: "rat \<Rightarrow> rat \<Rightarrow> rat \<Rightarrow> rat \<Rightarrow> rat" where
  "divergence_confidence price_move p1 macd_move m1 =
     min (1 / 2 + min (price_move / max p1 tiny + macd_move / max \<bar>m1\<bar> tiny) (35 / 100)) (85 / 100)"

definition last_two :: "'a list \<Rightarrow> ('a \<times> 'a) option" where
  "last_two xs = (case rev xs of b # a # _ \<Rightarrow> Some (a, b) | _ \<Rightarrow> None)"

text \<open>The two sides: \<open>up\<close> is 1 for the bearish check on highs and -1 for the bullish one on lows.\<close>

definition divergence :: "rat \<Rightarrow> (nat \<times> rat) list \<Rightarrow> (nat \<times> rat) list \<Rightarrow> rat option" where
  "divergence up prices macds = (if length macds < 2 then None else case last_two prices of
     None \<Rightarrow> None
   | Some ((i1, p1), (i2, p2)) \<Rightarrow> (case (nearest_swing macds i1, nearest_swing macds i2) of
       (Some (_, m1), Some (_, m2)) \<Rightarrow>
         if 0 < up * (p2 - p1) \<and> up * (m2 - m1) < 0
         then Some (divergence_confidence (up * (p2 - p1)) p1 (up * (m1 - m2)) m1) else None
     | _ \<Rightarrow> None))"

definition detect_macd_divergence :: "rat list \<Rightarrow> series \<Rightarrow> nat \<Rightarrow> pattern_signal option" where
  "detect_macd_divergence prices macd window = (let common = filter (\<lambda>(p, m). m \<noteq> None) (zip prices macd) in
     if length common < 20 then None else
     let p = last_n window (map fst common); m = last_n window (dropna (map snd common));
         (phs, pls) = find_swing_points 3 p; (mhs, mls) = find_swing_points 3 m
     in case divergence 1 phs mhs of
          Some c \<Rightarrow> pattern_of ''macd_bearish_divergence'' ''bearish'' (Some c)
        | None \<Rightarrow> pattern_of ''macd_bullish_divergence'' ''bullish'' (divergence (- 1) pls mls))"

section \<open>The scan\<close>

definition opt_list :: "'a option \<Rightarrow> 'a list" where
  "opt_list x = (case x of None \<Rightarrow> [] | Some a \<Rightarrow> [a])"

text \<open>\<open>pd.Series\<close> over the frame's index refuses a list of another length; an indicator that is empty is left out.\<close>

definition list_to_series :: "series \<Rightarrow> nat \<Rightarrow> exc + series" where
  "list_to_series data index = (if length data = index then Inr data
     else Inl (ValueError ''Length of values does not match length of index''))"

definition series_if_given :: "series \<Rightarrow> nat \<Rightarrow> exc + series option" where
  "series_if_given data index = (if data = [] then Inr None else rbind (list_to_series data index) (\<lambda>s. Inr (Some s)))"

definition cross_pairs :: "series option \<Rightarrow> series option \<Rightarrow> series option \<Rightarrow> (series \<times> series) list" where
  "cross_pairs sma_5 sma_20 sma_60 =
     (case (sma_5, sma_20) of (Some short, Some long) \<Rightarrow> [(short, long)] | _ \<Rightarrow> [])
     @ (case (sma_20, sma_60) of (Some short, Some long) \<Rightarrow> [(short, long)] | _ \<Rightarrow> [])"

definition near_level :: "string \<Rightarrow> string \<Rightarrow> rat \<Rightarrow> rat \<Rightarrow> pattern_signal list" where
  "near_level nm ty price level = (let dist = \<bar>price - level\<bar> / max level tiny in
     if dist < 2 / 100 then [\<lparr>pg_name = nm, pg_type = ty, pg_confidence = round2 (1 / 2 + (2 / 100 - dist) * 15)\<rparr>] else [])"

definition scan_patterns :: "frame \<Rightarrow> technical_indicators \<Rightarrow> exc + pattern_signal list" where
  "scan_patterns df ti = (let close = fr_close df; index = length close in if index < 20 then Inr [] else
     rbind (series_if_given (ti_sma_5 ti) index) (\<lambda>sma_5.
     rbind (series_if_given (ti_sma_20 ti) index) (\<lambda>sma_20.
     rbind (series_if_given (ti_sma_60 ti) index) (\<lambda>sma_60.
     rbind (series_if_given (ti_macd_line ti) index) (\<lambda>macd_line.
     let crosses = concat (map (\<lambda>(s, l). opt_list (detect_golden_cross s l 5) @ opt_list (detect_death_cross s l 5))
           (cross_pairs sma_5 sma_20 sma_60)) in
     rbind (detect_double_top close 60 (2 / 100)) (\<lambda>top.
     rbind (detect_double_bottom close 60 (2 / 100)) (\<lambda>bottom.
     let divs = (case macd_line of None \<Rightarrow> [] | Some m \<Rightarrow> opt_list (detect_macd_divergence close m 60));
         (supports, resistances) = detect_support_resistance close 5
     in Inr (crosses @ opt_list top @ opt_list bottom @ divs
         @ concat (map (near_level ''near_support'' ''bullish'' (last close)) supports)
         @ concat (map (near_level ''near_resistance'' ''bearish'' (last close)) resistances)))))))))"

section \<open>What a swing point is\<close>

lemma compare_neighbours_high:
  "fst (compare_neighbours vs i v js (h, l)) \<longleftrightarrow> h \<and> (\<forall>j \<in> set js. \<exists>a b. vs ! (i - j) = Some a \<and> vs ! (i + j) = Some b \<and> a < v \<and> b < v)"
  by (induction js arbitrary: h l) (auto split: option.splits simp: not_le)

lemma compare_neighbours_low:
  "snd (compare_neighbours vs i v js (h, l)) \<longleftrightarrow> l \<and> (\<forall>j \<in> set js. \<exists>a b. vs ! (i - j) = Some a \<and> vs ! (i + j) = Some b \<and> v < a \<and> v < b)"
  by (induction js arbitrary: h l) (auto split: option.splits simp: not_le)

text \<open>Values next to the point, on both sides and up to \<open>order\<close> away, all satisfy \<open>P\<close>.\<close>

definition neighbours_all :: "nat \<Rightarrow> series \<Rightarrow> nat \<Rightarrow> (rat \<Rightarrow> bool) \<Rightarrow> bool" where
  "neighbours_all order vs i P \<longleftrightarrow> (\<forall>k. i \<le> k + order \<and> k \<le> i + order \<and> k \<noteq> i \<longrightarrow> (\<exists>x. vs ! k = Some x \<and> P x))"

lemma neighbours_pairs:
  assumes "order \<le> i"
  shows "(\<forall>j \<in> set [1..<order + 1]. \<exists>a b. vs ! (i - j) = Some a \<and> vs ! (i + j) = Some b \<and> P a \<and> P b) \<longleftrightarrow> neighbours_all order vs i P"
proof
  assume l: "\<forall>j \<in> set [1..<order + 1]. \<exists>a b. vs ! (i - j) = Some a \<and> vs ! (i + j) = Some b \<and> P a \<and> P b"
  show "neighbours_all order vs i P" unfolding neighbours_all_def
  proof (intro allI impI)
    fix k assume k: "i \<le> k + order \<and> k \<le> i + order \<and> k \<noteq> i"
    show "\<exists>x. vs ! k = Some x \<and> P x"
    proof (cases "k < i")
      case True
      with k have "i - k \<in> set [1..<order + 1]" "i - (i - k) = k" by auto
      with l show ?thesis by metis
    next
      case False
      with k have "k - i \<in> set [1..<order + 1]" "i + (k - i) = k" by auto
      with l show ?thesis by metis
    qed
  qed
next
  assume r: "neighbours_all order vs i P"
  show "\<forall>j \<in> set [1..<order + 1]. \<exists>a b. vs ! (i - j) = Some a \<and> vs ! (i + j) = Some b \<and> P a \<and> P b"
  proof
    fix j assume j: "j \<in> set [1..<order + 1]"
    have "i \<le> (i - j) + order \<and> i - j \<le> i + order \<and> i - j \<noteq> i" "i \<le> (i + j) + order \<and> i + j \<le> i + order \<and> i + j \<noteq> i"
      using j assms by auto
    with r show "\<exists>a b. vs ! (i - j) = Some a \<and> vs ! (i + j) = Some b \<and> P a \<and> P b"
      unfolding neighbours_all_def by meson
  qed
qed

lemma find_local_extrema_iff:
  "i \<in> set (fst (find_local_extrema order vs)) \<longleftrightarrow> order \<le> i \<and> i + order < length vs
     \<and> (\<exists>v. vs ! i = Some v \<and> neighbours_all order vs i (\<lambda>x. x < v))"
  "i \<in> set (snd (find_local_extrema order vs)) \<longleftrightarrow> order \<le> i \<and> i + order < length vs
     \<and> (\<exists>v. vs ! i = Some v \<and> neighbours_all order vs i (\<lambda>x. v < x))"
proof -
  have m: "i \<in> set [order..<length vs - order] \<longleftrightarrow> order \<le> i \<and> i + order < length vs" by auto
  have c: "fst (classify order vs i) \<longleftrightarrow> (\<exists>v. vs ! i = Some v \<and> neighbours_all order vs i (\<lambda>x. x < v))"
    "snd (classify order vs i) \<longleftrightarrow> (\<exists>v. vs ! i = Some v \<and> neighbours_all order vs i (\<lambda>x. v < x))" if "order \<le> i"
    using neighbours_pairs [OF that, of vs] unfolding classify_def
    by (simp_all only: compare_neighbours_high compare_neighbours_low split: option.split) auto
  show "i \<in> set (fst (find_local_extrema order vs)) \<longleftrightarrow> order \<le> i \<and> i + order < length vs
     \<and> (\<exists>v. vs ! i = Some v \<and> neighbours_all order vs i (\<lambda>x. x < v))"
    "i \<in> set (snd (find_local_extrema order vs)) \<longleftrightarrow> order \<le> i \<and> i + order < length vs
     \<and> (\<exists>v. vs ! i = Some v \<and> neighbours_all order vs i (\<lambda>x. v < x))"
    using m c by (auto simp: find_local_extrema_def Let_def simp del: set_upt upt_Suc)
qed

text \<open>
  _find_local_extrema and _find_swing_points return exactly the strict extrema: an index is a high
  (a low) if and only if it has order neighbours on both sides and all of them are numbers smaller
  (larger) than its own value; the indices ascend, and no index is both a high and a low.
\<close>

theorem local_extrema_exact:
  assumes "0 < order"
  shows "(\<forall>i. i \<in> set (fst (find_local_extrema order vs)) \<longleftrightarrow> order \<le> i \<and> i + order < length vs
      \<and> (\<exists>v. vs ! i = Some v \<and> neighbours_all order vs i (\<lambda>x. x < v)))
    \<and> (\<forall>i. i \<in> set (snd (find_local_extrema order vs)) \<longleftrightarrow> order \<le> i \<and> i + order < length vs
      \<and> (\<exists>v. vs ! i = Some v \<and> neighbours_all order vs i (\<lambda>x. v < x)))
    \<and> sorted_wrt (<) (fst (find_local_extrema order vs)) \<and> sorted_wrt (<) (snd (find_local_extrema order vs))
    \<and> set (fst (find_local_extrema order vs)) \<inter> set (snd (find_local_extrema order vs)) = {}"
proof (intro conjI allI find_local_extrema_iff)
  show "sorted_wrt (<) (fst (find_local_extrema order vs))" "sorted_wrt (<) (snd (find_local_extrema order vs))"
    by (simp_all add: find_local_extrema_def Let_def sorted_wrt_filter)
  have False if i: "i \<in> set (fst (find_local_extrema order vs))" "i \<in> set (snd (find_local_extrema order vs))" for i
  proof -
    obtain v where v: "vs ! i = Some v" "neighbours_all order vs i (\<lambda>x. x < v)" "neighbours_all order vs i (\<lambda>x. v < x)"
      using i unfolding find_local_extrema_iff by auto
    have "i \<le> (i + 1) + order \<and> i + 1 \<le> i + order \<and> i + 1 \<noteq> i" using assms by simp
    then obtain x y where "vs ! (i + 1) = Some x" "x < v" "vs ! (i + 1) = Some y" "v < y"
      using v(2,3) unfolding neighbours_all_def by meson
    then show False by simp
  qed
  then show "set (fst (find_local_extrema order vs)) \<inter> set (snd (find_local_extrema order vs)) = {}" by blast
qed

text \<open>A zigzag with one high and one low of order 2.\<close>

theorem local_extrema_exact_witness:
  "set (fst (find_local_extrema 2 (map Some [1, 2, 5, 3, 1, 4, 6]))) = {2} \<and> set (snd (find_local_extrema 2 (map Some [1, 2, 5, 3, 1, 4, 6]))) = {4}"
proof -
  have e: "find_local_extrema 2 (map Some [1, 2, 5, 3, 1, 4, 6]) = ([2], [4])"
    by code_simp
  have "set (fst (find_local_extrema 2 (map Some [1, 2, 5, 3, 1, 4, 6]))) \<inter> set (snd (find_local_extrema 2 (map Some [1, 2, 5, 3, 1, 4, 6]))) = {}"
    using local_extrema_exact [of 2 "map Some [1, 2, 5, 3, 1, 4, 6]"] by simp
  with e show ?thesis by simp
qed

section \<open>Bounds of the confidences\<close>

lemma round2_mono: "x \<le> y \<Longrightarrow> round2 x \<le> round2 y"
  unfolding round2_def by (intro divide_right_mono) (simp_all add: round_half_even_mono)

lemma round2_grid [simp]: "round2 (of_int n / 100) = of_int n / 100"
  by (simp add: round2_def)

lemma round2_bounds:
  assumes "of_int a / 100 \<le> x" "x \<le> of_int b / 100" shows "of_int a / 100 \<le> round2 x" "round2 x \<le> of_int b / 100"
  using round2_mono [OF assms(1)] round2_mono [OF assms(2)] by simp_all

definition sane :: "pattern_signal \<Rightarrow> bool" where
  "sane g \<longleftrightarrow> 1 / 2 \<le> pg_confidence g \<and> pg_confidence g \<le> 9 / 10
     \<and> (pg_name g, pg_type g) \<in> {(''golden_cross'', ''bullish''), (''death_cross'', ''bearish''), (''double_top'', ''bearish''),
          (''double_bottom'', ''bullish''), (''macd_bearish_divergence'', ''bearish''), (''macd_bullish_divergence'', ''bullish''),
          (''near_support'', ''bullish''), (''near_resistance'', ''bearish'')}"

lemma round2_sane: "1 / 2 \<le> x \<Longrightarrow> x \<le> 9 / 10 \<Longrightarrow> 1 / 2 \<le> round2 x \<and> round2 x \<le> 9 / 10"
  using round2_bounds [of 50 x 90] by simp

lemma cross_confidence_bounds: "0 < i \<Longrightarrow> 6 / 10 \<le> cross_confidence i recent lng \<and> cross_confidence i recent lng \<le> 9 / 10"
  by (auto simp: cross_confidence_def Let_def min_def tiny_def max_def)

lemma find_in: "find P xs = Some x \<Longrightarrow> x \<in> set xs \<and> P x"
  by (induction xs) (auto split: if_splits)

lemma detect_cross_sane:
  assumes "detect_cross crosses nm ty s l n = Some g" shows "1 / 2 \<le> pg_confidence g \<and> pg_confidence g \<le> 9 / 10 \<and> pg_name g = nm \<and> pg_type g = ty"
proof -
  let ?recent = "last_n (n + 1) (dropna (subtract s l))" and ?lng = "last (dropna l)"
  from assms obtain i where f: "find (\<lambda>i. crosses (?recent ! (i - 1)) (?recent ! i)) [1..<length ?recent] = Some i"
    and g: "g = \<lparr>pg_name = nm, pg_type = ty, pg_confidence = round2 (cross_confidence i ?recent ?lng)\<rparr>"
    by (auto simp: detect_cross_def Let_def split: if_splits option.splits)
  have i: "i \<in> set [1..<length ?recent]" using find_in [OF f] by blast
  define recent lng where "recent = ?recent" and "lng = ?lng"
  note g = g [folded recent_def lng_def] and i = i [folded recent_def]
  have "6 / 10 \<le> cross_confidence i recent lng" "cross_confidence i recent lng \<le> 9 / 10"
    using cross_confidence_bounds [of i recent lng] i by auto
  with g show ?thesis using round2_sane [of "cross_confidence i recent lng"] by simp
qed

lemma neckline_sane:
  assumes "0 < neckline" shows "\<exists>c. neckline_confidence away neckline = Inr c \<and> 1 / 2 \<le> c \<and> c \<le> 9 / 10"
proof (cases "0 < away")
  case True
  define q where "q = away / neckline * 5"
  have "0 < q" using True assms by (simp add: q_def)
  moreover have "neckline_confidence away neckline = Inr (min (7 / 10 + min q (2 / 10)) (9 / 10))"
    using True assms unfolding neckline_confidence_def q_def by simp
  ultimately show ?thesis by (auto simp: min_def)
qed (auto simp: neckline_confidence_def)

lemma fold_min_in: "foldl min x xs \<in> set (x # xs)" and fold_max_in: "foldl max x xs \<in> set (x # xs)" for x :: rat
  by (induction xs arbitrary: x; auto simp: min_def max_def)+

lemma pick_in: "xs \<noteq> [] \<Longrightarrow> min_of xs \<in> set xs" "xs \<noteq> [] \<Longrightarrow> max_of xs \<in> set xs"
  using fold_min_in [of "hd xs" "tl xs"] fold_max_in [of "hd xs" "tl xs"] by (simp_all add: min_of_def max_of_def)

lemma scan_pairs_sane:
  assumes "\<And>xs. xs \<noteq> [] \<Longrightarrow> pick xs \<in> set xs" "\<forall>(p, v) \<in> set others. 0 < v"
  shows "\<exists>r. scan_pairs tol pick away others ps = Inr r \<and> (\<forall>c. r = Some c \<longrightarrow> 1 / 2 \<le> c \<and> c \<le> 9 / 10)"
  using assms
proof (induction tol pick away others ps rule: scan_pairs.induct)
  case (1 tol pick away others p2 v2 p1 v1 ps)
  show ?case
  proof (cases "p2 \<le> p1 \<or> \<not> near_pair tol v1 v2 \<or> between_points others p1 p2 = []")
    case True
    with 1 show ?thesis by simp
  next
    case False
    let ?neckline = "pick (between_points others p1 p2)"
    have "?neckline \<in> set (between_points others p1 p2)" using False "1.prems"(1) by blast
    then have "0 < ?neckline" using "1.prems"(2) by (auto simp: between_points_def)
    from neckline_sane [OF this] obtain c where "neckline_confidence (away ?neckline) ?neckline = Inr c" "1 / 2 \<le> c" "c \<le> 9 / 10"
      by blast
    with False show ?thesis by (simp add: Let_def)
  qed
qed simp_all

lemma swing_values: "(i, v) \<in> set (fst (find_swing_points order vs)) \<or> (i, v) \<in> set (snd (find_swing_points order vs)) \<Longrightarrow> v \<in> set vs"
  using find_local_extrema_iff [of i order "map Some vs"]
  by (auto simp: find_swing_points_def split: prod.splits)

lemma last_n_subset: "x \<in> set (last_n n xs) \<Longrightarrow> x \<in> set xs"
  unfolding last_n_def by (rule in_set_dropD)

lemma pattern_of_sane: "pattern_of nm ty c = Some g \<Longrightarrow> \<forall>x. c = Some x \<longrightarrow> 1 / 2 \<le> x \<and> x \<le> 9 / 10 \<Longrightarrow>
    1 / 2 \<le> pg_confidence g \<and> pg_confidence g \<le> 9 / 10 \<and> pg_name g = nm \<and> pg_type g = ty"
proof -
  assume g: "pattern_of nm ty c = Some g" and b: "\<forall>x. c = Some x \<longrightarrow> 1 / 2 \<le> x \<and> x \<le> 9 / 10"
  from g obtain x where "c = Some x" "g = \<lparr>pg_name = nm, pg_type = ty, pg_confidence = round2 x\<rparr>" by (auto simp: pattern_of_def)
  with b round2_sane [of x] show ?thesis by simp
qed

lemma doubles_sane:
  assumes "\<forall>x \<in> set prices. 0 < x"
  shows "\<exists>r. detect_double_top prices w tol = Inr r \<and> (\<forall>g. r = Some g \<longrightarrow> sane g)"
    "\<exists>r. detect_double_bottom prices w tol = Inr r \<and> (\<forall>g. r = Some g \<longrightarrow> sane g)"
proof -
  let ?r = "last_n w prices"
  obtain hs ls where sp: "find_swing_points 3 ?r = (hs, ls)" by fastforce
  have "\<forall>(p, v) \<in> set ls. 0 < v" "\<forall>(p, v) \<in> set hs. 0 < v"
    using swing_values [of _ _ 3 ?r] sp assms by (fastforce dest: last_n_subset)+
  from scan_pairs_sane [OF pick_in(1) this(1), of tol "\<lambda>neckline. neckline - last ?r" "rev hs"]
    scan_pairs_sane [OF pick_in(2) this(2), of tol "\<lambda>neckline. last ?r - neckline" "rev ls"]
  obtain r1 r2 where r: "scan_pairs tol min_of (\<lambda>neckline. neckline - last ?r) ls (rev hs) = Inr r1"
    "scan_pairs tol max_of (\<lambda>neckline. last ?r - neckline) hs (rev ls) = Inr r2"
    and b: "\<forall>c. r1 = Some c \<longrightarrow> 1 / 2 \<le> c \<and> c \<le> 9 / 10" "\<forall>c. r2 = Some c \<longrightarrow> 1 / 2 \<le> c \<and> c \<le> 9 / 10" by blast
  have s: "sane g" if "pattern_of ''double_top'' ''bearish'' r1 = Some g \<or> pattern_of ''double_bottom'' ''bullish'' r2 = Some g" for g
    using that
  proof
    assume "pattern_of ''double_top'' ''bearish'' r1 = Some g"
    from pattern_of_sane [OF this b(1)] show ?thesis by (simp add: sane_def)
  next
    assume "pattern_of ''double_bottom'' ''bullish'' r2 = Some g"
    from pattern_of_sane [OF this b(2)] show ?thesis by (simp add: sane_def)
  qed
  have "\<exists>r. detect_double_top prices w tol = Inr r \<and> (r = None \<or> r = pattern_of ''double_top'' ''bearish'' r1)"
    by (simp add: detect_double_top_def sp Let_def r(1))
  then show "\<exists>r. detect_double_top prices w tol = Inr r \<and> (\<forall>g. r = Some g \<longrightarrow> sane g)" using s by force
  have "\<exists>r. detect_double_bottom prices w tol = Inr r \<and> (r = None \<or> r = pattern_of ''double_bottom'' ''bullish'' r2)"
    by (simp add: detect_double_bottom_def sp Let_def r(2))
  then show "\<exists>r. detect_double_bottom prices w tol = Inr r \<and> (\<forall>g. r = Some g \<longrightarrow> sane g)" using s by force
qed

lemma divergence_bounds:
  assumes "divergence up ps ms = Some c" "\<forall>(i, v) \<in> set ps. 0 < v" shows "1 / 2 \<le> c \<and> c \<le> 9 / 10"
proof -
  from assms(1) obtain i1 p1 i2 p2 m1 m2 where l: "last_two ps = Some ((i1, p1), (i2, p2))"
    and d: "0 < up * (p2 - p1)" "up * (m2 - m1) < 0"
    and c: "c = divergence_confidence (up * (p2 - p1)) p1 (up * (m1 - m2)) m1"
    by (auto simp: divergence_def split: if_splits option.splits)
  have "0 \<le> up * (p2 - p1) / max p1 tiny" using d(1) by (simp add: tiny_def)
  moreover have "0 \<le> up * (m1 - m2)" using d(2) by (simp add: algebra_simps)
  then have "0 \<le> up * (m1 - m2) / max \<bar>m1\<bar> tiny" by simp
  ultimately show ?thesis unfolding c divergence_confidence_def by (auto simp: min_def)
qed

lemma divergence_sane:
  assumes "\<forall>x \<in> set prices. 0 < x" "detect_macd_divergence prices macd w = Some g" shows "sane g"
proof -
  define common where "common = filter (\<lambda>(p, m). m \<noteq> None) (zip prices macd)"
  let ?p = "last_n w (map fst common)" and ?m = "last_n w (dropna (map snd common))"
  obtain phs pls where sp: "find_swing_points 3 ?p = (phs, pls)" by fastforce
  obtain mhs mls where sm: "find_swing_points 3 ?m = (mhs, mls)" by fastforce
  have "x \<in> set prices" if "x \<in> set ?p" for x
    using last_n_subset [OF that] by (auto simp: common_def dest: set_zip_leftD)
  then have pos: "\<forall>(i, v) \<in> set phs. 0 < v" "\<forall>(i, v) \<in> set pls. 0 < v"
    using swing_values [of _ _ 3 ?p] sp assms(1) by fastforce+
  have g: "(case divergence 1 phs mhs of Some c \<Rightarrow> pattern_of ''macd_bearish_divergence'' ''bearish'' (Some c)
      | None \<Rightarrow> pattern_of ''macd_bullish_divergence'' ''bullish'' (divergence (- 1) pls mls)) = Some g"
    using assms(2) unfolding detect_macd_divergence_def common_def [symmetric] by (simp add: Let_def sp sm split: if_splits)
  show ?thesis
  proof (cases "divergence 1 phs mhs")
    case (Some c)
    with g have "pattern_of ''macd_bearish_divergence'' ''bearish'' (Some c) = Some g" by simp
    from pattern_of_sane [OF this] divergence_bounds [OF Some pos(1)] show ?thesis by (simp add: sane_def)
  next
    case None
    with g have g: "pattern_of ''macd_bullish_divergence'' ''bullish'' (divergence (- 1) pls mls) = Some g" by simp
    have "\<forall>c. divergence (- 1) pls mls = Some c \<longrightarrow> 1 / 2 \<le> c \<and> c \<le> 9 / 10" using divergence_bounds [OF _ pos(2)] by blast
    from pattern_of_sane [OF g this] show ?thesis by (simp add: sane_def)
  qed
qed

lemma near_level_sane: "g \<in> set (near_level nm ty price level) \<Longrightarrow>
    1 / 2 \<le> pg_confidence g \<and> pg_confidence g \<le> 9 / 10 \<and> pg_name g = nm \<and> pg_type g = ty"
proof -
  assume g: "g \<in> set (near_level nm ty price level)"
  define d where "d = \<bar>price - level\<bar> / max level tiny"
  have "0 \<le> d" by (auto simp: d_def tiny_def max_def)
  moreover have "d < 2 / 100" "g = \<lparr>pg_name = nm, pg_type = ty, pg_confidence = round2 (1 / 2 + (2 / 100 - d) * 15)\<rparr>"
    using g unfolding near_level_def Let_def d_def [symmetric] by (simp_all split: if_splits)
  ultimately show ?thesis using round2_sane [of "1 / 2 + (2 / 100 - d) * 15"] by simp
qed

text \<open>What the frame's length asks of the indicators, and what comes of it.\<close>

definition fits :: "technical_indicators \<Rightarrow> nat \<Rightarrow> bool" where
  "fits ti n \<longleftrightarrow> (\<forall>xs \<in> {ti_sma_5 ti, ti_sma_20 ti, ti_sma_60 ti, ti_macd_line ti}. xs = [] \<or> length xs = n)"

definition if_given :: "series \<Rightarrow> series option" where
  "if_given xs = (if xs = [] then None else Some xs)"

lemma series_if_given_eq: "series_if_given xs n = (if xs = [] \<or> length xs = n then Inr (if_given xs)
    else Inl (ValueError ''Length of values does not match length of index''))"
  by (simp add: series_if_given_def list_to_series_def if_given_def)

lemma scan_patterns_misfit:
  assumes "20 \<le> length (fr_close df)" "\<not> fits ti (length (fr_close df))"
  shows "scan_patterns df ti = Inl (ValueError ''Length of values does not match length of index'')"
  using assms by (auto simp: scan_patterns_def Let_def series_if_given_eq fits_def)

definition cross_signals :: "technical_indicators \<Rightarrow> pattern_signal list" where
  "cross_signals ti = concat (map (\<lambda>(s, l). opt_list (detect_golden_cross s l 5) @ opt_list (detect_death_cross s l 5))
     (cross_pairs (if_given (ti_sma_5 ti)) (if_given (ti_sma_20 ti)) (if_given (ti_sma_60 ti))))"

lemma opt_list_sane: "g \<in> set (opt_list r) \<Longrightarrow> \<forall>g. r = Some g \<longrightarrow> sane g \<Longrightarrow> sane g"
  by (auto simp: opt_list_def split: option.splits)

lemma cross_signals_sane: "\<forall>g \<in> set (cross_signals ti). sane g"
proof -
  have cross: "sane g" if "g \<in> set (opt_list (detect_golden_cross s l 5) @ opt_list (detect_death_cross s l 5))" for g s l
  proof -
    from that consider "detect_golden_cross s l 5 = Some g" | "detect_death_cross s l 5 = Some g"
      by (auto simp: opt_list_def split: option.splits)
    then show ?thesis
    proof cases
      case 1
      from detect_cross_sane [OF this [unfolded detect_golden_cross_def]] show ?thesis by (simp add: sane_def)
    next
      case 2
      from detect_cross_sane [OF this [unfolded detect_death_cross_def]] show ?thesis by (simp add: sane_def)
    qed
  qed
  show ?thesis unfolding cross_signals_def using cross by auto
qed

lemma scan_patterns_fits:
  assumes "\<forall>x \<in> set (fr_close df). 0 < x" "fits ti (length (fr_close df))"
  shows "\<exists>gs. scan_patterns df ti = Inr gs \<and> (\<forall>g \<in> set gs. sane g)"
proof (cases "length (fr_close df) < 20")
  case True
  then show ?thesis by (simp add: scan_patterns_def Let_def)
next
  case False
  let ?close = "fr_close df"
  obtain top bottom where tb: "detect_double_top ?close 60 (2 / 100) = Inr top" "\<forall>g. top = Some g \<longrightarrow> sane g"
    "detect_double_bottom ?close 60 (2 / 100) = Inr bottom" "\<forall>g. bottom = Some g \<longrightarrow> sane g"
    using doubles_sane [OF assms(1), of 60 "2 / 100"] by blast
  obtain ss rs where sr: "detect_support_resistance ?close 5 = (ss, rs)" by fastforce
  let ?divs = "case if_given (ti_macd_line ti) of None \<Rightarrow> [] | Some m \<Rightarrow> opt_list (detect_macd_divergence ?close m 60)"
  have near: "sane g" if "g \<in> set (near_level ''near_support'' ''bullish'' p l) \<or> g \<in> set (near_level ''near_resistance'' ''bearish'' p l)" for g p l
    using that by (auto simp: sane_def dest!: near_level_sane)
  define gs where "gs = cross_signals ti @ opt_list top @ opt_list bottom @ ?divs
         @ concat (map (near_level ''near_support'' ''bullish'' (last ?close)) ss)
         @ concat (map (near_level ''near_resistance'' ''bearish'' (last ?close)) rs)"
  have "scan_patterns df ti = Inr gs"
    using False assms(2) tb(1,3) sr
    by (simp add: scan_patterns_def gs_def cross_signals_def Let_def series_if_given_eq fits_def)
  moreover have "\<forall>g \<in> set gs. sane g"
  proof -
    have "\<forall>g \<in> set ?divs. sane g"
      using divergence_sane [OF assms(1)] by (auto split: option.splits dest!: opt_list_sane)
    moreover have "\<forall>g \<in> set (opt_list top). sane g" "\<forall>g \<in> set (opt_list bottom). sane g"
      using opt_list_sane tb(2,4) by blast+
    moreover have "\<forall>g \<in> set (concat (map (near_level ''near_support'' ''bullish'' (last ?close)) ss)). sane g"
      "\<forall>g \<in> set (concat (map (near_level ''near_resistance'' ''bearish'' (last ?close)) rs)). sane g"
      using near by auto
    ultimately show ?thesis unfolding gs_def set_append ball_Un using cross_signals_sane by blast
  qed
  ultimately show ?thesis by blast
qed

lemma computed_fits:
  assumes "\<forall>n xs. length (ta_sma ta n xs) = length xs" "\<forall>xs. length (fst (ta_macd ta xs)) = length xs"
  shows "fits (compute_all_indicators ta df s) (length (fr_close df))"
  using assms by (auto simp: fits_def compute_all_indicators_def empty_indicators_def Let_def case_prod_unfold)

text \<open>
  C30: scan_patterns on closing prices that are all positive. With fewer than twenty it reports nothing. Otherwise, when
  sma_5, sma_20, sma_60 and macd_line each are empty or as long as the frame, it returns, and every signal
  is one of the eight documented patterns with its direction and a confidence between 0.5 and 0.9 after
  rounding; when one of them has another length, it raises ValueError. The indicators compute_all_indicators
  takes from the same frame are of the first kind, if ta's averages and MACD line are as long as their argument.
\<close>

theorem scan_patterns_sane:
  assumes "\<forall>x \<in> set (fr_close df). 0 < x"
    "\<forall>n xs. length (ta_sma ta n xs) = length xs" "\<forall>xs. length (fst (ta_macd ta xs)) = length xs"
  shows "(if length (fr_close df) < 20 then scan_patterns df ti = Inr []
      else if \<forall>xs \<in> {ti_sma_5 ti, ti_sma_20 ti, ti_sma_60 ti, ti_macd_line ti}. xs = [] \<or> length xs = length (fr_close df)
      then \<exists>gs. scan_patterns df ti = Inr gs \<and> (\<forall>g \<in> set gs. sane g)
      else scan_patterns df ti = Inl (ValueError ''Length of values does not match length of index''))
    \<and> (\<exists>gs. scan_patterns df (compute_all_indicators ta df s) = Inr gs \<and> (\<forall>g \<in> set gs. sane g))"
proof (rule conjI)
  consider "length (fr_close df) < 20" | "20 \<le> length (fr_close df)" "fits ti (length (fr_close df))"
    | "20 \<le> length (fr_close df)" "\<not> fits ti (length (fr_close df))" by linarith
  then show "if length (fr_close df) < 20 then scan_patterns df ti = Inr []
      else if \<forall>xs \<in> {ti_sma_5 ti, ti_sma_20 ti, ti_sma_60 ti, ti_macd_line ti}. xs = [] \<or> length xs = length (fr_close df)
      then \<exists>gs. scan_patterns df ti = Inr gs \<and> (\<forall>g \<in> set gs. sane g)
      else scan_patterns df ti = Inl (ValueError ''Length of values does not match length of index'')"
  proof cases
    case 1
    then show ?thesis by (simp add: scan_patterns_def Let_def)
  next
    case 2
    then show ?thesis using scan_patterns_fits [OF assms(1) 2(2)] unfolding fits_def by simp
  next
    case 3
    then show ?thesis using scan_patterns_misfit [OF 3] unfolding fits_def by (simp only: not_less [symmetric] if_False)
  qed
  show "\<exists>gs. scan_patterns df (compute_all_indicators ta df s) = Inr gs \<and> (\<forall>g \<in> set gs. sane g)"
    by (rule scan_patterns_fits [OF assms(1) computed_fits [OF assms(2,3)]])
qed

text \<open>
  The witness: twenty rising closes, on which no double pattern is found. Lists of the closes themselves stand for the
  indicators; an SMA of two values is refused.
\<close>

definition rising_frame :: frame where
  "rising_frame = \<lparr>fr_high = [], fr_low = [], fr_close = map rat_of_nat [1..<21], fr_volume = []\<rparr>"

definition plain_ta :: ta_lib where
  "plain_ta = \<lparr>ta_sma = (\<lambda>_ xs. xs), ta_ema = (\<lambda>_ xs. xs), ta_macd = (\<lambda>xs. (xs, xs, xs)), ta_rsi = (\<lambda>_ xs. xs),
     ta_stoch = (\<lambda>_ _ xs. (xs, xs)), ta_bollinger = (\<lambda>_ xs. (xs, xs, xs))\<rparr>"

definition short_sma :: technical_indicators where
  "short_sma = (empty_indicators ''005930'')\<lparr>ti_sma_5 := [Some 1, Some 2]\<rparr>"

theorem scan_patterns_sane_witness:
  "scan_patterns rising_frame short_sma = Inl (ValueError ''Length of values does not match length of index'')
   \<and> (\<exists>gs. scan_patterns rising_frame (compute_all_indicators plain_ta rising_frame ''005930'') = Inr gs \<and> (\<forall>g \<in> set gs. sane g))"
  using scan_patterns_sane [where df = rising_frame and ti = short_sma and ta = plain_ta and s = "''005930''"]
  by (simp add: rising_frame_def short_sma_def plain_ta_def)

section \<open>When a cross is reported\<close>

lemma find_None: "find P xs \<noteq> None \<longleftrightarrow> (\<exists>x \<in> set xs. P x)"
  by (induction xs) auto

lemma detect_cross_iff:
  "detect_cross crosses nm ty s l n \<noteq> None \<longleftrightarrow> (let D = dropna (subtract s l) in n + 1 \<le> length D
     \<and> (\<exists>i. length D \<le> i + n + 1 \<and> i + 1 < length D \<and> crosses (D ! i) (D ! (i + 1))))"
proof -
  define D where "D = dropna (subtract s l)"
  define R where "R = last_n (n + 1) D"
  show ?thesis
  proof (cases "n + 1 \<le> length D")
    case True
    then have len: "length R = n + 1" and R: "R ! k = D ! (length D - (n + 1) + k)" for k
      by (simp_all add: R_def last_n_def)
    have "detect_cross crosses nm ty s l n \<noteq> None \<longleftrightarrow> (\<exists>k \<in> set [1..<n + 1]. crosses (R ! (k - 1)) (R ! k))"
    proof -
      have "detect_cross crosses nm ty s l n \<noteq> None
        \<longleftrightarrow> find (\<lambda>i. crosses (R ! (i - 1)) (R ! i)) [1..<n + 1] \<noteq> None"
        using True unfolding detect_cross_def Let_def D_def [symmetric] R_def [symmetric] len
        by (simp split: option.split del: upt_Suc)
      also note find_None
      finally show ?thesis .
    qed
    also have "... \<longleftrightarrow> (\<exists>i. length D \<le> i + n + 1 \<and> i + 1 < length D \<and> crosses (D ! i) (D ! (i + 1)))"
    proof
      assume "\<exists>k \<in> set [1..<n + 1]. crosses (R ! (k - 1)) (R ! k)"
      then obtain k where k: "1 \<le> k" "k \<le> n" "crosses (R ! (k - 1)) (R ! k)" by auto
      define i where "i = length D - (n + 1) + (k - 1)"
      have e: "i + 1 = length D - (n + 1) + k" using k(1) by (simp add: i_def)
      have "crosses (D ! i) (D ! (i + 1))" using k(3) by (simp only: R e) (simp only: i_def)
      moreover have "length D \<le> i + n + 1" "i + 1 < length D" using k(1,2) True unfolding e by (simp_all add: i_def)
      ultimately show "\<exists>i. length D \<le> i + n + 1 \<and> i + 1 < length D \<and> crosses (D ! i) (D ! (i + 1))" by blast
    next
      assume "\<exists>i. length D \<le> i + n + 1 \<and> i + 1 < length D \<and> crosses (D ! i) (D ! (i + 1))"
      then obtain i where i: "length D \<le> i + n + 1" "i + 1 < length D" "crosses (D ! i) (D ! (i + 1))" by blast
      define k where "k = i + 1 - (length D - (n + 1))"
      have e: "length D - (n + 1) + (k - 1) = i" "length D - (n + 1) + k = i + 1" "1 \<le> k" "k < n + 1"
        using i(1,2) True by (auto simp: k_def)
      then have "crosses (R ! (k - 1)) (R ! k)" using i(3) by (simp add: R)
      moreover have "k \<in> set [1..<n + 1]" using e(3,4) by (simp only: set_upt atLeastLessThan_iff)
      ultimately show "\<exists>k \<in> set [1..<n + 1]. crosses (R ! (k - 1)) (R ! k)" by blast
    qed
    finally show ?thesis using True unfolding Let_def D_def by simp
  next
    case False
    then show ?thesis unfolding detect_cross_def Let_def D_def by simp
  qed
qed

text \<open>
  C31: detect_golden_cross (detect_death_cross) reports a signal exactly if the short average was at or
  below (above) the long one and strictly above (below) it on the next day that has both, somewhere
  within the last lookback such days. Nothing asks that it is still there today: after a crossing
  up and one down within the window both signals are reported.
\<close>

theorem cross_reported_iff:
  "(detect_golden_cross s l n \<noteq> None \<longleftrightarrow> (let D = dropna (subtract s l) in n + 1 \<le> length D
     \<and> (\<exists>i. length D \<le> i + n + 1 \<and> i + 1 < length D \<and> D ! i \<le> 0 \<and> 0 < D ! (i + 1))))
   \<and> (detect_death_cross s l n \<noteq> None \<longleftrightarrow> (let D = dropna (subtract s l) in n + 1 \<le> length D
     \<and> (\<exists>i. length D \<le> i + n + 1 \<and> i + 1 < length D \<and> 0 \<le> D ! i \<and> D ! (i + 1) < 0)))
   \<and> detect_golden_cross (map Some [4, 4, 6, 4, 4, 4]) (map Some [5, 5, 5, 5, 5, 5]) 5 \<noteq> None
   \<and> detect_death_cross (map Some [4, 4, 6, 4, 4, 4]) (map Some [5, 5, 5, 5, 5, 5]) 5 \<noteq> None"
proof (intro conjI)
  show "detect_golden_cross (map Some [4, 4, 6, 4, 4, 4]) (map Some [5, 5, 5, 5, 5, 5]) 5 \<noteq> None"
    "detect_death_cross (map Some [4, 4, 6, 4, 4, 4]) (map Some [5, 5, 5, 5, 5, 5]) 5 \<noteq> None" by code_simp+
qed (unfold detect_golden_cross_def detect_death_cross_def, rule detect_cross_iff, rule detect_cross_iff)

end
