(* ===== verification/Fundamental.thy ===== *)
theory Fundamental
  imports Prelude Models
begin

text \<open>
  \<open>FundamentalAnalyzer\<close> (\<open>src/analysis/fundamental/analyzer.py\<close>): the score of a company from its
  annual statements. Floats are exact rationals; the float power of the compound growth rate is
  the parameter \<open>rt\<close>, applied to the ratio of the two years. The texts of the reasons are left out.
\<close>

datatype report_type = Annual | Semi_annual | Quarterly

record financial_statement =
  fs_symbol :: symbol
  fs_report_type :: report_type
  fs_fiscal_year :: int
  fs_revenue :: "dec option"
  fs_operating_income :: "dec option"
  fs_net_income :: "dec option"
  fs_total_equity :: "dec option"
  fs_per :: "dec option"
  fs_pbr :: "dec option"
  fs_roe :: "dec option"

record fundamental_score =
  fu_symbol :: symbol
  fu_overall :: dec
  fu_valuation :: dec
  fu_growth :: dec
  fu_profitability :: dec

section \<open>Brackets\<close>

type_synonym brackets = "(rat \<times> int) list"

definition per_brackets :: brackets where
  "per_brackets = [(0, 20), (8, 90), (12, 80), (15, 65), (25, 45), (40, 25)]"

definition pbr_brackets :: brackets where
  "pbr_brackets = [(0, 10), (7 / 10, 90), (1, 80), (3 / 2, 65), (3, 45)]"

definition roe_brackets :: brackets where
  "roe_brackets = [(0, 10), (5, 35), (10, 55), (15, 75), (25, 90)]"

definition growth_brackets :: brackets where
  "growth_brackets = [(-15, 10), (-5, 25), (0, 40), (5, 55), (10, 65), (20, 75), (30, 85)]"

definition op_margin_brackets :: brackets where
  "op_margin_brackets = [(0, 10), (5, 35), (10, 55), (15, 70), (20, 85)]"

definition net_margin_brackets :: brackets where
  "net_margin_brackets = [(0, 10), (2, 30), (5, 50), (10, 65), (15, 80)]"

fun bracket_score :: "rat \<Rightarrow> brackets \<Rightarrow> int \<Rightarrow> int" where
  "bracket_score v [] d = d"
| "bracket_score v ((upper, score) # bs) d = (if v \<le> upper then score else bracket_score v bs d)"

section \<open>Growth rates\<close>

definition calc_growth_rate :: "dec option \<Rightarrow> dec option \<Rightarrow> rat option" where
  "calc_growth_rate current previous = (case (current, previous) of
     (Some c, Some p) \<Rightarrow> if p = 0 then None else Some (dmul (dquo (dsub c p) (dabs p)) 100)
   | _ \<Rightarrow> None)"

definition calc_cagr :: "(rat \<Rightarrow> rat) \<Rightarrow> dec option \<Rightarrow> dec option \<Rightarrow> rat option" where
  "calc_cagr rt current base = (case (current, base) of
     (Some c, Some b) \<Rightarrow> if b \<le> 0 \<or> c \<le> 0 then None else Some ((rt (dquo c b) - 1) * 100)
   | _ \<Rightarrow> None)"

section \<open>The three scores\<close>

definition score_of :: "dec option \<Rightarrow> brackets \<Rightarrow> int \<Rightarrow> rat" where
  "score_of v bs d = (case v of Some x \<Rightarrow> of_int (bracket_score x bs d) | None \<Rightarrow> 50)"

text \<open>A missing return on equity is derived, if the two amounts are there and the equity is not 0.\<close>

definition roe_of :: "financial_statement \<Rightarrow> exc + dec option" where
  "roe_of fs = (case (fs_roe fs, fs_net_income fs, fs_total_equity fs) of
     (None, Some n, Some e) \<Rightarrow> if e = 0 then Inr None
        else rbind (dquant 2 (dmul (dquo n e) 100)) (\<lambda>r. Inr (Some r))
   | (r, _, _) \<Rightarrow> Inr r)"

definition score_valuation :: "financial_statement \<Rightarrow> exc + dec" where
  "score_valuation fs = rbind (roe_of fs) (\<lambda>roe.
     dquant 0 (score_of (fs_per fs) per_brackets 10 * (35 / 100) + score_of (fs_pbr fs) pbr_brackets 20 * (30 / 100)
       + score_of roe roe_brackets 95 * (35 / 100)))"

text \<open>The scores of the rates that could be computed.\<close>

definition growth_scores :: "rat option list \<Rightarrow> rat list" where
  "growth_scores rates = map (\<lambda>r. of_int (bracket_score r growth_brackets 95)) (List.map_filter id rates)"

definition average :: "rat list \<Rightarrow> rat" where
  "average xs = sum_list xs / rat_of_nat (length xs)"

definition score_growth :: "(rat \<Rightarrow> rat) \<Rightarrow> financial_statement list \<Rightarrow> exc + dec" where
  "score_growth rt statements = (case statements of
     latest # prev # older \<Rightarrow>
       let scores = growth_scores [calc_growth_rate (fs_revenue latest) (fs_revenue prev),
                                   calc_growth_rate (fs_operating_income latest) (fs_operating_income prev)]
       in if scores = [] then Inr 50 else
       let yoy_avg = average scores;
           cagr_scores = (case older of [] \<Rightarrow> []
             | oldest # _ \<Rightarrow> growth_scores [calc_cagr rt (fs_revenue latest) (fs_revenue oldest),
                                           calc_cagr rt (fs_operating_income latest) (fs_operating_income oldest)])
       in if cagr_scores = [] then dquant 0 yoy_avg
          else dquant 0 (yoy_avg * (7 / 10) + average cagr_scores * (3 / 10))
   | _ \<Rightarrow> Inr 50)"

definition score_profitability :: "financial_statement \<Rightarrow> exc + dec" where
  "score_profitability fs = (case fs_revenue fs of
     None \<Rightarrow> Inr 0
   | Some revenue \<Rightarrow> if revenue = 0 then Inr 0 else
       dquant 0 (score_of (map_option (\<lambda>x. x / revenue * 100) (fs_operating_income fs)) op_margin_brackets 95 * (6 / 10)
         + score_of (map_option (\<lambda>x. x / revenue * 100) (fs_net_income fs)) net_margin_brackets 95 * (4 / 10)))"

section \<open>The analysis\<close>

text \<open>
  The query, which maps every failure to DatabaseError; rows of the same year come in the table's order.
\<close>

definition fetch_statements :: "exc option \<Rightarrow> financial_statement list \<Rightarrow> symbol \<Rightarrow> nat \<Rightarrow> exc + financial_statement list" where
  "fetch_statements fault rows s limit = (case fault of
     Some (DatabaseError msg) \<Rightarrow> Inl (DatabaseError msg)
   | Some e \<Rightarrow> Inl (DatabaseError ''fetch_statements'')
   | None \<Rightarrow> Inr (take limit (sort_key (\<lambda>r. - fs_fiscal_year r)
        (filter (\<lambda>r. fs_symbol r = s \<and> fs_report_type r = Annual) rows))))"

definition clamp_score :: "dec \<Rightarrow> dec" where
  "clamp_score x = max 0 (min 100 x)"

definition analyze_statements :: "(rat \<Rightarrow> rat) \<Rightarrow> symbol \<Rightarrow> financial_statement list \<Rightarrow> exc + fundamental_score" where
  "analyze_statements rt s statements = (case statements of
     [] \<Rightarrow> Inr \<lparr>fu_symbol = s, fu_overall = 0, fu_valuation = 0, fu_growth = 0, fu_profitability = 0\<rparr>
   | latest # _ \<Rightarrow>
       rbind (score_valuation latest) (\<lambda>v.
       rbind (score_growth rt statements) (\<lambda>g.
       rbind (score_profitability latest) (\<lambda>p.
       rbind (dquant 1 (dadd (dadd (dmul v (4 / 10)) (dmul g (3 / 10))) (dmul p (3 / 10)))) (\<lambda>overall.
         Inr \<lparr>fu_symbol = s, fu_overall = clamp_score overall, fu_valuation = v, fu_growth = g, fu_profitability = p\<rparr>)))))"

definition fundamental_analyze :: "(rat \<Rightarrow> rat) \<Rightarrow> exc option \<Rightarrow> financial_statement list \<Rightarrow> symbol \<Rightarrow> exc + fundamental_score" where
  "fundamental_analyze rt fault rows s = rbind (fetch_statements fault rows s 3) (analyze_statements rt s)"


section \<open>Bounds\<close>

lemma bracket_bounds:
  "\<forall>(u, s) \<in> set bs. lo \<le> s \<and> s \<le> hi \<Longrightarrow> lo \<le> d \<Longrightarrow> d \<le> hi \<Longrightarrow> lo \<le> bracket_score v bs d \<and> bracket_score v bs d \<le> hi"
  by (induction bs) auto

lemma bracket_mono:
  "sorted (map snd bs @ [d]) \<Longrightarrow> v \<le> w \<Longrightarrow> bracket_score v bs d \<le> bracket_score w bs d"
proof (induction bs)
  case (Cons b bs)
  obtain u s where b: "b = (u, s)" by (cases b)
  have "s \<le> bracket_score w bs d"
    using Cons.prems(1) bracket_bounds [of bs s "bracket_score w bs d" d w] unfolding b
    by (induction bs) (auto split: if_splits)
  with Cons show ?case by (auto simp: b)
qed simp

lemmas brackets = per_brackets_def pbr_brackets_def roe_brackets_def growth_brackets_def
  op_margin_brackets_def net_margin_brackets_def

lemma score_of_bounds:
  assumes "\<forall>(u, s) \<in> set bs. 0 \<le> s \<and> s \<le> 100" "0 \<le> d" "d \<le> 100"
  shows "0 \<le> score_of v bs d \<and> score_of v bs d \<le> 100"
  using bracket_bounds [OF assms(1), of d] assms(2,3) by (auto simp: score_of_def split: option.splits)

lemma score_ranges:
  "0 \<le> score_of v per_brackets 10 \<and> score_of v per_brackets 10 \<le> 100"
  "0 \<le> score_of v pbr_brackets 20 \<and> score_of v pbr_brackets 20 \<le> 100"
  "0 \<le> score_of v roe_brackets 95 \<and> score_of v roe_brackets 95 \<le> 100"
  "0 \<le> score_of v op_margin_brackets 95 \<and> score_of v op_margin_brackets 95 \<le> 100"
  "0 \<le> score_of v net_margin_brackets 95 \<and> score_of v net_margin_brackets 95 \<le> 100"
  by (rule score_of_bounds; simp add: brackets)+

lemma dquant_range:
  assumes "dquant 0 x = Inr y" "0 \<le> x" "x \<le> 100"
  shows "y \<in> \<int>" "0 \<le> y" "y \<le> 100"
proof -
  show "y \<in> \<int>" using dquant_Inr(1) [OF assms(1)] by simp
  show "0 \<le> y" using dquant_nonneg assms(1,2) by blast
  show "y \<le> 100" using dquant_mono [OF assms(1) _ assms(3), of 100] dquant_of_int [of 100 0] by simp
qed

lemma dquant_total: "0 \<le> x \<Longrightarrow> x \<le> 100 \<Longrightarrow> \<exists>y. dquant 0 x = Inr y"
  by (rule dquant_defined) simp

definition whole_score :: "dec \<Rightarrow> bool" where
  "whole_score x \<longleftrightarrow> x \<in> \<int> \<and> 0 \<le> x \<and> x \<le> 100"

lemma whole_score_dquant: "0 \<le> x \<Longrightarrow> x \<le> 100 \<Longrightarrow> \<exists>y. dquant 0 x = Inr y \<and> whole_score y"
proof -
  assume x: "0 \<le> x" "x \<le> 100"
  then obtain y where y: "dquant 0 x = Inr y" using dquant_total by blast
  from dquant_range [OF y x] have "whole_score y" by (simp add: whole_score_def)
  with y show ?thesis by blast
qed

lemma average_bounds:
  assumes "xs \<noteq> []" "\<forall>x \<in> set xs. lo \<le> x \<and> x \<le> hi" shows "lo \<le> average xs \<and> average xs \<le> hi"
proof -
  have "lo * rat_of_nat (length xs) \<le> sum_list xs \<and> sum_list xs \<le> hi * rat_of_nat (length xs)"
    using assms(2) by (induction xs) (auto simp: algebra_simps)
  then show ?thesis using assms(1) by (simp add: average_def field_simps)
qed

lemma valuation_whole:
  "roe_of fs = Inr roe \<Longrightarrow> \<exists>y. score_valuation fs = Inr y \<and> whole_score y"
  unfolding score_valuation_def
  by (simp, rule whole_score_dquant)
    (use score_ranges(1) [of "fs_per fs"] score_ranges(2) [of "fs_pbr fs"] score_ranges(3) [of roe] in linarith)+

lemma growth_scores_bounds: "\<forall>x \<in> set (growth_scores rs). 0 \<le> x \<and> x \<le> 100"
  using bracket_bounds [of growth_brackets 0 100 95] by (auto simp: growth_scores_def brackets)

lemma growth_whole: "\<exists>y. score_growth rt sts = Inr y \<and> whole_score y"
proof -
  have n: "whole_score 50" by (simp add: whole_score_def)
  show ?thesis
  proof (cases sts)
    case (Cons latest r)
    then show ?thesis
    proof (cases r)
      case (Cons prev older)
      define ys where "ys = growth_scores [calc_growth_rate (fs_revenue latest) (fs_revenue prev),
                                   calc_growth_rate (fs_operating_income latest) (fs_operating_income prev)]"
      define cs where "cs = (case older of [] \<Rightarrow> []
             | oldest # _ \<Rightarrow> growth_scores [calc_cagr rt (fs_revenue latest) (fs_revenue oldest),
                                           calc_cagr rt (fs_operating_income latest) (fs_operating_income oldest)])"
      have y: "ys \<noteq> [] \<Longrightarrow> 0 \<le> average ys \<and> average ys \<le> 100"
        unfolding ys_def by (rule average_bounds) (use growth_scores_bounds in blast)+
      have "\<forall>x \<in> set cs. 0 \<le> x \<and> x \<le> 100"
        unfolding cs_def by (cases older) (simp, use growth_scores_bounds in simp)
      then have c: "cs \<noteq> [] \<Longrightarrow> 0 \<le> average cs \<and> average cs \<le> 100" by (rule average_bounds [rotated])
      have "score_growth rt sts = (if ys = [] then Inr 50 else if cs = [] then dquant 0 (average ys)
          else dquant 0 (average ys * (7 / 10) + average cs * (3 / 10)))"
        by (simp add: score_growth_def \<open>sts = latest # r\<close> Cons Let_def ys_def cs_def)
      moreover have "ys \<noteq> [] \<Longrightarrow> \<exists>y. dquant 0 (average ys) = Inr y \<and> whole_score y"
        using y whole_score_dquant by blast
      moreover have "ys \<noteq> [] \<Longrightarrow> cs \<noteq> [] \<Longrightarrow> \<exists>y. dquant 0 (average ys * (7 / 10) + average cs * (3 / 10)) = Inr y \<and> whole_score y"
        using y c by (intro whole_score_dquant) auto
      ultimately show ?thesis using n by (auto split: if_splits)
    qed (simp add: score_growth_def n)
  qed (simp add: score_growth_def n)
qed

lemma profitability_whole: "\<exists>y. score_profitability fs = Inr y \<and> whole_score y"
proof (cases "fs_revenue fs")
  case (Some revenue)
  show ?thesis
  proof (cases "revenue = 0")
    case False
    then show ?thesis
      unfolding score_profitability_def Some
      by (simp, intro whole_score_dquant)
        (use score_ranges(4) [of "map_option (\<lambda>x. x / revenue * 100) (fs_operating_income fs)"]
          score_ranges(5) [of "map_option (\<lambda>x. x / revenue * 100) (fs_net_income fs)"] in \<open>simp; linarith\<close>)+
  qed (simp add: score_profitability_def Some whole_score_def)
qed (simp add: score_profitability_def whole_score_def)

text \<open>The weighted sum of whole scores has one decimal, so neither quantize nor the clamp changes it.\<close>

lemma overall_exact:
  assumes "whole_score v" "whole_score g" "whole_score p"
  defines "w \<equiv> v * (4 / 10) + g * (3 / 10) + p * (3 / 10)"
  shows "dadd (dadd (dmul v (4 / 10)) (dmul g (3 / 10))) (dmul p (3 / 10)) = w"
    and "dquant 1 w = Inr w" and "0 \<le> w" "w \<le> 100"
proof -
  obtain a b c where i: "v = of_int a" "g = of_int b" "p = of_int c" using assms(1-3) by (auto simp: whole_score_def elim!: Ints_cases)
  then have r: "0 \<le> a" "a \<le> 100" "0 \<le> b" "b \<le> 100" "0 \<le> c" "c \<le> 100" using assms(1-3) by (auto simp: whole_score_def)
  have f: "fix28 x = x" if "x * 10 = of_int m" "0 \<le> m" "m \<le> 10000" for x m
  proof -
    have "x = of_int m / 10" using that(1) by (simp add: field_simps)
    moreover have "is_dec (of_int m / 10 ^ 1)" using that(2,3) by (intro is_dec_places) simp
    ultimately show ?thesis unfolding is_dec_def by (metis power_one_right)
  qed
  have w: "w * 10 = of_int (4 * a + 3 * b + 3 * c)" by (simp add: w_def i)
  have e: "fix28 (v * (4 / 10)) = v * (4 / 10)" "fix28 (g * (3 / 10)) = g * (3 / 10)" "fix28 (p * (3 / 10)) = p * (3 / 10)"
    "fix28 (v * (4 / 10) + g * (3 / 10)) = v * (4 / 10) + g * (3 / 10)"
    by (rule f [of _ "4 * a"] f [of _ "3 * b"] f [of _ "3 * c"] f [of _ "4 * a + 3 * b"]; use r in \<open>simp add: i\<close>)+
  show "dadd (dadd (dmul v (4 / 10)) (dmul g (3 / 10))) (dmul p (3 / 10)) = w"
    unfolding dadd_def dmul_def e w_def [symmetric] by (rule f [OF w]) (use r in auto)
  show "0 \<le> w" "w \<le> 100" using assms(1-3) by (auto simp: w_def whole_score_def)
  show "dquant 1 w = Inr w"
    using r w unfolding dquant_def Let_def by (simp add: round_half_up_of_int field_simps del: of_int_add of_int_mult)
qed


text \<open>
  C35: analyze never raises but for a failing query, which always comes out as DatabaseError, and for
  a derived return on equity too large for the context. Its sub-scores are whole numbers from 0 to
  100 and the overall score is exactly their weighted mean 0.4 : 0.3 : 0.3, so that neither the
  rounding to one decimal nor the clamp ever changes it; without an annual statement all scores are 0.
\<close>

theorem fundamental_scores_exact:
  "case fundamental_analyze rt fault rows s of
     Inl e \<Rightarrow> fault \<noteq> None \<and> (\<exists>m. e = DatabaseError m) \<or> (\<exists>fs \<in> set rows. roe_of fs = Inl e)
   | Inr r \<Rightarrow> fault = None \<and> fu_symbol r = s
       \<and> fu_valuation r \<in> \<int> \<and> 0 \<le> fu_valuation r \<and> fu_valuation r \<le> 100
       \<and> fu_growth r \<in> \<int> \<and> 0 \<le> fu_growth r \<and> fu_growth r \<le> 100
       \<and> fu_profitability r \<in> \<int> \<and> 0 \<le> fu_profitability r \<and> fu_profitability r \<le> 100
       \<and> fu_overall r = fu_valuation r * (4 / 10) + fu_growth r * (3 / 10) + fu_profitability r * (3 / 10)"
proof (cases fault)
  case (Some e)
  then show ?thesis by (cases e) (simp_all add: fundamental_analyze_def fetch_statements_def)
next
  case None
  define sts where "sts = take 3 (sort_key (\<lambda>r. - fs_fiscal_year r) (filter (\<lambda>r. fs_symbol r = s \<and> fs_report_type r = Annual) rows))"
  have an: "fundamental_analyze rt fault rows s = analyze_statements rt s sts"
    by (simp add: fundamental_analyze_def fetch_statements_def None sts_def)
  show ?thesis
  proof (cases sts)
    case Nil
    then show ?thesis unfolding an by (simp add: analyze_statements_def None)
  next
    case (Cons latest older)
    then have "latest \<in> set sts" by simp
    then have l: "latest \<in> set rows" unfolding sts_def by (auto dest: in_set_takeD)
    show ?thesis
    proof (cases "roe_of latest")
      case (Inl e)
      then have "analyze_statements rt s sts = Inl e"
        by (simp add: Cons analyze_statements_def score_valuation_def)
      with Inl l show ?thesis unfolding an by auto
    next
      case (Inr roe)
      obtain v g p where e: "score_valuation latest = Inr v" "score_growth rt sts = Inr g" "score_profitability latest = Inr p"
        and w: "whole_score v" "whole_score g" "whole_score p"
        using valuation_whole [OF Inr] growth_whole [of rt sts] profitability_whole [of latest] by blast
      note o = overall_exact [OF w]
      have "analyze_statements rt s sts = Inr \<lparr>fu_symbol = s, fu_overall = v * (4 / 10) + g * (3 / 10) + p * (3 / 10),
          fu_valuation = v, fu_growth = g, fu_profitability = p\<rparr>"
        using e o(3,4) unfolding Cons analyze_statements_def
        by (simp only: list.case rbind.simps o(1,2) clamp_score_def) simp
      then show ?thesis using w unfolding an by (simp add: None whole_score_def)
    qed
  qed
qed

definition sample_statement :: "int \<Rightarrow> rat \<Rightarrow> rat \<Rightarrow> financial_statement" where
  "sample_statement y revenue income = \<lparr>fs_symbol = ''005930'', fs_report_type = Annual, fs_fiscal_year = y,
     fs_revenue = Some revenue, fs_operating_income = Some income, fs_net_income = Some income, fs_total_equity = Some 5000,
     fs_per = Some 10, fs_pbr = None, fs_roe = None\<rparr>"


theorem fundamental_scores_exact_witness:
  "\<exists>r. fundamental_analyze (\<lambda>x. x) None [sample_statement 2022 1000 100, sample_statement 2024 1200 150, sample_statement 2023 1000 100] ''005930'' = Inr r
     \<and> fu_overall r = fu_valuation r * (4 / 10) + fu_growth r * (3 / 10) + fu_profitability r * (3 / 10)
     \<and> fu_valuation r \<le> 100"
proof -
  let ?rows = "[sample_statement 2022 1000 100, sample_statement 2024 1200 150, sample_statement 2023 1000 100]"
  have "roe_of fs = Inl e \<Longrightarrow> fs \<notin> set ?rows" for fs e
    by (auto simp: roe_of_def sample_statement_def dec_eval dquant_def res_simps)
  then show ?thesis
    using fundamental_scores_exact [where rt = "\<lambda>x. x" and fault = None and rows = ?rows and s = "''005930''"] by (auto split: sum.splits)
qed

section \<open>Better earnings\<close>

lemma score_of_mono: "sorted (map snd bs @ [d]) \<Longrightarrow> v \<le> w \<Longrightarrow> score_of (Some v) bs d \<le> score_of (Some w) bs d"
  by (simp add: score_of_def bracket_mono)

lemma dec_mono:
  "a \<le> b \<Longrightarrow> dsub a c \<le> dsub b c" "0 < c \<Longrightarrow> a \<le> b \<Longrightarrow> dquo a c \<le> dquo b c" "0 \<le> c \<Longrightarrow> a \<le> b \<Longrightarrow> dmul a c \<le> dmul b c"
  by (auto simp: dec_defs intro!: fix28_mono divide_right_mono mult_right_mono)

lemma growth_rate_mono:
  assumes "c \<le> c'" "calc_growth_rate (Some c) p = Some r"
  shows "\<exists>r'. calc_growth_rate (Some c') p = Some r' \<and> r \<le> r'"
proof -
  obtain q where q: "p = Some q" "q \<noteq> 0" using assms(2) by (auto simp: calc_growth_rate_def split: option.splits if_splits)
  then have "0 < dabs q" using dabs_nonneg [of q] dabs_eq_0_iff [of q] by linarith
  with assms q show ?thesis
    by (auto simp: calc_growth_rate_def intro!: dec_mono)
qed

lemma growth_scores_mono:
  assumes "rel_option (\<le>) oa ob"
  shows "growth_scores [r, oa] = [] \<longleftrightarrow> growth_scores [r, ob] = []"
    and "average (growth_scores [r, oa]) \<le> average (growth_scores [r, ob])"
proof -
  have g: "sorted (map snd growth_brackets @ [95])" by (simp add: growth_brackets_def)
  show "growth_scores [r, oa] = [] \<longleftrightarrow> growth_scores [r, ob] = []"
    using assms by (cases r; cases oa; cases ob) (auto simp: growth_scores_def map_filter_simps)
  show "average (growth_scores [r, oa]) \<le> average (growth_scores [r, ob])"
    using assms bracket_mono [OF g]
    by (cases r; cases oa; cases ob) (auto simp: growth_scores_def map_filter_simps average_def intro!: divide_right_mono)
qed


lemma cagr_mono:
  assumes "0 < y" "y \<le> y'" "\<And>a b. a \<le> b \<Longrightarrow> rt a \<le> rt b"
  shows "rel_option (\<le>) (calc_cagr rt (Some y) b) (calc_cagr rt (Some y') b)"
proof (cases b)
  case (Some q)
  show ?thesis
  proof (cases "q \<le> 0")
    case False
    then have "rt (dquo y q) \<le> rt (dquo y' q)" using assms(2,3) by (simp add: dec_mono)
    with False Some assms(1,2) show ?thesis by (simp add: calc_cagr_def)
  qed (simp add: calc_cagr_def Some)
qed (simp add: calc_cagr_def)

lemma growth_mono:
  assumes oi: "fs_operating_income a = Some y" "fs_operating_income b = Some y'" "0 < y" "y \<le> y'"
    and rev: "fs_revenue b = fs_revenue a" and rt: "\<And>a b. a \<le> b \<Longrightarrow> rt a \<le> rt b"
    and g: "score_growth rt (a # older) = Inr g" "score_growth rt (b # older) = Inr g'"
  shows "g \<le> g'"
proof (cases older)
  case Nil
  then show ?thesis using g by (simp add: score_growth_def)
next
  case (Cons prev rest)
  have yoy: "rel_option (\<le>) (calc_growth_rate (Some y) p) (calc_growth_rate (Some y') p)" for p
    using growth_rate_mono [OF oi(4), of p] by (cases "calc_growth_rate (Some y) p") (auto simp: calc_growth_rate_def split: option.splits if_splits)
  define ys where "ys = (\<lambda>v. growth_scores [calc_growth_rate (fs_revenue a) (fs_revenue prev), calc_growth_rate v (fs_operating_income prev)])"
  define cs where "cs = (\<lambda>v. case rest of [] \<Rightarrow> []
    | oldest # _ \<Rightarrow> growth_scores [calc_cagr rt (fs_revenue a) (fs_revenue oldest), calc_cagr rt v (fs_operating_income oldest)])"
  have y: "ys (Some y) = [] \<longleftrightarrow> ys (Some y') = []" "average (ys (Some y)) \<le> average (ys (Some y'))"
    unfolding ys_def by (rule growth_scores_mono [OF yoy])+
  have c: "cs (Some y) = [] \<longleftrightarrow> cs (Some y') = []" "average (cs (Some y)) \<le> average (cs (Some y'))"
    unfolding cs_def using growth_scores_mono [OF cagr_mono [OF oi(3,4) rt]] by (simp_all split: list.split)
  have e: "score_growth rt (z # older) = (if ys v = [] then Inr 50 else if cs v = [] then dquant 0 (average (ys v))
      else dquant 0 (average (ys v) * (7 / 10) + average (cs v) * (3 / 10)))"
    if "fs_operating_income z = v" "fs_revenue z = fs_revenue a" for z v
    using that by (cases rest) (simp_all add: score_growth_def Cons Let_def ys_def cs_def)
  have "average (ys (Some y)) * (7 / 10) + average (cs (Some y)) * (3 / 10) \<le> average (ys (Some y')) * (7 / 10) + average (cs (Some y')) * (3 / 10)"
    using y(2) c(2) by linarith
  then show ?thesis using g y c unfolding e [OF oi(1) refl] e [OF oi(2) rev]
    by (auto split: if_splits dest: dquant_mono)
qed

lemma profitability_mono:
  assumes "fs_revenue a = Some r" "0 < r" "fs_revenue b = Some r" "fs_operating_income a = Some y" "fs_operating_income b = Some y'" "y \<le> y'"
    "fs_net_income a = Some n" "fs_net_income b = Some n'" "n \<le> n'"
    "score_profitability a = Inr p" "score_profitability b = Inr p'"
  shows "p \<le> p'"
proof -
  have s: "sorted (map snd op_margin_brackets @ [95])" "sorted (map snd net_margin_brackets @ [95])" by (simp_all add: brackets)
  have "y / r * 100 \<le> y' / r * 100" "n / r * 100 \<le> n' / r * 100" using assms(2,6,9) by (simp_all add: divide_right_mono)
  from score_of_mono [OF s(1) this(1)] score_of_mono [OF s(2) this(2)]
  show ?thesis using assms(2,10,11) unfolding score_profitability_def assms(1,3,4,5,7,8)
    by simp (rule dquant_mono, assumption, assumption, linarith)
qed

lemma valuation_mono:
  assumes eq: "fs_per b = fs_per a" "fs_pbr b = fs_pbr a" "fs_roe b = fs_roe a" "fs_total_equity b = fs_total_equity a"
    and n: "fs_net_income a = Some n" "fs_net_income b = Some n'" "n \<le> n'" and e: "\<And>e. fs_total_equity a = Some e \<Longrightarrow> 0 \<le> e"
    and v: "score_valuation a = Inr v" "score_valuation b = Inr v'"
  shows "v \<le> v'"
proof -
  obtain ra rb where r: "roe_of a = Inr ra" "roe_of b = Inr rb" using v by (auto simp: score_valuation_def res_simps)
  have rel: "rel_option (\<le>) ra rb"
  proof (cases "fs_roe a")
    case None
    show ?thesis
    proof (cases "fs_total_equity a")
      case (Some q)
      show ?thesis
      proof (cases "q = 0")
        case False
        with e Some have "0 < q" by force
        then have "dmul (dquo n q) 100 \<le> dmul (dquo n' q) 100" using n(3) by (intro dec_mono) auto
        then show ?thesis using r dquant_mono unfolding roe_of_def eq n None Some by (auto simp: False res_simps)
      qed (use r in \<open>simp add: roe_of_def eq n None Some\<close>)
    qed (use r in \<open>simp add: roe_of_def eq n None\<close>)
  next
    case (Some x)
    then have "roe_of a = Inr (Some x)" "roe_of b = Inr (Some x)" by (simp_all add: roe_of_def eq n split: option.split)
    with r have "ra = Some x" "rb = Some x" by simp_all
    then show ?thesis by simp
  qed
  have "sorted (map snd roe_brackets @ [95])" by (simp add: brackets)
  then have "score_of ra roe_brackets 95 \<le> score_of rb roe_brackets 95"
    using rel score_of_mono by (cases ra; cases rb) auto
  then show ?thesis using v unfolding score_valuation_def r eq by simp (rule dquant_mono, assumption, assumption, linarith)
qed


text \<open>
  C36: In analyze, higher operating and net income at the same positive revenue and otherwise equal
  data never lower any sub-score or the overall score, if the equity is not negative, the float
  power is monotone and the lower operating income is already a profit. The last condition is
  needed: the compound rate is skipped for a loss, so a loss turned into a small profit can lose
  25 points of the growth score.
\<close>

theorem better_earnings_never_lower:
  assumes "fs_operating_income a = Some y" "fs_net_income a = Some n" "0 < y" "y \<le> y'" "n \<le> n'"
    and "fs_revenue a = Some r" "0 < r" "\<forall>e. fs_total_equity a = Some e \<longrightarrow> 0 \<le> e"
    and "\<forall>u v. u \<le> v \<longrightarrow> rt u \<le> rt v"
    and "b = a\<lparr>fs_operating_income := Some y', fs_net_income := Some n'\<rparr>"
    and "analyze_statements rt s (a # older) = Inr x" "analyze_statements rt s (b # older) = Inr z"
  shows "fu_valuation x \<le> fu_valuation z \<and> fu_growth x \<le> fu_growth z \<and> fu_profitability x \<le> fu_profitability z
    \<and> fu_overall x \<le> fu_overall z"
proof -
  have b: "fs_operating_income b = Some y'" "fs_net_income b = Some n'" "fs_revenue b = fs_revenue a" "fs_per b = fs_per a"
    "fs_pbr b = fs_pbr a" "fs_roe b = fs_roe a" "fs_total_equity b = fs_total_equity a"
    by (simp_all add: assms(10))
  have parts: "\<exists>q. score_valuation c = Inr (fu_valuation w) \<and> score_growth rt (c # older) = Inr (fu_growth w)
      \<and> score_profitability c = Inr (fu_profitability w) \<and> fu_overall w = clamp_score q
      \<and> dquant 1 (dadd (dadd (dmul (fu_valuation w) (4 / 10)) (dmul (fu_growth w) (3 / 10))) (dmul (fu_profitability w) (3 / 10)))
        = Inr q" if "analyze_statements rt s (c # older) = Inr w" for c w
    using that by (auto simp: analyze_statements_def res_simps)
  obtain p q where p: "score_valuation a = Inr (fu_valuation x)" "score_growth rt (a # older) = Inr (fu_growth x)"
      "score_profitability a = Inr (fu_profitability x)" "fu_overall x = clamp_score p"
      "dquant 1 (dadd (dadd (dmul (fu_valuation x) (4 / 10)) (dmul (fu_growth x) (3 / 10))) (dmul (fu_profitability x) (3 / 10))) = Inr p"
    and q: "score_valuation b = Inr (fu_valuation z)" "score_growth rt (b # older) = Inr (fu_growth z)"
      "score_profitability b = Inr (fu_profitability z)" "fu_overall z = clamp_score q"
      "dquant 1 (dadd (dadd (dmul (fu_valuation z) (4 / 10)) (dmul (fu_growth z) (3 / 10))) (dmul (fu_profitability z) (3 / 10))) = Inr q"
    using parts [OF assms(11)] parts [OF assms(12)] by blast
  have v: "fu_valuation x \<le> fu_valuation z"
    by (rule valuation_mono [OF b(4-7) assms(2) b(2) assms(5) _ p(1) q(1)]) (use assms(8) in blast)
  have g: "fu_growth x \<le> fu_growth z"
    by (rule growth_mono [OF assms(1) b(1) assms(3,4) b(3) _ p(2) q(2)]) (use assms(9) in blast)
  have pr: "fu_profitability x \<le> fu_profitability z"
    by (rule profitability_mono [OF assms(6,7) b(3) [unfolded assms(6)] assms(1) b(1) assms(4) assms(2) b(2) assms(5) p(3) q(3)])
  have "p \<le> q"
    by (rule dquant_mono [OF p(5) q(5)]) (use v g pr in \<open>simp add: dadd_def dmul_def; intro fix28_mono add_mono; simp\<close>)
  with v g pr p(4) q(4) show ?thesis by (auto simp: clamp_score_def)
qed

text \<open>Income of 1 after a loss of 1, both after -10000 and 10000: the growth score falls from 95 to 70.\<close>

lemma profit_turn_lowers_growth:
  assumes "rt (dquo 1 10000) \<le> 85 / 100"
  shows "score_growth rt [(sample_statement 2024 0 (- 1))\<lparr>fs_revenue := None\<rparr>, sample_statement 2023 0 (- 10000), sample_statement 2022 0 10000] = Inr 95"
    and "score_growth rt [(sample_statement 2024 0 1)\<lparr>fs_revenue := None\<rparr>, sample_statement 2023 0 (- 10000), sample_statement 2022 0 10000] = Inr 70"
  using assms by (simp_all add: score_growth_def sample_statement_def calc_growth_rate_def calc_cagr_def growth_scores_def map_filter_simps growth_brackets_def average_def dquant_def dec_eval)


theorem better_earnings_never_lower_witness:
  "\<exists>x z. analyze_statements (\<lambda>u. u / 2 + 1 / 2) ''005930'' [sample_statement 2024 1200 150, sample_statement 2023 1000 100] = Inr x
     \<and> analyze_statements (\<lambda>u. u / 2 + 1 / 2) ''005930'' [(sample_statement 2024 1200 150)\<lparr>fs_operating_income := Some 300, fs_net_income := Some 200\<rparr>, sample_statement 2023 1000 100] = Inr z
     \<and> fu_overall x \<le> fu_overall z"
proof -
  define rt :: "rat \<Rightarrow> rat" where "rt = (\<lambda>u. u / 2 + 1 / 2)"
  define a where "a = sample_statement 2024 1200 150"
  define b where "b = a\<lparr>fs_operating_income := Some 300, fs_net_income := Some 200\<rparr>"
  define older where "older = [sample_statement 2023 1000 100]"
  have ex: "\<exists>w. analyze_statements rt ''005930'' (c # older) = Inr w" if "\<exists>r. roe_of c = Inr r" for c
  proof -
    from that obtain v where v: "score_valuation c = Inr v" "whole_score v" using valuation_whole by blast
    obtain g p where gp: "score_growth rt (c # older) = Inr g" "whole_score g" "score_profitability c = Inr p" "whole_score p"
      using growth_whole profitability_whole by blast
    show ?thesis using v gp overall_exact [OF v(2) gp(2,4)]
      unfolding analyze_statements_def by (simp only: list.case rbind.simps) simp
  qed
  have "\<exists>r. roe_of a = Inr r" "\<exists>r. roe_of b = Inr r"
    by (simp_all add: a_def b_def roe_of_def sample_statement_def dec_eval dquant_def)
  then obtain x z where xz: "analyze_statements rt ''005930'' (a # older) = Inr x" "analyze_statements rt ''005930'' (b # older) = Inr z"
    using ex by blast
  have "fu_overall x \<le> fu_overall z"
    using better_earnings_never_lower [of a 150 150 300 200 1200 rt b "''005930''" older x z] xz
    by (simp add: a_def b_def sample_statement_def rt_def)
  with xz show ?thesis unfolding rt_def a_def b_def older_def by blast
qed

end
