(* ===== verification/Sentiment.thy ===== *)
theory Sentiment
  imports Prelude Models "HOL-Library.Sublist"
begin

text \<open>
  \<open>KeywordSentimentAnalyzer\<close> (\<open>src/analysis/sentiment\<close>): news articles are scored by the keywords they
  contain. A text is the list of its code points; the keyword lists are those of \<open>keywords.py\<close>,
  generated from the source. Floats are exact rationals, the tanh of the standard library is the
  parameter \<open>squash\<close>.
\<close>

type_synonym utext = "int list"

section \<open>Keywords\<close>

definition positive_keywords :: "(utext \<times> rat) list" where
  "positive_keywords = [
    ([54840, 49892, 51201], 9 / 10),
    ([47588, 52636, 51613, 44032], 4 / 5),
    ([50689, 50629, 51060, 51061, 51613, 44032], 9 / 10),
    ([50612, 45789, 49436, 54532, 46972, 51060, 51592], 1),
    ([55121, 51088, 51204, 54872], 9 / 10),
    ([49324, 49345, 52572, 45824], 1),
    ([49892, 51201, 44060, 49440], 4 / 5),
    ([47588, 52636, 49457, 51109], 4 / 5),
    ([51060, 51061, 51613, 44032], 4 / 5),
    ([49692, 51060, 51061, 51613, 44032], 9 / 10),
    ([49888, 44256, 44032], 4 / 5),
    ([49345, 54620, 44032], 7 / 10),
    ([44553, 46321], 3 / 5),
    ([44053, 49464], 3 / 5),
    ([48152, 46321], 3 / 5),
    ([54924, 48373, 49464], 3 / 5),
    ([49345, 49849, 49464], 3 / 5),
    ([46028, 54028], 7 / 10),
    ([47008, 47532], 7 / 10),
    ([47588, 49688, 52628, 52380], 9 / 10),
    ([47785, 54364, 44032, 49345, 54693], 4 / 5),
    ([48708, 51473, 54869, 45824], 4 / 5),
    ([49688, 54812, 51452], 7 / 10),
    ([51200, 54217, 44032], 7 / 10),
    ([47588, 49688, 51032, 44204], 4 / 5),
    ([50500, 50883, 54140, 54268], 4 / 5),
    ([53457, 54589], 9 / 10),
    ([48176, 45817, 54869, 45824], 4 / 5),
    ([51088, 49324, 51452, 47588, 51077], 4 / 5),
    ([45824, 44508, 47784, 49688, 51452], 9 / 10),
    ([51204, 47029, 51201, 51228, 55092], 7 / 10),
    ([53945, 54728, 52712, 46301], 7 / 10),
    ([49888, 44508, 49688, 51452], 4 / 5),
    ([44592, 49696, 51060, 51204], 7 / 10),
    ([55121, 51088, 44592, 51312], 4 / 5),
    ([48176, 45817, 44552, 51064, 49345], 7 / 10),
    ([51088, 49324, 51452, 49548, 44033], 4 / 5),
    ([44552, 47532, 51064, 54616], 3 / 5),
    ([44221, 44592, 54924, 48373], 3 / 5),
    ([49688, 52636, 54840, 51312], 1 / 2),
    ([44221, 44592, 48512, 50577], 1 / 2),
    ([50976, 46041, 49457, 54869, 45824], 1 / 2),
    ([49688, 52636, 51613, 44032], 1 / 2),
    ([47924, 50669, 55121, 51088], 1 / 2),
    ([44221, 44592, 44060, 49440], 3 / 5)]"

definition negative_keywords :: "(utext \<times> rat) list" where
  "negative_keywords = [
    ([49892, 51201, 50501, 54868], 9 / 10),
    ([51201, 51088, 51204, 54872], 9 / 10),
    ([50612, 45789, 49660, 53356], 1),
    ([47588, 52636, 44048, 49548], 4 / 5),
    ([50689, 50629, 49552, 49892], 9 / 10),
    ([49892, 51201, 48512, 51652], 4 / 5),
    ([51201, 51088, 54869, 45824], 9 / 10),
    ([47588, 52636, 54616, 46973], 4 / 5),
    ([50689, 50629, 51060, 51061, 44048, 49548], 4 / 5),
    ([49692, 49552, 49892], 9 / 10),
    ([49888, 51200, 44032], 4 / 5),
    ([54616, 54620, 44032], 7 / 10),
    ([44553, 46973], 7 / 10),
    ([54253, 46973], 4 / 5),
    ([50557, 49464], 3 / 5),
    ([54616, 46973, 49464], 3 / 5),
    ([52628, 46973], 7 / 10),
    ([53804, 47588], 7 / 10),
    ([48152, 53664, 47561], 4 / 5),
    ([47588, 46020, 52628, 52380], 9 / 10),
    ([47785, 54364, 44032, 54616, 54693], 4 / 5),
    ([48708, 51473, 52629, 49548], 4 / 5),
    ([53804, 51088, 51452, 51032], 7 / 10),
    ([47588, 46020, 51032, 44204], 4 / 5),
    ([50616, 45908, 54140, 54268], 4 / 5),
    ([53804, 51088, 50948, 54744], 7 / 10),
    ([48516, 49885, 54924, 44228], 1),
    ([54945, 47161], 1),
    ([49345, 51109, 54224, 51648], 1),
    ([44288, 47532, 51333, 47785], 9 / 10),
    ([44048, 49324, 51032, 44204, 44144, 51208], 1),
    ([47532, 53084], 9 / 10),
    ([48512, 46020], 1),
    ([48176, 51076], 1),
    ([49548, 49569, 54056, 49548], 9 / 10),
    ([51228, 51116], 9 / 10),
    ([44552, 47532, 51064, 49345], 3 / 5),
    ([44221, 44592, 52840, 52404], 7 / 10),
    ([47924, 50669, 51204, 51137], 3 / 5),
    ([51064, 54540, 47112, 51060, 49496], 1 / 2),
    ([49828, 53468, 44536, 54540, 47112, 51060, 49496], 7 / 10),
    ([44221, 44592, 46164, 54868], 3 / 5),
    ([49688, 52636, 44048, 49548], 1 / 2),
    ([47924, 50669, 51201, 51088], 1 / 2),
    ([44221, 44592, 50948, 52629], 3 / 5)]"

definition important_keywords :: "utext list" where
  "important_keywords = [
    [51064, 49688, 54633, 48337],
    [77, 38, 65],
    [54633, 48337],
    [51064, 49688],
    [54588, 51064, 49688],
    [44277, 49884],
    [51221, 51221, 44277, 49884],
    [51312, 54924, 44277, 49884],
    [50976, 49345, 51613, 51088],
    [47924, 49345, 51613, 51088],
    [51204, 54872, 49324, 52292],
    [49888, 51452, 51064, 49688, 44428],
    [45824, 44508, 47784, 53804, 51088],
    [49444, 48708, 53804, 51088],
    [51648, 48516, 47588, 44033],
    [44221, 50689, 44428, 48516, 51137],
    [45824, 51452, 51452, 48320, 44221],
    [51648, 48176, 44396, 51312],
    [49345, 51109, 54224, 51648, 50948, 54744],
    [44288, 47532, 51333, 47785, 51648, 51221],
    [44048, 49324, 51032, 44204],
    [48516, 54624],
    [47932, 51201, 48516, 54624],
    [51064, 51201, 48516, 54624],
    [54028, 49328],
    [54924, 49373],
    [50892, 53356, 50500, 50883]]"

section \<open>One article\<close>

datatype sentiment_label = Label_positive | Label_negative | Label_neutral

datatype sentiment_method = By_keyword | By_llm

record news_article =
  na_id :: nat
  na_symbol :: "symbol option"
  na_title :: utext
  na_description :: "utext option"
  na_published :: int
  na_score :: "dec option"
  na_label :: "sentiment_label option"
  na_method :: "sentiment_method option"

record article_score =
  as_positive :: "utext list"
  as_negative :: "utext list"
  as_important :: "utext list"
  as_raw :: rat
  as_normalized :: rat
  as_label :: sentiment_label

definition neutral_threshold :: rat where
  "neutral_threshold = 15 / 100"

definition ambiguous_upper :: rat where
  "ambiguous_upper = 50 / 100"

definition label_of :: "rat \<Rightarrow> sentiment_label" where
  "label_of x = (if \<bar>x\<bar> < neutral_threshold then Label_neutral
     else if x \<ge> neutral_threshold then Label_positive else Label_negative)"

definition article_text :: "utext \<Rightarrow> utext option \<Rightarrow> utext" where
  "article_text title description = title @ [32] @ (case description of Some d \<Rightarrow> d | None \<Rightarrow> [])"

definition score_article :: "(rat \<Rightarrow> rat) \<Rightarrow> utext \<Rightarrow> utext option \<Rightarrow> article_score" where
  "score_article squash title description = (let txt = article_text title description;
     pos = filter (\<lambda>(k, w). sublist k txt) positive_keywords;
     neg = filter (\<lambda>(k, w). sublist k txt) negative_keywords;
     raw = sum_list (map snd pos) - sum_list (map snd neg);
     normalized = squash raw
   in \<lparr>as_positive = map fst pos, as_negative = map fst neg,
       as_important = filter (\<lambda>k. sublist k txt) important_keywords,
       as_raw = raw, as_normalized = normalized, as_label = label_of normalized\<rparr>)"

section \<open>The whole list\<close>

record sentiment_result =
  sr_symbol :: symbol
  sr_score :: dec
  sr_label :: sentiment_label
  sr_method :: sentiment_method
  sr_positive :: nat
  sr_negative :: nat
  sr_neutral :: nat
  sr_total :: nat
  sr_topics :: "utext list"
  sr_needs_llm :: bool

definition round3 :: "rat \<Rightarrow> rat" where
  "round3 x = of_int (round_half_even (x * 1000)) / 1000"

text \<open>The loop of the weighted mean: weight of the next article, weighted sum, total weight.\<close>

fun weigh :: "rat list \<Rightarrow> rat \<Rightarrow> rat \<times> rat \<Rightarrow> rat \<times> rat" where
  "weigh [] w (s, t) = (s, t)"
| "weigh (x # xs) w (s, t) = weigh xs (w * (95 / 100)) (s + x * w, t + w)"

definition overall_of :: "rat list \<Rightarrow> rat" where
  "overall_of xs = (case weigh xs 1 (0, 0) of (s, t) \<Rightarrow> if t > 0 then s / t else 0)"

text \<open>\<open>dict.fromkeys\<close> keeps the first of equal entries; frequencies are sorted stably, highest first.\<close>

fun dedupe :: "utext list \<Rightarrow> utext list" where
  "dedupe [] = []"
| "dedupe (x # xs) = x # dedupe (filter (\<lambda>y. y \<noteq> x) xs)"

definition top_keywords :: "utext list \<Rightarrow> utext list" where
  "top_keywords ks = take 3 (sort_key (\<lambda>k. - int (count_list ks k)) (dedupe ks))"

definition needs_llm :: "dec \<Rightarrow> utext list \<Rightarrow> bool" where
  "needs_llm score important = (if important \<noteq> [] then True
     else neutral_threshold \<le> \<bar>score\<bar> \<and> \<bar>score\<bar> \<le> ambiguous_upper)"

definition count_label :: "sentiment_label \<Rightarrow> article_score list \<Rightarrow> nat" where
  "count_label l scores = length (filter (\<lambda>s. as_label s = l) scores)"

definition aggregate_scores :: "article_score list \<Rightarrow> symbol \<Rightarrow> sentiment_result" where
  "aggregate_scores scores s = (let overall = overall_of (map as_normalized scores); score = round3 overall;
     important = dedupe (concat (map as_important scores));
     topics = important @ top_keywords (concat (map as_positive scores)) @ top_keywords (concat (map as_negative scores))
   in \<lparr>sr_symbol = s, sr_score = score, sr_label = label_of overall, sr_method = By_keyword,
       sr_positive = count_label Label_positive scores, sr_negative = count_label Label_negative scores,
       sr_neutral = count_label Label_neutral scores, sr_total = length scores, sr_topics = topics,
       sr_needs_llm = needs_llm score important\<rparr>)"

definition analyze_article_list :: "(rat \<Rightarrow> rat) \<Rightarrow> news_article list \<Rightarrow> symbol \<Rightarrow> sentiment_result" where
  "analyze_article_list squash articles s = (if articles = []
     then \<lparr>sr_symbol = s, sr_score = 0, sr_label = Label_neutral, sr_method = By_keyword, sr_positive = 0, sr_negative = 0,
           sr_neutral = 0, sr_total = 0, sr_topics = [], sr_needs_llm = False\<rparr>
     else aggregate_scores (map (\<lambda>a. score_article squash (na_title a) (na_description a)) articles) s)"

section \<open>The operations\<close>

text \<open>Articles of one symbol, newest first; equal times come in the table's order.\<close>

definition newest_articles :: "(news_article \<Rightarrow> bool) \<Rightarrow> nat \<Rightarrow> news_article list \<Rightarrow> news_article list" where
  "newest_articles P limit rows = take limit (sort_key (\<lambda>a. - na_published a) (filter P rows))"

definition sentiment_analyze :: "(rat \<Rightarrow> rat) \<Rightarrow> exc option \<Rightarrow> news_article list \<Rightarrow> symbol \<Rightarrow> nat \<Rightarrow> exc + sentiment_result" where
  "sentiment_analyze squash fault rows s limit = (case fault of
     Some e \<Rightarrow> Inl (DatabaseError ''news_article'')
   | None \<Rightarrow> Inr (analyze_article_list squash (newest_articles (\<lambda>a. na_symbol a = Some s) limit rows) s))"

definition analyze_articles :: "(rat \<Rightarrow> rat) \<Rightarrow> news_article list \<Rightarrow> symbol \<Rightarrow> sentiment_result" where
  "analyze_articles squash articles s = analyze_article_list squash articles
     (if articles \<noteq> [] \<and> s = [] then (case na_symbol (hd articles) of Some x \<Rightarrow> x | None \<Rightarrow> []) else s)"

definition store_score :: "(rat \<Rightarrow> rat) \<Rightarrow> news_article \<Rightarrow> news_article list \<Rightarrow> news_article list" where
  "store_score squash a rows = (let sc = score_article squash (na_title a) (na_description a) in
     map (\<lambda>r. if na_id r = na_id a then r\<lparr>na_score := Some (round3 (as_normalized sc)), na_label := Some (as_label sc),
       na_method := Some By_keyword\<rparr> else r) rows)"

text \<open>
  The update is one transaction: \<open>faults\<close> gives the failure of its n-th statement, the query being
  statement 0, then one update per article, then the commit. A failure leaves the table as it was.
\<close>

fun store_scores :: "(rat \<Rightarrow> rat) \<Rightarrow> (nat \<Rightarrow> exc option) \<Rightarrow> nat \<Rightarrow> news_article list \<Rightarrow> news_article list \<Rightarrow> exc + news_article list" where
  "store_scores squash faults n [] rows = (case faults n of Some e \<Rightarrow> Inl e | None \<Rightarrow> Inr rows)"
| "store_scores squash faults n (a # as) rows = (case faults n of Some e \<Rightarrow> Inl e
     | None \<Rightarrow> store_scores squash faults (Suc n) as (store_score squash a rows))"

definition to_database_error :: "exc \<Rightarrow> exc" where
  "to_database_error e = (case e of DatabaseError m \<Rightarrow> DatabaseError m | _ \<Rightarrow> DatabaseError ''sentiment'')"

definition unscored :: "symbol \<Rightarrow> news_article \<Rightarrow> bool" where
  "unscored s a \<longleftrightarrow> na_symbol a = Some s \<and> na_method a = None"

definition update_article_sentiments :: "(rat \<Rightarrow> rat) \<Rightarrow> (nat \<Rightarrow> exc option) \<Rightarrow> symbol \<Rightarrow> nat \<Rightarrow> news_article list
    \<Rightarrow> (exc + nat) \<times> news_article list" where
  "update_article_sentiments squash faults s limit rows = (case faults 0 of
     Some e \<Rightarrow> (Inl (to_database_error e), rows)
   | None \<Rightarrow> (let articles = newest_articles (unscored s) limit rows in
       if articles = [] then (Inr 0, rows)
       else case store_scores squash faults 1 articles rows of
         Inl e \<Rightarrow> (Inl (to_database_error e), rows)
       | Inr rows' \<Rightarrow> (Inr (length articles), rows')))"


section \<open>The mean lies within the articles' scores\<close>

lemma round3_mono: "x \<le> y \<Longrightarrow> round3 x \<le> round3 y"
  unfolding round3_def by (intro divide_right_mono) (simp_all add: round_half_even_mono)

lemma round3_threshold [simp]: "round3 neutral_threshold = neutral_threshold" "round3 (- neutral_threshold) = - neutral_threshold"
  using round_half_even_of_int [of 150] round_half_even_of_int [of "-150"] by (simp_all add: round3_def neutral_threshold_def)

lemma weigh_bounds:
  assumes "\<forall>x \<in> set xs. lo \<le> x \<and> x \<le> hi" "0 < w" "lo * t \<le> s" "s \<le> hi * t"
    and "weigh xs w (s, t) = (s', t')"
  shows "lo * t' \<le> s' \<and> s' \<le> hi * t' \<and> t \<le> t' \<and> (xs \<noteq> [] \<longrightarrow> t < t')"
  using assms
proof (induction xs arbitrary: w s t)
  case (Cons x xs)
  have "lo * w \<le> x * w" "x * w \<le> hi * w" using Cons.prems(1,2) by (simp_all add: mult_right_mono)
  then have "lo * (t + w) \<le> s + x * w" "s + x * w \<le> hi * (t + w)" using Cons.prems(3,4) by (simp_all add: distrib_left)
  with Cons.IH [of "w * (95 / 100)" "t + w" "s + x * w"] Cons.prems show ?case by auto
qed simp

lemma overall_between:
  assumes "\<forall>x \<in> set xs. lo \<le> x \<and> x \<le> hi" "xs \<noteq> []"
  shows "lo \<le> overall_of xs \<and> overall_of xs \<le> hi"
proof -
  obtain s t where w: "weigh xs 1 (0, 0) = (s, t)" by fastforce
  from weigh_bounds [OF assms(1) _ _ _ this] assms(2) show ?thesis
    by (simp add: overall_of_def w field_simps)
qed

lemma dedupe_set [simp]: "set (dedupe xs) = set xs"
  by (induction xs rule: dedupe.induct) auto

lemma dedupe_Nil [simp]: "dedupe xs = [] \<longleftrightarrow> xs = []"
  by (cases xs) auto

lemma count_label_sum:
  "count_label Label_positive ss + count_label Label_negative ss + count_label Label_neutral ss = length ss"
proof (induction ss)
  case (Cons s ss)
  then show ?case by (cases "as_label s") (simp_all add: count_label_def)
qed (simp add: count_label_def)

text \<open>An important keyword occurs in the text of the article.\<close>

definition mentions_important :: "news_article \<Rightarrow> bool" where
  "mentions_important a \<longleftrightarrow> (\<exists>k \<in> set important_keywords. sublist k (article_text (na_title a) (na_description a)))"

lemma important_articles:
  "concat (map as_important (map (\<lambda>a. score_article squash (na_title a) (na_description a)) as)) \<noteq> [] \<longleftrightarrow> (\<exists>a \<in> set as. mentions_important a)"
  by (induction as) (auto simp: score_article_def Let_def mentions_important_def filter_empty_conv)

text \<open>
  The result over a non-empty list of articles: the score lies between the smallest and the largest
  score of an article, up to the rounding to three decimals; the counts of the labels add up to the
  number of articles; the label agrees with the rounded score; and the deep analysis is asked for
  exactly if an important keyword occurs or the rounded score is in the ambiguous range.
\<close>

theorem sentiment_result_sound:
  assumes "articles \<noteq> []" and "\<forall>a \<in> set articles. lo \<le> as_normalized (score_article squash (na_title a) (na_description a))
      \<and> as_normalized (score_article squash (na_title a) (na_description a)) \<le> hi"
    and "r = analyze_article_list squash articles s"
  shows "round3 lo \<le> sr_score r \<and> sr_score r \<le> round3 hi
    \<and> sr_positive r + sr_negative r + sr_neutral r = length articles \<and> sr_total r = length articles
    \<and> (sr_label r = Label_positive \<longrightarrow> neutral_threshold \<le> sr_score r)
    \<and> (sr_label r = Label_negative \<longrightarrow> sr_score r \<le> - neutral_threshold)
    \<and> (sr_label r = Label_neutral \<longrightarrow> \<bar>sr_score r\<bar> \<le> neutral_threshold)
    \<and> (sr_needs_llm r \<longleftrightarrow> (\<exists>a \<in> set articles. mentions_important a)
        \<or> neutral_threshold \<le> \<bar>sr_score r\<bar> \<and> \<bar>sr_score r\<bar> \<le> ambiguous_upper)"
proof -
  define scores where "scores = map (\<lambda>a. score_article squash (na_title a) (na_description a)) articles"
  define v where "v = overall_of (map as_normalized scores)"
  have "lo \<le> v \<and> v \<le> hi"
    unfolding v_def by (rule overall_between) (use assms(1,2) in \<open>auto simp: scores_def\<close>)
  then have b: "round3 lo \<le> round3 v" "round3 v \<le> round3 hi" by (simp_all add: round3_mono)
  have r: "sr_score r = round3 v" "sr_label r = label_of v" "sr_total r = length articles"
    "sr_positive r + sr_negative r + sr_neutral r = length articles"
    "sr_needs_llm r = needs_llm (round3 v) (dedupe (concat (map as_important scores)))"
    using assms(1,3) count_label_sum [of scores]
    by (simp_all add: analyze_article_list_def aggregate_scores_def Let_def v_def scores_def)
  have "neutral_threshold \<le> v \<Longrightarrow> neutral_threshold \<le> round3 v" "v \<le> - neutral_threshold \<Longrightarrow> round3 v \<le> - neutral_threshold"
    "v \<le> neutral_threshold \<Longrightarrow> round3 v \<le> neutral_threshold" "- neutral_threshold \<le> v \<Longrightarrow> - neutral_threshold \<le> round3 v"
    using round3_mono [of neutral_threshold v] round3_mono [of v "- neutral_threshold"]
      round3_mono [of v neutral_threshold] round3_mono [of "- neutral_threshold" v] by simp_all
  then have l: "sr_label r = Label_positive \<longrightarrow> neutral_threshold \<le> round3 v" "sr_label r = Label_negative \<longrightarrow> round3 v \<le> - neutral_threshold"
    "sr_label r = Label_neutral \<longrightarrow> \<bar>round3 v\<bar> \<le> neutral_threshold"
    by (auto simp: r(2) label_of_def abs_less_iff abs_le_iff split: if_splits)
  have n: "sr_needs_llm r \<longleftrightarrow> (\<exists>a \<in> set articles. mentions_important a) \<or> neutral_threshold \<le> \<bar>round3 v\<bar> \<and> \<bar>round3 v\<bar> \<le> ambiguous_upper"
    unfolding r(5) needs_llm_def using important_articles [of squash articles, folded scores_def] by simp
  show ?thesis using b r(3,4) l n unfolding r(1) by blast
qed

text \<open>Two articles: a good quarter (a positive keyword), and a text with no keyword.\<close>

definition sample_article :: "nat \<Rightarrow> int \<Rightarrow> utext \<Rightarrow> news_article" where
  "sample_article n tm title = \<lparr>na_id = n, na_symbol = Some ''005930'', na_title = title, na_description = None,
     na_published = tm, na_score = None, na_label = None, na_method = None\<rparr>"

definition good_quarter :: utext where
  "good_quarter = [54840, 49892, 51201]"

theorem sentiment_result_sound_witness:
  "0 \<le> sr_score (analyze_article_list (\<lambda>x. x / 2) [sample_article 1 9 good_quarter, sample_article 2 8 [65, 66]] ''005930'')
   \<and> sr_score (analyze_article_list (\<lambda>x. x / 2) [sample_article 1 9 good_quarter, sample_article 2 8 [65, 66]] ''005930'') \<le> 45 / 100"
proof -
  have e: "score_article (\<lambda>x. x / 2) good_quarter None = \<lparr>as_positive = [good_quarter], as_negative = [], as_important = [],
      as_raw = 9 / 10, as_normalized = 45 / 100, as_label = Label_positive\<rparr>"
    "score_article (\<lambda>x. x / 2) [65, 66] None = \<lparr>as_positive = [], as_negative = [], as_important = [],
      as_raw = 0, as_normalized = 0, as_label = Label_neutral\<rparr>"
    by code_simp+
  have "round3 0 = 0" "round3 (45 / 100) = 45 / 100" by code_simp+
  with sentiment_result_sound [of "[sample_article 1 9 good_quarter, sample_article 2 8 [65, 66]]" 0 "\<lambda>x. x / 2" "45 / 100" _ "''005930''"]
  show ?thesis by (simp add: sample_article_def e)
qed

section \<open>The update\<close>

definition scored_by :: "(rat \<Rightarrow> rat) \<Rightarrow> news_article \<Rightarrow> news_article \<Rightarrow> news_article" where
  "scored_by squash a r = (let sc = score_article squash (na_title a) (na_description a) in
     r\<lparr>na_score := Some (round3 (as_normalized sc)), na_label := Some (as_label sc), na_method := Some By_keyword\<rparr>)"

definition store_step :: "(rat \<Rightarrow> rat) \<Rightarrow> news_article \<Rightarrow> news_article \<Rightarrow> news_article" where
  "store_step squash a r = (if na_id r = na_id a then scored_by squash a r else r)"

lemma scored_by_fields [simp]: "na_id (scored_by squash a r) = na_id r" "na_method (scored_by squash a r) = Some By_keyword"
  by (simp_all add: scored_by_def Let_def)

lemma store_score_map: "store_score squash a rows = map (store_step squash a) rows"
  unfolding store_score_def store_step_def scored_by_def Let_def by simp

lemma store_scores_map:
  "store_scores squash faults n as rows = Inr rows' \<Longrightarrow> rows' = map (fold (store_step squash) as) rows"
proof (induction as arbitrary: n rows)
  case (Cons a as)
  then have "rows' = map (fold (store_step squash) as) (store_score squash a rows)" by (auto split: option.splits)
  then show ?case by (simp add: store_score_map)
qed (auto split: option.splits)

lemma fold_store_step_other: "na_id r \<notin> na_id ` set as \<Longrightarrow> fold (store_step squash) as r = r"
  by (induction as) (auto simp: store_step_def)

lemma fold_store_step_own:
  "distinct (map na_id as) \<Longrightarrow> a \<in> set as \<Longrightarrow> na_id r = na_id a \<Longrightarrow> fold (store_step squash) as r = scored_by squash a r"
proof (induction as)
  case (Cons b as)
  show ?case
  proof (cases "a = b")
    case True
    have "store_step squash a r = scored_by squash a r" using Cons.prems(3) by (simp add: store_step_def)
    moreover have "fold (store_step squash) as (scored_by squash a r) = scored_by squash a r"
      by (rule fold_store_step_other) (use Cons.prems True in auto)
    ultimately show ?thesis using True by simp
  next
    case False
    then have "a \<in> set as" "na_id b \<notin> na_id ` set as" using Cons.prems by auto
    then have "a \<in> set as" "na_id r \<noteq> na_id b" using Cons.prems(3) by force+
    with Cons show ?thesis by (simp add: store_step_def)
  qed
qed simp

lemma newest_articles_props:
  assumes "distinct (map na_id rows)"
  shows "set (newest_articles P limit rows) \<subseteq> {a \<in> set rows. P a}" "distinct (map na_id (newest_articles P limit rows))"
    "length (newest_articles P limit rows) = min limit (length (filter P rows))"
proof -
  show "set (newest_articles P limit rows) \<subseteq> {a \<in> set rows. P a}"
    by (auto simp: newest_articles_def dest!: in_set_takeD)
  have "distinct (map na_id (filter P rows))" using assms by (simp add: distinct_map_filter)
  then have "distinct (map na_id (sort_key (\<lambda>a. - na_published a) (filter P rows)))" by (simp add: distinct_map)
  then show "distinct (map na_id (newest_articles P limit rows))"
    unfolding newest_articles_def by (simp add: take_map [symmetric])
  show "length (newest_articles P limit rows) = min limit (length (filter P rows))" by (simp add: newest_articles_def)
qed

text \<open>
  C37: update_article_sentiments is one transaction: a failure of any of its statements comes out as
  DatabaseError and leaves the table unchanged; otherwise the count returned is the number of
  unscored articles of the symbol, at most the limit, exactly so many unscored articles fewer
  remain, and each row is either as before or was unscored and now has the keyword score of its own
  text. So repeating the call with a positive limit ends with 0.
\<close>

theorem update_sentiments_spec:
  assumes "distinct (map na_id rows)" "update_article_sentiments squash faults s limit rows = (res, rows')"
  shows "(\<forall>e. res = Inl e \<longrightarrow> (\<exists>m. e = DatabaseError m) \<and> rows' = rows)
    \<and> (\<forall>n. res = Inr n \<longrightarrow> n = min limit (length (filter (unscored s) rows))
        \<and> length (filter (unscored s) rows') + n = length (filter (unscored s) rows)
        \<and> list_all2 (\<lambda>r r'. r' = r \<or> unscored s r \<and> r' = scored_by squash r r) rows rows')"
proof -
  let ?as = "newest_articles (unscored s) limit rows"
  note as = newest_articles_props [OF assms(1), of "unscored s" limit]
  have db: "\<exists>m. to_database_error e = DatabaseError m" for e by (cases e) (simp_all add: to_database_error_def)
  have ok: "n = min limit (length (filter (unscored s) rows)) \<and> length (filter (unscored s) rows') + n = length (filter (unscored s) rows)
      \<and> list_all2 (\<lambda>r r'. r' = r \<or> unscored s r \<and> r' = scored_by squash r r) rows rows'"
    if n: "n = length ?as" and m: "rows' = map (fold (store_step squash) ?as) rows" for n
  proof (intro conjI)
    have f: "fold (store_step squash) ?as r = (if r \<in> set ?as then scored_by squash r r else r)" if r: "r \<in> set rows" for r
    proof (cases "r \<in> set ?as")
      case False
      have "na_id r \<notin> na_id ` set ?as"
      proof
        assume "na_id r \<in> na_id ` set ?as"
        then obtain a where "a \<in> set ?as" "na_id a = na_id r" by force
        moreover have "a \<in> set rows" using as(1) \<open>a \<in> set ?as\<close> by blast
        ultimately have "a = r" using assms(1) r by (auto simp: distinct_map dest: inj_onD)
        with False \<open>a \<in> set ?as\<close> show False by simp
      qed
      with False show ?thesis by (simp add: fold_store_step_other)
    qed (use fold_store_step_own [OF as(2)] in simp)
    show "n = min limit (length (filter (unscored s) rows))" using n as(3) by simp
    show "list_all2 (\<lambda>r r'. r' = r \<or> unscored s r \<and> r' = scored_by squash r r) rows rows'"
      unfolding m unfolding list_all2_map2
      by (rule list.rel_refl_strong) (use f as(1) in \<open>auto split: if_splits\<close>)
    have "filter (unscored s) rows' = map (fold (store_step squash) ?as) (filter (\<lambda>r. unscored s (fold (store_step squash) ?as r)) rows)"
      unfolding m by (simp add: filter_map comp_def)
    then have "length (filter (unscored s) rows') = length (filter (\<lambda>r. unscored s r \<and> r \<notin> set ?as) rows)"
      using f by (simp add: unscored_def) (rule arg_cong [of _ _ length], rule filter_cong, simp_all)
    also have "filter (\<lambda>r. unscored s r \<and> r \<notin> set ?as) rows = filter (\<lambda>r. r \<notin> set ?as) (filter (unscored s) rows)"
      by (simp add: conj_commute)
    finally have "length (filter (unscored s) rows') = length (filter (\<lambda>r. r \<notin> set ?as) (filter (unscored s) rows))" .
    moreover have "length (filter (\<lambda>r. r \<in> set ?as) (filter (unscored s) rows)) = length ?as"
    proof -
      have d: "distinct rows" "distinct ?as" using assms(1) as(2) by (simp_all add: distinct_map)
      have "set (filter (\<lambda>r. r \<in> set ?as) (filter (unscored s) rows)) = set ?as" using as(1) by auto
      with d show ?thesis by (metis distinct_card distinct_filter)
    qed
    ultimately show "length (filter (unscored s) rows') + n = length (filter (unscored s) rows)"
      using sum_length_filter_compl [of "\<lambda>r. r \<in> set ?as" "filter (unscored s) rows"] n by simp
  qed
  show ?thesis
  proof (cases "faults 0")
    case (Some e)
    then show ?thesis using assms(2) db [of e] by (auto simp: update_article_sentiments_def)
  next
    case None
    show ?thesis
    proof (cases "?as = []")
      case True
      with None assms(2) have "res = Inr 0" "rows' = rows" by (simp_all add: update_article_sentiments_def)
      with ok [of 0] True show ?thesis by simp
    next
      case False
      show ?thesis
      proof (cases "store_scores squash faults 1 ?as rows")
        case (Inl e)
        then show ?thesis using None False assms(2) db [of e] by (auto simp: update_article_sentiments_def)
      next
        case (Inr x)
        then have "res = Inr (length ?as)" "rows' = x" using None False assms(2) by (simp_all add: update_article_sentiments_def)
        with ok [OF refl] store_scores_map [OF Inr] show ?thesis by simp
      qed
    qed
  qed
qed


theorem update_sentiments_spec_witness:
  "case update_article_sentiments (\<lambda>x. x / 2) (\<lambda>n. None) ''005930'' 1 [sample_article 1 9 good_quarter, sample_article 2 8 [65, 66]] of
     (res, rows') \<Rightarrow> res = Inr 1 \<and> length (filter (unscored ''005930'') rows') = 1"
proof -
  let ?rows = "[sample_article 1 9 good_quarter, sample_article 2 8 [65, 66]]"
  obtain res rows' where u: "update_article_sentiments (\<lambda>x. x / 2) (\<lambda>n. None) ''005930'' 1 ?rows = (res, rows')" by fastforce
  have l: "length (filter (unscored ''005930'') ?rows) = 2" by (simp add: unscored_def sample_article_def)
  have "\<exists>rows'. store_scores squash (\<lambda>n. None) n as rows = Inr rows'" for squash n as rows
    by (induction as arbitrary: n rows) auto
  then have "\<exists>n. res = Inr n"
    using u by (auto simp: update_article_sentiments_def Let_def split: if_splits sum.splits) (metis Inl_Inr_False)
  moreover have "distinct (map na_id ?rows)" by (simp add: sample_article_def)
  ultimately show ?thesis using update_sentiments_spec [OF _ u] l unfolding u by auto
qed

end
