(* ===== verification/Pipeline.thy ===== *)
theory Pipeline
  imports Execution_Store
begin

text \<open>
  \<open>PipelineOrchestrator\<close> (\<open>src/agent/orchestrator.py\<close>) with the audit record of each agent
  (\<open>BaseAgent.analyze\<close>, \<open>src/agent/agents/base.py\<close>) and the queries of \<open>DecisionRecorder\<close>. What an
  agent answers (its tools, its prompt, the routed model call and the post-processing) is a function of
  its input and a parameter; the decision log is the list of its rows, a new id is the next number.
  The symbols run concurrently under a semaphore: a task is a state machine and a schedule is the
  order in which tasks take their steps.
\<close>

section \<open>The agents' answers and the log\<close>

record market_condition =
  mc_condition :: string
  mc_confidence :: dec
  mc_market_risk_level :: string
  mc_recommended_exposure :: dec

record stock_analysis =
  sa_symbol :: symbol
  sa_action :: decision_action
  sa_confidence :: dec
  sa_fundamental_score :: dec
  sa_target_price :: "dec option"
  sa_stop_loss_price :: "dec option"
  sa_current_price :: "dec option"

record risk_assessment =
  ra_symbol :: symbol
  ra_approved :: bool
  ra_risk_level :: string
  ra_confidence :: dec
  ra_recommended_quantity :: int
  ra_recommended_position_size_krw :: dec
  ra_max_loss_krw :: dec

record audit_row =
  au_decision_id :: uuid
  au_session_id :: uuid
  au_stage :: decision_stage
  au_decision :: string
  au_confidence :: dec
  au_parent_id :: "uuid option"
  au_symbol :: "symbol option"
  au_account_id :: string
  au_llm_cost_usd :: "dec option"

type_synonym 'r reply = "exc + 'r \<times> dec"

record analysts =
  an_market :: "market_condition reply"
  an_stock :: "symbol \<Rightarrow> market_condition \<Rightarrow> string option \<Rightarrow> stock_analysis reply"
  an_risk :: "symbol \<Rightarrow> stock_analysis \<Rightarrow> market_condition \<Rightarrow> string option \<Rightarrow> risk_assessment reply"
  an_trade :: "symbol \<Rightarrow> risk_assessment \<Rightarrow> stock_analysis \<Rightarrow> market_condition \<Rightarrow> string option \<Rightarrow> trade_decision reply"

text \<open>The faults of the insert, by symbol and stage: before or after the row is committed.\<close>

record pipeline_env =
  pe_analysts :: analysts
  pe_faults :: "symbol option \<Rightarrow> decision_stage \<Rightarrow> fault option"
  pe_session :: uuid
  pe_prompt :: "string option"
  pe_account :: string

definition audit_insert :: "fault option \<Rightarrow> audit_row \<Rightarrow> audit_row list \<Rightarrow> (exc + uuid) \<times> audit_row list" where
  "audit_insert fl row lg = (case fl of
     None \<Rightarrow> (Inr (length lg), lg @ [row\<lparr>au_decision_id := length lg\<rparr>])
   | Some (Before e) \<Rightarrow> (Inl (DatabaseError ''Decision record insert failed''), lg)
   | Some (After e) \<Rightarrow> (Inl (DatabaseError ''Decision record insert failed''), lg @ [row\<lparr>au_decision_id := length lg\<rparr>]))"

definition decision_text_market :: "market_condition \<Rightarrow> string" where
  "decision_text_market r = mc_condition r"

definition decision_text_risk :: "risk_assessment \<Rightarrow> string" where
  "decision_text_risk r = (if ra_approved r then ''approve'' else ''reject'')"

definition decision_text_trade :: "trade_decision \<Rightarrow> string" where
  "decision_text_trade r = (if td_symbol r \<noteq> [] then decision_action_value (td_action r) @ '':'' @ td_symbol r
     else decision_action_value (td_action r))"

text \<open>
  BaseAgent.analyze after the answer: \<open>stage\<close>, the texts and the confidence are the agent's. An agent's
  answer is a function of what it is given; the agents share one router, so an answer may in truth also depend
  on the calls before it. \<open>any_step\<close> below lets every step have answers of its own. Confidence and cost
  are logged as given; the columns round them.
\<close>

definition agent_analyze ::
  "pipeline_env \<Rightarrow> decision_stage \<Rightarrow> ('r \<Rightarrow> string) \<Rightarrow> ('r \<Rightarrow> dec) \<Rightarrow> symbol option \<Rightarrow> uuid option \<Rightarrow> 'r reply
    \<Rightarrow> audit_row list \<Rightarrow> (exc + 'r \<times> uuid) \<times> audit_row list" where
  "agent_analyze env stage say conf s parent reply lg = (case reply of
     Inl e \<Rightarrow> (Inl e, lg)
   | Inr (r, cost) \<Rightarrow> (case audit_insert (pe_faults env s stage)
        \<lparr>au_decision_id = 0, au_session_id = pe_session env, au_stage = stage, au_decision = say r, au_confidence = conf r,
         au_parent_id = parent, au_symbol = s, au_account_id = pe_account env,
         au_llm_cost_usd = (if cost = 0 then None else Some cost)\<rparr> lg of
       (Inl e, lg') \<Rightarrow> (Inl e, lg')
     | (Inr i, lg') \<Rightarrow> (Inr (r, i), lg')))"

definition analyze_market :: "pipeline_env \<Rightarrow> audit_row list \<Rightarrow> (exc + market_condition \<times> uuid) \<times> audit_row list" where
  "analyze_market env = agent_analyze env MARKET_ANALYSIS decision_text_market mc_confidence None None (an_market (pe_analysts env))"

definition analyze_stock :: "pipeline_env \<Rightarrow> symbol \<Rightarrow> market_condition \<Rightarrow> uuid \<Rightarrow> audit_row list \<Rightarrow> (exc + stock_analysis \<times> uuid) \<times> audit_row list" where
  "analyze_stock env s mc parent = agent_analyze env STOCK_ANALYSIS (\<lambda>r. decision_action_value (sa_action r)) sa_confidence (Some s) (Some parent)
     (an_stock (pe_analysts env) s mc (pe_prompt env))"

definition analyze_risk :: "pipeline_env \<Rightarrow> symbol \<Rightarrow> market_condition \<Rightarrow> stock_analysis \<Rightarrow> uuid \<Rightarrow> audit_row list \<Rightarrow> (exc + risk_assessment \<times> uuid) \<times> audit_row list" where
  "analyze_risk env s mc sa parent = agent_analyze env RISK_CHECK decision_text_risk ra_confidence (Some s) (Some parent)
     (an_risk (pe_analysts env) s sa mc (pe_prompt env))"

definition analyze_trade :: "pipeline_env \<Rightarrow> symbol \<Rightarrow> market_condition \<Rightarrow> stock_analysis \<Rightarrow> risk_assessment \<Rightarrow> uuid \<Rightarrow> audit_row list
    \<Rightarrow> (exc + trade_decision \<times> uuid) \<times> audit_row list" where
  "analyze_trade env s mc sa ra parent = agent_analyze env TRADE_DECISION decision_text_trade td_confidence (Some s) (Some parent)
     (an_trade (pe_analysts env) s ra sa mc (pe_prompt env))"

section \<open>One symbol\<close>

datatype failed_stage = Stock_failed exc | Risk_failed exc | Trade_failed exc

record symbol_result =
  sy_symbol :: symbol
  sy_stock :: "stock_analysis option"
  sy_risk :: "risk_assessment option"
  sy_trade :: "trade_decision option"
  sy_error :: "failed_stage option"

definition new_result :: "symbol \<Rightarrow> symbol_result" where
  "new_result s = \<lparr>sy_symbol = s, sy_stock = None, sy_risk = None, sy_trade = None, sy_error = None\<rparr>"

text \<open>The body of \<open>_run_symbol_pipeline\<close> inside the semaphore.\<close>

definition run_symbol_pipeline :: "pipeline_env \<Rightarrow> market_condition \<Rightarrow> uuid \<Rightarrow> symbol \<Rightarrow> audit_row list \<Rightarrow> symbol_result \<times> audit_row list" where
  "run_symbol_pipeline env mc mid s lg = (let sr = new_result s in
     case analyze_stock env s mc mid lg of
       (Inl e, lg) \<Rightarrow> (sr\<lparr>sy_error := Some (Stock_failed e)\<rparr>, lg)
     | (Inr (sa, sid), lg) \<Rightarrow> (let sr = sr\<lparr>sy_stock := Some sa\<rparr> in
         if sa_action sa = Act_HOLD then (sr, lg) else
         case analyze_risk env s mc sa sid lg of
           (Inl e, lg) \<Rightarrow> (sr\<lparr>sy_error := Some (Risk_failed e)\<rparr>, lg)
         | (Inr (ra, rid), lg) \<Rightarrow> (let sr = sr\<lparr>sy_risk := Some ra\<rparr> in
             if \<not> ra_approved ra then (sr, lg) else
             case analyze_trade env s mc sa ra rid lg of
               (Inl e, lg) \<Rightarrow> (sr\<lparr>sy_error := Some (Trade_failed e)\<rparr>, lg)
             | (Inr (td, _), lg) \<Rightarrow> (sr\<lparr>sy_trade := Some td\<rparr>, lg))))"

section \<open>All symbols under the semaphore\<close>

text \<open>The awaits of a task: the semaphore, then one call after the other.\<close>

datatype task_state =
    Waiting
  | At_stock
  | At_risk stock_analysis uuid
  | At_trade stock_analysis risk_assessment uuid
  | Done symbol_result

definition running :: "task_state \<Rightarrow> bool" where
  "running t = (case t of Waiting \<Rightarrow> False | Done _ \<Rightarrow> False | _ \<Rightarrow> True)"

fun advance :: "pipeline_env \<Rightarrow> market_condition \<Rightarrow> uuid \<Rightarrow> symbol \<Rightarrow> task_state \<Rightarrow> audit_row list \<Rightarrow> task_state \<times> audit_row list" where
  "advance env mc mid s At_stock lg = (case analyze_stock env s mc mid lg of
     (Inl e, lg) \<Rightarrow> (Done ((new_result s)\<lparr>sy_error := Some (Stock_failed e)\<rparr>), lg)
   | (Inr (sa, sid), lg) \<Rightarrow> (if sa_action sa = Act_HOLD then Done ((new_result s)\<lparr>sy_stock := Some sa\<rparr>) else At_risk sa sid, lg))"
| "advance env mc mid s (At_risk sa sid) lg = (let sr = (new_result s)\<lparr>sy_stock := Some sa\<rparr> in
     case analyze_risk env s mc sa sid lg of
       (Inl e, lg) \<Rightarrow> (Done (sr\<lparr>sy_error := Some (Risk_failed e)\<rparr>), lg)
     | (Inr (ra, rid), lg) \<Rightarrow> (if \<not> ra_approved ra then Done (sr\<lparr>sy_risk := Some ra\<rparr>) else At_trade sa ra rid, lg))"
| "advance env mc mid s (At_trade sa ra rid) lg = (let sr = (new_result s)\<lparr>sy_stock := Some sa, sy_risk := Some ra\<rparr> in
     case analyze_trade env s mc sa ra rid lg of
       (Inl e, lg) \<Rightarrow> (Done (sr\<lparr>sy_error := Some (Trade_failed e)\<rparr>), lg)
     | (Inr (td, _), lg) \<Rightarrow> (Done (sr\<lparr>sy_trade := Some td\<rparr>), lg))"
| "advance env mc mid s t lg = (t, lg)"

record gathering =
  ga_tasks :: "(symbol \<times> task_state) list"
  ga_permits :: nat
  ga_log :: "audit_row list"

definition gather_start :: "symbol list \<Rightarrow> nat \<Rightarrow> audit_row list \<Rightarrow> gathering" where
  "gather_start symbols n lg = \<lparr>ga_tasks = map (\<lambda>s. (s, Waiting)) symbols, ga_permits = n, ga_log = lg\<rparr>"

text \<open>Task i takes its next step: a waiting one needs a permit, a finishing one gives its permit back.\<close>

definition step_task :: "pipeline_env \<Rightarrow> market_condition \<Rightarrow> uuid \<Rightarrow> nat \<Rightarrow> gathering \<Rightarrow> gathering option" where
  "step_task env mc mid i g = (if length (ga_tasks g) \<le> i then None else case ga_tasks g ! i of (s, t) \<Rightarrow>
     (case t of
        Waiting \<Rightarrow> if ga_permits g = 0 then None
          else Some (g\<lparr>ga_tasks := (ga_tasks g)[i := (s, At_stock)], ga_permits := ga_permits g - 1\<rparr>)
      | Done _ \<Rightarrow> None
      | _ \<Rightarrow> (case advance env mc mid s t (ga_log g) of (t', lg') \<Rightarrow>
          Some \<lparr>ga_tasks = (ga_tasks g)[i := (s, t')], ga_permits = (if running t' then ga_permits g else ga_permits g + 1),
                ga_log = lg'\<rparr>)))"

inductive gather_step :: "pipeline_env \<Rightarrow> market_condition \<Rightarrow> uuid \<Rightarrow> gathering \<Rightarrow> gathering \<Rightarrow> bool" for env mc mid where
  step: "step_task env mc mid i g = Some g' \<Longrightarrow> gather_step env mc mid g g'"

inductive_cases gather_stepE: "gather_step env mc mid g g'"

section \<open>The whole pipeline\<close>

datatype pipeline_error = Market_failed exc | Symbol_failed symbol failed_stage

record pipeline_result =
  pp_account_id :: string
  pp_session_id :: uuid
  pp_market_condition :: "market_condition option"
  pp_stock_analyses :: "stock_analysis list"
  pp_risk_assessments :: "risk_assessment list"
  pp_trade_decisions :: "trade_decision list"
  pp_symbols_requested :: "symbol list"
  pp_symbols_analyzed :: "symbol list"
  pp_symbols_skipped :: "symbol list"
  pp_total_llm_cost_usd :: dec
  pp_total_llm_calls :: nat
  pp_errors :: "pipeline_error list"
  pp_success :: bool

definition add_some :: "'a option \<Rightarrow> 'a list \<Rightarrow> 'a list" where
  "add_some x xs = (case x of None \<Rightarrow> xs | Some a \<Rightarrow> xs @ [a])"

fun collect_results :: "symbol_result list \<Rightarrow> pipeline_result \<Rightarrow> pipeline_result" where
  "collect_results [] p = p"
| "collect_results (sr # srs) p = collect_results srs (case sy_error sr of
     Some e \<Rightarrow> p\<lparr>pp_symbols_skipped := pp_symbols_skipped p @ [sy_symbol sr], pp_errors := pp_errors p @ [Symbol_failed (sy_symbol sr) e]\<rparr>
   | None \<Rightarrow> p\<lparr>pp_symbols_analyzed := pp_symbols_analyzed p @ [sy_symbol sr],
       pp_stock_analyses := add_some (sy_stock sr) (pp_stock_analyses p),
       pp_risk_assessments := add_some (sy_risk sr) (pp_risk_assessments p),
       pp_trade_decisions := add_some (sy_trade sr) (pp_trade_decisions p)\<rparr>)"

text \<open>The rows of a session in the order they were written.\<close>

definition get_session_decisions :: "exc option \<Rightarrow> uuid \<Rightarrow> audit_row list \<Rightarrow> exc + audit_row list" where
  "get_session_decisions fault sid lg = (case fault of
     Some e \<Rightarrow> Inl (DatabaseError ''Session decisions query failed'')
   | None \<Rightarrow> Inr (filter (\<lambda>r. au_session_id r = sid) lg))"

fun walk_chain :: "nat \<Rightarrow> uuid option \<Rightarrow> audit_row list \<Rightarrow> audit_row list" where
  "walk_chain 0 i lg = []"
| "walk_chain (Suc n) None lg = []"
| "walk_chain (Suc n) (Some i) lg = (case find (\<lambda>r. au_decision_id r = i) lg of
     None \<Rightarrow> [] | Some row \<Rightarrow> row # walk_chain n (au_parent_id row) lg)"

definition max_chain_depth :: nat where
  "max_chain_depth = 20"

definition get_decision_chain :: "exc option \<Rightarrow> uuid \<Rightarrow> audit_row list \<Rightarrow> exc + audit_row list" where
  "get_decision_chain fault i lg = (case fault of
     Some e \<Rightarrow> Inl (DatabaseError ''Decision chain query failed'')
   | None \<Rightarrow> Inr (walk_chain max_chain_depth (Some i) lg))"

definition sum_costs :: "audit_row list \<Rightarrow> pipeline_result \<Rightarrow> pipeline_result" where
  "sum_costs rows p = p\<lparr>pp_total_llm_cost_usd := dsum (List.map_filter au_llm_cost_usd rows), pp_total_llm_calls := length rows\<rparr>"

definition empty_pipeline_result :: "pipeline_env \<Rightarrow> symbol list \<Rightarrow> pipeline_result" where
  "empty_pipeline_result env symbols = \<lparr>pp_account_id = pe_account env, pp_session_id = pe_session env, pp_market_condition = None,
     pp_stock_analyses = [], pp_risk_assessments = [], pp_trade_decisions = [], pp_symbols_requested = symbols,
     pp_symbols_analyzed = [], pp_symbols_skipped = [], pp_total_llm_cost_usd = 0, pp_total_llm_calls = 0, pp_errors = [],
     pp_success = True\<rparr>"

text \<open>
  \<open>execute\<close>, given the end state of the concurrent part: \<open>final\<close> is any state in which every task is done.
\<close>

definition task_results :: "gathering \<Rightarrow> symbol_result list" where
  "task_results g = List.map_filter (\<lambda>(s, t). case t of Done r \<Rightarrow> Some r | _ \<Rightarrow> None) (ga_tasks g)"

definition finish_pipeline :: "pipeline_env \<Rightarrow> exc option \<Rightarrow> symbol list \<Rightarrow> market_condition \<Rightarrow> gathering \<Rightarrow> pipeline_result" where
  "finish_pipeline env cost_fault symbols mc final =
     (let p = collect_results (task_results final) ((empty_pipeline_result env symbols)\<lparr>pp_market_condition := Some mc\<rparr>)
      in case get_session_decisions cost_fault (pe_session env) (ga_log final) of Inl e \<Rightarrow> p | Inr rows \<Rightarrow> sum_costs rows p)"

inductive pipeline_execute :: "pipeline_env \<Rightarrow> nat \<Rightarrow> exc option \<Rightarrow> symbol list \<Rightarrow> audit_row list \<Rightarrow> pipeline_result \<times> audit_row list \<Rightarrow> bool"
  for env max_concurrency cost_fault symbols lg where
  market_failed: "analyze_market env lg = (Inl e, lg') \<Longrightarrow>
     pipeline_execute env max_concurrency cost_fault symbols lg
       ((empty_pipeline_result env symbols)\<lparr>pp_success := False, pp_errors := [Market_failed e]\<rparr>, lg')"
| finished: "analyze_market env lg = (Inr (mc, mid), lg') \<Longrightarrow>
     (gather_step env mc mid)\<^sup>*\<^sup>* (gather_start symbols max_concurrency lg') final \<Longrightarrow>
     \<forall>(s, t) \<in> set (ga_tasks final). \<exists>r. t = Done r \<Longrightarrow>
     pipeline_execute env max_concurrency cost_fault symbols lg (finish_pipeline env cost_fault symbols mc final, ga_log final)"


section \<open>What a task will give\<close>

definition agent_answer :: "pipeline_env \<Rightarrow> decision_stage \<Rightarrow> symbol option \<Rightarrow> 'r reply \<Rightarrow> exc + 'r" where
  "agent_answer env stage s reply = (case reply of Inl e \<Rightarrow> Inl e | Inr (r, _) \<Rightarrow>
     (case pe_faults env s stage of None \<Rightarrow> Inr r | Some _ \<Rightarrow> Inl (DatabaseError ''Decision record insert failed'')))"

lemma agent_analyze_answer:
  "(case fst (agent_analyze env stage say conf s parent reply lg) of Inl e \<Rightarrow> Inl e | Inr (r, _) \<Rightarrow> Inr r) = agent_answer env stage s reply"
  by (auto simp: agent_analyze_def agent_answer_def audit_insert_def split: sum.splits option.splits fault.splits prod.splits)

lemma agent_analyze_Inl: "agent_analyze env stage say conf s parent reply lg = (Inl e, lg') \<Longrightarrow> agent_answer env stage s reply = Inl e"
  using agent_analyze_answer [of env stage say conf s parent reply lg] by simp

lemma agent_analyze_Inr: "agent_analyze env stage say conf s parent reply lg = (Inr (r, i), lg') \<Longrightarrow> agent_answer env stage s reply = Inr r"
  using agent_analyze_answer [of env stage say conf s parent reply lg] by simp

lemmas analyze_defs = analyze_market_def analyze_stock_def analyze_risk_def analyze_trade_def

definition settle_trade :: "pipeline_env \<Rightarrow> market_condition \<Rightarrow> symbol \<Rightarrow> stock_analysis \<Rightarrow> risk_assessment \<Rightarrow> symbol_result" where
  "settle_trade env mc s sa ra = (let sr = (new_result s)\<lparr>sy_stock := Some sa, sy_risk := Some ra\<rparr> in
     case agent_answer env TRADE_DECISION (Some s) (an_trade (pe_analysts env) s ra sa mc (pe_prompt env)) of
       Inl e \<Rightarrow> sr\<lparr>sy_error := Some (Trade_failed e)\<rparr> | Inr td \<Rightarrow> sr\<lparr>sy_trade := Some td\<rparr>)"

definition settle_risk :: "pipeline_env \<Rightarrow> market_condition \<Rightarrow> symbol \<Rightarrow> stock_analysis \<Rightarrow> symbol_result" where
  "settle_risk env mc s sa = (let sr = (new_result s)\<lparr>sy_stock := Some sa\<rparr> in
     case agent_answer env RISK_CHECK (Some s) (an_risk (pe_analysts env) s sa mc (pe_prompt env)) of
       Inl e \<Rightarrow> sr\<lparr>sy_error := Some (Risk_failed e)\<rparr>
     | Inr ra \<Rightarrow> if \<not> ra_approved ra then sr\<lparr>sy_risk := Some ra\<rparr> else settle_trade env mc s sa ra)"

definition settle_stock :: "pipeline_env \<Rightarrow> market_condition \<Rightarrow> symbol \<Rightarrow> symbol_result" where
  "settle_stock env mc s = (case agent_answer env STOCK_ANALYSIS (Some s) (an_stock (pe_analysts env) s mc (pe_prompt env)) of
       Inl e \<Rightarrow> (new_result s)\<lparr>sy_error := Some (Stock_failed e)\<rparr>
     | Inr sa \<Rightarrow> if sa_action sa = Act_HOLD then (new_result s)\<lparr>sy_stock := Some sa\<rparr> else settle_risk env mc s sa)"

fun settle :: "pipeline_env \<Rightarrow> market_condition \<Rightarrow> symbol \<Rightarrow> task_state \<Rightarrow> symbol_result" where
  "settle env mc s (Done r) = r"
| "settle env mc s (At_trade sa ra _) = settle_trade env mc s sa ra"
| "settle env mc s (At_risk sa _) = settle_risk env mc s sa"
| "settle env mc s t = settle_stock env mc s"

lemmas settle_defs = settle_stock_def settle_risk_def settle_trade_def

lemma settle_advance: "settle env mc s (fst (advance env mc mid s t lg)) = settle env mc s t"
proof (cases t)
  case At_stock
  then show ?thesis
    by (cases "analyze_stock env s mc mid lg"; cases "fst (analyze_stock env s mc mid lg)")
      (auto simp: analyze_defs settle_defs Let_def dest!: agent_analyze_Inl agent_analyze_Inr)
next
  case (At_risk sa i)
  then show ?thesis
    by (cases "analyze_risk env s mc sa i lg"; cases "fst (analyze_risk env s mc sa i lg)")
      (auto simp: analyze_defs settle_risk_def Let_def dest!: agent_analyze_Inl agent_analyze_Inr)
next
  case (At_trade sa ra i)
  then show ?thesis
    by (cases "analyze_trade env s mc sa ra i lg"; cases "fst (analyze_trade env s mc sa ra i lg)")
      (auto simp: analyze_defs settle_trade_def Let_def dest!: agent_analyze_Inl agent_analyze_Inr)
qed simp_all

lemma settle_run: "fst (run_symbol_pipeline env mc mid s lg) = settle env mc s At_stock"
proof (cases "analyze_stock env s mc mid lg")
  case a: (Pair x l1)
  show ?thesis
  proof (cases x)
    case (Inl e)
    with a show ?thesis by (auto simp: run_symbol_pipeline_def settle_defs Let_def analyze_defs dest!: agent_analyze_Inl)
  next
    case (Inr y)
    obtain sa i where y: "y = (sa, i)" by fastforce
    note A = agent_analyze_Inr [OF a [unfolded Inr y analyze_defs]]
    show ?thesis
    proof (cases "analyze_risk env s mc sa i l1")
      case b: (Pair x l2)
      show ?thesis
      proof (cases x)
        case Inl': (Inl e)
        with a b A show ?thesis by (auto simp: run_symbol_pipeline_def settle_defs Let_def Inr y analyze_defs dest!: agent_analyze_Inl)
      next
        case Inr': (Inr z)
        obtain ra j where z: "z = (ra, j)" by fastforce
        note B = agent_analyze_Inr [OF b [unfolded Inr' z analyze_defs]]
        obtain w l3 where c: "analyze_trade env s mc sa ra j l2 = (w, l3)" by fastforce
        show ?thesis
          using a b c A B agent_analyze_Inl [of env TRADE_DECISION] agent_analyze_Inr [of env TRADE_DECISION]
          by (cases w) (auto simp: run_symbol_pipeline_def settle_defs Let_def Inr y Inr' z analyze_defs dest!: agent_analyze_Inl agent_analyze_Inr)
      qed
    qed
  qed
qed

section \<open>Schedules\<close>

fun rank :: "task_state \<Rightarrow> nat" where
  "rank Waiting = 4" | "rank At_stock = 3" | "rank (At_risk _ _) = 2" | "rank (At_trade _ _ _) = 1" | "rank (Done _) = 0"

lemma running_simps [simp]:
  "\<not> running Waiting" "running At_stock" "running (At_risk sa i)" "running (At_trade sa ra i)" "\<not> running (Done r)"
  by (simp_all add: running_def)

definition running_tasks :: "gathering \<Rightarrow> nat" where
  "running_tasks g = length (filter (\<lambda>(s, t). running t) (ga_tasks g))"

definition work_left :: "gathering \<Rightarrow> nat" where
  "work_left g = sum_list (map (\<lambda>(s, t). rank t) (ga_tasks g))"

text \<open>One step: the task, its old and its new state, and the permits.\<close>

lemma step_task_Some:
  assumes "step_task env mc mid i g = Some g'"
  obtains s t t' where "i < length (ga_tasks g)" "ga_tasks g ! i = (s, t)" "ga_tasks g' = (ga_tasks g)[i := (s, t')]"
    "t = Waiting \<and> t' = At_stock \<and> 0 < ga_permits g \<and> ga_permits g' = ga_permits g - 1 \<and> ga_log g' = ga_log g
     \<or> running t \<and> (t', ga_log g') = advance env mc mid s t (ga_log g)
       \<and> ga_permits g' = (if running t' then ga_permits g else ga_permits g + 1)"
proof -
  obtain s t where st: "ga_tasks g ! i = (s, t)" by fastforce
  from assms have i: "i < length (ga_tasks g)" by (auto simp: step_task_def split: if_splits)
  show thesis
  proof (cases "running t")
    case True
    obtain t' l where a: "advance env mc mid s t (ga_log g) = (t', l)" by fastforce
    have "g' = \<lparr>ga_tasks = (ga_tasks g)[i := (s, t')], ga_permits = (if running t' then ga_permits g else ga_permits g + 1), ga_log = l\<rparr>"
      using assms True i st a by (cases t) (simp_all add: step_task_def)
    then show thesis using that [OF i st, of t'] True a by simp
  next
    case False
    then have t: "t = Waiting" using assms st i by (cases t) (simp_all add: step_task_def)
    then have "0 < ga_permits g \<and> g' = g\<lparr>ga_tasks := (ga_tasks g)[i := (s, At_stock)], ga_permits := ga_permits g - 1\<rparr>"
      using assms i st by (auto simp: step_task_def split: if_splits)
    then show thesis using that [OF i st, of At_stock] t by simp
  qed
qed

lemma advance_rank: "running t \<Longrightarrow> rank (fst (advance env mc mid s t lg)) < rank t \<and> fst (advance env mc mid s t lg) \<noteq> Waiting"
  by (cases t) (auto simp: running_def Let_def split: prod.split sum.split)

lemma sum_list_update: "i < length xs \<Longrightarrow> sum_list (map f (xs[i := y])) + f (xs ! i) = sum_list (map f xs) + (f y :: nat)"
  by (induction xs arbitrary: i) (auto split: nat.split)

lemma length_filter_sum: "length (filter P xs) = sum_list (map (\<lambda>x. if P x then 1 else 0) xs)"
  by (induction xs) auto

lemma gather_step_work:
  assumes "gather_step env mc mid g g'"
  shows "work_left g' < work_left g" and "running_tasks g' + ga_permits g' = running_tasks g + ga_permits g"
    and "map fst (ga_tasks g') = map fst (ga_tasks g)"
    and "\<forall>(s, t) \<in> set (ga_tasks g). settle env mc s t = settle env mc s At_stock
      \<Longrightarrow> \<forall>(s, t) \<in> set (ga_tasks g'). settle env mc s t = settle env mc s At_stock"
proof -
  from assms obtain i where "step_task env mc mid i g = Some g'" by (rule gather_stepE)
  then obtain s t t' where i: "i < length (ga_tasks g)" and st: "ga_tasks g ! i = (s, t)" and g': "ga_tasks g' = (ga_tasks g)[i := (s, t')]"
    and c: "t = Waiting \<and> t' = At_stock \<and> 0 < ga_permits g \<and> ga_permits g' = ga_permits g - 1 \<and> ga_log g' = ga_log g
     \<or> running t \<and> (t', ga_log g') = advance env mc mid s t (ga_log g)
       \<and> ga_permits g' = (if running t' then ga_permits g else ga_permits g + 1)"
    by (rule step_task_Some)
  have t': "rank t' < rank t" "settle env mc s t' = settle env mc s t"
    using c advance_rank [of t env mc mid s "ga_log g"] settle_advance [of env mc s mid t "ga_log g"]
    by (auto dest: arg_cong [of _ _ fst])
  show "work_left g' < work_left g"
    using sum_list_update [OF i, of "\<lambda>(s, t). rank t" "(s, t')"] t'(1) unfolding work_left_def g' st by simp
  show "running_tasks g' + ga_permits g' = running_tasks g + ga_permits g"
    using sum_list_update [OF i, of "\<lambda>x. if (\<lambda>(s, t). running t) x then 1 else 0" "(s, t')"] c
    unfolding running_tasks_def g' st length_filter_sum by (auto split: if_splits)
  show "map fst (ga_tasks g') = map fst (ga_tasks g)"
    unfolding g' map_update using i st by (metis fst_conv length_map list_update_id nth_map)
  assume a: "\<forall>(s, t) \<in> set (ga_tasks g). settle env mc s t = settle env mc s At_stock"
  have "(s, t) \<in> set (ga_tasks g)" using i st by (metis nth_mem)
  with a t'(2) have "settle env mc s t' = settle env mc s At_stock" by auto
  with a show "\<forall>(s, t) \<in> set (ga_tasks g'). settle env mc s t = settle env mc s At_stock"
    unfolding g' by (auto dest!: subsetD [OF set_update_subset_insert])
qed


lemma gather_steps_invariant:
  assumes "(gather_step env mc mid)\<^sup>*\<^sup>* (gather_start symbols n lg) g"
  shows "map fst (ga_tasks g) = symbols \<and> running_tasks g + ga_permits g = n
    \<and> (\<forall>(s, t) \<in> set (ga_tasks g). settle env mc s t = settle env mc s At_stock) \<and> work_left g \<le> 4 * length symbols"
  using assms
proof (induction rule: rtranclp_induct)
  case base
  show ?case by (induction symbols) (auto simp: gather_start_def running_tasks_def work_left_def)
next
  case (step g h)
  show ?case using step.IH gather_step_work(1-3) [OF step.hyps(2)] gather_step_work(4) [OF step.hyps(2)] by auto
qed

lemma gather_steps_count: "(gather_step env mc mid ^^ k) g h \<Longrightarrow> k + work_left h \<le> work_left g"
proof (induction k arbitrary: h)
  case (Suc k)
  then obtain m where "(gather_step env mc mid ^^ k) g m" "gather_step env mc mid m h" by (auto elim: relpowp_Suc_E)
  with Suc.IH gather_step_work(1) show ?case by fastforce
qed simp

lemma running_can_step:
  assumes "i < length (ga_tasks g)" "ga_tasks g ! i = (s, t)" "running t \<or> t = Waiting \<and> 0 < ga_permits g"
  shows "\<exists>h. gather_step env mc mid g h"
proof -
  have "\<exists>h. step_task env mc mid i g = Some h"
    using assms by (cases t) (auto simp: step_task_def split: prod.split)
  then show ?thesis by (blast intro: gather_step.intros)
qed

lemma stuck_is_done:
  assumes "0 < running_tasks g + ga_permits g" "\<nexists>h. gather_step env mc mid g h" "(s, t) \<in> set (ga_tasks g)"
  shows "\<exists>r. t = Done r"
proof -
  have nr: "\<not> running u" if "(r, u) \<in> set (ga_tasks g)" for r u
    using that assms(2) running_can_step [of _ g r u env mc mid] by (auto simp: in_set_conv_nth)
  then have "running_tasks g = 0" by (auto simp: running_tasks_def filter_empty_conv)
  with assms(1) have "0 < ga_permits g" by simp
  then have "t \<noteq> Waiting" using assms(2,3) running_can_step [of _ g s t env mc mid] by (auto simp: in_set_conv_nth)
  with nr [OF assms(3)] show ?thesis by (cases t) simp_all
qed

text \<open>
  The agents share one router, whose answers may depend on the order of the calls. A step here is
  one of \<open>gather_step\<close> in an environment of its own: what the agents answer and what the insert of
  the log does is chosen anew at every step.
\<close>

inductive any_step :: "market_condition \<Rightarrow> uuid \<Rightarrow> gathering \<Rightarrow> gathering \<Rightarrow> bool" for mc mid where
  any: "gather_step env mc mid g g' \<Longrightarrow> any_step mc mid g g'"

inductive_cases any_stepE: "any_step mc mid g g'"

lemma any_step_work:
  assumes "any_step mc mid g g'"
  shows "work_left g' < work_left g" "running_tasks g' + ga_permits g' = running_tasks g + ga_permits g"
    "map fst (ga_tasks g') = map fst (ga_tasks g)"
  using assms gather_step_work(1-3) by (auto elim!: any_stepE)

lemma any_steps_invariant:
  assumes "(any_step mc mid)\<^sup>*\<^sup>* (gather_start symbols n lg) g"
  shows "map fst (ga_tasks g) = symbols \<and> running_tasks g + ga_permits g = n \<and> work_left g \<le> 4 * length symbols"
  using assms
proof (induction rule: rtranclp_induct)
  case base
  show ?case by (induction symbols) (auto simp: gather_start_def running_tasks_def work_left_def)
next
  case (step g h)
  show ?case using step.IH any_step_work [OF step.hyps(2)] by auto
qed

lemma any_steps_count: "(any_step mc mid ^^ k) g h \<Longrightarrow> k + work_left h \<le> work_left g"
proof (induction k arbitrary: h)
  case (Suc k)
  then obtain m where "(any_step mc mid ^^ k) g m" "any_step mc mid m h" by (auto elim: relpowp_Suc_E)
  with Suc.IH any_step_work(1) show ?case by fastforce
qed simp

lemma any_steps_finish:
  assumes "0 < running_tasks g + ga_permits g"
  shows "\<exists>h. (gather_step env mc mid)\<^sup>*\<^sup>* g h \<and> (\<forall>(s, t) \<in> set (ga_tasks h). \<exists>r. t = Done r)"
  using assms
proof (induction g rule: measure_induct_rule [of work_left])
  case (less g)
  show ?case
  proof (cases "\<exists>h. gather_step env mc mid g h")
    case True
    then obtain h where h: "gather_step env mc mid g h" by blast
    from less.IH [OF gather_step_work(1) [OF h]] gather_step_work(2) [OF h] less.prems
    show ?thesis using h by (metis converse_rtranclp_into_rtranclp)
  next
    case False
    then show ?thesis using stuck_is_done [OF less.prems False] by auto
  qed
qed

text \<open>
  C33: The concurrent part of execute under n permits, whatever the schedule and whatever the agents answer
  at each step, answers that depend on the order of the calls included. In every state it can reach
  running tasks and free permits add up to n, so at most n symbols are analysed at a time; it takes
  at most four steps per symbol; a state in which no task can move has every symbol finished, and from every
  state a finished one can be reached, if n is positive. With n = 0 nothing ever starts, and execute hangs
  when there is a symbol.
\<close>

theorem any_schedule_finishes:
  assumes "(any_step mc mid)\<^sup>*\<^sup>* (gather_start symbols n lg) g"
  shows "map fst (ga_tasks g) = symbols \<and> running_tasks g + ga_permits g = n
    \<and> (\<forall>k h. (any_step mc mid ^^ k) g h \<longrightarrow> k \<le> 4 * length symbols)
    \<and> (0 < n \<longrightarrow> ((\<nexists>h. any_step mc mid g h) \<longrightarrow> (\<forall>(s, t) \<in> set (ga_tasks g). \<exists>r. t = Done r))
        \<and> (\<forall>env. \<exists>h. (gather_step env mc mid)\<^sup>*\<^sup>* g h \<and> (\<forall>(s, t) \<in> set (ga_tasks h). \<exists>r. t = Done r)))
    \<and> (n = 0 \<longrightarrow> g = gather_start symbols 0 lg \<and> (\<nexists>h. any_step mc mid g h))"
proof -
  note inv = any_steps_invariant [OF assms]
  have c: "(any_step mc mid ^^ k) g h \<Longrightarrow> k \<le> 4 * length symbols" for k h
    using any_steps_count [of k mc mid g h] inv by linarith
  have d: "\<forall>(s, t) \<in> set (ga_tasks g). \<exists>r. t = Done r" if "0 < n" "\<nexists>h. any_step mc mid g h"
  proof -
    have "\<nexists>h. gather_step undefined mc mid g h" using that(2) by (blast intro: any_step.intros)
    then show ?thesis using stuck_is_done [of g undefined mc mid] inv that(1) by auto
  qed
  have f: "\<exists>h. (gather_step env mc mid)\<^sup>*\<^sup>* g h \<and> (\<forall>(s, t) \<in> set (ga_tasks h). \<exists>r. t = Done r)" if "0 < n" for env
    by (rule any_steps_finish) (use inv that in simp)
  have z: "g = gather_start symbols 0 lg \<and> (\<nexists>h. any_step mc mid g h)" if "n = 0"
  proof -
    have none: "\<not> any_step mc mid (gather_start symbols 0 lg) h" for h
      by (auto simp: step_task_def gather_start_def elim!: any_stepE gather_stepE split: if_splits prod.splits)
    have "g = gather_start symbols 0 lg"
      using assms unfolding that
    proof (induction rule: rtranclp_induct)
      case (step y z)
      with none show ?case by simp
    qed simp
    with none show ?thesis by simp
  qed
  show ?thesis
    using inv c d f z by (intro conjI impI allI) (blast | simp)+
qed

section \<open>The audit trail\<close>

text \<open>Row \<open>i\<close> is a decision of the given stage on symbol \<open>s\<close>, below row \<open>parent\<close>, in the session.\<close>

definition is_row :: "pipeline_env \<Rightarrow> audit_row list \<Rightarrow> uuid \<Rightarrow> decision_stage \<Rightarrow> symbol option \<Rightarrow> string \<Rightarrow> uuid option \<Rightarrow> bool" where
  "is_row env lg i stage s say parent \<longleftrightarrow> i < length lg \<and> au_stage (lg ! i) = stage \<and> au_symbol (lg ! i) = s
     \<and> au_decision (lg ! i) = say \<and> au_parent_id (lg ! i) = parent \<and> au_session_id (lg ! i) = pe_session env
     \<and> au_account_id (lg ! i) = pe_account env"

definition numbered :: "audit_row list \<Rightarrow> bool" where
  "numbered lg \<longleftrightarrow> (\<forall>i < length lg. au_decision_id (lg ! i) = i)"

lemma is_row_append: "is_row env lg i stage s say parent \<Longrightarrow> is_row env (lg @ xs) i stage s say parent"
  by (auto simp: is_row_def nth_append)

lemma numbered_snoc: "numbered lg \<Longrightarrow> au_decision_id row = length lg \<Longrightarrow> numbered (lg @ [row])"
  by (auto simp: numbered_def nth_append less_Suc_eq)

lemma find_numbered:
  assumes "numbered lg" "i < length lg" shows "find (\<lambda>r. au_decision_id r = i) lg = Some (lg ! i)"
  using assms unfolding find_Some_iff numbered_def by (intro exI [of _ i]) auto

lemma agent_analyze_log:
  assumes "agent_analyze env stage say conf s parent reply lg = (res, lg')" "numbered lg"
  shows "numbered lg' \<and> (\<exists>xs. lg' = lg @ xs) \<and> (\<forall>r i. res = Inr (r, i) \<longrightarrow> is_row env lg' i stage s (say r) parent)"
  using assms
  by (auto simp: agent_analyze_def audit_insert_def is_row_def nth_append intro!: numbered_snoc split: sum.splits option.splits fault.splits prod.splits)

text \<open>What each task has written so far.\<close>

definition stock_row :: "pipeline_env \<Rightarrow> uuid \<Rightarrow> audit_row list \<Rightarrow> symbol \<Rightarrow> stock_analysis \<Rightarrow> uuid \<Rightarrow> bool" where
  "stock_row env mid lg s sa i \<longleftrightarrow> is_row env lg i STOCK_ANALYSIS (Some s) (decision_action_value (sa_action sa)) (Some mid)"

definition risk_row :: "pipeline_env \<Rightarrow> uuid \<Rightarrow> audit_row list \<Rightarrow> symbol \<Rightarrow> stock_analysis \<Rightarrow> uuid \<Rightarrow> bool" where
  "risk_row env mid lg s sa i \<longleftrightarrow> (\<exists>j. is_row env lg i RISK_CHECK (Some s) ''approve'' (Some j) \<and> stock_row env mid lg s sa j)"

definition trade_row :: "pipeline_env \<Rightarrow> uuid \<Rightarrow> audit_row list \<Rightarrow> symbol \<Rightarrow> trade_decision \<Rightarrow> uuid \<Rightarrow> bool" where
  "trade_row env mid lg s td i \<longleftrightarrow> (\<exists>j sa. is_row env lg i TRADE_DECISION (Some s) (decision_text_trade td) (Some j) \<and> risk_row env mid lg s sa j)"

fun task_rows :: "pipeline_env \<Rightarrow> uuid \<Rightarrow> audit_row list \<Rightarrow> symbol \<Rightarrow> task_state \<Rightarrow> bool" where
  "task_rows env mid lg s (At_risk sa i) = stock_row env mid lg s sa i"
| "task_rows env mid lg s (At_trade sa ra i) = risk_row env mid lg s sa i"
| "task_rows env mid lg s (Done r) = (\<forall>td. sy_trade r = Some td \<longrightarrow> (\<exists>i. trade_row env mid lg s td i))"
| "task_rows env mid lg s _ = True"

lemma rows_append:
  "stock_row env mid lg s sa i \<Longrightarrow> stock_row env mid (lg @ xs) s sa i"
  "risk_row env mid lg s sa i \<Longrightarrow> risk_row env mid (lg @ xs) s sa i"
  "trade_row env mid lg s td i \<Longrightarrow> trade_row env mid (lg @ xs) s td i"
  unfolding stock_row_def risk_row_def trade_row_def using is_row_append by blast+

lemma task_rows_append: "task_rows env mid lg s t \<Longrightarrow> task_rows env mid (lg @ xs) s t"
  by (cases t) (auto intro: rows_append)

lemma advance_rows:
  assumes "advance env mc mid s t lg = (t', lg')" "numbered lg" "task_rows env mid lg s t"
  shows "numbered lg' \<and> (\<exists>xs. lg' = lg @ xs) \<and> task_rows env mid lg' s t'"
proof (cases t)
  case At_stock
  obtain x l where a: "analyze_stock env s mc mid lg = (x, l)" by fastforce
  note agent_analyze_log [OF a [unfolded analyze_defs] assms(2)]
  with a At_stock assms(1) show ?thesis by (cases x) (auto simp: stock_row_def new_result_def split: if_splits)
next
  case (At_risk sa i)
  obtain x l where a: "analyze_risk env s mc sa i lg = (x, l)" by fastforce
  note w = agent_analyze_log [OF a [unfolded analyze_defs] assms(2)]
  then obtain xs where l: "l = lg @ xs" by blast
  have s: "stock_row env mid l s sa i" using assms(3) At_risk rows_append(1) unfolding l by simp
  show ?thesis
  proof (cases x)
    case (Inl e)
    with a At_risk assms(1) w show ?thesis by (auto simp: new_result_def Let_def)
  next
    case (Inr y)
    obtain ra j where y: "y = (ra, j)" by fastforce
    have r: "is_row env l j RISK_CHECK (Some s) (decision_text_risk ra) (Some i)" using w Inr y by blast
    have "ra_approved ra \<Longrightarrow> risk_row env mid l s sa j"
      using r s unfolding risk_row_def decision_text_risk_def by auto
    with a At_risk assms(1) w Inr y show ?thesis by (auto simp: new_result_def Let_def split: if_splits)
  qed
next
  case (At_trade sa ra i)
  obtain x l where a: "analyze_trade env s mc sa ra i lg = (x, l)" by fastforce
  note w = agent_analyze_log [OF a [unfolded analyze_defs] assms(2)]
  then obtain xs where l: "l = lg @ xs" by blast
  have s: "risk_row env mid l s sa i" using assms(3) At_trade rows_append(2) unfolding l by simp
  show ?thesis
  proof (cases x)
    case (Inl e)
    with a At_trade assms(1) w show ?thesis by (auto simp: new_result_def Let_def)
  next
    case (Inr y)
    obtain td j where y: "y = (td, j)" by fastforce
    have "is_row env l j TRADE_DECISION (Some s) (decision_text_trade td) (Some i)" using w Inr y by blast
    then have "trade_row env mid l s td j" using s unfolding trade_row_def by blast
    with a At_trade assms(1) w Inr y show ?thesis by (auto simp: new_result_def Let_def)
  qed
qed (use assms in auto)


lemma gather_rows:
  assumes "(gather_step env mc mid)\<^sup>*\<^sup>* (gather_start symbols n lg) g" "numbered lg"
  shows "numbered (ga_log g) \<and> (\<exists>xs. ga_log g = lg @ xs) \<and> (\<forall>(s, t) \<in> set (ga_tasks g). task_rows env mid (ga_log g) s t)"
  using assms
proof (induction rule: rtranclp_induct)
  case base
  then show ?case by (auto simp: gather_start_def)
next
  case (step g h)
  from step.hyps(2) obtain i where "step_task env mc mid i g = Some h" by (rule gather_stepE)
  then obtain s t t' where i: "i < length (ga_tasks g)" "ga_tasks g ! i = (s, t)" and h: "ga_tasks h = (ga_tasks g)[i := (s, t')]"
    and c: "t = Waiting \<and> t' = At_stock \<and> 0 < ga_permits g \<and> ga_permits h = ga_permits g - 1 \<and> ga_log h = ga_log g
     \<or> running t \<and> (t', ga_log h) = advance env mc mid s t (ga_log g)
       \<and> ga_permits h = (if running t' then ga_permits g else ga_permits g + 1)"
    by (rule step_task_Some)
  have "(s, t) \<in> set (ga_tasks g)" using i by (metis nth_mem)
  then have t: "task_rows env mid (ga_log g) s t" using step by auto
  have n: "numbered (ga_log h) \<and> (\<exists>xs. ga_log h = ga_log g @ xs) \<and> task_rows env mid (ga_log h) s t'"
    using c advance_rows [of env mc mid s t "ga_log g" t' "ga_log h"] t step by auto
  then obtain xs where xs: "ga_log h = ga_log g @ xs" by blast
  have "\<forall>(r, u) \<in> set (ga_tasks h). task_rows env mid (ga_log h) r u"
  proof (intro ballI, clarify)
    fix r u assume "(r, u) \<in> set (ga_tasks h)"
    then have "(r, u) = (s, t') \<or> (r, u) \<in> set (ga_tasks g)" unfolding h using set_update_subset_insert by fastforce
    then show "task_rows env mid (ga_log h) r u" using n step task_rows_append [of env mid "ga_log g" r u xs] unfolding xs by auto
  qed
  with n step xs show ?case by auto
qed

section \<open>The collected result\<close>

lemma collect_results_fields:
  "pp_trade_decisions (collect_results srs p) = pp_trade_decisions p @ List.map_filter sy_trade (filter (\<lambda>r. sy_error r = None) srs)"
  "pp_symbols_analyzed (collect_results srs p) = pp_symbols_analyzed p @ map sy_symbol (filter (\<lambda>r. sy_error r = None) srs)"
  "pp_symbols_skipped (collect_results srs p) = pp_symbols_skipped p @ map sy_symbol (filter (\<lambda>r. sy_error r \<noteq> None) srs)"
  "length (pp_errors (collect_results srs p)) = length (pp_errors p) + length (filter (\<lambda>r. sy_error r \<noteq> None) srs)"
  "pp_success (collect_results srs p) = pp_success p" "pp_symbols_requested (collect_results srs p) = pp_symbols_requested p"
  by (induction srs arbitrary: p) (auto simp: add_some_def map_filter_simps split: option.splits)

lemma finish_pipeline_fields:
  "pp_trade_decisions (finish_pipeline env cf symbols mc g) = List.map_filter sy_trade (filter (\<lambda>r. sy_error r = None) (task_results g))"
  "pp_symbols_analyzed (finish_pipeline env cf symbols mc g) = map sy_symbol (filter (\<lambda>r. sy_error r = None) (task_results g))"
  "pp_symbols_skipped (finish_pipeline env cf symbols mc g) = map sy_symbol (filter (\<lambda>r. sy_error r \<noteq> None) (task_results g))"
  "length (pp_errors (finish_pipeline env cf symbols mc g)) = length (filter (\<lambda>r. sy_error r \<noteq> None) (task_results g))"
  "pp_success (finish_pipeline env cf symbols mc g)" "pp_symbols_requested (finish_pipeline env cf symbols mc g) = symbols"
  by (auto simp: finish_pipeline_def Let_def sum_costs_def collect_results_fields empty_pipeline_result_def split: sum.split)

lemma finished_results:
  assumes "(gather_step env mc mid)\<^sup>*\<^sup>* (gather_start symbols n lg) g" "\<forall>(s, t) \<in> set (ga_tasks g). \<exists>r. t = Done r"
  shows "task_results g = map (\<lambda>s. fst (run_symbol_pipeline env mc mid s [])) symbols"
proof -
  note inv = gather_steps_invariant [OF assms(1)]
  have "List.map_filter (\<lambda>(s, t). case t of Done r \<Rightarrow> Some r | _ \<Rightarrow> None) xs = map (\<lambda>(s, t). settle env mc s At_stock) xs"
    if "\<forall>(s, t) \<in> set xs. (\<exists>r. t = Done r) \<and> settle env mc s t = settle env mc s At_stock" for xs
    using that by (induction xs) (auto simp: map_filter_simps)
  moreover have "\<forall>(s, t) \<in> set (ga_tasks g). (\<exists>r. t = Done r) \<and> settle env mc s t = settle env mc s At_stock"
    using inv assms(2) by fastforce
  ultimately have "task_results g = map (\<lambda>(s, t). settle env mc s At_stock) (ga_tasks g)"
    unfolding task_results_def by blast
  also have "... = map (\<lambda>s. settle env mc s At_stock) (map fst (ga_tasks g))" by (simp add: case_prod_unfold comp_def)
  also have "... = map (\<lambda>s. fst (run_symbol_pipeline env mc mid s [])) symbols" using inv settle_run by (simp del: settle.simps)
  finally show ?thesis .
qed


text \<open>
  C34: execute, under any schedule. A failed market analysis ends it with success False and no symbol
  touched. Otherwise it succeeds, whatever happens to the symbols, and every requested symbol is
  either analysed or skipped with one error, each list in the order of the request; the trade decisions are
  those of the symbols' own pipelines, so a held or refused symbol has none.
\<close>

theorem pipeline_execute_spec:
  assumes "pipeline_execute env n cost_fault symbols lg (p, lg')"
  shows "case analyze_market env lg of
      (Inl e, l) \<Rightarrow> \<not> pp_success p \<and> pp_errors p = [Market_failed e] \<and> pp_symbols_analyzed p = [] \<and> pp_symbols_skipped p = []
        \<and> pp_trade_decisions p = [] \<and> lg' = l
    | (Inr (mc, mid), l) \<Rightarrow> (let outs = map (\<lambda>s. fst (run_symbol_pipeline env mc mid s [])) symbols in
        pp_success p \<and> pp_symbols_requested p = symbols
        \<and> pp_symbols_analyzed p = map sy_symbol (filter (\<lambda>r. sy_error r = None) outs)
        \<and> pp_symbols_skipped p = map sy_symbol (filter (\<lambda>r. sy_error r \<noteq> None) outs)
        \<and> map sy_symbol outs = symbols \<and> length (pp_errors p) = length (pp_symbols_skipped p)
        \<and> pp_trade_decisions p = List.map_filter sy_trade (filter (\<lambda>r. sy_error r = None) outs)
        \<and> (\<forall>r \<in> set outs. sy_trade r \<noteq> None \<longrightarrow> (\<exists>sa ra. sy_stock r = Some sa \<and> sa_action sa \<noteq> Act_HOLD \<and> sy_risk r = Some ra \<and> ra_approved ra)))"
  using assms
proof (cases rule: pipeline_execute.cases)
  case (market_failed e)
  then show ?thesis by (simp add: empty_pipeline_result_def)
next
  case (finished mc mid l final)
  have r: "task_results final = map (\<lambda>s. fst (run_symbol_pipeline env mc mid s [])) symbols"
    using finished_results [OF finished(4)] finished(5) by blast
  have "sy_symbol (settle env mc s At_stock) = s" for s
    by (auto simp: settle_defs new_result_def Let_def split: sum.split)
  then have "map sy_symbol (map (\<lambda>s. fst (run_symbol_pipeline env mc mid s [])) symbols) = symbols"
    unfolding settle_run by (simp del: settle.simps add: comp_def)
  moreover have "\<exists>sa ra. sy_stock r = Some sa \<and> sa_action sa \<noteq> Act_HOLD \<and> sy_risk r = Some ra \<and> ra_approved ra"
    if "r = settle env mc s At_stock" "sy_trade r \<noteq> None" for r s
    using that by (auto simp: settle_defs new_result_def Let_def split: sum.splits if_splits)
  ultimately show ?thesis
    using finish_pipeline_fields [of env cost_fault symbols mc final]
    unfolding finished(1,3) r Let_def by (auto simp del: settle.simps simp: settle_run)
qed

lemma walk_chain_row:
  "is_row env lg i stage s say parent \<Longrightarrow> numbered lg \<Longrightarrow> walk_chain (Suc n) (Some i) lg = lg ! i # walk_chain n parent lg"
  by (auto simp: find_numbered is_row_def)

text \<open>
  C32: The audit trail of execute is complete under any schedule: for every trade decision of the result
  there is a decision in the log whose chain, as get_decision_chain walks it, is exactly trade, risk
  check, stock analysis, market analysis of this session and account, the trade's text first, the
  risk check an approval, all three on the same requested symbol.
\<close>

theorem audit_trail_complete:
  assumes "pipeline_execute env n cost_fault symbols lg (p, lg')" "numbered lg" "td \<in> set (pp_trade_decisions p)"
  shows "\<exists>i s a b c d. get_decision_chain None i lg' = Inr [a, b, c, d] \<and> s \<in> set symbols
    \<and> map au_stage [a, b, c, d] = [TRADE_DECISION, RISK_CHECK, STOCK_ANALYSIS, MARKET_ANALYSIS]
    \<and> au_decision a = decision_text_trade td \<and> au_decision b = ''approve''
    \<and> map au_symbol [a, b, c, d] = [Some s, Some s, Some s, None]
    \<and> (\<forall>r \<in> {a, b, c, d}. au_session_id r = pe_session env \<and> au_account_id r = pe_account env)"
  using assms(1)
proof (cases rule: pipeline_execute.cases)
  case (market_failed e)
  with assms(3) show ?thesis by (simp add: empty_pipeline_result_def)
next
  case (finished mc mid l final)
  have m: "numbered l" "is_row env l mid MARKET_ANALYSIS None (decision_text_market mc) None"
    using agent_analyze_log [OF finished(3) [unfolded analyze_defs] assms(2)] by blast+
  note w = gather_rows [OF finished(4) m(1)]
  have mid: "is_row env lg' mid MARKET_ANALYSIS None (decision_text_market mc) None"
    using w m(2) is_row_append unfolding finished(2) by metis
  have "td \<in> set (List.map_filter sy_trade (filter (\<lambda>r. sy_error r = None) (task_results final)))"
    using assms(3) finished(1) finish_pipeline_fields(1) by simp
  then obtain r where r: "r \<in> set (task_results final)" "sy_trade r = Some td" by (auto simp: List.map_filter_def)
  then obtain s where s: "(s, Done r) \<in> set (ga_tasks final)"
    by (auto simp: task_results_def List.map_filter_def split: task_state.splits)
  have "map fst (ga_tasks final) = symbols" using gather_steps_invariant [OF finished(4)] by simp
  then have "set symbols = fst ` set (ga_tasks final)" by (metis set_map)
  then have "s \<in> set symbols" using imageI [OF s, of fst] by simp
  have "task_rows env mid (ga_log final) s (Done r)" using w s by blast
  then obtain i j k and sa :: stock_analysis where t: "is_row env lg' i TRADE_DECISION (Some s) (decision_text_trade td) (Some j)"
    "is_row env lg' j RISK_CHECK (Some s) ''approve'' (Some k)"
    "is_row env lg' k STOCK_ANALYSIS (Some s) (decision_action_value (sa_action sa)) (Some mid)"
    using r(2) unfolding finished(2) task_rows.simps trade_row_def risk_row_def stock_row_def by blast
  have "numbered lg'" using w finished(2) by simp
  note walk = walk_chain_row [OF _ this]
  have "walk_chain (Suc (Suc (Suc (Suc (Suc 15))))) (Some i) lg' = [lg' ! i, lg' ! j, lg' ! k, lg' ! mid]"
    unfolding walk [OF t(1)] walk [OF t(2)] walk [OF t(3)] walk [OF mid] by (simp only: walk_chain.simps)
  moreover have "max_chain_depth = Suc (Suc (Suc (Suc (Suc 15))))" by (simp add: max_chain_depth_def)
  ultimately have "get_decision_chain None i lg' = Inr [lg' ! i, lg' ! j, lg' ! k, lg' ! mid]"
    unfolding get_decision_chain_def by simp
  then show ?thesis
    using t mid \<open>s \<in> set symbols\<close>
    by (intro exI [of _ i] exI [of _ s] exI [of _ "lg' ! i"] exI [of _ "lg' ! j"] exI [of _ "lg' ! k"] exI [of _ "lg' ! mid"])
      (simp add: is_row_def)
qed


section \<open>A sample run\<close>

text \<open>Two symbols under one permit: the first is bought, the analysis of the second fails.\<close>

definition sample_market :: market_condition where
  "sample_market = \<lparr>mc_condition = ''bull'', mc_confidence = 8 / 10, mc_market_risk_level = ''low'', mc_recommended_exposure = 1 / 2\<rparr>"

definition sample_stock :: stock_analysis where
  "sample_stock = \<lparr>sa_symbol = ''005930'', sa_action = Act_BUY, sa_confidence = 8 / 10, sa_fundamental_score = 70,
     sa_target_price = None,
     sa_stop_loss_price = None, sa_current_price = None\<rparr>"

definition sample_risk :: risk_assessment where
  "sample_risk = \<lparr>ra_symbol = ''005930'', ra_approved = True, ra_risk_level = ''low'', ra_confidence = 7 / 10,
     ra_recommended_quantity = 10, ra_recommended_position_size_krw = 700000, ra_max_loss_krw = 30000\<rparr>"

definition sample_trade :: trade_decision where
  "sample_trade = \<lparr>td_symbol = ''005930'', td_action = Act_BUY, td_confidence = 7 / 10, td_order_type = LIMIT, td_quantity = 10,
     td_price = Some 70000, td_stop_loss_price = None, td_take_profit_price = None\<rparr>"

definition sample_pipeline :: pipeline_env where
  "sample_pipeline = \<lparr>pe_analysts = \<lparr>an_market = Inr (sample_market, 1 / 100),
       an_stock = (\<lambda>s _ _. if s = ''005930'' then Inr (sample_stock, 1 / 100) else Inl (ProviderError ''timeout'')),
       an_risk = (\<lambda>_ _ _ _. Inr (sample_risk, 1 / 100)), an_trade = (\<lambda>_ _ _ _ _. Inr (sample_trade, 1 / 100))\<rparr>,
     pe_faults = (\<lambda>_ _. None), pe_session = 7, pe_prompt = None, pe_account = ''default''\<rparr>"

fun run_schedule :: "pipeline_env \<Rightarrow> market_condition \<Rightarrow> uuid \<Rightarrow> nat list \<Rightarrow> gathering \<Rightarrow> gathering option" where
  "run_schedule env mc mid [] g = Some g"
| "run_schedule env mc mid (i # is) g = (case step_task env mc mid i g of None \<Rightarrow> None | Some h \<Rightarrow> run_schedule env mc mid is h)"

lemma run_schedule_steps: "run_schedule env mc mid is g = Some h \<Longrightarrow> (gather_step env mc mid)\<^sup>*\<^sup>* g h"
  by (induction "is" arbitrary: g) (auto split: option.splits intro: converse_rtranclp_into_rtranclp gather_step.step)

definition sample_audit :: "audit_row list" where
  "sample_audit = snd (analyze_market sample_pipeline [])"

definition sample_final :: gathering where
  "sample_final = the (run_schedule sample_pipeline sample_market 0 [0, 0, 0, 0, 1, 1]
     (gather_start [''005930'', ''000660''] 1 sample_audit))"

lemma sample_market_analysis: "analyze_market sample_pipeline [] = (Inr (sample_market, 0), sample_audit)"
  by (simp add: sample_audit_def analyze_market_def agent_analyze_def sample_pipeline_def audit_insert_def)

lemma sample_schedule:
  "run_schedule sample_pipeline sample_market 0 [0, 0, 0, 0, 1, 1] (gather_start [''005930'', ''000660''] 1 sample_audit)
     = Some sample_final"
  "map (\<lambda>(s, t). case t of Done r \<Rightarrow> (s, sy_trade r) | _ \<Rightarrow> ([], None)) (ga_tasks sample_final) = [(''005930'', Some sample_trade), (''000660'', None)]"
  "\<forall>(s, t) \<in> set (ga_tasks sample_final). case t of Done r \<Rightarrow> True | _ \<Rightarrow> False"
  by code_simp+

lemma sample_steps:
  "(gather_step sample_pipeline sample_market 0)\<^sup>*\<^sup>* (gather_start [''005930'', ''000660''] 1 sample_audit) sample_final"
  using sample_schedule(1) by (rule run_schedule_steps)

lemma sample_execution:
  "pipeline_execute sample_pipeline 1 None [''005930'', ''000660''] [] (finish_pipeline sample_pipeline None [''005930'', ''000660''] sample_market sample_final, ga_log sample_final)"
proof (rule pipeline_execute.finished [OF sample_market_analysis sample_steps], clarify)
  fix s t assume "(s, t) \<in> set (ga_tasks sample_final)"
  with sample_schedule(3) have "case t of Done r \<Rightarrow> True | _ \<Rightarrow> False" by blast
  then show "\<exists>r. t = Done r" by (cases t) simp_all
qed

lemma sample_decisions: "pp_trade_decisions (finish_pipeline sample_pipeline None [''005930'', ''000660''] sample_market sample_final) = [sample_trade]"
  by code_simp

theorem any_schedule_finishes_witness:
  "running_tasks sample_final + ga_permits sample_final = 1
   \<and> (\<exists>h. (gather_step sample_pipeline sample_market 0)\<^sup>*\<^sup>* sample_final h \<and> list_all (\<lambda>(s, t). \<exists>r. t = Done r) (ga_tasks h))"
proof -
  have "(any_step sample_market 0)\<^sup>*\<^sup>* (gather_start [''005930'', ''000660''] 1 sample_audit) sample_final"
    using sample_steps by (induction rule: rtranclp_induct) (auto intro: rtranclp.rtrancl_into_rtrancl any_step.intros)
  from any_schedule_finishes [OF this] show ?thesis unfolding list_all_iff by simp
qed

theorem pipeline_execute_spec_witness:
  "pp_symbols_skipped (finish_pipeline sample_pipeline None [''005930'', ''000660''] sample_market sample_final) = [''000660'']"
proof -
  have "map sy_symbol (filter (\<lambda>r. sy_error r \<noteq> None) (map (\<lambda>s. fst (run_symbol_pipeline sample_pipeline sample_market 0 s [])) [''005930'', ''000660'']))
      = [''000660'']" by code_simp
  then show ?thesis
    using pipeline_execute_spec [OF sample_execution] unfolding sample_market_analysis Let_def by simp
qed

theorem audit_trail_complete_witness:
  "\<exists>i a b c d. get_decision_chain None i (ga_log sample_final) = Inr [a, b, c, d] \<and> au_decision a = ''buy:005930''
     \<and> map au_stage [a, b, c, d] = [TRADE_DECISION, RISK_CHECK, STOCK_ANALYSIS, MARKET_ANALYSIS]"
proof -
  have t: "decision_text_trade sample_trade = ''buy:005930''" by code_simp
  have "numbered []" by (simp add: numbered_def)
  from audit_trail_complete [OF sample_execution this, of sample_trade] obtain i a b c d where
    "get_decision_chain None i (ga_log sample_final) = Inr [a, b, c, d]" "au_decision a = ''buy:005930''"
    "map au_stage [a, b, c, d] = [TRADE_DECISION, RISK_CHECK, STOCK_ANALYSIS, MARKET_ANALYSIS]"
    unfolding t sample_decisions by auto
  then show ?thesis by (intro exI conjI)
qed

end
