(* ===== verification/Account_Jobs.thy ===== *)
theory Account_Jobs
  imports Executor_Sample Exit_Executor Pipeline
begin

text \<open>
  The jobs of one account (\<open>src/scheduler/jobs.py\<close>): the token refresh, the analysis of its strategy, which
  composes the pipeline with the executor, the stop-loss check and the daily report. The pipeline's
  outcome for a list of symbols is a parameter \<open>pipe\<close>, the text of a report and what refreshing the
  token answers as well; the KIS client's own token is modelled in \<open>Kis_Client\<close>.
\<close>

section \<open>The jobs\<close>

definition job_swing_analysis ::
  "'b executor \<Rightarrow> (symbol list \<Rightarrow> pipeline_result) \<Rightarrow> symbol list \<Rightarrow> bool \<Rightarrow> string \<Rightarrow> ('b world, nat) meth" where
  "job_swing_analysis xe pipe symbols is_open account_id = (let result = pipe symbols in
     execute_buy_decisions xe is_open (pp_session_id result) ''swing'' account_id (pp_trade_decisions result))"

text \<open>The symbols are those of the open positions, each once; Python's set has no order, the model keeps the rows'.\<close>

definition job_position_analysis ::
  "'b executor \<Rightarrow> (symbol list \<Rightarrow> pipeline_result) \<Rightarrow> bool \<Rightarrow> string \<Rightarrow> ('b world, nat) meth" where
  "job_position_analysis xe pipe is_open account_id =
     mbind (open_rows_of (xe_faults xe) account_id) (\<lambda>positions.
       if positions = [] then mret 0
       else let result = pipe (remdups (map pr_symbol positions)) in
         execute_buy_decisions xe is_open (pp_session_id result) ''position'' account_id (pp_trade_decisions result))"

definition job_token_refresh :: "exc + string \<Rightarrow> ('b world, unit) meth" where
  "job_token_refresh token = mbind (mlift (\<lambda>_. token)) (\<lambda>_. mret ())"

text \<open>The snapshot of the day first; a report that fails leaves it saved.\<close>

definition job_daily_report :: "'b executor \<Rightarrow> ('b world \<Rightarrow> exc + string) \<Rightarrow> ('b world, unit) meth" where
  "job_daily_report xe report =
     mbind (current_state xe) (\<lambda>state.
     mbind (ext (xe_faults xe) (\<lambda>w. case save_snapshot (xe_services xe) (xe_account xe) state (w_snapshots w) of
        (r, tab) \<Rightarrow> (r, w\<lparr>w_snapshots := tab\<rparr>))) (\<lambda>_.
     mbind (ext (xe_faults xe) (mlift report)) (\<lambda>html.
     send_message (xe_faults xe) (Report_Message html))))"

text \<open>One firing of a job of an account: the executor's clock and faults, the pipeline's answers and the prices vary.\<close>

datatype 'b job_run =
    Run_token_refresh "exc + string"
  | Run_swing "'b executor" "symbol list \<Rightarrow> pipeline_result" "symbol list" bool
  | Run_position "'b executor" "symbol list \<Rightarrow> pipeline_result" bool
  | Run_stop_loss "'b executor" "'b \<Rightarrow> symbol \<Rightarrow> exc + dec"
  | Run_daily_report "'b executor" "'b world \<Rightarrow> exc + string"

definition ignoring :: "('s, 'a) meth \<Rightarrow> ('s, unit) meth" where
  "ignoring m = mcatch (mbind m (\<lambda>_. mret ())) (\<lambda>_. mret ())"

fun run_account_job :: "string \<Rightarrow> 'b job_run \<Rightarrow> ('b world, unit) meth" where
  "run_account_job account_id (Run_token_refresh token) = ignoring (job_token_refresh token)"
| "run_account_job account_id (Run_swing xe pipe symbols is_open) = ignoring (job_swing_analysis xe pipe symbols is_open account_id)"
| "run_account_job account_id (Run_position xe pipe is_open) = ignoring (job_position_analysis xe pipe is_open account_id)"
| "run_account_job account_id (Run_stop_loss xe prices) = ignoring (stop_loss_job xe prices account_id)"
| "run_account_job account_id (Run_daily_report xe report) = ignoring (job_daily_report xe report)"

text \<open>
  The jobs \<open>_register_account_jobs\<close> gives an account: the analysis of its own strategy, the stop-loss check, the daily
  report, and the token refresh when its broker has a token.
\<close>

fun scheduled_for :: "bool \<Rightarrow> strategy_type \<Rightarrow> 'b job_run \<Rightarrow> bool" where
  "scheduled_for has_auth st (Run_token_refresh _) = has_auth"
| "scheduled_for has_auth st (Run_swing _ _ _ _) = (st = SWING)"
| "scheduled_for has_auth st (Run_position _ _ _) = (st = POSITION)"
| "scheduled_for has_auth st (Run_stop_loss _ _) = True"
| "scheduled_for has_auth st (Run_daily_report _ _) = True"

fun run_jobs :: "string \<Rightarrow> 'b job_run list \<Rightarrow> 'b world \<Rightarrow> 'b world" where
  "run_jobs account_id [] w = w"
| "run_jobs account_id (j # js) w = run_jobs account_id js (snd (run_account_job account_id j w))"

section \<open>A position account never starts\<close>

text \<open>Everything but the number of external calls, the snapshots, the cached sectors and the messages.\<close>

definition trading_books :: "'b world \<Rightarrow> 'b world" where
  "trading_books w = w\<lparr>w_calls := 0, w_snapshots := [], w_sectors := [], w_sent := []\<rparr>"

text \<open>Nothing of the books, and only reports sent.\<close>

definition idle :: "'b world \<Rightarrow> 'b world \<Rightarrow> bool" where
  "idle w w' \<longleftrightarrow> trading_books w' = trading_books w \<and> (\<exists>new. w_sent w' = w_sent w @ new \<and> set new \<subseteq> range Report_Message)"

lemma idle_refl: "idle w w"
  by (simp add: idle_def)

lemma idle_trans: "idle w w' \<Longrightarrow> idle w' w'' \<Longrightarrow> idle w w''"
  by (auto simp: idle_def)

lemma idle_calls: "idle w (w\<lparr>w_calls := n\<rparr>)"
  by (simp add: idle_def trading_books_def)

lemma idle_books:
  assumes "idle w w'"
  shows "w_orders w' = w_orders w" "w_executions w' = w_executions w" "w_approvals w' = w_approvals w"
    "w_positions w' = w_positions w" "w_log w' = w_log w" "w_broker w' = w_broker w"
proof -
  have t: "trading_books w' = trading_books w" using assms by (simp add: idle_def)
  show "w_orders w' = w_orders w" using arg_cong [OF t, of w_orders] by (simp add: trading_books_def)
  show "w_executions w' = w_executions w" using arg_cong [OF t, of w_executions] by (simp add: trading_books_def)
  show "w_approvals w' = w_approvals w" using arg_cong [OF t, of w_approvals] by (simp add: trading_books_def)
  show "w_positions w' = w_positions w" using arg_cong [OF t, of w_positions] by (simp add: trading_books_def)
  show "w_log w' = w_log w" using arg_cong [OF t, of w_log] by (simp add: trading_books_def)
  show "w_broker w' = w_broker w" using arg_cong [OF t, of w_broker] by (simp add: trading_books_def)
qed

lemma idle_bind:
  assumes "\<And>w. idle w (snd (m w))" "\<And>x w. idle w (snd (f x w))"
  shows "idle w (snd (mbind m f w))"
proof (cases "m w")
  case (Pair r w1)
  show ?thesis
  proof (cases r)
    case (Inl e)
    then show ?thesis using assms(1) [of w] Pair by (simp add: mbind_def)
  next
    case (Inr x)
    then show ?thesis using idle_trans [OF assms(1) [of w] assms(2)] Pair by (simp add: mbind_def)
  qed
qed

lemma idle_ext:
  assumes "\<And>w. idle w (snd (f w))" shows "idle w (snd (ext fl f w))"
  using idle_trans [OF idle_calls assms, of w] idle_calls [of w] by (auto simp: ext_def Let_def split: option.split fault.split)

lemma idle_report: "idle w (snd (job_daily_report xe report w))"
proof -
  have state: "idle v (snd (current_state xe v))" for v :: "'a world"
    unfolding current_state_def by (rule idle_ext) (auto simp: idle_def trading_books_def split: sum.split prod.split)
  have save: "idle v (snd (ext (xe_faults xe) (\<lambda>w. case save_snapshot (xe_services xe) (xe_account xe) st (w_snapshots w) of
      (r, tab) \<Rightarrow> (r, w\<lparr>w_snapshots := tab\<rparr>)) v))" for st and v :: "'a world"
    by (rule idle_ext) (auto simp: idle_def trading_books_def split: prod.split)
  have read: "idle v (snd (ext (xe_faults xe) (mlift report) v))" for v
    by (rule idle_ext) (simp add: mlift_def idle_refl)
  have send: "idle v (snd (send_message (xe_faults xe) (Report_Message html) v))" for html and v :: "'a world"
    unfolding send_message_def by (rule idle_ext) (auto simp: idle_def trading_books_def effect_def)
  show ?thesis unfolding job_daily_report_def by (intro idle_bind state save read send)
qed

lemma open_rows_idle: "idle w (snd (open_rows_of fl a w))"
proof -
  have "snd (mcatch m (\<lambda>e. mraise (f e)) w) = snd (m w)" for m :: "('a world, position_record list) meth" and f
    by (simp add: mcatch_def mraise_def split: prod.split sum.split)
  then show ?thesis
    unfolding open_rows_of_def using idle_ext [where f = "mlift (\<lambda>w. pm_get_open True None (Some a) (w_positions w))"]
    by (simp add: mlift_def idle_refl)
qed

lemma open_rows_positions: "open_rows_of fl a w = (Inr ps, w') \<Longrightarrow> Inr ps = pm_get_open True None (Some a) (w_positions w)"
  by (auto simp: open_rows_of_def ext_def Let_def meth_defs split: option.splits fault.splits sum.splits)

lemma ignoring_state: "snd (ignoring m w) = snd (m w)"
  by (auto simp: ignoring_def meth_defs split: sum.split prod.split)

lemma idle_when_no_rows:
  assumes "pm_get_open True None (Some a) (w_positions w) = Inr []" "\<And>w'. snd (f [] w') = w'"
  shows "idle w (snd (mbind (open_rows_of fl a) f w))"
proof (cases "open_rows_of fl a w")
  case (Pair r w')
  have i: "idle w w'" using open_rows_idle [of w fl a] Pair by simp
  show ?thesis
  proof (cases r)
    case (Inl e)
    then show ?thesis using i Pair by (simp add: mbind_def)
  next
    case (Inr ps)
    then have "ps = []" using open_rows_positions [of fl a w ps w'] Pair assms(1) by simp
    then show ?thesis using i Pair Inr assms(2) by (simp add: mbind_def)
  qed
qed

lemma idle_job:
  assumes none: "pm_get_open True None (Some a) (w_positions w) = Inr []" and j: "scheduled_for has_auth POSITION j"
  shows "idle w (snd (run_account_job a j w))"
proof (cases j)
  case (Run_token_refresh token)
  show ?thesis unfolding Run_token_refresh run_account_job.simps ignoring_state job_token_refresh_def
    by (cases token) (simp_all add: meth_defs idle_refl)
next
  case (Run_position xe pipe is_open)
  show ?thesis unfolding Run_position run_account_job.simps ignoring_state job_position_analysis_def
    by (rule idle_when_no_rows [OF none]) (simp add: mret_def)
next
  case (Run_stop_loss xe prices)
  show ?thesis unfolding Run_stop_loss run_account_job.simps ignoring_state stop_loss_job_def
    by (rule idle_when_no_rows [OF none]) (simp add: meth_defs job_signals_def map_filter_simps)
next
  case (Run_daily_report xe report)
  show ?thesis unfolding Run_daily_report run_account_job.simps ignoring_state by (rule idle_report)
qed (use j in simp)

text \<open>
  C38: An account with the position strategy and no open position stays so under the jobs scheduled for it: however
  often the token refresh, job_position_analysis, job_stop_loss_check and job_daily_report run, whatever
  the pipeline would answer, the market hours, the prices and the faults are, no order, execution, approval request, position or decision is written, the broker
  is left as it is, and the only messages sent are the daily reports. Its first position cannot come from the scheduler.
\<close>

theorem position_account_never_starts:
  assumes "pm_get_open True None (Some a) (w_positions w) = Inr []" "\<forall>j \<in> set js. scheduled_for has_auth POSITION j"
  shows "w_orders (run_jobs a js w) = w_orders w \<and> w_executions (run_jobs a js w) = w_executions w
    \<and> w_approvals (run_jobs a js w) = w_approvals w \<and> w_positions (run_jobs a js w) = w_positions w
    \<and> w_log (run_jobs a js w) = w_log w \<and> w_broker (run_jobs a js w) = w_broker w
    \<and> (\<exists>new. w_sent (run_jobs a js w) = w_sent w @ new \<and> set new \<subseteq> range Report_Message)"
proof -
  have i: "idle w (run_jobs a js w)"
    using assms
  proof (induction js arbitrary: w)
    case (Cons j js)
    have i: "idle w (snd (run_account_job a j w))"
      by (rule idle_job [OF Cons.prems(1), of has_auth]) (use Cons.prems(2) in simp)
    then have "pm_get_open True None (Some a) (w_positions (snd (run_account_job a j w))) = Inr []"
      using idle_books(4) [OF i] Cons.prems(1) by simp
    then have "idle (snd (run_account_job a j w)) (run_jobs a js (snd (run_account_job a j w)))"
      using Cons by simp
    with i show ?case by (simp add: idle_trans)
  qed (simp add: idle_refl)
  then show ?thesis using idle_books [OF i] unfolding idle_def by blast
qed

text \<open>Two runs of the position job, a stop-loss check and a daily report on the sample world, which holds nothing.\<close>

definition eager_pipe :: "symbol list \<Rightarrow> pipeline_result" where
  "eager_pipe symbols = (empty_pipeline_result sample_pipeline symbols)\<lparr>pp_trade_decisions := [sample_trade]\<rparr>"

definition sample_jobs :: "mock_broker job_run list" where
  "sample_jobs = [Run_token_refresh (Inr ''token''), Run_position (sample_executor no_faults []) eager_pipe True,
     Run_stop_loss (sample_executor no_faults []) (\<lambda>_ _. Inr 70000), Run_daily_report (sample_executor no_faults []) (\<lambda>_. Inr ''report''),
     Run_position (sample_executor no_faults []) eager_pipe True]"

theorem position_account_never_starts_witness:
  "w_orders (run_jobs ''default'' sample_jobs sample_world) = [] \<and> w_broker (run_jobs ''default'' sample_jobs sample_world) = sample_mock"
proof -
  have "pm_get_open True None (Some ''default'') (w_positions sample_world) = Inr []" "w_orders sample_world = []"
    "w_broker sample_world = sample_mock"
    by (simp_all add: sample_world_def new_world_def pm_get_open_def)
  moreover have "\<forall>j \<in> set sample_jobs. scheduled_for True POSITION j" by (simp add: sample_jobs_def)
  ultimately show ?thesis using position_account_never_starts [of "''default''" sample_world sample_jobs True] by simp
qed

end
