(* ===== verification/Scheduler.thy ===== *)
theory Scheduler
  imports Account_Jobs Kis_Models
begin

text \<open>
  \<open>SchedulerEngine\<close> (\<open>src/scheduler/engine.py\<close>), the jobs \<open>SchedulerFactory\<close> registers with it
  (\<open>src/scheduler/factory.py\<close>) and \<open>BrokerRegistry\<close> (\<open>src/broker/registry.py\<close>). APScheduler keeps the
  triggers and fires the jobs; the model has what the program hands it. A job is a method on the state
  \<open>'w\<close>; times are seconds.
\<close>

section \<open>Times and days\<close>

fun split_on :: "char \<Rightarrow> string \<Rightarrow> string list" where
  "split_on c [] = [[]]"
| "split_on c (x # xs) = (if x = c then [] # split_on c xs
     else (case split_on c xs of [] \<Rightarrow> [[x]] | w # ws \<Rightarrow> (x # w) # ws))"

definition parse_time :: "string \<Rightarrow> exc + int \<times> int" where
  "parse_time s = (case split_on (CHR '':'') s of
     [h, m] \<Rightarrow> (case (py_int h, py_int m) of
        (Some hour, Some minute) \<Rightarrow>
          if \<not> (0 \<le> hour \<and> hour \<le> 23) then Inl (ValueError ''Hour out of range'')
          else if \<not> (0 \<le> minute \<and> minute \<le> 59) then Inl (ValueError ''Minute out of range'')
          else Inr (hour, minute)
      | _ \<Rightarrow> Inl (ValueError ''Invalid time format (non-numeric)''))
   | _ \<Rightarrow> Inl (ValueError ''Invalid time format (expected HH:MM)''))"

definition valid_days :: "string list" where
  "valid_days = [''mon'', ''tue'', ''wed'', ''thu'', ''fri'', ''sat'', ''sun'']"

fun join_comma :: "string list \<Rightarrow> string" where
  "join_comma [] = []"
| "join_comma [x] = x"
| "join_comma (x # y # xs) = x @ '','' @ join_comma (y # xs)"

definition parse_day_of_week :: "string \<Rightarrow> exc + string" where
  "parse_day_of_week s = (let tokens = map (\<lambda>t. map lower (strip t)) (split_on (CHR '','') s) in
     if list_all (\<lambda>t. t \<in> set valid_days) tokens then Inr (join_comma tokens) else Inl (ValueError ''Invalid day of week''))"

section \<open>The engine\<close>

text \<open>Cron: day of the week, day of the month, hour, minute. Every: an interval in minutes.\<close>

datatype trigger = Cron "string option" "int option" int int | Every int

type_synonym 'w job = "('w, unit) meth"

record 'w sched_engine =
  en_enabled :: bool
  en_fns :: "(string, 'w job) dict"
  en_scheduled :: "(string, trigger) dict"

definition new_engine :: "bool \<Rightarrow> 'w sched_engine" where
  "new_engine enabled = \<lparr>en_enabled = enabled, en_fns = [], en_scheduled = []\<rparr>"

definition register_job :: "string \<Rightarrow> 'w job \<Rightarrow> trigger \<Rightarrow> 'w sched_engine \<Rightarrow> 'w sched_engine" where
  "register_job name fn tr en = (let en = en\<lparr>en_fns := dict_set name fn (en_fns en)\<rparr> in
     if \<not> en_enabled en then en else en\<lparr>en_scheduled := dict_set name tr (en_scheduled en)\<rparr>)"

datatype job_status = Job_running | Job_success | Job_failed

record job_row =
  jr_id :: nat
  jr_name :: string
  jr_status :: job_status
  jr_started :: int
  jr_finished :: "int option"
  jr_duration :: "dec option"
  jr_error :: "exc option"

text \<open>
  \<open>_wrap_job\<close>. The insert fails before the commit, or after it (the refresh), when the row stays behind;
  the update likewise. Neither stops the job, and nothing the job raises gets out.
\<close>

definition insert_running :: "string \<Rightarrow> int \<Rightarrow> fault option \<Rightarrow> job_row list \<Rightarrow> nat option \<times> job_row list" where
  "insert_running name started fl rows = (let i = length rows;
     rows' = rows @ [\<lparr>jr_id = i, jr_name = name, jr_status = Job_running, jr_started = started, jr_finished = None, jr_duration = None,
       jr_error = None\<rparr>]
   in case fl of None \<Rightarrow> (Some i, rows') | Some (Before _) \<Rightarrow> (None, rows) | Some (After _) \<Rightarrow> (None, rows'))"

definition finish_row :: "nat \<Rightarrow> job_status \<Rightarrow> int \<Rightarrow> dec \<Rightarrow> exc option \<Rightarrow> job_row list \<Rightarrow> job_row list" where
  "finish_row i st finished duration err rows = map (\<lambda>r. if jr_id r = i
     then r\<lparr>jr_status := st, jr_finished := Some finished, jr_duration := Some duration, jr_error := err\<rparr> else r) rows"

definition wrap_job :: "string \<Rightarrow> 'w job \<Rightarrow> int \<Rightarrow> int \<Rightarrow> fault option \<Rightarrow> fault option \<Rightarrow> job_row list \<times> 'w \<Rightarrow> job_row list \<times> 'w" where
  "wrap_job name fn started finished fi fu st = (case st of (rows, w) \<Rightarrow>
     (let (eid, rows1) = insert_running name started fi rows;
          (res, w') = fn w;
          (status, err) = (case res of Inr _ \<Rightarrow> (Job_success, None) | Inl e \<Rightarrow> (Job_failed, Some e)) in
      case eid of None \<Rightarrow> (rows1, w')
      | Some i \<Rightarrow> (let rows2 = finish_row i status finished (of_int (finished - started)) err rows1 in
          (case fu of None \<Rightarrow> rows2 | Some (Before _) \<Rightarrow> rows1 | Some (After _) \<Rightarrow> rows2, w'))))"

definition run_job_now :: "'w sched_engine \<Rightarrow> string \<Rightarrow> int \<Rightarrow> int \<Rightarrow> fault option \<Rightarrow> fault option \<Rightarrow> job_row list \<times> 'w
    \<Rightarrow> (exc + unit) \<times> job_row list \<times> 'w" where
  "run_job_now en name started finished fi fu st = (case dict_get (en_fns en) name of
     None \<Rightarrow> (Inl (ValueError ''Unknown job''), st)
   | Some fn \<Rightarrow> (Inr (), wrap_job name fn started finished fi fu st))"

section \<open>The factory\<close>

record account_row =
  ac_id :: string
  ac_nickname :: string
  ac_account_no :: string
  ac_strategy_type :: string
  ac_override_keys :: "string list"
  ac_active :: bool

record schedule_settings =
  sc_use_mock :: bool
  sc_kis_app_key :: string
  sc_kis_account_no :: string
  sc_market_data_time :: string
  sc_weekly_time :: string
  sc_weekly_day :: string
  sc_monthly_time :: string
  sc_monthly_day :: int
  sc_llm_cost_time :: string
  sc_llm_cost_day :: string
  sc_token_time :: string
  sc_swing_time :: string
  sc_position_time :: string
  sc_position_days :: string
  sc_stop_loss_interval :: int
  sc_daily_time :: string

datatype job_kind =
    Market_data_collect | Weekly_report | Monthly_report | Llm_cost_report
  | Token_refresh string | Swing_analysis string | Position_analysis string | Stop_loss_check string | Daily_report string

fun job_name :: "job_kind \<Rightarrow> string" where
  "job_name Market_data_collect = ''market_data_collect''"
| "job_name Weekly_report = ''weekly_report''"
| "job_name Monthly_report = ''monthly_report''"
| "job_name Llm_cost_report = ''llm_cost_report''"
| "job_name (Token_refresh a) = ''token_refresh:'' @ a"
| "job_name (Swing_analysis a) = ''swing_analysis:'' @ a"
| "job_name (Position_analysis a) = ''position_analysis:'' @ a"
| "job_name (Stop_loss_check a) = ''stop_loss_check:'' @ a"
| "job_name (Daily_report a) = ''daily_report:'' @ a"

definition load_active_accounts :: "exc option \<Rightarrow> account_row list \<Rightarrow> account_row list" where
  "load_active_accounts fault rows = (case fault of Some _ \<Rightarrow> [] | None \<Rightarrow> filter ac_active rows)"

definition synthesize_default_account :: "schedule_settings \<Rightarrow> account_row" where
  "synthesize_default_account st = \<lparr>ac_id = ''default'', ac_nickname = ''default'', ac_account_no = sc_kis_account_no st,
     ac_strategy_type = ''position'', ac_override_keys = [], ac_active = True\<rparr>"

definition accounts_to_use :: "schedule_settings \<Rightarrow> account_row list \<Rightarrow> account_row list" where
  "accounts_to_use st accounts = (if accounts = [] \<and> sc_kis_app_key st \<noteq> [] then [synthesize_default_account st] else accounts)"

definition make_account_label :: "account_row \<Rightarrow> string" where
  "make_account_label a = (let no = ac_account_no a;
     last4 = (if 4 \<le> length no then drop (length no - 4) no else no) in
     if ac_nickname a \<noteq> [] \<and> ac_nickname a \<noteq> ac_id a then ac_nickname a @ '' ('' @ last4 @ '')'' else last4)"

definition allowed_risk_keys :: "string list" where
  "allowed_risk_keys = [''RISK_PER_TRADE_PCT'', ''MAX_POSITION_PCT'', ''SECTOR_CONCENTRATION_PCT'', ''MAX_DRAWDOWN_PCT'',
     ''DAILY_LOSS_LIMIT_PCT'', ''DAILY_LOSS_LIMIT_KRW'', ''CORRELATION_THRESHOLD'', ''MAX_DAILY_TRADES'',
     ''MAX_PORTFOLIO_POSITIONS'', ''MAX_POSITION_SIZE_KRW'']"

definition strategy_type_of :: "string \<Rightarrow> exc + strategy_type" where
  "strategy_type_of s = (if s = ''position'' then Inr POSITION else if s = ''swing'' then Inr SWING else Inl (ValueError s))"

text \<open>What a context keeps of its account: the strategy decides the jobs, the login the token job.\<close>

record account_context =
  cx_account_id :: string
  cx_label :: string
  cx_strategy :: strategy_type
  cx_has_auth :: bool

definition build_account_context :: "schedule_settings \<Rightarrow> account_row \<Rightarrow> exc + account_context" where
  "build_account_context st a = rbind (strategy_type_of (ac_strategy_type a)) (\<lambda>ty.
     if \<exists>k \<in> set (ac_override_keys a). k \<notin> set allowed_risk_keys then Inl (ValueError ''Invalid risk override keys'')
     else Inr \<lparr>cx_account_id = ac_id a, cx_label = make_account_label a, cx_strategy = ty, cx_has_auth = (\<not> sc_use_mock st)\<rparr>)"

definition cron_at :: "string \<Rightarrow> string option \<Rightarrow> int option \<Rightarrow> exc + trigger" where
  "cron_at time wday mday = rbind (parse_time time) (\<lambda>(h, m). case wday of
     None \<Rightarrow> Inr (Cron None mday h m)
   | Some d \<Rightarrow> rbind (parse_day_of_week d) (\<lambda>d. Inr (Cron (Some d) mday h m)))"

text \<open>The jobs in the order they are registered, each with its trigger or the error of its settings.\<close>

definition common_jobs :: "schedule_settings \<Rightarrow> bool \<Rightarrow> (job_kind \<times> (exc + trigger)) list" where
  "common_jobs st has_provider = (if has_provider then [(Market_data_collect, cron_at (sc_market_data_time st) None None)] else [])
     @ [(Weekly_report, cron_at (sc_weekly_time st) (Some (sc_weekly_day st)) None),
        (Monthly_report, cron_at (sc_monthly_time st) None (Some (sc_monthly_day st))),
        (Llm_cost_report, cron_at (sc_llm_cost_time st) (Some (sc_llm_cost_day st)) None)]"

definition account_jobs :: "schedule_settings \<Rightarrow> account_context \<Rightarrow> (job_kind \<times> (exc + trigger)) list" where
  "account_jobs st c = (let a = cx_account_id c in
     (if cx_has_auth c then [(Token_refresh a, cron_at (sc_token_time st) None None)] else [])
     @ (if cx_strategy c = SWING then [(Swing_analysis a, cron_at (sc_swing_time st) None None)] else [])
     @ (if cx_strategy c = POSITION then [(Position_analysis a, cron_at (sc_position_time st) (Some (sc_position_days st)) None)] else [])
     @ [(Stop_loss_check a, Inr (Every (sc_stop_loss_interval st))),
        (Daily_report a, cron_at (sc_daily_time st) None None)])"

fun register_jobs :: "(job_kind \<Rightarrow> 'w job) \<Rightarrow> (job_kind \<times> (exc + trigger)) list \<Rightarrow> 'w sched_engine \<Rightarrow> exc + 'w sched_engine" where
  "register_jobs fns [] en = Inr en"
| "register_jobs fns ((k, tr) # js) en = rbind tr (\<lambda>tr. register_jobs fns js (register_job (job_name k) (fns k) tr en))"

text \<open>
  \<open>create_scheduler\<close>: \<open>login\<close> tells whether an account's credentials decrypt and its broker connects; an
  account that fails, there or in its context, is left out.
\<close>

definition account_contexts :: "schedule_settings \<Rightarrow> (account_row \<Rightarrow> bool) \<Rightarrow> account_row list \<Rightarrow> account_context list" where
  "account_contexts st login accounts = List.map_filter (\<lambda>a. case build_account_context st a of Inl _ \<Rightarrow> None | Inr c \<Rightarrow> Some c)
     (filter login accounts)"

definition create_scheduler ::
  "schedule_settings \<Rightarrow> bool \<Rightarrow> (job_kind \<Rightarrow> 'w job) \<Rightarrow> exc option \<Rightarrow> account_row list \<Rightarrow> (account_row \<Rightarrow> bool) \<Rightarrow> exc + 'w sched_engine" where
  "create_scheduler st enabled fns fault rows login = (let accounts = accounts_to_use st (load_active_accounts fault rows);
     registered = filter login accounts;
     contexts = account_contexts st login accounts
   in rbind (register_jobs fns (common_jobs st (\<not> sc_use_mock st \<and> registered \<noteq> [])) (new_engine enabled)) (\<lambda>en.
      register_jobs fns (concat (map (account_jobs st) contexts)) en))"

section \<open>The broker registry\<close>

text \<open>Clients are objects: their number, the account they log in for, whether they are connected.\<close>

record client_object =
  cl_account :: string
  cl_connected :: bool

record registry =
  rg_brokers :: "(string, nat) dict"
  rg_clients :: "client_object list"

definition set_connected :: "nat \<Rightarrow> bool \<Rightarrow> registry \<Rightarrow> registry" where
  "set_connected i b rg = rg\<lparr>rg_clients := (rg_clients rg)[i := (rg_clients rg ! i)\<lparr>cl_connected := b\<rparr>]\<rparr>"

definition registry_register :: "exc option \<Rightarrow> exc option \<Rightarrow> string \<Rightarrow> registry \<Rightarrow> (exc + nat) \<times> registry" where
  "registry_register disconnect_fault connect_fault account rg =
     (let rg1 = (case dict_get (rg_brokers rg) account of
         Some i \<Rightarrow> (case disconnect_fault of None \<Rightarrow> set_connected i False rg | Some _ \<Rightarrow> rg) | None \<Rightarrow> rg);
       n = length (rg_clients rg1);
       rg2 = rg1\<lparr>rg_clients := rg_clients rg1 @ [\<lparr>cl_account = account, cl_connected = False\<rparr>]\<rparr>
     in case connect_fault of
          Some e \<Rightarrow> (Inl e, rg2)
        | None \<Rightarrow> (let rg3 = set_connected n True rg2 in (Inr n, rg3\<lparr>rg_brokers := dict_set account n (rg_brokers rg3)\<rparr>)))"

definition registry_get :: "string \<Rightarrow> registry \<Rightarrow> exc + nat" where
  "registry_get account rg = (case dict_get (rg_brokers rg) account of None \<Rightarrow> Inl KeyError | Some i \<Rightarrow> Inr i)"

definition registry_disconnect_all :: "(string \<Rightarrow> exc option) \<Rightarrow> registry \<Rightarrow> registry" where
  "registry_disconnect_all faults rg = (fold (\<lambda>(a, i) r. case faults a of None \<Rightarrow> set_connected i False r | Some _ \<Rightarrow> r) (rg_brokers rg) rg)
     \<lparr>rg_brokers := []\<rparr>"


section \<open>Times\<close>

lemma split_on_none: "c \<notin> set s \<Longrightarrow> split_on c s = [s]"
  by (induction s) auto

lemma split_on_append: "c \<notin> set s \<Longrightarrow> split_on c (s @ c # t) = s # split_on c t"
  by (induction s) auto

lemma colon_free: "CHR '':'' \<notin> set (digits w n)"
  using digits_digit [of "CHR '':''" w n] by (auto simp: is_digit_def digit_of_def Let_def)

text \<open>
  Parse_time reads back every time of the day written as two digits, a colon and two digits, and what
  it returns for any text is a time of the day; it raises nothing but ValueError.
\<close>

theorem parse_time_spec:
  "(case parse_time s of Inr (h, m) \<Rightarrow> 0 \<le> h \<and> h \<le> 23 \<and> 0 \<le> m \<and> m \<le> 59 | Inl e \<Rightarrow> (\<exists>msg. e = ValueError msg))
   \<and> (a < 24 \<longrightarrow> b < 60 \<longrightarrow> parse_time (digits 2 a @ '':'' @ digits 2 b) = Inr (int a, int b))"
proof (intro conjI impI)
  show "case parse_time s of Inr (h, m) \<Rightarrow> 0 \<le> h \<and> h \<le> 23 \<and> 0 \<le> m \<and> m \<le> 59 | Inl e \<Rightarrow> (\<exists>msg. e = ValueError msg)"
    by (auto simp: parse_time_def split: list.split option.split)
  assume "a < 24" "b < 60"
  then show "parse_time (digits 2 a @ '':'' @ digits 2 b) = Inr (int a, int b)"
    using py_int_digits [of 2 a] py_int_digits [of 2 b] split_on_append [OF colon_free] split_on_none [OF colon_free]
    by (simp add: parse_time_def)
qed

section \<open>The wrapper\<close>

definition rows_numbered :: "job_row list \<Rightarrow> bool" where
  "rows_numbered rows \<longleftrightarrow> (\<forall>r \<in> set rows. jr_id r < length rows)"

lemma finish_row_new: "rows_numbered rows \<Longrightarrow> finish_row (length rows) st f d e (rows @ [r]) =
    rows @ (if jr_id r = length rows then [r\<lparr>jr_status := st, jr_finished := Some f, jr_duration := Some d, jr_error := e\<rparr>] else [r])"
  by (auto simp: finish_row_def rows_numbered_def intro!: map_idI)

text \<open>
  C40: _wrap_job runs its job exactly once, from the state it is given, and always returns, whatever
  the database and the job do; the rows of earlier runs stay as they are. Without database faults
  exactly one row is added, SUCCESS or FAILED with the error as the job ended; a row can stay RUNNING
  only if the commit of the insert or the update failed.
\<close>

theorem wrap_job_spec:
  assumes "rows_numbered rows" "wrap_job name fn t0 t1 fi fu (rows, w) = (rows', w')"
  shows "w' = snd (fn w) \<and> rows_numbered rows' \<and> (\<exists>new. rows' = rows @ new \<and> length new \<le> 1
     \<and> (fi = None \<and> fu = None \<longrightarrow> (\<exists>r. new = [r] \<and> jr_name r = name \<and> jr_finished r = Some t1
          \<and> (case fst (fn w) of Inr _ \<Rightarrow> jr_status r = Job_success \<and> jr_error r = None | Inl e \<Rightarrow> jr_status r = Job_failed \<and> jr_error r = Some e)))
     \<and> (\<forall>r \<in> set new. jr_status r = Job_running \<longrightarrow> fi \<noteq> None \<or> fu \<noteq> None))"
proof -
  obtain res v where fn: "fn w = (res, v)" by fastforce
  note f = finish_row_new [OF assms(1)]
  have n: "jr_id r < Suc (length rows)" if "r \<in> set rows" for r
    using assms(1) that unfolding rows_numbered_def by (blast intro: less_SucI)
  show ?thesis
    using assms unfolding wrap_job_def insert_running_def Let_def fn rows_numbered_def [of rows']
    by (cases fi; cases fu; cases res)
      (auto simp: fn f n rows_numbered_def split: fault.splits)
qed

section \<open>Which jobs an engine has\<close>

lemma job_name_inj: "job_name k = job_name k' \<longleftrightarrow> k = k'"
  by (cases k; cases k') simp_all

lemma register_jobs_fns:
  "register_jobs fns js en = Inr en' \<Longrightarrow>
   dict_get (en_fns en') (job_name k) = (if k \<in> set (map fst js) then Some (fns k) else dict_get (en_fns en) (job_name k))
   \<and> en_enabled en' = en_enabled en \<and> (\<not> en_enabled en \<longrightarrow> en_scheduled en' = en_scheduled en)"
proof (induction js arbitrary: en)
  case (Cons j js)
  obtain i tr where j: "j = (i, tr)" by fastforce
  from Cons.prems obtain t where t: "register_jobs fns js (register_job (job_name i) (fns i) t en) = Inr en'"
    by (auto simp: j res_simps)
  from Cons.IH [OF t] show ?case by (auto simp: j register_job_def Let_def dict_simps job_name_inj)
qed simp

definition wanted_job :: "bool \<Rightarrow> account_context list \<Rightarrow> job_kind \<Rightarrow> bool" where
  "wanted_job has_provider cs k = (case k of
     Market_data_collect \<Rightarrow> has_provider
   | Token_refresh a \<Rightarrow> \<exists>c \<in> set cs. cx_account_id c = a \<and> cx_has_auth c
   | Swing_analysis a \<Rightarrow> \<exists>c \<in> set cs. cx_account_id c = a \<and> cx_strategy c = SWING
   | Position_analysis a \<Rightarrow> \<exists>c \<in> set cs. cx_account_id c = a \<and> cx_strategy c = POSITION
   | Stop_loss_check a \<Rightarrow> \<exists>c \<in> set cs. cx_account_id c = a
   | Daily_report a \<Rightarrow> \<exists>c \<in> set cs. cx_account_id c = a
   | _ \<Rightarrow> True)"

lemma wanted_job_mem:
  "wanted_job p cs k \<longleftrightarrow> k \<in> set (map fst (common_jobs st p)) \<or> k \<in> set (map fst (concat (map (account_jobs st) cs)))"
proof -
  have "k \<in> set (map fst (common_jobs st p)) \<longleftrightarrow> (case k of Market_data_collect \<Rightarrow> p | Weekly_report \<Rightarrow> True | Monthly_report \<Rightarrow> True
      | Llm_cost_report \<Rightarrow> True | _ \<Rightarrow> False)"
    by (cases k) (auto simp: common_jobs_def)
  moreover have "k \<in> set (map fst (account_jobs st c)) \<longleftrightarrow> (case k of Token_refresh a \<Rightarrow> cx_account_id c = a \<and> cx_has_auth c
      | Swing_analysis a \<Rightarrow> cx_account_id c = a \<and> cx_strategy c = SWING
      | Position_analysis a \<Rightarrow> cx_account_id c = a \<and> cx_strategy c = POSITION
      | Stop_loss_check a \<Rightarrow> cx_account_id c = a | Daily_report a \<Rightarrow> cx_account_id c = a | _ \<Rightarrow> False)" for c
    by (cases k) (auto simp: account_jobs_def Let_def)
  moreover have "k \<in> set (map fst (concat (map (account_jobs st) cs))) \<longleftrightarrow> (\<exists>c \<in> set cs. k \<in> set (map fst (account_jobs st c)))"
    by (induction cs) auto
  ultimately show ?thesis by (cases k) (auto simp: wanted_job_def)
qed

text \<open>
  C39: The jobs of the engine create_scheduler builds. It has the common reports, market data
  collection when a real broker is registered, and for each account that logged in and whose settings are
  valid the stop-loss check, the daily report, the analysis of its own strategy and no other, and the
  token refresh unless the mock broker is used; each job is bound to its own account. With
  the scheduler disabled nothing is handed to APScheduler. When the query of the accounts fails and
  an app key is set, the account of the environment is scheduled as if no account existed.
\<close>

theorem scheduler_jobs_exact:
  assumes "create_scheduler st enabled fns fault rows login = Inr en"
  defines "accounts \<equiv> accounts_to_use st (load_active_accounts fault rows)"
  shows "dict_get (en_fns en) (job_name k) = (if wanted_job (\<not> sc_use_mock st \<and> (\<exists>a \<in> set accounts. login a)) (account_contexts st login accounts) k
      then Some (fns k) else None)
    \<and> (\<not> enabled \<longrightarrow> en_scheduled en = [])
    \<and> (fault \<noteq> None \<and> sc_kis_app_key st \<noteq> [] \<and> login (synthesize_default_account st)
       \<longrightarrow> dict_get (en_fns en) (job_name (Stop_loss_check ''default'')) = Some (fns (Stop_loss_check ''default'')))"
proof -
  let ?p = "\<not> sc_use_mock st \<and> filter login accounts \<noteq> []"
  let ?cs = "account_contexts st login accounts"
  obtain en1 where e1: "register_jobs fns (common_jobs st ?p) (new_engine enabled) = Inr en1"
    and e2: "register_jobs fns (concat (map (account_jobs st) ?cs)) en1 = Inr en"
    using assms(1) by (auto simp: create_scheduler_def Let_def accounts_def res_simps)
  have p: "?p \<longleftrightarrow> \<not> sc_use_mock st \<and> (\<exists>a \<in> set accounts. login a)" by (auto simp: filter_empty_conv)
  have g: "dict_get (en_fns en) (job_name k) = (if wanted_job ?p ?cs k then Some (fns k) else None)" for k
    using register_jobs_fns [OF e1, of k] register_jobs_fns [OF e2, of k] unfolding wanted_job_mem [of ?p ?cs k st]
    by (auto simp: new_engine_def)
  have "wanted_job ?p ?cs (Stop_loss_check ''default'')"
    if f: "fault \<noteq> None" "sc_kis_app_key st \<noteq> []" "login (synthesize_default_account st)"
  proof -
    have "accounts = [synthesize_default_account st]"
      using f by (auto simp: accounts_def accounts_to_use_def load_active_accounts_def)
    then show ?thesis using f(3)
      by (simp add: wanted_job_def account_contexts_def build_account_context_def strategy_type_of_def synthesize_default_account_def
          map_filter_simps)
  qed
  then have "fault \<noteq> None \<and> sc_kis_app_key st \<noteq> [] \<and> login (synthesize_default_account st)
      \<Longrightarrow> dict_get (en_fns en) (job_name (Stop_loss_check ''default'')) = Some (fns (Stop_loss_check ''default''))"
    using g [of "Stop_loss_check ''default''"] by simp
  moreover have "\<not> enabled \<Longrightarrow> en_scheduled en = []"
    using register_jobs_fns [OF e1, of k] register_jobs_fns [OF e2, of k] by (simp add: new_engine_def)
  ultimately show ?thesis using g [of k] unfolding p by blast
qed

section \<open>A registration that fails\<close>

text \<open>After a failed new login the registry still answers with the old client, which it has disconnected.\<close>

lemma failed_register_keeps_dead_client:
  assumes "dict_get (rg_brokers rg) a = Some i" "i < length (rg_clients rg)" "registry_register None (Some e) a rg = (res, rg')"
  shows "res = Inl e \<and> registry_get a rg' = Inr i \<and> \<not> cl_connected (rg_clients rg' ! i)"
  using assms by (auto simp: registry_register_def registry_get_def set_connected_def Let_def nth_append)


section \<open>Samples\<close>

theorem parse_time_spec_witness:
  "parse_time ''15:40'' = Inr (15, 40)"
proof -
  have "digits 2 15 @ '':'' @ digits 2 40 = ''15:40''" by code_simp
  then show ?thesis using parse_time_spec [of "''''" 15 40] by simp
qed

theorem wrap_job_spec_witness:
  "case wrap_job ''daily_report:a'' (mraise (DatabaseError ''down'')) 5 9 None None ([], 3 :: int) of
     (rows', w') \<Rightarrow> w' = 3 \<and> (\<exists>r. rows' = [r] \<and> jr_status r = Job_failed \<and> jr_error r = Some (DatabaseError ''down''))"
proof -
  obtain rows' w' where r: "wrap_job ''daily_report:a'' (mraise (DatabaseError ''down'')) 5 9 None None ([], 3 :: int) = (rows', w')"
    by fastforce
  have "rows_numbered []" by (simp add: rows_numbered_def)
  from wrap_job_spec [OF this r] show ?thesis unfolding r by (auto simp: mraise_def)
qed

definition sample_schedule_settings :: schedule_settings where
  "sample_schedule_settings = \<lparr>sc_use_mock = True, sc_kis_app_key = '''', sc_kis_account_no = '''', sc_market_data_time = ''15:40'',
     sc_weekly_time = ''10:00'', sc_weekly_day = ''sat'', sc_monthly_time = ''10:00'', sc_monthly_day = 1, sc_llm_cost_time = ''09:00'',
     sc_llm_cost_day = ''mon'', sc_token_time = ''06:00'', sc_swing_time = ''01:00'', sc_position_time = ''01:30'',
     sc_position_days = ''wed,sat'', sc_stop_loss_interval = 5, sc_daily_time = ''20:00''\<rparr>"

definition sample_accounts :: "account_row list" where
  "sample_accounts = [\<lparr>ac_id = ''a'', ac_nickname = ''a'', ac_account_no = ''12345678'', ac_strategy_type = ''swing'',
     ac_override_keys = [], ac_active = True\<rparr>,
     \<lparr>ac_id = ''b'', ac_nickname = ''b'', ac_account_no = ''87654321'', ac_strategy_type = ''day'', ac_override_keys = [], ac_active = True\<rparr>]"

theorem scheduler_jobs_exact_witness:
  "\<exists>en. create_scheduler sample_schedule_settings True (\<lambda>k. mret () :: unit job) None sample_accounts (\<lambda>_. True) = Inr en
     \<and> dict_get (en_fns en) ''swing_analysis:a'' \<noteq> None \<and> dict_get (en_fns en) ''stop_loss_check:b'' = None"
proof -
  have cs: "account_contexts sample_schedule_settings (\<lambda>_. True) (accounts_to_use sample_schedule_settings (load_active_accounts None sample_accounts))
      = [\<lparr>cx_account_id = ''a'', cx_label = ''5678'', cx_strategy = SWING, cx_has_auth = False\<rparr>]"
    by code_simp
  have "case create_scheduler sample_schedule_settings True (\<lambda>k. mret () :: unit job) None sample_accounts (\<lambda>_. True) of Inr _ \<Rightarrow> True | Inl _ \<Rightarrow> False"
    by code_simp
  then obtain en where en: "create_scheduler sample_schedule_settings True (\<lambda>k. mret () :: unit job) None sample_accounts (\<lambda>_. True) = Inr en"
    by (auto split: sum.splits)
  note j = scheduler_jobs_exact [OF en, unfolded cs]
  show ?thesis using en j [of "Swing_analysis ''a''"] j [of "Stop_loss_check ''b''"] by (simp add: wanted_job_def)
qed

end
