(* ===== verification/Strategy_Entries.thy ===== *)
theory Strategy_Entries
  imports Strategy_Exits Sizing Risk_Manager Portfolio_State Patterns Pipeline
begin

text \<open>
  The entry side of the two strategies, \<open>scan_universe\<close> and \<open>generate_signals\<close> of
  \<open>src/strategy/swing_trading.py\<close> and \<open>src/strategy/position_trading.py\<close>, and the endpoint
  \<open>POST /api/strategy/run\<close> of \<open>src/api/routes/strategy.py\<close> that books positions from the signals. The
  formulas of the \<open>ta\<close> package, the standard deviation of pandas, the answers of the broker and of the
  database are parameters; float arithmetic is modelled as exact arithmetic. The dates of a bar list
  are taken to be distinct, so that a position in the list stands for its label in a pandas index.
\<close>

section \<open>The universe\<close>

record master_row =
  ms_symbol :: symbol
  ms_market_type :: string
  ms_is_active :: bool
  ms_market_cap :: "int option"

record daily_row =
  dy_symbol :: symbol
  dy_date :: date
  dy_close :: rat
  dy_trading_value :: "int option"

text \<open>
  The answers of the two tables, and the order in which the database lists the groups of a
  query: that of equal averages, and the collation of the symbols.
\<close>

record universe_db =
  ud_master :: "exc + master_row list"
  ud_daily :: "exc + daily_row list"
  ud_ties :: "symbol list \<Rightarrow> symbol list"
  ud_collate :: "symbol list \<Rightarrow> symbol list"

definition large_caps :: "int \<Rightarrow> master_row list \<Rightarrow> symbol list" where
  "large_caps min_cap rows = map ms_symbol (filter (\<lambda>r. ms_is_active r \<and> ms_market_type r \<in> {''kospi'', ''kosdaq''}
     \<and> (\<exists>c \<in> set_option (ms_market_cap r). min_cap \<le> c)) rows)"

definition recent_rows :: "date \<Rightarrow> symbol list \<Rightarrow> daily_row list \<Rightarrow> daily_row list" where
  "recent_rows today symbols rows = filter (\<lambda>r. dy_symbol r \<in> set symbols \<and> today - 20 \<le> dy_date r) rows"

text \<open>\<open>avg(coalesce(trading_value, 0))\<close> of a symbol's group, which is never empty.\<close>

definition avg_value :: "daily_row list \<Rightarrow> symbol \<Rightarrow> rat" where
  "avg_value rows s = (let vs = map (\<lambda>r. case dy_trading_value r of None \<Rightarrow> 0 | Some v \<Rightarrow> of_int v) (filter (\<lambda>r. dy_symbol r = s) rows)
     in sum_list vs / of_nat (length vs))"

definition groups :: "daily_row list \<Rightarrow> symbol list" where
  "groups rows = remdups (map dy_symbol rows)"

definition top_volume :: "universe_db \<Rightarrow> daily_row list \<Rightarrow> symbol list" where
  "top_volume db rows = take 50 (sort_key (\<lambda>s. - avg_value rows s) (ud_ties db (groups rows)))"

definition liquid :: "universe_db \<Rightarrow> daily_row list \<Rightarrow> symbol list" where
  "liquid db rows = filter (\<lambda>s. 1000000000 \<le> avg_value rows s) (ud_ties db (groups rows))"

definition closes_of :: "daily_row list \<Rightarrow> symbol \<Rightarrow> rat list" where
  "closes_of rows s = map dy_close (sort_key dy_date (filter (\<lambda>r. dy_symbol r = s) rows))"

text \<open>
  \<open>pct_change().dropna()\<close>: 0 / 0 is NaN and is dropped, x / 0 is infinite (None). \<open>std\<close> is None
  where pandas gives NaN, and \<open>Decimal("nan")\<close> raises when it is compared.
\<close>

fun pct_changes :: "rat list \<Rightarrow> rat option list" where
  "pct_changes (a # b # cs) =
     (if a = 0 then (if b = 0 then [] else [None]) else [Some ((b - a) / a)]) @ pct_changes (b # cs)"
| "pct_changes _ = []"

definition volatile :: "(rat option list \<Rightarrow> rat option) \<Rightarrow> rat list \<Rightarrow> exc + bool" where
  "volatile std closes = (if length closes < 5 \<or> pct_changes closes = [] then Inr False else
     case std (pct_changes closes) of None \<Rightarrow> Inl InvalidOperation | Some v \<Rightarrow> Inr (2 \<le> v * 100 \<and> v * 100 \<le> 8))"

definition volatile_symbols :: "(rat option list \<Rightarrow> rat option) \<Rightarrow> daily_row list \<Rightarrow> symbol list \<Rightarrow> exc + symbol list" where
  "volatile_symbols std rows symbols = rfold (\<lambda>s acc. rbind (rbind (volatile std (closes_of rows s)) (\<lambda>v. Inr (if v then Some s else None)))
     (\<lambda>x. case x of Some s \<Rightarrow> Inr (acc @ [s]) | None \<Rightarrow> Inr acc)) symbols []"

definition not_held :: "position_record list \<Rightarrow> symbol list \<Rightarrow> symbol list" where
  "not_held ps symbols = filter (\<lambda>s. s \<notin> pr_symbol ` set ps) symbols"

definition swing_scan_universe ::
  "universe_db \<Rightarrow> (rat option list \<Rightarrow> rat option) \<Rightarrow> date \<Rightarrow> exc + position_record list \<Rightarrow> exc + symbol list" where
  "swing_scan_universe db std today held =
     rbind (ud_master db) (\<lambda>master.
     let large = large_caps 100000000000 master in if large = [] then Inr [] else
     rbind (ud_daily db) (\<lambda>daily.
     let top = top_volume db (recent_rows today large daily) in if top = [] then Inr [] else
     let rows = recent_rows today top daily in
     rbind (volatile_symbols std rows (ud_collate db (groups rows))) (\<lambda>vs. if vs = [] then Inr [] else
     rbind held (\<lambda>ps. Inr (not_held ps vs)))))"

definition position_scan_universe :: "universe_db \<Rightarrow> date \<Rightarrow> exc + position_record list \<Rightarrow> exc + symbol list" where
  "position_scan_universe db today held =
     rbind (ud_master db) (\<lambda>master.
     let large = large_caps 500000000000 master in if large = [] then Inr [] else
     rbind (ud_daily db) (\<lambda>daily.
     let ls = liquid db (recent_rows today large daily) in if ls = [] then Inr [] else
     rbind held (\<lambda>ps. Inr (not_held ps ls))))"

section \<open>Entry conditions\<close>

definition pairs_of :: "Patterns.series \<Rightarrow> Patterns.series \<Rightarrow> (rat \<times> rat) list" where
  "pairs_of xs ys = List.map_filter (\<lambda>(x, y). case (x, y) of (Some a, Some b) \<Rightarrow> Some (a, b) | _ \<Rightarrow> None) (zip xs ys)"

definition rsi_rebound :: "ta_lib \<Rightarrow> Patterns.series \<Rightarrow> bool" where
  "rsi_rebound ta close = (case last_two (dropna (ta_rsi ta 14 close)) of
     Some (prev_rsi, curr_rsi) \<Rightarrow> prev_rsi < 30 \<and> 30 \<le> curr_rsi | None \<Rightarrow> False)"

definition macd_golden_cross :: "ta_lib \<Rightarrow> Patterns.series \<Rightarrow> bool" where
  "macd_golden_cross ta close = (case ta_macd ta close of (macd_line, macd_signal, _) \<Rightarrow>
     case last_two (pairs_of macd_line macd_signal) of
       Some ((prev_macd, prev_signal), (curr_macd, curr_signal)) \<Rightarrow> prev_macd < prev_signal \<and> curr_signal \<le> curr_macd
     | None \<Rightarrow> False)"

definition bb_rebound :: "ta_lib \<Rightarrow> Patterns.series \<Rightarrow> bool" where
  "bb_rebound ta close = (case ta_bollinger ta 20 close of (_, _, bb_lower) \<Rightarrow>
     case last_two (pairs_of close bb_lower) of
       Some ((prev_close, prev_lower), (curr_close, curr_lower)) \<Rightarrow> prev_close \<le> prev_lower \<and> curr_lower < curr_close
     | None \<Rightarrow> False)"

definition check_technical_conditions :: "ta_lib \<Rightarrow> ohlcv list \<Rightarrow> nat \<times> string list" where
  "check_technical_conditions ta bars =
     (let close = map (\<lambda>b. Some (k_close b)) bars;
          names = (if rsi_rebound ta close then [''RSI''] else []) @ (if macd_golden_cross ta close then [''MACD''] else [])
            @ (if bb_rebound ta close then [''BB''] else [])
      in (length names, names))"

text \<open>\<open>sma20.iloc[-1] <= sma60.iloc[-1]\<close> is false when one of them is NaN, and the entry goes on.\<close>

definition downtrend :: "ta_lib \<Rightarrow> ohlcv list \<Rightarrow> bool" where
  "downtrend ta bars = (let close = map (\<lambda>b. Some (k_close b)) bars in
     case (last (ta_sma ta 20 close), last (ta_sma ta 60 close)) of (Some a, Some b) \<Rightarrow> a \<le> b | _ \<Rightarrow> False)"

section \<open>Signals\<close>

text \<open>
  What the strategy asks while it works: the portfolio state at the start, the state the risk
  manager reads for the n-th decision, bars and sectors.
\<close>

record entry_env =
  ee_settings :: settings
  ee_market :: market_data
  ee_state :: "exc + portfolio_state"
  ee_risk_state :: "nat \<Rightarrow> exc + portfolio_state"
  ee_bars :: bar_source
  ee_sector :: "symbol \<Rightarrow> exc + string option"
  ee_ta :: ta_lib

definition get_sector :: "entry_env \<Rightarrow> symbol \<Rightarrow> exc + string" where
  "get_sector env s = rbind (ee_sector env s) (\<lambda>r. Inr (mapped_sector r))"

text \<open>\<open>{a.symbol: a for a in analyses}\<close>: the last analysis of a symbol.\<close>

definition analysis_map :: "stock_analysis list \<Rightarrow> symbol \<Rightarrow> stock_analysis option" where
  "analysis_map as s = find (\<lambda>a. sa_symbol a = s) (rev as)"

text \<open>\<open>decision.price or analysis.current_price\<close>: a price of 0 counts as none.\<close>

definition entry_price_of :: "trade_decision \<Rightarrow> stock_analysis \<Rightarrow> dec option" where
  "entry_price_of d a = (case td_price d of Some p \<Rightarrow> if p = 0 then sa_current_price a else Some p | None \<Rightarrow> sa_current_price a)"

definition positive_price :: "dec option \<Rightarrow> dec option" where
  "positive_price p = (case p of Some x \<Rightarrow> if x \<le> 0 then None else Some x | None \<Rightarrow> None)"

definition signal_of_entry :: "trade_decision \<Rightarrow> stock_analysis \<Rightarrow> dec \<Rightarrow> dec \<Rightarrow> dec \<Rightarrow> int \<Rightarrow> signal" where
  "signal_of_entry d a entry stop tp q = \<lparr>sg_symbol = td_symbol d, sg_action = Sig_BUY, sg_confidence = sa_confidence a,
     sg_target_price = Some tp, sg_stop_loss_price = Some stop, sg_quantity = q, sg_position_value_krw = dmul entry (of_int q)\<rparr>"

text \<open>The last steps, common to both strategies: sizing, sector, risk check, signal.\<close>

definition size_and_check ::
  "entry_env \<Rightarrow> nat \<Rightarrow> portfolio_state \<Rightarrow> trade_decision \<Rightarrow> stock_analysis \<Rightarrow> dec \<Rightarrow> dec \<times> dec \<Rightarrow> exc + signal option" where
  "size_and_check env i ps d a entry exits = (case exits of (stop, tp) \<Rightarrow>
     rbind (sizing_calculate (mk_sizer (ee_settings env)) (td_symbol d) entry stop (Some tp) (ps_total_value ps) 0) (\<lambda>sz.
     if sz_quantity sz \<le> 0 then Inr None else
     rbind (get_sector env (td_symbol d)) (\<lambda>sector.
     rbind (risk_check (ee_settings env) (ee_market env) (ee_risk_state env i) (td_symbol d) Sig_BUY (sz_quantity sz) entry
              (Some stop) sector) (\<lambda>rk.
     if \<not> rk_passed rk \<or> rk_adjusted_quantity rk \<le> 0 then Inr None
     else Inr (Some (signal_of_entry d a entry stop tp (rk_adjusted_quantity rk)))))))"

definition swing_buy ::
  "entry_env \<Rightarrow> portfolio_state \<Rightarrow> stock_analysis list \<Rightarrow> nat \<times> trade_decision \<Rightarrow> exc + signal option" where
  "swing_buy env ps as nd = (case nd of (i, d) \<Rightarrow>
     if td_action d \<noteq> Act_BUY then Inr None else
     case analysis_map as (td_symbol d) of None \<Rightarrow> Inr None | Some a \<Rightarrow>
     if sa_confidence a < 1 / 2 then Inr None else
     rbind (ee_bars env (td_symbol d) 60) (\<lambda>bars.
     if length bars < 30 then Inr None else
     if fst (check_technical_conditions (ee_ta env) bars) < 2 then Inr None else
     case positive_price (entry_price_of d a) of None \<Rightarrow> Inr None | Some entry \<Rightarrow>
     rbind (fixed_percentage entry 3 5) (size_and_check env i ps d a entry)))"

definition position_buy ::
  "entry_env \<Rightarrow> portfolio_state \<Rightarrow> stock_analysis list \<Rightarrow> nat \<times> trade_decision \<Rightarrow> exc + signal option" where
  "position_buy env ps as nd = (case nd of (i, d) \<Rightarrow>
     if td_action d \<noteq> Act_BUY then Inr None else
     case analysis_map as (td_symbol d) of None \<Rightarrow> Inr None | Some a \<Rightarrow>
     if sa_confidence a < 6 / 10 then Inr None else
     if sa_fundamental_score a < 50 then Inr None else
     rbind (ee_bars env (td_symbol d) 120) (\<lambda>bars.
     if length bars < 60 then Inr None else
     if downtrend (ee_ta env) bars then Inr None else
     rbind (calculate_atr bars 14) (\<lambda>atr.
     if atr \<le> 0 then Inr None else
     case positive_price (entry_price_of d a) of None \<Rightarrow> Inr None | Some entry \<Rightarrow>
     rbind (atr_based entry atr 2 3) (size_and_check env i ps d a entry))))"

text \<open>The loop over the decisions has no \<open>try\<close>: what raises ends the batch.\<close>

definition entry_loop :: "(nat \<times> trade_decision \<Rightarrow> exc + signal option) \<Rightarrow> trade_decision list \<Rightarrow> exc + signal list" where
  "entry_loop entry ds = rfold (\<lambda>nd acc. rbind (entry nd) (\<lambda>x. case x of
      Some s \<Rightarrow> Inr (acc @ [s]) | None \<Rightarrow> Inr acc)) (enumerate 0 ds) []"

definition swing_generate_signals :: "entry_env \<Rightarrow> pipeline_result \<Rightarrow> exc + signal list" where
  "swing_generate_signals env p = rbind (ee_state env) (\<lambda>ps. entry_loop (swing_buy env ps (pp_stock_analyses p)) (pp_trade_decisions p))"

definition position_generate_signals :: "entry_env \<Rightarrow> pipeline_result \<Rightarrow> exc + signal list" where
  "position_generate_signals env p = rbind (ee_state env) (\<lambda>ps. entry_loop (position_buy env ps (pp_stock_analyses p)) (pp_trade_decisions p))"

definition strategy_signals :: "entry_env \<Rightarrow> strategy_type \<Rightarrow> pipeline_result \<Rightarrow> exc + signal list" where
  "strategy_signals env st p = (case st of SWING \<Rightarrow> swing_generate_signals env p | POSITION \<Rightarrow> position_generate_signals env p)"

section \<open>POST /api/strategy/run\<close>

definition booking_of :: "strategy_type \<Rightarrow> uuid \<Rightarrow> signal \<Rightarrow> exc + position_args" where
  "booking_of st sid sg =
     rbind (if 0 < sg_quantity sg then rbind (ddiv (sg_position_value_krw sg) (of_int (sg_quantity sg))) (\<lambda>p. Inr (Some p))
            else Inr (sg_stop_loss_price sg)) (\<lambda>entry.
     case entry of None \<Rightarrow> Inl (DatabaseError ''Position create failed'') | Some entry_price \<Rightarrow>
     Inr \<lparr>pa_symbol = sg_symbol sg, pa_strategy_type = strategy_type_value st, pa_quantity = sg_quantity sg,
          pa_entry_price = entry_price,
          pa_stop_loss_price = (case sg_stop_loss_price sg of Some x \<Rightarrow> if x = 0 then entry_price else x | None \<Rightarrow> entry_price),
          pa_take_profit_price = sg_target_price sg,
          pa_trailing_stop_pct = (case st of SWING \<Rightarrow> Some 2 | POSITION \<Rightarrow> None),
          pa_max_holding_days = Some (case st of SWING \<Rightarrow> 10 | POSITION \<Rightarrow> 60),
          pa_entry_session_id = Some sid, pa_account_id = ''default''\<rparr>)"

text \<open>\<open>up n\<close> tells whether the database takes the n-th position of the request.\<close>

fun book_signals :: "(nat \<Rightarrow> bool) \<Rightarrow> date \<Rightarrow> strategy_type \<Rightarrow> uuid \<Rightarrow> nat \<Rightarrow> signal list \<Rightarrow> (position_table, nat) meth" where
  "book_signals up today st sid n [] = mret n"
| "book_signals up today st sid n (sg # sgs) =
     mbind (mlift (\<lambda>_. booking_of st sid sg)) (\<lambda>a. mbind (pm_create (up n) today a) (\<lambda>_. book_signals up today st sid (Suc n) sgs))"

record run_request =
  rr_strategy_type :: strategy_type
  rr_account_id :: string
  rr_symbols :: "symbol list"

text \<open>
  \<open>run_strategy\<close>. The account of the request goes to the analysis and to the services of the strategy;
  \<open>create\<close> is called without it. Every exception becomes the answer 500. \<open>build\<close> is what building the strategy or the analysis raised.
\<close>

datatype run_response = Booked "signal list" nat uuid | Server_error

definition run_strategy ::
  "(nat \<Rightarrow> bool) \<Rightarrow> date \<Rightarrow> (run_request \<Rightarrow> exc + entry_env \<times> pipeline_result) \<Rightarrow> run_request \<Rightarrow> (position_table, run_response) meth" where
  "run_strategy up today analyze req =
     mcatch (mbind (mlift (\<lambda>_. analyze req)) (\<lambda>(env, p).
       mbind (mlift (\<lambda>_. strategy_signals env (rr_strategy_type req) p)) (\<lambda>sgs.
       mbind (book_signals up today (rr_strategy_type req) (pp_session_id p) 0 sgs) (\<lambda>n.
       mret (Booked sgs n (pp_session_id p))))))
     (\<lambda>_. mret Server_error)"

section \<open>Lemmas\<close>















definition calm_state :: portfolio_state where
  "calm_state = sample_state\<lparr>ps_drawdown_pct := 0\<rparr>"

lemma calm_total [simp]: "ps_total_value calm_state = 10000000"
  by (simp add: calm_state_def sample_state_def)

text \<open>Thirty bars, an RSI that leaves the oversold zone and a golden cross; one BUY decision.\<close>

definition sample_ta :: ta_lib where
  "sample_ta = \<lparr>ta_sma = (\<lambda>_ _. []), ta_ema = (\<lambda>_ _. []),
     ta_macd = (\<lambda>_. ([None, Some (- 1), Some 1], [None, Some 0, Some 0], [])), ta_rsi = (\<lambda>_ _. [None, Some 25, Some 35]),
     ta_stoch = (\<lambda>_ _ _. ([], [])), ta_bollinger = (\<lambda>_ _. ([], [], []))\<rparr>"

definition sample_entry_env :: entry_env where
  "sample_entry_env = \<lparr>ee_settings = default_settings, ee_market = no_market_data,
     ee_state = Inr calm_state, ee_risk_state = (\<lambda>_. Inr calm_state),
     ee_bars = (\<lambda>_ _. Inr (replicate 30 (sample_bar 738000 71000 69000 70000))), ee_sector = (\<lambda>_. Inr (Some ''IT'')),
     ee_ta = sample_ta\<rparr>"

definition sample_result :: "trade_decision list \<Rightarrow> pipeline_result" where
  "sample_result ds = \<lparr>pp_account_id = ''second'', pp_session_id = 7, pp_market_condition = None, pp_stock_analyses = [sample_stock],
     pp_risk_assessments = [], pp_trade_decisions = ds, pp_symbols_requested = [''005930''], pp_symbols_analyzed = [''005930''],
     pp_symbols_skipped = [], pp_total_llm_cost_usd = 0, pp_total_llm_calls = 0, pp_errors = [], pp_success = True\<rparr>"

definition sample_buy_signal :: signal where
  "sample_buy_signal = signal_of_entry sample_trade sample_stock 70000 67900 73500 14"

lemma reward_in_range: "\<bar>round_half_up (fix28 (5 / 3) * 100)\<bar> < 10000000000000000000000000000"
proof -
  have "fix28 (5 / 3) \<le> fix28 2" by (rule fix28_mono) simp
  moreover have "fix28 2 = 2" using is_dec_numeral [of "Num.Bit0 Num.One"] by (simp add: is_dec_def)
  ultimately have hi: "fix28 (5 / 3) * 100 \<le> of_int 200" by simp
  have lo: "of_int 0 \<le> fix28 (5 / 3) * 100" using fix28_nonneg [of "5 / 3"] by simp
  have "0 \<le> round_half_up (fix28 (5 / 3) * 100)" "round_half_up (fix28 (5 / 3) * 100) \<le> 200"
    using round_half_up_mono [OF lo] round_half_up_mono [OF hi] by (simp_all only: round_half_up_of_int)
  then show ?thesis by simp
qed

lemma sample_sizing:
  "\<exists>sz. sizing_calculate (mk_sizer default_settings) ''005930'' 70000 67900 (Some 73500) 10000000 0 = Inr sz \<and> sz_quantity sz = 14"
  by (simp add: sizing_calculate_def validate_sizing_def sized_qty_def raw_qty_def cap_from_pct_def cap_from_krw_def
      pct_of_portfolio_def risk_reward_ratio_def mk_sizer_def default_settings_def dquant_def dec_eval reward_in_range)

lemma sample_risk_check:
  "\<exists>rk. risk_check default_settings no_market_data (Inr calm_state) ''005930'' Sig_BUY 14 70000
     (Some 67900) ''IT'' = Inr rk \<and> rk_passed rk \<and> rk_adjusted_quantity rk = 14"
proof -
  have rs: "rule_results default_settings no_market_data calm_state ''005930'' 14 70000 (Some 67900) ''IT''
    = [cap_result False ''RISK_PER_TRADE'' 95, cap_result False ''MAX_POSITION'' 14, no_finding,
       cap_result False ''SECTOR_CONCENTRATION'' 42, no_finding, no_finding, no_finding, no_finding]"
    by (simp add: rule_results_def rule_defs check_correlation_def calm_state_def sample_state_def default_settings_def
        position_limit_def existing_value_def current_symbols_def sector_pct_def block_result_def dec_eval)
  have "violations_of (rule_results default_settings no_market_data calm_state ''005930'' 14 70000 (Some 67900) ''IT'') = []"
    "adjust_quantity (rule_results default_settings no_market_data calm_state ''005930'' 14 70000 (Some 67900) ''IT'') 14 = 14"
    unfolding rs by (simp_all add: violations_of_def adjust_quantity_def has_block_def caps_of_def map_filter_simps)
  then show ?thesis
    using risk_check_buy [of 70000 calm_state default_settings no_market_data "''005930''" 14 "Some 67900" "''IT''"] by auto
qed

lemma sample_swing_entry: "swing_buy sample_entry_env calm_state [sample_stock] (i, sample_trade) = Inr (Some sample_buy_signal)"
proof -
  have f: "fixed_percentage 70000 3 5 = Inr (67900, 73500)" by (simp add: fixed_percentage_def dec_eval)
  have t: "check_technical_conditions sample_ta bars = (2, [''RSI'', ''MACD''])" for bars
    by (simp add: check_technical_conditions_def rsi_rebound_def macd_golden_cross_def bb_rebound_def sample_ta_def pairs_of_def
        dropna_def last_two_def map_filter_simps Let_def)
  obtain sz where sz: "sizing_calculate (mk_sizer default_settings) ''005930'' 70000 67900 (Some 73500) 10000000 0 = Inr sz"
    "sz_quantity sz = 14" using sample_sizing by blast
  obtain rk where rk: "risk_check default_settings no_market_data (Inr calm_state) ''005930'' Sig_BUY 14
     70000 (Some 67900) ''IT'' = Inr rk" "rk_passed rk" "rk_adjusted_quantity rk = 14" using sample_risk_check by blast
  have "size_and_check sample_entry_env i calm_state sample_trade sample_stock 70000 (67900, 73500)
    = Inr (Some sample_buy_signal)"
    by (simp add: size_and_check_def sample_entry_env_def sample_trade_def sz rk get_sector_def
        mapped_sector_def sample_buy_signal_def)
  then show ?thesis
    by (simp add: swing_buy_def f t analysis_map_def sample_entry_env_def sample_stock_def sample_trade_def
        entry_price_of_def positive_price_def)
qed

lemma sample_generate_one: "strategy_signals sample_entry_env SWING (sample_result [sample_trade]) = Inr [sample_buy_signal]"
proof -
  have "ee_state sample_entry_env = Inr calm_state" by (simp add: sample_entry_env_def)
  then show ?thesis
    by (simp add: strategy_signals_def swing_generate_signals_def entry_loop_def sample_result_def sample_swing_entry)
qed


section \<open>Batches\<close>

lemma entry_loop_shift:
  assumes "\<And>i j d. entry (i, d) = entry (j, d)"
  shows "rfold (\<lambda>nd acc. rbind (entry nd) (\<lambda>x. case x of Some s \<Rightarrow> Inr (acc @ [s]) | None \<Rightarrow> Inr acc)) (enumerate n ds) acc
    = rbind (entry_loop entry ds) (\<lambda>xs. Inr (acc @ xs))"
proof -
  have "rfold (\<lambda>nd acc. rbind (entry nd) (\<lambda>x. case x of Some s \<Rightarrow> Inr (acc @ [s]) | None \<Rightarrow> Inr acc)) (enumerate n ds) acc
    = rbind (rfold (\<lambda>nd acc. rbind (entry nd) (\<lambda>x. case x of Some s \<Rightarrow> Inr (acc @ [s]) | None \<Rightarrow> Inr acc)) (enumerate m ds) [])
        (\<lambda>xs. Inr (acc @ xs))" for m
  proof (induction ds arbitrary: n m acc)
    case (Cons d ds)
    show ?case
    proof (cases "entry (m, d)")
      case (Inr x)
      then have n: "entry (n, d) = Inr x" using assms [of n d m] by simp
      show ?thesis
      proof (cases x)
        case (Some s)
        show ?thesis using Cons.IH [of "Suc n" "acc @ [s]" "Suc m"] Cons.IH [of "Suc m" "[s]" "Suc m"]
          by (cases "rfold (\<lambda>nd acc. rbind (entry nd) (\<lambda>x. case x of Some s \<Rightarrow> Inr (acc @ [s]) | None \<Rightarrow> Inr acc)) (enumerate (Suc m) ds) []")
            (simp_all add: Inr n Some)
      qed (use Cons.IH [of "Suc n" acc "Suc m"] in \<open>simp add: Inr n\<close>)
    qed (use assms [of n d m] in simp)
  qed simp
  then show ?thesis unfolding entry_loop_def .
qed

lemma entry_loop_append:
  assumes "\<And>i j d. entry (i, d) = entry (j, d)"
  shows "entry_loop entry (ds @ es) = rbind (entry_loop entry ds) (\<lambda>xs. rbind (entry_loop entry es) (\<lambda>ys. Inr (xs @ ys)))"
proof -
  note shift = entry_loop_shift [where entry = entry, OF assms]
  have "entry_loop entry (ds @ es) = rbind (entry_loop entry ds) (\<lambda>xs. rfold (\<lambda>nd acc. rbind (entry nd) (\<lambda>x. case x of
      Some s \<Rightarrow> Inr (acc @ [s]) | None \<Rightarrow> Inr acc)) (enumerate (length ds) es) xs)"
    unfolding entry_loop_def enumerate_append_eq rfold_append by simp
  then show ?thesis unfolding shift .
qed

lemma entry_index:
  assumes "\<And>i j. ee_risk_state env i = ee_risk_state env j"
  shows "swing_buy env ps as (i, d) = swing_buy env ps as (j, d)"
    and "position_buy env ps as (i, d) = position_buy env ps as (j, d)"
proof -
  have "size_and_check env i = size_and_check env j" unfolding size_and_check_def assms [of i j] ..
  then show "swing_buy env ps as (i, d) = swing_buy env ps as (j, d)"
    "position_buy env ps as (i, d) = position_buy env ps as (j, d)"
    unfolding swing_buy_def position_buy_def prod.case by (simp_all only:)
qed

text \<open>
  Generate_signals judges a batch one decision at a time: as long as the portfolio it reads does not
  change, the signals of a batch are those of its two halves put together, so no limit (position size, number of holdings, sector,
  trades per day) ever counts the other signals of the same batch.
\<close>

theorem batch_is_union:
  assumes "\<And>i j. ee_risk_state env i = ee_risk_state env j" "pp_trade_decisions p = ds @ es"
  shows "strategy_signals env st p = rbind (strategy_signals env st (p\<lparr>pp_trade_decisions := ds\<rparr>)) (\<lambda>xs.
    rbind (strategy_signals env st (p\<lparr>pp_trade_decisions := es\<rparr>)) (\<lambda>ys. Inr (xs @ ys)))"
proof (cases "ee_state env")
  case (Inr ps)
  show ?thesis
    unfolding strategy_signals_def swing_generate_signals_def position_generate_signals_def assms(2) Inr
    using entry_loop_append [of "swing_buy env ps (pp_stock_analyses p)", OF entry_index(1) [OF assms(1)]]
      entry_loop_append [of "position_buy env ps (pp_stock_analyses p)", OF entry_index(2) [OF assms(1)]]
    by (cases st) simp_all
qed (cases st; simp add: strategy_signals_def swing_generate_signals_def position_generate_signals_def)

theorem batch_is_union_witness:
  "strategy_signals sample_entry_env SWING (sample_result [sample_trade, sample_trade]) = Inr [sample_buy_signal, sample_buy_signal]
   \<and> sg_symbol sample_buy_signal = ''005930''
   \<and> of_int (MAX_POSITION_SIZE_KRW default_settings) < sg_position_value_krw sample_buy_signal + sg_position_value_krw sample_buy_signal"
proof -
  have upd: "sample_result ds\<lparr>pp_trade_decisions := es\<rparr> = sample_result es" for ds es by (simp add: sample_result_def)
  have "strategy_signals sample_entry_env SWING (sample_result [sample_trade, sample_trade]) = Inr [sample_buy_signal, sample_buy_signal]"
    using batch_is_union [of sample_entry_env "sample_result [sample_trade, sample_trade]" "[sample_trade]" "[sample_trade]" SWING]
    by (simp add: upd sample_generate_one) (simp add: sample_entry_env_def sample_result_def)
  then show ?thesis by (simp add: sample_buy_signal_def signal_of_entry_def sample_trade_def default_settings_def dec_eval)
qed

section \<open>The booked positions\<close>

definition booked_row :: "strategy_type \<Rightarrow> uuid \<Rightarrow> signal \<Rightarrow> position_record \<Rightarrow> bool" where
  "booked_row st sid sg row \<longleftrightarrow> pr_symbol row = sg_symbol sg \<and> pr_quantity row = sg_quantity sg \<and> pr_status row = ''open''
     \<and> pr_account_id row = ''default'' \<and> pr_strategy_type row = strategy_type_value st \<and> pr_entry_session_id row = Some sid"

lemma booking_of_row:
  assumes "booking_of st sid sg = Inr a" shows "booked_row st sid sg (new_record today a i)"
proof -
  obtain entry where "(if 0 < sg_quantity sg then rbind (ddiv (sg_position_value_krw sg) (of_int (sg_quantity sg))) (\<lambda>p. Inr (Some p))
      else Inr (sg_stop_loss_price sg)) = Inr entry"
    and a: "(case entry of None \<Rightarrow> Inl (DatabaseError ''Position create failed'') | Some entry_price \<Rightarrow>
     Inr \<lparr>pa_symbol = sg_symbol sg, pa_strategy_type = strategy_type_value st, pa_quantity = sg_quantity sg,
          pa_entry_price = entry_price,
          pa_stop_loss_price = (case sg_stop_loss_price sg of Some x \<Rightarrow> if x = 0 then entry_price else x | None \<Rightarrow> entry_price),
          pa_take_profit_price = sg_target_price sg,
          pa_trailing_stop_pct = (case st of SWING \<Rightarrow> Some 2 | POSITION \<Rightarrow> None),
          pa_max_holding_days = Some (case st of SWING \<Rightarrow> 10 | POSITION \<Rightarrow> 60),
          pa_entry_session_id = Some sid, pa_account_id = ''default''\<rparr>) = Inr a"
    using assms unfolding booking_of_def rbind_eq_Inr by blast
  show ?thesis
  proof (cases entry)
    case None
    with a show ?thesis by simp
  next
    case (Some e)
    from a [unfolded Some option.case sum.inject] show ?thesis by (auto simp: booked_row_def new_record_def)
  qed
qed

lemma book_signals_rows:
  assumes "book_signals up today st sid n sgs t = (r, t')"
  shows "\<exists>new k. pt_rows t' = pt_rows t @ new \<and> k \<le> length sgs \<and> list_all2 (booked_row st sid) (take k sgs) new
    \<and> (case r of Inr m \<Rightarrow> k = length sgs \<and> m = n + k | Inl e \<Rightarrow> k < length sgs)"
  using assms
proof (induction sgs arbitrary: n t)
  case (Cons sg sgs)
  show ?case
  proof (cases "booking_of st sid sg")
    case (Inl e)
    then have "r = Inl e" "t' = t" using Cons.prems by (simp_all add: mbind_def mlift_def)
    then show ?thesis by (intro exI [of _ "[]"] exI [of _ 0]) simp
  next
    case (Inr a)
    show ?thesis
    proof (cases "up n")
      case True
      define t1 where "t1 = t\<lparr>pt_rows := pt_rows t @ [new_record today a (pt_next_id t)], pt_next_id := pt_next_id t + 1\<rparr>"
      have "book_signals up today st sid (Suc n) sgs t1 = (r, t')"
        using Cons.prems by (simp add: mbind_def mlift_def Inr True pm_create_def Let_def t1_def)
      from Cons.IH [OF this] obtain new k where IH: "pt_rows t' = pt_rows t1 @ new" "k \<le> length sgs"
        "list_all2 (booked_row st sid) (take k sgs) new" "case r of Inr m \<Rightarrow> k = length sgs \<and> m = Suc n + k | Inl e \<Rightarrow> k < length sgs" by blast
      then show ?thesis
        by (intro exI [of _ "new_record today a (pt_next_id t) # new"] exI [of _ "Suc k"])
          (auto simp: t1_def booking_of_row [OF Inr] split: sum.splits)
    next
      case False
      then have "\<exists>e. r = Inl e \<and> t' = t" using Cons.prems by (auto simp: mbind_def mlift_def Inr pm_create_def)
      then show ?thesis by (intro exI [of _ "[]"] exI [of _ 0]) auto
    qed
  qed
qed (auto simp: mret_def)

text \<open>
  POST /api/strategy/run: it never raises and it only appends rows to the positions table. Every row it adds is an open
  position of the account "default", whatever account the request named, for a signal
  of the batch and the signal's quantity, and the answer reports one position per signal; after the answer 500 the rows added before
  the error are still there. No order is involved.
\<close>

theorem run_strategy_books:
  assumes "run_strategy up today analyze req t = (r, t')"
  shows "\<exists>resp new. r = Inr resp \<and> pt_rows t' = pt_rows t @ new \<and> (\<forall>row \<in> set new. pr_account_id row = ''default'' \<and> pr_status row = ''open'')
    \<and> (case resp of
         Booked sgs n sid \<Rightarrow> n = length sgs
           \<and> (\<exists>env p. analyze req = Inr (env, p) \<and> sid = pp_session_id p \<and> strategy_signals env (rr_strategy_type req) p = Inr sgs)
           \<and> list_all2 (booked_row (rr_strategy_type req) sid) sgs new
       | Server_error \<Rightarrow> new = [] \<or> (\<exists>env p sgs k. analyze req = Inr (env, p) \<and> strategy_signals env (rr_strategy_type req) p = Inr sgs
           \<and> k < length sgs \<and> list_all2 (booked_row (rr_strategy_type req) (pp_session_id p)) (take k sgs) new))"
proof (cases "analyze req")
  case (Inl e)
  then show ?thesis using assms by (auto simp: run_strategy_def mcatch_def mbind_def mlift_def mret_def)
next
  case (Inr ep)
  then obtain env p where ep: "analyze req = Inr (env, p)" by (cases ep) simp
  show ?thesis
  proof (cases "strategy_signals env (rr_strategy_type req) p")
    case (Inl e)
    then show ?thesis using assms ep by (auto simp: run_strategy_def mcatch_def mbind_def mlift_def mret_def)
  next
    case (Inr sgs)
    define b where "b = book_signals up today (rr_strategy_type req) (pp_session_id p) 0 sgs t"
    obtain br t2 where b2: "b = (br, t2)" by (cases b)
    from book_signals_rows [OF b2 [unfolded b_def]] obtain new k where rows: "pt_rows t2 = pt_rows t @ new" "k \<le> length sgs"
      "list_all2 (booked_row (rr_strategy_type req) (pp_session_id p)) (take k sgs) new"
      "case br of Inr m \<Rightarrow> k = length sgs \<and> m = 0 + k | Inl e \<Rightarrow> k < length sgs" by blast
    have acc: "\<forall>row \<in> set new. pr_account_id row = ''default'' \<and> pr_status row = ''open''"
      using rows(3) by (induction rule: list_all2_induct) (auto simp: booked_row_def)
    show ?thesis
    proof (cases br)
      case (Inr m)
      then have "r = Inr (Booked sgs m (pp_session_id p))" "t' = t2"
        using assms ep \<open>strategy_signals _ _ _ = _\<close> b2 unfolding b_def
        by (simp_all add: run_strategy_def mcatch_def mbind_def mlift_def mret_def)
      then show ?thesis using rows acc Inr ep \<open>strategy_signals _ _ _ = _\<close> by auto
    next
      case (Inl e)
      then have "r = Inr Server_error" "t' = t2"
        using assms ep \<open>strategy_signals _ _ _ = _\<close> b2 unfolding b_def
        by (simp_all add: run_strategy_def mcatch_def mbind_def mlift_def mret_def)
      then show ?thesis using rows acc Inl ep \<open>strategy_signals _ _ _ = _\<close> by auto
    qed
  qed
qed

end
