(* ===== verification/Approval_Race.thy ===== *)
theory Approval_Race
  imports Approval_Properties
begin

text \<open>
  A manual approval request as \<open>src/execution/approval.py\<close> runs it on the event loop: the coroutine that asks, waits
  and handles the timeout, and the callbacks of the users' taps, which write the tables, the cache and the message
  before they set the result and the event. Every await is a point where the others may run, so a step below is what
  happens between two awaits. \<open>Approval\<close> runs each callback to its end before the next; the executor is
  composed with that sequential form, this theory says what holds of every interleaving.
\<close>

section \<open>The coroutines as lists of steps\<close>

primrec run_all :: "('s, unit) meth list \<Rightarrow> ('s, unit) meth" where
  "run_all [] = mret ()"
| "run_all (m # ms) = mbind m (\<lambda>_. run_all ms)"

text \<open>\<open>_handle_manual_approve\<close> up to the waiting; a callback that comes before the last step finds no pending request.\<close>

definition prepare_steps :: "approval_env \<Rightarrow> approval_args \<Rightarrow> uuid \<Rightarrow> int \<Rightarrow> ('b world, unit) meth list" where
  "prepare_steps ap a rid now = (let timeout = HUMAN_APPROVAL_TIMEOUT_SEC (ap_settings ap) in
    [ext (ap_faults ap) (effect (add_approval rid (aa_order_id a) (aa_account_id a) Req_Pending now None (now + timeout))),
     ext (ap_faults ap) (effect (cache_status (aa_account_id a) rid Req_Pending (timeout + 60))),
     send_message (ap_faults ap) (Request_Message rid (td_symbol (aa_decision a))
        (action_side (td_action (aa_decision a))) (td_quantity (aa_decision a)) (td_value (aa_decision a))),
     (case ap_message_id ap rid of None \<Rightarrow> mret ()
        | Some i \<Rightarrow> ext (ap_faults ap) (effect (set_approval rid (\<lambda>r. r\<lparr>ar_telegram_message_id := Some i\<rparr>)))),
     effect (update_manager (register_request rid (ap_message_id ap rid) (aa_account_id a)))])"

text \<open>\<open>_handle_timeout\<close>.\<close>

definition timeout_steps :: "approval_env \<Rightarrow> approval_args \<Rightarrow> uuid \<Rightarrow> ('b world, unit) meth list" where
  "timeout_steps ap a rid =
    [mbind (mget (\<lambda>w. ap_clock ap (w_calls w))) (\<lambda>now. ext (ap_faults ap) (effect (\<lambda>w. set_order_approval (aa_order_id a) App_TIMEOUT None
        (set_approval rid (\<lambda>r. r\<lparr>ar_status := Req_Status App_TIMEOUT, ar_responded_at := Some now\<rparr>) w)))),
     ext (ap_faults ap) (effect (cache_status (aa_account_id a) rid (Req_Status App_TIMEOUT) 60)),
     mbind (mget (\<lambda>w. dict_get (am_message_ids (w_manager w)) rid)) (\<lambda>message_id. case message_id of None \<Rightarrow> mret ()
        | Some i \<Rightarrow> send_message (ap_faults ap) (Update_Message i (Req_Status App_TIMEOUT) None)),
     send_message (ap_faults ap) (Rejection_Message (td_symbol (aa_decision a))
        (action_side (td_action (aa_decision a))) (Approval_Denied App_TIMEOUT)),
     mbind (record_decision (ap_faults ap) (aa_session_id a) Stage_APPROVAL (decision_action_value Act_REJECT)
        (td_symbol (aa_decision a)) None (aa_account_id a)) (\<lambda>_. mret ())]"

lemma mbind_assoc: "mbind (mbind m f) g = mbind m (\<lambda>x. mbind (f x) g)"
  by (rule HOL.ext) (simp add: mbind_def split: prod.split sum.split)

lemma mbind_unit [simp]: "mbind m (\<lambda>_. mret ()) = m" for m :: "('s, unit) meth"
  by (rule HOL.ext) (simp add: mbind_def mret_def split: prod.split sum.split)

lemma mret_bind [simp]: "mbind (mret x) f = f x"
  by (rule HOL.ext) (simp add: mbind_def mret_def)

text \<open>The lists are the handlers of \<open>Approval\<close>, cut at their awaits.\<close>

lemma handle_timeout_steps: "handle_timeout ap a rid = run_all (timeout_steps ap a rid)"
  by (simp add: handle_timeout_def timeout_steps_def mbind_assoc)

lemma handle_manual_steps:
  "handle_manual_approve ap a rid now = mbind (run_all (prepare_steps ap a rid now)) (\<lambda>_.
     mbind (wait_for_response ap rid (ap_events ap rid)) (\<lambda>status.
     mbind (if status = App_TIMEOUT then run_all (timeout_steps ap a rid) else mret ()) (\<lambda>_.
     mbind (effect (update_manager (forget_request rid))) (\<lambda>_. mret status))))"
  by (simp add: handle_manual_approve_def prepare_steps_def Let_def mbind_assoc handle_timeout_steps cong: if_cong)

section \<open>States and steps\<close>

datatype handler_phase = In_Db | In_Cache | In_Message | In_Signal

datatype 'b waiter =
    Preparing "('b world, unit) meth list"
  | Waits
  | Timing_Out "('b world, unit) meth list"
  | Returned approval_status
  | Request_Failed exc

text \<open>\<open>rc_taps\<close> are the taps that found their request pending and could be read; \<open>rc_timed_out\<close> says that the timeout came.\<close>

record 'b race =
  rc_world :: "'b world"
  rc_handlers :: "(uuid \<times> (approval_status \<times> int option) \<times> handler_phase) list"
  rc_waiter :: "'b waiter"
  rc_taps :: "(uuid \<times> string) list"
  rc_timed_out :: bool

definition own_entries :: "uuid \<Rightarrow> 'b world \<Rightarrow> bool option \<times> approval_status option \<times> int option" where
  "own_entries rid w = (dict_get (am_events (w_manager w)) rid, dict_get (am_results (w_manager w)) rid, dict_get (am_modified (w_manager w)) rid)"

text \<open>
  The steps while request \<open>rid\<close> runs. \<open>Elsewhere\<close> is any other code of the program: it may change everything but
  the manager's entries of this request. The timeout may come at any time, even when the event is already set.
\<close>

inductive race_step :: "approval_env \<Rightarrow> approval_args \<Rightarrow> uuid \<Rightarrow> 'b race \<Rightarrow> 'b race \<Rightarrow> bool"
  for ap a rid where
  Tap: "dict_get (am_events (w_manager (rc_world s))) r \<noteq> None \<Longrightarrow> parse_action action = Some d \<Longrightarrow>
    race_step ap a rid s (s\<lparr>rc_handlers := rc_handlers s @ [(r, d, In_Db)], rc_taps := rc_taps s @ [(r, action)]\<rparr>)"
| Handler_Db: "rc_handlers s = hs @ (r, d, In_Db) # hs' \<Longrightarrow> callback_db ap r (fst d) (snd d) (rc_world s) = (x, w) \<Longrightarrow>
    race_step ap a rid s (s\<lparr>rc_world := w, rc_handlers := hs @ (r, d, In_Cache) # hs'\<rparr>)"
| Handler_Cache: "rc_handlers s = hs @ (r, d, In_Cache) # hs' \<Longrightarrow> callback_cache ap r (fst d) (rc_world s) = (x, w) \<Longrightarrow>
    race_step ap a rid s (s\<lparr>rc_world := w, rc_handlers := hs @ (r, d, In_Message) # hs'\<rparr>)"
| Handler_Message: "rc_handlers s = hs @ (r, d, In_Message) # hs' \<Longrightarrow> callback_message ap r (fst d) (snd d) (rc_world s) = (x, w) \<Longrightarrow>
    race_step ap a rid s (s\<lparr>rc_world := w, rc_handlers := hs @ (r, d, In_Signal) # hs'\<rparr>)"
| Handler_Signal: "rc_handlers s = hs @ (r, d, In_Signal) # hs' \<Longrightarrow> callback_signal r (fst d) (snd d) (rc_world s) = (y, w) \<Longrightarrow>
    race_step ap a rid s (s\<lparr>rc_world := w, rc_handlers := hs @ hs'\<rparr>)"
| Api: "respond_to_approval ap action mq r (rc_world s) = (z, w) \<Longrightarrow> race_step ap a rid s (s\<lparr>rc_world := w\<rparr>)"
| Elsewhere: "own_entries rid w = own_entries rid (rc_world s) \<Longrightarrow> race_step ap a rid s (s\<lparr>rc_world := w\<rparr>)"
| Prepare: "rc_waiter s = Preparing (m # ms) \<Longrightarrow> m (rc_world s) = (Inr (), w) \<Longrightarrow>
    race_step ap a rid s (s\<lparr>rc_world := w, rc_waiter := Preparing ms\<rparr>)"
| Prepare_Fails: "rc_waiter s = Preparing (m # ms) \<Longrightarrow> m (rc_world s) = (Inl e, w) \<Longrightarrow>
    race_step ap a rid s (s\<lparr>rc_world := w, rc_waiter := Request_Failed e\<rparr>)"
| Start_Waiting: "rc_waiter s = Preparing [] \<Longrightarrow> race_step ap a rid s (s\<lparr>rc_waiter := Waits\<rparr>)"
| Resume: "rc_waiter s = Waits \<Longrightarrow> is_signalled rid (rc_world s) \<Longrightarrow>
    race_step ap a rid s (s\<lparr>rc_world := update_manager (forget_request rid) (rc_world s), rc_waiter := Returned (result_of rid (rc_world s))\<rparr>)"
| Time_Out: "rc_waiter s = Waits \<Longrightarrow> race_step ap a rid s (s\<lparr>rc_waiter := Timing_Out (timeout_steps ap a rid), rc_timed_out := True\<rparr>)"
| Timeout_Step: "rc_waiter s = Timing_Out (m # ms) \<Longrightarrow> m (rc_world s) = (Inr (), w) \<Longrightarrow>
    race_step ap a rid s (s\<lparr>rc_world := w, rc_waiter := Timing_Out ms\<rparr>)"
| Timeout_Fails: "rc_waiter s = Timing_Out (m # ms) \<Longrightarrow> m (rc_world s) = (Inl e, w) \<Longrightarrow>
    race_step ap a rid s (s\<lparr>rc_world := w, rc_waiter := Request_Failed e\<rparr>)"
| Timeout_Done: "rc_waiter s = Timing_Out [] \<Longrightarrow>
    race_step ap a rid s (s\<lparr>rc_world := update_manager (forget_request rid) (rc_world s), rc_waiter := Returned App_TIMEOUT\<rparr>)"

definition race_start :: "approval_env \<Rightarrow> approval_args \<Rightarrow> uuid \<Rightarrow> int \<Rightarrow> 'b world \<Rightarrow> 'b race" where
  "race_start ap a rid now w = \<lparr>rc_world = w, rc_handlers = [], rc_waiter = Preparing (prepare_steps ap a rid now), rc_taps = [], rc_timed_out = False\<rparr>"

section \<open>What holds of every interleaving\<close>

definition tapped :: "uuid \<Rightarrow> 'b race \<Rightarrow> approval_status \<times> int option \<Rightarrow> bool" where
  "tapped rid s d \<longleftrightarrow> (\<exists>action. (rid, action) \<in> set (rc_taps s) \<and> parse_action action = Some d)"

definition entries_ok :: "uuid \<Rightarrow> (approval_status \<times> int option \<Rightarrow> bool) \<Rightarrow> 'b world \<Rightarrow> bool" where
  "entries_ok rid T w \<longleftrightarrow> (case own_entries rid w of (event, res, modified) \<Rightarrow>
     (\<forall>x. res = Some x \<longrightarrow> (\<exists>q. T (x, q))) \<and> (\<forall>q. modified = Some q \<longrightarrow> (\<exists>x. T (x, Some q))) \<and> (event = Some True \<longrightarrow> res \<noteq> None))"

fun waiter_ok :: "approval_env \<Rightarrow> approval_args \<Rightarrow> uuid \<Rightarrow> int \<Rightarrow> (approval_status \<times> int option \<Rightarrow> bool) \<Rightarrow> 'b world \<Rightarrow> bool \<Rightarrow> 'b waiter \<Rightarrow> bool" where
  "waiter_ok ap a rid now T w late (Preparing ms) \<longleftrightarrow> \<not> late \<and> set ms \<subseteq> set (prepare_steps ap a rid now)"
| "waiter_ok ap a rid now T w late Waits \<longleftrightarrow> \<not> late"
| "waiter_ok ap a rid now T w late (Timing_Out ms) \<longleftrightarrow> late \<and> set ms \<subseteq> set (timeout_steps ap a rid)"
| "waiter_ok ap a rid now T w late (Returned st) \<longleftrightarrow> dict_get (am_events (w_manager w)) rid = None
     \<and> (if late then st = App_TIMEOUT else \<exists>q. T (st, q))"
| "waiter_ok ap a rid now T w late (Request_Failed e) \<longleftrightarrow> True"

definition race_ok :: "approval_env \<Rightarrow> approval_args \<Rightarrow> uuid \<Rightarrow> int \<Rightarrow> 'b race \<Rightarrow> bool" where
  "race_ok ap a rid now s \<longleftrightarrow> entries_ok rid (tapped rid s) (rc_world s)
     \<and> (\<forall>d p. (rid, d, p) \<in> set (rc_handlers s) \<longrightarrow> tapped rid s d)
     \<and> waiter_ok ap a rid now (tapped rid s) (rc_world s) (rc_timed_out s) (rc_waiter s)"

lemma prepare_manager:
  assumes "m \<in> set (prepare_steps ap a rid now)" "m w = (x, w')"
  shows "w_manager w' = w_manager w \<or> w_manager w' = register_request rid (ap_message_id ap rid) (aa_account_id a) (w_manager w)"
proof -
  have "stays w_manager m \<or> m = effect (update_manager (register_request rid (ap_message_id ap rid) (aa_account_id a)))"
  proof (cases "m = effect (update_manager (register_request rid (ap_message_id ap rid) (aa_account_id a)))")
    case False
    with assms(1) show ?thesis unfolding prepare_steps_def Let_def send_message_def
      by (auto intro!: stays_intros simp: approval_effects split: option.splits)
  qed simp
  then show ?thesis
  proof
    assume "stays w_manager m"
    from staysD [OF this assms(2)] show ?thesis ..
  next
    assume "m = effect (update_manager (register_request rid (ap_message_id ap rid) (aa_account_id a)))"
    with assms(2) show ?thesis by (auto simp: effect_def update_manager_def)
  qed
qed

lemma timeout_manager:
  assumes "m \<in> set (timeout_steps ap a rid)" shows "stays w_manager m"
proof -
  have "stays w_manager (record_decision fl ss stg d s par acct)" for fl :: fault_plan and ss stg d s par acct
    unfolding record_decision_def by (intro stays_intros; simp add: stays_def)
  then show ?thesis using assms unfolding timeout_steps_def send_message_def
    by (auto intro!: stays_intros simp: approval_effects split: option.splits)
qed

lemma own_entries_manager: "w_manager w' = w_manager w \<Longrightarrow> own_entries rid w' = own_entries rid w"
  by (simp add: own_entries_def)

lemma entries_ok_same: "own_entries rid w' = own_entries rid w \<Longrightarrow> entries_ok rid T w' = entries_ok rid T w"
  by (simp add: entries_ok_def)

lemma entries_ok_mono: "entries_ok rid T w \<Longrightarrow> (\<And>d. T d \<Longrightarrow> T' d) \<Longrightarrow> entries_ok rid T' w"
  unfolding entries_ok_def case_prod_unfold by blast

lemma waiter_ok_mono:
  "waiter_ok ap a rid now T w late x \<Longrightarrow> (\<And>d. T d \<Longrightarrow> T' d) \<Longrightarrow> own_entries rid w' = own_entries rid w \<Longrightarrow> waiter_ok ap a rid now T' w' late x"
  by (cases x) (auto simp: own_entries_def split: if_splits; blast)+

text \<open>A step that leaves the manager's entries of the request and the waiter alone.\<close>

lemma race_ok_same:
  assumes "race_ok ap a rid now s" "own_entries rid w = own_entries rid (rc_world s)"
    "\<And>d p. (rid, d, p) \<in> set hs \<Longrightarrow> \<exists>p'. (rid, d, p') \<in> set (rc_handlers s)"
  shows "race_ok ap a rid now (s\<lparr>rc_world := w, rc_handlers := hs\<rparr>)"
proof -
  have t: "tapped rid (s\<lparr>rc_world := w, rc_handlers := hs\<rparr>) = tapped rid s" by (intro HOL.ext) (simp add: tapped_def)
  show ?thesis using assms entries_ok_same [OF assms(2)]
      waiter_ok_mono [where T = "tapped rid s" and T' = "tapped rid s" and w = "rc_world s" and w' = w, OF _ _ assms(2)]
    unfolding race_ok_def t by fastforce
qed

lemma callback_manager:
  "callback_db ap r st mq w = (x, w') \<Longrightarrow> w_manager w' = w_manager w"
  "callback_cache ap r st w = (x, w') \<Longrightarrow> w_manager w' = w_manager w"
  "callback_message ap r st mq w = (x, w') \<Longrightarrow> w_manager w' = w_manager w"
  "respond_to_approval ap action q r w = (z, w') \<Longrightarrow> w_manager w' = w_manager w"
  using staysD [OF stays_callback_parts(4)] staysD [OF stays_callback_parts(8)] staysD [OF stays_callback_parts(14)] staysD [OF stays_respond(4)]
  by metis+

lemma signal_entries:
  assumes "callback_signal r st mq w = (x, w')"
  shows "own_entries rid w' = (case own_entries rid w of (event, res, modified) \<Rightarrow>
     if r = rid then (map_option (\<lambda>_. True) event, Some st, case mq of Some q \<Rightarrow> Some q | None \<Rightarrow> modified) else (event, res, modified))"
  using assms by (auto simp: callback_signal_def Let_def update_manager_def own_entries_def dict_simps split: if_splits option.splits)

lemma race_step_ok:
  assumes "race_step ap a rid s t" "race_ok ap a rid now s" shows "race_ok ap a rid now t"
  using assms
proof (cases rule: race_step.cases)
  case (Tap r action d)
  have mono: "tapped rid s x \<Longrightarrow> tapped rid t x" for x using Tap by (auto simp: tapped_def)
  have world: "rc_world t = rc_world s" "rc_timed_out t = rc_timed_out s" "rc_waiter t = rc_waiter s" using Tap by simp_all
  have "tapped rid t d" if "r = rid" using Tap that by (auto simp: tapped_def)
  moreover have "(rid, e, p) \<in> set (rc_handlers s) \<or> r = rid \<and> e = d" if "(rid, e, p) \<in> set (rc_handlers t)" for e p
    using that Tap(1) by auto
  ultimately have "tapped rid t e" if "(rid, e, p) \<in> set (rc_handlers t)" for e p
    using that mono assms(2) unfolding race_ok_def by blast
  moreover have "entries_ok rid (tapped rid t) (rc_world t)"
    using assms(2) mono entries_ok_mono [of rid "tapped rid s" "rc_world s" "tapped rid t"] unfolding race_ok_def world by blast
  moreover have "waiter_ok ap a rid now (tapped rid t) (rc_world t) (rc_timed_out t) (rc_waiter t)"
    using assms(2) mono waiter_ok_mono [where T = "tapped rid s" and T' = "tapped rid t" and w' = "rc_world s" and w = "rc_world s"]
    unfolding race_ok_def world by blast
  ultimately show ?thesis by (auto simp: race_ok_def)
next
  case (Handler_Db hs r d hs' x w)
  show ?thesis unfolding Handler_Db(1)
    by (rule race_ok_same [OF assms(2) own_entries_manager [OF callback_manager(1) [OF Handler_Db(3)]]]) (use Handler_Db(2) in auto)
next
  case (Handler_Cache hs r d hs' x w)
  show ?thesis unfolding Handler_Cache(1)
    by (rule race_ok_same [OF assms(2) own_entries_manager [OF callback_manager(2) [OF Handler_Cache(3)]]]) (use Handler_Cache(2) in auto)
next
  case (Handler_Message hs r d hs' x w)
  show ?thesis unfolding Handler_Message(1)
    by (rule race_ok_same [OF assms(2) own_entries_manager [OF callback_manager(3) [OF Handler_Message(3)]]]) (use Handler_Message(2) in auto)
next
  case (Handler_Signal hs r d hs' y w)
  have tap: "tapped rid t = tapped rid s" using Handler_Signal by (intro HOL.ext) (simp add: tapped_def)
  have "(r, d, In_Signal) \<in> set (rc_handlers s)" using Handler_Signal(2) by simp
  then have d: "tapped rid s d" if "r = rid" using assms(2) that unfolding race_ok_def by blast
  have e: "own_entries rid w = (case own_entries rid (rc_world s) of (event, res, modified) \<Rightarrow>
     if r = rid then (map_option (\<lambda>_. True) event, Some (fst d), case snd d of Some q \<Rightarrow> Some q | None \<Rightarrow> modified) else (event, res, modified))"
    by (rule signal_entries [OF Handler_Signal(3)])
  have "entries_ok rid (tapped rid s) w"
    using assms(2) d unfolding race_ok_def entries_ok_def e
    by (cases "own_entries rid (rc_world s)"; cases d) (auto split: option.splits)
  moreover have "waiter_ok ap a rid now (tapped rid s) w (rc_timed_out s) (rc_waiter s)"
    using assms(2) e by (cases "rc_waiter s") (auto simp: race_ok_def own_entries_def split: if_splits)
  ultimately show ?thesis using assms(2) Handler_Signal(1,2) unfolding race_ok_def tap by auto
next
  case (Api action mq r z w)
  have "race_ok ap a rid now (s\<lparr>rc_world := w, rc_handlers := rc_handlers s\<rparr>)"
    by (rule race_ok_same [OF assms(2) own_entries_manager [OF callback_manager(4) [OF Api(2)]]]) auto
  with Api(1) show ?thesis by simp
next
  case (Elsewhere w)
  have "race_ok ap a rid now (s\<lparr>rc_world := w, rc_handlers := rc_handlers s\<rparr>)"
    by (rule race_ok_same [OF assms(2) Elsewhere(2)]) auto
  with Elsewhere(1) show ?thesis by simp
next
  case (Prepare m ms w)
  have tap: "tapped rid t = tapped rid s" using Prepare by (intro HOL.ext) (simp add: tapped_def)
  have m: "m \<in> set (prepare_steps ap a rid now)" "set ms \<subseteq> set (prepare_steps ap a rid now)" "\<not> rc_timed_out s"
    using assms(2) Prepare(2) by (simp_all add: race_ok_def)
  have "entries_ok rid (tapped rid s) w"
    using assms(2) prepare_manager [OF m(1) Prepare(3)]
    by (auto simp: race_ok_def entries_ok_def own_entries_def register_request_def dict_simps)
  with assms(2) m show ?thesis using Prepare(1) unfolding race_ok_def tap by simp
next
  case (Prepare_Fails m ms e w)
  have tap: "tapped rid t = tapped rid s" using Prepare_Fails by (intro HOL.ext) (simp add: tapped_def)
  have m: "m \<in> set (prepare_steps ap a rid now)" using assms(2) Prepare_Fails(2) by (simp add: race_ok_def)
  have "entries_ok rid (tapped rid s) w"
    using assms(2) prepare_manager [OF m(1) Prepare_Fails(3)]
    by (auto simp: race_ok_def entries_ok_def own_entries_def register_request_def dict_simps)
  with assms(2) show ?thesis using Prepare_Fails(1) unfolding race_ok_def tap by simp
next
  case Start_Waiting
  have "tapped rid t = tapped rid s" using Start_Waiting by (intro HOL.ext) (simp add: tapped_def)
  with assms(2) Start_Waiting show ?thesis by (simp add: race_ok_def)
next
  case Resume
  have tap: "tapped rid t = tapped rid s" using Resume by (intro HOL.ext) (simp add: tapped_def)
  have "entries_ok rid (tapped rid s) (update_manager (forget_request rid) (rc_world s))"
    using assms(2) by (auto simp: race_ok_def entries_ok_def own_entries_def update_manager_def forget_request_def dict_simps)
  moreover have "\<exists>q. tapped rid s (result_of rid (rc_world s), q)"
    using assms(2) Resume(3) by (auto simp: race_ok_def entries_ok_def own_entries_def is_signalled_def result_of_def)
  ultimately show ?thesis using assms(2) Resume(1,2) unfolding race_ok_def tap
    by (simp add: update_manager_def forget_request_def dict_simps)
next
  case Time_Out
  have "tapped rid t = tapped rid s" using Time_Out by (intro HOL.ext) (simp add: tapped_def)
  with assms(2) Time_Out show ?thesis by (simp add: race_ok_def)
next
  case (Timeout_Step m ms w)
  have tap: "tapped rid t = tapped rid s" using Timeout_Step by (intro HOL.ext) (simp add: tapped_def)
  have m: "m \<in> set (timeout_steps ap a rid)" "set ms \<subseteq> set (timeout_steps ap a rid)" "rc_timed_out s"
    using assms(2) Timeout_Step(2) by (simp_all add: race_ok_def)
  have "entries_ok rid (tapped rid s) w"
    using assms(2) entries_ok_same [OF own_entries_manager [OF staysD [OF timeout_manager [OF m(1)] Timeout_Step(3)]]]
    by (simp add: race_ok_def)
  with assms(2) m show ?thesis using Timeout_Step(1) unfolding race_ok_def tap by simp
next
  case (Timeout_Fails m ms e w)
  have tap: "tapped rid t = tapped rid s" using Timeout_Fails by (intro HOL.ext) (simp add: tapped_def)
  have m: "m \<in> set (timeout_steps ap a rid)" using assms(2) Timeout_Fails(2) by (simp add: race_ok_def)
  have "entries_ok rid (tapped rid s) w"
    using assms(2) entries_ok_same [OF own_entries_manager [OF staysD [OF timeout_manager [OF m(1)] Timeout_Fails(3)]]]
    by (simp add: race_ok_def)
  with assms(2) show ?thesis using Timeout_Fails(1) unfolding race_ok_def tap by simp
next
  case Timeout_Done
  have tap: "tapped rid t = tapped rid s" using Timeout_Done by (intro HOL.ext) (simp add: tapped_def)
  have "entries_ok rid (tapped rid s) (update_manager (forget_request rid) (rc_world s))"
    using assms(2) by (auto simp: race_ok_def entries_ok_def own_entries_def update_manager_def forget_request_def dict_simps)
  with assms(2) Timeout_Done(1,2) show ?thesis unfolding race_ok_def tap
    by (simp add: update_manager_def forget_request_def dict_simps)
qed

lemma reachable_ok:
  assumes "(race_step ap a rid)\<^sup>*\<^sup>* (race_start ap a rid now w) t" "own_entries rid w = (None, None, None)"
  shows "race_ok ap a rid now t"
proof -
  have "race_ok ap a rid now (race_start ap a rid now w)"
    using assms(2) by (simp add: race_ok_def race_start_def entries_ok_def)
  with assms(1) show ?thesis by (induction rule: rtranclp_induct) (auto intro: race_step_ok)
qed

section \<open>Without faults the request can always return\<close>

definition returns :: "('s, unit) meth \<Rightarrow> bool" where
  "returns m \<longleftrightarrow> (\<forall>w. \<exists>w'. m w = (Inr (), w'))"

lemma prepare_returns: "ap_faults ap = no_faults \<Longrightarrow> list_all returns (prepare_steps ap a rid now)"
  by (cases "ap_message_id ap rid") (simp_all add: prepare_steps_def Let_def send_message_def effect_def mret_def returns_def)

lemma timeout_returns: "ap_faults ap = no_faults \<Longrightarrow> list_all returns (timeout_steps ap a rid)"
  by (auto simp: timeout_steps_def send_message_def effect_def meth_defs record_decision_def returns_def split: option.split)

text \<open>A waiter takes its steps one after the other, as \<open>run_all\<close> does.\<close>

lemma timing_out_runs:
  assumes "run_all ms w = (Inr (), w')" "rc_waiter s = Timing_Out ms" "rc_world s = w"
  shows "(race_step ap a rid)\<^sup>*\<^sup>* s (s\<lparr>rc_world := w', rc_waiter := Timing_Out []\<rparr>)"
  using assms
proof (induction ms arbitrary: s w)
  case Nil
  then have "s\<lparr>rc_world := w', rc_waiter := Timing_Out []\<rparr> = s" by (simp add: mret_def)
  then show ?case by simp
next
  case (Cons m ms)
  obtain w1 where m: "m w = (Inr (), w1)" "run_all ms w1 = (Inr (), w')" using Cons.prems(1) by (auto simp: mbind_Inr)
  let ?s1 = "s\<lparr>rc_world := w1, rc_waiter := Timing_Out ms\<rparr>"
  have "race_step ap a rid s ?s1" using Timeout_Step [of s m ms w1 ap a rid] Cons.prems(2,3) m(1) by simp
  moreover have "(race_step ap a rid)\<^sup>*\<^sup>* ?s1 (?s1\<lparr>rc_world := w', rc_waiter := Timing_Out []\<rparr>)"
    by (rule Cons.IH [OF m(2)]) simp_all
  ultimately show ?case by (simp add: converse_rtranclp_into_rtranclp)
qed

lemma preparing_runs:
  assumes "run_all ms w = (Inr (), w')" "rc_waiter s = Preparing ms" "rc_world s = w"
  shows "(race_step ap a rid)\<^sup>*\<^sup>* s (s\<lparr>rc_world := w', rc_waiter := Waits\<rparr>)"
  using assms
proof (induction ms arbitrary: s w)
  case Nil
  then have "s\<lparr>rc_world := w', rc_waiter := Waits\<rparr> = s\<lparr>rc_waiter := Waits\<rparr>" by (simp add: mret_def)
  then show ?case using Start_Waiting [of s ap a rid] Nil by auto
next
  case (Cons m ms)
  obtain w1 where m: "m w = (Inr (), w1)" "run_all ms w1 = (Inr (), w')" using Cons.prems(1) by (auto simp: mbind_Inr)
  let ?s1 = "s\<lparr>rc_world := w1, rc_waiter := Preparing ms\<rparr>"
  have "race_step ap a rid s ?s1" using Prepare [of s m ms w1 ap a rid] Cons.prems(2,3) m(1) by simp
  moreover have "(race_step ap a rid)\<^sup>*\<^sup>* ?s1 (?s1\<lparr>rc_world := w', rc_waiter := Waits\<rparr>)"
    by (rule Cons.IH [OF m(2)]) simp_all
  ultimately show ?case by (simp add: converse_rtranclp_into_rtranclp)
qed

lemma run_all_returns: "list_all returns ms \<Longrightarrow> returns (run_all ms)"
proof (induction ms)
  case (Cons m ms)
  then have m: "returns m" "returns (run_all ms)" by simp_all
  show ?case unfolding returns_def
  proof
    fix w
    obtain w1 where 1: "m w = (Inr (), w1)" using m(1) by (auto simp: returns_def)
    obtain w2 where "run_all ms w1 = (Inr (), w2)" using m(2) by (auto simp: returns_def)
    with 1 show "\<exists>w'. run_all (m # ms) w = (Inr (), w')" by (simp add: mbind_def)
  qed
qed (simp add: mret_def returns_def)

lemma timing_out_finishes:
  assumes "run_all ms (rc_world s) = (Inr (), w')" "rc_waiter s = Timing_Out ms"
  shows "(race_step ap a rid)\<^sup>*\<^sup>* s (s\<lparr>rc_world := update_manager (forget_request rid) w', rc_waiter := Returned App_TIMEOUT\<rparr>)"
proof -
  let ?t = "s\<lparr>rc_world := w', rc_waiter := Timing_Out []\<rparr>"
  have "race_step ap a rid ?t (s\<lparr>rc_world := update_manager (forget_request rid) w', rc_waiter := Returned App_TIMEOUT\<rparr>)"
    using Timeout_Done [of ?t ap a rid] by simp
  with timing_out_runs [OF assms refl, of ap a rid] show ?thesis by (rule rtranclp.rtrancl_into_rtrancl)
qed

text \<open>From \<open>Waits\<close> the timeout leads to the end; from \<open>Preparing\<close> the remaining steps lead to \<open>Waits\<close>.\<close>

lemma waits_times_out:
  assumes "run_all (timeout_steps ap a rid) (rc_world s) = (Inr (), w')" "rc_waiter s = Waits"
  shows "(race_step ap a rid)\<^sup>*\<^sup>* s (s\<lparr>rc_timed_out := True, rc_world := update_manager (forget_request rid) w', rc_waiter := Returned App_TIMEOUT\<rparr>)"
proof -
  let ?t = "s\<lparr>rc_waiter := Timing_Out (timeout_steps ap a rid), rc_timed_out := True\<rparr>"
  have "race_step ap a rid s ?t" by (rule Time_Out [OF assms(2)])
  moreover have "(race_step ap a rid)\<^sup>*\<^sup>* ?t (?t\<lparr>rc_world := update_manager (forget_request rid) w', rc_waiter := Returned App_TIMEOUT\<rparr>)"
    by (rule timing_out_finishes) (use assms(1) in simp_all)
  ultimately show ?thesis by (simp add: converse_rtranclp_into_rtranclp)
qed

lemma race_finishes:
  assumes "ap_faults ap = no_faults" "race_ok ap a rid now s" "\<forall>e. rc_waiter s \<noteq> Request_Failed e"
  shows "\<exists>t st. (race_step ap a rid)\<^sup>*\<^sup>* s t \<and> rc_waiter t = Returned st"
proof -
  have out: "\<exists>w'. run_all ms w = (Inr (), w')" if "set ms \<subseteq> set (timeout_steps ap a rid)" for ms and w :: "'a world"
    using run_all_returns [of ms] timeout_returns [OF assms(1), of a rid] that by (auto simp: returns_def list_all_iff)
  have wait: "\<exists>t st. (race_step ap a rid)\<^sup>*\<^sup>* u t \<and> rc_waiter t = Returned st" if "rc_waiter u = Waits" for u :: "'a race"
  proof -
    obtain w' where "run_all (timeout_steps ap a rid) (rc_world u) = (Inr (), w')" using out [of "timeout_steps ap a rid"] by auto
    from waits_times_out [OF this that] show ?thesis by (intro exI conjI) (assumption | simp)+
  qed
  show ?thesis
  proof (cases "rc_waiter s")
    case (Preparing ms)
    then have "list_all returns ms"
      using assms(2) prepare_returns [OF assms(1), of a rid now] by (auto simp: race_ok_def list_all_iff)
    then obtain w' where "run_all ms (rc_world s) = (Inr (), w')" using run_all_returns [of ms] by (auto simp: returns_def)
    note reach = preparing_runs [OF this Preparing refl, of ap a rid]
    obtain t st where "(race_step ap a rid)\<^sup>*\<^sup>* (s\<lparr>rc_world := w', rc_waiter := Waits\<rparr>) t" "rc_waiter t = Returned st"
      using wait [of "s\<lparr>rc_world := w', rc_waiter := Waits\<rparr>"] by auto
    with reach show ?thesis by (metis rtranclp_trans)
  next
    case Waits
    then show ?thesis by (rule wait)
  next
    case (Timing_Out ms)
    with assms(2) obtain w' where "run_all ms (rc_world s) = (Inr (), w')" using out [of ms "rc_world s"] by (auto simp: race_ok_def)
    from timing_out_finishes [OF this Timing_Out, of ap a rid] show ?thesis by (intro exI conjI) (assumption | simp)+
  next
    case (Returned st)
    then show ?thesis by blast
  qed (use assms(3) in blast)
qed

section \<open>A late approval\<close>

text \<open>The user approves, the timeout comes while the callback waits for the database, and the callback writes last.\<close>

lemma late_approval:
  fixes w :: "'b world"
  assumes nf: "ap_faults ap = no_faults" and s: "rc_waiter s = Waits" "rc_handlers s = []" "waiting rid (rc_world s)"
    and row: "request_row rid (aa_order_id a) (rc_world s)"
  shows "\<exists>t. (race_step ap a rid)\<^sup>*\<^sup>* s t \<and> rc_waiter t = Returned App_TIMEOUT \<and> settled rid (aa_order_id a) App_APPROVED (rc_world t)"
proof -
  let ?d = "(App_APPROVED, None :: int option)" and ?i = "aa_order_id a"
  let ?s1 = "s\<lparr>rc_handlers := [(rid, ?d, In_Db)], rc_taps := rc_taps s @ [(rid, ''approve'')]\<rparr>"
  have tap: "race_step ap a rid s ?s1"
  proof -
    have "dict_get (am_events (w_manager (rc_world s))) rid \<noteq> None" using s(3) unfolding waiting_def by simp
    from Tap [OF this, of "''approve''" ?d ap a] s(2) show ?thesis by (simp add: parse_action_def)
  qed
  obtain w2 where w2: "run_all (timeout_steps ap a rid) (rc_world s) = (Inr (), w2)" "settled rid ?i App_TIMEOUT w2"
    using handle_timeout_no_faults [OF nf row] by (auto simp: handle_timeout_steps)
  let ?w3 = "update_manager (forget_request rid) w2"
  let ?s2 = "?s1\<lparr>rc_timed_out := True, rc_world := ?w3, rc_waiter := Returned App_TIMEOUT\<rparr>"
  have out: "(race_step ap a rid)\<^sup>*\<^sup>* ?s1 ?s2"
    by (rule waits_times_out) (use w2 s(1) in simp_all)
  obtain now n where db: "callback_db ap rid App_APPROVED None ?w3 = (Inr (), write_answer now rid App_APPROVED None (?w3\<lparr>w_calls := n\<rparr>))"
    using callback_db_no_faults [OF nf] by blast
  define w4 where "w4 = write_answer now rid App_APPROVED None (?w3\<lparr>w_calls := n\<rparr>)"
  let ?s3 = "?s2\<lparr>rc_world := w4, rc_handlers := [(rid, ?d, In_Cache)]\<rparr>"
  have cb: "race_step ap a rid ?s2 ?s3"
    using Handler_Db [of ?s2 "[]" rid ?d "[]" ap "Inr ()" w4 a rid] db by (simp add: w4_def)
  have "request_row rid ?i (?w3\<lparr>w_calls := n\<rparr>)"
    using w2(2) by (auto simp: settled_def request_row_def find_approval_def update_manager_def)
  then have "settled rid ?i App_APPROVED w4" unfolding w4_def by (rule write_answer_settles)
  moreover have "(race_step ap a rid)\<^sup>*\<^sup>* s ?s3"
  proof (rule converse_rtranclp_into_rtranclp)
    show "race_step ap a rid s ?s1" by (rule tap)
    show "(race_step ap a rid)\<^sup>*\<^sup>* ?s1 ?s3" using out cb by (rule rtranclp.rtrancl_into_rtrancl)
  qed
  moreover have "rc_waiter ?s3 = Returned App_TIMEOUT" "rc_world ?s3 = w4" by simp_all
  ultimately show ?thesis by metis
qed

section \<open>Properties\<close>

text \<open>
  C5: a request that needs its user, from its first database call on, under every interleaving of its coroutine with
  the callbacks of any taps, answers over the API and the rest of the program, whatever calls fail and whenever the
  timeout comes. When it has returned, it is forgotten; after the timeout its status is TIMEOUT, and otherwise it is
  the status of one tap for this request that found it pending, never one from the API or a default. A changed
  quantity is that of such a tap, approving with it. Without faults it can always still return. The first tap does
  not always decide: a tap that found the request pending may lose to the timeout and write the tables last, so
  that the request returns TIMEOUT while its row and its order say approved.
\<close>

theorem request_approval_race:
  fixes w :: "'b world"
  assumes "own_entries rid w = (None, None, None)"
    and "(race_step ap a rid)\<^sup>*\<^sup>* (race_start ap a rid now w) t"
  shows "(\<forall>st. rc_waiter t = Returned st \<longrightarrow> dict_get (am_events (w_manager (rc_world t))) rid = None
        \<and> (if rc_timed_out t then st = App_TIMEOUT
           else \<exists>action q. (rid, action) \<in> set (rc_taps t) \<and> parse_action action = Some (st, q)))
    \<and> (\<forall>q. get_modified_quantity rid (rc_world t) = Some q \<longrightarrow>
         (\<exists>action. (rid, action) \<in> set (rc_taps t) \<and> parse_action action = Some (App_APPROVED, Some q)))
    \<and> (ap_faults ap = no_faults \<and> (\<forall>e. rc_waiter t \<noteq> Request_Failed e) \<longrightarrow>
         (\<exists>u st. (race_step ap a rid)\<^sup>*\<^sup>* t u \<and> rc_waiter u = Returned st))
    \<and> (ap_faults ap = no_faults \<and> rc_waiter t = Waits \<and> rc_handlers t = [] \<and> waiting rid (rc_world t)
        \<and> request_row rid (aa_order_id a) (rc_world t) \<longrightarrow>
         (\<exists>u. (race_step ap a rid)\<^sup>*\<^sup>* t u \<and> rc_waiter u = Returned App_TIMEOUT
            \<and> settled rid (aa_order_id a) App_APPROVED (rc_world u)))"
proof (intro conjI)
  have ok: "race_ok ap a rid now t" by (rule reachable_ok [OF assms(2,1)])
  then show "\<forall>st. rc_waiter t = Returned st \<longrightarrow> dict_get (am_events (w_manager (rc_world t))) rid = None
        \<and> (if rc_timed_out t then st = App_TIMEOUT
           else \<exists>action q. (rid, action) \<in> set (rc_taps t) \<and> parse_action action = Some (st, q))"
    by (auto simp: race_ok_def tapped_def) blast
  show "\<forall>q. get_modified_quantity rid (rc_world t) = Some q \<longrightarrow>
         (\<exists>action. (rid, action) \<in> set (rc_taps t) \<and> parse_action action = Some (App_APPROVED, Some q))"
  proof (intro allI impI)
    fix q assume "get_modified_quantity rid (rc_world t) = Some q"
    with ok obtain x action where x: "(rid, action) \<in> set (rc_taps t)" "parse_action action = Some (x, Some q)"
      by (auto simp: race_ok_def entries_ok_def own_entries_def get_modified_quantity_def tapped_def)
    then have "x = App_APPROVED" by (auto simp: parse_action_def split: if_splits option.splits)
    with x show "\<exists>action. (rid, action) \<in> set (rc_taps t) \<and> parse_action action = Some (App_APPROVED, Some q)" by blast
  qed
  show "ap_faults ap = no_faults \<and> (\<forall>e. rc_waiter t \<noteq> Request_Failed e) \<longrightarrow>
         (\<exists>u st. (race_step ap a rid)\<^sup>*\<^sup>* t u \<and> rc_waiter u = Returned st)"
    using race_finishes [OF _ ok] by blast
  show "ap_faults ap = no_faults \<and> rc_waiter t = Waits \<and> rc_handlers t = [] \<and> waiting rid (rc_world t)
        \<and> request_row rid (aa_order_id a) (rc_world t) \<longrightarrow>
         (\<exists>u. (race_step ap a rid)\<^sup>*\<^sup>* t u \<and> rc_waiter u = Returned App_TIMEOUT
            \<and> settled rid (aa_order_id a) App_APPROVED (rc_world u))"
    using late_approval [of ap t rid a] by blast
qed

text \<open>The witness: the sample request up to its waiting; from there the late approval.\<close>

theorem request_approval_race_witness:
  "\<exists>t u. (race_step (sample_approval []) sample_request 100)\<^sup>*\<^sup>* (race_start (sample_approval []) sample_request 100 1000 (new_world ())) t
     \<and> rc_waiter t = Waits
     \<and> (race_step (sample_approval []) sample_request 100)\<^sup>*\<^sup>* t u \<and> rc_waiter u = Returned App_TIMEOUT
     \<and> settled 100 1 App_APPROVED (rc_world u)"
proof -
  let ?ap = "sample_approval []" and ?start = "race_start (sample_approval []) sample_request 100 1000 (new_world ())"
  have nf: "ap_faults ?ap = no_faults" and i: "aa_order_id sample_request = 1" by (simp_all add: sample_approval_def sample_request_def)
  have own: "own_entries 100 (new_world ()) = (None, None, None)"
    by (simp add: own_entries_def new_world_def new_approval_manager_def)
  obtain w' where w': "run_all (prepare_steps ?ap sample_request 100 1000) (new_world ()) = (Inr (), w')"
    "waiting 100 w'" "request_row 100 1 w'"
    by (simp add: prepare_steps_def Let_def sample_approval_def sample_request_def mbind_def effect_def send_message_def add_approval_def
        cache_status_def set_approval_def update_manager_def register_request_def waiting_def request_row_def find_approval_def
        new_world_def new_approval_manager_def mret_def)
  let ?t = "?start\<lparr>rc_world := w', rc_waiter := Waits\<rparr>"
  have t: "(race_step ?ap sample_request 100)\<^sup>*\<^sup>* ?start ?t"
    by (rule preparing_runs [OF w'(1)]) (simp_all add: race_start_def)
  have "rc_handlers ?t = []" "rc_waiter ?t = Waits" "waiting 100 (rc_world ?t)" "request_row 100 (aa_order_id sample_request) (rc_world ?t)"
    using w'(2,3) by (simp_all add: race_start_def i)
  then obtain u where "(race_step ?ap sample_request 100)\<^sup>*\<^sup>* ?t u" "rc_waiter u = Returned App_TIMEOUT" "settled 100 1 App_APPROVED (rc_world u)"
    using request_approval_race [OF own t] nf i by metis
  with t show ?thesis by (intro exI [of _ ?t] exI [of _ u]) simp
qed

end
