(* ===== verification/Spec2Isabelle.thy ===== *)
theory Spec2Isabelle
  imports Sizing Strategy_Exits Risk_Manager Portfolio_State Simulator Mock_Broker Metrics Walk_Forward World_Invariant Llm_Router Monitor Kis_Execution Kis_Account Patterns Fundamental Sentiment Pipeline Account_Jobs Scheduler Strategy_Entries Approval_Race
begin

text \<open>
  A verification development of stock-trading-agent, a Python program that lets language models analyse
  Korean stocks, checks their decisions by rules, asks the user over Telegram, trades through the KIS
  brokerage, watches its positions, and backtests its strategies. All paths below are under \<open>src/\<close>.

  How the parts interact. The scheduler (\<open>scheduler/\<close>) builds a context for each account and runs its jobs. An
  analysis job runs the pipeline of agents (\<open>agent/orchestrator.py\<close>), each of which asks a model through the
  router (\<open>llm/router.py\<close>), and gives its BUY decisions to the executor (\<open>execution/executor.py\<close>), which checks
  each by a web search, asks for approval, applies the risk rules, places the order and books it. The
  stop-loss job compares open positions with their stops, sells through the same executor and runs the
  monitor's alerts. The strategies (\<open>strategy/\<close>) turn decisions into sized signals with exits; the backtest engine
  (\<open>backtest/\<close>) drives the same rules day by day over a simulated broker.

  What is shared. \<open>Prelude\<close>: exceptions, the error monad \<open>exc + 'a\<close>, state passing methods \<open>meth\<close> (state to result
  and state), external calls \<open>ext\<close> that a fault plan (the number of the call to a fault before or after it took
  effect) may make fail, insertion-ordered dictionaries, \<open>rfold\<close> for loops that may raise. \<open>Decimal28\<close>: Python's
  decimal of 28 digits as rationals with explicit rounding (locale \<open>rounding\<close>, interpreted as \<open>d28\<close>). \<open>Calendar\<close>:
  dates as ordinals. \<open>Models\<close>: the enums, models and settings of \<open>core/\<close> and \<open>config.py\<close>.

  Theories and the files they model, in the order of the layers:
  \<^item> prices, size and exits: \<open>Exit_Calculator\<close>, \<open>Exit_Checker\<close>, \<open>Sizing\<close> (the files of these names in \<open>strategy/\<close>),
    \<open>Strategy_Exits\<close> and \<open>Strategy_Entries\<close> (\<open>swing_trading.py\<close>, \<open>position_trading.py\<close>, \<open>api/routes/strategy.py\<close>)
  \<^item> risk and portfolio: \<open>Risk_Manager\<close>, \<open>Position_Manager\<close>, \<open>Portfolio_State\<close> (\<open>strategy/\<close>)
  \<^item> brokers: \<open>Broker\<close> (the interface, locale \<open>filling_broker\<close>), \<open>Simulator\<close> (\<open>backtest/simulator.py\<close>), \<open>Mock_Broker\<close>
    (\<open>broker/mock/client.py\<close>), \<open>Kis_Models\<close>, \<open>Kis_Client\<close>, \<open>Kis_Claims\<close>, \<open>Kis_Account\<close> (\<open>broker/kis/\<close>), \<open>Kis_Execution\<close>
    (the executor over the KIS client)
  \<^item> backtests: \<open>Data_Loader\<close>, \<open>Llm_Replay\<close>, \<open>Engine\<close> with \<open>Engine_Invariant\<close>, \<open>Engine_Sample\<close>, \<open>Engine_Properties\<close>,
    \<open>Walk_Forward\<close> (\<open>backtest/\<close>), \<open>Metrics\<close> (\<open>report/metrics.py\<close>)
  \<^item> execution: \<open>Execution_Store\<close> (the tables and the queries on them), \<open>Web_Verify\<close>, \<open>Approval\<close> with
    \<open>Approval_Properties\<close> and \<open>Approval_Race\<close>, \<open>Executor\<close> with \<open>Executor_Properties\<close>, \<open>Executor_Sample\<close> and
    \<open>Executor_Claims\<close>, \<open>Exit_Executor\<close> (\<open>execution/\<close>), \<open>World_Invariant\<close> (all of them), \<open>Telegram\<close> (\<open>notification/telegram.py\<close>)
  \<^item> jobs: \<open>Stop_Loss_Job\<close>, \<open>Account_Jobs\<close> (\<open>scheduler/jobs.py\<close>), \<open>Scheduler\<close> (\<open>scheduler/engine.py\<close>, \<open>factory.py\<close>,
    \<open>broker/registry.py\<close>), \<open>Monitor\<close> (\<open>scheduler/monitor.py\<close>), \<open>Redis_Cache\<close> (\<open>data/cache.py\<close>)
  \<^item> language models: \<open>Cost_Tracker\<close>, \<open>Llm_Config\<close>, \<open>Llm_Provider\<close>, \<open>Llm_Router\<close> (\<open>llm/\<close>), \<open>Pipeline\<close> (\<open>agent/orchestrator.py\<close>,
    \<open>agent/agents/\<close>, \<open>agent/decision_recorder.py\<close>)
  \<^item> analysis: \<open>Patterns\<close>, \<open>Fundamental\<close>, \<open>Sentiment\<close> (\<open>analysis/\<close>)

  State. A class with fields is a record; a method is a \<open>meth\<close> over it. The execution side shares one \<open>world\<close>: the
  tables of orders, executions, approval requests, positions, snapshots and the decision log, the messages
  sent, the broker's own state, the approval manager and the number of external calls made, from which
  faults and clocks are read. The constants keep the source's names where Isabelle has them free.

  What the lemmas show.
  \<^item> Consent and books: no BUY reaches the broker without approval (\<open>entry_needs_consent\<close>); what a successful entry or exit
    leaves in the books; what a fault after the fill leaves; the tables stay consistent through every operation.
  \<^item> Waiting: \<open>Approval\<close> handles each callback to its end, and the executor is composed with it; \<open>Approval_Race\<close> cuts the same
    handlers (\<open>handle_timeout_steps\<close>, \<open>handle_manual_steps\<close>) at their awaits and states what holds of every interleaving.
  \<^item> Limits: the risk rules, the sizer's caps and the entry conditions, each on every branch and with the decimal rounding.
  \<^item> Brokers: cash and holdings of the two local brokers (once, in \<open>filling_broker\<close>); the KIS client posts an order
    once, pages its bars completely, and reports fills in a way the executor never books.
  \<^item> Backtests: the engine's and the broker's books agree after any run; a day does not look ahead; when a run fails.
  \<^item> Models: the usage table refines the log of calls; a routed request asks at most two models and counts each answer.
  \<^item> Pipeline: semaphore, progress and termination under any schedule and with answers that change from step to
    step (\<open>any_schedule_finishes\<close>); results and audit chains when the answers depend on symbol and inputs only.
  \<^item> Jobs: what is registered, how a job is wrapped, that the stop-loss job sells, and which jobs can never trade.

  Interfaces. \<open>filling_broker\<close> (interpreted by the simulated and the in-memory broker), \<open>position_store\<close> (by the position
  manager), \<open>cache_store\<close> (by the Redis model), \<open>order_gates\<close> (by the executor with its real checks), \<open>rounding\<close> (by
  the 28-digit context).

  Bounds. Retry loops and pages are bounded in the source and recurse on that bound (KIS pages 20 and 10, LLM_MAX_RETRIES,
  audit chains 20). Loops over lists are structural. \<open>generate_windows\<close> may run for ever and is a
  \<open>partial_function (option)\<close>; it is proved not to return for a window of 0 months. No fuel is used.

  Assumptions and what is not modelled.
  \<^item> Floats (indicators, patterns, scores' powers, the volatility scan) are exact rationals, NaN is None; the \<open>ta\<close>
    formulas, tanh, roots, powers and pandas' deviation are parameters.
  \<^item> Amounts are stored as they are written; the columns' \<open>Numeric(15,2)\<close> rounding and overflow after a commit is not applied
    to orders, executions and positions, nor to the costs and confidences in the decision log. The usage table has its widths.
  \<^item> The agents' answers (tools, prompt, routed call) are a parameter of the pipeline. In the results and the audit
    trail it is a function of symbol and inputs; the routed call itself, with its budget and escalation, is in \<open>Llm_Router\<close>.
  \<^item> In \<open>Monitor\<close> the runs of one account follow one another, the other accounts' monitors interleave at every cache command,
    and the clock stands still within a run. A job started by hand beside its scheduled run is not covered.
  \<^item> In \<open>Scheduler\<close> a registered job is named by its kind and account; the services bound into its partial are not modelled.
  \<^item> \<open>Redis_Cache\<close> takes SCAN as documented for patterns whose namespace has no glob character.
  \<^item> The brokerage, Telegram, the SDKs of the models, PostgreSQL, Redis and APScheduler are parameters or are modelled by
    what the code uses of them. Not modelled: the texts of messages, prompts and logs, the data providers, the reading
    endpoints and pages, reports' layout, the agents' tools and memory, start-up and credentials' encryption.
\<close>

end
